(* ===== verification/Js_Prelude.thy ===== *)
theory Js_Prelude
  imports Complex_Main "HOL-Library.AList" "HOL-Library.Sublist"
begin

text \<open>
  What every component of the library shares.

  \<^item> \<open>io\<close>: an asynchronous JavaScript function. It takes the world it runs in and returns the
    world it leaves behind together with either the thrown error (\<open>Inl\<close>) or the value
    (\<open>Inr\<close>). Effects made before a throw stay, as they do in JavaScript.
  \<^item> \<open>triple\<close>: pre- and postconditions of such functions, seen through an abstraction of the
    world, with one rule per control structure (collection \<open>io_rules\<close>).
  \<^item> the pieces of the JavaScript standard library that the modelled code uses: truthiness of
    optional strings, \<open>toLowerCase\<close>, \<open>String(n)\<close>, \<open>parseInt\<close>, \<open>includes\<close>, \<open>split\<close>.
\<close>

named_theorems io_defs "definitions of the control structures of io"
named_theorems io_rules "Hoare rules of the control structures of io"

section \<open>Asynchronous functions\<close>

datatype js_error = TypeError string | ReferenceError string | JsError string

type_synonym ('w, 'a) io = "'w \<Rightarrow> (js_error + 'a) \<times> 'w"

definition ret :: "'a \<Rightarrow> ('w, 'a) io" where
  "ret x = (\<lambda>w. (Inr x, w))"

definition throw :: "js_error \<Rightarrow> ('w, 'a) io" where
  "throw e = (\<lambda>w. (Inl e, w))"

definition bindio :: "('w, 'a) io \<Rightarrow> ('a \<Rightarrow> ('w, 'b) io) \<Rightarrow> ('w, 'b) io" where
  "bindio m f = (\<lambda>w. case m w of (Inl e, w') \<Rightarrow> (Inl e, w') | (Inr x, w') \<Rightarrow> f x w')"

definition seqio :: "('w, 'a) io \<Rightarrow> ('w, 'b) io \<Rightarrow> ('w, 'b) io" where
  "seqio m n = bindio m (\<lambda>_. n)"

text \<open>\<open>try { m } catch (e) { h(e) }\<close>\<close>

definition catchio :: "('w, 'a) io \<Rightarrow> (js_error \<Rightarrow> ('w, 'a) io) \<Rightarrow> ('w, 'a) io" where
  "catchio m h = (\<lambda>w. case m w of (Inl e, w') \<Rightarrow> h e w' | (Inr x, w') \<Rightarrow> (Inr x, w'))"

text \<open>\<open>try { m } finally { f }\<close>: an error of the finaliser replaces the outcome of \<open>m\<close>.\<close>

definition finallyio :: "('w, 'a) io \<Rightarrow> ('w, unit) io \<Rightarrow> ('w, 'a) io" where
  "finallyio m f = (\<lambda>w. case m w of (r, w') \<Rightarrow>
     (case f w' of (Inl e, w'') \<Rightarrow> (Inl e, w'') | (Inr _, w'') \<Rightarrow> (r, w'')))"

text \<open>\<open>for (const x of xs) { f(x) }\<close>, and the variant whose body may \<open>return\<close> from the
  enclosing function.\<close>

primrec foreach :: "'a list \<Rightarrow> ('a \<Rightarrow> ('w, unit) io) \<Rightarrow> ('w, unit) io" where
  "foreach [] f = ret ()"
| "foreach (x # xs) f = seqio (f x) (foreach xs f)"

datatype flow = Next | Return

primrec foreach_ret :: "'a list \<Rightarrow> ('a \<Rightarrow> ('w, flow) io) \<Rightarrow> ('w, flow) io" where
  "foreach_ret [] f = ret Next"
| "foreach_ret (x # xs) f =
     bindio (f x) (\<lambda>r. case r of Next \<Rightarrow> foreach_ret xs f | Return \<Rightarrow> ret Return)"

lemmas [io_defs] = ret_def throw_def bindio_def seqio_def catchio_def finallyio_def

lemma bindio_ret [simp]: "bindio (ret x) f = f x"
  by (simp add: bindio_def ret_def)

lemma bindio_throw [simp]: "bindio (throw e) f = throw e"
  by (simp add: bindio_def throw_def)

lemma seqio_ret [simp]: "seqio (ret x) m = m"
  by (simp add: seqio_def)

lemma seqio_throw [simp]: "seqio (throw e) m = throw e"
  by (simp add: seqio_def)

lemma bindio_assoc: "bindio (bindio m f) g = bindio m (\<lambda>x. bindio (f x) g)"
  by (auto simp: bindio_def fun_eq_iff split: prod.splits sum.splits)

lemma catchio_ret [simp]: "catchio (ret x) h = ret x"
  by (simp add: catchio_def ret_def)

lemma catchio_throw [simp]: "catchio (throw e) h = h e"
  by (simp add: catchio_def throw_def)

lemma foreach_append: "foreach (xs @ ys) f = seqio (foreach xs f) (foreach ys f)"
  by (induction xs) (simp_all add: seqio_def bindio_assoc)

section \<open>Pre- and postconditions\<close>

text \<open>
  \<open>triple v P m Q R\<close>: from every world whose abstraction \<open>v w\<close> satisfies \<open>P\<close>, \<open>m\<close> either
  returns a value and an abstract state related by \<open>Q\<close>, or throws in an abstract state that
  satisfies \<open>R\<close>.
\<close>

definition outcome ::
  "('w \<Rightarrow> 's) \<Rightarrow> ('a \<Rightarrow> 's \<Rightarrow> bool) \<Rightarrow> ('s \<Rightarrow> bool) \<Rightarrow> (js_error + 'a) \<times> 'w \<Rightarrow> bool" where
  "outcome v Q R p \<longleftrightarrow> (case fst p of Inr x \<Rightarrow> Q x (v (snd p)) | Inl e \<Rightarrow> R (v (snd p)))"

definition triple ::
  "('w \<Rightarrow> 's) \<Rightarrow> ('s \<Rightarrow> bool) \<Rightarrow> ('w, 'a) io \<Rightarrow> ('a \<Rightarrow> 's \<Rightarrow> bool) \<Rightarrow> ('s \<Rightarrow> bool) \<Rightarrow> bool" where
  "triple v P m Q R \<longleftrightarrow> (\<forall>w. P (v w) \<longrightarrow> outcome v Q R (m w))"

lemma outcome_Inr [simp]: "outcome v Q R (Inr x, w) = Q x (v w)"
  and outcome_Inl [simp]: "outcome v Q R (Inl e, w) = R (v w)"
  by (simp_all add: outcome_def)

lemma tripleI: "(\<And>w. P (v w) \<Longrightarrow> outcome v Q R (m w)) \<Longrightarrow> triple v P m Q R"
  by (simp add: triple_def)

lemma tripleD: "triple v P m Q R \<Longrightarrow> P (v w) \<Longrightarrow> outcome v Q R (m w)"
  by (simp add: triple_def)

lemma tripleD_ok:
  assumes "triple v P m Q R" and "P (v w)" and "m w = (Inr x, w')"
  shows "Q x (v w')"
  using tripleD [OF assms(1,2)] assms(3) by simp

lemma tripleD_err:
  assumes "triple v P m Q R" and "P (v w)" and "m w = (Inl e, w')"
  shows "R (v w')"
  using tripleD [OF assms(1,2)] assms(3) by simp

lemma outcome_mono:
  assumes "outcome v Q' R' p" and "\<And>x s. Q' x s \<Longrightarrow> Q x s" and "\<And>s. R' s \<Longrightarrow> R s"
  shows "outcome v Q R p"
  using assms by (auto simp: outcome_def split: sum.splits)

lemma triple_conseq:
  assumes "triple v P' m Q' R'" and "\<And>s. P s \<Longrightarrow> P' s"
    and "\<And>x s. Q' x s \<Longrightarrow> Q x s" and "\<And>s. R' s \<Longrightarrow> R s"
  shows "triple v P m Q R"
  by (rule tripleI, rule outcome_mono [OF tripleD [OF assms(1)]]) (use assms in auto)

lemma triple_pre: "triple v P' m Q R \<Longrightarrow> (\<And>s. P s \<Longrightarrow> P' s) \<Longrightarrow> triple v P m Q R"
  by (simp add: triple_def)

lemma triple_ret [io_rules]: "(\<And>s. P s \<Longrightarrow> Q x s) \<Longrightarrow> triple v P (ret x) Q R"
  by (simp add: triple_def ret_def)

lemma triple_throw [io_rules]: "(\<And>s. P s \<Longrightarrow> R s) \<Longrightarrow> triple v P (throw e) Q R"
  by (simp add: triple_def throw_def)

lemma triple_bind:
  assumes "triple v P m A R" and "\<And>x. triple v (A x) (f x) Q R"
  shows "triple v P (bindio m f) Q R"
proof (rule tripleI)
  fix w assume "P (v w)"
  with assms(1) have "outcome v A R (m w)" by (rule tripleD)
  then show "outcome v Q R (bindio m f w)"
    using tripleD [OF assms(2)] by (cases "m w"; cases "fst (m w)") (auto simp: bindio_def)
qed

lemma triple_seq:
  "triple v P m (\<lambda>_. A) R \<Longrightarrow> triple v A n Q R \<Longrightarrow> triple v P (seqio m n) Q R"
  unfolding seqio_def by (rule triple_bind)

lemma triple_catch:
  assumes "triple v P m Q A" and "\<And>e. triple v A (h e) Q R"
  shows "triple v P (catchio m h) Q R"
proof (rule tripleI)
  fix w assume "P (v w)"
  with assms(1) have "outcome v Q A (m w)" by (rule tripleD)
  then show "outcome v Q R (catchio m h w)"
    using tripleD [OF assms(2)] by (cases "m w"; cases "fst (m w)") (auto simp: catchio_def)
qed

lemma triple_finally:
  assumes "triple v P m A B"
    and "\<And>x. triple v (A x) f (\<lambda>_. Q x) R" and "triple v B f (\<lambda>_. R) R"
  shows "triple v P (finallyio m f) Q R"
proof (rule tripleI)
  fix w assume "P (v w)"
  with assms(1) have m: "outcome v A B (m w)" by (rule tripleD)
  obtain r w1 where mw: "m w = (r, w1)" by fastforce
  obtain q w2 where fw: "f w1 = (q, w2)" by fastforce
  show "outcome v Q R (finallyio m f w)"
  proof (cases r)
    case (Inl e)
    with m mw fw tripleD [OF assms(3), of w1] show ?thesis
      by (cases q) (simp_all add: finallyio_def)
  next
    case (Inr x)
    with m mw fw tripleD [OF assms(2), of x w1] show ?thesis
      by (cases q) (simp_all add: finallyio_def)
  qed
qed

lemma triple_foreach:
  "(\<And>x. x \<in> set xs \<Longrightarrow> triple v I (f x) (\<lambda>_. I) I) \<Longrightarrow> triple v I (foreach xs f) (\<lambda>_. I) I"
  by (induction xs) (auto intro: triple_ret triple_seq)

lemma triple_foreach_ret:
  "(\<And>x. x \<in> set xs \<Longrightarrow> triple v I (f x) (\<lambda>_. I) I) \<Longrightarrow> triple v I (foreach_ret xs f) (\<lambda>_. I) I"
proof (induction xs)
  case Nil
  show ?case by (simp add: triple_ret)
next
  case (Cons x xs)
  have IH: "triple v I (foreach_ret xs f) (\<lambda>_. I) I" using Cons by simp
  show ?case
    unfolding foreach_ret.simps
  proof (rule triple_bind)
    show "triple v I (f x) (\<lambda>_. I) I" using Cons.prems by simp
    show "triple v I (case r of Next \<Rightarrow> foreach_ret xs f | Return \<Rightarrow> ret Return) (\<lambda>_. I) I" for r
      using IH by (cases r) (simp_all add: triple_ret)
  qed
qed

lemma triple_if:
  "(b \<Longrightarrow> triple v P m Q R) \<Longrightarrow> (\<not> b \<Longrightarrow> triple v P n Q R) \<Longrightarrow> triple v P (if b then m else n) Q R"
  by simp

section \<open>JavaScript values\<close>

text \<open>A string, \<open>null\<close> or \<open>undefined\<close>: only a non-empty string is truthy.\<close>

fun truthy :: "string option \<Rightarrow> bool" where
  "truthy None = False"
| "truthy (Some s) = (s \<noteq> [])"

text \<open>\<open>a || b\<close> on an optional string and a default.\<close>

fun or_default :: "string option \<Rightarrow> string \<Rightarrow> string" where
  "or_default None d = d"
| "or_default (Some s) d = (if s = [] then d else s)"

lemma or_default_truthy: "or_default so d = (if truthy so then the so else d)"
  by (cases so) auto

text \<open>\<open>toLowerCase\<close> on ASCII text (addresses and symbols).\<close>

definition lower_char :: "char \<Rightarrow> char" where
  "lower_char c = (let n = (of_char c :: nat) in if 65 \<le> n \<and> n \<le> 90 then char_of (n + 32) else c)"

definition toLowerCase :: "string \<Rightarrow> string" where
  "toLowerCase s = map lower_char s"

lemma lower_char_idem [simp]: "lower_char (lower_char c) = lower_char c"
  by (auto simp: lower_char_def Let_def)

lemma toLowerCase_idem [simp]: "toLowerCase (toLowerCase s) = toLowerCase s"
  by (simp add: toLowerCase_def)

lemma length_toLowerCase [simp]: "length (toLowerCase s) = length s"
  by (simp add: toLowerCase_def)

text \<open>\<open>String(n)\<close> and \<open>parseInt\<close> for decimal integers.\<close>

definition digit_char :: "nat \<Rightarrow> char" where
  "digit_char d = char_of (48 + d)"

definition is_digit :: "char \<Rightarrow> bool" where
  "is_digit c = (let n = (of_char c :: nat) in 48 \<le> n \<and> n \<le> 57)"

definition digit_val :: "char \<Rightarrow> nat" where
  "digit_val c = of_char c - 48"

fun show_nat :: "nat \<Rightarrow> string" where
  "show_nat n = (if n < 10 then [digit_char n] else show_nat (n div 10) @ [digit_char (n mod 10)])"

declare show_nat.simps [simp del]

definition show_int :: "int \<Rightarrow> string" where
  "show_int i = (if i < 0 then CHR ''-'' # show_nat (nat (- i)) else show_nat (nat i))"

definition read_digits :: "string \<Rightarrow> nat" where
  "read_digits ds = foldl (\<lambda>n c. 10 * n + digit_val c) 0 ds"

text \<open>\<open>parseInt(s)\<close>: \<open>None\<close> is \<open>NaN\<close>. A leading sign is read, then the longest run of digits;
  what follows is ignored. (Leading blanks and the \<open>0x\<close> prefix never occur in the strings the
  programs hand to it.)\<close>

definition parse_nat :: "string \<Rightarrow> nat option" where
  "parse_nat s = (case takeWhile is_digit s of [] \<Rightarrow> None | ds \<Rightarrow> Some (read_digits ds))"

definition parseInt :: "string \<Rightarrow> int option" where
  "parseInt s = (case s of
     [] \<Rightarrow> None
   | c # cs \<Rightarrow>
      (if c = CHR ''-'' then map_option (\<lambda>n. - int n) (parse_nat cs)
       else if c = CHR ''+'' then map_option int (parse_nat cs)
       else map_option int (parse_nat s)))"

lemma of_char_digit: "d < 10 \<Longrightarrow> (of_char (digit_char d) :: nat) = 48 + d"
  by (simp add: digit_char_def)

lemma is_digit_digit_char: "d < 10 \<Longrightarrow> is_digit (digit_char d)"
  by (simp add: is_digit_def of_char_digit)

lemma digit_val_digit_char: "d < 10 \<Longrightarrow> digit_val (digit_char d) = d"
  by (simp add: digit_val_def of_char_digit)

lemma show_nat_digits: "\<forall>c \<in> set (show_nat n). is_digit c"
proof (induction n rule: show_nat.induct)
  case (1 n)
  then show ?case
    by (subst show_nat.simps) (auto simp: is_digit_digit_char)
qed

lemma show_nat_nonempty: "show_nat n \<noteq> []"
  by (subst show_nat.simps) simp

lemma read_show_nat: "read_digits (show_nat n) = n"
proof (induction n rule: show_nat.induct)
  case (1 n)
  show ?case
  proof (cases "n < 10")
    case True
    then show ?thesis
      by (subst show_nat.simps) (simp add: read_digits_def digit_val_digit_char)
  next
    case False
    then have "read_digits (show_nat (n div 10)) = n div 10" using "1.IH" by simp
    then have "foldl (\<lambda>n c. 10 * n + digit_val c) 0 (show_nat (n div 10)) = n div 10"
      by (simp add: read_digits_def)
    then show ?thesis using False
      by (subst show_nat.simps) (simp add: read_digits_def digit_val_digit_char)
  qed
qed

lemma parse_show_nat: "parse_nat (show_nat n) = Some n"
proof -
  have "takeWhile is_digit (show_nat n) = show_nat n"
    using show_nat_digits [of n] by (simp add: takeWhile_eq_all_conv)
  moreover obtain c cs where "show_nat n = c # cs"
    using show_nat_nonempty [of n] by (cases "show_nat n") auto
  ultimately show ?thesis
    using read_show_nat [of n] by (simp add: parse_nat_def)
qed

lemma show_nat_no_sign: "c # cs = show_nat n \<Longrightarrow> c \<noteq> CHR ''-'' \<and> c \<noteq> CHR ''+''"
  using show_nat_digits [of n] by (auto simp: is_digit_def dest!: sym [where t = "show_nat n"])

lemma parse_show_int [simp]: "parseInt (show_int i) = Some i"
proof (cases "i < 0")
  case True
  then show ?thesis by (simp add: show_int_def parseInt_def parse_show_nat)
next
  case False
  obtain c cs where cs: "show_nat (nat i) = c # cs"
    using show_nat_nonempty by (cases "show_nat (nat i)") auto
  from show_nat_no_sign [OF cs [symmetric]] False cs parse_show_nat [of "nat i"]
  show ?thesis by (simp add: show_int_def parseInt_def)
qed

lemma show_int_inj: "show_int i = show_int j \<Longrightarrow> i = j"
  by (metis option.inject parse_show_int)

lemma show_int_nonempty [simp]: "show_int i \<noteq> []"
  by (simp add: show_int_def show_nat_nonempty)

text \<open>\<open>s.includes(c)\<close>, \<open>s.split(c)[0]\<close> and \<open>s.split(c)[1]\<close> for a one-character separator.\<close>

definition before_char :: "char \<Rightarrow> string \<Rightarrow> string" where
  "before_char c s = takeWhile (\<lambda>x. x \<noteq> c) s"

definition after_char :: "char \<Rightarrow> string \<Rightarrow> string" where
  "after_char c s = takeWhile (\<lambda>x. x \<noteq> c) (drop 1 (dropWhile (\<lambda>x. x \<noteq> c) s))"

lemma before_char_append: "c \<notin> set a \<Longrightarrow> before_char c (a @ c # b) = a"
  unfolding before_char_def by (induction a) auto

lemma after_char_append: "c \<notin> set a \<Longrightarrow> c \<notin> set b \<Longrightarrow> after_char c (a @ c # b) = b"
  unfolding after_char_def by (induction a) (auto simp: takeWhile_eq_all_conv)

end
