(* ===== verification/Effects.thy ===== *)
theory Effects
  imports Js_Prelude
begin

text \<open>
  How a call to the outside may act on the abstract state that a client sees of it, and the rules that
  run a program of such calls step by step: \<open>runs_...\<close> from a known abstract state, \<open>keeps_...\<close> for
  an invariant. Every interface of the development states its laws in these shapes.
\<close>

section \<open>Shapes of laws\<close>

text \<open>The three shapes of a law: a call that leaves the tables alone, one that reads a value from
  them, one that writes to them. A call that throws changes nothing.\<close>

definition silent :: "('w \<Rightarrow> 's) \<Rightarrow> ('w, 'a) io \<Rightarrow> bool" where
  "silent v m \<longleftrightarrow> (\<forall>w. v (snd (m w)) = v w)"

definition reading :: "('w \<Rightarrow> 's) \<Rightarrow> ('w, 'a) io \<Rightarrow> ('s \<Rightarrow> 'a) \<Rightarrow> bool" where
  "reading v m f \<longleftrightarrow> (\<forall>w. v (snd (m w)) = v w \<and> (\<forall>x. fst (m w) = Inr x \<longrightarrow> x = f (v w)))"

definition writing :: "('w \<Rightarrow> 's) \<Rightarrow> ('w, 'a) io \<Rightarrow> ('s \<Rightarrow> 's) \<Rightarrow> bool" where
  "writing v m f \<longleftrightarrow> (\<forall>w. (\<exists>x. fst (m w) = Inr x) \<and> v (snd (m w)) = f (v w) \<or>
     (\<exists>e. fst (m w) = Inl e) \<and> v (snd (m w)) = v w)"

definition total_io :: "('w, 'a) io \<Rightarrow> bool" where
  "total_io m \<longleftrightarrow> (\<forall>w. \<exists>x. fst (m w) = Inr x)"

definition returning :: "('w, 'a) io \<Rightarrow> 'a \<Rightarrow> bool" where
  "returning m x \<longleftrightarrow> (\<forall>w. fst (m w) = Inr x)"

text \<open>\<open>runs v d m Q R\<close>: the run of \<open>m\<close> from a known abstract state \<open>d\<close>. The rules below execute a
  program call by call; a call may throw only where \<open>R\<close> holds of the state it is made in.\<close>

abbreviation runs ::
  "('w \<Rightarrow> 's) \<Rightarrow> 's \<Rightarrow> ('w, 'a) io \<Rightarrow> ('a \<Rightarrow> 's \<Rightarrow> bool) \<Rightarrow> ('s \<Rightarrow> bool) \<Rightarrow> bool" where
  "runs v d m Q R \<equiv> triple v (\<lambda>s. s = d) m Q R"

lemma runs_silent:
  assumes "silent v m" and "total_io m \<or> R d" and "\<And>x. runs v d (g x) Q R"
  shows "runs v d (bindio m g) Q R"
proof (rule tripleI)
  fix w assume w: "v w = d"
  obtain r w1 where m: "m w = (r, w1)" by fastforce
  have "v w1 = d" using assms(1) w m unfolding silent_def by (metis snd_conv)
  with w m assms(2) tripleD [OF assms(3)] show "outcome v Q R (bindio m g w)"
    unfolding bindio_def total_io_def by (cases r) (auto, metis fst_conv sum.distinct(1))
qed

lemma runs_silent_value:
  assumes "silent v m" and "R d" and "\<And>x w. fst (m w) = Inr x \<Longrightarrow> runs v d (g x) Q R"
  shows "runs v d (bindio m g) Q R"
proof (rule tripleI)
  fix w assume w: "v w = d"
  obtain r w1 where m: "m w = (r, w1)" by fastforce
  have "v w1 = d" using assms(1) w m unfolding silent_def by (metis snd_conv)
  with m assms(2) tripleD [OF assms(3), of w _ w1] show "outcome v Q R (bindio m g w)"
    unfolding bindio_def by (cases r) simp_all
qed

lemma runs_silent_known:
  assumes "silent v m" and "total_io m \<or> R d" and "\<And>x w. v w = d \<Longrightarrow> fst (m w) = Inr x \<Longrightarrow> runs v d (g x) Q R"
  shows "runs v d (bindio m g) Q R"
proof (rule tripleI)
  fix w assume w: "v w = d"
  obtain r w1 where m: "m w = (r, w1)" by fastforce
  have d: "v w1 = d" using assms(1) w m unfolding silent_def by (metis snd_conv)
  show "outcome v Q R (bindio m g w)"
  proof (cases r)
    case (Inl e)
    with m assms(2) have "R d" unfolding total_io_def by (metis fst_conv sum.distinct(1))
    with Inl m d show ?thesis by (simp add: bindio_def)
  next
    case (Inr x)
    with m w have "runs v d (g x) Q R" by (intro assms(3) [of w]) simp_all
    with Inr m d tripleD [of v "\<lambda>s. s = d" "g x" Q R w1] show ?thesis by (simp add: bindio_def)
  qed
qed

lemma runs_returning:
  assumes "silent v m" and "returning m x" and "runs v d (g x) Q R"
  shows "runs v d (bindio m g) Q R"
proof (rule tripleI)
  fix w assume w: "v w = d"
  obtain r w1 where m: "m w = (r, w1)" by fastforce
  have "v w1 = d" using assms(1) w m unfolding silent_def by (metis snd_conv)
  moreover have "r = Inr x" using assms(2) m unfolding returning_def by (metis fst_conv)
  ultimately show "outcome v Q R (bindio m g w)"
    using m tripleD [OF assms(3), of w1] by (simp add: bindio_def)
qed

lemma runs_reading:
  assumes "reading v m f" and "total_io m \<or> R d" and "runs v d (g (f d)) Q R"
  shows "runs v d (bindio m g) Q R"
proof (rule tripleI)
  fix w assume w: "v w = d"
  obtain r w1 where m: "m w = (r, w1)" by fastforce
  have s: "v w1 = d" and r: "\<And>x. r = Inr x \<Longrightarrow> x = f d"
    using assms(1) w m unfolding reading_def by (metis snd_conv, metis fst_conv)
  show "outcome v Q R (bindio m g w)"
  proof (cases r)
    case (Inl e)
    with m assms(2) have "R d" unfolding total_io_def by (metis fst_conv sum.distinct(1))
    with Inl m s show ?thesis by (simp add: bindio_def)
  next
    case (Inr x)
    with r m s tripleD [OF assms(3), of w1] show ?thesis by (simp add: bindio_def)
  qed
qed

lemma runs_write:
  assumes "writing v m f" and "total_io m \<or> R d" and "\<And>x. Q x (f d)"
  shows "runs v d m Q R"
proof (rule tripleI)
  fix w assume w: "v w = d"
  obtain r w1 where m: "m w = (r, w1)" by fastforce
  show "outcome v Q R (m w)"
  proof (cases r)
    case (Inl e)
    with m assms(2) have "R d" unfolding total_io_def by (metis fst_conv sum.distinct(1))
    moreover have "v w1 = d" using assms(1) w m Inl unfolding writing_def by (auto dest!: spec [of _ w])
    ultimately show ?thesis using Inl m by simp
  next
    case (Inr x)
    then have "v w1 = f d" using assms(1) w m unfolding writing_def by (auto dest!: spec [of _ w])
    then show ?thesis using Inr m assms(3) by simp
  qed
qed

text \<open>A call whose effect may have happened although it throws: a transaction whose answer is lost.\<close>

definition attempting :: "('w \<Rightarrow> 's) \<Rightarrow> ('w, 'a) io \<Rightarrow> ('s \<Rightarrow> 's) \<Rightarrow> bool" where
  "attempting v m f \<longleftrightarrow> (\<forall>w. (\<exists>x. fst (m w) = Inr x) \<and> v (snd (m w)) = f (v w) \<or>
     (\<exists>e. fst (m w) = Inl e) \<and> (v (snd (m w)) = v w \<or> v (snd (m w)) = f (v w)))"

lemma writing_attempting: "writing v m f \<Longrightarrow> attempting v m f"
  unfolding writing_def attempting_def by meson

lemma runs_attempt:
  assumes "attempting v m f" and "total_io m \<or> R d \<and> R (f d)" and "\<And>x. Q x (f d)"
  shows "runs v d m Q R"
proof (rule tripleI)
  fix w assume w: "v w = d"
  obtain r w1 where m: "m w = (r, w1)" by fastforce
  show "outcome v Q R (m w)"
  proof (cases r)
    case (Inl e)
    then have "v w1 = d \<or> v w1 = f d" using assms(1) w m unfolding attempting_def by (auto dest!: spec [of _ w])
    moreover have "R d \<and> R (f d)" using assms(2) m Inl unfolding total_io_def by (metis fst_conv sum.distinct(1))
    ultimately show ?thesis using Inl m by auto
  next
    case (Inr x)
    then have "v w1 = f d" using assms(1) w m unfolding attempting_def by (auto dest!: spec [of _ w])
    then show ?thesis using Inr m assms(3) by simp
  qed
qed

lemma runs_bind:
  assumes "runs v d m (\<lambda>r s. r = x \<and> s = d') R" and "runs v d' (g x) Q R"
  shows "runs v d (bindio m g) Q R"
  by (rule triple_bind [OF assms(1)]) (use assms(2) in \<open>auto simp: triple_def\<close>)

lemma runs_seq:
  assumes "runs v d m (\<lambda>_ s. s = d') R" and "runs v d' n Q R"
  shows "runs v d (seqio m n) Q R"
  by (rule triple_seq [OF assms])

lemma runs_writing:
  "writing v m f \<Longrightarrow> total_io m \<or> R d \<Longrightarrow> runs v (f d) n Q R \<Longrightarrow> runs v d (seqio m n) Q R"
  by (rule runs_seq [OF runs_write]) auto

lemma runs_ret: "Q x d \<Longrightarrow> runs v d (ret x) Q R"
  by (simp add: triple_def ret_def)

lemma runs_throw: "R d \<Longrightarrow> runs v d (throw e) Q R"
  by (simp add: triple_def throw_def)

lemma runs_option:
  "(x = None \<Longrightarrow> runs v d m Q R) \<Longrightarrow> (\<And>y. x = Some y \<Longrightarrow> runs v d (f y) Q R) \<Longrightarrow>
   runs v d (case x of None \<Rightarrow> m | Some y \<Rightarrow> f y) Q R"
  by (cases x) auto

lemma runs_if:
  "(b \<Longrightarrow> runs v d m Q R) \<Longrightarrow> (\<not> b \<Longrightarrow> runs v d n Q R) \<Longrightarrow> runs v d (if b then m else n) Q R"
  by simp

lemma runs_catch:
  "runs v d m Q A \<Longrightarrow> (\<And>e s. A s \<Longrightarrow> runs v s (h e) Q R) \<Longrightarrow> runs v d (catchio m h) Q R"
  by (rule triple_catch) (auto simp: triple_def)

lemma runs_rethrow: "runs v d m Q R \<Longrightarrow> runs v d (catchio m throw) Q R"
  by (rule runs_catch [where A = R], assumption, rule runs_throw)

lemma runs_swallow: "runs v d m (\<lambda>_. R) R \<Longrightarrow> runs v d (catchio m (\<lambda>_. ret ())) (\<lambda>_. R) R'"
  by (rule runs_catch, assumption, rule runs_ret)

lemma runs_conseq:
  assumes "runs v d m Q' R'" and "\<And>x s. Q' x s \<Longrightarrow> Q x s" and "\<And>s. R' s \<Longrightarrow> R s"
  shows "runs v d m Q R"
  by (rule triple_conseq [OF assms(1)]) (use assms in auto)

lemma runsD:
  assumes "runs v d m Q (\<lambda>_. False)" and "v w = d" and "m w = (r, w')"
  obtains x where "r = Inr x" and "Q x (v w')"
  using tripleD [OF assms(1), of w] assms(2,3) by (cases r) auto

lemma runs_all: "(\<And>s. P s \<Longrightarrow> runs v s m Q R) \<Longrightarrow> triple v P m Q R"
  by (auto simp: triple_def)

lemma runs_bind_all:
  "runs v d m A R \<Longrightarrow> (\<And>x s. A x s \<Longrightarrow> runs v s (g x) Q R) \<Longrightarrow> runs v d (bindio m g) Q R"
  by (rule triple_bind) (auto intro: runs_all)

lemma foreach_runs:
  assumes "\<And>x d. x \<in> set xs \<Longrightarrow> I d \<Longrightarrow> runs v d (f x) (\<lambda>_ s. a s = g x (a d) \<and> I s) R" and "I d"
  shows "runs v d (foreach xs f) (\<lambda>_ s. a s = fold g xs (a d) \<and> I s) R"
  using assms
proof (induction xs arbitrary: d)
  case Nil
  then show ?case by (simp add: runs_ret)
next
  case (Cons x xs)
  have 1: "runs v d (f x) (\<lambda>_ s. a s = g x (a d) \<and> I s) R" using Cons.prems by simp
  have 2: "triple v (\<lambda>s. a s = g x (a d) \<and> I s) (foreach xs f)
      (\<lambda>_ s. a s = fold g xs (g x (a d)) \<and> I s) R"
  proof (rule tripleI)
    fix w assume w: "a (v w) = g x (a d) \<and> I (v w)"
    have "runs v (v w) (foreach xs f) (\<lambda>_ s. a s = fold g xs (a (v w)) \<and> I s) R"
      by (rule Cons.IH) (use Cons.prems w in auto)
    from tripleD [OF this, of w] w
    show "outcome v (\<lambda>_ s. a s = fold g xs (g x (a d)) \<and> I s) R (foreach xs f w)" by simp
  qed
  show ?case using triple_seq [OF 1 2] by simp
qed

text \<open>A call that may throw before or after what it sends was sent.\<close>

definition sending :: "('w \<Rightarrow> 'p list) \<Rightarrow> ('w, 'a) io \<Rightarrow> 'p \<Rightarrow> bool" where
  "sending v m p \<longleftrightarrow> (\<forall>w. if \<exists>x. fst (m w) = Inr x then v (snd (m w)) = v w @ [p]
     else v (snd (m w)) = v w \<or> v (snd (m w)) = v w @ [p])"

lemma runs_sending:
  assumes "sending v m p" and "total_io m \<or> R d \<and> R (d @ [p])"
    and "\<And>x w. fst (m w) = Inr x \<Longrightarrow> runs v (d @ [p]) (g x) Q R"
  shows "runs v d (bindio m g) Q R"
proof (rule tripleI)
  fix w assume w: "v w = d"
  obtain r w1 where m: "m w = (r, w1)" by fastforce
  show "outcome v Q R (bindio m g w)"
  proof (cases r)
    case (Inl e)
    then have "v w1 = d \<or> v w1 = d @ [p]" using assms(1) w m unfolding sending_def by (auto dest!: spec [of _ w])
    moreover have "R d \<and> R (d @ [p])" using assms(2) m Inl unfolding total_io_def by (metis fst_conv sum.distinct(1))
    ultimately show ?thesis using Inl m by (auto simp: bindio_def)
  next
    case (Inr x)
    then have "v w1 = d @ [p]" using assms(1) w m unfolding sending_def by (auto dest!: spec [of _ w])
    moreover have "runs v (d @ [p]) (g x) Q R" using assms(3) [of w x] m Inr by simp
    ultimately show ?thesis using Inr m tripleD [of v "\<lambda>s. s = d @ [p]" "g x" Q R w1] by (simp add: bindio_def)
  qed
qed

text \<open>A loop whose rounds append to what \<open>a\<close> reads of the state, or stop somewhere within.\<close>

lemma foreach_chunks:
  fixes a :: "'s \<Rightarrow> 'b list"
  assumes "\<And>x d. runs v d (f x) (\<lambda>_ s. \<exists>t. a s = a d @ g x t) (\<lambda>s. \<exists>t. prefix (a s) (a d @ g x t))"
  shows "runs v d (foreach xs f)
    (\<lambda>_ s. \<exists>ts. length ts = length xs \<and> a s = a d @ concat (map2 g xs ts))
    (\<lambda>s. \<exists>ts. length ts = length xs \<and> prefix (a s) (a d @ concat (map2 g xs ts)))"
proof (induction xs arbitrary: d)
  case Nil
  show ?case by (simp add: runs_ret)
next
  case (Cons x xs)
  let ?Q = "\<lambda>s. \<exists>ts. length ts = length (x # xs) \<and> a s = a d @ concat (map2 g (x # xs) ts)"
  let ?R = "\<lambda>s. \<exists>ts. length ts = length (x # xs) \<and> prefix (a s) (a d @ concat (map2 g (x # xs) ts))"
  have step: "runs v d (f x) (\<lambda>_ s. \<exists>t. a s = a d @ g x t) ?R"
  proof (rule runs_conseq [OF assms])
    fix s assume "\<exists>t. prefix (a s) (a d @ g x t)"
    then obtain t where "prefix (a s) (a d @ g x t)" by blast
    then have "prefix (a s) (a d @ concat (map2 g (x # xs) (replicate (length (x # xs)) t)))"
      by (simp add: prefix_append) (metis append.assoc)
    then show "?R s" by (metis length_replicate)
  qed
  have rest: "runs v s (foreach xs f) (\<lambda>_. ?Q) ?R" if "\<exists>t. a s = a d @ g x t" for s
  proof -
    from that obtain t where t: "a s = a d @ g x t" by blast
    have lift: "\<exists>ts'. length ts' = length (x # xs) \<and> P (a d @ concat (map2 g (x # xs) ts'))"
      if "\<exists>ts. length ts = length xs \<and> P (a s @ concat (map2 g xs ts))" for P
    proof -
      from that obtain ts where "length ts = length xs" "P (a s @ concat (map2 g xs ts))" by blast
      then show ?thesis using t by (intro exI [of _ "t # ts"]) simp
    qed
    show ?thesis
      by (rule runs_conseq [OF Cons.IH]) (rule lift, assumption)+
  qed
  from runs_bind_all [OF step rest] show ?case by (simp add: seqio_def)
qed

text \<open>\<open>keeps v I m\<close>: \<open>m\<close> keeps \<open>I\<close> on every path, the throwing ones included.\<close>

abbreviation keeps :: "('w \<Rightarrow> 's) \<Rightarrow> ('s \<Rightarrow> bool) \<Rightarrow> ('w, 'a) io \<Rightarrow> bool" where
  "keeps v I m \<equiv> triple v I m (\<lambda>_. I) I"

named_theorems keeps_intros "rules that decompose keeps"

lemma keeps_ret [keeps_intros]: "keeps v I (ret x)"
  and keeps_throw [keeps_intros]: "keeps v I (throw e)"
  by (simp_all add: triple_ret triple_throw)

lemma keeps_bind [keeps_intros]: "keeps v I m \<Longrightarrow> (\<And>x. keeps v I (f x)) \<Longrightarrow> keeps v I (bindio m f)"
  by (rule triple_bind)

lemma keeps_seq [keeps_intros]: "keeps v I m \<Longrightarrow> keeps v I n \<Longrightarrow> keeps v I (seqio m n)"
  by (rule triple_seq)

lemma keeps_catch [keeps_intros]: "keeps v I m \<Longrightarrow> (\<And>e. keeps v I (h e)) \<Longrightarrow> keeps v I (catchio m h)"
  by (rule triple_catch)

lemma keeps_finally [keeps_intros]: "keeps v I m \<Longrightarrow> keeps v I f \<Longrightarrow> keeps v I (finallyio m f)"
  by (rule triple_finally)

lemma keeps_foreach [keeps_intros]:
  "(\<And>x. x \<in> set xs \<Longrightarrow> keeps v I (f x)) \<Longrightarrow> keeps v I (foreach xs f)"
  by (rule triple_foreach)

lemma keeps_foreach_ret [keeps_intros]:
  "(\<And>x. x \<in> set xs \<Longrightarrow> keeps v I (f x)) \<Longrightarrow> keeps v I (foreach_ret xs f)"
  by (rule triple_foreach_ret)

lemma keeps_if [keeps_intros]:
  "(b \<Longrightarrow> keeps v I m) \<Longrightarrow> (\<not> b \<Longrightarrow> keeps v I n) \<Longrightarrow> keeps v I (if b then m else n)"
  by simp

lemma keeps_option [keeps_intros]:
  "(x = None \<Longrightarrow> keeps v I m) \<Longrightarrow> (\<And>y. x = Some y \<Longrightarrow> keeps v I (f y)) \<Longrightarrow>
   keeps v I (case x of None \<Rightarrow> m | Some y \<Rightarrow> f y)"
  by (cases x) auto

lemma keeps_sum [keeps_intros]:
  "(\<And>e. x = Inl e \<Longrightarrow> keeps v I (g e)) \<Longrightarrow> (\<And>y. x = Inr y \<Longrightarrow> keeps v I (f y)) \<Longrightarrow>
   keeps v I (case x of Inl e \<Rightarrow> g e | Inr y \<Rightarrow> f y)"
  by (cases x) auto

lemma keeps_ex:
  assumes "\<And>n. C n \<Longrightarrow> keeps v (I n) m"
  shows "keeps v (\<lambda>s. \<exists>n. C n \<and> I n s) m"
proof (rule tripleI, elim exE conjE)
  fix w n assume "C n" "I n (v w)"
  then have "outcome v (\<lambda>_. I n) (I n) (m w)" using tripleD [OF assms] by blast
  then show "outcome v (\<lambda>_ s. \<exists>n. C n \<and> I n s) (\<lambda>s. \<exists>n. C n \<and> I n s) (m w)"
    by (rule outcome_mono) (use \<open>C n\<close> in auto)
qed

lemma keeps_silent: "silent v m \<Longrightarrow> keeps v I m"
  unfolding silent_def triple_def outcome_def by (simp split: sum.split)

lemma keeps_reading: "reading v m f \<Longrightarrow> keeps v I m"
  unfolding reading_def by (rule keeps_silent) (simp add: silent_def)

lemma keeps_writing:
  assumes "writing v m f" and "\<And>s. I s \<Longrightarrow> I (f s)"
  shows "keeps v I m"
proof (rule tripleI)
  fix w assume "I (v w)"
  then have "runs v (v w) m (\<lambda>_. I) I"
    by (intro runs_write [OF assms(1)]) (auto intro: assms(2))
  then show "outcome v (\<lambda>_. I) I (m w)" by (rule tripleD) simp
qed

text \<open>A call whose result \<open>x\<close> is not known beforehand and that moves the state by \<open>f x\<close>.\<close>

definition effect :: "('w \<Rightarrow> 's) \<Rightarrow> ('w, 'a) io \<Rightarrow> ('a \<Rightarrow> 's \<Rightarrow> 's) \<Rightarrow> bool" where
  "effect v m f \<longleftrightarrow> (\<forall>w. (\<exists>x. fst (m w) = Inr x \<and> v (snd (m w)) = f x (v w)) \<or>
     (\<exists>e. fst (m w) = Inl e) \<and> v (snd (m w)) = v w)"

lemma runs_effect:
  assumes "effect v m f" and "R d" and "\<And>x. runs v (f x d) (g x) Q R"
  shows "runs v d (bindio m g) Q R"
proof (rule tripleI)
  fix w assume w: "v w = d"
  obtain r w1 where m: "m w = (r, w1)" by fastforce
  show "outcome v Q R (bindio m g w)"
  proof (cases r)
    case (Inl e)
    then have "v w1 = d" using assms(1) w m unfolding effect_def by (auto dest!: spec [of _ w])
    with Inl m assms(2) show ?thesis by (simp add: bindio_def)
  next
    case (Inr x)
    then have "v w1 = f x d" using assms(1) w m unfolding effect_def by (auto dest!: spec [of _ w])
    with Inr m tripleD [OF assms(3), of w1 x] show ?thesis by (simp add: bindio_def)
  qed
qed

text \<open>A call of which only a relation between the states before and after is known, also when it throws.\<close>

definition moving :: "('w \<Rightarrow> 's) \<Rightarrow> ('w, 'a) io \<Rightarrow> ('s \<Rightarrow> 's \<Rightarrow> bool) \<Rightarrow> bool" where
  "moving v m S \<longleftrightarrow> (\<forall>w. S (v w) (v (snd (m w))))"

lemma runs_moving:
  assumes "moving v m S" and "\<And>s. S d s \<Longrightarrow> R s" and "\<And>x s. S d s \<Longrightarrow> runs v s (g x) Q R"
  shows "runs v d (bindio m g) Q R"
proof (rule tripleI)
  fix w assume w: "v w = d"
  obtain r w1 where m: "m w = (r, w1)" by fastforce
  have "S d (v w1)" using assms(1) w m unfolding moving_def by (metis snd_conv)
  with m assms(2) tripleD [OF assms(3), of "v w1" w1] show "outcome v Q R (bindio m g w)"
    unfolding bindio_def by (cases r) simp_all
qed

text \<open>The value of a pure step that may throw.\<close>

definition lift :: "js_error + 'a \<Rightarrow> ('w, 'a) io" where
  "lift r = (case r of Inl e \<Rightarrow> throw e | Inr x \<Rightarrow> ret x)"

lemma lift_bind: "bindio (lift (Inr a)) g = g a"
  by (simp add: lift_def bindio_def ret_def)

lemma lift_simps [simp]: "lift (Inl e) = throw e" "lift (Inr x) = ret x"
  by (simp_all add: lift_def)

lemma runs_lift: "R d \<Longrightarrow> (\<And>x. r = Inr x \<Longrightarrow> runs v d (g x) Q R) \<Longrightarrow> runs v d (bindio (lift r) g) Q R"
  by (cases r) (simp_all add: runs_throw)

lemma runs_silent_any:
  "silent v m \<Longrightarrow> R d \<Longrightarrow> (\<And>x. runs v d (g x) Q R) \<Longrightarrow> runs v d (bindio m g) Q R"
  by (rule runs_silent) auto

lemma runs_silent_seq: "silent v m \<Longrightarrow> R d \<Longrightarrow> runs v d n Q R \<Longrightarrow> runs v d (seqio m n) Q R"
  unfolding seqio_def by (rule runs_silent) auto

lemma runs_write_bind:
  assumes "writing v m f" and "R d" and "\<And>x. runs v (f d) (g x) Q R"
  shows "runs v d (bindio m g) Q R"
  by (rule runs_bind_all [OF runs_write [OF assms(1)], where A = "\<lambda>_ s. s = f d"]) (use assms in auto)

lemma runs_write_answer:
  assumes "writing v m f" and "R d" and "\<And>x w. fst (m w) = Inr x \<Longrightarrow> runs v (f d) (g x) Q R"
  shows "runs v d (bindio m g) Q R"
proof (rule tripleI)
  fix w assume w: "v w = d"
  obtain r w1 where m: "m w = (r, w1)" by fastforce
  show "outcome v Q R (bindio m g w)"
  proof (cases r)
    case (Inl e)
    then have "v w1 = d" using assms(1) w m unfolding writing_def by (auto dest!: spec [of _ w])
    with Inl m assms(2) show ?thesis by (simp add: bindio_def)
  next
    case (Inr x)
    then have "v w1 = f d" using assms(1) w m unfolding writing_def by (auto dest!: spec [of _ w])
    with Inr m tripleD [OF assms(3), of w x w1] show ?thesis by (simp add: bindio_def)
  qed
qed

lemma keeps_effect:
  assumes "effect v m f" and "\<And>x s. I s \<Longrightarrow> I (f x s)"
  shows "keeps v I m"
proof (rule tripleI)
  fix w assume "I (v w)"
  then show "outcome v (\<lambda>_. I) I (m w)"
    using assms unfolding effect_def outcome_def by (cases "fst (m w)") (auto dest!: spec [of _ w])
qed

end
