(* ===== verification/Js_Literals.thy ===== *)
theory Js_Literals
  imports Js_Prelude
begin

text \<open>
  \<open>Number(s)\<close> of JavaScript for decimal literals: blanks around it, a sign, a point, an exponent. Hexadecimal literals are read
  where the programs use them (\<open>radix_literal\<close>, \<open>hex_literal\<close>).
\<close>

section \<open>Strings to numbers\<close>

text \<open>\<open>Number(s)\<close> for decimals with digits and at most one point; \<open>None\<close> is \<open>NaN\<close>.\<close>

definition toNumber :: "string \<Rightarrow> rat option" where
  "toNumber s = (let a = before_char (CHR ''.'') s; b = drop (Suc (length a)) s in
     if a @ b \<noteq> [] \<and> (\<forall>c \<in> set (a @ b). is_digit c)
     then Some (of_nat (read_digits a) + of_nat (read_digits b) / 10 ^ length b) else None)"

definition is_blank :: "char \<Rightarrow> bool" where
  "is_blank c \<longleftrightarrow> (of_char c :: nat) \<in> {9, 10, 11, 12, 13, 32}"

definition trim :: "string \<Rightarrow> string" where
  "trim s = rev (dropWhile is_blank (rev (dropWhile is_blank s)))"

text \<open>The exponent of a literal: an optional sign and digits.\<close>

definition exponent :: "string \<Rightarrow> int option" where
  "exponent s = (let ds = (case s of c # cs \<Rightarrow> if c \<in> {CHR ''+'', CHR ''-''} then cs else s | [] \<Rightarrow> []) in
     if ds \<noteq> [] \<and> list_all is_digit ds
     then Some (if hd s = CHR ''-'' then - int (read_digits ds) else int (read_digits ds)) else None)"

definition unsigned :: "string \<Rightarrow> rat option" where
  "unsigned s = (let m = takeWhile (\<lambda>c. c \<noteq> CHR ''e'' \<and> c \<noteq> CHR ''E'') s in
     if m = s then toNumber s
     else (case (toNumber m, exponent (drop (Suc (length m)) s)) of
       (Some x, Some e) \<Rightarrow> Some (if e < 0 then x / 10 ^ nat (- e) else x * 10 ^ nat e) | _ \<Rightarrow> None))"

definition number_of_string :: "string \<Rightarrow> rat option" where
  "number_of_string s = (case trim s of
     [] \<Rightarrow> Some 0
   | c # cs \<Rightarrow> (if c = CHR ''-'' then map_option uminus (unsigned cs)
                else if c = CHR ''+'' then unsigned cs else unsigned (c # cs)))"

end
