(* ===== verification/Chain_Store.thy ===== *)
theory Chain_Store
  imports Effects Js_Literals
begin

text \<open>
  The data of the blockchain parser (\<open>blockchain-parser/src/entity\<close>, \<open>config.js\<close>) and the
  interface to everything it calls but does not contain: the JSON-RPC provider and the USDT
  contract (ethers.js), the three TypeORM repositories, Redis and the timers. The interface is the
  record \<open>env\<close> of functions on an abstract world; what the code relies on is the locale
  \<open>ledger\<close>, which describes each call by its effect on the abstract tables \<open>db\<close>. Any call may
  also throw, and then leaves the tables as they were; a transfer of the hot wallet that throws may
  or may not have been broadcast. The locale is interpreted at the end on an
  in-memory store whose calls fail according to a fault plan.
\<close>

section \<open>Entities\<close>

text \<open>\<open>Account.js\<close>: what \<open>create\<close> is given, and the row with the generated columns.\<close>

record new_account =
  email :: string
  address :: string
  bnb_amount :: rat
  usdt_amount :: rat

record account = new_account +
  acc_id :: int
  created_time :: int
  updated_time :: int

text \<open>\<open>Transaction.js\<close>: the columns the parser fills in; \<open>id\<close> and \<open>created_time\<close> are generated
  and never read.\<close>

record transaction =
  tx_hash :: string
  block_number :: int
  from_address :: string
  to_address :: string
  tx_value :: rat
  token_decimals :: nat
  token_address :: "string option"
  token_symbol :: "string option"
  tx_status :: int

text \<open>\<open>Withdrawal.js\<close>: \<open>status\<close> is one of \<open>init\<close>, \<open>processing\<close>, \<open>success\<close>, \<open>failed\<close>.\<close>

record new_withdrawal =
  account_id :: int
  amount :: rat
  wd_decimals :: nat
  wd_symbol :: string
  wd_to :: string
  wd_status :: string

record withdrawal = new_withdrawal +
  wd_id :: int
  wd_tx_hash :: "string option"

datatype column = Bnb_amount | Usdt_amount

text \<open>The scale of the two decimal columns of \<open>Account.js\<close>.\<close>

fun column_scale :: "column \<Rightarrow> nat" where
  "column_scale Bnb_amount = 18"
| "column_scale Usdt_amount = 6"

section \<open>Chain data\<close>

record chain_tx =
  hash :: string
  blockNumber :: int
  tx_from :: string
  tx_to :: "string option"
  tx_data :: string
  tx_wei :: int

record chain_log =
  log_address :: string
  log_topics :: "string list"
  log_data :: string

record event =
  ev_name :: string
  ev_from :: string
  ev_to :: string
  ev_value :: int
  ev_address :: "string option"

record receipt =
  rc_fee :: int
  rc_status :: int
  rc_logs :: "chain_log list"

record block = prefetchedTransactions :: "chain_tx list"

section \<open>Configuration\<close>

text \<open>\<open>config.js\<close>: every setting is an environment variable or, when that is unset or empty, the
  literal in the file. Numeric settings read from the environment stay strings and are converted
  where they are used.\<close>

datatype setting = Env string | Lit int

fun env_or :: "string option \<Rightarrow> int \<Rightarrow> setting" where
  "env_or so d = (if truthy so then Env (the so) else Lit d)"

record config =
  rpcUrl :: string
  chainId :: setting
  projectAddress :: string
  usdtAddress :: string
  db_host :: string
  db_port :: setting
  db_username :: string
  db_password :: string
  db_database :: string
  redis_host :: string
  redis_port :: setting
  redis_password :: string
  scanInterval :: setting
  confirmationBlocks :: setting

definition load_config :: "(string \<rightharpoonup> string) \<Rightarrow> config" where
  "load_config env = \<lparr>
     rpcUrl = or_default (env ''BSC_RPC_URL'') ''https://bsc-dataseed.bnbchain.org'',
     chainId = env_or (env ''CHAIN_ID'') 56,
     projectAddress = or_default (env ''PROJECT_ADDRESS'') ''0x3Ca1392e4A95Aa0f83e97458Ab4495a58cA91bd6'',
     usdtAddress = or_default (env ''USDT_ADDRESS'') ''0x55d398326f99059fF775485246999027B3197955'',
     db_host = or_default (env ''DB_HOST'') ''172.19.62.197'',
     db_port = env_or (env ''DB_PORT'') 5432,
     db_username = or_default (env ''DB_USERNAME'') ''postgres'',
     db_password = or_default (env ''DB_PASSWORD'') ''postgres'',
     db_database = or_default (env ''DB_NAME'') ''blockchain_parser'',
     redis_host = or_default (env ''REDIS_HOST'') ''172.19.62.197'',
     redis_port = env_or (env ''REDIS_PORT'') 6379,
     redis_password = or_default (env ''REDIS_PASSWORD'') '''',
     scanInterval = env_or (env ''SCAN_INTERVAL'') 3000,
     confirmationBlocks = env_or (env ''CONFIRMATION_BLOCKS'') 6\<rparr>"

text \<open>The number a setting is converted to where \<open>processBlocks\<close> subtracts it: \<open>Number\<close> of the string, also
  hexadecimal, octal, binary, with an exponent or a point; \<open>None\<close> is \<open>NaN\<close>. The result is compared with whole
  numbers only, for which \<open>n <= cur - x\<close> is \<open>n <= cur - ceil x\<close>, so it is rounded up here. \<open>Infinity\<close> ends
  the pass at once like \<open>NaN\<close>; \<open>-Infinity\<close>, with which the loop would not end, is not modelled.\<close>

definition digit_value :: "char \<Rightarrow> nat" where
  "digit_value c = (let n = of_char (lower_char c) :: nat in
     if is_digit c then digit_val c else if 97 \<le> n \<and> n \<le> 122 then n - 87 else 36)"

definition radix_literal :: "string \<Rightarrow> nat option" where
  "radix_literal s = (case s of
     z # y # d # ds \<Rightarrow>
       (let base = (if lower_char y = CHR ''x'' then 16 else if lower_char y = CHR ''o'' then 8
                    else if lower_char y = CHR ''b'' then 2 else 0) in
        if z = CHR ''0'' \<and> list_all (\<lambda>c. digit_value c < base) (d # ds)
        then Some (foldl (\<lambda>n c. base * n + digit_value c) 0 (d # ds)) else None)
   | _ \<Rightarrow> None)"

fun setting_num :: "setting \<Rightarrow> int option" where
  "setting_num (Lit n) = Some n"
| "setting_num (Env s) = (case radix_literal (trim s) of Some n \<Rightarrow> Some (int n)
     | None \<Rightarrow> map_option ceiling (number_of_string s))"

text \<open>Four ways to ask for sixteen confirmations.\<close>

lemma sixteen_confirmations:
  "setting_num (Env ''16'') = Some 16" "setting_num (Env ''0x10'') = Some 16"
  "setting_num (Env ''1.6e1'') = Some 16" "setting_num (Env '' 0b10000 '') = Some 16"
  "setting_num (Env ''6 blocks'') = None"
  by (simp_all add: radix_literal_def trim_def is_blank_def lower_char_def digit_value_def number_of_string_def
      unsigned_def toNumber_def before_char_def read_digits_def exponent_def Let_def is_digit_def digit_val_def)

section \<open>The interface to the outside\<close>

datatype timer = ProcessBlocks | ProcessWithdrawals

record 'w env =
  getBlockNumber :: "('w, int) io"
  getBlock :: "int \<Rightarrow> ('w, block option) io"
  getCode :: "string \<Rightarrow> ('w, string) io"
  getBalance :: "string \<Rightarrow> ('w, int) io"
  getTransactionReceipt :: "string \<Rightarrow> ('w, receipt option) io"
  waitForTransaction :: "string option \<Rightarrow> nat \<Rightarrow> ('w, receipt option) io"
  decimals :: "('w, nat) io"
  symbol :: "('w, string) io"
  balanceOf :: "string \<Rightarrow> ('w, int) io"
  usdt_transfer :: "string \<Rightarrow> int \<Rightarrow> ('w, string) io"
  sendTransaction :: "string \<Rightarrow> int \<Rightarrow> nat \<Rightarrow> ('w, string) io"
  parseLog :: "chain_log \<Rightarrow> js_error + event option"
  formatUnits :: "int \<Rightarrow> nat \<Rightarrow> rat"
  parseUnits :: "rat \<Rightarrow> nat \<Rightarrow> js_error + int"
  redis_get :: "string \<Rightarrow> ('w, string option) io"
  redis_set :: "string \<Rightarrow> string \<Rightarrow> ('w, unit) io"
  redis_setex :: "string \<Rightarrow> string \<Rightarrow> nat \<Rightarrow> ('w, unit) io"
  redis_del :: "string \<Rightarrow> ('w, unit) io"
  account_findOne :: "string \<Rightarrow> ('w, account option) io"
  account_saveNew :: "new_account \<Rightarrow> ('w, unit) io"
  account_save :: "account \<Rightarrow> ('w, unit) io"
  account_increment :: "int option \<Rightarrow> column \<Rightarrow> rat \<Rightarrow> ('w, unit) io"
  account_decrement :: "int option \<Rightarrow> column \<Rightarrow> rat \<Rightarrow> ('w, unit) io"
  transaction_findOne :: "string \<Rightarrow> ('w, transaction option) io"
  transaction_save :: "transaction \<Rightarrow> ('w, unit) io"
  withdrawal_count :: "('w, nat) io"
  withdrawal_saveNew :: "new_withdrawal \<Rightarrow> ('w, unit) io"
  withdrawal_resetAll :: "('w, unit) io"
  withdrawal_find :: "string \<Rightarrow> ('w, withdrawal list) io"
  withdrawal_save :: "withdrawal \<Rightarrow> ('w, unit) io"
  db_initialize :: "('w, unit) io"
  setInterval :: "timer \<Rightarrow> setting \<Rightarrow> ('w, unit) io"

section \<open>The abstract tables and the laws of the interface\<close>

text \<open>\<open>sent\<close> is the list of transfers the hot wallet has broadcast: token, receiver, base units.\<close>

record db =
  accounts :: "account list"
  transactions :: "transaction list"
  withdrawals :: "withdrawal list"
  redis :: "string \<rightharpoonup> string"
  sent :: "(string \<times> string \<times> int) list"

fun column_of :: "column \<Rightarrow> account \<Rightarrow> rat" where
  "column_of Bnb_amount a = bnb_amount a"
| "column_of Usdt_amount a = usdt_amount a"

fun set_column :: "column \<Rightarrow> rat \<Rightarrow> account \<Rightarrow> account" where
  "set_column Bnb_amount x a = a\<lparr>bnb_amount := x\<rparr>"
| "set_column Usdt_amount x a = a\<lparr>usdt_amount := x\<rparr>"

definition db_add :: "(column \<Rightarrow> rat \<Rightarrow> rat) \<Rightarrow> int option \<Rightarrow> column \<Rightarrow> rat \<Rightarrow> db \<Rightarrow> db" where
  "db_add cast i c x d = d\<lparr>accounts := map (\<lambda>a.
     if Some (acc_id a) = i then set_column c (cast c (column_of c a + x)) a else a) (accounts d)\<rparr>"

definition db_save_account :: "account \<Rightarrow> db \<Rightarrow> db" where
  "db_save_account r d = d\<lparr>accounts := map (\<lambda>a. if acc_id a = acc_id r then r else a) (accounts d)\<rparr>"

definition db_save_withdrawal :: "withdrawal \<Rightarrow> db \<Rightarrow> db" where
  "db_save_withdrawal r d =
     d\<lparr>withdrawals := map (\<lambda>a. if wd_id a = wd_id r then r else a) (withdrawals d)\<rparr>"

definition db_reset :: "db \<Rightarrow> db" where
  "db_reset d = d\<lparr>withdrawals := map (\<lambda>a. a\<lparr>wd_status := ''init''\<rparr>) (withdrawals d)\<rparr>"

definition find_account :: "string \<Rightarrow> db \<Rightarrow> account option" where
  "find_account adr d = find (\<lambda>a. address a = adr) (accounts d)"

definition find_transaction :: "string \<Rightarrow> db \<Rightarrow> transaction option" where
  "find_transaction h d = find (\<lambda>t. tx_hash t = h) (transactions d)"

definition find_withdrawals :: "string \<Rightarrow> db \<Rightarrow> withdrawal list" where
  "find_withdrawals st d = filter (\<lambda>r. wd_status r = st) (withdrawals d)"

locale ledger =
  fixes E :: "'w env" and v :: "'w \<Rightarrow> db" and cast :: "column \<Rightarrow> rat \<Rightarrow> rat"
  assumes formatUnits: "formatUnits E units dec = of_int units / 10 ^ dec"
    and cast_exact: "x * 10 ^ column_scale c = of_int k \<Longrightarrow> cast c x = x"
    and getBlockNumber: "silent v (getBlockNumber E)"
    and getBlock: "silent v (getBlock E b)"
    and getBalance: "silent v (getBalance E adr)"
    and getTransactionReceipt: "silent v (getTransactionReceipt E h)"
    and waitForTransaction: "silent v (waitForTransaction E ho conf)"
    and decimals: "silent v (decimals E)"
    and symbol: "silent v (symbol E)"
    and balanceOf: "silent v (balanceOf E adr)"
    and redis_get: "reading v (redis_get E k') (\<lambda>d. redis d k')"
    and redis_set: "writing v (redis_set E k' x') (\<lambda>d. d\<lparr>redis := (redis d)(k' \<mapsto> x')\<rparr>)"
    and redis_setex: "writing v (redis_setex E k' x' ttl) (\<lambda>d. d\<lparr>redis := (redis d)(k' \<mapsto> x')\<rparr>)"
    and redis_del: "writing v (redis_del E k') (\<lambda>d. d\<lparr>redis := (redis d)(k' := None)\<rparr>)"
    and account_findOne: "reading v (account_findOne E adr) (find_account adr)"
    and account_save: "writing v (account_save E a) (db_save_account a)"
    and account_increment: "writing v (account_increment E i c x) (db_add cast i c x)"
    and account_decrement: "writing v (account_decrement E i c x) (db_add cast i c (- x))"
    and transaction_findOne: "reading v (transaction_findOne E h) (find_transaction h)"
    and transaction_save:
      "writing v (transaction_save E t) (\<lambda>d. d\<lparr>transactions := transactions d @ [t]\<rparr>)"
    and transaction_unique:
      "find_transaction (tx_hash t) (v w) \<noteq> None \<Longrightarrow> \<exists>e. fst (transaction_save E t w) = Inl e"
    and withdrawal_count: "reading v (withdrawal_count E) (\<lambda>d. length (withdrawals d))"
    and withdrawal_resetAll: "writing v (withdrawal_resetAll E) db_reset"
    and withdrawal_find: "reading v (withdrawal_find E st) (find_withdrawals st)"
    and withdrawal_save: "writing v (withdrawal_save E r) (db_save_withdrawal r)"
    and usdt_transfer:
      "attempting v (usdt_transfer E to units) (\<lambda>d. d\<lparr>sent := sent d @ [(''USDT'', to, units)]\<rparr>)"
    and sendTransaction:
      "attempting v (sendTransaction E to units gas) (\<lambda>d. d\<lparr>sent := sent d @ [(''BNB'', to, units)]\<rparr>)"
begin

lemmas silents = getBlockNumber getBlock getBalance getTransactionReceipt waitForTransaction
  decimals symbol balanceOf

lemmas readings = redis_get account_findOne transaction_findOne withdrawal_count withdrawal_find

lemmas writings = redis_set redis_setex redis_del account_save account_increment
  account_decrement transaction_save withdrawal_resetAll withdrawal_save

lemma cast_wei [simp]: "cast c (of_int k / 10 ^ column_scale c) = of_int k / 10 ^ column_scale c"
  by (rule cast_exact [where k = k]) simp

end

text \<open>A ledger none of whose calls throws (a duplicate transaction hash apart), over a fixed chain:
  the block with a number, the receipt of a hash, the token's decimals and symbol do not change.\<close>

definition never_throws :: "'w env \<Rightarrow> bool" where
  "never_throws E \<longleftrightarrow>
     total_io (getBlockNumber E) \<and> (\<forall>adr. total_io (getBalance E adr)) \<and>
     (\<forall>adr. total_io (balanceOf E adr)) \<and> (\<forall>k. total_io (redis_get E k)) \<and>
     (\<forall>k x. total_io (redis_set E k x)) \<and> (\<forall>k x n. total_io (redis_setex E k x n)) \<and>
     (\<forall>k. total_io (redis_del E k)) \<and> (\<forall>adr. total_io (account_findOne E adr)) \<and>
     (\<forall>a. total_io (account_save E a)) \<and> (\<forall>i c x. total_io (account_increment E i c x)) \<and>
     (\<forall>i c x. total_io (account_decrement E i c x)) \<and> (\<forall>h. total_io (transaction_findOne E h)) \<and>
     total_io (withdrawal_count E) \<and> total_io (withdrawal_resetAll E) \<and>
     (\<forall>st. total_io (withdrawal_find E st)) \<and> (\<forall>r. total_io (withdrawal_save E r))"

locale steady_ledger = ledger +
  fixes blocks :: "int \<Rightarrow> block option" and receipt_of :: "string \<Rightarrow> receipt option"
    and dec :: nat and sy :: string
  assumes never_throws: "never_throws E"
    and save_new: "find_transaction (tx_hash t) (v w) = None \<Longrightarrow> \<exists>u. fst (transaction_save E t w) = Inr u"
    and blocks: "returning (getBlock E b) (blocks b)"
    and receipt_of: "returning (getTransactionReceipt E h) (receipt_of h)"
    and dec: "returning (decimals E) dec"
    and sy: "returning (symbol E) sy"
begin

lemma totals:
  "total_io (getBlockNumber E)" "total_io (redis_get E k)" "total_io (redis_set E k x)"
  "total_io (redis_setex E k x n)" "total_io (redis_del E k)" "total_io (account_findOne E adr)"
  "total_io (account_save E a)" "total_io (account_increment E i c q)"
  "total_io (account_decrement E i c q)" "total_io (transaction_findOne E h)"
  "total_io (withdrawal_count E)" "total_io (withdrawal_resetAll E)"
  "total_io (withdrawal_find E st)" "total_io (withdrawal_save E r)"
  "total_io (getBalance E adr)" "total_io (balanceOf E adr)"
  using never_throws by (simp_all add: never_throws_def)

lemma runs_save_tx:
  assumes "find_transaction (tx_hash t) d = None"
    and "runs v (d\<lparr>transactions := transactions d @ [t]\<rparr>) n Q R"
  shows "runs v d (seqio (transaction_save E t) n) Q R"
proof (rule runs_seq [OF _ assms(2)], rule tripleI)
  fix w assume w: "v w = d"
  then obtain u where "fst (transaction_save E t w) = Inr u" using save_new assms(1) by blast
  then show "outcome v (\<lambda>_ s. s = d\<lparr>transactions := transactions d @ [t]\<rparr>) R (transaction_save E t w)"
    using transaction_save [of t, unfolded writing_def, rule_format, of w] w
    by (auto simp: outcome_def)
qed

end

section \<open>An in-memory store\<close>

text \<open>The world of the interpretation: the tables, a chain, and a fault plan that says which of
  the next calls throw.\<close>

record mem =
  mdb :: db
  head :: int
  faults :: "bool list"

text \<open>A call of the store. With \<open>fp\<close> it follows the fault plan, otherwise it never throws.\<close>

definition call :: "bool \<Rightarrow> (mem \<Rightarrow> (js_error + 'a) \<times> mem) \<Rightarrow> (mem, 'a) io" where
  "call fp f = (\<lambda>m. if fp then (case faults m of
       [] \<Rightarrow> f m
     | b # bs \<Rightarrow> if b then (Inl (JsError ''down''), m\<lparr>faults := bs\<rparr>) else f (m\<lparr>faults := bs\<rparr>))
     else f m)"

definition peek :: "bool \<Rightarrow> (mem \<Rightarrow> 'a) \<Rightarrow> (mem, 'a) io" where
  "peek fp f = call fp (\<lambda>m. (Inr (f m), m))"

definition poke :: "bool \<Rightarrow> (db \<Rightarrow> db) \<Rightarrow> 'a \<Rightarrow> (mem, 'a) io" where
  "poke fp f x = call fp (\<lambda>m. (Inr x, m\<lparr>mdb := f (mdb m)\<rparr>))"

definition insert_tx :: "bool \<Rightarrow> transaction \<Rightarrow> (mem, unit) io" where
  "insert_tx fp t = call fp (\<lambda>m.
     if find_transaction (tx_hash t) (mdb m) \<noteq> None then (Inl (JsError ''duplicate key''), m)
     else (Inr (), m\<lparr>mdb := (mdb m)\<lparr>transactions := transactions (mdb m) @ [t]\<rparr>\<rparr>))"

text \<open>A decimal column keeps the nearest value of its scale, halves away from zero.\<close>

definition round_away :: "rat \<Rightarrow> int" where
  "round_away y = (if y < 0 then - \<lfloor>- y + 1 / 2\<rfloor> else \<lfloor>y + 1 / 2\<rfloor>)"

definition cast_round :: "column \<Rightarrow> rat \<Rightarrow> rat" where
  "cast_round c x = of_int (round_away (x * 10 ^ column_scale c)) / 10 ^ column_scale c"

lemma round_away_of_int [simp]: "round_away (of_int k) = k"
proof -
  have "\<lfloor>of_int n + 1 / 2 :: rat\<rfloor> = n" for n :: int by (simp add: floor_eq_iff)
  from this [of k] this [of "- k"] show ?thesis by (simp add: round_away_def)
qed

definition next_id :: "int list \<Rightarrow> int" where
  "next_id is = foldl max 0 is + 1"

definition mem_env ::
  "bool \<Rightarrow> (int \<Rightarrow> block option) \<Rightarrow> (string \<Rightarrow> receipt option) \<Rightarrow> mem env" where
  "mem_env fp chain receipts = \<lparr>
     getBlockNumber = peek fp head,
     getBlock = (\<lambda>n. peek fp (\<lambda>_. chain n)),
     getCode = (\<lambda>adr. peek fp (\<lambda>_. ''0x'')),
     getBalance = (\<lambda>adr. peek fp (\<lambda>_. 0)),
     getTransactionReceipt = (\<lambda>h. peek fp (\<lambda>_. receipts h)),
     waitForTransaction = (\<lambda>ho n. peek fp (\<lambda>_. Option.bind ho receipts)),
     decimals = peek fp (\<lambda>_. 18),
     symbol = peek fp (\<lambda>_. ''USDT''),
     balanceOf = (\<lambda>adr. peek fp (\<lambda>_. 0)),
     usdt_transfer = (\<lambda>to x. poke fp (\<lambda>d. d\<lparr>sent := sent d @ [(''USDT'', to, x)]\<rparr>) ''0xt''),
     sendTransaction = (\<lambda>to x g. poke fp (\<lambda>d. d\<lparr>sent := sent d @ [(''BNB'', to, x)]\<rparr>) ''0xs''),
     parseLog = (\<lambda>l. case log_topics l of
        [f, t] \<Rightarrow> Inr (Some \<lparr>ev_name = ''Transfer'', ev_from = f, ev_to = t,
                    ev_value = int (read_digits (log_data l)), ev_address = None\<rparr>)
      | _ \<Rightarrow> Inr None),
     formatUnits = (\<lambda>x n. of_int x / 10 ^ n),
     parseUnits = (\<lambda>x n. let y = x * 10 ^ n in
        if of_int \<lfloor>y\<rfloor> = y then Inr \<lfloor>y\<rfloor> else Inl (JsError ''too many decimals'')),
     redis_get = (\<lambda>k. peek fp (\<lambda>m. redis (mdb m) k)),
     redis_set = (\<lambda>k x. poke fp (\<lambda>d. d\<lparr>redis := (redis d)(k \<mapsto> x)\<rparr>) ()),
     redis_setex = (\<lambda>k x n. poke fp (\<lambda>d. d\<lparr>redis := (redis d)(k \<mapsto> x)\<rparr>) ()),
     redis_del = (\<lambda>k. poke fp (\<lambda>d. d\<lparr>redis := (redis d)(k := None)\<rparr>) ()),
     account_findOne = (\<lambda>adr. peek fp (\<lambda>m. find_account adr (mdb m))),
     account_saveNew = (\<lambda>a. poke fp (\<lambda>d. d\<lparr>accounts := accounts d @
        [\<lparr>email = email a, address = address a, bnb_amount = bnb_amount a,
          usdt_amount = usdt_amount a, acc_id = next_id (map acc_id (accounts d)),
          created_time = 0, updated_time = 0\<rparr>]\<rparr>) ()),
     account_save = (\<lambda>a. poke fp (db_save_account a) ()),
     account_increment = (\<lambda>i c x. poke fp (db_add cast_round i c x) ()),
     account_decrement = (\<lambda>i c x. poke fp (db_add cast_round i c (- x)) ()),
     transaction_findOne = (\<lambda>h. peek fp (\<lambda>m. find_transaction h (mdb m))),
     transaction_save = insert_tx fp,
     withdrawal_count = peek fp (\<lambda>m. length (withdrawals (mdb m))),
     withdrawal_saveNew = (\<lambda>r. poke fp (\<lambda>d. d\<lparr>withdrawals := withdrawals d @
        [\<lparr>account_id = account_id r, amount = amount r, wd_decimals = wd_decimals r,
          wd_symbol = wd_symbol r, wd_to = wd_to r, wd_status = wd_status r,
          wd_id = next_id (map wd_id (withdrawals d)), wd_tx_hash = None\<rparr>]\<rparr>) ()),
     withdrawal_resetAll = poke fp db_reset (),
     withdrawal_find = (\<lambda>st. peek fp (\<lambda>m. find_withdrawals st (mdb m))),
     withdrawal_save = (\<lambda>r. poke fp (db_save_withdrawal r) ()),
     db_initialize = poke fp (\<lambda>d. d) (),
     setInterval = (\<lambda>t n. poke fp (\<lambda>d. d) ())\<rparr>"

lemma silent_peek: "silent mdb (peek fp f)"
  by (auto simp: silent_def peek_def call_def split: list.split)

lemma reading_peek: "reading mdb (peek fp (\<lambda>m. f (mdb m))) f"
  by (auto simp: reading_def peek_def call_def split: list.split)

lemma writing_poke: "writing mdb (poke fp f x) f"
  by (auto simp: writing_def poke_def call_def split: list.split)

lemma writing_insert_tx:
  "writing mdb (insert_tx fp t) (\<lambda>d. d\<lparr>transactions := transactions d @ [t]\<rparr>)"
  by (auto simp: writing_def insert_tx_def call_def split: list.split)

lemma insert_tx_duplicate:
  "find_transaction (tx_hash t) (mdb m) \<noteq> None \<Longrightarrow> \<exists>e. fst (insert_tx fp t m) = Inl e"
  by (auto simp: insert_tx_def call_def split: list.split)

lemma total_peek: "total_io (peek False f)" and total_poke: "total_io (poke False g x)"
  and returning_peek: "returning (peek False (\<lambda>_. y)) y"
  by (simp_all add: total_io_def returning_def peek_def poke_def call_def)

lemma cast_round_exact: "x * 10 ^ column_scale c = of_int k \<Longrightarrow> cast_round c x = x"
  by (simp add: cast_round_def divide_eq_eq)

interpretation mem: ledger "mem_env fp chain receipts" mdb cast_round
  by unfold_locales
    (simp_all add: mem_env_def silent_peek reading_peek writing_poke writing_attempting [OF writing_poke] cast_round_exact
      writing_insert_tx insert_tx_duplicate reading_peek [where f = "\<lambda>d. redis d k" for k]
      reading_peek [where f = "\<lambda>d. length (withdrawals d)"])

interpretation steady: steady_ledger "mem_env False chain receipts" mdb cast_round
  chain receipts 18 "''USDT''"
  by unfold_locales
    (simp_all add: mem_env_def never_throws_def total_peek total_poke returning_peek insert_tx_def
      call_def)

end
