(* ===== verification/Block_Parser.thy ===== *)
theory Block_Parser
  imports Chain_Store
begin

text \<open>
  \<open>blockchain-parser/src/blockchainParser.js\<close> and \<open>redis.js\<close>: one definition per method, in the
  order of the file, over the interface \<open>env\<close>. \<open>console\<close> output is left out. The instance field
  \<open>isProcessing\<close> is part of the record \<open>parser\<close>, the rest of the world is its field \<open>world\<close>.
\<close>

section \<open>Redis keys and operations\<close>

definition last_block_key :: string where
  "last_block_key = ''last_processed_block''"

definition tx_key :: "string \<Rightarrow> string" where
  "tx_key h = ''tx:processing:'' @ h"

definition user_key :: "string \<Rightarrow> string" where
  "user_key adr = ''address:user:'' @ adr"

definition getLastProcessedBlock :: "'w env \<Rightarrow> ('w, string option) io" where
  "getLastProcessedBlock E = redis_get E last_block_key"

definition setLastProcessedBlock :: "'w env \<Rightarrow> int \<Rightarrow> ('w, unit) io" where
  "setLastProcessedBlock E n = redis_set E last_block_key (show_int n)"

definition isTxProcessing :: "'w env \<Rightarrow> string \<Rightarrow> ('w, string option) io" where
  "isTxProcessing E h = redis_get E (tx_key h)"

definition setTxProcessing :: "'w env \<Rightarrow> string \<Rightarrow> ('w, unit) io" where
  "setTxProcessing E h = redis_setex E (tx_key h) ''1'' 300"

definition removeTxProcessing :: "'w env \<Rightarrow> string \<Rightarrow> ('w, unit) io" where
  "removeTxProcessing E h = redis_del E (tx_key h)"

definition cacheUserAddress :: "'w env \<Rightarrow> string \<Rightarrow> int \<Rightarrow> ('w, unit) io" where
  "cacheUserAddress E adr i = redis_setex E (user_key adr) (show_int i) 3600"

definition getCachedUserByAddress :: "'w env \<Rightarrow> string \<Rightarrow> ('w, string option) io" where
  "getCachedUserByAddress E adr = redis_get E (user_key adr)"

section \<open>Users\<close>

text \<open>What the callers of \<open>findUserByAddress\<close> use of its result: the cached answer has an id read
  by \<open>parseInt\<close> (\<open>None\<close> is \<open>NaN\<close>), the answer from the table is the row.\<close>

record user_ref =
  uid :: "int option"
  uaddress :: string

definition findUserByAddress :: "'w env \<Rightarrow> string \<Rightarrow> ('w, user_ref option) io" where
  "findUserByAddress E adr =
     bindio (getCachedUserByAddress E adr) (\<lambda>cachedUserId.
     if truthy cachedUserId
     then ret (Some \<lparr>uid = parseInt (the cachedUserId), uaddress = adr\<rparr>)
     else
       bindio (account_findOne E adr) (\<lambda>user.
       case user of
         None \<Rightarrow> ret None
       | Some u \<Rightarrow>
           seqio (cacheUserAddress E adr (acc_id u))
             (ret (Some \<lparr>uid = Some (acc_id u), uaddress = address u\<rparr>))))"

definition isContractAddress :: "'w env \<Rightarrow> string option \<Rightarrow> ('w, bool) io" where
  "isContractAddress E adr =
     (if \<not> truthy adr then ret False
      else bindio (getCode E (the adr)) (\<lambda>code. ret (code \<noteq> ''0x'')))"

definition updateOrCreateUser ::
  "'w env \<Rightarrow> string \<Rightarrow> string \<Rightarrow> rat \<Rightarrow> rat \<Rightarrow> ('w, unit) io" where
  "updateOrCreateUser E adr mail bnb usdt =
     bindio (account_findOne E adr) (\<lambda>user.
     case user of
       Some u \<Rightarrow> account_save E (u\<lparr>bnb_amount := bnb, usdt_amount := usdt\<rparr>)
     | None \<Rightarrow> account_saveNew E
         \<lparr>email = mail, address = adr, bnb_amount = bnb, usdt_amount = usdt\<rparr>)"

section \<open>Initial data\<close>

definition user1Address :: string where
  "user1Address = ''0x6687e46C68C00bd1C10F8cc3Eb000B1752737e94''"

definition user2Address :: string where
  "user2Address = ''0x3DA0E0Aa4Db801ca5161412513558E9096E288bA''"

definition user3Address :: string where
  "user3Address = ''0x24ca20D955cc2B6f722eCfdE9A7053435885dDe9''"

text \<open>The block of \<open>initData\<close> that is written out for each of the three users.\<close>

definition init_user :: "'w env \<Rightarrow> nat \<Rightarrow> string \<Rightarrow> string \<Rightarrow> ('w, unit) io" where
  "init_user E decimal adr mail =
     bindio (getBalance E adr) (\<lambda>balance.
     bindio (balanceOf E adr) (\<lambda>usdtBalance.
     updateOrCreateUser E adr mail (formatUnits E balance 18) (formatUnits E usdtBalance decimal)))"

definition init_withdrawals :: "'w env \<Rightarrow> ('w, unit) io" where
  "init_withdrawals E =
     bindio (withdrawal_count E) (\<lambda>withdrawalCount.
     if withdrawalCount = 0 then
       bindio (account_findOne E user1Address) (\<lambda>user1.
       bindio (account_findOne E user2Address) (\<lambda>user2.
       case (user1, user2) of
         (Some u1, Some u2) \<Rightarrow>
           seqio (withdrawal_saveNew E
             \<lparr>account_id = acc_id u1, amount = 1 / 10000, wd_decimals = 18, wd_symbol = ''BNB'',
              wd_to = user3Address, wd_status = ''init''\<rparr>)
           (withdrawal_saveNew E
             \<lparr>account_id = acc_id u2, amount = 80, wd_decimals = 18, wd_symbol = ''USDT'',
              wd_to = user3Address, wd_status = ''init''\<rparr>)
       | _ \<Rightarrow> ret ()))
     else withdrawal_resetAll E)"

definition initData :: "'w env \<Rightarrow> ('w, unit) io" where
  "initData E =
     bindio (account_findOne E user1Address) (\<lambda>_.
     bindio (account_findOne E user2Address) (\<lambda>_.
     bindio (account_findOne E user3Address) (\<lambda>_.
     bindio (decimals E) (\<lambda>decimal.
     seqio (init_user E decimal user1Address ''user1@example.com'')
     (seqio (init_user E decimal user2Address ''user2@example.com'')
     (seqio (init_user E decimal user3Address ''user3@example.com'')
     (init_withdrawals E)))))))"

section \<open>Transfers\<close>

definition processBNBTransfer :: "'w env \<Rightarrow> chain_tx \<Rightarrow> receipt \<Rightarrow> ('w, unit) io" where
  "processBNBTransfer E tx receipt =
     (let amountBNB = formatUnits E (tx_wei tx) 18; to = the (tx_to tx) in
     bindio (findUserByAddress E (tx_from tx)) (\<lambda>from.
     case from of None \<Rightarrow> ret () | Some fromUser \<Rightarrow>
     bindio (findUserByAddress E to) (\<lambda>dest.
     case dest of None \<Rightarrow> ret () | Some toUser \<Rightarrow>
     bindio (transaction_findOne E (hash tx)) (\<lambda>existingTx.
     if existingTx \<noteq> None then ret ()
     else
       seqio (transaction_save E
         \<lparr>tx_hash = hash tx, block_number = blockNumber tx, from_address = tx_from tx,
          to_address = to, tx_value = amountBNB, token_decimals = 18, token_address = None,
          token_symbol = Some ''BNB'', tx_status = rc_status receipt\<rparr>)
       (if rc_status receipt = 1 then
          seqio (account_decrement E (uid fromUser) Bnb_amount amountBNB)
          (account_increment E (uid toUser) Bnb_amount amountBNB)
        else ret ())))))"

text \<open>The body of the loop over the logs. \<open>return\<close> inside it leaves the whole function.\<close>

definition erc20_event ::
  "'w env \<Rightarrow> chain_tx \<Rightarrow> receipt \<Rightarrow> nat \<Rightarrow> string \<Rightarrow> event \<Rightarrow> ('w, flow) io" where
  "erc20_event E tx receipt decimal tokenSymbol event =
     (let amountUSDT = formatUnits E (ev_value event) decimal in
     bindio (findUserByAddress E (ev_from event)) (\<lambda>from.
     case from of None \<Rightarrow> ret Return | Some fromUser \<Rightarrow>
     bindio (findUserByAddress E (ev_to event)) (\<lambda>dest.
     case dest of None \<Rightarrow> ret Return | Some toUser \<Rightarrow>
     bindio (transaction_findOne E (hash tx)) (\<lambda>existingTx.
     if existingTx \<noteq> None then ret Return
     else
       seqio (transaction_save E
         \<lparr>tx_hash = hash tx, block_number = blockNumber tx, from_address = ev_from event,
          to_address = ev_to event, tx_value = amountUSDT, token_decimals = decimal,
          token_address = ev_address event, token_symbol = Some tokenSymbol,
          tx_status = rc_status receipt\<rparr>)
       (if rc_status receipt = 1 then
          seqio (account_decrement E (uid fromUser) Usdt_amount amountUSDT)
          (seqio (account_increment E (uid toUser) Usdt_amount amountUSDT)
          (ret Next))
        else ret Next)))))"

definition erc20_log ::
  "'w env \<Rightarrow> config \<Rightarrow> chain_tx \<Rightarrow> receipt \<Rightarrow> nat \<Rightarrow> string \<Rightarrow> chain_log \<Rightarrow> ('w, flow) io" where
  "erc20_log E cfg tx receipt decimal tokenSymbol lg =
     (if toLowerCase (log_address lg) = toLowerCase (usdtAddress cfg) then
        catchio
          (case parseLog E lg of
             Inl e \<Rightarrow> throw e
           | Inr None \<Rightarrow> throw (TypeError ''Cannot read properties of null'')
           | Inr (Some event) \<Rightarrow>
               if ev_name event = ''Transfer'' \<and>
                  (toLowerCase (ev_from event) = toLowerCase (projectAddress cfg) \<or>
                   toLowerCase (ev_to event) = toLowerCase (projectAddress cfg))
               then erc20_event E tx receipt decimal tokenSymbol event
               else ret Next)
          (\<lambda>_. ret Next)
      else ret Next)"

definition processERC20Transfer ::
  "'w env \<Rightarrow> config \<Rightarrow> chain_tx \<Rightarrow> receipt \<Rightarrow> ('w, unit) io" where
  "processERC20Transfer E cfg tx receipt =
     catchio
       (bindio (decimals E) (\<lambda>decimal.
        bindio (symbol E) (\<lambda>tokenSymbol.
        bindio (foreach_ret (rc_logs receipt) (erc20_log E cfg tx receipt decimal tokenSymbol)) (\<lambda>_.
        ret ()))))
       (\<lambda>_. ret ())"

section \<open>Transactions and blocks\<close>

definition tx_body :: "'w env \<Rightarrow> config \<Rightarrow> chain_tx \<Rightarrow> ('w, unit) io" where
  "tx_body E cfg tx =
     bindio (getTransactionReceipt E (hash tx)) (\<lambda>rc.
     case rc of None \<Rightarrow> throw (TypeError ''Cannot read properties of null'') | Some receipt \<Rightarrow>
     (let gasFeeBNB = formatUnits E (rc_fee receipt) 18 in
     bindio (findUserByAddress E (tx_from tx)) (\<lambda>user.
     case user of None \<Rightarrow> ret () | Some fromUser \<Rightarrow>
     seqio (account_decrement E (uid fromUser) Bnb_amount gasFeeBNB)
     (if \<not> truthy (tx_to tx) then ret ()
      else if tx_data tx = ''0x'' \<and> 0 < tx_wei tx then processBNBTransfer E tx receipt
      else if tx_data tx \<noteq> ''0x'' then processERC20Transfer E cfg tx receipt
      else ret ()))))"

definition processTransaction :: "'w env \<Rightarrow> config \<Rightarrow> chain_tx \<Rightarrow> ('w, unit) io" where
  "processTransaction E cfg tx =
     bindio (isTxProcessing E (hash tx)) (\<lambda>busy.
     if truthy busy then ret ()
     else
       seqio (setTxProcessing E (hash tx))
       (finallyio (catchio (tx_body E cfg tx) (\<lambda>_. ret ())) (removeTxProcessing E (hash tx))))"

definition relevant :: "config \<Rightarrow> chain_tx \<Rightarrow> bool" where
  "relevant cfg tx =
     (let isFromProject = toLowerCase (tx_from tx) = toLowerCase (projectAddress cfg);
          isToProject = truthy (tx_to tx) \<and> toLowerCase (the (tx_to tx)) = toLowerCase (projectAddress cfg);
          isToContract = truthy (tx_to tx) \<and> toLowerCase (the (tx_to tx)) = toLowerCase (usdtAddress cfg)
      in isFromProject \<or> isToProject \<or> isToContract)"

definition processBlock :: "'w env \<Rightarrow> config \<Rightarrow> int \<Rightarrow> ('w, unit) io" where
  "processBlock E cfg n =
     catchio
       (bindio (getBlock E n) (\<lambda>b.
        case b of
          None \<Rightarrow> throw (TypeError ''Cannot read properties of null'')
        | Some block \<Rightarrow> foreach (prefetchedTransactions block) (\<lambda>tx.
            if relevant cfg tx then processTransaction E cfg tx else ret ())))
       (\<lambda>_. ret ())"

text \<open>The loop of \<open>processBlocks\<close>: every block after \<open>lastBlock\<close> up to \<open>confirmedBlock\<close>. A
  comparison with \<open>NaN\<close> (\<open>None\<close>) is false, so neither the early return nor the loop is taken.\<close>

definition process_range :: "'w env \<Rightarrow> config \<Rightarrow> int \<Rightarrow> int \<Rightarrow> ('w, unit) io" where
  "process_range E cfg lo hi =
     foreach [lo..hi] (\<lambda>n. seqio (processBlock E cfg n) (setLastProcessedBlock E n))"

definition scan_body :: "'w env \<Rightarrow> config \<Rightarrow> ('w, unit) io" where
  "scan_body E cfg =
     bindio (getBlockNumber E) (\<lambda>currentBlock.
     bindio (getLastProcessedBlock E) (\<lambda>last.
     case (Option.bind last parseInt, setting_num (confirmationBlocks cfg)) of
       (Some lastBlock, Some conf) \<Rightarrow>
         (let confirmedBlock = currentBlock - conf in
          if lastBlock \<ge> confirmedBlock then ret ()
          else process_range E cfg (lastBlock + 1) confirmedBlock)
     | _ \<Rightarrow> ret ()))"

record 'w parser =
  isProcessing :: bool
  world :: 'w

definition on_world :: "('w, 'a) io \<Rightarrow> ('w parser, 'a) io" where
  "on_world m = (\<lambda>p. case m (world p) of (r, w') \<Rightarrow> (r, p\<lparr>world := w'\<rparr>))"

definition set_processing :: "bool \<Rightarrow> ('w parser, unit) io" where
  "set_processing b = (\<lambda>p. (Inr (), p\<lparr>isProcessing := b\<rparr>))"

definition processBlocks :: "'w env \<Rightarrow> config \<Rightarrow> ('w parser, unit) io" where
  "processBlocks E cfg = (\<lambda>p.
     if isProcessing p then ret () p
     else
       seqio (set_processing True)
       (finallyio (catchio (on_world (scan_body E cfg)) (\<lambda>_. ret ())) (set_processing False)) p)"

definition start :: "'w env \<Rightarrow> config \<Rightarrow> ('w, unit) io" where
  "start E cfg =
     bindio (getLastProcessedBlock E) (\<lambda>lastBlock.
     seqio
       (if \<not> truthy lastBlock
        then bindio (getBlockNumber E) (\<lambda>n. setLastProcessedBlock E (n - 100))
        else ret ())
       (setInterval E ProcessBlocks (scanInterval cfg)))"

end
