(* ===== verification/Parser_Spec.thy ===== *)
theory Parser_Spec
  imports Block_Parser
begin

text \<open>
  What the block parser promises. The abstract state is the ledger: the tables without Redis.
  \<open>tx_spec\<close>, \<open>block_spec\<close> and \<open>scan_spec\<close> say what a transaction, a block and a scan do to the
  ledger when no call fails; the refinement lemmas show that the code does just that, for every
  \<open>steady_ledger\<close>. The invariants about locks, cache and block pointer hold for every \<open>ledger\<close>,
  whatever calls fail.
\<close>

section \<open>Keys\<close>

lemma keys_distinct [simp]:
  "tx_key h \<noteq> last_block_key" "last_block_key \<noteq> tx_key h"
  "user_key a \<noteq> last_block_key" "last_block_key \<noteq> user_key a"
  "tx_key h \<noteq> user_key a" "user_key a \<noteq> tx_key h"
  by (simp_all add: tx_key_def user_key_def last_block_key_def)

lemma key_inject [simp]: "tx_key h = tx_key h' \<longleftrightarrow> h = h'" "user_key a = user_key a' \<longleftrightarrow> a = a'"
  by (simp_all add: tx_key_def user_key_def)

section \<open>The abstract ledger\<close>

definition ledger_of :: "db \<Rightarrow> db" where
  "ledger_of d = d\<lparr>redis := Map.empty\<rparr>"

definition cache_ok :: "db \<Rightarrow> bool" where
  "cache_ok d \<longleftrightarrow> (\<forall>adr s. redis d (user_key adr) = Some s \<longrightarrow>
     (\<exists>a. find_account adr d = Some a \<and> s = show_int (acc_id a)))"

lemma ledger_of_simps [simp]:
  "ledger_of (d\<lparr>redis := r\<rparr>) = ledger_of d"
  "accounts (ledger_of d) = accounts d" "transactions (ledger_of d) = transactions d"
  "find_account adr (ledger_of d) = find_account adr d"
  "find_transaction h (ledger_of d) = find_transaction h d"
  "ledger_of (ledger_of d) = ledger_of d"
  by (simp_all add: ledger_of_def find_account_def find_transaction_def)

lemma ledger_of_add [simp]: "ledger_of (db_add cast i c x d) = db_add cast i c x (ledger_of d)"
  by (simp add: ledger_of_def db_add_def)

lemma ledger_of_tx [simp]:
  "ledger_of (d\<lparr>transactions := ts\<rparr>) = (ledger_of d)\<lparr>transactions := ts\<rparr>"
  by (simp add: ledger_of_def)

lemma acc_set_column [simp]:
  "acc_id (set_column c x a) = acc_id a" "address (set_column c x a) = address a"
  "column_of c (set_column c x a) = x"
  by (cases c; simp)+

lemma redis_db_add [simp]: "redis (db_add cast i c x d) = redis d"
  and transactions_db_add [simp]: "transactions (db_add cast i c x d) = transactions d"
  and find_tx_db_add [simp]: "find_transaction h (db_add cast i c x d) = find_transaction h d"
  by (simp_all add: db_add_def find_transaction_def)

lemma find_tx_insert:
  "find_transaction h (d\<lparr>transactions := transactions d @ [t]\<rparr>) =
     (case find_transaction h d of None \<Rightarrow> if tx_hash t = h then Some t else None | Some x \<Rightarrow> Some x)"
proof -
  have "find P (xs @ [y]) = (case find P xs of None \<Rightarrow> if P y then Some y else None | Some z \<Rightarrow> Some z)"
    for P xs and y :: transaction by (induction xs) auto
  then show ?thesis by (simp add: find_transaction_def)
qed

lemma find_tx_appended [simp]:
  "tx_hash t = h \<Longrightarrow> \<exists>y. find_transaction h (d\<lparr>transactions := ts @ [t]\<rparr>) = Some y"
proof -
  assume "tx_hash t = h"
  then have "find (\<lambda>t. tx_hash t = h) (ts @ [t]) \<noteq> None" by (auto simp: find_None_iff)
  then show ?thesis by (simp add: find_transaction_def)
qed

lemma find_map_account:
  "(\<And>a. address (f a) = address a) \<Longrightarrow>
   find (\<lambda>a. address a = adr) (map f xs) = map_option f (find (\<lambda>a. address a = adr) xs)"
  for f :: "account \<Rightarrow> account"
  by (induction xs) auto

lemma find_account_db_add:
  "find_account adr (db_add cast i c x d) =
     map_option (\<lambda>a. if Some (acc_id a) = i then set_column c (cast c (column_of c a + x)) a else a)
       (find_account adr d)"
  by (simp add: find_account_def db_add_def find_map_account)

lemma find_account_db_add_id [simp]:
  "map_option acc_id (find_account adr (db_add cast i c x d)) = map_option acc_id (find_account adr d)"
  by (simp add: find_account_db_add option.map_comp comp_def if_distrib cong: if_cong)

lemma find_account_cong [simp]:
  "find_account adr (d\<lparr>redis := r\<rparr>) = find_account adr d"
  "find_account adr (d\<lparr>transactions := ts\<rparr>) = find_account adr d"
  "find_transaction h (d\<lparr>redis := r\<rparr>) = find_transaction h d"
  by (simp_all add: find_account_def find_transaction_def)

definition account_id_of :: "string \<Rightarrow> db \<Rightarrow> int option" where
  "account_id_of adr d = map_option acc_id (find_account adr d)"

lemma account_id_of_simps [simp]:
  "account_id_of adr (d\<lparr>redis := r\<rparr>) = account_id_of adr d"
  "account_id_of adr (d\<lparr>transactions := ts\<rparr>) = account_id_of adr d"
  "account_id_of adr (db_add cast i c x d) = account_id_of adr d"
  "account_id_of adr (ledger_of d) = account_id_of adr d"
  by (simp_all add: account_id_of_def)

lemma cache_ok_iff:
  "cache_ok d \<longleftrightarrow> (\<forall>adr s. redis d (user_key adr) = Some s \<longrightarrow>
     (\<exists>i. account_id_of adr d = Some i \<and> s = show_int i))"
  by (simp add: cache_ok_def account_id_of_def) metis

lemma cache_ok_simps [simp]:
  "cache_ok (d\<lparr>transactions := ts\<rparr>) = cache_ok d"
  "cache_ok (db_add cast i c x d) = cache_ok d"
  by (simp_all add: cache_ok_iff)

lemma cache_ok_other_key [simp]:
  "(\<And>a. k \<noteq> user_key a) \<Longrightarrow> cache_ok (d\<lparr>redis := (redis d)(k := y)\<rparr>) = cache_ok d"
proof -
  assume "\<And>a. k \<noteq> user_key a"
  then have "\<And>a. user_key a \<noteq> k" by metis
  then show ?thesis by (simp add: cache_ok_iff)
qed

text \<open>The state after a lookup: the id of a known address is in the cache.\<close>

definition touch :: "string \<Rightarrow> db \<Rightarrow> db" where
  "touch adr d = (case account_id_of adr d of None \<Rightarrow> d | Some i \<Rightarrow>
     d\<lparr>redis := (redis d)(user_key adr \<mapsto> show_int i)\<rparr>)"

lemma touch_simps [simp]:
  "ledger_of (touch adr d) = ledger_of d" "account_id_of a (touch adr d) = account_id_of a d"
  "find_transaction h (touch adr d) = find_transaction h d"
  "transactions (touch adr d) = transactions d"
  "redis (touch adr d) (tx_key h) = redis d (tx_key h)"
  "redis (touch adr d) last_block_key = redis d last_block_key"
  by (simp_all add: touch_def split: option.split)

lemma cache_ok_touch [simp]: "cache_ok d \<Longrightarrow> cache_ok (touch adr d)"
  by (auto simp: touch_def cache_ok_iff split: option.split)

definition user_of :: "string \<Rightarrow> db \<Rightarrow> user_ref option" where
  "user_of adr d = map_option (\<lambda>i. \<lparr>uid = Some i, uaddress = adr\<rparr>) (account_id_of adr d)"

section \<open>Lookups\<close>

context steady_ledger
begin

lemma find_user_runs:
  assumes "cache_ok d"
  shows "runs v d (findUserByAddress E adr) (\<lambda>r s. r = user_of adr d \<and> s = touch adr d) R"
proof (cases "redis d (user_key adr)")
  case (Some s)
  then obtain i where i: "account_id_of adr d = Some i" "s = show_int i"
    using assms by (auto simp: cache_ok_iff)
  have "touch adr d = d" using i Some by (simp add: touch_def fun_upd_idem)
  then show ?thesis
    unfolding findUserByAddress_def getCachedUserByAddress_def
    by (intro runs_reading [OF redis_get] disjI1 totals)
      (simp add: Some i user_of_def runs_ret)
next
  case None
  show ?thesis
  proof (cases "find_account adr d")
    case None
    with \<open>redis d (user_key adr) = None\<close> show ?thesis
      unfolding findUserByAddress_def getCachedUserByAddress_def
      by (intro runs_reading [OF redis_get] disjI1 totals)
        (simp, intro runs_reading [OF account_findOne] disjI1 totals,
          simp add: runs_ret user_of_def touch_def account_id_of_def)
  next
    case (Some a)
    then have a: "address a = adr" by (auto simp: find_account_def find_Some_iff)
    from Some None a show ?thesis
      unfolding findUserByAddress_def getCachedUserByAddress_def cacheUserAddress_def
      by (intro runs_reading [OF redis_get] disjI1 totals)
        (simp, intro runs_reading [OF account_findOne] disjI1 totals, simp,
          intro runs_writing [OF redis_setex] disjI1 totals,
          simp add: runs_ret user_of_def touch_def account_id_of_def)
  qed
qed

end

section \<open>Specification of transactions, blocks and scans\<close>

definition move_funds :: "(column \<Rightarrow> rat \<Rightarrow> rat) \<Rightarrow> column \<Rightarrow> int \<Rightarrow> int \<Rightarrow> rat \<Rightarrow> db \<Rightarrow> db" where
  "move_funds cast c i j x d = db_add cast (Some j) c x (db_add cast (Some i) c (- x) d)"

definition bnb_row :: "'w env \<Rightarrow> chain_tx \<Rightarrow> receipt \<Rightarrow> transaction" where
  "bnb_row E tx rc = \<lparr>tx_hash = hash tx, block_number = blockNumber tx,
     from_address = tx_from tx, to_address = the (tx_to tx), tx_value = formatUnits E (tx_wei tx) 18,
     token_decimals = 18, token_address = None, token_symbol = Some ''BNB'', tx_status = rc_status rc\<rparr>"

definition erc20_row ::
  "'w env \<Rightarrow> nat \<Rightarrow> string \<Rightarrow> chain_tx \<Rightarrow> receipt \<Rightarrow> event \<Rightarrow> transaction" where
  "erc20_row E n sy tx rc ev = \<lparr>tx_hash = hash tx, block_number = blockNumber tx,
     from_address = ev_from ev, to_address = ev_to ev, tx_value = formatUnits E (ev_value ev) n,
     token_decimals = n, token_address = ev_address ev, token_symbol = Some sy,
     tx_status = rc_status rc\<rparr>"

text \<open>Record a transfer once, and move the funds if the transaction succeeded.\<close>

definition record_transfer ::
  "(column \<Rightarrow> rat \<Rightarrow> rat) \<Rightarrow> column \<Rightarrow> transaction \<Rightarrow> int \<Rightarrow> int \<Rightarrow> db \<Rightarrow> db" where
  "record_transfer cast c row i j d =
     (let d1 = d\<lparr>transactions := transactions d @ [row]\<rparr>
      in if tx_status row = 1 then move_funds cast c i j (tx_value row) d1 else d1)"

definition bnb_spec :: "'w env \<Rightarrow> (column \<Rightarrow> rat \<Rightarrow> rat) \<Rightarrow> chain_tx \<Rightarrow> receipt \<Rightarrow> db \<Rightarrow> db" where
  "bnb_spec E cast tx rc d =
     (case (account_id_of (tx_from tx) d, account_id_of (the (tx_to tx)) d) of
        (Some i, Some j) \<Rightarrow>
          if find_transaction (hash tx) d \<noteq> None then d
          else record_transfer cast Bnb_amount (bnb_row E tx rc) i j d
      | _ \<Rightarrow> d)"

definition transfer_event :: "'w env \<Rightarrow> config \<Rightarrow> chain_log \<Rightarrow> event option" where
  "transfer_event E cfg lg =
     (if toLowerCase (log_address lg) = toLowerCase (usdtAddress cfg) then
        (case parseLog E lg of
           Inr (Some ev) \<Rightarrow>
             if ev_name ev = ''Transfer'' \<and>
                (toLowerCase (ev_from ev) = toLowerCase (projectAddress cfg) \<or>
                 toLowerCase (ev_to ev) = toLowerCase (projectAddress cfg))
             then Some ev else None
         | _ \<Rightarrow> None)
      else None)"

text \<open>Only the first relevant event of a transaction counts: after it the hash is recorded.\<close>

fun erc20_spec ::
  "'w env \<Rightarrow> (column \<Rightarrow> rat \<Rightarrow> rat) \<Rightarrow> nat \<Rightarrow> string \<Rightarrow> chain_tx \<Rightarrow> receipt \<Rightarrow> event list \<Rightarrow> db \<Rightarrow> db" where
  "erc20_spec E cast n sy tx rc [] d = d"
| "erc20_spec E cast n sy tx rc (ev # _) d =
     (case (account_id_of (ev_from ev) d, account_id_of (ev_to ev) d) of
        (Some i, Some j) \<Rightarrow>
          if find_transaction (hash tx) d \<noteq> None then d
          else record_transfer cast Usdt_amount (erc20_row E n sy tx rc ev) i j d
      | _ \<Rightarrow> d)"

definition events_of :: "'w env \<Rightarrow> config \<Rightarrow> receipt \<Rightarrow> event list" where
  "events_of E cfg rc = List.map_filter (transfer_event E cfg) (rc_logs rc)"

definition tx_spec ::
  "'w env \<Rightarrow> (column \<Rightarrow> rat \<Rightarrow> rat) \<Rightarrow> (string \<Rightarrow> receipt option) \<Rightarrow> nat \<Rightarrow> string \<Rightarrow> config \<Rightarrow> chain_tx \<Rightarrow> db \<Rightarrow> db" where
  "tx_spec E cast receipt_of n sy cfg tx d =
     (case (receipt_of (hash tx), account_id_of (tx_from tx) d) of
        (Some rc, Some i) \<Rightarrow>
          (let d1 = db_add cast (Some i) Bnb_amount (- formatUnits E (rc_fee rc) 18) d in
           if \<not> truthy (tx_to tx) then d1
           else if tx_data tx = ''0x'' \<and> 0 < tx_wei tx then bnb_spec E cast tx rc d1
           else if tx_data tx \<noteq> ''0x'' then erc20_spec E cast n sy tx rc (events_of E cfg rc) d1
           else d1)
      | _ \<Rightarrow> d)"

definition block_spec ::
  "'w env \<Rightarrow> (column \<Rightarrow> rat \<Rightarrow> rat) \<Rightarrow> (int \<Rightarrow> block option) \<Rightarrow> (string \<Rightarrow> receipt option) \<Rightarrow> nat \<Rightarrow> string \<Rightarrow>
   config \<Rightarrow> int \<Rightarrow> db \<Rightarrow> db" where
  "block_spec E cast blocks receipt_of n sy cfg b d =
     (case blocks b of None \<Rightarrow> d | Some bl \<Rightarrow>
        fold (tx_spec E cast receipt_of n sy cfg) (filter (relevant cfg) (prefetchedTransactions bl)) d)"

section \<open>The code refines the specification\<close>

definition quiet :: "db \<Rightarrow> bool" where
  "quiet d \<longleftrightarrow> cache_ok d \<and> (\<forall>h. redis d (tx_key h) = None)"

definition same_keys :: "db \<Rightarrow> db \<Rightarrow> bool" where
  "same_keys d s \<longleftrightarrow> cache_ok s \<and> redis s last_block_key = redis d last_block_key \<and>
     (\<forall>h. redis s (tx_key h) = redis d (tx_key h))"

lemma same_keys_refl: "cache_ok d \<Longrightarrow> same_keys d d"
  and same_keys_trans: "same_keys d s \<Longrightarrow> same_keys s t \<Longrightarrow> same_keys d t"
  by (simp_all add: same_keys_def)

lemma same_keys_steps [simp]:
  "cache_ok d \<Longrightarrow> same_keys d (touch adr d)"
  "same_keys d (db_add cast i c x s) = same_keys d s"
  "same_keys (db_add cast i c x d) s = same_keys d s"
  "same_keys d (s\<lparr>transactions := ts\<rparr>) = same_keys d s"
  by (simp_all add: same_keys_def)

lemma same_keys_touch [simp]: "same_keys d s \<Longrightarrow> same_keys d (touch adr s)"
  by (simp add: same_keys_def)

lemma formatUnits_row [simp]:
  "tx_value (bnb_row E tx rc) = formatUnits E (tx_wei tx) 18"
  "tx_status (bnb_row E tx rc) = rc_status rc" "tx_hash (bnb_row E tx rc) = hash tx"
  "tx_value (erc20_row E n sy tx rc ev) = formatUnits E (ev_value ev) n"
  "tx_status (erc20_row E n sy tx rc ev) = rc_status rc" "tx_hash (erc20_row E n sy tx rc ev) = hash tx"
  by (simp_all add: bnb_row_def erc20_row_def)

context steady_ledger
begin

lemmas steps = runs_bind [OF find_user_runs] runs_reading [OF transaction_findOne]
  runs_option runs_if runs_save_tx runs_writing [OF account_decrement]
  runs_writing [OF account_increment] runs_write [OF account_increment] runs_ret disjI1 totals

lemma bnb_runs:
  assumes "cache_ok d"
  shows "runs v d (processBNBTransfer E tx rc)
    (\<lambda>_ s. ledger_of s = bnb_spec E cast tx rc (ledger_of d) \<and> same_keys d s) R"
  unfolding processBNBTransfer_def Let_def
  by (intro steps)
    (use assms in \<open>auto simp: bnb_spec_def user_of_def record_transfer_def move_funds_def
      bnb_row_def split: option.splits\<close>)

lemma erc20_spec_recorded [simp]:
  "find_transaction (hash tx) d \<noteq> None \<Longrightarrow> erc20_spec E cast n sy' tx rc evs d = d"
  by (cases evs) (auto split: option.split)

lemma erc20_event_runs:
  assumes "cache_ok d"
  shows "runs v d (erc20_event E tx rc n sy' ev)
    (\<lambda>r s. ledger_of s = erc20_spec E cast n sy' tx rc [ev] (ledger_of d) \<and> same_keys d s \<and>
       (r = Next \<longrightarrow> find_transaction (hash tx) s \<noteq> None)) R"
  unfolding erc20_event_def Let_def
  by (intro steps)
    (use assms in \<open>auto simp: user_of_def record_transfer_def move_funds_def erc20_row_def find_tx_insert
      split: option.splits\<close>)

lemma erc20_log_runs:
  assumes "cache_ok d"
  shows "runs v d (erc20_log E cfg tx rc n sy' lg)
    (\<lambda>r s. ledger_of s = erc20_spec E cast n sy' tx rc (List.map_filter (transfer_event E cfg) [lg]) (ledger_of d) \<and>
       same_keys d s \<and>
       (r = Next \<longrightarrow> transfer_event E cfg lg \<noteq> None \<longrightarrow> find_transaction (hash tx) s \<noteq> None)) R"
proof (cases "transfer_event E cfg lg")
  case None
  have "runs v d (erc20_log E cfg tx rc n sy' lg) (\<lambda>r s. s = d) R"
    unfolding erc20_log_def
    by (rule runs_if, rule runs_catch [where A = "\<lambda>s. s = d"])
      (use None in \<open>auto simp: transfer_event_def intro!: runs_ret runs_throw split: sum.splits option.splits if_splits\<close>)
  then show ?thesis
    by (rule runs_conseq) (use None assms in \<open>auto simp: List.map_filter_def same_keys_refl\<close>)
next
  case (Some ev)
  then have "erc20_log E cfg tx rc n sy' lg = catchio (erc20_event E tx rc n sy' ev) (\<lambda>_. ret Next)"
    by (auto simp: transfer_event_def erc20_log_def split: if_splits sum.splits option.splits)
  with Some show ?thesis
    by (simp add: List.map_filter_def)
      (rule runs_catch [where A = "\<lambda>_. False"], rule runs_conseq [OF erc20_event_runs [OF assms]], auto)
qed

lemma erc20_logs_recorded:
  assumes "cache_ok d" and "find_transaction (hash tx) d \<noteq> None"
  shows "runs v d (foreach_ret ls (erc20_log E cfg tx rc n sy'))
    (\<lambda>_ s. ledger_of s = ledger_of d \<and> same_keys d s) R"
  using assms
proof (induction ls arbitrary: d)
  case Nil
  then show ?case by (simp add: runs_ret same_keys_refl)
next
  case (Cons l ls)
  show ?case unfolding foreach_ret.simps
  proof (rule runs_bind_all [OF erc20_log_runs [OF Cons.prems(1)]])
    fix r s
    assume "ledger_of s = erc20_spec E cast n sy' tx rc (List.map_filter (transfer_event E cfg) [l]) (ledger_of d) \<and>
       same_keys d s \<and> (r = Next \<longrightarrow> transfer_event E cfg l \<noteq> None \<longrightarrow> find_transaction (hash tx) s \<noteq> None)"
    then have s: "ledger_of s = ledger_of d" "same_keys d s" using Cons.prems(2) by simp_all
    then have "find_transaction (hash tx) s \<noteq> None" "cache_ok s"
      using Cons.prems(2) ledger_of_simps(5) by (metis, simp add: same_keys_def)
    from Cons.IH [OF this(2,1)]
    have "runs v s (foreach_ret ls (erc20_log E cfg tx rc n sy')) (\<lambda>_ t. ledger_of t = ledger_of d \<and> same_keys d t) R"
      by (rule runs_conseq) (use s in \<open>auto intro: same_keys_trans\<close>)
    with s show "runs v s (case r of Next \<Rightarrow> foreach_ret ls (erc20_log E cfg tx rc n sy') | Return \<Rightarrow> ret Return)
      (\<lambda>_ t. ledger_of t = ledger_of d \<and> same_keys d t) R"
      by (cases r) (auto intro: runs_ret)
  qed
qed

lemma erc20_logs_runs:
  assumes "cache_ok d"
  shows "runs v d (foreach_ret ls (erc20_log E cfg tx rc n sy'))
    (\<lambda>_ s. ledger_of s = erc20_spec E cast n sy' tx rc (List.map_filter (transfer_event E cfg) ls) (ledger_of d) \<and>
       same_keys d s) R"
proof (induction ls)
  case Nil
  then show ?case using assms by (simp add: runs_ret same_keys_refl List.map_filter_def)
next
  case (Cons l ls)
  show ?case
  proof (cases "transfer_event E cfg l")
    case None
    have "runs v d (erc20_log E cfg tx rc n sy' l) (\<lambda>r s. r = Next \<and> s = d) R"
      unfolding erc20_log_def
      by (rule runs_if, rule runs_catch [where A = "\<lambda>s. s = d"])
        (use None in \<open>auto simp: transfer_event_def intro!: runs_ret runs_throw split: sum.splits option.splits if_splits\<close>)
    with Cons None show ?thesis by (simp add: List.map_filter_def) (rule runs_bind, auto)
  next
    case (Some ev)
    show ?thesis unfolding foreach_ret.simps
    proof (rule runs_bind_all [OF erc20_log_runs [OF assms]])
      fix r s
      assume "ledger_of s = erc20_spec E cast n sy' tx rc (List.map_filter (transfer_event E cfg) [l]) (ledger_of d) \<and>
         same_keys d s \<and> (r = Next \<longrightarrow> transfer_event E cfg l \<noteq> None \<longrightarrow> find_transaction (hash tx) s \<noteq> None)"
      with Some have s: "ledger_of s = erc20_spec E cast n sy' tx rc (List.map_filter (transfer_event E cfg) (l # ls)) (ledger_of d)"
        "same_keys d s" "r = Next \<Longrightarrow> find_transaction (hash tx) s \<noteq> None"
        by (simp_all add: List.map_filter_def)
      then show "runs v s (case r of Next \<Rightarrow> foreach_ret ls (erc20_log E cfg tx rc n sy') | Return \<Rightarrow> ret Return)
        (\<lambda>_ t. ledger_of t = erc20_spec E cast n sy' tx rc (List.map_filter (transfer_event E cfg) (l # ls)) (ledger_of d) \<and>
          same_keys d t) R"
        using runs_conseq [OF erc20_logs_recorded [of s tx ls cfg rc n sy']]
        by (cases r) (auto intro: runs_ret same_keys_trans simp: same_keys_def)
    qed
  qed
qed

lemma erc20_runs:
  assumes "cache_ok d"
  shows "runs v d (processERC20Transfer E cfg tx rc)
    (\<lambda>_ s. ledger_of s = erc20_spec E cast dec sy tx rc (events_of E cfg rc) (ledger_of d) \<and> same_keys d s) R"
  unfolding processERC20Transfer_def events_of_def
  by (rule runs_catch [where A = "\<lambda>_. False"], rule runs_returning [OF decimals dec],
      rule runs_returning [OF symbol sy], rule runs_bind_all [OF erc20_logs_runs [OF assms]])
    (auto intro: runs_ret)

lemma tx_body_runs:
  assumes "cache_ok d"
  shows "runs v d (catchio (tx_body E cfg tx) (\<lambda>_. ret ()))
    (\<lambda>_ s. ledger_of s = tx_spec E cast receipt_of dec sy cfg tx (ledger_of d) \<and> same_keys d s) R"
proof (cases "receipt_of (hash tx)")
  case None
  show ?thesis
    unfolding tx_body_def
    by (rule runs_catch [where A = "\<lambda>s. s = d"], rule runs_returning [OF getTransactionReceipt receipt_of])
      (use None assms in \<open>auto intro!: runs_throw runs_ret simp: tx_spec_def same_keys_refl\<close>)
next
  case (Some rc)
  let ?gas = "formatUnits E (rc_fee rc) 18"
  let ?rest = "if \<not> truthy (tx_to tx) then ret ()
     else if tx_data tx = ''0x'' \<and> 0 < tx_wei tx then processBNBTransfer E tx rc
     else if tx_data tx \<noteq> ''0x'' then processERC20Transfer E cfg tx rc else ret ()"
  have "runs v d (tx_body E cfg tx)
    (\<lambda>_ s. ledger_of s = tx_spec E cast receipt_of dec sy cfg tx (ledger_of d) \<and> same_keys d s) (\<lambda>_. False)"
    unfolding tx_body_def
  proof (rule runs_returning [OF getTransactionReceipt receipt_of], simp only: Some option.case Let_def,
      rule runs_bind [OF find_user_runs [OF assms]], rule runs_option)
    assume "user_of (tx_from tx) d = None"
    with Some assms show "runs v (touch (tx_from tx) d) (ret ())
      (\<lambda>_ s. ledger_of s = tx_spec E cast receipt_of dec sy cfg tx (ledger_of d) \<and> same_keys d s) (\<lambda>_. False)"
      by (simp add: runs_ret tx_spec_def user_of_def)
  next
    fix u assume u: "user_of (tx_from tx) d = Some u"
    then obtain i where i: "account_id_of (tx_from tx) d = Some i" "uid u = Some i"
      by (auto simp: user_of_def)
    let ?s = "db_add cast (Some i) Bnb_amount (- ?gas) (touch (tx_from tx) d)"
    have "runs v ?s ?rest
      (\<lambda>_ s. ledger_of s = tx_spec E cast receipt_of dec sy cfg tx (ledger_of d) \<and> same_keys ?s s) (\<lambda>_. False)"
      by (intro runs_if runs_ret runs_conseq [OF bnb_runs] runs_conseq [OF erc20_runs])
        (use assms i Some in \<open>auto simp: tx_spec_def same_keys_refl\<close>)
    then have "runs v ?s ?rest
      (\<lambda>_ s. ledger_of s = tx_spec E cast receipt_of dec sy cfg tx (ledger_of d) \<and> same_keys d s) (\<lambda>_. False)"
      by (rule runs_conseq) (use assms in \<open>auto simp: same_keys_def\<close>)
    then show "runs v (touch (tx_from tx) d) (seqio (account_decrement E (uid u) Bnb_amount ?gas) ?rest)
      (\<lambda>_ s. ledger_of s = tx_spec E cast receipt_of dec sy cfg tx (ledger_of d) \<and> same_keys d s) (\<lambda>_. False)"
      unfolding i by (rule runs_writing [OF account_decrement disjI1 [OF totals(9)]])
  qed
  then show ?thesis by (rule runs_catch) simp
qed

lemma transaction_runs:
  assumes "quiet d"
  shows "runs v d (processTransaction E cfg tx)
    (\<lambda>_ s. ledger_of s = tx_spec E cast receipt_of dec sy cfg tx (ledger_of d) \<and> quiet s \<and>
       redis s last_block_key = redis d last_block_key) R"
proof -
  let ?d1 = "d\<lparr>redis := (redis d)(tx_key (hash tx) \<mapsto> ''1'')\<rparr>"
  have q: "cache_ok d" "redis d (tx_key h) = None" for h using assms by (simp_all add: quiet_def)
  have c: "cache_ok ?d1" using q(1) by simp
  show ?thesis
    unfolding processTransaction_def isTxProcessing_def setTxProcessing_def removeTxProcessing_def
  proof (rule runs_reading [OF redis_get disjI1 [OF totals(2)]], simp add: q,
      rule runs_writing [OF redis_setex disjI1 [OF totals(4)]])
    show "runs v ?d1 (finallyio (catchio (tx_body E cfg tx) (\<lambda>_. ret ())) (redis_del E (tx_key (hash tx))))
      (\<lambda>_ s. ledger_of s = tx_spec E cast receipt_of dec sy cfg tx (ledger_of d) \<and> quiet s \<and>
         redis s last_block_key = redis d last_block_key) R"
    proof (rule triple_finally [OF tx_body_runs [OF c, where R = "\<lambda>_. False"]])
      show "triple v (\<lambda>s. ledger_of s = tx_spec E cast receipt_of dec sy cfg tx (ledger_of ?d1) \<and> same_keys ?d1 s)
        (redis_del E (tx_key (hash tx)))
        (\<lambda>_ s. ledger_of s = tx_spec E cast receipt_of dec sy cfg tx (ledger_of d) \<and> quiet s \<and>
          redis s last_block_key = redis d last_block_key) R"
        by (rule runs_all, rule runs_write [OF redis_del disjI1 [OF totals(5)]])
          (use q in \<open>auto simp: quiet_def same_keys_def\<close>)
    qed (simp add: triple_def)
  qed
qed

lemma fold_filter_if: "fold f (filter p xs) y = fold (\<lambda>x. if p x then f x else id) xs y"
  by (induction xs arbitrary: y) auto

lemma block_runs:
  assumes "quiet d"
  shows "runs v d (processBlock E cfg b)
    (\<lambda>_ s. ledger_of s = block_spec E cast blocks receipt_of dec sy cfg b (ledger_of d) \<and> quiet s \<and>
       redis s last_block_key = redis d last_block_key) R"
proof (cases "blocks b")
  case None
  show ?thesis
    unfolding processBlock_def
    by (rule runs_catch [where A = "\<lambda>s. s = d"], rule runs_returning [OF getBlock blocks])
      (use None assms in \<open>auto intro!: runs_throw runs_ret simp: block_spec_def\<close>)
next
  case (Some bl)
  let ?g = "\<lambda>tx. if relevant cfg tx then tx_spec E cast receipt_of dec sy cfg tx else id"
  let ?I = "\<lambda>s. quiet s \<and> redis s last_block_key = redis d last_block_key"
  have "runs v d (foreach (prefetchedTransactions bl)
      (\<lambda>tx. if relevant cfg tx then processTransaction E cfg tx else ret ()))
    (\<lambda>_ s. ledger_of s = fold ?g (prefetchedTransactions bl) (ledger_of d) \<and> ?I s) (\<lambda>_. False)"
    by (rule foreach_runs)
      (use assms in \<open>auto intro!: runs_if runs_ret runs_conseq [OF transaction_runs]\<close>)
  then have "runs v d (bindio (getBlock E b) (\<lambda>b'. case b' of
        None \<Rightarrow> throw (TypeError ''Cannot read properties of null'')
      | Some block \<Rightarrow> foreach (prefetchedTransactions block)
          (\<lambda>tx. if relevant cfg tx then processTransaction E cfg tx else ret ())))
    (\<lambda>_ s. ledger_of s = block_spec E cast blocks receipt_of dec sy cfg b (ledger_of d) \<and> ?I s) (\<lambda>_. False)"
    by (intro runs_returning [OF getBlock blocks]) (simp add: Some block_spec_def fold_filter_if)
  then show ?thesis unfolding processBlock_def by (rule runs_catch) simp
qed

end

end
