(* ===== verification/Parser_Faults.thy ===== *)
theory Parser_Faults
  imports Parser_Spec
begin

text \<open>
  What the block parser keeps when any of its calls may throw at any point. \<open>stable\<close> lists the
  writes the parser makes below the level of a block; \<open>block_keeps\<close> shows once, by going through
  the code, that every invariant closed under them survives a block, and the invariants about the
  block pointer, the locks and the user cache are instances.
\<close>

section \<open>Invariants closed under the parser's writes\<close>

definition stable :: "(column \<Rightarrow> rat \<Rightarrow> rat) \<Rightarrow> (string \<Rightarrow> bool) \<Rightarrow> (db \<Rightarrow> bool) \<Rightarrow> bool" where
  "stable cast locks I \<longleftrightarrow>
     (\<forall>d adr a. I d \<longrightarrow> find_account adr d = Some a \<longrightarrow>
        I (d\<lparr>redis := (redis d)(user_key adr \<mapsto> show_int (acc_id a))\<rparr>)) \<and>
     (\<forall>d i c x. I d \<longrightarrow> I (db_add cast i c x d)) \<and>
     (\<forall>d t. I d \<longrightarrow> I (d\<lparr>transactions := transactions d @ [t]\<rparr>)) \<and>
     (\<forall>d h y. locks h \<longrightarrow> I d \<longrightarrow> I (d\<lparr>redis := (redis d)(tx_key h := y)\<rparr>))"

lemma stable_pointer: "stable cast locks (\<lambda>d. redis d last_block_key = y)"
  by (simp add: stable_def)

lemma stable_other_lock: "\<not> locks h \<Longrightarrow> stable cast locks (\<lambda>d. redis d (tx_key h) = y)"
  by (auto simp: stable_def)

lemma stable_cache: "stable cast locks cache_ok"
  by (auto simp: stable_def cache_ok_iff account_id_of_def)

lemma processBlocks_world:
  "processBlocks E cfg p = (Inr (), if isProcessing p then p
     else p\<lparr>isProcessing := False, world := snd (scan_body E cfg (world p))\<rparr>)"
  by (simp add: processBlocks_def io_defs set_processing_def on_world_def split: prod.split sum.split)

context ledger
begin

lemma find_user_keeps:
  assumes "stable cast locks I"
  shows "keeps v I (findUserByAddress E adr)"
proof (rule runs_all)
  fix d assume d: "I d"
  have cached: "I (d\<lparr>redis := (redis d)(user_key adr \<mapsto> show_int (acc_id a))\<rparr>)"
    if "find_account adr d = Some a" for a
    using assms d that by (simp add: stable_def)
  show "runs v d (findUserByAddress E adr) (\<lambda>_. I) I"
    unfolding findUserByAddress_def getCachedUserByAddress_def cacheUserAddress_def
    by (intro runs_reading [OF redis_get] runs_reading [OF account_findOne] runs_if runs_option
        runs_writing [OF redis_setex] runs_ret disjI2 d cached) auto
qed

lemma erc20_log_keeps:
  assumes "stable cast locks I"
  shows "keeps v I (erc20_log E cfg tx rc n sy' lg)"
  unfolding erc20_log_def erc20_event_def Let_def
  by (intro keeps_intros find_user_keeps [OF assms] keeps_reading [OF transaction_findOne]
      keeps_writing [OF transaction_save] keeps_writing [OF account_increment]
      keeps_writing [OF account_decrement])
    (use assms in \<open>simp_all add: stable_def\<close>)

lemma tx_body_keeps:
  assumes "stable cast locks I"
  shows "keeps v I (tx_body E cfg tx)"
  unfolding tx_body_def processBNBTransfer_def processERC20Transfer_def Let_def
  by (intro keeps_intros find_user_keeps [OF assms] erc20_log_keeps [OF assms]
      keeps_reading [OF transaction_findOne] keeps_silent [OF getTransactionReceipt]
      keeps_silent [OF decimals] keeps_silent [OF symbol]
      keeps_writing [OF transaction_save] keeps_writing [OF account_increment]
      keeps_writing [OF account_decrement])
    (use assms in \<open>simp_all add: stable_def\<close>)

lemma transaction_keeps:
  assumes "stable cast locks I" and "locks (hash tx)"
  shows "keeps v I (processTransaction E cfg tx)"
  unfolding processTransaction_def isTxProcessing_def setTxProcessing_def removeTxProcessing_def
  by (intro keeps_intros tx_body_keeps [OF assms(1)] keeps_reading [OF redis_get]
      keeps_writing [OF redis_setex] keeps_writing [OF redis_del])
    (use assms in \<open>simp_all add: stable_def\<close>)

lemma block_keeps:
  assumes "stable cast (\<lambda>_. True) I"
  shows "keeps v I (processBlock E cfg n)"
  unfolding processBlock_def
  by (intro keeps_intros transaction_keeps [OF assms] keeps_silent [OF getBlock]) simp_all

lemma processBlock_returns: "\<exists>w'. processBlock E cfg n w = (Inr (), w')"
  by (auto simp: processBlock_def catchio_def ret_def split: prod.split sum.split)

lemma range_step:
  assumes "redis d last_block_key = Some (show_int k)"
  shows "runs v d (seqio (processBlock E cfg n) (setLastProcessedBlock E n))
    (\<lambda>_ s. redis s last_block_key = Some (show_int n)) (\<lambda>s. redis s last_block_key = Some (show_int k))"
  unfolding seqio_def setLastProcessedBlock_def
  by (rule runs_bind_all [OF triple_pre [OF block_keeps [OF stable_pointer]]])
    (use assms in \<open>auto intro!: runs_write [OF redis_set]\<close>)

lemma foreach_pointer:
  assumes "\<forall>n \<in> set ns. lo \<le> n \<and> n \<le> hi" and "lo \<le> k" and "k \<le> hi"
    and "redis d last_block_key = Some (show_int k)"
  shows "runs v d (foreach ns (\<lambda>n. seqio (processBlock E cfg n) (setLastProcessedBlock E n)))
    (\<lambda>_ s. \<exists>j. lo \<le> j \<and> j \<le> hi \<and> redis s last_block_key = Some (show_int j))
    (\<lambda>s. \<exists>j. lo \<le> j \<and> j \<le> hi \<and> redis s last_block_key = Some (show_int j))"
  using assms
proof (induction ns arbitrary: d k)
  case Nil
  then show ?case by (auto intro: runs_ret)
next
  case (Cons n ns)
  show ?case
    unfolding foreach.simps seqio_def [of "seqio a b" for a b]
    by (rule runs_bind_all [OF runs_conseq [OF range_step [OF Cons.prems(4)]]])
      (use Cons in auto)
qed

lemma scan_pointer:
  assumes "\<And>w cur. fst (getBlockNumber E w) = Inr cur \<Longrightarrow> cur \<le> tip"
    and "setting_num (confirmationBlocks cfg) = Some conf"
    and "redis d last_block_key = Some (show_int lo)"
  shows "runs v d (scan_body E cfg)
    (\<lambda>_ s. \<exists>k. lo \<le> k \<and> k \<le> max lo (tip - conf) \<and> redis s last_block_key = Some (show_int k))
    (\<lambda>s. \<exists>k. lo \<le> k \<and> k \<le> max lo (tip - conf) \<and> redis s last_block_key = Some (show_int k))"
  unfolding scan_body_def getLastProcessedBlock_def
proof (rule runs_silent_value [OF getBlockNumber])
  let ?I = "\<lambda>s. \<exists>k. lo \<le> k \<and> k \<le> max lo (tip - conf) \<and> redis s last_block_key = Some (show_int k)"
  show I: "?I d" using assms(3) by auto
  fix cur w assume "fst (getBlockNumber E w) = Inr cur"
  then have "cur \<le> tip" by (rule assms(1))
  have "runs v d (process_range E cfg (lo + 1) (cur - conf)) (\<lambda>_. ?I) ?I"
    unfolding process_range_def
    by (rule foreach_pointer [where k = lo]) (use \<open>cur \<le> tip\<close> assms(3) in auto)
  then show "runs v d (bindio (redis_get E last_block_key) (\<lambda>last.
      case (Option.bind last parseInt, setting_num (confirmationBlocks cfg)) of
        (Some lastBlock, Some conf) \<Rightarrow>
          (let confirmedBlock = cur - conf in
           if lastBlock \<ge> confirmedBlock then ret ()
           else process_range E cfg (lastBlock + 1) confirmedBlock)
      | _ \<Rightarrow> ret ())) (\<lambda>_. ?I) ?I"
    by (intro runs_reading [OF redis_get] disjI2 I)
      (use assms I in \<open>auto simp: Let_def intro!: runs_ret\<close>)
qed

lemma scan_keeps_cache: "keeps v cache_ok (scan_body E cfg)"
  unfolding scan_body_def process_range_def getLastProcessedBlock_def setLastProcessedBlock_def Let_def
  by (auto intro!: keeps_intros keeps_silent [OF getBlockNumber] keeps_reading [OF redis_get]
      block_keeps [OF stable_cache] keeps_writing [OF redis_set] split: option.split)

lemma transaction_lock:
  "runs v d (processTransaction E cfg tx)
    (\<lambda>_ s. if truthy (redis d (tx_key (hash tx))) then s = d else redis s (tx_key (hash tx)) = None)
    (\<lambda>_. True)"
  unfolding processTransaction_def isTxProcessing_def setTxProcessing_def removeTxProcessing_def
proof (rule runs_reading [OF redis_get], simp, rule runs_if, simp add: runs_ret)
  let ?k = "tx_key (hash tx)"
  assume "\<not> truthy (redis d ?k)"
  moreover have "triple v (\<lambda>_. True) (redis_del E ?k) (\<lambda>_ s. redis s ?k = None) (\<lambda>_. True)"
    by (rule runs_all, rule runs_write [OF redis_del]) auto
  moreover have "triple v (\<lambda>_. True) (redis_del E ?k) (\<lambda>_ _. True) (\<lambda>_. True)"
    by (rule runs_all, rule runs_write [OF redis_del]) auto
  moreover have "triple v P (catchio (tx_body E cfg tx) (\<lambda>_. ret ())) (\<lambda>_ _. True) (\<lambda>_. True)" for P
    by (simp add: triple_def outcome_def split: sum.split)
  ultimately show "runs v d (seqio (redis_setex E ?k ''1'' 300)
      (finallyio (catchio (tx_body E cfg tx) (\<lambda>_. ret ())) (redis_del E ?k)))
    (\<lambda>_ s. if truthy (redis d ?k) then s = d else redis s ?k = None) (\<lambda>_. True)"
    by (intro runs_writing [OF redis_setex] triple_finally [where A = "\<lambda>_ _. True" and B = "\<lambda>_. True"])
      simp_all
qed

lemma failed_block_scan:
  assumes "\<And>w. \<exists>e. fst (getBlock E (lo + 1) w) = Inl e"
    and "returning (getBlockNumber E) (lo + 1 + conf)"
    and "setting_num (confirmationBlocks cfg) = Some conf"
    and "total_io (redis_get E last_block_key)"
    and "total_io (redis_set E last_block_key (show_int (lo + 1)))"
    and "redis d last_block_key = Some (show_int lo)"
  shows "runs v d (scan_body E cfg)
    (\<lambda>_ s. s = d\<lparr>redis := (redis d)(last_block_key \<mapsto> show_int (lo + 1))\<rparr>) (\<lambda>_. False)"
proof -
  have skip: "runs v d (processBlock E cfg (lo + 1)) (\<lambda>_ s. s = d) (\<lambda>_. False)"
  proof (rule tripleI)
    fix w assume "v w = d"
    moreover obtain e w1 where m: "getBlock E (lo + 1) w = (Inl e, w1)"
      using assms(1) [of w] by (cases "getBlock E (lo + 1) w") auto
    moreover have "v w1 = v w" using getBlock [of "lo + 1"] m unfolding silent_def by (metis snd_conv)
    ultimately show "outcome v (\<lambda>_ s. s = d) (\<lambda>_. False) (processBlock E cfg (lo + 1) w)"
      by (simp add: processBlock_def io_defs)
  qed
  show ?thesis
    unfolding scan_body_def getLastProcessedBlock_def
    by (rule runs_returning [OF getBlockNumber assms(2)], rule runs_reading [OF redis_get disjI1 [OF assms(4)]])
      (use assms in \<open>auto simp: Let_def process_range_def setLastProcessedBlock_def
        intro!: runs_seq [OF runs_seq [OF skip]] runs_write [OF redis_set] runs_ret\<close>)
qed

end

end
