(* ===== verification/Parser_Money.thy ===== *)
theory Parser_Money
  imports Parser_Spec
begin

text \<open>
  Sums over the two balance columns: what a transfer does to them when the column can hold the
  amount exactly, and what rounding to the column's scale does when it cannot.
\<close>

section \<open>Exact amounts\<close>

definition on_grid :: "column \<Rightarrow> rat \<Rightarrow> bool" where
  "on_grid c x \<longleftrightarrow> (\<exists>k. x * 10 ^ column_scale c = of_int k)"

definition total :: "column \<Rightarrow> db \<Rightarrow> rat" where
  "total c d = sum_list (map (column_of c) (accounts d))"

definition exact :: "column \<Rightarrow> db \<Rightarrow> bool" where
  "exact c d \<longleftrightarrow> distinct (map acc_id (accounts d)) \<and> (\<forall>a \<in> set (accounts d). on_grid c (column_of c a))"

lemma on_grid_add: "on_grid c x \<Longrightarrow> on_grid c y \<Longrightarrow> on_grid c (x + y)"
  unfolding on_grid_def by (metis distrib_right of_int_add)

lemma on_grid_minus: "on_grid c x \<Longrightarrow> on_grid c (- x)"
  unfolding on_grid_def by (metis mult_minus_left of_int_minus)

lemma on_grid_units: "n \<le> column_scale c \<Longrightarrow> on_grid c (of_int k / 10 ^ n)"
proof -
  assume n: "n \<le> column_scale c"
  have "(10 :: rat) ^ column_scale c = 10 ^ (column_scale c - n) * 10 ^ n"
    using n by (simp flip: power_add)
  then have "(of_int k / 10 ^ n :: rat) * 10 ^ column_scale c = of_int (k * 10 ^ (column_scale c - n))"
    by simp
  then show ?thesis unfolding on_grid_def by blast
qed

lemma column_set_other [simp]: "c \<noteq> c' \<Longrightarrow> column_of c (set_column c' x a) = column_of c a"
  by (cases c; cases c'; simp)

lemma accounts_tx_append [simp]:
  "total c (d\<lparr>transactions := ts\<rparr>) = total c d" "exact c (d\<lparr>transactions := ts\<rparr>) = exact c d"
  "total c (ledger_of d) = total c d" "exact c (ledger_of d) = exact c d"
  by (simp_all add: total_def exact_def)

lemma columns_db_add [simp]:
  "map acc_id (accounts (db_add cast i c x d)) = map acc_id (accounts d)"
  "c \<noteq> c' \<Longrightarrow> map (column_of c) (accounts (db_add cast i c' x d)) = map (column_of c) (accounts d)"
  by (simp_all add: db_add_def comp_def if_distrib cong: if_cong)

lemma ids_db_add [simp]:
  "acc_id ` set (accounts (db_add cast i c x d)) = acc_id ` set (accounts d)"
  by (simp only: flip: set_map) simp

lemma exact_columns:
  "exact c d \<longleftrightarrow> distinct (map acc_id (accounts d)) \<and> (\<forall>y \<in> set (map (column_of c) (accounts d)). on_grid c y)"
  by (simp add: exact_def)

lemma total_other [simp]: "c \<noteq> c' \<Longrightarrow> total c (db_add cast i c' x d) = total c d"
  by (simp add: total_def)

lemma exact_other [simp]: "c \<noteq> c' \<Longrightarrow> exact c (db_add cast i c' x d) = exact c d"
  unfolding exact_columns by (subst columns_db_add(2)) simp_all

lemma account_id_in: "account_id_of adr d = Some i \<Longrightarrow> i \<in> acc_id ` set (accounts d)"
  by (auto simp: account_id_of_def find_account_def find_Some_iff)

lemma sum_list_add_one:
  assumes "distinct (map acc_id as)" and "i \<in> acc_id ` set as"
    and "\<And>a. a \<in> set as \<Longrightarrow> acc_id a = i \<Longrightarrow> column_of c (g a) = column_of c a + x"
  shows "sum_list (map (\<lambda>a. column_of c (if Some (acc_id a) = Some i then g a else a)) as) =
    sum_list (map (column_of c) as) + x"
  using assms
proof (induction as)
  case Nil
  then show ?case by simp
next
  case (Cons b as)
  show ?case
  proof (cases "acc_id b = i")
    case True
    with Cons.prems(1) have "\<forall>a \<in> set as. acc_id a \<noteq> i" by (auto simp: image_iff)
    then have "(\<Sum>a\<leftarrow>as. column_of c (if Some (acc_id a) = Some i then g a else a)) = sum_list (map (column_of c) as)"
      by (intro arg_cong [where f = sum_list] map_cong) auto
    with True Cons.prems(3) [of b] show ?thesis by simp
  next
    case False
    with Cons show ?thesis by simp
  qed
qed

context ledger
begin

lemma cast_grid: "on_grid c x \<Longrightarrow> cast c x = x"
  unfolding on_grid_def using cast_exact by blast

lemma total_db_add:
  assumes "exact c d" and "i \<in> acc_id ` set (accounts d)" and "on_grid c x"
  shows "total c (db_add cast (Some i) c x d) = total c d + x" and "exact c (db_add cast (Some i) c x d)"
proof -
  have ex: "cast c (column_of c a + x) = column_of c a + x" if "a \<in> set (accounts d)" for a
    using assms that by (intro cast_grid on_grid_add) (auto simp: exact_def)
  show "total c (db_add cast (Some i) c x d) = total c d + x"
    unfolding total_def db_add_def
    using sum_list_add_one [of "accounts d" i c "\<lambda>a. set_column c (cast c (column_of c a + x)) a" x] assms ex
    by (simp add: exact_def comp_def)
  show "exact c (db_add cast (Some i) c x d)"
    using assms ex by (auto simp: exact_def db_add_def comp_def if_distrib on_grid_add cong: if_cong)
qed

lemma total_record:
  assumes "exact c d" and "i \<in> acc_id ` set (accounts d)" and "j \<in> acc_id ` set (accounts d)"
    and "on_grid c (tx_value row)"
  shows "total c (record_transfer cast c row i j d) = total c d"
proof -
  let ?d = "d\<lparr>transactions := transactions d @ [row]\<rparr>"
  have 1: "exact c ?d" "i \<in> acc_id ` set (accounts ?d)" "on_grid c (- tx_value row)"
    using assms by (simp_all add: on_grid_minus)
  from total_db_add [OF 1] have "exact c (db_add cast (Some i) c (- tx_value row) ?d)" by simp
  from total_db_add [OF this, of j "tx_value row"] total_db_add(1) [OF 1] assms
  show ?thesis by (simp add: record_transfer_def move_funds_def Let_def)
qed

lemma total_record_other:
  "c \<noteq> c' \<Longrightarrow> total c (record_transfer cast c' row i j d) = total c d"
  by (simp add: record_transfer_def move_funds_def Let_def)

lemma bnb_spec_totals:
  assumes "exact Bnb_amount d"
  shows "total c (bnb_spec E cast tx rc d) = total c d"
proof -
  have "on_grid Bnb_amount (tx_value (bnb_row E tx rc))"
    unfolding formatUnits_row formatUnits by (rule on_grid_units) simp
  then show ?thesis
    using assms by (cases c) (auto simp: bnb_spec_def total_record total_record_other account_id_in
      split: option.split)
qed

lemma erc20_spec_totals:
  assumes "c = Usdt_amount \<longrightarrow> n \<le> 6 \<and> exact Usdt_amount d"
  shows "total c (erc20_spec E cast n sy tx rc evs d) = total c d"
proof (cases evs)
  case (Cons ev rest)
  have "n \<le> 6 \<longrightarrow> on_grid Usdt_amount (tx_value (erc20_row E n sy tx rc ev))"
    by (simp add: formatUnits on_grid_units)
  then show ?thesis
    using assms Cons by (cases c) (auto simp: total_record total_record_other account_id_in
      split: option.split)
qed simp

lemma tx_spec_totals:
  assumes "exact Bnb_amount d" and "c = Usdt_amount \<longrightarrow> n \<le> 6 \<and> exact Usdt_amount d"
  shows "total c (tx_spec E cast receipt_of n sy cfg tx d) = total c d -
    (case (receipt_of (hash tx), account_id_of (tx_from tx) d) of
       (Some rc, Some i) \<Rightarrow> if c = Bnb_amount then of_int (rc_fee rc) / 10 ^ 18 else 0
     | _ \<Rightarrow> 0)"
proof (cases "receipt_of (hash tx)"; cases "account_id_of (tx_from tx) d")
  fix rc i assume rc: "receipt_of (hash tx) = Some rc" and i: "account_id_of (tx_from tx) d = Some i"
  let ?d = "db_add cast (Some i) Bnb_amount (- formatUnits E (rc_fee rc) 18) d"
  have "on_grid Bnb_amount (- formatUnits E (rc_fee rc) 18)"
    by (simp only: formatUnits) (intro on_grid_minus on_grid_units, simp)
  from total_db_add [OF assms(1) account_id_in [OF i] this]
  have "exact Bnb_amount ?d" "total Bnb_amount ?d = total Bnb_amount d - of_int (rc_fee rc) / 10 ^ 18"
    by (simp_all add: formatUnits)
  with assms rc i show ?thesis
    by (cases c) (auto simp: tx_spec_def Let_def bnb_spec_totals erc20_spec_totals)
qed (simp_all add: tx_spec_def)

end

section \<open>Rounding\<close>

text \<open>An amount of an odd number of half units is rounded up on both sides of a transfer: the sender
  keeps half a unit and the receiver gains half a unit.\<close>

lemma cast_round_half:
  assumes "0 \<le> m"
  shows "cast_round c ((of_int m + 1 / 2) / 10 ^ column_scale c) = (of_int m + 1) / 10 ^ column_scale c"
proof -
  have "\<lfloor>(of_int m + 1 / 2 :: rat) + 1 / 2\<rfloor> = m + 1" by (simp add: floor_eq_iff)
  moreover have "\<not> (of_int m + 1 / 2 :: rat) < 0" using assms by (simp add: not_less)
  ultimately show ?thesis by (simp add: cast_round_def round_away_def)
qed

lemma total_set_one:
  assumes "distinct (map acc_id (accounts d))" and "a \<in> set (accounts d)"
    and "cast c (column_of c a + x) = column_of c a + y"
  shows "total c (db_add cast (Some (acc_id a)) c x d) = total c d + y"
proof -
  let ?g = "\<lambda>b. set_column c (cast c (column_of c b + x)) b"
  have g: "column_of c (?g b) = column_of c b + y" if "b \<in> set (accounts d)" "acc_id b = acc_id a" for b
  proof -
    have "b = a" using assms(1,2) that by (simp add: distinct_map inj_on_def)
    with assms(3) show ?thesis by simp
  qed
  have "(\<Sum>b\<leftarrow>accounts d. column_of c (if Some (acc_id b) = Some (acc_id a) then ?g b else b)) =
      sum_list (map (column_of c) (accounts d)) + y"
    by (rule sum_list_add_one [OF assms(1)]) (use assms(2) g in auto)
  then show ?thesis by (simp add: total_def db_add_def comp_def)
qed

lemma half_micro_mints:
  assumes "distinct (map acc_id (accounts d))" and "a \<in> set (accounts d)" and "b \<in> set (accounts d)"
    and "acc_id a \<noteq> acc_id b" and "usdt_amount a = of_int m / 10 ^ 6" and "usdt_amount b = of_int n / 10 ^ 6"
    and "0 \<le> k" and "k < m" and "0 \<le> n"
  shows "total Usdt_amount (move_funds cast_round Usdt_amount (acc_id a) (acc_id b) ((of_int k + 1 / 2) / 10 ^ 6) d) =
    total Usdt_amount d + 1 / 10 ^ 6"
proof -
  let ?x = "(of_int k + 1 / 2) / 10 ^ 6 :: rat"
  let ?d = "db_add cast_round (Some (acc_id a)) Usdt_amount (- ?x) d"
  have "usdt_amount a + - ?x = (of_int (m - k - 1) + 1 / 2) / 10 ^ column_scale Usdt_amount"
    unfolding assms(5) by (simp add: field_simps)
  then have "cast_round Usdt_amount (usdt_amount a + - ?x) = (of_int (m - k - 1) + 1) / 10 ^ 6"
    using cast_round_half [of "m - k - 1" Usdt_amount] assms(8) by (simp only: column_scale.simps)
  also have "\<dots> = usdt_amount a + - (of_int k / 10 ^ 6)"
    unfolding assms(5) by (simp add: field_simps)
  finally have "cast_round Usdt_amount (usdt_amount a + - ?x) = usdt_amount a + - (of_int k / 10 ^ 6)" .
  from total_set_one [of d a cast_round Usdt_amount "- ?x", OF assms(1,2)] this
  have 1: "total Usdt_amount ?d = total Usdt_amount d - of_int k / 10 ^ 6" by simp
  have b: "b \<in> set (accounts ?d)" using assms(3,4) by (force simp: db_add_def)
  have "usdt_amount b + ?x = (of_int (n + k) + 1 / 2) / 10 ^ column_scale Usdt_amount"
    unfolding assms(6) by (simp add: field_simps)
  then have "cast_round Usdt_amount (usdt_amount b + ?x) = (of_int (n + k) + 1) / 10 ^ 6"
    using cast_round_half [of "n + k" Usdt_amount] assms(7,9) by (simp only: column_scale.simps)
  also have "\<dots> = usdt_amount b + (of_int k + 1) / 10 ^ 6"
    unfolding assms(6) by (simp add: field_simps)
  finally have "cast_round Usdt_amount (usdt_amount b + ?x) = usdt_amount b + (of_int k + 1) / 10 ^ 6" .
  from total_set_one [of ?d b cast_round Usdt_amount ?x, OF _ b] this assms(1)
  have "total Usdt_amount (db_add cast_round (Some (acc_id b)) Usdt_amount ?x ?d) =
    total Usdt_amount ?d + (of_int k + 1) / 10 ^ 6" by simp
  with 1 show ?thesis by (simp add: move_funds_def field_simps)
qed

end
