(* ===== verification/Parser_Props.thy ===== *)
theory Parser_Props
  imports Parser_Faults Parser_Money
begin

text \<open>
  The properties of the block parser. The first group assumes that no call fails and compares the
  code with the specification of \<open>Parser_Spec\<close>; the second holds whatever calls fail. Each
  property with hypotheses is applied to the in-memory store in its witness.
\<close>

section \<open>Scans\<close>

context steady_ledger
begin

lemma range_runs:
  assumes "quiet d" and "lo \<le> hi"
  shows "runs v d (process_range E cfg lo hi)
    (\<lambda>_ s. ledger_of s = fold (block_spec E cast blocks receipt_of dec sy cfg) [lo..hi] (ledger_of d) \<and>
       quiet s \<and> redis s last_block_key = Some (show_int hi)) R"
proof -
  let ?f = "\<lambda>n. seqio (processBlock E cfg n) (setLastProcessedBlock E n)"
  have step: "runs v s (?f n)
    (\<lambda>_ t. ledger_of t = block_spec E cast blocks receipt_of dec sy cfg n (ledger_of s) \<and> quiet t \<and>
       redis t last_block_key = Some (show_int n)) R'" if "quiet s" for n s R'
    unfolding seqio_def setLastProcessedBlock_def
    by (rule runs_bind_all [OF block_runs [OF that]], rule runs_write [OF redis_set disjI1 [OF totals(3)]])
      (auto simp: quiet_def)
  have "runs v d (foreach [lo..hi - 1] ?f)
    (\<lambda>_ s. ledger_of s = fold (block_spec E cast blocks receipt_of dec sy cfg) [lo..hi - 1] (ledger_of d) \<and> quiet s) R"
    by (rule foreach_runs) (use assms(1) in \<open>auto intro!: runs_conseq [OF step]\<close>)
  then have "runs v d (seqio (foreach [lo..hi - 1] ?f) (foreach [hi] ?f))
    (\<lambda>_ s. ledger_of s = fold (block_spec E cast blocks receipt_of dec sy cfg) ([lo..hi - 1] @ [hi]) (ledger_of d) \<and>
       quiet s \<and> redis s last_block_key = Some (show_int hi)) R"
  proof (rule triple_seq [OF _ runs_all])
    fix s
    assume s: "ledger_of s = fold (block_spec E cast blocks receipt_of dec sy cfg) [lo..hi - 1] (ledger_of d) \<and> quiet s"
    show "runs v s (foreach [hi] ?f)
      (\<lambda>_ s. ledger_of s = fold (block_spec E cast blocks receipt_of dec sy cfg) ([lo..hi - 1] @ [hi]) (ledger_of d) \<and>
         quiet s \<and> redis s last_block_key = Some (show_int hi)) R"
      unfolding foreach.simps seqio_def [of "seqio a b" for a b]
      by (rule runs_bind_all [OF step]) (use s in \<open>simp_all add: runs_ret\<close>)
  qed
  moreover have "[lo..hi] = [lo..hi - 1] @ [hi]" using assms(2) by (rule upto_rec2)
  ultimately show ?thesis
    unfolding process_range_def by (simp add: foreach_append)
qed

lemma scan_runs:
  assumes "quiet d" and "redis d last_block_key = Some (show_int lo)"
    and "returning (getBlockNumber E) cur" and "setting_num (confirmationBlocks cfg) = Some conf"
  shows "runs v d (scan_body E cfg)
    (\<lambda>_ s. ledger_of s = fold (block_spec E cast blocks receipt_of dec sy cfg) [lo + 1..cur - conf] (ledger_of d) \<and>
       quiet s \<and> redis s last_block_key = Some (show_int (max lo (cur - conf)))) R"
  unfolding scan_body_def getLastProcessedBlock_def
  by (rule runs_returning [OF getBlockNumber assms(3)], rule runs_reading [OF redis_get disjI1 [OF totals(2)]])
    (use assms in \<open>auto simp: Let_def max_def intro!: runs_if runs_ret runs_conseq [OF range_runs]\<close>)

end


section \<open>Data for the witnesses\<close>

definition demo_cfg :: config where
  "demo_cfg = (load_config Map.empty)\<lparr>projectAddress := ''0xa'', usdtAddress := ''0xu''\<rparr>"

definition demo_tx :: chain_tx where
  "demo_tx = \<lparr>hash = ''h1'', blockNumber = 11, tx_from = ''0xa'', tx_to = Some ''0xb'',
     tx_data = ''0x'', tx_wei = 2 * 10 ^ 18\<rparr>"

definition demo_receipt :: receipt where
  "demo_receipt = \<lparr>rc_fee = 10 ^ 15, rc_status = 1, rc_logs = []\<rparr>"

definition demo_chain :: "int \<Rightarrow> block option" where
  "demo_chain n = (if n = 11 then Some \<lparr>prefetchedTransactions = [demo_tx]\<rparr>
     else if n < 20 then Some \<lparr>prefetchedTransactions = []\<rparr> else None)"

definition demo_receipts :: "string \<Rightarrow> receipt option" where
  "demo_receipts h = (if h = ''h1'' then Some demo_receipt else None)"

definition demo_account :: "int \<Rightarrow> string \<Rightarrow> rat \<Rightarrow> rat \<Rightarrow> account" where
  "demo_account i adr b u = \<lparr>email = ''e'', address = adr, bnb_amount = b, usdt_amount = u,
     acc_id = i, created_time = 0, updated_time = 0\<rparr>"

definition demo_db :: db where
  "demo_db = \<lparr>accounts = [demo_account 1 ''0xa'' 10 5, demo_account 2 ''0xb'' 0 7],
     transactions = [], withdrawals = [], redis = [last_block_key \<mapsto> show_int 10], sent = []\<rparr>"

definition demo_env :: "bool \<Rightarrow> mem env" where
  "demo_env fp = (mem_env fp demo_chain demo_receipts)\<lparr>getBlockNumber := peek fp (\<lambda>_. 18)\<rparr>"

definition demo_mem :: mem where
  "demo_mem = \<lparr>mdb = demo_db, head = 18, faults = []\<rparr>"

lemma demo_ledger: "ledger (demo_env fp) mdb cast_round"
  by (rule ledger.intro)
    (simp_all add: demo_env_def mem_env_def silent_peek reading_peek writing_poke writing_attempting [OF writing_poke] cast_round_exact
      writing_insert_tx insert_tx_duplicate reading_peek [where f = "\<lambda>d. redis d k" for k]
      reading_peek [where f = "\<lambda>d. length (withdrawals d)"])

lemma demo_steady: "steady_ledger (demo_env False) mdb cast_round demo_chain demo_receipts 18 ''USDT''"
  by (rule steady_ledger.intro [OF demo_ledger], rule steady_ledger_axioms.intro)
    (simp_all add: demo_env_def mem_env_def never_throws_def total_peek total_poke returning_peek insert_tx_def
      call_def)

lemma demo_quiet: "quiet demo_db"
  by (auto simp: quiet_def cache_ok_def demo_db_def)

lemma demo_facts [simp]:
  "mdb demo_mem = demo_db" "redis demo_db last_block_key = Some (show_int 10)"
  "setting_num (confirmationBlocks demo_cfg) = Some 6"
  "returning (getBlockNumber (demo_env False)) 18"
  by (simp_all add: demo_mem_def demo_db_def demo_cfg_def load_config_def demo_env_def returning_peek)

section \<open>Properties\<close>

text \<open>C1: When no call fails, one run of \<open>processBlocks\<close> leaves in the tables exactly what applying
  the specification of every confirmed block after the pointer, in order, to the old tables gives,
  moves the pointer to the last confirmed block and clears the busy flag.\<close>

theorem scan_refines:
  assumes "steady_ledger E v cast blocks receipt_of dec sy"
    and "quiet (v (world p))" and "redis (v (world p)) last_block_key = Some (show_int lo)"
    and "returning (getBlockNumber E) cur" and "setting_num (confirmationBlocks cfg) = Some conf"
    and "\<not> isProcessing p"
  shows "\<exists>p'. processBlocks E cfg p = (Inr (), p') \<and> \<not> isProcessing p' \<and> quiet (v (world p')) \<and>
    ledger_of (v (world p')) = fold (block_spec E cast blocks receipt_of dec sy cfg) [lo + 1..cur - conf]
      (ledger_of (v (world p))) \<and>
    redis (v (world p')) last_block_key = Some (show_int (max lo (cur - conf)))"
proof -
  obtain r w' where b: "scan_body E cfg (world p) = (r, w')" by fastforce
  from runsD [OF steady_ledger.scan_runs [OF assms(1-5)] refl b] obtain x where x: "r = Inr x"
    and w': "ledger_of (v w') = fold (block_spec E cast blocks receipt_of dec sy cfg) [lo + 1..cur - conf]
        (ledger_of (v (world p)))" "quiet (v w')"
      "redis (v w') last_block_key = Some (show_int (max lo (cur - conf)))"
    by blast
  with b assms(6) show ?thesis by (simp add: processBlocks_world)
qed

lemma scan_refines_witness:
  "\<exists>p'. processBlocks (demo_env False) demo_cfg \<lparr>isProcessing = False, world = demo_mem\<rparr> = (Inr (), p') \<and>
     redis (mdb (world p')) last_block_key = Some (show_int 12) \<and>
     find_transaction ''h1'' (mdb (world p')) \<noteq> None"
proof -
  let ?f = "block_spec (demo_env False) cast_round demo_chain demo_receipts 18 ''USDT'' demo_cfg"
  let ?p = "\<lparr>isProcessing = False, world = demo_mem\<rparr>"
  from scan_refines [OF demo_steady, where p = ?p and lo = 10 and cur = 18 and conf = 6 and cfg = demo_cfg] demo_quiet
  obtain p' where p': "processBlocks (demo_env False) demo_cfg ?p = (Inr (), p')"
    "redis (mdb (world p')) last_block_key = Some (show_int 12)"
    "ledger_of (mdb (world p')) = fold ?f [11..12] (ledger_of demo_db)"
    by auto
  have "[11..12::int] = [11, 12]" by (simp add: upto.simps)
  then have "find_transaction ''h1'' (fold ?f [11..12] (ledger_of demo_db)) \<noteq> None"
    by (simp add: block_spec_def demo_chain_def relevant_def demo_tx_def demo_cfg_def load_config_def
        tx_spec_def demo_receipts_def demo_receipt_def bnb_spec_def account_id_of_def find_account_db_add
        demo_db_def find_account_def demo_account_def record_transfer_def Let_def bnb_row_def move_funds_def
        ledger_of_def find_transaction_def db_add_def)
  with p' show ?thesis by (metis ledger_of_simps(5))
qed

text \<open>C9: Whatever calls fail during a scan, and wherever, the block pointer ends between its old value
  and the last confirmed block: it never moves back and never passes a block with fewer than the
  configured confirmations.\<close>

theorem scan_pointer_bounds:
  assumes "ledger E v cast" and "\<And>w cur. fst (getBlockNumber E w) = Inr cur \<Longrightarrow> cur \<le> tip"
    and "setting_num (confirmationBlocks cfg) = Some conf"
    and "redis (v (world p)) last_block_key = Some (show_int lo)"
  shows "\<exists>k. redis (v (world (snd (processBlocks E cfg p)))) last_block_key = Some (show_int k) \<and>
    lo \<le> k \<and> k \<le> max lo (tip - conf)"
proof -
  let ?I = "\<lambda>s. \<exists>k. lo \<le> k \<and> k \<le> max lo (tip - conf) \<and> redis s last_block_key = Some (show_int k)"
  obtain r w' where b: "scan_body E cfg (world p) = (r, w')" by fastforce
  have "outcome v (\<lambda>_. ?I) ?I (scan_body E cfg (world p))"
    by (rule tripleD [OF ledger.scan_pointer [OF assms(1-4)]]) simp_all
  with b have "?I (v w')" by (cases r) auto
  then show ?thesis
    using b assms(4) by (auto simp: processBlocks_world)
qed

lemma scan_pointer_bounds_witness:
  "\<exists>k. redis (mdb (world (snd (processBlocks (demo_env True) demo_cfg
      \<lparr>isProcessing = False, world = demo_mem\<lparr>faults := [False, False, False, True]\<rparr>\<rparr>)))) last_block_key =
     Some (show_int k) \<and> 10 \<le> k \<and> k \<le> 12"
proof -
  have "fst (getBlockNumber (demo_env True) w) = Inr cur \<Longrightarrow> cur \<le> 18" for w cur
    by (auto simp: demo_env_def peek_def call_def split: list.splits if_splits)
  from scan_pointer_bounds [OF demo_ledger this, where lo = 10 and conf = 6 and cfg = demo_cfg
      and p = "\<lparr>isProcessing = False, world = demo_mem\<lparr>faults := [False, False, False, True]\<rparr>\<rparr>"]
  show ?thesis by (simp add: demo_mem_def)
qed

text \<open>C14: A block whose download fails is skipped for good: \<open>processBlock\<close> swallows the error and the
  scan still moves the pointer past the block, with none of its transactions recorded, and every later
  scan begins after the pointer.\<close>

theorem failed_block_skipped:
  assumes "ledger E v cast" and "\<And>w. \<exists>e. fst (getBlock E (lo + 1) w) = Inl e"
    and "returning (getBlockNumber E) (lo + 1 + conf)"
    and "setting_num (confirmationBlocks cfg) = Some conf"
    and "total_io (redis_get E last_block_key)"
    and "total_io (redis_set E last_block_key (show_int (lo + 1)))"
    and "redis (v (world p)) last_block_key = Some (show_int lo)" and "\<not> isProcessing p"
  shows "v (world (snd (processBlocks E cfg p))) =
    (v (world p))\<lparr>redis := (redis (v (world p)))(last_block_key \<mapsto> show_int (lo + 1))\<rparr>"
proof -
  obtain r w' where b: "scan_body E cfg (world p) = (r, w')" by fastforce
  from runsD [OF ledger.failed_block_scan [OF assms(1-7)] refl b]
  show ?thesis using b assms(8) by (auto simp: processBlocks_world)
qed

lemma failed_block_skipped_witness:
  "mdb (world (snd (processBlocks ((demo_env False)\<lparr>getBlock := \<lambda>n w. (Inl (JsError ''timeout''), w),
       getBlockNumber := peek False (\<lambda>_. 17)\<rparr>) demo_cfg \<lparr>isProcessing = False, world = demo_mem\<rparr>))) =
     demo_db\<lparr>redis := [last_block_key \<mapsto> show_int 11]\<rparr>"
proof -
  let ?E = "(demo_env False)\<lparr>getBlock := \<lambda>n w. (Inl (JsError ''timeout''), w),
       getBlockNumber := peek False (\<lambda>_. 17)\<rparr>"
  have "ledger ?E mdb cast_round"
    using demo_ledger [of False] by (simp add: ledger_def silent_peek) (simp add: silent_def)
  moreover have "total_io (redis_get ?E k)" "total_io (redis_set ?E k x)" for k x
    by (simp_all add: demo_env_def mem_env_def total_peek total_poke)
  ultimately show ?thesis
    by (subst failed_block_skipped [where lo = 10 and conf = 6 and v = mdb and cast = cast_round])
      (simp_all add: returning_peek demo_db_def)
qed

text \<open>C10: The lock of a transaction. Whatever fails, processing a transaction leaves the locks of all
  other transactions as they were; when it returns, either the lock was already held and nothing
  changed, or the lock is free again, also when the body threw.\<close>

theorem transaction_lock_released:
  assumes "ledger E v cast" and "processTransaction E cfg tx w = (r, w')"
  shows "(\<forall>h. h = hash tx \<or> redis (v w') (tx_key h) = redis (v w) (tx_key h)) \<and>
    (case r of Inl _ \<Rightarrow> True | Inr _ \<Rightarrow>
       if truthy (redis (v w) (tx_key (hash tx))) then v w' = v w
       else redis (v w') (tx_key (hash tx)) = None)"
proof -
  have "redis (v w') (tx_key h) = redis (v w) (tx_key h)" if "h \<noteq> hash tx" for h
  proof -
    have "keeps v (\<lambda>d. redis d (tx_key h) = redis (v w) (tx_key h)) (processTransaction E cfg tx)"
      by (rule ledger.transaction_keeps [OF assms(1) stable_other_lock [of "\<lambda>x. x \<noteq> h"]]) (use that in auto)
    from tripleD [OF this refl] assms(2) show ?thesis by (cases r) auto
  qed
  moreover have "case r of Inl _ \<Rightarrow> True | Inr _ \<Rightarrow>
      if truthy (redis (v w) (tx_key (hash tx))) then v w' = v w else redis (v w') (tx_key (hash tx)) = None"
    using tripleD [OF ledger.transaction_lock [OF assms(1)] refl, of w tx cfg] assms(2)
    by (cases r) auto
  ultimately show ?thesis by blast
qed

lemma transaction_lock_released_witness:
  "redis (mdb (snd (processTransaction (demo_env True) demo_cfg demo_tx
     (demo_mem\<lparr>faults := [False, False, True]\<rparr>)))) (tx_key ''h2'') = None"
proof -
  let ?w = "demo_mem\<lparr>faults := [False, False, True]\<rparr>"
  obtain r w' where r: "processTransaction (demo_env True) demo_cfg demo_tx ?w = (r, w')" by fastforce
  from transaction_lock_released [OF demo_ledger r]
  have "''h2'' = hash demo_tx \<or> redis (mdb w') (tx_key ''h2'') = redis (mdb ?w) (tx_key ''h2'')" by blast
  with r show ?thesis by (simp add: demo_tx_def demo_mem_def demo_db_def)
qed

text \<open>The user cache stays right whatever fails: if every cached id belongs to the account with that
  address before a run of \<open>processBlocks\<close>, it does after it.\<close>

theorem scan_keeps_cache_ok:
  assumes "ledger E v cast" and "cache_ok (v (world p))"
  shows "cache_ok (v (world (snd (processBlocks E cfg p))))"
proof -
  obtain r w' where b: "scan_body E cfg (world p) = (r, w')" by fastforce
  from tripleD [OF ledger.scan_keeps_cache [OF assms(1)] assms(2), of cfg] b assms(2)
  show ?thesis by (cases r) (auto simp: processBlocks_world)
qed

lemma scan_keeps_cache_ok_witness:
  "cache_ok (mdb (world (snd (processBlocks (demo_env True) demo_cfg
     \<lparr>isProcessing = False, world = demo_mem\<lparr>faults := [False, False, False, True]\<rparr>\<rparr>))))"
  by (rule scan_keeps_cache_ok [OF demo_ledger]) (use demo_quiet in \<open>simp add: quiet_def demo_mem_def\<close>)

text \<open>C2: Conservation. When no call fails, no lock is held, the user cache is right and the BNB column holds every amount
  exactly, processing a transaction lowers the sum of all BNB balances by exactly the gas fee of a sender that has an account,
  and by nothing otherwise; and it leaves the sum of all USDT balances unchanged if the token has no more decimals than the
  column and the column is exact. The two halves of a transfer are not one database transaction, so nothing of this holds when
  a call fails between them (\<open>lost_increment_loses_money\<close>).\<close>

theorem transaction_conserves:
  assumes "steady_ledger E v cast blocks receipt_of dec sy"
    and "quiet (v w)" and "exact Bnb_amount (v w)"
    and "processTransaction E cfg tx w = (r, w')"
  shows "total Bnb_amount (v w') = total Bnb_amount (v w) -
      (case (receipt_of (hash tx), account_id_of (tx_from tx) (v w)) of
         (Some rc, Some i) \<Rightarrow> of_int (rc_fee rc) / 10 ^ 18 | _ \<Rightarrow> 0) \<and>
    (dec \<le> 6 \<longrightarrow> exact Usdt_amount (v w) \<longrightarrow> total Usdt_amount (v w') = total Usdt_amount (v w))"
proof -
  have L: "ledger E v cast" using assms(1) by (rule steady_ledger.axioms)
  from runsD [OF steady_ledger.transaction_runs [OF assms(1,2)] refl assms(4)]
  have "ledger_of (v w') = tx_spec E cast receipt_of dec sy cfg tx (ledger_of (v w))" by blast
  then have s: "total c (v w') = total c (tx_spec E cast receipt_of dec sy cfg tx (ledger_of (v w)))" for c
    by (metis accounts_tx_append(3))
  have e: "exact Bnb_amount (ledger_of (v w))" using assms(3) by simp
  show ?thesis
    using ledger.tx_spec_totals [OF L e, of Bnb_amount dec] ledger.tx_spec_totals [OF L e, of Usdt_amount dec]
    by (auto simp: s split: option.split)
qed

lemma transaction_conserves_witness:
  "total Bnb_amount (mdb (snd (processTransaction (demo_env False) demo_cfg demo_tx demo_mem))) = 10 - 1 / 1000"
proof -
  obtain r w' where r: "processTransaction (demo_env False) demo_cfg demo_tx demo_mem = (r, w')" by fastforce
  have "on_grid Bnb_amount 10" "on_grid Bnb_amount 0"
    using on_grid_units [of 0 Bnb_amount 10] on_grid_units [of 0 Bnb_amount 0] by simp_all
  then have e: "exact Bnb_amount demo_db"
    by (simp add: exact_def demo_db_def demo_account_def)
  have "hash demo_tx = ''h1''" "tx_from demo_tx = ''0xa''" by (simp_all add: demo_tx_def)
  with transaction_conserves [OF demo_steady _ _ r] e demo_quiet
  have "total Bnb_amount (mdb w') = total Bnb_amount demo_db - 1 / 1000"
    by (simp add: demo_receipts_def demo_receipt_def account_id_of_def find_account_def demo_db_def demo_account_def)
  with r show ?thesis by (simp add: total_def demo_db_def demo_account_def)
qed

text \<open>The credit of a transfer throws after the debit was made: the error is caught, the row of the transaction is there, so it is
  never processed again, and the 2 BNB of the transfer are on no account.\<close>

theorem lost_increment_loses_money:
  "total Bnb_amount (mdb (snd (processTransaction (demo_env True) demo_cfg demo_tx
     (demo_mem\<lparr>faults := replicate 14 False @ [True]\<rparr>)))) = 10 - 1 / 1000 - 2"
  by code_simp

text \<open>With an 18-decimal USDT (the default token on BSC) and a store that rounds the 6-digit column
  halves away from zero, as PostgreSQL does, a transfer of an odd number of half millionths is
  rounded in favour of both sides: the sum of all USDT balances grows by a millionth.\<close>

theorem usdt_rounding_mints:
  assumes "steady_ledger E v cast_round blocks receipt_of 18 sy"
    and "cache_ok (v w)" and "distinct (map acc_id (accounts (v w)))"
    and "events_of E cfg rc = ev # evs" and "rc_status rc = 1"
    and "find_transaction (hash tx) (v w) = None"
    and "find_account (ev_from ev) (v w) = Some a" and "find_account (ev_to ev) (v w) = Some b"
    and "acc_id a \<noteq> acc_id b" and "usdt_amount a = of_int m / 10 ^ 6" and "usdt_amount b = of_int n / 10 ^ 6"
    and "ev_value ev = k * 10 ^ 12 + 5 * 10 ^ 11" and "0 \<le> k" and "k < m" and "0 \<le> n"
    and "processERC20Transfer E cfg tx rc w = (r, w')"
  shows "total Usdt_amount (v w') = total Usdt_amount (v w) + 1 / 10 ^ 6"
proof -
  let ?row = "erc20_row E 18 sy tx rc ev"
  let ?d = "(ledger_of (v w))\<lparr>transactions := transactions (v w) @ [?row]\<rparr>"
  have L: "ledger E v cast_round" using assms(1) by (rule steady_ledger.axioms)
  have x: "tx_value ?row = (of_int k + 1 / 2) / 10 ^ 6"
    by (simp add: ledger.formatUnits [OF L] assms(12) field_simps)
  have ab: "a \<in> set (accounts (v w))" "b \<in> set (accounts (v w))"
    using assms(7,8) by (auto simp: find_account_def find_Some_iff)
  from runsD [OF steady_ledger.erc20_runs [OF assms(1,2)] refl assms(16)]
  have "ledger_of (v w') = erc20_spec E cast_round 18 sy tx rc (events_of E cfg rc) (ledger_of (v w))" by blast
  then have "ledger_of (v w') = move_funds cast_round Usdt_amount (acc_id a) (acc_id b) (tx_value ?row) ?d"
    using assms(4-8) by (simp add: account_id_of_def record_transfer_def)
  then have "total Usdt_amount (v w') =
      total Usdt_amount (move_funds cast_round Usdt_amount (acc_id a) (acc_id b) (tx_value ?row) ?d)"
    by (metis accounts_tx_append(3))
  also have "\<dots> = total Usdt_amount ?d + 1 / 10 ^ 6"
    unfolding x by (rule half_micro_mints [where m = m and n = n]) (use assms ab in simp_all)
  finally show ?thesis by simp
qed

definition demo_log :: "string \<Rightarrow> string \<Rightarrow> string \<Rightarrow> chain_log" where
  "demo_log f t n = \<lparr>log_address = ''0xu'', log_topics = [f, t], log_data = n\<rparr>"

definition demo_call :: chain_tx where
  "demo_call = demo_tx\<lparr>tx_to := Some ''0xu'', tx_data := ''0xa9'', tx_wei := 0\<rparr>"

lemma demo_events:
  "events_of (demo_env fp) demo_cfg (demo_receipt\<lparr>rc_logs := [demo_log ''0xa'' ''0xb'' n, demo_log ''0xb'' ''0xa'' k]\<rparr>) =
     [\<lparr>ev_name = ''Transfer'', ev_from = ''0xa'', ev_to = ''0xb'', ev_value = int (read_digits n), ev_address = None\<rparr>,
      \<lparr>ev_name = ''Transfer'', ev_from = ''0xb'', ev_to = ''0xa'', ev_value = int (read_digits k), ev_address = None\<rparr>]"
  by (simp add: events_of_def demo_receipt_def demo_log_def transfer_event_def demo_cfg_def load_config_def
      List.map_filter_def demo_env_def mem_env_def)

lemma usdt_rounding_mints_witness:
  "total Usdt_amount (mdb (snd (processERC20Transfer (demo_env False) demo_cfg demo_call
     (demo_receipt\<lparr>rc_logs := [demo_log ''0xa'' ''0xb'' ''500000000000'', demo_log ''0xb'' ''0xa'' ''1'']\<rparr>) demo_mem)))
   = 12 + 1 / 10 ^ 6"
proof -
  let ?rc = "demo_receipt\<lparr>rc_logs := [demo_log ''0xa'' ''0xb'' ''500000000000'', demo_log ''0xb'' ''0xa'' ''1'']\<rparr>"
  obtain r w' where r: "processERC20Transfer (demo_env False) demo_cfg demo_call ?rc demo_mem = (r, w')" by fastforce
  have n: "read_digits ''500000000000'' = 500000000000"
    by (simp add: read_digits_def digit_val_def)
  have q: "cache_ok demo_db" using demo_quiet by (simp add: quiet_def)
  have "total Usdt_amount (mdb w') = total Usdt_amount (mdb demo_mem) + 1 / 10 ^ 6"
    by (rule usdt_rounding_mints [OF demo_steady _ _ demo_events _ _ _ _ _ _ _ _ _ _ _ r,
        where a = "demo_account 1 ''0xa'' 10 5" and b = "demo_account 2 ''0xb'' 0 7" and m = 5000000
          and n = 7000000 and k = 0])
      (simp_all add: q n, simp_all add: demo_db_def demo_account_def demo_receipt_def find_account_def
        find_transaction_def)
  with r show ?thesis by (simp add: total_def demo_db_def demo_account_def)
qed

text \<open>Gas is not part of the deduplication: processing a transaction whose hash is already recorded,
  as happens when a block is scanned again after a restart, moves no funds a second time but charges
  the sender the gas fee again.\<close>

theorem reprocess_charges_gas:
  assumes "steady_ledger E v cast blocks receipt_of dec sy"
    and "quiet (v w)" and "find_transaction (hash tx) (v w) \<noteq> None"
    and "receipt_of (hash tx) = Some rc" and "account_id_of (tx_from tx) (v w) = Some i"
    and "processTransaction E cfg tx w = (r, w')"
  shows "ledger_of (v w') = db_add cast (Some i) Bnb_amount (- (of_int (rc_fee rc) / 10 ^ 18)) (ledger_of (v w))"
proof -
  have L: "ledger E v cast" using assms(1) by (rule steady_ledger.axioms)
  from runsD [OF steady_ledger.transaction_runs [OF assms(1,2)] refl assms(6)]
  have "ledger_of (v w') = tx_spec E cast receipt_of dec sy cfg tx (ledger_of (v w))" by blast
  with assms(3-5) show ?thesis
    by (auto simp: tx_spec_def Let_def bnb_spec_def steady_ledger.erc20_spec_recorded [OF assms(1)]
        ledger.formatUnits [OF L] split: option.split)
qed

lemma reprocess_charges_gas_witness:
  "let w = demo_mem\<lparr>mdb := demo_db\<lparr>transactions := [bnb_row (demo_env False) demo_tx demo_receipt]\<rparr>\<rparr> in
   ledger_of (mdb (snd (processTransaction (demo_env False) demo_cfg demo_tx w))) =
     db_add cast_round (Some 1) Bnb_amount (- (1 / 1000)) (ledger_of (mdb w))"
proof -
  let ?w = "demo_mem\<lparr>mdb := demo_db\<lparr>transactions := [bnb_row (demo_env False) demo_tx demo_receipt]\<rparr>\<rparr>"
  obtain r w' where r: "processTransaction (demo_env False) demo_cfg demo_tx ?w = (r, w')" by fastforce
  have "quiet (mdb ?w)" using demo_quiet by (simp add: quiet_def)
  moreover have "find_transaction (hash demo_tx) (mdb ?w) \<noteq> None" by (simp add: find_transaction_def)
  moreover have "receipt_of (hash demo_tx) = Some demo_receipt" if "receipt_of = demo_receipts" for receipt_of
    using that by (simp add: demo_tx_def demo_receipts_def)
  moreover have "account_id_of (tx_from demo_tx) (mdb ?w) = Some 1"
    by (simp add: demo_tx_def account_id_of_def find_account_def demo_db_def demo_account_def)
  ultimately have "ledger_of (mdb w') =
      db_add cast_round (Some 1) Bnb_amount (- (of_int (rc_fee demo_receipt) / 10 ^ 18)) (ledger_of (mdb ?w))"
    using reprocess_charges_gas [OF demo_steady _ _ _ _ r] by blast
  with r show ?thesis by (simp add: Let_def demo_receipt_def)
qed

text \<open>Only the first relevant \<open>Transfer\<close> event of a transaction is applied. Its hash is then
  recorded, so every further event of the same transaction is taken for a duplicate and its amount
  never reaches the balances.\<close>

theorem only_first_event_counts:
  assumes "steady_ledger E v cast blocks receipt_of dec sy" and "cache_ok (v w)"
    and "events_of E cfg rc = ev # evs" and "find_transaction (hash tx) (v w) = None"
    and "account_id_of (ev_from ev) (v w) = Some i" and "account_id_of (ev_to ev) (v w) = Some j"
    and "processERC20Transfer E cfg tx rc w = (r, w')"
  shows "ledger_of (v w') = record_transfer cast Usdt_amount (erc20_row E dec sy tx rc ev) i j (ledger_of (v w))"
proof -
  from runsD [OF steady_ledger.erc20_runs [OF assms(1,2)] refl assms(7)]
  have "ledger_of (v w') = erc20_spec E cast dec sy tx rc (events_of E cfg rc) (ledger_of (v w))" by blast
  with assms(3-6) show ?thesis by simp
qed

lemma only_first_event_counts_witness:
  "let rc = demo_receipt\<lparr>rc_logs := [demo_log ''0xa'' ''0xb'' ''1000000000000000000'', demo_log ''0xb'' ''0xa'' ''1'']\<rparr> in
   length (transactions (mdb (snd (processERC20Transfer (demo_env False) demo_cfg demo_call rc demo_mem)))) = 1"
proof -
  let ?rc = "demo_receipt\<lparr>rc_logs := [demo_log ''0xa'' ''0xb'' ''1000000000000000000'', demo_log ''0xb'' ''0xa'' ''1'']\<rparr>"
  obtain r w' where r: "processERC20Transfer (demo_env False) demo_cfg demo_call ?rc demo_mem = (r, w')" by fastforce
  have q: "cache_ok (mdb demo_mem)" using demo_quiet by (simp add: quiet_def)
  have "ledger_of (mdb w') = record_transfer cast_round Usdt_amount
      (erc20_row (demo_env False) 18 ''USDT'' demo_call ?rc
        \<lparr>ev_name = ''Transfer'', ev_from = ''0xa'', ev_to = ''0xb'',
         ev_value = int (read_digits ''1000000000000000000''), ev_address = None\<rparr>) 1 2 (ledger_of (mdb demo_mem))"
    by (rule only_first_event_counts [OF demo_steady q demo_events _ _ _ r])
      (simp_all add: find_transaction_def account_id_of_def find_account_def demo_db_def demo_account_def)
  then have "transactions (mdb w') = transactions (record_transfer cast_round Usdt_amount
      (erc20_row (demo_env False) 18 ''USDT'' demo_call ?rc
        \<lparr>ev_name = ''Transfer'', ev_from = ''0xa'', ev_to = ''0xb'',
         ev_value = int (read_digits ''1000000000000000000''), ev_address = None\<rparr>) 1 2 (ledger_of (mdb demo_mem)))"
    by (metis ledger_of_simps(3))
  then show ?thesis
    using r by (simp add: Let_def record_transfer_def move_funds_def demo_db_def)
qed

end
