(* ===== verification/Withdrawals.thy ===== *)
theory Withdrawals
  imports Block_Parser "HOL-Library.Sublist"
begin

text \<open>
  \<open>blockchain-parser/src/withdrawalService.js\<close> and \<open>app.js\<close>. A withdrawal is a mutable object shared
  between the methods that handle it: an assignment made before a call throws is seen by the
  \<open>catch\<close> block. The state of the methods is therefore the object next to the world.
\<close>

section \<open>The withdrawal object\<close>

record 'w session =
  obj :: withdrawal
  outer :: 'w

definition on_outer :: "('w, 'a) io \<Rightarrow> ('w session, 'a) io" where
  "on_outer m = (\<lambda>s. case m (outer s) of (r, w') \<Rightarrow> (r, s\<lparr>outer := w'\<rparr>))"

definition get_obj :: "('w session, withdrawal) io" where
  "get_obj = (\<lambda>s. (Inr (obj s), s))"

definition set_status :: "string \<Rightarrow> ('w session, unit) io" where
  "set_status st = (\<lambda>s. (Inr (), s\<lparr>obj := (obj s)\<lparr>wd_status := st\<rparr>\<rparr>))"

definition set_tx_hash :: "string option \<Rightarrow> ('w session, unit) io" where
  "set_tx_hash h = (\<lambda>s. (Inr (), s\<lparr>obj := (obj s)\<lparr>wd_tx_hash := h\<rparr>\<rparr>))"

definition save_obj :: "'w env \<Rightarrow> ('w session, unit) io" where
  "save_obj E = bindio get_obj (\<lambda>wd. on_outer (withdrawal_save E wd))"

text \<open>Run a method on an object that nobody else holds.\<close>

definition with_obj :: "withdrawal \<Rightarrow> ('w session, 'a) io \<Rightarrow> ('w, 'a) io" where
  "with_obj wd m = (\<lambda>w. case m \<lparr>obj = wd, outer = w\<rparr> of (r, s) \<Rightarrow> (r, outer s))"

section \<open>WithdrawalService\<close>

definition withdrawBNB :: "'w env \<Rightarrow> withdrawal \<Rightarrow> ('w, string) io" where
  "withdrawBNB E wd =
     (case parseUnits E (amount wd) 18 of
        Inl e \<Rightarrow> throw e
      | Inr units \<Rightarrow> sendTransaction E (wd_to wd) units 21000)"

definition withdrawUSDT :: "'w env \<Rightarrow> withdrawal \<Rightarrow> ('w, string) io" where
  "withdrawUSDT E wd =
     bindio (decimals E) (\<lambda>n.
     case parseUnits E (amount wd) n of
       Inl e \<Rightarrow> throw e
     | Inr units \<Rightarrow> usdt_transfer E (wd_to wd) units)"

definition rollback :: "'w env \<Rightarrow> withdrawal \<Rightarrow> ('w, unit) io" where
  "rollback E wd =
     (if wd_symbol wd = ''BNB'' then account_increment E (Some (account_id wd)) Bnb_amount (amount wd)
      else if wd_symbol wd = ''USDT'' then account_increment E (Some (account_id wd)) Usdt_amount (amount wd)
      else ret ())"

definition monitorTransaction :: "'w env \<Rightarrow> string option \<Rightarrow> ('w session, unit) io" where
  "monitorTransaction E txHash =
     catchio
       (bindio (on_outer (waitForTransaction E txHash 3)) (\<lambda>rc.
        case rc of
          None \<Rightarrow> throw (TypeError ''Cannot read properties of null'')
        | Some receipt \<Rightarrow>
            if rc_status receipt = 1 then seqio (set_status ''success'') (save_obj E)
            else seqio (set_status ''failed'')
              (seqio (save_obj E) (bindio get_obj (\<lambda>wd. on_outer (rollback E wd))))))
       (\<lambda>_. seqio (set_status ''failed'') (save_obj E))"

text \<open>The transfer of \<open>processWithdrawal\<close>; for any other token \<open>txHash\<close> stays \<open>undefined\<close>.\<close>

definition send_withdrawal :: "'w env \<Rightarrow> withdrawal \<Rightarrow> ('w, string option) io" where
  "send_withdrawal E wd =
     (if wd_symbol wd = ''BNB'' then bindio (withdrawBNB E wd) (\<lambda>h. ret (Some h))
      else if wd_symbol wd = ''USDT'' then bindio (withdrawUSDT E wd) (\<lambda>h. ret (Some h))
      else ret None)"

definition processWithdrawal :: "'w env \<Rightarrow> ('w session, unit) io" where
  "processWithdrawal E =
     catchio
       (bindio get_obj (\<lambda>wd.
        if wd_status wd \<noteq> ''processing'' then ret ()
        else
          bindio (on_outer (send_withdrawal E wd)) (\<lambda>txHash.
          seqio (set_tx_hash txHash)
          (seqio (save_obj E)
          (monitorTransaction E txHash)))))
       (\<lambda>_. seqio (set_status ''failed'') (save_obj E))"

text \<open>The first loop of \<open>processWithdrawals\<close> claims the rows that were read, the second pays them.\<close>

definition claim :: "withdrawal \<Rightarrow> withdrawal" where
  "claim wd = (if wd_status wd \<noteq> ''init'' then wd else wd\<lparr>wd_status := ''processing''\<rparr>)"

definition claim_all :: "'w env \<Rightarrow> withdrawal list \<Rightarrow> ('w, unit) io" where
  "claim_all E pending = foreach pending (\<lambda>wd.
     if wd_status wd \<noteq> ''init'' then ret () else withdrawal_save E (claim wd))"

definition pay_all :: "'w env \<Rightarrow> withdrawal list \<Rightarrow> ('w, unit) io" where
  "pay_all E pending = foreach pending (\<lambda>wd. with_obj (claim wd) (processWithdrawal E))"

definition processWithdrawals :: "'w env \<Rightarrow> ('w, unit) io" where
  "processWithdrawals E =
     bindio (withdrawal_find E ''init'') (\<lambda>pending.
     seqio (claim_all E pending) (pay_all E pending))"

section \<open>App\<close>

text \<open>\<open>App.start\<close>: the value is the exit code when the process is ended by the \<open>catch\<close> block.\<close>

definition app_start :: "'w env \<Rightarrow> config \<Rightarrow> ('w, nat option) io" where
  "app_start E cfg =
     catchio
       (seqio (db_initialize E)
       (seqio (initData E)
       (seqio (start E cfg)
       (seqio (setInterval E ProcessWithdrawals (Lit 5000))
       (ret None)))))
       (\<lambda>_. ret (Some 1))"

section \<open>What a pass may do\<close>

text \<open>The transfer \<open>(token, receiver, units)\<close> that pays a withdrawal.\<close>

fun pays :: "'w env \<Rightarrow> withdrawal \<Rightarrow> string \<times> string \<times> int \<Rightarrow> bool" where
  "pays E wd (tok, to, units) \<longleftrightarrow> tok = wd_symbol wd \<and> to = wd_to wd \<and>
     (\<exists>n. parseUnits E (amount wd) n = Inr units)"

text \<open>The transfers made for a list of withdrawals: at most one each, in their order.\<close>

definition at_most_once :: "'w env \<Rightarrow> withdrawal list \<Rightarrow> (string \<times> string \<times> int) list \<Rightarrow> bool" where
  "at_most_once E ws new \<longleftrightarrow> (\<exists>paid. subseq paid ws \<and> list_all2 (pays E) paid new)"

definition untouched :: "int set \<Rightarrow> db \<Rightarrow> withdrawal list" where
  "untouched is d = filter (\<lambda>r. wd_id r \<notin> is) (withdrawals d)"

lemma at_most_once_Nil: "at_most_once E ws []"
  unfolding at_most_once_def by (intro exI [of _ "[]"]) simp

lemma at_most_once_Cons:
  assumes "new = [] \<or> (\<exists>p. new = [p] \<and> pays E wd p)" and "at_most_once E ws rest"
  shows "at_most_once E (wd # ws) (new @ rest)"
proof -
  obtain paid where p: "subseq paid ws" "list_all2 (pays E) paid rest"
    using assms(2) by (auto simp: at_most_once_def)
  from assms(1) show ?thesis
  proof
    assume "new = []"
    with p show ?thesis unfolding at_most_once_def by (intro exI [of _ paid]) auto
  next
    assume "\<exists>p. new = [p] \<and> pays E wd p"
    with p show ?thesis unfolding at_most_once_def by (intro exI [of _ "wd # paid"]) auto
  qed
qed

lemma pays_claim [simp]: "pays E (claim wd) p = pays E wd p"
  by (cases p) (simp add: claim_def)

lemma claim_fields [simp]:
  "wd_id (claim wd) = wd_id wd" "wd_symbol (claim wd) = wd_symbol wd" "amount (claim wd) = amount wd"
  "wd_to (claim wd) = wd_to wd" "account_id (claim wd) = account_id wd"
  by (simp_all add: claim_def)

lemma save_fields [simp]:
  "sent (db_save_withdrawal r d) = sent d" "accounts (db_save_withdrawal r d) = accounts d"
  "map wd_id (withdrawals (db_save_withdrawal r d)) = map wd_id (withdrawals d)"
  "sent (db_add cast i c x d) = sent d" "withdrawals (db_add cast i c x d) = withdrawals d"
  "untouched is (db_add cast i c x d) = untouched is d"
  by (simp_all add: db_save_withdrawal_def db_add_def untouched_def comp_def if_distrib cong: if_cong)

lemma untouched_save [simp]: "wd_id r \<in> is \<Longrightarrow> untouched is (db_save_withdrawal r d) = untouched is d"
proof -
  assume "wd_id r \<in> is"
  then have "filter (\<lambda>r. wd_id r \<notin> is) (map (\<lambda>a. if wd_id a = wd_id r then r else a) xs) =
    filter (\<lambda>r. wd_id r \<notin> is) xs" for xs
    by (induction xs) auto
  then show ?thesis by (simp add: untouched_def db_save_withdrawal_def)
qed

lemma untouched_sent [simp]: "untouched is (d\<lparr>sent := x\<rparr>) = untouched is d"
  by (simp add: untouched_def)

section \<open>Methods on the object, seen from the tables\<close>

definition seen :: "('w \<Rightarrow> db) \<Rightarrow> 'w session \<Rightarrow> withdrawal \<times> db" where
  "seen v s = (obj s, v (outer s))"

lemma silent_outer: "silent v m \<Longrightarrow> silent (seen v) (on_outer m)"
  by (simp add: silent_def seen_def on_outer_def split: prod.split) (metis snd_conv)

lemma writing_outer: "writing v m f \<Longrightarrow> writing (seen v) (on_outer m) (\<lambda>(o', d). (o', f d))"
  unfolding writing_def seen_def on_outer_def
  by (auto split: prod.split) (metis fst_conv snd_conv)+

lemma total_outer: "total_io m \<Longrightarrow> total_io (on_outer m)"
  by (simp add: total_io_def on_outer_def split: prod.split) (metis fst_conv)

lemma writing_set_status: "writing (seen v) (set_status st) (\<lambda>(o', d). (o'\<lparr>wd_status := st\<rparr>, d))"
  and writing_set_hash: "writing (seen v) (set_tx_hash h) (\<lambda>(o', d). (o'\<lparr>wd_tx_hash := h\<rparr>, d))"
  and total_set_status: "total_io (set_status st)" and total_set_hash: "total_io (set_tx_hash h)"
  by (simp_all add: writing_def seen_def set_status_def set_tx_hash_def total_io_def)

lemma runs_get_obj:
  "runs (seen v) (o', d) (g o') Q R \<Longrightarrow> runs (seen v) (o', d) (bindio get_obj g) Q R"
  by (auto simp: triple_def seen_def bindio_def get_obj_def)

lemma runs_outer:
  assumes "runs v d m Q R"
  shows "runs (seen v) (o', d) (on_outer m) (\<lambda>x s. fst s = o' \<and> Q x (snd s)) (\<lambda>s. fst s = o' \<and> R (snd s))"
proof (rule tripleI)
  fix s assume s: "seen v s = (o', d)"
  obtain r w' where m: "m (outer s) = (r, w')" by fastforce
  from s have "v (outer s) = d" "obj s = o'" by (simp_all add: seen_def)
  with tripleD [OF assms, of "outer s"] m
  show "outcome (seen v) (\<lambda>x s. fst s = o' \<and> Q x (snd s)) (\<lambda>s. fst s = o' \<and> R (snd s)) (on_outer m s)"
    by (cases r) (simp_all add: on_outer_def seen_def)
qed

lemma runs_with_obj:
  assumes "runs (seen v) (wd, d) m (\<lambda>x s. Q x (snd s)) (\<lambda>s. R (snd s))"
  shows "runs v d (with_obj wd m) Q R"
proof (rule tripleI)
  fix w assume "v w = d"
  then have s: "seen v \<lparr>obj = wd, outer = w\<rparr> = (wd, d)" by (simp add: seen_def)
  obtain r s' where m: "m \<lparr>obj = wd, outer = w\<rparr> = (r, s')" by fastforce
  from tripleD [OF assms s] m show "outcome v Q R (with_obj wd m w)"
    by (cases r) (simp_all add: with_obj_def seen_def)
qed

end
