(* ===== verification/Withdrawal_Spec.thy ===== *)
theory Withdrawal_Spec
  imports Withdrawals Parser_Money
begin

text \<open>
  What a pass of the withdrawal service does to the tables: lemmas that hold whatever calls fail
  (locale \<open>ledger\<close>), and the exact effect when none fails (locale \<open>steady_wallet\<close>, which extends
  \<open>steady_ledger\<close> by transfers and receipts that arrive).
\<close>

section \<open>Whatever calls fail\<close>

text \<open>The state \<open>(o', s)\<close> still belongs to withdrawal \<open>i\<close>, has sent \<open>n\<close>, and has the rows \<open>u\<close> besides.\<close>

definition owns :: "int \<Rightarrow> (string \<times> string \<times> int) list \<Rightarrow> withdrawal list \<Rightarrow> withdrawal \<times> db \<Rightarrow> bool" where
  "owns i n u p \<longleftrightarrow> wd_id (fst p) = i \<and> sent (snd p) = n \<and> untouched {i} (snd p) = u"

definition pass_step :: "'w env \<Rightarrow> withdrawal list \<Rightarrow> db \<Rightarrow> db \<Rightarrow> bool" where
  "pass_step E ws d s \<longleftrightarrow> (\<exists>new. sent s = sent d @ new \<and> at_most_once E ws new) \<and>
     untouched (wd_id ` set ws) s = untouched (wd_id ` set ws) d"

lemma pass_step_refl: "pass_step E ws d d"
  by (auto simp: pass_step_def at_most_once_Nil)

lemma untouched_mono: "untouched is s = untouched is d \<Longrightarrow> is \<subseteq> js \<Longrightarrow> untouched js s = untouched js d"
proof -
  assume a: "untouched is s = untouched is d" "is \<subseteq> js"
  have "untouched js x = filter (\<lambda>r. wd_id r \<notin> js) (untouched is x)" for x
    unfolding untouched_def filter_filter by (rule filter_cong) (use a(2) in auto)
  with a(1) show ?thesis by metis
qed

lemma pass_step_Cons:
  assumes "sent s = sent d @ new" and "new = [] \<or> (\<exists>p. new = [p] \<and> pays E wd p)"
    and "untouched {wd_id wd} s = untouched {wd_id wd} d" and "pass_step E ws s t"
  shows "pass_step E (wd # ws) d t"
proof -
  from assms(4) obtain rest where r: "sent t = sent s @ rest" "at_most_once E ws rest"
    "untouched (wd_id ` set ws) t = untouched (wd_id ` set ws) s"
    by (auto simp: pass_step_def)
  let ?js = "wd_id ` set (wd # ws)"
  have "untouched ?js t = untouched ?js d"
    using untouched_mono [OF r(3), of ?js] untouched_mono [OF assms(3), of ?js] by auto
  with r assms(1) at_most_once_Cons [OF assms(2) r(2)] show ?thesis
    by (auto simp: pass_step_def)
qed

context ledger
begin

lemma writing_save_obj:
  "writing (seen v) (save_obj E) (\<lambda>(o', d). (o', db_save_withdrawal o' d))"
  using withdrawal_save unfolding writing_def save_obj_def bindio_def get_obj_def seen_def on_outer_def
  by (auto split: prod.split sum.split) (metis fst_conv snd_conv sum.inject sum.distinct)+

lemma keeps_rollback: "keeps (seen v) (owns i n u) (on_outer (rollback E wd))"
  unfolding rollback_def
  by (auto intro!: keeps_writing [OF writing_outer [OF account_increment]] simp: owns_def)
    (simp add: on_outer_def triple_def ret_def)

lemma monitor_keeps: "keeps (seen v) (owns i n u) (monitorTransaction E h)"
  unfolding monitorTransaction_def
  by (intro keeps_intros keeps_silent [OF silent_outer [OF waitForTransaction]] keeps_rollback
      keeps_writing [OF writing_save_obj] keeps_writing [OF writing_set_status])
    (auto simp: owns_def triple_def get_obj_def)

definition may_pay :: "withdrawal \<Rightarrow> db \<Rightarrow> db \<Rightarrow> bool" where
  "may_pay wd d s \<longleftrightarrow> (\<exists>new. s = d\<lparr>sent := sent d @ new\<rparr> \<and> (new = [] \<or> (\<exists>p. new = [p] \<and> pays E wd p)))"

lemma may_pay_intros: "may_pay wd d d"
  "wd_symbol wd = tok \<Longrightarrow> parseUnits E (amount wd) n = Inr units \<Longrightarrow>
    may_pay wd d (d\<lparr>sent := sent d @ [(tok, wd_to wd, units)]\<rparr>)"
  unfolding may_pay_def by (intro exI [of _ "[]"]) auto

lemma send_runs: "runs v d (send_withdrawal E wd) (\<lambda>_. may_pay wd d) (may_pay wd d)"
proof -
  have bnb: "runs v d (withdrawBNB E wd) (\<lambda>_. may_pay wd d) (may_pay wd d)" if "wd_symbol wd = ''BNB''"
    unfolding withdrawBNB_def
    by (cases "parseUnits E (amount wd) 18")
      (simp_all add: runs_throw may_pay_intros that runs_attempt [OF sendTransaction])
  have usdt: "runs v d (withdrawUSDT E wd) (\<lambda>_. may_pay wd d) (may_pay wd d)" if "wd_symbol wd = ''USDT''"
    unfolding withdrawUSDT_def
  proof (rule runs_silent [OF decimals], simp add: may_pay_intros)
    fix n
    show "runs v d (case parseUnits E (amount wd) n of Inl e \<Rightarrow> throw e
      | Inr units \<Rightarrow> usdt_transfer E (wd_to wd) units) (\<lambda>_. may_pay wd d) (may_pay wd d)"
      by (cases "parseUnits E (amount wd) n")
        (simp_all add: runs_throw may_pay_intros that runs_attempt [OF usdt_transfer])
  qed
  from bnb usdt show ?thesis
    unfolding send_withdrawal_def
    by (intro runs_if runs_ret may_pay_intros) (blast intro: runs_bind_all runs_ret)+
qed

lemma withdrawal_step:
  "runs v d (with_obj wd (processWithdrawal E))
    (\<lambda>_ s. \<exists>new. sent s = sent d @ new \<and> (new = [] \<or> (\<exists>p. new = [p] \<and> pays E wd p)) \<and>
       untouched {wd_id wd} s = untouched {wd_id wd} d)
    (\<lambda>s. \<exists>new. sent s = sent d @ new \<and> (new = [] \<or> (\<exists>p. new = [p] \<and> pays E wd p)) \<and>
       untouched {wd_id wd} s = untouched {wd_id wd} d)"
proof (rule runs_with_obj)
  let ?u = "untouched {wd_id wd} d"
  define P where "P = (\<lambda>p. \<exists>new. (new = [] \<or> (\<exists>q. new = [q] \<and> pays E wd q)) \<and> owns (wd_id wd) (sent d @ new) ?u p)"
  have tail: "keeps (seen v) P (seqio (set_tx_hash h) (seqio (save_obj E) (monitorTransaction E h)))" for h
    unfolding P_def by (rule keeps_ex, intro keeps_intros monitor_keeps keeps_writing [OF writing_save_obj]
        keeps_writing [OF writing_set_hash]) (auto simp: owns_def)
  have stop: "keeps (seen v) P (seqio (set_status ''failed'') (save_obj E))"
    unfolding P_def by (rule keeps_ex, intro keeps_intros keeps_writing [OF writing_save_obj]
        keeps_writing [OF writing_set_status]) (auto simp: owns_def)
  have start: "P (wd, d)" unfolding P_def by (intro exI [of _ "[]"]) (simp add: owns_def)
  have send: "runs (seen v) (wd, d) (on_outer (send_withdrawal E wd)) (\<lambda>_. P) P"
    by (rule runs_conseq [OF runs_outer [OF send_runs]])
      (auto simp: may_pay_def owns_def P_def)
  have "runs (seen v) (wd, d) (processWithdrawal E) (\<lambda>_. P) P"
    unfolding processWithdrawal_def
  proof (rule runs_catch [where A = P], rule runs_get_obj, rule runs_if)
    show "runs (seen v) (wd, d) (ret ()) (\<lambda>_. P) P" using start by (rule runs_ret)
    show "runs (seen v) (wd, d) (bindio (on_outer (send_withdrawal E wd)) (\<lambda>h. seqio (set_tx_hash h)
      (seqio (save_obj E) (monitorTransaction E h)))) (\<lambda>_. P) P"
      by (rule triple_bind [OF send tail])
    show "runs (seen v) s (seqio (set_status ''failed'') (save_obj E)) (\<lambda>_. P) P" if "P s" for s
      by (rule triple_pre [OF stop]) (use that in simp)
  qed
  then show "runs (seen v) (wd, d) (processWithdrawal E) (\<lambda>_ s. \<exists>new. sent (snd s) = sent d @ new \<and>
      (new = [] \<or> (\<exists>p. new = [p] \<and> pays E wd p)) \<and> untouched {wd_id wd} (snd s) = ?u)
    (\<lambda>s. \<exists>new. sent (snd s) = sent d @ new \<and>
      (new = [] \<or> (\<exists>p. new = [p] \<and> pays E wd p)) \<and> untouched {wd_id wd} (snd s) = ?u)"
    by (rule runs_conseq) (auto simp: owns_def P_def)
qed

lemma pay_all_step: "runs v d (pay_all E ws) (\<lambda>_. pass_step E ws d) (pass_step E ws d)"
proof (induction ws arbitrary: d)
  case Nil
  then show ?case by (simp add: pay_all_def runs_ret pass_step_refl)
next
  case (Cons wd ws)
  let ?A = "\<lambda>s. \<exists>new. sent s = sent d @ new \<and> (new = [] \<or> (\<exists>p. new = [p] \<and> pays E wd p)) \<and>
     untouched {wd_id wd} s = untouched {wd_id wd} d"
  have A: "runs v d (with_obj (claim wd) (processWithdrawal E)) (\<lambda>_. ?A) ?A"
    using withdrawal_step [of d "claim wd"] by simp
  have *: "pass_step E (wd # ws) d t" if "?A s" "pass_step E ws s t" for s t
    using that pass_step_Cons by blast
  show ?case
    unfolding pay_all_def foreach.simps
  proof (rule triple_seq [where A = ?A])
    show "runs v d (with_obj (claim wd) (processWithdrawal E)) (\<lambda>_. ?A) (pass_step E (wd # ws) d)"
      by (rule runs_conseq [OF A]) (use * pass_step_refl in blast)+
    show "triple v ?A (foreach ws (\<lambda>wd. with_obj (claim wd) (processWithdrawal E)))
      (\<lambda>_. pass_step E (wd # ws) d) (pass_step E (wd # ws) d)"
      unfolding pay_all_def [symmetric]
      by (rule runs_all, rule runs_conseq [OF Cons.IH]) (use * in blast)+
  qed
qed

lemma claim_all_keeps:
  assumes "wd_id ` set ws \<subseteq> is"
  shows "keeps v (\<lambda>s. sent s = n \<and> untouched is s = u) (claim_all E ws)"
  unfolding claim_all_def
  by (intro keeps_intros keeps_writing [OF withdrawal_save]) (use assms in auto)

lemma pass_steps:
  "runs v d (processWithdrawals E) (\<lambda>_. pass_step E (find_withdrawals ''init'' d) d)
     (pass_step E (find_withdrawals ''init'' d) d)"
  unfolding processWithdrawals_def
proof (rule runs_reading [OF withdrawal_find disjI2 [OF pass_step_refl]])
  let ?ws = "find_withdrawals ''init'' d"
  let ?K = "\<lambda>s. sent s = sent d \<and> untouched (wd_id ` set ?ws) s = untouched (wd_id ` set ?ws) d"
  have K: "pass_step E ?ws d t" if "?K s" "pass_step E ?ws s t" for s t
    using that unfolding pass_step_def by simp
  show "runs v d (seqio (claim_all E ?ws) (pay_all E ?ws)) (\<lambda>_. pass_step E ?ws d) (pass_step E ?ws d)"
  proof (rule triple_seq [where A = ?K])
    show "runs v d (claim_all E ?ws) (\<lambda>_. ?K) (pass_step E ?ws d)"
      by (rule triple_conseq [OF claim_all_keeps [OF order_refl]]) (use K [OF _ pass_step_refl] in auto)
    show "triple v ?K (pay_all E ?ws) (\<lambda>_. pass_step E ?ws d) (pass_step E ?ws d)"
      by (rule runs_all, rule runs_conseq [OF pay_all_step]) (use K in blast)+
  qed
qed

end

section \<open>When no call fails\<close>

locale steady_wallet = steady_ledger +
  assumes sends: "total_io (sendTransaction E to units gas)" "total_io (usdt_transfer E to units)"
    and waits: "total_io (waitForTransaction E h conf)"

interpretation wallet: steady_wallet "mem_env False chain receipts" mdb cast_round chain receipts 18 "''USDT''"
  by unfold_locales (simp_all add: mem_env_def total_peek total_poke)

definition settled :: "int \<Rightarrow> db \<Rightarrow> bool" where
  "settled i d \<longleftrightarrow> (\<forall>r \<in> set (withdrawals d). wd_id r = i \<longrightarrow> wd_status r \<in> {''success'', ''failed''})"

lemma settled_add [simp]: "settled i (db_add cast j c x d) = settled i d"
  by (simp add: settled_def)

lemma settled_save:
  "wd_id r = i \<Longrightarrow> wd_status r = ''success'' \<or> wd_status r = ''failed'' \<Longrightarrow> settled i (db_save_withdrawal r d)"
  by (auto simp: settled_def db_save_withdrawal_def)

lemma settled_untouched:
  assumes "settled j d" and "untouched {i} s = untouched {i} d" and "settled i s"
  shows "settled j s"
  unfolding settled_def
proof (intro ballI impI)
  fix r assume r: "r \<in> set (withdrawals s)" "wd_id r = j"
  show "wd_status r \<in> {''success'', ''failed''}"
  proof (cases "j = i")
    case True
    with assms(3) r show ?thesis by (simp add: settled_def)
  next
    case False
    with r have "r \<in> set (untouched {i} s)" by (simp add: untouched_def)
    then have "r \<in> set (withdrawals d)" unfolding assms(2) by (simp add: untouched_def)
    with assms(1) r show ?thesis by (simp add: settled_def)
  qed
qed

text \<open>The decimals a withdrawal's amount is converted with, and the transfer that pays it.\<close>

definition wd_units :: "'w env \<Rightarrow> nat \<Rightarrow> withdrawal \<Rightarrow> js_error + int" where
  "wd_units E n wd = parseUnits E (amount wd) (if wd_symbol wd = ''BNB'' then 18 else n)"

definition payable :: "'w env \<Rightarrow> nat \<Rightarrow> withdrawal \<Rightarrow> bool" where
  "payable E n wd \<longleftrightarrow> wd_symbol wd \<in> {''BNB'', ''USDT''} \<and> (\<exists>u. wd_units E n wd = Inr u)"

definition payment :: "'w env \<Rightarrow> nat \<Rightarrow> withdrawal \<Rightarrow> string \<times> string \<times> int" where
  "payment E n wd = (wd_symbol wd, wd_to wd, projr (wd_units E n wd))"

definition token_column :: "string \<Rightarrow> column" where
  "token_column t = (if t = ''BNB'' then Bnb_amount else Usdt_amount)"

context steady_wallet
begin

lemma total_save_obj: "total_io (save_obj E)"
proof (unfold total_io_def, intro allI)
  fix s :: "'a session"
  obtain x where "fst (withdrawal_save E (obj s) (outer s)) = Inr x"
    using totals(14) unfolding total_io_def by blast
  then show "\<exists>x. fst (save_obj E s) = Inr x"
    by (auto simp: save_obj_def bindio_def get_obj_def on_outer_def split: prod.split)
qed

lemma settle:
  assumes "st = ''success'' \<or> st = ''failed''"
  shows "triple (seen v) (owns i n u) (seqio (set_status st) (save_obj E))
    (\<lambda>_ p. owns i n u p \<and> settled i (snd p)) R"
proof (rule runs_all)
  fix p assume p: "owns i n u p"
  show "runs (seen v) p (seqio (set_status st) (save_obj E)) (\<lambda>_ p. owns i n u p \<and> settled i (snd p)) R"
    by (rule runs_writing [OF writing_set_status disjI1 [OF total_set_status]],
        rule runs_write [OF writing_save_obj disjI1 [OF total_save_obj]])
      (use p assms in \<open>auto simp: owns_def settled_save split: prod.split\<close>)
qed

lemma rollback_settles:
  "triple (seen v) (\<lambda>p. owns i n u p \<and> settled i (snd p)) (bindio get_obj (\<lambda>wd. on_outer (rollback E wd)))
    (\<lambda>_ p. owns i n u p \<and> settled i (snd p)) R"
proof (rule runs_all)
  fix p assume p: "owns i n u p \<and> settled i (snd p)"
  obtain o' d where od: "p = (o', d)" by fastforce
  have t: "total_io (on_outer (account_increment E j c x))" for j c x
    by (rule total_outer [OF totals(8)])
  have "runs (seen v) p (on_outer (rollback E o')) (\<lambda>_ p. owns i n u p \<and> settled i (snd p)) R"
    unfolding rollback_def if_distrib [of on_outer]
    by (intro runs_if runs_write [OF writing_outer [OF account_increment] disjI1 [OF t]])
      (use p od in \<open>auto simp: owns_def triple_def on_outer_def ret_def outcome_def seen_def\<close>)
  then show "runs (seen v) p (bindio get_obj (\<lambda>wd. on_outer (rollback E wd)))
      (\<lambda>_ p. owns i n u p \<and> settled i (snd p)) R"
    unfolding od by (rule runs_get_obj)
qed

lemma monitor_settles:
  "triple (seen v) (owns i n u) (monitorTransaction E h)
    (\<lambda>_ p. owns i n u p \<and> settled i (snd p)) R"
  unfolding monitorTransaction_def
proof (rule triple_catch [where A = "owns i n u"], rule runs_all)
  fix p assume p: "owns i n u p"
  show "runs (seen v) p (bindio (on_outer (waitForTransaction E h 3)) (\<lambda>rc.
      case rc of None \<Rightarrow> throw (TypeError ''Cannot read properties of null'')
      | Some receipt \<Rightarrow> if rc_status receipt = 1 then seqio (set_status ''success'') (save_obj E)
          else seqio (set_status ''failed'')
            (seqio (save_obj E) (bindio get_obj (\<lambda>wd. on_outer (rollback E wd))))))
    (\<lambda>_ p. owns i n u p \<and> settled i (snd p)) (owns i n u)"
  proof (rule runs_silent [OF silent_outer [OF waitForTransaction] disjI1 [OF total_outer [OF waits]]],
      rule runs_option)
    show "runs (seen v) p (throw e) (\<lambda>_ p. owns i n u p \<and> settled i (snd p)) (owns i n u)" for e
      using p by (rule runs_throw)
    have "triple (seen v) (owns i n u) (seqio (seqio (set_status ''failed'') (save_obj E))
        (bindio get_obj (\<lambda>wd. on_outer (rollback E wd))))
      (\<lambda>_ p. owns i n u p \<and> settled i (snd p)) (owns i n u)"
      by (rule triple_seq [OF settle rollback_settles]) simp
    with settle [of "''success''" i n u "owns i n u"] p
    show "runs (seen v) p (if rc_status rc = 1 then seqio (set_status ''success'') (save_obj E)
          else seqio (set_status ''failed'')
            (seqio (save_obj E) (bindio get_obj (\<lambda>wd. on_outer (rollback E wd)))))
      (\<lambda>_ p. owns i n u p \<and> settled i (snd p)) (owns i n u)" for rc
      by (auto simp: seqio_def bindio_assoc intro: triple_pre)
  qed
qed (rule settle, simp)

lemma send_pays:
  assumes "payable E dec wd"
  shows "runs v d (send_withdrawal E wd)
    (\<lambda>x s. x \<noteq> None \<and> s = d\<lparr>sent := sent d @ [payment E dec wd]\<rparr>) R"
proof (cases "wd_symbol wd = ''BNB''")
  case True
  with assms obtain u where u: "parseUnits E (amount wd) 18 = Inr u"
    by (auto simp: payable_def wd_units_def)
  then show ?thesis
    unfolding send_withdrawal_def withdrawBNB_def
    by (simp add: True) (rule runs_bind_all [OF runs_attempt [OF sendTransaction disjI1 [OF sends(1)]]],
      auto simp: payment_def wd_units_def True intro!: runs_ret)
next
  case False
  with assms obtain u where u: "parseUnits E (amount wd) dec = Inr u" "wd_symbol wd = ''USDT''"
    by (auto simp: payable_def wd_units_def)
  then show ?thesis
    unfolding send_withdrawal_def withdrawUSDT_def
    by (simp add: False bindio_assoc) (rule runs_returning [OF decimals dec],
      simp, rule runs_bind_all [OF runs_attempt [OF usdt_transfer disjI1 [OF sends(2)]]],
      auto simp: payment_def wd_units_def intro!: runs_ret)
qed

lemma withdrawal_pays:
  assumes "payable E dec wd" and "wd_status wd = ''processing''"
  shows "runs v d (with_obj wd (processWithdrawal E))
    (\<lambda>_ s. sent s = sent d @ [payment E dec wd] \<and> untouched {wd_id wd} s = untouched {wd_id wd} d \<and>
       settled (wd_id wd) s) R"
proof (rule runs_with_obj)
  let ?P = "owns (wd_id wd) (sent d @ [payment E dec wd]) (untouched {wd_id wd} d)"
  have tail: "triple (seen v) ?P (seqio (set_tx_hash h) (seqio (save_obj E) (monitorTransaction E h)))
    (\<lambda>_ p. ?P p \<and> settled (wd_id wd) (snd p)) (\<lambda>_. False)" for h
  proof (rule runs_all)
    fix p assume p: "?P p"
    show "runs (seen v) p (seqio (set_tx_hash h) (seqio (save_obj E) (monitorTransaction E h)))
      (\<lambda>_ p. ?P p \<and> settled (wd_id wd) (snd p)) (\<lambda>_. False)"
      by (rule runs_writing [OF writing_set_hash disjI1 [OF total_set_hash]],
          rule runs_writing [OF writing_save_obj disjI1 [OF total_save_obj]],
          rule triple_pre [OF monitor_settles])
        (use p in \<open>auto simp: owns_def split: prod.split\<close>)
  qed
  have send: "runs (seen v) (wd, d) (on_outer (send_withdrawal E wd)) (\<lambda>_. ?P) (\<lambda>_. False)"
    by (rule runs_conseq [OF runs_outer [OF send_pays [OF assms(1), of d "\<lambda>_. False"]]]) (auto simp: owns_def)
  have "runs (seen v) (wd, d) (processWithdrawal E)
      (\<lambda>_ p. ?P p \<and> settled (wd_id wd) (snd p)) (\<lambda>s. R (snd s))"
    unfolding processWithdrawal_def
    by (rule runs_catch [where A = "\<lambda>_. False"], rule runs_get_obj)
      (simp_all add: assms(2) triple_bind [OF send tail])
  then show "runs (seen v) (wd, d) (processWithdrawal E) (\<lambda>_ p. sent (snd p) = sent d @ [payment E dec wd] \<and>
      untouched {wd_id wd} (snd p) = untouched {wd_id wd} d \<and> settled (wd_id wd) (snd p)) (\<lambda>s. R (snd s))"
    by (rule runs_conseq) (auto simp: owns_def)
qed

lemma payment_claim [simp]: "payment E n (claim wd) = payment E n wd"
  and payable_claim [simp]: "payable E n (claim wd) = payable E n wd"
  and status_claim: "wd_status wd = ''init'' \<Longrightarrow> wd_status (claim wd) = ''processing''"
  by (simp_all add: payment_def payable_def wd_units_def) (simp add: claim_def)

lemma pay_all_exact:
  assumes "\<forall>wd \<in> set ws. payable E dec wd \<and> wd_status wd = ''init''" and "\<forall>j \<in> J. settled j d"
  shows "runs v d (pay_all E ws)
    (\<lambda>_ s. sent s = sent d @ map (payment E dec) ws \<and>
       untouched (wd_id ` set ws) s = untouched (wd_id ` set ws) d \<and>
       (\<forall>j \<in> J \<union> wd_id ` set ws. settled j s)) R"
  using assms
proof (induction ws arbitrary: d J)
  case Nil
  then show ?case by (simp add: pay_all_def runs_ret)
next
  case (Cons wd ws)
  let ?A = "\<lambda>s. sent s = sent d @ [payment E dec wd] \<and> untouched {wd_id wd} s = untouched {wd_id wd} d \<and>
       settled (wd_id wd) s"
  let ?Q = "\<lambda>s. sent s = sent d @ map (payment E dec) (wd # ws) \<and>
       untouched (wd_id ` set (wd # ws)) s = untouched (wd_id ` set (wd # ws)) d \<and>
       (\<forall>j \<in> J \<union> wd_id ` set (wd # ws). settled j s)"
  have A: "runs v d (with_obj (claim wd) (processWithdrawal E)) (\<lambda>_. ?A) R"
    using withdrawal_pays [of "claim wd" d] Cons.prems(1) by (simp add: status_claim)
  have B: "runs v s (pay_all E ws) (\<lambda>_. ?Q) R" if s: "?A s" for s
  proof -
    have "\<forall>j \<in> insert (wd_id wd) J. settled j s"
      using s Cons.prems(2) settled_untouched [of _ d "wd_id wd" s] by blast
    then have "runs v s (pay_all E ws) (\<lambda>_ t. sent t = sent s @ map (payment E dec) ws \<and>
        untouched (wd_id ` set ws) t = untouched (wd_id ` set ws) s \<and>
        (\<forall>j \<in> insert (wd_id wd) J \<union> wd_id ` set ws. settled j t)) R"
      by (intro Cons.IH) (use Cons.prems in auto)
    then show ?thesis
    proof (rule runs_conseq)
      fix x :: unit and t
      let ?js = "wd_id ` set (wd # ws)"
      assume t: "sent t = sent s @ map (payment E dec) ws \<and>
        untouched (wd_id ` set ws) t = untouched (wd_id ` set ws) s \<and>
        (\<forall>j \<in> insert (wd_id wd) J \<union> wd_id ` set ws. settled j t)"
      then have "untouched ?js t = untouched ?js s" "untouched ?js s = untouched ?js d"
        using s untouched_mono [of "wd_id ` set ws" t s ?js] untouched_mono [of "{wd_id wd}" s d ?js] by auto
      with s t show "?Q t" by simp
    qed
  qed
  show ?case
    unfolding pay_all_def foreach.simps
    by (rule triple_seq [OF A], rule runs_all) (use B in \<open>simp add: pay_all_def\<close>)
qed

lemma claim_all_runs:
  assumes "wd_id ` set ws \<subseteq> is"
  shows "triple v (\<lambda>s. sent s = n \<and> untouched is s = u) (claim_all E ws)
    (\<lambda>_ s. sent s = n \<and> untouched is s = u) R"
proof -
  have t: "\<exists>x. fst (claim_all E ws w) = Inr x" for w
    using totals(14)
    by (induction ws arbitrary: w)
      (auto simp: claim_all_def ret_def seqio_def bindio_def total_io_def split: prod.split sum.split,
       metis fst_conv sum.distinct(1))
  show ?thesis
    by (rule tripleI) (use tripleD [OF claim_all_keeps [OF assms, of n u]] t in
      \<open>force simp: outcome_def split: sum.split\<close>)
qed

lemma pass_exact:
  assumes "\<forall>wd \<in> set (find_withdrawals ''init'' d). payable E dec wd"
  shows "runs v d (processWithdrawals E)
    (\<lambda>_ s. sent s = sent d @ map (payment E dec) (find_withdrawals ''init'' d) \<and>
       (\<forall>wd \<in> set (find_withdrawals ''init'' d). settled (wd_id wd) s)) R"
  unfolding processWithdrawals_def
proof (rule runs_reading [OF withdrawal_find disjI1 [OF totals(13)]])
  let ?ws = "find_withdrawals ''init'' d"
  have init: "\<forall>wd \<in> set ?ws. payable E dec wd \<and> wd_status wd = ''init''"
    using assms by (simp add: find_withdrawals_def)
  let ?K = "\<lambda>s. sent s = sent d \<and> untouched (wd_id ` set ?ws) s = untouched (wd_id ` set ?ws) d"
  show "runs v d (seqio (claim_all E ?ws) (pay_all E ?ws))
    (\<lambda>_ s. sent s = sent d @ map (payment E dec) ?ws \<and> (\<forall>wd \<in> set ?ws. settled (wd_id wd) s)) R"
    by (rule triple_seq [where A = ?K], rule triple_pre [OF claim_all_runs [OF order_refl]], simp,
        rule runs_all, rule runs_conseq [OF pay_all_exact [OF init, where J = "{}"]]) auto
qed

text \<open>The effect on the balances, when every receipt is \<open>rc\<close>.\<close>

lemma returning_outer: "returning m x \<Longrightarrow> returning (on_outer m) x"
  by (simp add: returning_def on_outer_def split: prod.split) (metis fst_conv)

lemma withdrawal_balances:
  assumes "payable E dec wd" and "wd_status wd = ''processing''"
    and "\<And>h. returning (waitForTransaction E (Some h) 3) (Some rc)"
  shows "runs v d (with_obj wd (processWithdrawal E))
    (\<lambda>_ s. accounts s = (if rc_status rc = 1 then accounts d
       else accounts (db_add cast (Some (account_id wd)) (token_column (wd_symbol wd)) (amount wd) d))) R"
proof (rule runs_with_obj)
  let ?as = "if rc_status rc = 1 then accounts d
       else accounts (db_add cast (Some (account_id wd)) (token_column (wd_symbol wd)) (amount wd) d)"
  let ?J = "\<lambda>(o' :: withdrawal, s :: db). account_id o' = account_id wd \<and> amount o' = amount wd \<and> wd_symbol o' = wd_symbol wd \<and>
    accounts s = accounts d"
  note set = runs_writing [OF writing_set_status disjI1 [OF total_set_status]]
  note save = runs_writing [OF writing_save_obj disjI1 [OF total_save_obj]]
    runs_write [OF writing_save_obj disjI1 [OF total_save_obj]]
  have add: "accounts s = accounts d \<Longrightarrow> accounts (db_add cast i c x s) = accounts (db_add cast i c x d)" for s i c x
    by (simp add: db_add_def)
  have t: "total_io (on_outer (account_increment E j c x))" for j c x
    by (rule total_outer [OF totals(8)])
  have roll: "runs (seen v) (o', s) (on_outer (rollback E o'))
      (\<lambda>_ p. accounts (snd p) = accounts (db_add cast (Some (account_id wd)) (token_column (wd_symbol wd)) (amount wd) d)) R'"
    if "?J (o', s)" for o' s R'
    unfolding rollback_def if_distrib [of on_outer]
    by (intro runs_if runs_write [OF writing_outer [OF account_increment] disjI1 [OF t]])
      (use that assms(1) in \<open>auto simp: payable_def token_column_def intro: add\<close>)
  have monitor: "runs (seen v) (o', s) (monitorTransaction E (Some h)) (\<lambda>_ p. accounts (snd p) = ?as) R'"
    if "?J (o', s)" for o' s h R'
    unfolding monitorTransaction_def
  proof (rule runs_catch [where A = "\<lambda>_. False"],
      rule runs_returning [OF silent_outer [OF waitForTransaction] returning_outer [OF assms(3)]], simp, intro conjI impI)
    show "runs (seen v) (o', s) (seqio (set_status ''success'') (save_obj E)) (\<lambda>_ p. accounts (snd p) = accounts d) (\<lambda>_. False)"
      by (rule set, rule save(2)) (use that in auto)
    show "runs (seen v) (o', s) (seqio (set_status ''failed'') (seqio (save_obj E) (bindio get_obj (\<lambda>wd. on_outer (rollback E wd)))))
      (\<lambda>_ p. accounts (snd p) = accounts (db_add cast (Some (account_id wd)) (token_column (wd_symbol wd)) (amount wd) d)) (\<lambda>_. False)"
      by (rule set, rule save(1), simp, rule runs_get_obj, rule roll) (use that in auto)
  qed simp
  have tail: "runs (seen v) p (seqio (set_tx_hash (Some h)) (seqio (save_obj E) (monitorTransaction E (Some h))))
      (\<lambda>_ p. accounts (snd p) = ?as) (\<lambda>_. False)" if "?J p" for p h
    by (rule runs_writing [OF writing_set_hash disjI1 [OF total_set_hash]], rule save(1), cases p, simp only: prod.case,
        rule monitor) (use that in auto)
  have sent: "runs v d (send_withdrawal E wd) (\<lambda>x s. x \<noteq> None \<and> s = d\<lparr>sent := sent d @ [payment E dec wd]\<rparr>) (\<lambda>_. False)"
    by (rule send_pays [OF assms(1)])
  have body: "runs (seen v) (wd, d) (bindio (on_outer (send_withdrawal E wd))
      (\<lambda>h. seqio (set_tx_hash h) (seqio (save_obj E) (monitorTransaction E h))))
      (\<lambda>_ p. accounts (snd p) = ?as) (\<lambda>_. False)"
  proof (rule runs_bind_all)
    show "runs (seen v) (wd, d) (on_outer (send_withdrawal E wd)) (\<lambda>x p. x \<noteq> None \<and> ?J p) (\<lambda>_. False)"
      by (rule runs_conseq [OF runs_outer [OF sent]]) auto
    fix x :: "string option" and p assume "x \<noteq> None \<and> ?J p"
    then obtain h where "x = Some h" "?J p" by blast
    then show "runs (seen v) p (seqio (set_tx_hash x) (seqio (save_obj E) (monitorTransaction E x)))
      (\<lambda>_ p. accounts (snd p) = ?as) (\<lambda>_. False)" using tail by simp
  qed
  show "runs (seen v) (wd, d) (processWithdrawal E) (\<lambda>_ p. accounts (snd p) = ?as) (\<lambda>s. R (snd s))"
    unfolding processWithdrawal_def
    by (rule runs_catch [where A = "\<lambda>_. False"], rule runs_get_obj, rule runs_if)
      (use assms(2) body in simp_all)
qed

lemma claim_and_pay:
  assumes "\<forall>wd \<in> set ws. payable E dec wd \<and> wd_status wd = ''init''"
  shows "triple v (\<lambda>s. sent s = n) (seqio (claim_all E ws) (pay_all E ws))
    (\<lambda>_ s. sent s = n @ map (payment E dec) ws) R"
proof (rule triple_seq [where A = "\<lambda>s. sent s = n"])
  show "triple v (\<lambda>s. sent s = n) (claim_all E ws) (\<lambda>_ s. sent s = n) R"
  proof (rule runs_all)
    fix s :: db assume "sent s = n"
    then show "runs v s (claim_all E ws) (\<lambda>_ s. sent s = n) R"
      by (intro triple_conseq [OF claim_all_runs [OF order_refl, where ws = ws and n = n and u = "untouched (wd_id ` set ws) s"]]) auto
  qed
  show "triple v (\<lambda>s. sent s = n) (pay_all E ws) (\<lambda>_ s. sent s = n @ map (payment E dec) ws) R"
    by (rule runs_all, rule runs_conseq [OF pay_all_exact [OF assms, where J = "{}"]]) auto
qed

lemma pending_init:
  "\<forall>wd \<in> set (find_withdrawals ''init'' d). payable E n wd \<Longrightarrow>
   \<forall>wd \<in> set (find_withdrawals ''init'' d). payable E n wd \<and> wd_status wd = ''init''"
  by (simp add: find_withdrawals_def)

lemma two_passes:
  assumes "\<forall>wd \<in> set (find_withdrawals ''init'' d). payable E dec wd"
  shows "runs v d (bindio (withdrawal_find E ''init'') (\<lambda>p. bindio (withdrawal_find E ''init'') (\<lambda>q.
      seqio (seqio (claim_all E p) (pay_all E p)) (seqio (claim_all E q) (pay_all E q)))))
    (\<lambda>_ s. sent s = sent d @ map (payment E dec) (find_withdrawals ''init'' d) @
       map (payment E dec) (find_withdrawals ''init'' d)) R"
proof (rule runs_reading [OF withdrawal_find disjI1 [OF totals(13)]],
    rule runs_reading [OF withdrawal_find disjI1 [OF totals(13)]])
  let ?ws = "find_withdrawals ''init'' d"
  show "runs v d (seqio (seqio (claim_all E ?ws) (pay_all E ?ws)) (seqio (claim_all E ?ws) (pay_all E ?ws)))
    (\<lambda>_ s. sent s = sent d @ map (payment E dec) ?ws @ map (payment E dec) ?ws) R"
    by (rule triple_seq, rule triple_pre [OF claim_and_pay [OF pending_init [OF assms], of "sent d"]], simp,
        rule triple_conseq [OF claim_and_pay [OF pending_init [OF assms]]]) auto
qed

lemma reset_fields [simp]:
  "payment E n (r\<lparr>wd_status := st\<rparr>) = payment E n r" "payable E n (r\<lparr>wd_status := st\<rparr>) = payable E n r"
  by (simp_all add: payment_def payable_def wd_units_def)

lemma find_reset: "find_withdrawals ''init'' (db_reset d) = map (\<lambda>r. r\<lparr>wd_status := ''init''\<rparr>) (withdrawals d)"
  by (simp add: find_withdrawals_def db_reset_def filter_map comp_def)

lemma sent_reset: "sent (db_reset d) = sent d"
  by (simp add: db_reset_def)

lemma restart_runs:
  assumes "withdrawals d \<noteq> []" and "\<forall>wd \<in> set (withdrawals d). payable E dec wd"
  shows "runs v d (seqio (init_withdrawals E) (processWithdrawals E))
    (\<lambda>_ s. sent s = sent d @ map (payment E dec) (withdrawals d)) R"
proof (rule runs_seq [where d' = "db_reset d"])
  show "runs v d (init_withdrawals E) (\<lambda>_ s. s = db_reset d) R"
    unfolding init_withdrawals_def
    by (rule runs_reading [OF withdrawal_count disjI1 [OF totals(11)]])
      (simp add: assms(1) runs_write [OF withdrawal_resetAll disjI1 [OF totals(12)]])
  have "\<forall>wd \<in> set (find_withdrawals ''init'' (db_reset d)). payable E dec wd"
    using assms(2) by (simp add: find_reset)
  from pass_exact [OF this]
  show "runs v (db_reset d) (processWithdrawals E)
    (\<lambda>_ s. sent s = sent d @ map (payment E dec) (withdrawals d)) R"
    by (rule runs_conseq) (simp_all add: find_reset comp_def sent_reset)
qed

end

end
