(* ===== verification/Withdrawal_Props.thy ===== *)
theory Withdrawal_Props
  imports Withdrawal_Spec Parser_Props
begin

text \<open>
  The properties of the withdrawal service.
\<close>

section \<open>Data for the witnesses\<close>

definition demo_wd :: "int \<Rightarrow> string \<Rightarrow> string \<Rightarrow> withdrawal" where
  "demo_wd i st tok = \<lparr>account_id = 1, amount = 2, wd_decimals = 18, wd_symbol = tok,
     wd_to = ''0xc'', wd_status = st, wd_id = i, wd_tx_hash = None\<rparr>"

definition demo_wds :: mem where
  "demo_wds = demo_mem\<lparr>mdb := demo_db\<lparr>withdrawals :=
     [demo_wd 1 ''init'' ''BNB'', demo_wd 2 ''success'' ''USDT'', demo_wd 3 ''init'' ''USDT'']\<rparr>\<rparr>"

lemma demo_wallet: "steady_wallet (demo_env False) mdb cast_round demo_chain demo_receipts 18 ''USDT''"
  by (rule steady_wallet.intro [OF demo_steady], rule steady_wallet_axioms.intro)
    (simp_all add: demo_env_def mem_env_def total_peek total_poke)

lemma demo_wallet_receipt:
  "steady_wallet ((demo_env False)\<lparr>waitForTransaction := \<lambda>h n. peek False (\<lambda>_. rc)\<rparr>) mdb cast_round
     demo_chain demo_receipts 18 ''USDT''"
proof (intro steady_wallet.intro steady_ledger.intro)
  let ?E = "(demo_env False)\<lparr>waitForTransaction := \<lambda>h n. peek False (\<lambda>_. rc)\<rparr>"
  show "ledger ?E mdb cast_round"
    by (rule ledger.intro)
      (simp_all add: demo_env_def mem_env_def silent_peek reading_peek writing_poke writing_attempting [OF writing_poke] cast_round_exact
        writing_insert_tx insert_tx_duplicate reading_peek [where f = "\<lambda>d. redis d k" for k]
        reading_peek [where f = "\<lambda>d. length (withdrawals d)"])
  show "steady_ledger_axioms ?E mdb demo_chain demo_receipts 18 ''USDT''"
    by (rule steady_ledger_axioms.intro)
      (simp_all add: demo_env_def mem_env_def never_throws_def total_peek total_poke returning_peek insert_tx_def
        call_def)
  show "steady_wallet_axioms ?E"
    by (rule steady_wallet_axioms.intro) (simp_all add: demo_env_def mem_env_def total_peek total_poke)
qed

lemma demo_parse: "parseUnits (demo_env fp) 2 18 = Inr 2000000000000000000"
  by (simp add: demo_env_def mem_env_def Let_def)

lemma demo_pending:
  "find_withdrawals ''init'' (mdb demo_wds) = [demo_wd 1 ''init'' ''BNB'', demo_wd 3 ''init'' ''USDT'']"
  by (simp add: demo_wds_def find_withdrawals_def demo_wd_def)

lemma demo_payable:
  "tok = ''BNB'' \<or> tok = ''USDT'' \<Longrightarrow> payable (demo_env fp) 18 (demo_wd i st tok)"
  "payment (demo_env fp) 18 (demo_wd i st tok) = (tok, ''0xc'', 2000000000000000000)"
  by (auto simp: payable_def payment_def wd_units_def demo_wd_def demo_parse)

section \<open>Properties\<close>

text \<open>C6: Whatever calls fail, one pass of \<open>processWithdrawals\<close> broadcasts at most one transfer for
  each withdrawal that was \<open>init\<close> when it began, with that withdrawal's token, receiver and amount and
  in the order of the rows; and it leaves the rows of all other withdrawals as they were.\<close>

theorem pass_pays_at_most_once:
  assumes "ledger E v cast" and "processWithdrawals E w = (r, w')"
  shows "\<exists>new paid. sent (v w') = sent (v w) @ new \<and> subseq paid (find_withdrawals ''init'' (v w)) \<and>
    list_all2 (pays E) paid new \<and>
    untouched (wd_id ` set (find_withdrawals ''init'' (v w))) (v w') =
      untouched (wd_id ` set (find_withdrawals ''init'' (v w))) (v w)"
proof -
  have "pass_step E (find_withdrawals ''init'' (v w)) (v w) (v w')"
    using tripleD [OF ledger.pass_steps [OF assms(1)] refl, of w] assms(2) by (cases r) auto
  then show ?thesis unfolding pass_step_def at_most_once_def by blast
qed

lemma pass_pays_at_most_once_witness:
  "\<exists>new. sent (mdb (snd (processWithdrawals (demo_env True)
     (demo_wds\<lparr>faults := [False, False, False, False, True, True]\<rparr>)))) = new \<and> length new \<le> 2"
proof -
  let ?w = "demo_wds\<lparr>faults := [False, False, False, False, True, True]\<rparr>"
  obtain r w' where r: "processWithdrawals (demo_env True) ?w = (r, w')" by fastforce
  from pass_pays_at_most_once [OF demo_ledger r] obtain new paid where
    n: "sent (mdb w') = sent (mdb ?w) @ new" "subseq paid (find_withdrawals ''init'' (mdb ?w))"
      "list_all2 (pays (demo_env True)) paid new" by blast
  have "length paid \<le> 2" using list_emb_length [OF n(2)] demo_pending by simp
  with n r show ?thesis by (simp add: demo_wds_def demo_db_def list_all2_lengthD)
qed

text \<open>C13: When no call fails and every pending amount can be converted, a pass pays every \<open>init\<close>
  withdrawal exactly once, in order, and leaves each of them \<open>success\<close> or \<open>failed\<close>.\<close>

theorem pass_pays_all:
  assumes "steady_wallet E v cast blocks receipt_of dec sy"
    and "\<forall>wd \<in> set (find_withdrawals ''init'' (v w)). payable E dec wd"
  shows "\<exists>w'. processWithdrawals E w = (Inr (), w') \<and>
    sent (v w') = sent (v w) @ map (payment E dec) (find_withdrawals ''init'' (v w)) \<and>
    (\<forall>wd \<in> set (find_withdrawals ''init'' (v w)). settled (wd_id wd) (v w'))"
proof -
  obtain r w' where b: "processWithdrawals E w = (r, w')" by fastforce
  from runsD [OF steady_wallet.pass_exact [OF assms] refl b] b show ?thesis by auto
qed

lemma pass_pays_all_witness:
  "sent (mdb (snd (processWithdrawals (demo_env False) demo_wds))) =
     [(''BNB'', ''0xc'', 2000000000000000000), (''USDT'', ''0xc'', 2000000000000000000)]"
proof -
  have "\<forall>wd \<in> set (find_withdrawals ''init'' (mdb demo_wds)). payable (demo_env False) 18 wd"
    by (simp add: demo_pending demo_payable)
  from pass_pays_all [OF demo_wallet this] show ?thesis
    by (auto simp: demo_pending demo_payable) (simp add: demo_wds_def demo_db_def)
qed

definition overlapping_passes :: "'w env \<Rightarrow> ('w, unit) io" where
  "overlapping_passes E =
     bindio (withdrawal_find E ''init'') (\<lambda>first.
     bindio (withdrawal_find E ''init'') (\<lambda>second.
     seqio (seqio (claim_all E first) (pay_all E first))
       (seqio (claim_all E second) (pay_all E second))))"

text \<open>C16: The claim of a withdrawal is a read followed by a write, not one atomic update. When a second
  pass of the timer reads the pending rows before the first has written its claims, every pending
  withdrawal is paid twice.\<close>
theorem overlapping_passes_pay_twice:
  assumes "steady_wallet E v cast blocks receipt_of dec sy"
    and "\<forall>wd \<in> set (find_withdrawals ''init'' (v w)). payable E dec wd"
  shows "sent (v (snd (overlapping_passes E w))) = sent (v w) @
    map (payment E dec) (find_withdrawals ''init'' (v w)) @ map (payment E dec) (find_withdrawals ''init'' (v w))"
proof -
  obtain r w' where b: "overlapping_passes E w = (r, w')" by fastforce
  have "runs v (v w) (overlapping_passes E) (\<lambda>_ s. sent s = sent (v w) @
      map (payment E dec) (find_withdrawals ''init'' (v w)) @
      map (payment E dec) (find_withdrawals ''init'' (v w))) (\<lambda>_. False)"
    unfolding overlapping_passes_def by (rule steady_wallet.two_passes [OF assms])
  from runsD [OF this refl b] b show ?thesis by auto
qed

lemma overlapping_passes_pay_twice_witness:
  "length (sent (mdb (snd (overlapping_passes (demo_env False) demo_wds)))) = 4"
proof -
  have "\<forall>wd \<in> set (find_withdrawals ''init'' (mdb demo_wds)). payable (demo_env False) 18 wd"
    by (simp add: demo_pending demo_payable)
  from overlapping_passes_pay_twice [OF demo_wallet this] show ?thesis
    by (simp add: demo_pending) (simp add: demo_wds_def demo_db_def)
qed

text \<open>A restart pays everything again: when the table is not empty, \<open>initData\<close> ends by setting
  every row back to \<open>init\<close>, so the next pass sends the transfer of every withdrawal on file, also of
  those that had already succeeded.\<close>

theorem restart_pays_again:
  assumes "steady_wallet E v cast blocks receipt_of dec sy"
    and "withdrawals (v w) \<noteq> []" and "\<forall>wd \<in> set (withdrawals (v w)). payable E dec wd"
  shows "sent (v (snd (seqio (init_withdrawals E) (processWithdrawals E) w))) =
    sent (v w) @ map (payment E dec) (withdrawals (v w))"
proof -
  obtain r w' where b: "seqio (init_withdrawals E) (processWithdrawals E) w = (r, w')" by fastforce
  from runsD [OF steady_wallet.restart_runs [OF assms] refl b] b show ?thesis by auto
qed

lemma restart_pays_again_witness:
  "length (sent (mdb (snd (seqio (init_withdrawals (demo_env False)) (processWithdrawals (demo_env False)) demo_wds)))) = 3"
  by (subst restart_pays_again [OF demo_wallet]) (simp_all add: demo_wds_def demo_db_def demo_payable)

text \<open>The balance of the account. A withdrawal that succeeds leaves all balances as they are, one
  whose transaction fails adds its amount to the account: nothing in the service debits an account,
  although the comment in \<open>monitorTransaction\<close> says the amount was deducted at the request.\<close>

theorem withdrawal_never_debits:
  assumes "steady_wallet E v cast blocks receipt_of dec sy"
    and "payable E dec wd" and "wd_status wd = ''processing''"
    and "\<And>h. returning (waitForTransaction E (Some h) 3) (Some rc)"
  shows "accounts (v (snd (with_obj wd (processWithdrawal E) w))) =
    (if rc_status rc = 1 then accounts (v w)
     else accounts (db_add cast (Some (account_id wd)) (token_column (wd_symbol wd)) (amount wd) (v w)))"
proof -
  have "runs v (v w) (with_obj wd (processWithdrawal E)) (\<lambda>_ s. accounts s = (if rc_status rc = 1 then accounts (v w)
     else accounts (db_add cast (Some (account_id wd)) (token_column (wd_symbol wd)) (amount wd) (v w)))) (\<lambda>_. False)"
    by (rule steady_wallet.withdrawal_balances [OF assms])
  from tripleD [OF this refl] show ?thesis
    unfolding outcome_def by (cases "fst (with_obj wd (processWithdrawal E) w)") simp_all
qed

lemma withdrawal_never_debits_witness:
  "let E = (demo_env False)\<lparr>waitForTransaction := \<lambda>h n. peek False (\<lambda>_. Some (demo_receipt\<lparr>rc_status := 0\<rparr>))\<rparr> in
   map bnb_amount (accounts (mdb (snd (with_obj (demo_wd 1 ''processing'' ''BNB'') (processWithdrawal E) demo_wds)))) =
     [12, 0]"
proof -
  let ?E = "(demo_env False)\<lparr>waitForTransaction := \<lambda>h n. peek False (\<lambda>_. Some (demo_receipt\<lparr>rc_status := 0\<rparr>))\<rparr>"
  have p: "payable ?E 18 (demo_wd 1 ''processing'' ''BNB'')"
    using demo_payable(1) [of "''BNB''" False 1] by (simp add: payable_def wd_units_def)
  have r: "returning (waitForTransaction ?E (Some h) 3) (Some (demo_receipt\<lparr>rc_status := 0\<rparr>))" for h
    by (simp add: returning_peek)
  have st: "wd_status (demo_wd 1 ''processing'' ''BNB'') = ''processing''" by (simp add: demo_wd_def)
  have c: "cast_round Bnb_amount 12 = 12"
    by (rule cast_round_exact [where k = "12 * 10 ^ 18"]) simp
  from withdrawal_never_debits [OF demo_wallet_receipt p st r, of demo_wds]
  have "accounts (mdb (snd (with_obj (demo_wd 1 ''processing'' ''BNB'') (processWithdrawal ?E) demo_wds))) =
      accounts (db_add cast_round (Some 1) Bnb_amount 2 (mdb demo_wds))"
    by (simp only: receipt.simps) (simp add: demo_wd_def token_column_def)
  then show ?thesis
    by (simp only: Let_def) (simp add: demo_wds_def demo_db_def db_add_def demo_account_def c)
qed

end
