(* ===== verification/Js_Values.thy ===== *)
theory Js_Values
  imports Js_Prelude
begin

text \<open>
  JavaScript values and plain objects, for the components that pass untyped data around (redux
  actions, HTTP responses, contract calls). An object is an association list: \<open>AList.update\<close> is the
  assignment of a property, \<open>spread\<close> is \<open>{...a, ...b}\<close>. Values the code never looks into
  (contracts, signers, promises) are \<open>Ref\<close>.
\<close>

datatype val =
    Undef
  | Null
  | Bool bool
  | Num rat
  | Str string
  | Arr "val list"
  | Obj "(string \<times> val) list"
  | Ref nat

type_synonym obj = "(string \<times> val) list"

text \<open>\<open>o.k\<close>, \<open>{...o, k: x}\<close> and \<open>{...a, ...b}\<close>.\<close>

definition get :: "string \<Rightarrow> obj \<Rightarrow> val" where
  "get k ob = (case map_of ob k of None \<Rightarrow> Undef | Some x \<Rightarrow> x)"

definition put :: "string \<Rightarrow> val \<Rightarrow> obj \<Rightarrow> obj" where
  "put k x ob = AList.update k x ob"

definition spread :: "obj \<Rightarrow> obj \<Rightarrow> obj" where
  "spread a b = fold (\<lambda>(k, x) ob. put k x ob) b a"

text \<open>The properties of a spread value: those of an object, the indices of an array, none otherwise.\<close>

fun entries :: "val \<Rightarrow> obj" where
  "entries (Obj ob) = ob"
| "entries (Arr xs) = map (\<lambda>i. (show_nat i, xs ! i)) [0..<length xs]"
| "entries (Str s) = map (\<lambda>i. (show_nat i, Str [s ! i])) [0..<length s]"
| "entries _ = []"

fun truthy_val :: "val \<Rightarrow> bool" where
  "truthy_val Undef = False"
| "truthy_val Null = False"
| "truthy_val (Bool b) = b"
| "truthy_val (Num x) = (x \<noteq> 0)"
| "truthy_val (Str s) = (s \<noteq> [])"
| "truthy_val _ = True"

text \<open>\<open>v.k\<close> for any value: reading a property of \<open>undefined\<close> or \<open>null\<close> is a \<open>TypeError\<close>.\<close>

fun member :: "val \<Rightarrow> string \<Rightarrow> js_error + val" where
  "member Undef k = Inl (TypeError ''Cannot read properties of undefined'')"
| "member Null k = Inl (TypeError ''Cannot read properties of null'')"
| "member (Obj ob) k = Inr (get k ob)"
| "member _ k = Inr Undef"

lemma get_Nil [simp]: "get k [] = Undef"
  by (simp add: get_def)

lemma get_Cons [simp]: "get k ((k', x) # ob) = (if k = k' then x else get k ob)"
  by (simp add: get_def)

lemma get_put [simp]: "get k (put k' x ob) = (if k = k' then x else get k ob)"
  by (simp add: get_def put_def update_conv')

lemma put_simps [simp]:
  "put k x [] = [(k, x)]" "put k x ((k', y) # ob) = (if k' = k then (k', x) # ob else (k', y) # put k x ob)"
  by (simp_all add: put_def)

lemma get_spread_other: "k \<notin> fst ` set b \<Longrightarrow> get k (spread a b) = get k a"
  unfolding spread_def by (induction b arbitrary: a) auto

lemma get_spread: "distinct (map fst b) \<Longrightarrow> k \<in> fst ` set b \<Longrightarrow> get k (spread a b) = get k b"
  unfolding spread_def
proof (induction b arbitrary: a)
  case (Cons p b)
  obtain k' x where p: "p = (k', x)" by fastforce
  show ?case
  proof (cases "k = k'")
    case True
    with Cons.prems p have "k \<notin> fst ` set b" by simp
    then have "get k (fold (\<lambda>(k, x) ob. put k x ob) b (put k' x a)) = get k (put k' x a)"
      using get_spread_other [unfolded spread_def] by blast
    with True p show ?thesis by simp
  next
    case False
    with Cons p show ?thesis by simp
  qed
qed simp

text \<open>What regular expressions of the code compute: \<open>s.replace(/^.*c/, '')\<close> drops everything up to the
  last \<open>c\<close>, \<open>s.replace(/suffix$/, '')\<close> drops a suffix.\<close>

definition after_last :: "char \<Rightarrow> string \<Rightarrow> string" where
  "after_last c s = (if c \<in> set s then rev (takeWhile (\<lambda>x. x \<noteq> c) (rev s)) else s)"

definition strip_suffix :: "string \<Rightarrow> string \<Rightarrow> string" where
  "strip_suffix suf s = (if suffix suf s then take (length s - length suf) s else s)"

lemma strip_suffix_append [simp]: "strip_suffix suf (s @ suf) = s"
  by (simp add: strip_suffix_def suffix_def)

end
