(* ===== verification/Nova_Store.thy ===== *)
theory Nova_Store
  imports Js_Values
begin

text \<open>
  The redux store of the launchpad front end, \<open>NovaLaunch/nova-fe/src/redux\<close>: the six slices with
  their action creators, the root reducer and the promise middleware. A reducer maps a state and
  an action to the new state or to the error it throws.
\<close>

section \<open>modules/contract.js\<close>

definition contract_initial :: obj where
  "contract_initial = [
     (''walletAddress'', Null), (''signer'', Null), (''stakingContract'', Null), (''saleContract'', Null),
     (''depositTokenContract'', Null), (''breContract'', Null), (''contractsReady'', Bool False),
     (''balance'', Undef), (''symbol'', Undef), (''earnedSymbol'', Undef), (''deposited'', Undef),
     (''allowance'', Undef), (''loading'', Bool False)]"

definition action :: "string \<Rightarrow> val \<Rightarrow> obj" where
  "action t x = [(''type'', Str t), (''payload'', x)]"

text \<open>\<open>type.replace(/^.*_/g, '').toLowerCase()\<close>\<close>

definition type_key :: "string \<Rightarrow> string" where
  "type_key t = toLowerCase (after_last (CHR ''_'') t)"

definition contract_reducer :: "obj \<Rightarrow> obj \<Rightarrow> js_error + obj" where
  "contract_reducer s a = (case get ''type'' a of
     Str t \<Rightarrow>
       if t = ''contract/SET_WALLET_ADDRESS'' then Inr (put ''walletAddress'' (get ''payload'' a) s)
       else if t \<in> {''contract/SET_SIGNER'', ''contract/SET_BALANCE'', ''contract/SET_SYMBOL'',
           ''contract/SET_BRESYMBOL'', ''contract/SET_DEPOSITED'', ''contract/SET_ALLOWANCE''}
       then Inr (put (type_key t) (get ''payload'' a) s)
       else if t = ''contract/INIT_CONTRACTS'' \<or> t = ''contract/SET_CONTRACTS''
       then Inr (put ''contractsReady'' (Bool True) (spread s (entries (get ''payload'' a))))
       else if t = ''contract/SET_LOADING'' then Inr (put ''loading'' (get ''payload'' a) s)
       else Inr s
   | _ \<Rightarrow> Inr s)"

definition setWalletAddress :: "val \<Rightarrow> obj" where
  "setWalletAddress x = action ''contract/SET_WALLET_ADDRESS'' x"

definition setSigner :: "val \<Rightarrow> obj" where
  "setSigner x = action ''contract/SET_SIGNER'' x"

definition setContracts :: "val \<Rightarrow> obj" where
  "setContracts x = action ''contract/SET_CONTRACTS'' x"

definition setBalance :: "val \<Rightarrow> obj" where
  "setBalance x = action ''contract/SET_BALANCE'' x"

definition setAllowance :: "val \<Rightarrow> obj" where
  "setAllowance x = action ''contract/SET_ALLOWANCE'' x"

definition setDeposited :: "val \<Rightarrow> obj" where
  "setDeposited x = action ''contract/SET_DEPOSITED'' x"

definition setDepositSymbol :: "val \<Rightarrow> obj" where
  "setDepositSymbol x = action ''contract/SET_SYMBOL'' x"

definition setEarnedSymbol :: "val \<Rightarrow> obj" where
  "setEarnedSymbol x = action ''contract/SET_BRESYMBOL'' x"

definition setLoading :: "val \<Rightarrow> obj" where
  "setLoading x = action ''contract/SET_LOADING'' x"

section \<open>modules/wallet.js\<close>

definition wallet_initial :: obj where
  "wallet_initial = [
     (''wallet'', Null), (''account'', Null), (''connecting'', Bool False), (''show'', Bool False),
     (''chain'', Undef), (''ethToUsd'', Num 0), (''isWalletInstalled'', Bool True)]"

text \<open>The branch for \<open>CONNECTING\<close> names a variable \<open>payload\<close> that does not exist.\<close>

definition wallet_reducer :: "obj \<Rightarrow> obj \<Rightarrow> js_error + obj" where
  "wallet_reducer s a = (case get ''type'' a of
     Str t0 \<Rightarrow>
       (let t = strip_suffix ''/fulfilled'' t0 in
        if t \<in> {''wallet/SET_ACCOUNT'', ''wallet/SET_WALLET'', ''wallet/INIT_ACCOUNT'', ''wallet/INIT_WALLET''}
        then Inr (put (type_key t) (get ''payload'' a) s)
        else if t = ''wallet/CONNECTING'' then Inl (ReferenceError ''payload is not defined'')
        else if t = ''wallet/show'' then Inr (put ''show'' (get ''payload'' a) s)
        else if t = ''wallet/SET_CHAIN'' then Inr (put ''chain'' (get ''payload'' a) s)
        else if t = ''wallet/SET_ETH_TO_USD'' then Inr (put ''ethToUsd'' (get ''payload'' a) s)
        else if t = ''wallet/SET_IS_METAMASK_INSTALLED'' then Inr (put ''isWalletInstalled'' (get ''payload'' a) s)
        else Inr s)
   | _ \<Rightarrow> Inl (TypeError ''action.type.replace is not a function''))"

definition setAccount :: "val \<Rightarrow> obj" where
  "setAccount x = action ''wallet/SET_ACCOUNT'' x"

definition setWallet :: "val \<Rightarrow> obj" where
  "setWallet x = action ''wallet/SET_WALLET'' x"

definition setConnecting :: "val \<Rightarrow> obj" where
  "setConnecting x = action ''wallet/CONNECTING'' x"

definition showWallet :: "val \<Rightarrow> obj" where
  "showWallet x = action ''wallet/show'' x"

definition setChain :: "val \<Rightarrow> obj" where
  "setChain x = action ''wallet/SET_CHAIN'' x"

definition wallet_setEthToUsd :: "val \<Rightarrow> obj" where
  "wallet_setEthToUsd x = action ''wallet/SET_ETH_TO_USD'' x"

definition setisWalletInstalled :: "val \<Rightarrow> obj" where
  "setisWalletInstalled x = action ''wallet/SET_IS_METAMASK_INSTALLED'' x"

text \<open>The body of the thunk \<open>initAccount\<close>. In \<open>await e && e.request(..)\<close> the \<open>await\<close> binds only the left
  operand, so \<open>accounts\<close> is the pending promise \<open>Ref p\<close> of the request, not its value.\<close>

definition initAccount :: "val \<Rightarrow> nat \<Rightarrow> js_error + val" where
  "initAccount ethereum p =
     (let accounts = (if truthy_val ethereum then Ref p else ethereum) in member accounts ''0'')"

text \<open>The action that \<open>createAsyncThunk\<close> dispatches when the body of a thunk returns \<open>x\<close>.\<close>

definition fulfilled :: "string \<Rightarrow> val \<Rightarrow> obj" where
  "fulfilled pre x = action (pre @ ''/fulfilled'') x"

section \<open>modules/auth.js\<close>

definition auth_initial :: obj where
  "auth_initial = [(''loaded'', Bool False)]"

definition auth_reducer :: "obj \<Rightarrow> obj \<Rightarrow> js_error + obj" where
  "auth_reducer s a = (case get ''type'' a of
     Str t \<Rightarrow> Inr (
       if t = ''auth/LOAD'' then put ''loading'' (Bool True) s
       else if t = ''auth/LOAD_SUCCESS'' then
         put ''user'' (get ''result'' a) (put ''loaded'' (Bool True) (put ''loading'' (Bool False) s))
       else if t = ''auth/LOAD_FAIL'' then
         put ''error'' (get ''error'' a) (put ''loaded'' (Bool False) (put ''loading'' (Bool False) s))
       else if t = ''auth/LOGIN'' then put ''type'' (Str ''Login'') (put ''loggingIn'' (Bool True) s)
       else if t = ''auth/LOGIN_SUCCESS'' then
         put ''user'' (get ''result'' a) (put ''loggingIn'' (Bool False) s)
       else if t = ''auth/LOGIN_FAIL'' then
         put ''loginError'' (get ''error'' a) (put ''user'' Null (put ''loggingIn'' (Bool False) s))
       else if t = ''auth/LOGOUT'' then put ''loggingOut'' (Bool True) s
       else if t = ''auth/LOGOUT_SUCCESS'' then put ''user'' Null (put ''loggingOut'' (Bool False) s)
       else if t = ''auth/LOGOUT_FAIL'' then
         put ''logoutError'' (get ''error'' a) (put ''loggingOut'' (Bool False) s)
       else s)
   | _ \<Rightarrow> Inr s)"

text \<open>\<open>globalState.auth && globalState.auth.loaded\<close>\<close>

definition isLoaded :: "obj \<Rightarrow> val" where
  "isLoaded globalState =
     (case get ''auth'' globalState of Obj au \<Rightarrow> get ''loaded'' au | x \<Rightarrow> if truthy_val x then Undef else x)"

section \<open>modules/third-party.js, media-query.js, global.js\<close>

definition third_party_initial :: obj where
  "third_party_initial = [(''bobaToUsd'', Num 0), (''ethToUsd'', Num 0), (''breToUsd'', Num 0)]"

definition third_party_reducer :: "obj \<Rightarrow> obj \<Rightarrow> js_error + obj" where
  "third_party_reducer s a = (case get ''type'' a of
     Str t \<Rightarrow> Inr (
       if t = ''3rdParty/set_boba_to_usd'' then put ''bobaToUsd'' (get ''payload'' a) s
       else if t = ''3rdParty/set_eth_to_usd'' then put ''ethToUsd'' (get ''payload'' a) s
       else if t = ''3rdParty/set_bre_to_usd'' then put ''breToUsd'' (get ''payload'' a) s
       else s)
   | _ \<Rightarrow> Inr s)"

definition setBobaToUsd :: "val \<Rightarrow> obj" where
  "setBobaToUsd x = action ''3rdParty/set_boba_to_usd'' x"

definition setEthToUsd :: "val \<Rightarrow> obj" where
  "setEthToUsd x = action ''3rdParty/set_eth_to_usd'' x"

definition setBreToUsd :: "val \<Rightarrow> obj" where
  "setBreToUsd x = action ''3rdParty/set_bre_to_usd'' x"

definition media_query_initial :: obj where
  "media_query_initial = [
     (''isDesktopOrLaptop'', Bool False), (''isBigScreen'', Bool False), (''isTabletOrMobile'', Bool False),
     (''isPortrait'', Bool False), (''isRetina'', Bool False)]"

definition media_query_reducer :: "obj \<Rightarrow> obj \<Rightarrow> js_error + obj" where
  "media_query_reducer s a =
     (if get ''type'' a = Str ''/media-query/SET_MEDIA_QUERY''
      then Inr (spread s (entries (get ''payload'' a))) else Inr s)"

definition setMediaQuery :: "val \<Rightarrow> obj" where
  "setMediaQuery x = action ''/media-query/SET_MEDIA_QUERY'' x"

definition global_initial :: obj where
  "global_initial = [(''pageLoading'', Bool False)]"

definition global_reducer :: "obj \<Rightarrow> obj \<Rightarrow> js_error + obj" where
  "global_reducer s a =
     (if get ''type'' a = Str ''global/set_page_loading'' then Inr (put ''pageLoading'' (get ''payload'' a) s)
      else Inr s)"

definition setPageLoading :: "val \<Rightarrow> obj" where
  "setPageLoading x = action ''global/set_page_loading'' x"

section \<open>reducer.js\<close>

text \<open>The slices given to \<open>combineReducers\<close>.\<close>

definition root_reducers :: "(string \<times> (obj \<Rightarrow> obj \<Rightarrow> js_error + obj)) list" where
  "root_reducers = [
     (''auth'', auth_reducer), (''wallet'', wallet_reducer), (''contract'', contract_reducer),
     (''thirdParty'', third_party_reducer), (''global'', global_reducer), (''mediaQuery'', media_query_reducer)]"

section \<open>middleware/clientMiddleware.js\<close>

text \<open>A promise is an \<open>io\<close> that settles with \<open>Inr\<close> its value or \<open>Inl\<close> its rejection, any value. An
  action is a function or an object, split into its members \<open>promise\<close> and \<open>types\<close> and the rest.\<close>

type_synonym 'w promise = "'w \<Rightarrow> (val + val) \<times> 'w"

datatype 'w dispatched =
    Thunk "('w, val) io"
  | Plain (rest: obj) (promise: "('w, 'w promise) io option") (types: "string list option")

definition error_val :: "js_error \<Rightarrow> val" where
  "error_val e = Obj [(''message'', Str (case e of TypeError m \<Rightarrow> m | ReferenceError m \<Rightarrow> m | JsError m \<Rightarrow> m))]"

definition type_at :: "string list \<Rightarrow> nat \<Rightarrow> val" where
  "type_at ts i = (if i < length ts then Str (ts ! i) else Undef)"

definition with_types :: "obj \<Rightarrow> string list option \<Rightarrow> obj" where
  "with_types r ts = (case ts of None \<Rightarrow> r | Some xs \<Rightarrow> put ''types'' (Arr (map Str xs)) r)"

text \<open>What runs when the promise settles: \<open>then(success, failure).catch(handler)\<close>.\<close>

definition settle_action :: "(obj \<Rightarrow> ('w, val) io) \<Rightarrow> obj \<Rightarrow> string list \<Rightarrow> 'w promise \<Rightarrow> ('w, val) io" where
  "settle_action nxt r ts p =
     catchio
       (\<lambda>w. case p w of
          (Inr x, w') \<Rightarrow> nxt (put ''type'' (type_at ts 1) (put ''result'' x r)) w'
        | (Inl e, w') \<Rightarrow> nxt (put ''type'' (type_at ts 2) (put ''error'' e r)) w')
       (\<lambda>e. nxt (put ''type'' (type_at ts 2) (put ''error'' (error_val e) r)))"

text \<open>The run of an action to the point where its promise has settled. The value is what the
  middleware returns; \<open>None\<close> is the promise itself. An error in the final handler is an unhandled
  rejection that nobody sees.\<close>

definition clientMiddleware :: "(obj \<Rightarrow> ('w, val) io) \<Rightarrow> 'w dispatched \<Rightarrow> ('w, val option) io" where
  "clientMiddleware nxt a = (case a of
     Thunk f \<Rightarrow> bindio f (\<lambda>x. ret (Some x))
   | Plain r None ts \<Rightarrow> bindio (nxt (with_types r ts)) (\<lambda>x. ret (Some x))
   | Plain r (Some pr) None \<Rightarrow> throw (TypeError ''undefined is not iterable'')
   | Plain r (Some pr) (Some ts) \<Rightarrow>
       bindio (nxt (put ''type'' (type_at ts 0) r)) (\<lambda>_.
       bindio pr (\<lambda>p.
       catchio (bindio (settle_action nxt r ts p) (\<lambda>_. ret None)) (\<lambda>_. ret None))))"

text \<open>\<open>login\<close>, \<open>logout\<close> and \<open>initWallet\<close>: the actions that carry a promise. \<open>post\<close> and \<open>get_url\<close> are the
  methods of the HTTP client, \<open>signer\<close> is what \<open>provider.getSigner()\<close> returns.\<close>

definition login :: "(string \<Rightarrow> val \<Rightarrow> ('w, 'w promise) io) \<Rightarrow> val \<Rightarrow> 'w dispatched" where
  "login post params = Plain [(''type'', Str ''auth/LOGIN'')]
     (Some (post ''/login'' (Obj [(''data'', params)])))
     (Some [''auth/LOGIN'', ''auth/LOGIN_SUCCESS'', ''auth/LOGIN_FAIL''])"

definition logout :: "(string \<Rightarrow> ('w, 'w promise) io) \<Rightarrow> 'w dispatched" where
  "logout get_url = Plain [(''type'', Str ''auth/LOGOUT'')] (Some (get_url ''/logout''))
     (Some [''auth/LOGOUT'', ''auth/LOGOUT_SUCCESS'', ''auth/LOGOUT_FAIL''])"

definition initWallet :: "('w, 'w promise) io \<Rightarrow> 'w dispatched" where
  "initWallet getSigner = Plain [(''type'', Str ''wallet/INIT_WALLET'')] (Some getSigner) None"

end
