(* ===== verification/Nova_Store_Props.thy ===== *)
theory Nova_Store_Props
  imports Nova_Store
begin

text \<open>
  Properties of the redux store: which slice an action belongs to, which actions make a reducer
  throw, what a dispatch through the middleware does, and two places where a value gets lost.
\<close>

section \<open>Owners of actions\<close>

text \<open>The slice an action belongs to is the part of its type before the first slash; an action
  without a string type makes the wallet reducer throw.\<close>

definition owner :: "obj \<Rightarrow> string" where
  "owner a = (case get ''type'' a of Str t \<Rightarrow> takeWhile (\<lambda>c. c \<noteq> CHR ''/'') t | _ \<Rightarrow> ''wallet'')"

definition home :: "string \<Rightarrow> string" where
  "home slice = (if slice = ''thirdParty'' then ''3rdParty'' else if slice = ''mediaQuery'' then '''' else slice)"

lemma takeWhile_strip:
  "takeWhile (\<lambda>c. c \<noteq> CHR ''/'') (strip_suffix ''/fulfilled'' t) = takeWhile (\<lambda>c. c \<noteq> CHR ''/'') t"
proof (cases "suffix ''/fulfilled'' t")
  case True
  then obtain u where t: "t = u @ ''/fulfilled''" by (auto simp: suffix_def)
  then have "strip_suffix ''/fulfilled'' t = u" using strip_suffix_append [of "''/fulfilled''" u] by simp
  with t show ?thesis by (cases "CHR ''/'' \<in> set u") (auto simp: takeWhile_append)
qed (simp add: strip_suffix_def)

lemma auth_owner: "auth_reducer s a \<noteq> Inr s \<Longrightarrow> owner a = ''auth''"
  by (auto simp: auth_reducer_def owner_def split: val.splits if_splits)

lemma contract_foreign: "owner a \<noteq> ''contract'' \<Longrightarrow> contract_reducer s a = Inr s"
proof (cases "get ''type'' a")
  case (Str t)
  assume "owner a \<noteq> ''contract''"
  with Str have t: "takeWhile (\<lambda>c. c \<noteq> CHR ''/'') t \<noteq> ''contract''" by (simp add: owner_def)
  have "t \<notin> set (map (\<lambda>k. ''contract/'' @ k) [''SET_WALLET_ADDRESS'', ''SET_SIGNER'', ''SET_BALANCE'', ''SET_SYMBOL'',
      ''SET_BRESYMBOL'', ''SET_DEPOSITED'', ''SET_ALLOWANCE'', ''INIT_CONTRACTS'', ''SET_CONTRACTS'', ''SET_LOADING''])"
    using t by auto
  then show ?thesis unfolding contract_reducer_def Str by simp
qed (simp_all add: contract_reducer_def)

lemma contract_owner: "contract_reducer s a \<noteq> Inr s \<Longrightarrow> owner a = ''contract''"
  using contract_foreign by blast

lemma third_party_owner: "third_party_reducer s a \<noteq> Inr s \<Longrightarrow> owner a = ''3rdParty''"
  by (auto simp: third_party_reducer_def owner_def split: val.splits if_splits)

lemma global_owner: "global_reducer s a \<noteq> Inr s \<Longrightarrow> owner a = ''global''"
  by (auto simp: global_reducer_def owner_def split: if_splits)

lemma media_query_owner: "media_query_reducer s a \<noteq> Inr s \<Longrightarrow> owner a = ''''"
  by (auto simp: media_query_reducer_def owner_def split: if_splits)

lemma wallet_foreign:
  assumes "owner a \<noteq> ''wallet''"
  shows "wallet_reducer s a = Inr s"
proof (cases "get ''type'' a")
  case (Str t)
  define u where "u = strip_suffix ''/fulfilled'' t"
  have u: "takeWhile (\<lambda>c. c \<noteq> CHR ''/'') u \<noteq> ''wallet''"
    using assms Str unfolding u_def takeWhile_strip by (simp add: owner_def)
  have "u \<notin> set (map (\<lambda>k. ''wallet/'' @ k) [''SET_ACCOUNT'', ''SET_WALLET'', ''INIT_ACCOUNT'', ''INIT_WALLET'',
      ''CONNECTING'', ''show'', ''SET_CHAIN'', ''SET_ETH_TO_USD'', ''SET_IS_METAMASK_INSTALLED''])"
    using u by auto
  then show ?thesis
    unfolding wallet_reducer_def Str val.case Let_def u_def [symmetric] by simp
qed (use assms in \<open>simp_all add: owner_def\<close>)

lemma wallet_owner: "wallet_reducer s a \<noteq> Inr s \<Longrightarrow> owner a = ''wallet''"
  using wallet_foreign by blast

lemma strip_init: "strip_suffix ''/fulfilled'' ''wallet/INIT_ACCOUNT/fulfilled'' = ''wallet/INIT_ACCOUNT''"
  by code_simp

lemma key_SET_SIGNER [simp]: "type_key ''contract/SET_SIGNER'' = ''signer''"
  by code_simp

lemma key_SET_BALANCE [simp]: "type_key ''contract/SET_BALANCE'' = ''balance''"
  by code_simp

lemma key_SET_SYMBOL [simp]: "type_key ''contract/SET_SYMBOL'' = ''symbol''"
  by code_simp

lemma key_SET_BRESYMBOL [simp]: "type_key ''contract/SET_BRESYMBOL'' = ''bresymbol''"
  by code_simp

lemma key_SET_DEPOSITED [simp]: "type_key ''contract/SET_DEPOSITED'' = ''deposited''"
  by code_simp

lemma key_SET_ALLOWANCE [simp]: "type_key ''contract/SET_ALLOWANCE'' = ''allowance''"
  by code_simp

lemma key_SET_ACCOUNT [simp]: "type_key ''wallet/SET_ACCOUNT'' = ''account''"
  by code_simp

lemma key_INIT_ACCOUNT [simp]: "type_key ''wallet/INIT_ACCOUNT'' = ''account''"
  by code_simp

lemma key_SET_WALLET [simp]: "type_key ''wallet/SET_WALLET'' = ''wallet''"
  by code_simp

lemma key_INIT_WALLET [simp]: "type_key ''wallet/INIT_WALLET'' = ''wallet''"
  by code_simp

lemma slice_home: "(n, r) \<in> set root_reducers \<Longrightarrow> r s a \<noteq> Inr s \<Longrightarrow> owner a = home n"
  unfolding root_reducers_def set_simps insert_iff empty_iff prod.inject
  by (elim disjE conjE FalseE; hypsubst)
    (simp_all add: home_def auth_owner contract_owner third_party_owner global_owner media_query_owner wallet_owner)

lemma home_inj: "(n, r) \<in> set root_reducers \<Longrightarrow> (m, q) \<in> set root_reducers \<Longrightarrow> home n = home m \<Longrightarrow> n = m"
  by (auto simp: root_reducers_def home_def)

section \<open>Properties\<close>

text \<open>The slices of the root reducer do not interfere: for every action at most one of the six
  reducers changes its state or throws; all others return the state they were given.\<close>

theorem slices_disjoint:
  assumes "(n, r) \<in> set root_reducers" and "(m, q) \<in> set root_reducers" and "n \<noteq> m"
    and "r s a \<noteq> Inr s"
  shows "q t a = Inr t"
  using assms slice_home home_inj by metis

lemma slices_disjoint_witness:
  "contract_reducer contract_initial (wallet_setEthToUsd (Num 5)) = Inr contract_initial"
  by (rule slices_disjoint [of "''wallet''" wallet_reducer "''contract''" _ wallet_initial])
    (simp_all add: root_reducers_def wallet_setEthToUsd_def action_def wallet_reducer_def wallet_initial_def
      strip_suffix_def suffix_def)

text \<open>The wallet reducer throws on exactly two kinds of action, those without a string type and
  \<open>setConnecting\<close> (also with \<open>/fulfilled\<close> appended): the branch of \<open>CONNECTING\<close> reads an undeclared
  variable, so the \<open>connecting\<close> flag can never be set.\<close>

theorem wallet_reducer_throws_iff:
  "(\<exists>e. wallet_reducer s a = Inl e) \<longleftrightarrow>
     (case get ''type'' a of Str t \<Rightarrow> t = ''wallet/CONNECTING'' \<or> t = ''wallet/CONNECTING/fulfilled'' | _ \<Rightarrow> True)"
proof (cases "get ''type'' a")
  case (Str t)
  have "strip_suffix ''/fulfilled'' t = ''wallet/CONNECTING'' \<longleftrightarrow>
      t = ''wallet/CONNECTING'' \<or> t = ''wallet/CONNECTING/fulfilled''"
  proof (cases "suffix ''/fulfilled'' t")
    case True
    then obtain u where t: "t = u @ ''/fulfilled''" by (auto simp: suffix_def)
    then have "strip_suffix ''/fulfilled'' t = u" using strip_suffix_append [of "''/fulfilled''" u] by simp
    moreover have "''wallet/CONNECTING/fulfilled'' = ''wallet/CONNECTING'' @ ''/fulfilled''" by simp
    moreover have "t \<noteq> ''wallet/CONNECTING''"
    proof
      assume "t = ''wallet/CONNECTING''"
      then have "suffix ''/fulfilled'' ''wallet/CONNECTING''" using True by simp
      then show False by (simp add: suffix_to_prefix)
    qed
    ultimately show ?thesis using t by (metis append_same_eq)
  next
    case False
    then have "t \<noteq> ''wallet/CONNECTING'' @ ''/fulfilled''" by (auto simp: suffix_def)
    with False show ?thesis by (simp add: strip_suffix_def)
  qed
  with Str show ?thesis by (auto simp: wallet_reducer_def Let_def)
qed (simp_all add: wallet_reducer_def)

definition run_contract :: "obj \<Rightarrow> obj list \<Rightarrow> js_error + obj" where
  "run_contract s acts = foldl (\<lambda>r a. case r of Inl e \<Rightarrow> Inl e | Inr s \<Rightarrow> contract_reducer s a) (Inr s) acts"

lemma contract_step_earned:
  assumes "''earnedSymbol'' \<notin> fst ` set (entries (get ''payload'' a))"
  shows "\<exists>s'. contract_reducer s a = Inr s' \<and> get ''earnedSymbol'' s' = get ''earnedSymbol'' s"
  using assms get_spread_other [of "''earnedSymbol''" "entries (get ''payload'' a)" s]
  by (cases "get ''type'' a")
    (simp_all add: contract_reducer_def)

text \<open>The symbol of the earned token is lost: \<open>setEarnedSymbol\<close> writes the key \<open>bresymbol\<close>, and no
  sequence of contract actions changes \<open>earnedSymbol\<close>, unless a payload spread into the state by
  \<open>SET_CONTRACTS\<close> or \<open>INIT_CONTRACTS\<close> carries that key itself.\<close>
theorem earned_symbol_lost:
  assumes "\<forall>a \<in> set acts. ''earnedSymbol'' \<notin> fst ` set (entries (get ''payload'' a))"
  shows "\<exists>s'. run_contract s acts = Inr s' \<and> get ''earnedSymbol'' s' = get ''earnedSymbol'' s"
  using assms unfolding run_contract_def
proof (induction acts arbitrary: s)
  case (Cons a acts)
  then obtain s1 where s1: "contract_reducer s a = Inr s1" "get ''earnedSymbol'' s1 = get ''earnedSymbol'' s"
    using contract_step_earned [of a s] by auto
  with Cons.IH [of s1] Cons.prems show ?case by simp
qed simp

lemma earned_symbol_lost_witness:
  "\<exists>s'. run_contract contract_initial [setEarnedSymbol (Str ''C2N''), setLoading (Bool True)] = Inr s' \<and>
     get ''earnedSymbol'' s' = Undef"
proof -
  have "''earnedSymbol'' \<notin> fst ` set (entries (Str ''C2N''))" by code_simp
  then have "\<forall>a \<in> set [setEarnedSymbol (Str ''C2N''), setLoading (Bool True)].
      ''earnedSymbol'' \<notin> fst ` set (entries (get ''payload'' a))"
    by (simp add: setEarnedSymbol_def setLoading_def action_def del: entries.simps(3))
  from earned_symbol_lost [OF this, of contract_initial] show ?thesis
    by (simp add: contract_initial_def)
qed

definition reduce_next :: "(obj \<Rightarrow> obj \<Rightarrow> js_error + obj) \<Rightarrow> obj \<Rightarrow> (obj, val) io" where
  "reduce_next red a = (\<lambda>s. case red s a of Inl e \<Rightarrow> (Inl e, s) | Inr s' \<Rightarrow> (Inr (Obj a), s'))"

text \<open>\<open>login\<close> through the middleware. The store first goes to \<open>loggingIn\<close>; when the request
  resolves, the user is its result, when it is rejected, the user is \<open>null\<close> and the reason is kept;
  either way \<open>loggingIn\<close> is false again and exactly one of the two outcomes is reduced.\<close>
theorem login_flow:
  assumes "\<And>s. pr s = (outcome_of, s)"
  shows "\<exists>s'. clientMiddleware (reduce_next auth_reducer) (login (\<lambda>url body. ret pr) params) s = (Inr None, s') \<and>
    get ''loggingIn'' s' = Bool False \<and> get ''type'' s' = Str ''Login'' \<and>
    (case outcome_of of
       Inr x \<Rightarrow> get ''user'' s' = x \<and> get ''loginError'' s' = get ''loginError'' s
     | Inl e \<Rightarrow> get ''user'' s' = Null \<and> get ''loginError'' s' = e)"
  using assms
  by (cases outcome_of)
    (simp_all add: clientMiddleware_def login_def reduce_next_def settle_action_def auth_reducer_def io_defs
      type_at_def)

lemma login_flow_witness:
  "\<exists>s'. clientMiddleware (reduce_next auth_reducer) (login (\<lambda>url body. ret (\<lambda>s. (Inl (Str ''401''), s))) Null)
      auth_initial = (Inr None, s') \<and> get ''loginError'' s' = Str ''401''"
  using login_flow [of "\<lambda>s. (Inl (Str ''401''), s)" "Inl (Str ''401'')" Null auth_initial] by auto

text \<open>The account can never be read from the wallet. \<open>initWallet\<close> carries a promise but no \<open>types\<close>,
  so the middleware throws before anything is dispatched; and \<open>initAccount\<close> indexes the pending
  promise instead of the accounts, so what it stores is \<open>undefined\<close>.\<close>

theorem wallet_thunks_lose_account:
  assumes "truthy_val ethereum"
  shows "clientMiddleware nxt (initWallet getSigner) w = (Inl (TypeError ''undefined is not iterable''), w) \<and>
    initAccount ethereum p = Inr Undef \<and>
    (\<exists>s'. wallet_reducer s (fulfilled ''wallet/INIT_ACCOUNT'' Undef) = Inr s' \<and> get ''account'' s' = Undef)"
  using assms
  by (simp add: clientMiddleware_def initWallet_def throw_def initAccount_def fulfilled_def action_def
      wallet_reducer_def Let_def strip_init)

lemma wallet_thunks_lose_account_witness:
  "initAccount (Obj [(''isMetaMask'', Bool True)]) 7 = Inr Undef"
  using wallet_thunks_lose_account [of "Obj [(''isMetaMask'', Bool True)]"
      "\<lambda>_. ret Undef" "ret (\<lambda>w. (Inr Undef, w))" "0 :: nat" 7 wallet_initial] by simp

end
