(* ===== verification/Nova_Config.thy ===== *)
theory Nova_Config
  imports Js_Values "HOL-Library.Multiset"
begin

text \<open>
  The static data of the launchpad front end, \<open>NovaLaunch/nova-fe/src/config\<close>: the chains it knows,
  the staking pools, the farms, the bridge routes and the token tables. Environment variables are
  the parameter \<open>env\<close>. The properties compare the tables that are kept in several files.
\<close>

section \<open>valid_chains.js\<close>

record currency =
  cur_name :: string
  cur_symbol :: string
  cur_decimals :: nat

record chain =
  chain_name :: string
  chainId :: nat
  logo :: string
  shortName :: string
  networkId :: nat
  nativeCurrency :: currency
  rpc :: "string list"
  faucets :: "string list"
  infoURL :: string

definition VALID_CHAINS :: "chain list" where
  "VALID_CHAINS = [
     \<lparr>chain_name = ''Sepolia'', chainId = 11155111, logo = ''IconEth'',
       shortName = ''sepolia'', networkId = 11155111,
       nativeCurrency = \<lparr>cur_name = ''Ether'', cur_symbol = ''ETH'', cur_decimals = 18\<rparr>,
       rpc = [''https://rpc.sepolia.org''],
       faucets = [], infoURL = ''https://www.sepolia.io''\<rparr>,
     \<lparr>chain_name = ''Localhost'', chainId = 31337, logo = ''IconAppLogo'',
       shortName = ''localhost'', networkId = 31337,
       nativeCurrency = \<lparr>cur_name = ''GO'', cur_symbol = ''GO'', cur_decimals = 18\<rparr>,
       rpc = [''http://localhost:8545''],
       faucets = [], infoURL = ''http://localhost:8545''\<rparr>,
     \<lparr>chain_name = ''Arbitrum Sepolia'', chainId = 421614, logo = ''IconEth'',
       shortName = ''arb-sepolia'', networkId = 421614,
       nativeCurrency = \<lparr>cur_name = ''Arbitrum Rinkeby Ether'', cur_symbol = ''ARETH'', cur_decimals = 18\<rparr>,
       rpc = [''https://arbitrum-sepolia.blockpi.network/v1/rpc/public''],
       faucets = [], infoURL = ''https://sepolia-explorer.arbitrum.io''\<rparr>,
     \<lparr>chain_name = ''Binance Smart Chain Testnet'', chainId = 97, logo = ''IconBNB'',
       shortName = ''bnbt'', networkId = 97,
       nativeCurrency = \<lparr>cur_name = ''Binance Chain Native Token'', cur_symbol = ''tBNB'', cur_decimals = 18\<rparr>,
       rpc = [''https://data-seed-prebsc-1-s1.binance.org:8545'', ''https://data-seed-prebsc-2-s1.binance.org:8545'', ''https://data-seed-prebsc-1-s2.binance.org:8545'', ''https://data-seed-prebsc-2-s2.binance.org:8545'', ''https://data-seed-prebsc-1-s3.binance.org:8545'', ''https://data-seed-prebsc-2-s3.binance.org:8545''],
       faucets = [''https://testnet.binance.org/faucet-smart''], infoURL = ''https://testnet.binance.org/''\<rparr>]"

section \<open>index.js\<close>

definition STAKED_TOKEN_ADDRESS :: "(string \<rightharpoonup> string) \<Rightarrow> string option" where
  "STAKED_TOKEN_ADDRESS env = env ''NEXT_PUBLIC_STAKED_TOKEN_ADDRESS''"

definition EARNED_TOKEN_ADDRESS :: "(string \<rightharpoonup> string) \<Rightarrow> string option" where
  "EARNED_TOKEN_ADDRESS env = env ''NEXT_PUBLIC_EARNED_TOKEN_ADDRESS''"

record staking_pool =
  pool_chainId :: nat
  pool_stakingAddress :: string
  pool_depositToken :: string
  pool_earnedToken :: string

definition stakingPoolAddresses :: "staking_pool list" where
  "stakingPoolAddresses = [
     \<lparr>pool_chainId = 11155111, pool_stakingAddress = ''0x6C336a43bC47648Dac96b1419958B8a4e78E05C1'',
       pool_depositToken = ''0x4E71E941878CE2afEB1039A0FE16f5eb557571C8'',
       pool_earnedToken = ''0x4E71E941878CE2afEB1039A0FE16f5eb557571C8''\<rparr>,
     \<lparr>pool_chainId = 31337, pool_stakingAddress = ''0x8A791620dd6260079BF849Dc5567aDC3F2FdC318'',
       pool_depositToken = ''0xe7f1725E7734CE288F8367e1Bb143E90bb3F0512'',
       pool_earnedToken = ''0xe7f1725E7734CE288F8367e1Bb143E90bb3F0512''\<rparr>,
     \<lparr>pool_chainId = 97, pool_stakingAddress = ''0xb6e3D2266167b2D45923f93826da15F18EDC3809'',
       pool_depositToken = ''0x8a9c37d64605Fb6E936bCDA96792a48f3bbE45a4'',
       pool_earnedToken = ''0x8a9c37d64605Fb6E936bCDA96792a48f3bbE45a4''\<rparr>]"

definition API_DOMAIN :: "(string \<rightharpoonup> string) \<Rightarrow> string option" where
  "API_DOMAIN env = env ''NEXT_PUBLIC_SERVER_DOMAIN''"

definition VALID_CHAIN_IDS :: "nat list" where
  "VALID_CHAIN_IDS = [288, 28, 56, 97, 31337]"

definition STAKING_POOL_ID :: nat where
  "STAKING_POOL_ID = 0"

definition APPROVE_STAKING_AMOUNT_ETHER :: nat where
  "APPROVE_STAKING_AMOUNT_ETHER = 1000000"

definition TELEGRAM_BOT_ID :: "(string \<rightharpoonup> string) \<Rightarrow> string option" where
  "TELEGRAM_BOT_ID env = env ''NEXT_PUBLIC_TG_BOT_ID''"

definition BASE_URL :: string where
  "BASE_URL = ''https://pancakeswap.finance''"

definition BASE_BSC_SCAN_URL :: string where
  "BASE_BSC_SCAN_URL = ''https://bscscan.com''"

definition tokenAbi :: "string list" where
  "tokenAbi = [
     ''function deposited(uint256 pid, address to) view returns (uint256)'',
     ''function balanceOf(address owner) view returns (uint256)'',
     ''function decimals() view returns (uint8)'',
     ''function symbol() view returns (string)'',
     ''function allowance(address owner, address spender) view returns (uint256)'',
     ''function userInfo(uint pid, address spender) view returns (uint256)'',
     ''function poolInfo(uint pid) view returns (uint256)'',
     ''function deposit(uint256 pid, uint256 amount) returns (bool)'',
     ''function withdraw(uint256 pid, uint256 amount) returns (bool)'',
     ''function approve(address spender, uint256 amount) returns (bool)'',
     ''function transfer(address to, uint amount) returns (bool)'']"

definition tokenImage :: string where
  "tokenImage = ''http://bobabrewery.oss-ap-southeast-1.aliyuncs.com/brewery_logo.jpg''"

definition TOKEN_ADDRESS_MAP :: "nat \<rightharpoonup> string" where
  "TOKEN_ADDRESS_MAP = [
     11155111 \<mapsto> ''0x4E71E941878CE2afEB1039A0FE16f5eb557571C8'',
     31337 \<mapsto> ''0xe7f1725E7734CE288F8367e1Bb143E90bb3F0512'',
     97 \<mapsto> ''0x8a9c37d64605Fb6E936bCDA96792a48f3bbE45a4'']"

record token_entry =
  tok_chainId :: nat
  tok_symbol :: string
  tok_address :: "string option"

definition tokenSymbols :: "token_entry list" where
  "tokenSymbols = map (\<lambda>c. \<lparr>tok_chainId = c, tok_symbol = ''C2N'', tok_address = TOKEN_ADDRESS_MAP c\<rparr>)
     [11155111, 31337, 97]"

definition tokenInfos :: "token_entry list" where
  "tokenInfos = map (\<lambda>c. \<lparr>tok_chainId = c, tok_symbol = ''C2N'', tok_address = TOKEN_ADDRESS_MAP c\<rparr>)
     [11155111, 31337, 97]"

definition AIRDROP_CONTRACT :: string where
  "AIRDROP_CONTRACT = ''0x3490f4E1b4A539f7d88bc0E808cbE8BC59048a09''"

section \<open>farms.js and address_config.js\<close>

record farm =
  farm_chainId :: nat
  depositTokenAddress :: string
  earnedTokenAddress :: string
  stakingAddress :: string
  poolId :: nat
  available :: bool
  depositSymbol :: string
  earnedSymbol :: string
  title :: string
  depositLogo :: string
  earnedLogo :: string
  getLptHref :: string
  aprRate :: rat
  aprUrl :: string

definition farms :: "farm list" where
  "farms = [
     \<lparr>farm_chainId = 11155111, depositTokenAddress = ''0x2Cfe540886864DF44D180D67fA7DEb1611AaAcDF'',
       earnedTokenAddress = ''0x2Cfe540886864DF44D180D67fA7DEb1611AaAcDF'',
       stakingAddress = ''0x6C336a43bC47648Dac96b1419958B8a4e78E05C1'', poolId = 0, available = True,
       depositSymbol = ''FC2N'', earnedSymbol = ''C2N'', title = ''Sepolia/C2N FC2N'',
       depositLogo = ''https://bobabrewery.oss-ap-southeast-1.aliyuncs.com/bnb-logo.svg'',
       earnedLogo = ''https://bobabrewery.oss-ap-southeast-1.aliyuncs.com/Brewery32x32.png'',
       getLptHref = ''https://pancakeswap.finance/add/BNB/0x9eBBEB7f6b842377714EAdD987CaA4510205107A'',
       aprRate = 315 / 100 / 20, aprUrl = ''/boba/apr/bsc''\<rparr>,
     \<lparr>farm_chainId = 31337, depositTokenAddress = ''0x9fE46736679d2D9a65F0992F2272dE9f3c7fa6e0'',
       earnedTokenAddress = ''0x9fE46736679d2D9a65F0992F2272dE9f3c7fa6e0'',
       stakingAddress = ''0x5FC8d32690cc91D4c39d9d3abcBD16989F875707'', poolId = 0, available = True,
       depositSymbol = ''FC2N'', earnedSymbol = ''C2N'', title = ''Local/C2N FC2N'',
       depositLogo = ''https://bobabrewery.oss-ap-southeast-1.aliyuncs.com/bnb-logo.svg'',
       earnedLogo = ''https://bobabrewery.oss-ap-southeast-1.aliyuncs.com/Brewery32x32.png'',
       getLptHref = ''https://pancakeswap.finance/add/BNB/0x9eBBEB7f6b842377714EAdD987CaA4510205107A'',
       aprRate = 315 / 100 / 20, aprUrl = ''/boba/apr/bsc''\<rparr>,
     \<lparr>farm_chainId = 97, depositTokenAddress = ''0x8a9c37d64605Fb6E936bCDA96792a48f3bbE45a4'',
       earnedTokenAddress = ''0x8a9c37d64605Fb6E936bCDA96792a48f3bbE45a4'',
       stakingAddress = ''0xA662eA0D1ed456A227F50072E42178f66F2409f0'', poolId = 0, available = True,
       depositSymbol = ''FC2N'', earnedSymbol = ''C2N'', title = ''Binance Test Net/C2N FC2N'',
       depositLogo = ''https://bobabrewery.oss-ap-southeast-1.aliyuncs.com/bnb-logo.svg'',
       earnedLogo = ''https://bobabrewery.oss-ap-southeast-1.aliyuncs.com/Brewery32x32.png'',
       getLptHref = ''https://pancakeswap.finance/add/BNB/0x9eBBEB7f6b842377714EAdD987CaA4510205107A'',
       aprRate = 315 / 100 / 20, aprUrl = ''/boba/apr/bsc''\<rparr>]"

definition address_config :: "farm list" where
  "address_config = [
     \<lparr>farm_chainId = 11155111, depositTokenAddress = ''0x2Cfe540886864DF44D180D67fA7DEb1611AaAcDF'',
       earnedTokenAddress = ''0x2Cfe540886864DF44D180D67fA7DEb1611AaAcDF'',
       stakingAddress = ''0x6C336a43bC47648Dac96b1419958B8a4e78E05C1'', poolId = 0, available = True,
       depositSymbol = ''FC2N'', earnedSymbol = ''C2N'', title = ''Sepolia/C2N FC2N'',
       depositLogo = ''https://bobabrewery.oss-ap-southeast-1.aliyuncs.com/bnb-logo.svg'',
       earnedLogo = ''https://bobabrewery.oss-ap-southeast-1.aliyuncs.com/Brewery32x32.png'',
       getLptHref = ''https://pancakeswap.finance/add/BNB/0x9eBBEB7f6b842377714EAdD987CaA4510205107A'',
       aprRate = 315 / 100 / 20, aprUrl = ''/boba/apr/bsc''\<rparr>,
     \<lparr>farm_chainId = 31337, depositTokenAddress = ''0x9fE46736679d2D9a65F0992F2272dE9f3c7fa6e0'',
       earnedTokenAddress = ''0x9fE46736679d2D9a65F0992F2272dE9f3c7fa6e0'',
       stakingAddress = ''0x0165878A594ca255338adfa4d48449f69242Eb8F'', poolId = 0, available = True,
       depositSymbol = ''FC2N'', earnedSymbol = ''C2N'', title = ''Local/C2N FC2N'',
       depositLogo = ''https://bobabrewery.oss-ap-southeast-1.aliyuncs.com/bnb-logo.svg'',
       earnedLogo = ''https://bobabrewery.oss-ap-southeast-1.aliyuncs.com/Brewery32x32.png'',
       getLptHref = ''https://pancakeswap.finance/add/BNB/0x9eBBEB7f6b842377714EAdD987CaA4510205107A'',
       aprRate = 315 / 100 / 20, aprUrl = ''/boba/apr/bsc''\<rparr>,
     \<lparr>farm_chainId = 97, depositTokenAddress = ''0x8a9c37d64605Fb6E936bCDA96792a48f3bbE45a4'',
       earnedTokenAddress = ''0x8a9c37d64605Fb6E936bCDA96792a48f3bbE45a4'',
       stakingAddress = ''0xA662eA0D1ed456A227F50072E42178f66F2409f0'', poolId = 0, available = True,
       depositSymbol = ''FC2N'', earnedSymbol = ''C2N'', title = ''Binance Test Net/C2N FC2N'',
       depositLogo = ''https://bobabrewery.oss-ap-southeast-1.aliyuncs.com/bnb-logo.svg'',
       earnedLogo = ''https://bobabrewery.oss-ap-southeast-1.aliyuncs.com/Brewery32x32.png'',
       getLptHref = ''https://pancakeswap.finance/add/BNB/0x9eBBEB7f6b842377714EAdD987CaA4510205107A'',
       aprRate = 315 / 100 / 20, aprUrl = ''/boba/apr/bsc''\<rparr>]"

section \<open>bridge.js and token_info.js\<close>

record route =
  label :: string
  route_value :: string
  toValue :: string
  toLabel :: string
  contractAddress :: string
  route_chainId :: string

definition bridge :: "(string \<times> route list) list" where
  "bridge = [
     (''BRE'', [
       \<lparr>label = ''BRE(BSC)'', route_value = ''16:Brewery'', toValue = ''44:BRE'', toLabel = ''BRE(BOBA)'',
         contractAddress = ''0x9eBBEB7f6b842377714EAdD987CaA4510205107A'', route_chainId = ''56''\<rparr>,
       \<lparr>label = ''BRE(BOBA)'', route_value = ''44:BRE'', toValue = ''16:Brewery'', toLabel = ''BRE(BSC)'',
         contractAddress = ''0x3A93bD0fA10050d206370eeA53276542A105C885'', route_chainId = ''288''\<rparr>]),
     (''ETH'', [
       \<lparr>label = ''ETH(BSC)'', route_value = ''16:ETH'', toValue = ''44:ETH'', toLabel = ''ETH(BOBA)'',
         contractAddress = ''0x2170ed0880ac9a755fd29b2688956bd959f933f8'', route_chainId = ''56''\<rparr>,
       \<lparr>label = ''ETH(BOBA)'', route_value = ''44:ETH'', toValue = ''16:ETH'', toLabel = ''ETH(BSC)'',
         contractAddress = ''0x4200000000000000000000000000000000000006'', route_chainId = ''288''\<rparr>]),
     (''USDT'', [
       \<lparr>label = ''USDT(BSC)'', route_value = ''16:USDT'', toValue = ''44:USDT'', toLabel = ''USDT(BOBA)'',
         contractAddress = ''0x55d398326f99059fF775485246999027B3197955'', route_chainId = ''56''\<rparr>,
       \<lparr>label = ''USDT(BOBA)'', route_value = ''44:USDT'', toValue = ''16:USDT'', toLabel = ''USDT(BSC)'',
         contractAddress = ''0x5DE1677344D3Cb0D7D465c10b72A8f60699C062d'', route_chainId = ''288''\<rparr>])]"

definition token_info :: "route list" where
  "token_info = [
     \<lparr>label = ''ETH(BSC)'', route_value = ''16:ETH'', toValue = ''44:ETH'', toLabel = ''ETH(BOBA)'',
       contractAddress = ''0x2170ed0880ac9a755fd29b2688956bd959f933f8'', route_chainId = ''56''\<rparr>,
     \<lparr>label = ''ETH(BOBA)'', route_value = ''44:ETH'', toValue = ''16:ETH'', toLabel = ''ETH(BSC)'',
       contractAddress = ''0x4200000000000000000000000000000000000006'', route_chainId = ''288''\<rparr>,
     \<lparr>label = ''BRE(BSC)'', route_value = ''16:Brewery'', toValue = ''44:BRE'', toLabel = ''BRE(BOBA)'',
       contractAddress = ''0x9eBBEB7f6b842377714EAdD987CaA4510205107A'', route_chainId = ''56''\<rparr>,
     \<lparr>label = ''BRE(BOBA)'', route_value = ''44:BRE'', toValue = ''16:Brewery'', toLabel = ''BRE(BSC)'',
       contractAddress = ''0x3A93bD0fA10050d206370eeA53276542A105C885'', route_chainId = ''288''\<rparr>,
     \<lparr>label = ''USDT(BSC)'', route_value = ''16:USDT'', toValue = ''44:USDT'', toLabel = ''USDT(BOBA)'',
       contractAddress = ''0x55d398326f99059fF775485246999027B3197955'', route_chainId = ''56''\<rparr>,
     \<lparr>label = ''USDT(BOBA)'', route_value = ''44:USDT'', toValue = ''16:USDT'', toLabel = ''USDT(BSC)'',
       contractAddress = ''0x5DE1677344D3Cb0D7D465c10b72A8f60699C062d'', route_chainId = ''288''\<rparr>]"

section \<open>next.config.js\<close>

text \<open>The webpack hook appends a loader to the rules and sets one alias; \<open>resolve\<close> is \<open>path.resolve\<close>.\<close>

definition next_webpack :: "(string \<Rightarrow> string) \<Rightarrow> val list \<times> obj \<Rightarrow> val list \<times> obj" where
  "next_webpack resolve = (\<lambda>(rules, alias).
     (rules @ [Obj [(''test'', Str (CHR 0x5C # ''.svg$'')), (''use'', Arr [Str ''@svgr/webpack''])]],
      put ''@src'' (Str (resolve ''./src'')) alias))"

definition next_config :: obj where
  "next_config = [(''basePath'', Str []),
     (''images'', Obj [(''formats'', Arr [Str ''image/avif'', Str ''image/webp''])]), (''sassOptions'', Obj [])]"

definition bundle_analyzer_enabled :: "(string \<rightharpoonup> string) \<Rightarrow> bool" where
  "bundle_analyzer_enabled env = (env ''ANALYZE'' = Some ''true'')"

section \<open>Properties\<close>

text \<open>The reverse of a route.\<close>

definition reverses :: "route \<Rightarrow> route \<Rightarrow> bool" where
  "reverses r q \<longleftrightarrow> route_value q = toValue r \<and> toValue q = route_value r \<and> label q = toLabel r \<and>
     toLabel q = label r \<and> route_chainId q \<noteq> route_chainId r"

text \<open>Every bridge route can be taken back: for each route of \<open>token_info\<close> exactly one route of the
  table leads from its target to its source, with the labels swapped and on the other chain; and the
  flat table holds the same routes as the table grouped by token.\<close>

theorem bridge_routes_reversible:
  "list_all (\<lambda>r. length (filter (reverses r) token_info) = 1) token_info \<and>
   mset token_info = mset (concat (map snd bridge))"
proof
  show "list_all (\<lambda>r. length (filter (reverses r) token_info) = 1) token_info"
    by code_simp
  show "mset token_info = mset (concat (map snd bridge))"
    by (simp add: token_info_def bridge_def)
qed

text \<open>The tables about chains disagree in two places. Every chain with a staking pool or a farm is a
  selectable chain, but Sepolia, the first of them, is missing from \<open>VALID_CHAIN_IDS\<close>; and \<open>farms.js\<close>
  and its copy \<open>address_config.js\<close> agree except for the staking address of the local chain.\<close>

theorem chain_tables_compared:
  "set (map pool_chainId stakingPoolAddresses) \<union> set (map farm_chainId farms) \<subseteq> set (map chainId VALID_CHAINS) \<and>
   filter (\<lambda>c. c \<notin> set VALID_CHAIN_IDS) (map farm_chainId farms) = [11155111] \<and>
   map (\<lambda>f. f\<lparr>stakingAddress := ''''\<rparr>) farms = map (\<lambda>f. f\<lparr>stakingAddress := ''''\<rparr>) address_config \<and>
   map (farm_chainId \<circ> fst) (filter (\<lambda>(f, g). stakingAddress f \<noteq> stakingAddress g) (zip farms address_config)) = [31337]"
  by (simp add: stakingPoolAddresses_def farms_def address_config_def VALID_CHAINS_def VALID_CHAIN_IDS_def)

end
