(* ===== verification/Nova_Client.thy ===== *)
theory Nova_Client
  imports Js_Values
begin

text \<open>
  Three small machines of the launchpad front end: the HTTP client \<open>src/api/axios.js\<close>, the throttle of
  \<open>src/util/throttle.js\<close> as a step relation over calls and timer events, and the icon generator
  \<open>scripts/generate-sprite.js\<close>, whose callbacks finish in any order and meet at a counter.
\<close>

section \<open>api/axios.js\<close>

text \<open>How the promise an interceptor returns settles.\<close>

datatype settled = Resolve val | Reject val

fun read_member :: "val \<Rightarrow> string \<Rightarrow> (val \<Rightarrow> settled) \<Rightarrow> settled" where
  "read_member x k f = (case member x k of
     Inl e \<Rightarrow> Reject (Obj [(''message'', Str ''TypeError'')]) | Inr y \<Rightarrow> f y)"

definition convertBaseURL :: "string option \<Rightarrow> string option" where
  "convertBaseURL api_domain = api_domain"

text \<open>The axios instance: the settings of the defaults and of \<open>axios.create\<close>.\<close>

record http_defaults =
  baseURL :: "string option"
  post_content_type :: string
  put_content_type :: string
  timeout :: nat

definition http :: "string option \<Rightarrow> http_defaults" where
  "http api_domain = \<lparr>baseURL = convertBaseURL api_domain,
     post_content_type = ''application/x-www-form-urlencoded;charset=UTF-8'',
     put_content_type = ''application/x-www-form-urlencoded;charset=UTF-8'', timeout = 150000\<rparr>"

definition on_request :: "val \<Rightarrow> settled" where
  "on_request config = read_member config ''method'' (\<lambda>_. Resolve config)"

definition on_request_error :: "val \<Rightarrow> settled" where
  "on_request_error e = Reject e"

definition on_response :: "val \<Rightarrow> settled" where
  "on_response response =
     read_member response ''config'' (\<lambda>config.
     read_member config ''method'' (\<lambda>_.
     read_member response ''data'' (\<lambda>body.
     if truthy_val body then
       read_member body ''code'' (\<lambda>code.
       if \<not> truthy_val code then Resolve body
       else if code = Num 200 then Resolve body
       else Reject body)
     else if truthy_val response then Resolve body else Resolve (Obj []))))"

definition on_response_error :: "val \<Rightarrow> settled" where
  "on_response_error e = Reject Undef"

text \<open>\<open>stringify\<close> is \<open>qs.stringify(params, {arrayFormat: 'brackets'})\<close>; \<open>send url body config\<close> is the
  settled result of the method of the axios instance.\<close>

definition postRequest ::
  "(val \<Rightarrow> string) \<Rightarrow> (string \<Rightarrow> val \<Rightarrow> val \<Rightarrow> settled) \<Rightarrow> string \<Rightarrow> val \<Rightarrow> val \<Rightarrow> settled" where
  "postRequest stringify send url params config =
     (let dataStr = stringify params in
      case send url (Str dataStr) config of Resolve r \<Rightarrow> Resolve r | Reject e \<Rightarrow> Reject e)"

definition putRequest ::
  "(val \<Rightarrow> string) \<Rightarrow> (string \<Rightarrow> val \<Rightarrow> val \<Rightarrow> settled) \<Rightarrow> string \<Rightarrow> val \<Rightarrow> val \<Rightarrow> settled" where
  "putRequest stringify send url params config =
     (let dataStr = stringify params in
      case send url (Str dataStr) config of Resolve r \<Rightarrow> Resolve r | Reject e \<Rightarrow> Reject e)"

text \<open>\<open>getRequest\<close> writes the default for \<open>params.params\<close> into the object it was given, and throws when it
  was given none.\<close>

definition getRequest :: "(string \<Rightarrow> val \<Rightarrow> settled) \<Rightarrow> string \<Rightarrow> val \<Rightarrow> js_error + settled" where
  "getRequest send url params =
     (case member params ''params'' of
        Inl e \<Rightarrow> Inl e
      | Inr q \<Rightarrow>
          (let querystr = (if truthy_val q then q else Obj []) in
           let params' = (if url \<noteq> '''' then
             (case params of Obj ob \<Rightarrow> Obj (put ''params'' querystr ob) | x \<Rightarrow> x) else params) in
           Inr (case send url params' of Resolve r \<Rightarrow> Resolve r | Reject e \<Rightarrow> Reject e)))"

section \<open>util/throttle.js\<close>

text \<open>The closure keeps \<open>waiting\<close>; \<open>due\<close> is when the pending timer may fire. An event is a call of the
  throttled function at a time, with whether the callback throws, or the firing of the timer.\<close>

record throttle =
  waiting :: bool
  due :: int

datatype throttle_event = Invoke int bool | Fire int

text \<open>\<open>throttle_step limit s e s' went\<close>: in state \<open>s\<close> event \<open>e\<close> leads to \<open>s'\<close>; \<open>went\<close> says whether the
  callback was run. A callback that throws leaves the closure before \<open>waiting\<close> is set.\<close>

inductive throttle_step :: "int \<Rightarrow> throttle \<Rightarrow> throttle_event \<Rightarrow> throttle \<Rightarrow> bool \<Rightarrow> bool" for limit where
  ignored: "waiting s \<Longrightarrow> throttle_step limit s (Invoke t throws) s False"
| run: "\<not> waiting s \<Longrightarrow> throttle_step limit s (Invoke t False) \<lparr>waiting = True, due = t + limit\<rparr> True"
| run_throws: "\<not> waiting s \<Longrightarrow> throttle_step limit s (Invoke t True) s True"
| fire: "waiting s \<Longrightarrow> due s \<le> t \<Longrightarrow> throttle_step limit s (Fire t) (s\<lparr>waiting := False\<rparr>) False"

inductive_cases throttle_invokeE: "throttle_step limit s (Invoke t th) s' went"
inductive_cases throttle_fireE: "throttle_step limit s (Fire t) s' went"

fun event_time :: "throttle_event \<Rightarrow> int" where
  "event_time (Invoke t _) = t"
| "event_time (Fire t) = t"

text \<open>A run from time \<open>now\<close> on, with the times at which the callback completed.\<close>

inductive throttle_run :: "int \<Rightarrow> throttle \<Rightarrow> int \<Rightarrow> throttle_event list \<Rightarrow> int list \<Rightarrow> bool" for limit where
  stop: "throttle_run limit s now [] []"
| step: "throttle_step limit s e s' went \<Longrightarrow> now \<le> event_time e \<Longrightarrow>
    throttle_run limit s' (event_time e) es ts \<Longrightarrow>
    throttle_run limit s now (e # es)
      (if went \<and> (\<exists>t. e = Invoke t False) then event_time e # ts else ts)"

inductive_cases throttle_run_ConsE: "throttle_run limit s now (e # es) ts"

section \<open>scripts/generate-sprite.js\<close>

record coordinate =
  icon_name :: string
  icon_url :: string
  icon_x :: int
  icon_y :: int
  icon_width :: int
  icon_height :: int

text \<open>The state of the script: its two globals and the files written, in order.\<close>

record sprite =
  coordinates :: "coordinate list"
  counter :: int
  files :: "(string \<times> string) list"

definition is_space :: "char \<Rightarrow> bool" where
  "is_space c \<longleftrightarrow> c \<in> {CHR '' '', CHR 0x09, CHR 0x0A, CHR 0x0B, CHR 0x0C, CHR 0x0D}"

text \<open>\<open>s.replace(/\s+/g, ' ')\<close>\<close>

function collapse :: "string \<Rightarrow> string" where
  "collapse [] = []"
| "collapse (c # cs) =
     (if is_space c then CHR '' '' # collapse (dropWhile is_space cs) else c # collapse cs)"
  by pat_completeness auto

termination
  by (relation "measure length") (auto simp: le_imp_less_Suc length_dropWhile_le)

definition nl :: string where
  "nl = [CHR 0x0A]"

definition icon_rule :: "coordinate \<Rightarrow> string" where
  "icon_rule v = nl @ ''        .'' @ icon_name v @ '' {'' @ nl @
     ''          background-image: url('' @ icon_url v @ '');'' @ nl @
     ''          background-position: -'' @ show_int (icon_x v) @ ''px -'' @ show_int (icon_y v) @ ''px;'' @ nl @
     ''          background-size: auto;'' @ nl @
     ''          width: '' @ show_int (icon_width v) @ ''px;'' @ nl @
     ''          height: '' @ show_int (icon_height v) @ ''px;'' @ nl @
     ''        }'' @ nl @ ''      ''"

definition stylesheet :: "coordinate list \<Rightarrow> string" where
  "stylesheet vs = collapse (concat (map icon_rule vs))"

definition scss_path :: string where
  "scss_path = ''../src/styles/icons.scss''"

definition writeCoordinates :: "sprite \<Rightarrow> sprite" where
  "writeCoordinates s =
     (if counter s = 0 then s\<lparr>files := files s @ [(scss_path, stylesheet (coordinates s))]\<rparr> else s)"

text \<open>\<open>key.replace(/.*\/(.*)\.png/g, 'icon-$1').replace(/_/g, '-')\<close>: the greedy expression takes the last
  slash that has a \<open>.png\<close> after it, and the last such \<open>.png\<close>.\<close>

definition png_splits :: "string \<Rightarrow> (nat \<times> nat) list" where
  "png_splits s = concat (map (\<lambda>i. map (Pair i)
     (filter (\<lambda>j. take 4 (drop j s) = ''.png'') (rev [i + 1..<length s])))
     (filter (\<lambda>i. s ! i = CHR ''/'') (rev [0..<length s])))"

definition sprite_name :: "string \<Rightarrow> string" where
  "sprite_name s = map (\<lambda>c. if c = CHR ''_'' then CHR ''-'' else c)
     (case png_splits s of
        [] \<Rightarrow> s
      | (i, j) # _ \<Rightarrow> ''icon-'' @ take (j - i - 1) (drop (i + 1) s) @ drop (j + 4) s)"

text \<open>The result of spritesmith: the sheet and, for each source file, its place \<open>(x, y, width, height)\<close>.\<close>

record sheet =
  sheet_image :: string
  places :: "(string \<times> int \<times> int \<times> int \<times> int) list"

definition coordinatesFormatter :: "(string \<times> int \<times> int \<times> int \<times> int) list \<Rightarrow> string \<Rightarrow> coordinate list" where
  "coordinatesFormatter cs bgDest = map (\<lambda>(key, x, y, w, h).
     \<lparr>icon_name = sprite_name key, icon_url = bgDest, icon_x = x, icon_y = y, icon_width = w, icon_height = h\<rparr>) cs"

record sprite_job =
  job_src :: "string list"
  job_dist :: string
  job_url :: string
  job_algorithm :: "string option"

definition icons :: "string \<Rightarrow> nat \<Rightarrow> string list" where
  "icons stem n = map (\<lambda>i. ''../src/assets/icons/'' @ stem @ ''_'' @ show_nat i @ ''.png'') [1..<Suc n]"

definition job :: "string \<Rightarrow> nat \<Rightarrow> string option \<Rightarrow> sprite_job" where
  "job stem n alg = \<lparr>job_src = icons stem n, job_dist = ''../src/assets/images/'' @ stem @ ''_icons.png'',
     job_url = ''~@src/assets/images/'' @ stem @ ''_icons.png'', job_algorithm = alg\<rparr>"

definition sprite_jobs :: "sprite_job list" where
  "sprite_jobs = [
     job ''index_1'' 2 None, job ''index_3'' 7 None, job ''index_5'' 6 None, job ''index_7'' 5 None,
     job ''pool'' 5 None, job ''stake'' 6 None, job ''media'' 4 (Some ''alt-diagonal''),
     job ''project_card'' 3 (Some ''alt-diagonal'')]"

text \<open>The callback of a job. On an error \<open>result\<close> is \<open>undefined\<close> and reading \<open>result.image\<close> throws.\<close>

definition handleResult :: "sprite_job \<Rightarrow> sheet option \<Rightarrow> (sprite, unit) io" where
  "handleResult j result = (\<lambda>s. case result of
     None \<Rightarrow> (Inl (TypeError ''Cannot read properties of undefined''), s)
   | Some r \<Rightarrow> (Inr (), writeCoordinates (s\<lparr>files := files s @ [(job_dist j, sheet_image r)],
       coordinates := coordinates s @ coordinatesFormatter (places r) (job_url j),
       counter := counter s - 1\<rparr>)))"

text \<open>The script first starts every job and counts it; the callbacks come later, in any order. An error
  in a callback ends the process.\<close>

definition sprite_start :: sprite where
  "sprite_start = \<lparr>coordinates = [], counter = int (length sprite_jobs), files = []\<rparr>"

definition sprite_callbacks :: "(sprite_job \<times> sheet option) list \<Rightarrow> (sprite, unit) io" where
  "sprite_callbacks rs = foreach rs (\<lambda>(j, r). handleResult j r)"

section \<open>Properties\<close>

text \<open>What the response interceptor promises: for a response object with a \<open>config\<close> object it resolves
  with the body exactly when the body is falsy, carries no code or a falsy one, or the number 200,
  and otherwise rejects with the body, so a code sent as the string \<open>"200"\<close> is an error.\<close>

theorem response_contract:
  assumes "get ''config'' r = Obj cfg" and "get ''data'' r = Obj b"
  shows "on_response (Obj r) =
     (if \<not> truthy_val (get ''code'' b) \<or> get ''code'' b = Num 200 then Resolve (Obj b) else Reject (Obj b))"
  using assms by (simp add: on_response_def)

lemma response_contract_witness:
  "on_response (Obj [(''config'', Obj []), (''data'', Obj [(''code'', Str ''200'')])]) =
     Reject (Obj [(''code'', Str ''200'')])"
  by (subst response_contract [where cfg = "[]" and b = "[(''code'', Str ''200'')]"]) simp_all

lemma throttle_run_Cons:
  assumes "throttle_run limit s now (e # es) ts"
  obtains s' went ts' where "throttle_step limit s e s' went" and "now \<le> event_time e"
    and "throttle_run limit s' (event_time e) es ts'"
    and "ts = (if went \<and> (\<exists>t. e = Invoke t False) then event_time e # ts' else ts')"
  using assms by (rule throttle_run_ConsE) (blast intro: that)+

lemma throttle_times: "throttle_run limit s now es ts \<Longrightarrow> \<forall>u \<in> set ts. now \<le> u"
  by (induction rule: throttle_run.induct) (auto split: if_splits)

lemma throttle_gap:
  assumes "throttle_run limit s now es ts" and "waiting s"
  shows "\<forall>t \<in> set ts. due s \<le> t"
  using assms
proof (induction es arbitrary: now ts)
  case Nil
  then show ?case by (auto elim: throttle_run.cases)
next
  case (Cons e es)
  from Cons.prems(1) obtain s' went ts' where st: "throttle_step limit s e s' went"
    and r: "throttle_run limit s' (event_time e) es ts'"
    and ts: "ts = (if went \<and> (\<exists>t. e = Invoke t False) then event_time e # ts' else ts')"
    by (rule throttle_run_Cons)
  from st show ?case
  proof cases
    case (ignored t throws)
    with r ts Cons.IH Cons.prems(2) show ?thesis by simp
  next
    case (fire t)
    with r ts throttle_times [OF r] show ?thesis by auto
  qed (use Cons.prems(2) in auto)
qed

text \<open>The throttle: in every run two completed callbacks are at least \<open>limit\<close> apart.\<close>
theorem throttle_spacing:
  assumes "throttle_run limit s now es ts"
  shows "sorted_wrt (\<lambda>t u. t + limit \<le> u) ts"
  using assms
proof (induction es arbitrary: s now ts)
  case Nil
  then show ?case by (auto elim: throttle_run.cases)
next
  case (Cons e es)
  from Cons.prems obtain s' went ts' where st: "throttle_step limit s e s' went"
    and r: "throttle_run limit s' (event_time e) es ts'"
    and ts: "ts = (if went \<and> (\<exists>t. e = Invoke t False) then event_time e # ts' else ts')"
    by (rule throttle_run_Cons)
  have IH: "sorted_wrt (\<lambda>t u. t + limit \<le> u) ts'" by (rule Cons.IH [OF r])
  from st show ?case
  proof cases
    case (run t)
    have "\<forall>u \<in> set ts'. t + limit \<le> u"
      using throttle_gap [OF r] run by simp
    with ts run IH show ?thesis by simp
  qed (use ts IH in auto)
qed

lemma throttle_spacing_witness:
  "throttle_run 100 \<lparr>waiting = False, due = 0\<rparr> 0 [Invoke 5 False, Invoke 50 False, Fire 105, Invoke 130 False] [5, 130] \<and>
   sorted_wrt (\<lambda>t u. t + 100 \<le> u) [5, 130 :: int]"
proof -
  let ?s = "\<lparr>waiting = True, due = 105\<rparr>"
  have 4: "throttle_run 100 \<lparr>waiting = False, due = 105\<rparr> 105 [Invoke 130 False] [130]"
    using throttle_run.step [OF throttle_step.run [of "\<lparr>waiting = False, due = 105\<rparr>" 100 130] _ throttle_run.stop]
    by simp
  have 3: "throttle_run 100 ?s 50 [Fire 105, Invoke 130 False] [130]"
    using throttle_run.step [OF throttle_step.fire [of ?s 105 100]] 4 by simp
  have 2: "throttle_run 100 ?s 5 [Invoke 50 False, Fire 105, Invoke 130 False] [130]"
    using throttle_run.step [OF throttle_step.ignored [of ?s 100 50 False]] 3 by simp
  have 1: "throttle_run 100 \<lparr>waiting = False, due = 0\<rparr> 0
      [Invoke 5 False, Invoke 50 False, Fire 105, Invoke 130 False] [5, 130]"
    using throttle_run.step [OF throttle_step.run [of "\<lparr>waiting = False, due = 0\<rparr>" 100 5]] 2 by simp
  from 1 throttle_spacing [OF 1] show ?thesis by blast
qed

definition scss_writes :: "sprite \<Rightarrow> string list" where
  "scss_writes s = map snd (filter (\<lambda>(f, _). f = scss_path) (files s))"

lemma job_dist_not_scss: "j \<in> set sprite_jobs \<Longrightarrow> job_dist j \<noteq> scss_path"
  by (auto simp: sprite_jobs_def job_def scss_path_def)

lemma callbacks_step:
  assumes "\<forall>(j, r) \<in> set rs. j \<in> set sprite_jobs \<and> r \<noteq> None" and "int (length rs) \<le> counter s"
  shows "\<exists>s'. sprite_callbacks rs s = (Inr (), s') \<and>
    coordinates s' = coordinates s @ concat (map (\<lambda>(j, r). coordinatesFormatter (places (the r)) (job_url j)) rs) \<and>
    scss_writes s' = scss_writes s @
      (if rs \<noteq> [] \<and> int (length rs) = counter s then [stylesheet (coordinates s')] else [])"
  using assms
proof (induction rs arbitrary: s)
  case Nil
  then show ?case by (simp add: sprite_callbacks_def ret_def)
next
  case (Cons p rs)
  obtain j r where p: "p = (j, Some r)" using Cons.prems(1) by (cases p) auto
  have j: "job_dist j \<noteq> scss_path" using Cons.prems(1) p job_dist_not_scss by auto
  define s1 where "s1 = writeCoordinates (s\<lparr>files := files s @ [(job_dist j, sheet_image r)],
       coordinates := coordinates s @ coordinatesFormatter (places r) (job_url j), counter := counter s - 1\<rparr>)"
  have c: "counter s1 = counter s - 1" "coordinates s1 = coordinates s @ coordinatesFormatter (places r) (job_url j)"
    by (simp_all add: s1_def writeCoordinates_def)
  have w: "scss_writes s1 = scss_writes s @ (if counter s = 1 then [stylesheet (coordinates s1)] else [])"
    using j by (simp add: s1_def writeCoordinates_def scss_writes_def)
  have "int (length rs) \<le> counter s1" using Cons.prems(2) c by simp
  with Cons.IH [of s1] Cons.prems(1) obtain s' where s': "sprite_callbacks rs s1 = (Inr (), s')"
    "coordinates s' = coordinates s1 @ concat (map (\<lambda>(j, r). coordinatesFormatter (places (the r)) (job_url j)) rs)"
    "scss_writes s' = scss_writes s1 @ (if rs \<noteq> [] \<and> int (length rs) = counter s1 then [stylesheet (coordinates s')] else [])"
    by auto
  have "sprite_callbacks (p # rs) s = (Inr (), s')"
    using s'(1) p by (simp add: sprite_callbacks_def seqio_def bindio_def handleResult_def s1_def)
  moreover have "counter s = 1 \<Longrightarrow> rs = []" using Cons.prems(2) by auto
  moreover have "rs = [] \<Longrightarrow> coordinates s' = coordinates s1" using s'(2) by simp
  ultimately show ?case using s' w c p Cons.prems(2) by auto
qed

text \<open>The barrier of the sprite generator: whatever the order in which the jobs call back without
  error, \<open>icons.scss\<close> is not written before the last of them, and is then written once, with the rules
  of all sheets in the order of the callbacks.\<close>
theorem sprite_barrier:
  assumes "\<forall>(j, r) \<in> set rs. j \<in> set sprite_jobs \<and> r \<noteq> None" and "length rs \<le> length sprite_jobs"
  shows "\<exists>s'. sprite_callbacks rs sprite_start = (Inr (), s') \<and>
    scss_writes s' = (if length rs < length sprite_jobs then []
      else [stylesheet (concat (map (\<lambda>(j, r). coordinatesFormatter (places (the r)) (job_url j)) rs))])"
proof -
  have n: "rs \<noteq> []" if "length rs = length sprite_jobs" using that by (auto simp: sprite_jobs_def)
  from callbacks_step [OF assms(1), of sprite_start] assms(2)
  obtain s' where "sprite_callbacks rs sprite_start = (Inr (), s')"
    "coordinates s' = concat (map (\<lambda>(j, r). coordinatesFormatter (places (the r)) (job_url j)) rs)"
    "scss_writes s' = (if rs \<noteq> [] \<and> length rs = length sprite_jobs then [stylesheet (coordinates s')] else [])"
    by (auto simp: sprite_start_def scss_writes_def)
  with n assms(2) show ?thesis by auto
qed

lemma sprite_barrier_witness:
  "\<exists>s'. sprite_callbacks (map (\<lambda>j. (j, Some \<lparr>sheet_image = ''png'', places = [(''../a/index_1.png'', 0, 0, 8, 8)]\<rparr>))
      (rev sprite_jobs)) sprite_start = (Inr (), s') \<and> length (scss_writes s') = 1"
  using sprite_barrier [of "map (\<lambda>j. (j, Some \<lparr>sheet_image = ''png'', places = [(''../a/index_1.png'', 0, 0, 8, 8)]\<rparr>))
      (rev sprite_jobs)"] by auto

end
