(* ===== verification/Script_Env.thy ===== *)
theory Script_Env
  imports Effects Js_Values
begin

text \<open>
  The interface of the Hardhat scripts (\<open>NovaLaunch/nova-contracts/scripts\<close>, \<open>my-hardhat-project\<close>,
  \<open>NFTMarketplace/EasySwapContract/scripts\<close>, \<open>contracts-interaction-ts\<close>) to what they do not contain:
  the Hardhat runtime environment with ethers, OpenZeppelin upgrades and Ignition, the file system
  and the clock. The laws (locale \<open>chain_rpc\<close>) speak of the transactions that were sent and of the
  files; a call may always throw and then changes neither. A JSON file is its parsed value, or
  \<open>Malformed\<close> when it cannot be parsed.
\<close>

datatype json = Malformed | Json val | Lines "val option list"

datatype op =
    Deploy string "val list" val
  | Proxy string "val list" val
  | Upgrade val string
  | Send val string "val list"
  | Module val

record net =
  trace :: "op list"
  files :: "string \<rightharpoonup> json"

record 'w hre =
  network_name :: string
  getNetworkChainId :: "('w, string) io"
  blockTimestamp :: "('w, int) io"
  dateNow :: "('w, int) io"
  isoDate :: "('w, string) io"
  getSigners :: "('w, val list) io"
  balanceOfAddress :: "val \<Rightarrow> ('w, int) io"
  parseEther :: "string \<Rightarrow> js_error + int"
  readFile :: "string \<Rightarrow> ('w, json) io"
  existsFile :: "string \<Rightarrow> ('w, bool) io"
  existsDir :: "string \<Rightarrow> ('w, bool) io"
  mkdir :: "string \<Rightarrow> ('w, unit) io"
  writeFile :: "string \<Rightarrow> json \<Rightarrow> ('w, unit) io"
  getContractFactory :: "string \<Rightarrow> ('w, unit) io"
  getContractAt :: "val \<Rightarrow> val \<Rightarrow> ('w, unit) io"
  readArtifact :: "string \<Rightarrow> ('w, val) io"
  deploy :: "string \<Rightarrow> val list \<Rightarrow> ('w, val) io"
  deployProxy :: "string \<Rightarrow> val list \<Rightarrow> ('w, val) io"
  upgradeProxy :: "val \<Rightarrow> string \<Rightarrow> ('w, val) io"
  deployed :: "val \<Rightarrow> ('w, unit) io"
  deploymentHash :: "val \<Rightarrow> ('w, val) io"
  proxyAdmin :: "('w, val) io"
  erc1967 :: "string \<Rightarrow> val \<Rightarrow> ('w, val) io"
  view_call :: "val \<Rightarrow> string \<Rightarrow> val list \<Rightarrow> ('w, val) io"
  send_tx :: "val \<Rightarrow> string \<Rightarrow> val list \<Rightarrow> ('w, nat) io"
  wait_tx :: "nat \<Rightarrow> ('w, unit) io"
  run_task :: "string \<Rightarrow> val \<Rightarrow> ('w, unit) io"
  loadModule :: "string \<Rightarrow> ('w, val) io"
  ignitionDeploy :: "val \<Rightarrow> ('w, unit) io"

definition traced :: "op \<Rightarrow> net \<Rightarrow> net" where
  "traced p s = s\<lparr>trace := trace s @ [p]\<rparr>"

lemma traced_simps [simp]:
  "trace (traced p s) = trace s @ [p]" "files (traced p s) = files s"
  by (simp_all add: traced_def)

text \<open>Ignition keeps its own records below one directory; a deployment, also one that fails, may change them.\<close>

definition ignition_dir :: string where
  "ignition_dir = ''ignition/deployments/''"

definition same_outside :: "net \<Rightarrow> net \<Rightarrow> bool" where
  "same_outside s s' \<longleftrightarrow> (\<forall>p. \<not> prefix ignition_dir p \<longrightarrow> files s' p = files s p)"

locale chain_rpc =
  fixes H :: "'w hre" and v :: "'w \<Rightarrow> net"
  assumes silents:
      "silent v (getNetworkChainId H)" "silent v (blockTimestamp H)" "silent v (dateNow H)"
      "silent v (isoDate H)" "silent v (getSigners H)" "silent v (balanceOfAddress H adr)"
      "silent v (existsDir H p)" "silent v (mkdir H p)" "silent v (getContractFactory H n)"
      "silent v (getContractAt H abi adr)" "silent v (readArtifact H n)" "silent v (deployed H adr)"
      "silent v (deploymentHash H adr)" "silent v (proxyAdmin H)" "silent v (erc1967 H n adr)"
      "silent v (view_call H adr n args)" "silent v (wait_tx H t)" "silent v (run_task H n adr)"
      "silent v (loadModule H n)"
    and readFile: "silent v (readFile H p)" "fst (readFile H p w) = Inr x \<Longrightarrow> files (v w) p = Some x"
    and existsFile: "reading v (existsFile H p) (\<lambda>s. files s p \<noteq> None)"
    and writeFile: "writing v (writeFile H p x) (\<lambda>s. s\<lparr>files := (files s)(p \<mapsto> x)\<rparr>)"
    and deploy: "effect v (deploy H n args) (\<lambda>adr. traced (Deploy n args adr))"
    and deployProxy: "effect v (deployProxy H n args) (\<lambda>adr. traced (Proxy n args adr))"
    and upgradeProxy: "writing v (upgradeProxy H adr n) (traced (Upgrade adr n))"
    and send_tx: "writing v (send_tx H adr m args) (traced (Send adr m args))"
    and ignitionDeploy: "moving v (ignitionDeploy H md) same_outside"

text \<open>A file system whose reads of existing files and whose writes succeed.\<close>

locale steady_rpc = chain_rpc +
  assumes read_total: "files (v w) p = Some x \<Longrightarrow> fst (readFile H p w) = Inr x"
    and exists_total: "total_io (existsFile H p)"
    and write_total: "total_io (writeFile H p x)"

section \<open>An in-memory chain\<close>

text \<open>Deployed contracts get the addresses 1, 2, .. as strings; a view call is answered by a table that
  may depend on the transactions so far; the fault plan says which of the next calls throw.\<close>

record sim =
  snet :: net
  sfaults :: "bool list"

definition sim_call :: "(sim \<Rightarrow> (js_error + 'a) \<times> sim) \<Rightarrow> (sim, 'a) io" where
  "sim_call f = (\<lambda>m. case sfaults m of
       [] \<Rightarrow> f m
     | b # bs \<Rightarrow> if b then (Inl (JsError ''reverted''), m\<lparr>sfaults := bs\<rparr>) else f (m\<lparr>sfaults := bs\<rparr>))"

definition sim_get :: "(net \<Rightarrow> 'a) \<Rightarrow> (sim, 'a) io" where
  "sim_get f = sim_call (\<lambda>m. (Inr (f (snet m)), m))"

definition sim_op :: "(net \<Rightarrow> 'a) \<Rightarrow> ('a \<Rightarrow> op) \<Rightarrow> (sim, 'a) io" where
  "sim_op f g = sim_call (\<lambda>m. (Inr (f (snet m)), m\<lparr>snet := traced (g (f (snet m))) (snet m)\<rparr>))"

definition fresh_address :: "net \<Rightarrow> val" where
  "fresh_address s = Str (''0x'' @ show_nat (Suc (length (trace s))))"

definition ether :: "string \<Rightarrow> js_error + int" where
  "ether s = (if s \<noteq> [] \<and> (\<forall>c \<in> set s. is_digit c) then Inr (int (read_digits s) * 10 ^ 18)
     else Inl (JsError ''invalid decimal value''))"

definition sim_hre :: "string \<Rightarrow> (val \<Rightarrow> string \<Rightarrow> val list \<Rightarrow> net \<Rightarrow> val) \<Rightarrow> sim hre" where
  "sim_hre nn answer = \<lparr>
     network_name = nn, getNetworkChainId = sim_get (\<lambda>_. ''31337''), blockTimestamp = sim_get (\<lambda>_. 1000),
     dateNow = sim_get (\<lambda>_. 1000000), isoDate = sim_get (\<lambda>_. ''1970-01-01T00:16:40.000Z''),
     getSigners = sim_get (\<lambda>_. [Str ''0xd'', Str ''0xe'']), balanceOfAddress = (\<lambda>_. sim_get (\<lambda>_. 0)),
     parseEther = ether,
     readFile = (\<lambda>p. sim_call (\<lambda>m. case files (snet m) p of
        None \<Rightarrow> (Inl (JsError ''ENOENT''), m) | Some x \<Rightarrow> (Inr x, m))),
     existsFile = (\<lambda>p. sim_get (\<lambda>s. files s p \<noteq> None)), existsDir = (\<lambda>_. sim_get (\<lambda>_. True)),
     mkdir = (\<lambda>_. sim_get (\<lambda>_. ())),
     writeFile = (\<lambda>p x. sim_call (\<lambda>m. (Inr (), m\<lparr>snet := (snet m)\<lparr>files := (files (snet m))(p \<mapsto> x)\<rparr>\<rparr>))),
     getContractFactory = (\<lambda>_. sim_get (\<lambda>_. ())), getContractAt = (\<lambda>_ _. sim_get (\<lambda>_. ())),
     readArtifact = (\<lambda>n. sim_get (\<lambda>_. Arr [])),
     deploy = (\<lambda>n args. sim_op fresh_address (Deploy n args)),
     deployProxy = (\<lambda>n args. sim_op fresh_address (Proxy n args)),
     upgradeProxy = (\<lambda>adr n. sim_op (\<lambda>_. adr) (\<lambda>_. Upgrade adr n)),
     deployed = (\<lambda>_. sim_get (\<lambda>_. ())), deploymentHash = (\<lambda>_. sim_get (\<lambda>_. Str ''0xh'')),
     proxyAdmin = sim_get (\<lambda>_. Str ''0xpa''), erc1967 = (\<lambda>_ _. sim_get (\<lambda>_. Str ''0xim'')),
     view_call = (\<lambda>adr m args. sim_get (answer adr m args)),
     send_tx = (\<lambda>adr m args. sim_op (\<lambda>s. length (trace s)) (\<lambda>_. Send adr m args)),
     wait_tx = (\<lambda>_. sim_get (\<lambda>_. ())), run_task = (\<lambda>_ _. sim_get (\<lambda>_. ())),
     loadModule = (\<lambda>p. sim_get (\<lambda>_. Obj [(''id'', Str p)])), ignitionDeploy = (\<lambda>md. sim_op (\<lambda>_. ()) (\<lambda>_. Module md))\<rparr>"

lemma silent_sim_get: "silent snet (sim_get f)"
  and reading_sim_get: "reading snet (sim_get f) f"
  and effect_sim_op: "effect snet (sim_op f g) (\<lambda>x. traced (g x))"
  and writing_sim_op: "writing snet (sim_op f (\<lambda>_. p)) (traced p)"
  and moving_sim_op: "moving snet (sim_op f g) same_outside"
  by (auto simp: silent_def reading_def effect_def writing_def moving_def same_outside_def sim_get_def sim_op_def
      sim_call_def split: list.split)

interpretation sim: chain_rpc "sim_hre nn answer" snet
proof
  show "silent snet (readFile (sim_hre nn answer) p)" for p
    by (auto simp: sim_hre_def silent_def sim_call_def split: list.split option.split)
  show "fst (readFile (sim_hre nn answer) p w) = Inr x \<Longrightarrow> files (snet w) p = Some x" for p w x
    by (auto simp: sim_hre_def sim_call_def split: list.splits option.splits if_splits)
  show "writing snet (writeFile (sim_hre nn answer) p x) (\<lambda>s. s\<lparr>files := (files s)(p \<mapsto> x)\<rparr>)" for p x
    by (auto simp: sim_hre_def writing_def sim_call_def split: list.split)
  show "reading snet (existsFile (sim_hre nn answer) p) (\<lambda>s. files s p \<noteq> None)" for p
    by (simp add: sim_hre_def reading_sim_get del: not_None_eq)
qed (simp_all add: sim_hre_def silent_sim_get effect_sim_op writing_sim_op moving_sim_op)

text \<open>The same chain without faults.\<close>

definition calm :: "(sim, 'a) io \<Rightarrow> (sim, 'a) io" where
  "calm m = (\<lambda>w. m (w\<lparr>sfaults := []\<rparr>))"

definition calm_hre :: "string \<Rightarrow> (val \<Rightarrow> string \<Rightarrow> val list \<Rightarrow> net \<Rightarrow> val) \<Rightarrow> sim hre" where
  "calm_hre nn answer = (sim_hre nn answer)\<lparr>
     getNetworkChainId := calm (getNetworkChainId (sim_hre nn answer)),
     loadModule := (\<lambda>p. calm (loadModule (sim_hre nn answer) p)),
     readFile := (\<lambda>p. calm (readFile (sim_hre nn answer) p)),
     existsFile := (\<lambda>p. calm (existsFile (sim_hre nn answer) p)),
     writeFile := (\<lambda>p x. calm (writeFile (sim_hre nn answer) p x))\<rparr>"

lemma silent_calm: "silent snet (calm (sim_get f))"
  by (simp add: calm_def silent_def sim_get_def sim_call_def)

lemma calm_returning:
  "returning (getNetworkChainId (calm_hre nn answer)) ''31337''"
  "returning (loadModule (calm_hre nn answer) p) (Obj [(''id'', Str p)])"
  by (simp_all add: calm_hre_def sim_hre_def calm_def returning_def sim_get_def sim_call_def)

interpretation calm: steady_rpc "calm_hre nn answer" snet
proof
  show "silent snet (readFile (calm_hre nn answer) p)" for p
    by (auto simp: calm_hre_def calm_def sim_hre_def silent_def sim_call_def split: option.split)
  show "fst (readFile (calm_hre nn answer) p w) = Inr x \<Longrightarrow> files (snet w) p = Some x" for p w x
    by (auto simp: calm_hre_def calm_def sim_hre_def sim_call_def split: option.splits)
  show "reading snet (existsFile (calm_hre nn answer) p) (\<lambda>s. files s p \<noteq> None)" for p
    by (auto simp: calm_hre_def calm_def sim_hre_def reading_def sim_get_def sim_call_def)
  show "writing snet (writeFile (calm_hre nn answer) p x) (\<lambda>s. s\<lparr>files := (files s)(p \<mapsto> x)\<rparr>)" for p x
    by (auto simp: calm_hre_def calm_def sim_hre_def writing_def sim_call_def)
  show "files (snet w) p = Some x \<Longrightarrow> fst (readFile (calm_hre nn answer) p w) = Inr x" for w p x
    by (auto simp: calm_hre_def calm_def sim_hre_def sim_call_def)
  show "total_io (existsFile (calm_hre nn answer) p)" "total_io (writeFile (calm_hre nn answer) p x)" for p x
    by (auto simp: calm_hre_def calm_def sim_hre_def total_io_def sim_get_def sim_call_def)
qed (simp_all add: calm_hre_def sim_hre_def silent_calm silent_sim_get effect_sim_op writing_sim_op moving_sim_op)

end
