(* ===== verification/Js_Numbers.thy ===== *)
theory Js_Numbers
  imports Js_Values Js_Literals "HOL-Library.Multiset"
begin

text \<open>
  JavaScript numbers and the order of the properties of an object, for the exchange client.

  A number is a \<open>rat option\<close>: \<open>None\<close> is \<open>NaN\<close>. Doubles are read as the exact decimals they print as; on
  decimals of at most 15 significant digits between \<open>1e-6\<close> and \<open>1e21\<close> that is what comparison, sorting and
  the conversion to a string and back compute. Infinities, hexadecimal literals and the sign of zero are
  left out. In \<open>val\<close>, \<open>Ref 0\<close> stands for \<open>NaN\<close>.
\<close>

section \<open>Numbers to strings\<close>

fun frac_digits :: "nat \<Rightarrow> rat \<Rightarrow> string" where
  "frac_digits 0 r = []"
| "frac_digits (Suc k) r = (if r = 0 then [] else digit_char (nat \<lfloor>10 * r\<rfloor>) # frac_digits k (frac (10 * r)))"

definition string_of_abs :: "rat \<Rightarrow> string" where
  "string_of_abs x = show_nat (nat \<lfloor>x\<rfloor>) @ (if frac x = 0 then [] else CHR ''.'' # frac_digits 20 (frac x))"

definition string_of_number :: "rat option \<Rightarrow> string" where
  "string_of_number n = (case n of None \<Rightarrow> ''NaN''
     | Some x \<Rightarrow> if x < 0 then CHR ''-'' # string_of_abs (- x) else string_of_abs x)"

text \<open>\<open>x.toFixed(d)\<close>: rounded half away from zero; the digits must be between 0 and 100.\<close>

definition fixed_digits :: "nat \<Rightarrow> nat \<Rightarrow> string" where
  "fixed_digits d n = (let s = show_nat n; t = replicate (Suc d - length s) (CHR ''0'') @ s in
     if d = 0 then t else take (length t - d) t @ CHR ''.'' # drop (length t - d) t)"

definition toFixed :: "rat option \<Rightarrow> int \<Rightarrow> js_error + string" where
  "toFixed n d = (if d < 0 \<or> d > 100 then Inl (JsError ''toFixed() digits argument must be between 0 and 100'')
     else Inr (case n of None \<Rightarrow> ''NaN''
       | Some x \<Rightarrow> (let m = fixed_digits (nat d) (nat \<lfloor>\<bar>x\<bar> * 10 ^ nat d + 1 / 2\<rfloor>) in
                  if x < 0 then CHR ''-'' # m else m)))"

section \<open>Values\<close>

definition NaN :: val where
  "NaN = Ref 0"

fun num_val :: "rat option \<Rightarrow> val" where
  "num_val None = NaN"
| "num_val (Some x) = Num x"

text \<open>\<open>String(x)\<close> (\<open>join\<close> is the conversion of an array), also the name under which a value indexes an object; \<open>Number(x)\<close>.\<close>

fun join :: "string list \<Rightarrow> string" where
  "join [] = []"
| "join [s] = s"
| "join (s # t # ss) = s @ '','' @ join (t # ss)"

fun js_string :: "val \<Rightarrow> string" where
  "js_string Undef = ''undefined''"
| "js_string Null = ''null''"
| "js_string (Bool b) = (if b then ''true'' else ''false'')"
| "js_string (Num x) = string_of_number (Some x)"
| "js_string (Str s) = s"
| "js_string (Arr xs) = join (map (\<lambda>x. if x = Undef \<or> x = Null then [] else js_string x) xs)"
| "js_string (Obj ob) = ''[object Object]''"
| "js_string (Ref n) = (if n = 0 then ''NaN'' else ''[object Object]'')"

fun to_number :: "val \<Rightarrow> rat option" where
  "to_number Undef = None"
| "to_number Null = Some 0"
| "to_number (Bool b) = Some (if b then 1 else 0)"
| "to_number (Num x) = Some x"
| "to_number (Str s) = number_of_string s"
| "to_number (Arr xs) = number_of_string (js_string (Arr xs))"
| "to_number (Obj ob) = None"
| "to_number (Ref n) = None"

text \<open>\<open>v[i]\<close> for a value that is read as an array, \<open>xs.forEach\<close> of a value that may not be one, \<open>v == n\<close>
  for a number, \<open>v == w\<close> for strings, numbers, booleans and missing values, \<open>x > y\<close>, \<open>x % y\<close>, \<open>v + n\<close>.\<close>

definition item :: "val \<Rightarrow> nat \<Rightarrow> val" where
  "item x i = (case x of Arr xs \<Rightarrow> if i < length xs then xs ! i else Undef | _ \<Rightarrow> Undef)"

definition elements :: "val \<Rightarrow> js_error + val list" where
  "elements v = (case v of Arr xs \<Rightarrow> Inr xs
     | Undef \<Rightarrow> Inl (TypeError ''Cannot read properties of undefined'')
     | Null \<Rightarrow> Inl (TypeError ''Cannot read properties of null'')
     | _ \<Rightarrow> Inl (TypeError ''forEach is not a function''))"

definition equals_num :: "val \<Rightarrow> rat option \<Rightarrow> bool" where
  "equals_num v n \<longleftrightarrow> v \<noteq> Null \<and> n \<noteq> None \<and> to_number v = n"

definition nullish :: "val \<Rightarrow> bool" where
  "nullish v \<longleftrightarrow> v = Undef \<or> v = Null"

fun loose_eq :: "val \<Rightarrow> val \<Rightarrow> bool" where
  "loose_eq (Str s) (Str t) = (s = t)"
| "loose_eq a b = (if nullish a \<or> nullish b then nullish a \<and> nullish b
     else to_number a \<noteq> None \<and> to_number a = to_number b)"

definition greater :: "rat option \<Rightarrow> rat option \<Rightarrow> bool" where
  "greater a b = (case (a, b) of (Some x, Some y) \<Rightarrow> y < x | _ \<Rightarrow> False)"

definition js_mod :: "rat option \<Rightarrow> rat option \<Rightarrow> rat option" where
  "js_mod a b = (case (a, b) of
     (Some x, Some y) \<Rightarrow> if y = 0 then None
       else Some (x - y * (if x / y < 0 then of_int \<lceil>x / y\<rceil> else of_int \<lfloor>x / y\<rfloor>)) | _ \<Rightarrow> None)"

definition lift2 :: "(rat \<Rightarrow> rat \<Rightarrow> rat) \<Rightarrow> rat option \<Rightarrow> rat option \<Rightarrow> rat option" where
  "lift2 f a b = (case (a, b) of (Some x, Some y) \<Rightarrow> Some (f x y) | _ \<Rightarrow> None)"

definition js_plus :: "val \<Rightarrow> rat option \<Rightarrow> val" where
  "js_plus v n = (case v of Str s \<Rightarrow> Str (s @ string_of_number n)
     | Arr xs \<Rightarrow> Str (js_string v @ string_of_number n) | Obj ob \<Rightarrow> Str (js_string v @ string_of_number n)
     | _ \<Rightarrow> num_val (lift2 (+) (to_number v) n))"

text \<open>\<open>s.replace('pat', '')\<close>: the first occurrence is dropped.\<close>

fun remove_first :: "string \<Rightarrow> string \<Rightarrow> string" where
  "remove_first pat [] = []"
| "remove_first pat (c # s) = (if prefix pat (c # s) then drop (length pat) (c # s) else c # remove_first pat s)"

section \<open>The properties of an object\<close>

text \<open>\<open>Object.keys(ob)\<close>: the array indices in ascending order, then the other names in the order of their
  insertion; assigning an existing property (\<open>AList.update\<close>) keeps its place.\<close>

definition array_index :: "string \<Rightarrow> bool" where
  "array_index k \<longleftrightarrow> k = show_nat (read_digits k) \<and> read_digits k < 4294967295"

definition own_keys :: "(string \<times> 'a) list \<Rightarrow> string list" where
  "own_keys ob = sort_key read_digits (filter array_index (map fst ob))
     @ filter (\<lambda>k. \<not> array_index k) (map fst ob)"

definition own_values :: "(string \<times> 'a) list \<Rightarrow> 'a list" where
  "own_values ob = map (\<lambda>k. the (map_of ob k)) (own_keys ob)"

text \<open>\<open>xs.sort(cmp)\<close>: a stable sort. Where \<open>cmp\<close> is not an order the language leaves the result open.\<close>

fun insert_by :: "('a \<Rightarrow> 'a \<Rightarrow> rat) \<Rightarrow> 'a \<Rightarrow> 'a list \<Rightarrow> 'a list" where
  "insert_by cmp x [] = [x]"
| "insert_by cmp x (y # ys) = (if cmp x y \<le> 0 then x # y # ys else y # insert_by cmp x ys)"

definition js_sort :: "('a \<Rightarrow> 'a \<Rightarrow> rat) \<Rightarrow> 'a list \<Rightarrow> 'a list" where
  "js_sort cmp xs = foldr (insert_by cmp) xs []"

text \<open>\<open>(a, b) => a - b\<close>; a comparator that returns \<open>NaN\<close> counts as 0.\<close>

definition minus_cmp :: "rat option \<Rightarrow> rat option \<Rightarrow> rat" where
  "minus_cmp a b = (case (a, b) of (Some x, Some y) \<Rightarrow> x - y | _ \<Rightarrow> 0)"

section \<open>Lemmas\<close>

lemma read_digits_append: "read_digits (a @ b) = read_digits a * 10 ^ length b + read_digits b"
proof (induction b rule: rev_induct)
  case (snoc c b)
  then show ?case by (simp add: read_digits_def algebra_simps)
qed (simp add: read_digits_def)

lemma read_digits_Cons: "read_digits (c # cs) = digit_val c * 10 ^ length cs + read_digits cs"
  using read_digits_append [of "[c]" cs] by (simp add: read_digits_def)

text \<open>A decimal has at most twenty digits after the point: \<open>string_of_number\<close> prints it whole.\<close>

definition decimal :: "nat \<Rightarrow> rat \<Rightarrow> bool" where
  "decimal k x \<longleftrightarrow> (10::int) ^ k mod snd (quotient_of x) = 0"

lemma decimal_Ints: "decimal k x \<longleftrightarrow> x * 10 ^ k \<in> \<int>"
proof -
  obtain p q where pq: "quotient_of x = (p, q)" by fastforce
  have x: "x * of_int q = of_int p" "0 < q" "coprime p q"
    using quotient_of_div [OF pq] quotient_of_denom_pos [OF pq] quotient_of_coprime [OF pq] by auto
  have e: "x * 10 ^ k * of_int q = of_int (10 ^ k * p)"
    using x(1) by simp
  have "x * 10 ^ k \<in> \<int> \<longleftrightarrow> q dvd 10 ^ k * p"
  proof
    assume "x * 10 ^ k \<in> \<int>"
    then obtain i where "x * 10 ^ k = of_int i" by (auto elim: Ints_cases)
    with e have "(of_int (i * q) :: rat) = of_int (10 ^ k * p)" by simp
    then have "i * q = 10 ^ k * p" by (simp only: of_int_eq_iff)
    then show "q dvd 10 ^ k * p" by (metis dvd_triv_right)
  next
    assume "q dvd 10 ^ k * p"
    then obtain i where "10 ^ k * p = i * q" by (metis dvdE mult.commute)
    with e have "x * 10 ^ k * of_int q = of_int i * of_int q" by simp
    with x(2) have "x * 10 ^ k = of_int i" by simp
    then show "x * 10 ^ k \<in> \<int>" by simp
  qed
  also have "\<dots> \<longleftrightarrow> q dvd 10 ^ k" using x(3) by (simp add: coprime_commute coprime_dvd_mult_left_iff)
  finally show ?thesis by (simp add: decimal_def pq dvd_eq_mod_eq_0)
qed

lemma frac_digits_digits: "0 \<le> r \<Longrightarrow> r < 1 \<Longrightarrow> list_all is_digit (frac_digits k r)"
proof (induction k arbitrary: r)
  case (Suc k)
  have "nat \<lfloor>10 * r\<rfloor> < 10" using Suc.prems by (simp add: nat_less_iff floor_less_iff)
  moreover have "list_all is_digit (frac_digits k (frac (10 * r)))"
    by (rule Suc.IH) (simp_all add: frac_lt_1)
  ultimately show ?case by (simp add: is_digit_digit_char)
qed simp

lemma frac_digits_value:
  "0 \<le> r \<Longrightarrow> r < 1 \<Longrightarrow> decimal k r \<Longrightarrow> of_nat (read_digits (frac_digits k r)) / 10 ^ length (frac_digits k r) = r"
proof (induction k arbitrary: r)
  case 0
  then have "r \<in> \<int>" by (simp add: decimal_Ints)
  then obtain i where i: "r = of_int i" by (auto elim: Ints_cases)
  with 0 have "i = 0" by simp
  with i show ?case by (simp add: read_digits_def)
next
  case (Suc k)
  show ?case
  proof (cases "r = 0")
    case False
    let ?d = "nat \<lfloor>10 * r\<rfloor>" and ?f = "frac (10 * r)"
    let ?ds = "frac_digits k ?f"
    have d: "?d < 10" using Suc.prems by (simp add: nat_less_iff floor_less_iff)
    have d': "(of_nat ?d :: rat) = of_int \<lfloor>10 * r\<rfloor>" using Suc.prems by simp
    have "10 * r * 10 ^ k \<in> \<int>" using Suc.prems by (simp add: decimal_Ints mult_ac)
    then have "10 * r * 10 ^ k - of_int \<lfloor>10 * r\<rfloor> * 10 ^ k \<in> \<int>" by (intro Ints_diff) auto
    then have "decimal k ?f" by (simp add: decimal_Ints frac_def left_diff_distrib)
    then have v: "of_nat (read_digits ?ds) / 10 ^ length ?ds = ?f"
      by (intro Suc.IH) (simp_all add: frac_lt_1)
    have "of_nat (read_digits (frac_digits (Suc k) r)) / 10 ^ length (frac_digits (Suc k) r)
      = ((of_nat ?d :: rat) + of_nat (read_digits ?ds) / 10 ^ length ?ds) / 10"
      using False d by (simp add: read_digits_Cons digit_val_digit_char add_divide_distrib)
    also have "\<dots> = r" by (simp only: v d') (simp add: frac_def)
    finally show ?thesis .
  qed (simp add: read_digits_def)
qed

lemma digit_char_plain:
  assumes "is_digit c"
  shows "c \<noteq> CHR ''e''" "c \<noteq> CHR ''E''" "c \<noteq> CHR ''.''" "c \<noteq> CHR ''-''" "c \<noteq> CHR ''+''" "\<not> is_blank c"
  using assms by (auto simp: is_digit_def is_blank_def)

lemma takeWhile_id: "list_all P xs \<Longrightarrow> takeWhile P xs = xs"
  by (simp add: takeWhile_eq_all_conv list_all_iff)

lemma toNumber_int: "list_all is_digit a \<Longrightarrow> a \<noteq> [] \<Longrightarrow> toNumber a = Some (of_nat (read_digits a))"
  using digit_char_plain(3)
  by (simp add: toNumber_def before_char_def takeWhile_id list_all_iff read_digits_def)

lemma toNumber_point:
  assumes a: "list_all is_digit a" "a \<noteq> []" and b: "list_all is_digit b"
  shows "toNumber (a @ CHR ''.'' # b) = Some (of_nat (read_digits a) + of_nat (read_digits b) / 10 ^ length b)"
proof -
  have "before_char (CHR ''.'') (a @ CHR ''.'' # b) = a"
    by (rule before_char_append) (use a digit_char_plain(3) in \<open>auto simp: list_all_iff\<close>)
  with a b show ?thesis by (auto simp: toNumber_def list_all_iff)
qed

lemma toNumber_abs:
  assumes "0 \<le> x" "decimal 20 x"
  shows "toNumber (string_of_abs x) = Some x"
proof -
  have a: "list_all is_digit (show_nat n)" "show_nat n \<noteq> []" for n
    using show_nat_digits show_nat_nonempty by (simp_all add: list_all_iff)
  have i: "(of_nat (nat \<lfloor>x\<rfloor>) :: rat) = of_int \<lfloor>x\<rfloor>" using assms by simp
  show ?thesis
  proof (cases "frac x = 0")
    case True
    with i have "of_nat (nat \<lfloor>x\<rfloor>) = x" by (simp add: frac_def)
    with True a show ?thesis by (simp add: string_of_abs_def toNumber_int read_show_nat)
  next
    case False
    have "x * 10 ^ 20 - of_int \<lfloor>x\<rfloor> * 10 ^ 20 \<in> \<int>" using assms(2) unfolding decimal_Ints by (intro Ints_diff) auto
    then have "decimal 20 (frac x)" by (simp add: decimal_Ints frac_def left_diff_distrib)
    then have "of_nat (read_digits (frac_digits 20 (frac x))) / 10 ^ length (frac_digits 20 (frac x)) = frac x"
      by (intro frac_digits_value) (simp_all add: frac_lt_1)
    moreover have "list_all is_digit (frac_digits 20 (frac x))" by (rule frac_digits_digits) (simp_all add: frac_lt_1)
    ultimately show ?thesis
      using False a i by (simp add: string_of_abs_def toNumber_point read_show_nat frac_def)
  qed
qed

definition plain_char :: "char \<Rightarrow> bool" where
  "plain_char c \<longleftrightarrow> is_digit c \<or> c = CHR ''.''"

lemma plain_charD:
  assumes "plain_char c"
  shows "c \<noteq> CHR ''e''" "c \<noteq> CHR ''E''" "c \<noteq> CHR ''-''" "c \<noteq> CHR ''+''" "\<not> is_blank c"
  using assms by (auto simp: plain_char_def is_digit_def is_blank_def)

lemma string_of_abs_plain: "list_all plain_char (string_of_abs x)"
proof -
  have "list_all is_digit (frac_digits 20 (frac x))" by (rule frac_digits_digits) (simp_all add: frac_lt_1)
  then show ?thesis using show_nat_digits by (auto simp: string_of_abs_def list_all_iff plain_char_def)
qed

lemma string_of_abs_nonempty: "string_of_abs x \<noteq> []"
  by (simp add: string_of_abs_def show_nat_nonempty)

lemma dropWhile_plain: "list_all (\<lambda>c. \<not> is_blank c) s \<Longrightarrow> dropWhile is_blank s = s"
  by (cases s) simp_all

lemma trim_plain: "list_all (\<lambda>c. \<not> is_blank c) s \<Longrightarrow> trim s = s"
  by (simp add: trim_def dropWhile_plain list_all_iff)

lemma unsigned_plain: "list_all plain_char s \<Longrightarrow> unsigned s = toNumber s"
proof -
  assume "list_all plain_char s"
  then have "takeWhile (\<lambda>c. c \<noteq> CHR ''e'' \<and> c \<noteq> CHR ''E'') s = s"
    by (intro takeWhile_id) (auto simp: list_all_iff dest: plain_charD)
  then show ?thesis by (simp add: unsigned_def)
qed

text \<open>A number is read back from the string it prints as, so it is determined by it.\<close>

lemma number_of_string_of_number:
  assumes "decimal 20 x"
  shows "number_of_string (string_of_number (Some x)) = Some x"
proof (cases "x < 0")
  case True
  let ?s = "string_of_abs (- x)"
  have p: "list_all plain_char ?s" by (rule string_of_abs_plain)
  then have "list_all (\<lambda>c. \<not> is_blank c) (CHR ''-'' # ?s)"
    using plain_charD(5) by (auto simp: list_all_iff is_blank_def)
  then have "trim (CHR ''-'' # ?s) = CHR ''-'' # ?s" by (rule trim_plain)
  moreover have "toNumber ?s = Some (- x)"
    using True assms by (intro toNumber_abs) (simp_all add: decimal_Ints)
  ultimately show ?thesis
    using True p by (simp add: number_of_string_def string_of_number_def unsigned_plain)
next
  case False
  let ?s = "string_of_abs x"
  have p: "list_all plain_char ?s" by (rule string_of_abs_plain)
  then have t: "trim ?s = ?s" using plain_charD(5) by (intro trim_plain) (auto simp: list_all_iff)
  obtain c cs where c: "?s = c # cs" using string_of_abs_nonempty by (cases ?s) auto
  with p have "c \<noteq> CHR ''-''" "c \<noteq> CHR ''+''" using plain_charD by auto
  moreover have "unsigned ?s = Some x"
    using False assms p by (simp add: unsigned_plain toNumber_abs)
  ultimately show ?thesis
    using False t c by (simp add: number_of_string_def string_of_number_def)
qed

lemma to_number_js_string: "decimal 20 x \<Longrightarrow> number_of_string (js_string (Num x)) = Some x"
  by (simp add: number_of_string_of_number)

lemma mset_own_keys: "mset (own_keys ob) = mset (map fst ob)"
  by (simp add: own_keys_def)

lemma set_own_keys [simp]: "set (own_keys ob) = fst ` set ob"
  using arg_cong [OF mset_own_keys, of set_mset ob] by simp

lemma distinct_own_keys: "distinct (own_keys ob) \<longleftrightarrow> distinct (map fst ob)"
  using mset_own_keys mset_eq_imp_distinct_iff by blast

lemma set_update_subset: "set (AList.update k v ob) \<subseteq> insert (k, v) (set ob)"
  by (induction ob) auto

lemma set_own_values: "set (own_values ob) = ran (map_of ob)"
  by (force simp: own_values_def ran_def dom_map_of_conv_image_fst [symmetric] domI image_iff)

text \<open>Where the comparator is the difference of numeric keys, \<open>js_sort\<close> is the sorting of the library.\<close>

lemma insert_by_key:
  "\<forall>y \<in> set (x # ys). \<forall>z \<in> set (x # ys). cmp y z = f y - f z \<Longrightarrow> insert_by cmp x ys = insort_key f x ys"
  by (induction ys) auto

lemma js_sort_key:
  assumes "\<forall>y \<in> set xs. \<forall>z \<in> set xs. cmp y z = f y - f z"
  shows "js_sort cmp xs = sort_key f xs"
  using assms
proof (induction xs)
  case (Cons x xs)
  then have "js_sort cmp xs = sort_key f xs" by simp
  moreover have "insert_by cmp x (sort_key f xs) = insort_key f x (sort_key f xs)"
    by (rule insert_by_key) (use Cons.prems in simp)
  ultimately show ?case by (simp add: js_sort_def)
qed (simp add: js_sort_def)

lemma mset_js_sort: "mset (js_sort cmp xs) = mset xs"
proof -
  have i: "mset (insert_by cmp x ys) = add_mset x (mset ys)" for x ys by (induction ys) auto
  show ?thesis by (induction xs) (simp_all add: js_sort_def i)
qed

lemma set_js_sort [simp]: "set (js_sort cmp xs) = set xs"
  using arg_cong [OF mset_js_sort, of set_mset] by simp

end
