(* ===== verification/Nova_Scripts.thy ===== *)
theory Nova_Scripts
  imports Script_Env Js_Numbers
begin

text \<open>
  The deployment scripts of the launchpad, \<open>NovaLaunch/nova-contracts/scripts\<close>: the address book
  \<open>utils.js\<close>, the scripts that deploy tokens, singletons, farm, airdrop and sales, the checksum of a
  deployed sale, and the setters. The JSON configuration files are parameters.
\<close>

section \<open>utils.js\<close>

definition addresses_path :: string where
  "addresses_path = ''../deployments/contract-addresses.json''"

definition abis_path :: string where
  "abis_path = ''../deployments/contract-abis.json''"

definition proxy_abis_path :: string where
  "proxy_abis_path = ''../deployments/proxy-abis.json''"

text \<open>\<open>try { json = readFileSync(..) } catch { json = '{}' }; return JSON.parse(json)\<close>\<close>

definition read_saved :: "'w hre \<Rightarrow> string \<Rightarrow> ('w, val) io" where
  "read_saved H path =
     bindio (catchio (readFile H path) (\<lambda>_. ret (Json (Obj [])))) (\<lambda>j.
     case j of Json x \<Rightarrow> ret x | _ \<Rightarrow> throw (JsError ''Unexpected token in JSON''))"

definition getSavedContractAddresses :: "'w hre \<Rightarrow> ('w, val) io" where
  "getSavedContractAddresses H = read_saved H addresses_path"

definition getSavedContractABI :: "'w hre \<Rightarrow> ('w, val) io" where
  "getSavedContractABI H = read_saved H abis_path"

definition getSavedProxyABI :: "'w hre \<Rightarrow> ('w, val) io" where
  "getSavedProxyABI H = read_saved H proxy_abis_path"

text \<open>Assignment to a property; on a primitive it is ignored.\<close>

fun set_member :: "val \<Rightarrow> string \<Rightarrow> val \<Rightarrow> js_error + val" where
  "set_member Undef k x = Inl (TypeError ''Cannot set properties of undefined'')"
| "set_member Null k x = Inl (TypeError ''Cannot set properties of null'')"
| "set_member (Obj ob) k x = Inr (Obj (put k x ob))"
| "set_member y k x = Inr y"

text \<open>\<open>all[network] = all[network] || {}; all[network][contract] = x\<close>\<close>

definition save_entry :: "val \<Rightarrow> string \<Rightarrow> string \<Rightarrow> val \<Rightarrow> js_error + val" where
  "save_entry all network contract x =
     (case member all network of Inl e \<Rightarrow> Inl e | Inr n \<Rightarrow>
        (case set_member (if truthy_val n then n else Obj []) contract x of Inl e \<Rightarrow> Inl e | Inr n' \<Rightarrow>
           set_member all network n'))"

definition saveContractAbi :: "'w hre \<Rightarrow> string \<Rightarrow> string \<Rightarrow> val \<Rightarrow> ('w, unit) io" where
  "saveContractAbi H network contract abi =
     bindio (getSavedContractABI H) (\<lambda>abis.
     bindio (lift (save_entry abis network contract abi)) (\<lambda>abis'.
     writeFile H abis_path (Json abis')))"

definition saveContractAddress :: "'w hre \<Rightarrow> string \<Rightarrow> string \<Rightarrow> val \<Rightarrow> ('w, unit) io" where
  "saveContractAddress H network contract adr =
     bindio (getSavedContractAddresses H) (\<lambda>addrs.
     bindio (lift (save_entry addrs network contract adr)) (\<lambda>addrs'.
     writeFile H addresses_path (Json addrs')))"

text \<open>\<open>main().then(() => process.exit(0)).catch(() => process.exit(1))\<close>, the end of every script.\<close>

definition run_main :: "('w, unit) io \<Rightarrow> ('w, nat) io" where
  "run_main m = catchio (seqio m (ret 0)) (\<lambda>_. ret 1)"

text \<open>\<open>getSavedContractAddresses()[network][name]\<close>\<close>

definition saved_contract :: "'w hre \<Rightarrow> string \<Rightarrow> ('w, val) io" where
  "saved_contract H n =
     bindio (getSavedContractAddresses H) (\<lambda>addrs.
     bindio (lift (member addrs (network_name H))) (\<lambda>contracts.
     lift (member contracts n)))"

text \<open>\<open>const tx = await c.m(..); await tx.wait()\<close>\<close>

definition send_and_wait :: "'w hre \<Rightarrow> val \<Rightarrow> string \<Rightarrow> val list \<Rightarrow> ('w, unit) io" where
  "send_and_wait H adr m args = bindio (send_tx H adr m args) (\<lambda>tx. wait_tx H tx)"

definition send_only :: "'w hre \<Rightarrow> val \<Rightarrow> string \<Rightarrow> val list \<Rightarrow> ('w, unit) io" where
  "send_only H adr m args = bindio (send_tx H adr m args) (\<lambda>_. ret ())"

text \<open>\<open>const F = await getContractFactory(n); const c = await F.deploy(..); await c.deployed()\<close>\<close>

definition deploy_contract :: "'w hre \<Rightarrow> string \<Rightarrow> val list \<Rightarrow> ('w, val) io" where
  "deploy_contract H n args =
     seqio (getContractFactory H n)
     (bindio (deploy H n args) (\<lambda>adr. seqio (deployed H adr) (ret adr)))"

definition num :: "int \<Rightarrow> val" where
  "num n = Num (of_int n)"

section \<open>Tokens\<close>

definition deploy_token :: "'w hre \<Rightarrow> string \<Rightarrow> string \<Rightarrow> string \<Rightarrow> ('w, unit) io" where
  "deploy_token H tokenName symb saved =
     bindio (deploy_contract H ''C2NToken''
       [Str tokenName, Str symb, Str ''1000000000000000000000000000'', num 18]) (\<lambda>token.
     saveContractAddress H (network_name H) saved token)"

definition deploy_mock_token :: "'w hre \<Rightarrow> ('w, unit) io" where
  "deploy_mock_token H = deploy_token H ''MOCK-TOKEN'' ''MCK'' ''MOCK-TOKEN''"

definition deploy_c2n_token :: "'w hre \<Rightarrow> ('w, unit) io" where
  "deploy_c2n_token H = deploy_token H ''C2N'' ''C2N'' ''C2N-TOKEN''"

definition deploy_boba_token :: "'w hre \<Rightarrow> ('w, unit) io" where
  "deploy_boba_token H = deploy_token H ''Boba Mock'' ''BOBA'' ''BOBA-TOKEN''"

section \<open>deploy_singletons.js\<close>

record singletons_config =
  admins :: "string list"
  delayBeforeStart :: int
  allocationStakingRPS :: string
  initialRewardsAllocationStaking :: string

definition floor_string :: "string \<Rightarrow> string" where
  "floor_string s = (case toNumber s of None \<Rightarrow> ''NaN'' | Some x \<Rightarrow> show_int \<lfloor>x\<rfloor>)"

definition ZERO_ADDRESS :: string where
  "ZERO_ADDRESS = ''0x0000000000000000000000000000000000000000''"

definition deploy_singletons :: "'w hre \<Rightarrow> (string \<Rightarrow> singletons_config option) \<Rightarrow> ('w, unit) io" where
  "deploy_singletons H config =
     (let net = network_name H; cfg = config net in
     bindio (getSavedContractAddresses H) (\<lambda>addrs.
     bindio (lift (member addrs net)) (\<lambda>contracts.
     seqio (getContractFactory H ''Admin'')
     (case cfg of None \<Rightarrow> throw (TypeError ''Cannot read properties of undefined'') | Some c \<Rightarrow>
     bindio (deploy H ''Admin'' [Arr (map Str (admins c))]) (\<lambda>admin.
     seqio (deployed H admin)
     (seqio (saveContractAddress H net ''Admin'' admin)
     (bindio (deploy_contract H ''SalesFactory'' [admin, Str ZERO_ADDRESS]) (\<lambda>salesFactory.
     seqio (saveContractAddress H net ''SalesFactory'' salesFactory)
     (bindio (blockTimestamp H) (\<lambda>currentTimestamp.
     seqio (getContractFactory H ''AllocationStaking'')
     (bindio (lift (member contracts ''C2N-TOKEN'')) (\<lambda>c2n.
     bindio (lift (parseEther H (allocationStakingRPS c))) (\<lambda>rps.
     bindio (deployProxy H ''AllocationStaking''
       [c2n, num rps, num (currentTimestamp + delayBeforeStart c), salesFactory]) (\<lambda>staking.
     seqio (deployed H staking)
     (seqio (saveContractAddress H net ''AllocationStakingProxy'' staking)
     (bindio (proxyAdmin H) (\<lambda>proxyAdminContract.
     seqio (saveContractAddress H net ''ProxyAdmin'' proxyAdminContract)
     (seqio (send_only H salesFactory ''setAllocationStaking'' [staking])
     (bindio (lift (parseEther H (initialRewardsAllocationStaking c))) (\<lambda>totalRewards.
     bindio (lift (member contracts ''C2N-TOKEN'')) (\<lambda>token.
     seqio (getContractAt H (Str ''C2NToken'') token)
     (seqio (send_and_wait H token ''approve'' [staking, num totalRewards])
     (seqio (send_and_wait H staking ''add'' [num 100, token, Bool True])
     (bindio (lift (parseEther H (floor_string (initialRewardsAllocationStaking c)))) (\<lambda>fund.
     send_only H staking ''fund'' [num fund])))))))))))))))))))))))))"

section \<open>deploy_sales.js and depositToken.js\<close>

record sale_config =
  tokenAddress :: string
  saleOwner :: string
  totalTokens :: string
  tokenPriceInEth :: string
  maxParticipation :: string
  registrationStartAt :: int
  registrationLength :: int
  delayBetweenRegistrationAndSale :: int
  saleRoundLength :: int
  TGE :: int
  portionVestingPrecision :: int
  maxVestingTimeShift :: int
  unlockingTimes :: "int list"
  portionPercents :: "int list"

definition registrationEnd :: "sale_config \<Rightarrow> int" where
  "registrationEnd c = registrationStartAt c + registrationLength c"

definition saleStartTime :: "sale_config \<Rightarrow> int" where
  "saleStartTime c = registrationEnd c + delayBetweenRegistrationAndSale c"

definition saleEndTime :: "sale_config \<Rightarrow> int" where
  "saleEndTime c = saleStartTime c + saleRoundLength c"

definition sale_params :: "sale_config \<Rightarrow> int \<Rightarrow> int \<Rightarrow> int \<Rightarrow> val list" where
  "sale_params c price tot maxp =
     [Str (tokenAddress c), Str (saleOwner c), Str (show_int price), Str (show_int tot),
      num (saleEndTime c), num (TGE c), num (portionVestingPrecision c), Str (show_int maxp)]"

definition deploy_sales :: "'w hre \<Rightarrow> (string \<Rightarrow> sale_config option) \<Rightarrow> ('w, unit) io" where
  "deploy_sales H config =
     bindio (saved_contract H ''SalesFactory'') (\<lambda>salesFactory.
     seqio (getContractAt H (Str ''SalesFactory'') salesFactory)
     (seqio (send_and_wait H salesFactory ''deploySale'' [])
     (bindio (view_call H salesFactory ''getLastDeployedSale'' []) (\<lambda>sale.
     seqio (getContractAt H (Str ''C2NSale'') sale)
     (case config (network_name H) of
        None \<Rightarrow> throw (TypeError ''Cannot read properties of undefined'')
      | Some c \<Rightarrow>
          bindio (lift (parseEther H (totalTokens c))) (\<lambda>tot.
          bindio (lift (parseEther H (tokenPriceInEth c))) (\<lambda>price.
          bindio (lift (parseEther H (maxParticipation c))) (\<lambda>maxp.
          seqio (send_and_wait H sale ''setSaleParams'' (sale_params c price tot maxp))
          (seqio (send_and_wait H sale ''setRegistrationTime''
             [num (registrationStartAt c), num (registrationEnd c)])
          (seqio (send_and_wait H sale ''setSaleStart'' [num (saleStartTime c)])
          (send_and_wait H sale ''setVestingParams''
             [Arr (map num (unlockingTimes c)), Arr (map num (portionPercents c)),
              num (maxVestingTimeShift c)])))))))))))"

definition depositToken :: "'w hre \<Rightarrow> (string \<Rightarrow> sale_config option) \<Rightarrow> ('w, unit) io" where
  "depositToken H config =
     bindio (getSavedContractAddresses H) (\<lambda>addrs.
     bindio (lift (member addrs (network_name H))) (\<lambda>contracts.
     bindio (lift (member contracts ''MOCK-TOKEN'')) (\<lambda>token.
     seqio (getContractAt H (Str ''C2NToken'') token)
     (bindio (lift (member contracts ''SalesFactory'')) (\<lambda>salesFactory.
     seqio (getContractAt H (Str ''SalesFactory'') salesFactory)
     (bindio (view_call H salesFactory ''getLastDeployedSale'' []) (\<lambda>sale.
     case config (network_name H) of
       None \<Rightarrow> throw (TypeError ''Cannot read properties of undefined'')
     | Some c \<Rightarrow>
         bindio (lift (parseEther H (totalTokens c))) (\<lambda>tot.
         seqio (send_and_wait H token ''approve'' [sale, num tot])
         (seqio (getContractAt H (Str ''C2NSale'') sale)
         (send_only H sale ''depositTokens'' []))))))))))"

section \<open>saleChecksum.js\<close>

text \<open>\<open>parseInt\<close> of a contract value or a large product: the nearest double, \<open>dbl\<close>; \<open>None\<close> is \<open>NaN\<close>,
  which equals nothing. \<open>price_units s\<close> is \<open>parseInt(parseFloat(s) * 1e18)\<close>.\<close>

fun int_of :: "(rat \<Rightarrow> rat) \<Rightarrow> val \<Rightarrow> rat option" where
  "int_of dbl (Num x) = Some (dbl x)"
| "int_of dbl _ = None"

definition same_num :: "rat option \<Rightarrow> rat option \<Rightarrow> bool" where
  "same_num a b = (a \<noteq> None \<and> a = b)"

definition sale_verdicts ::
  "(rat \<Rightarrow> rat) \<Rightarrow> (string \<Rightarrow> rat option) \<Rightarrow> string \<Rightarrow> int \<Rightarrow> sale_config \<Rightarrow> val \<Rightarrow> val \<Rightarrow> (string \<times> bool) list" where
  "sale_verdicts dbl price_units owner_checksum tot c sale registration = [
     (''Token'', item sale 0 = Str (tokenAddress c)),
     (''SaleOwner'', item sale 5 = Str owner_checksum),
     (''TotalTokenAmount'', same_num (int_of dbl (item sale 7)) (Some (dbl (of_int (tot * 10 ^ 18))))),
     (''TokenPriceInEth'', same_num (int_of dbl (item sale 6)) (price_units (tokenPriceInEth c))),
     (''Sale end'', same_num (int_of dbl (item sale 11))
        (Some (of_int (registrationStartAt c + registrationLength c + delayBetweenRegistrationAndSale c +
           saleRoundLength c)))),
     (''TokensUnlockTime'', same_num (int_of dbl (item sale 12))
        (case unlockingTimes c of [] \<Rightarrow> None | t # _ \<Rightarrow> Some (of_int t))),
     (''Registration Start'', same_num (int_of dbl (item registration 0)) (Some (of_int (registrationStartAt c)))),
     (''Registration End'', same_num (int_of dbl (item registration 1))
        (Some (of_int (registrationStartAt c + registrationLength c)))),
     (''Sale Round Start'', same_num (int_of dbl (item sale 10))
        (Some (of_int (registrationStartAt c + registrationLength c + delayBetweenRegistrationAndSale c))))]"

definition checked_sale :: string where
  "checked_sale = ''0x9dce088ae9bE0Df1F3256d6eCEC3Ca038249DDf1''"

text \<open>\<open>getAddress\<close> and \<open>bigNumber\<close> are \<open>ethers.utils.getAddress\<close> and \<open>BigNumber.from\<close>.\<close>

definition saleChecksum ::
  "'w hre \<Rightarrow> (rat \<Rightarrow> rat) \<Rightarrow> (string \<Rightarrow> rat option) \<Rightarrow> (string \<Rightarrow> js_error + string) \<Rightarrow> (string \<Rightarrow> js_error + int) \<Rightarrow>
   (string \<Rightarrow> sale_config option) \<Rightarrow> ('w, (string \<times> bool) list) io" where
  "saleChecksum H dbl price_units getAddress bigNumber config =
     seqio (getContractAt H (Str ''C2NSale'') (Str checked_sale))
     (bindio (view_call H (Str checked_sale) ''sale'' []) (\<lambda>sale.
     bindio (view_call H (Str checked_sale) ''registration'' []) (\<lambda>registration.
     case config (network_name H) of
       None \<Rightarrow> throw (TypeError ''Cannot read properties of undefined'')
     | Some c \<Rightarrow>
         bindio (lift (getAddress (saleOwner c))) (\<lambda>owner.
         bindio (lift (bigNumber (totalTokens c))) (\<lambda>tot.
         ret (sale_verdicts dbl price_units owner tot c sale registration))))))"

section \<open>Farm, airdrop, upgrade and setters\<close>

definition deploy_farm :: "'w hre \<Rightarrow> ('w, unit) io" where
  "deploy_farm H =
     bindio (dateNow H) (\<lambda>ms.
     bindio (saved_contract H ''C2N-TOKEN'') (\<lambda>c2n.
     seqio (getContractFactory H ''FarmingC2N'')
     (bindio (lift (parseEther H ''1'')) (\<lambda>rps.
     bindio (deploy H ''FarmingC2N'' [c2n, num rps, num (ms div 1000 + 180)]) (\<lambda>farm.
     seqio (deployed H farm)
     (seqio (saveContractAddress H (network_name H) ''FarmingC2N'' farm)
     (seqio (getContractAt H (Str ''C2NToken'') c2n)
     (bindio (lift (parseEther H ''50000'')) (\<lambda>amount.
     seqio (send_and_wait H c2n ''approve'' [farm, num amount])
     (seqio (send_and_wait H farm ''fund'' [num amount])
     (bindio (saved_contract H ''C2N-TOKEN'') (\<lambda>lpToken.
     send_only H farm ''add'' [num 100, lpToken, Bool True]))))))))))))"

definition deploy_airdrop_c2n :: "'w hre \<Rightarrow> ('w, unit) io" where
  "deploy_airdrop_c2n H =
     bindio (saved_contract H ''C2N-TOKEN'') (\<lambda>c2n.
     bindio (deploy_contract H ''Airdrop'' [c2n]) (\<lambda>air.
     seqio (saveContractAddress H (network_name H) ''Airdrop-C2N'' air)
     (seqio (getContractAt H (Str ''C2NToken'') c2n)
     (bindio (lift (parseEther H ''10000'')) (\<lambda>amount.
     seqio (send_and_wait H c2n ''transfer'' [air, num amount])
     (bindio (view_call H c2n ''balanceOf'' [air]) (\<lambda>_.
     seqio (send_and_wait H air ''withdrawTokens'' [])
     (bindio (view_call H c2n ''balanceOf'' [air]) (\<lambda>_. ret ())))))))))"

definition upgradeAllocationStaking :: "'w hre \<Rightarrow> ('w, unit) io" where
  "upgradeAllocationStaking H =
     bindio (getSavedContractAddresses H) (\<lambda>addrs.
     bindio (lift (member addrs (network_name H))) (\<lambda>contracts.
     bindio (getSavedProxyABI H) (\<lambda>abis.
     bindio (lift (member abis ''ProxyAdmin'')) (\<lambda>proxyAdminAbi.
     bindio (lift (member contracts ''ProxyAdmin'')) (\<lambda>admin.
     seqio (getContractAt H proxyAdminAbi admin)
     (bindio (lift (member contracts ''AllocationStakingProxy'')) (\<lambda>prox.
     bindio (deploy_contract H ''AllocationStaking'' []) (\<lambda>impl.
     send_only H admin ''upgrade'' [prox, impl]))))))))"

definition setSalesFactory :: "'w hre \<Rightarrow> ('w, unit) io" where
  "setSalesFactory H =
     bindio (getSavedContractAddresses H) (\<lambda>addrs.
     bindio (lift (member addrs (network_name H))) (\<lambda>contracts.
     bindio (lift (member contracts ''AllocationStakingProxy'')) (\<lambda>staking.
     seqio (getContractAt H (Str ''AllocationStaking'') staking)
     (bindio (view_call H staking ''salesFactory'' []) (\<lambda>_.
     bindio (lift (member contracts ''SalesFactory'')) (\<lambda>factory.
     seqio (send_only H staking ''setSalesFactory'' [factory])
     (bindio (view_call H staking ''salesFactory'' []) (\<lambda>_. ret ()))))))))"

definition addAdmin :: "'w hre \<Rightarrow> ('w, unit) io" where
  "addAdmin H =
     bindio (saved_contract H ''Admin'') (\<lambda>admin.
     seqio (getContractAt H (Str ''Admin'') admin)
     (send_only H admin ''addAdmin'' [Str ''0x094028E04c1FADf12F5a4Fe6C1b9D2062a252a17'']))"

definition saveABi :: "'w hre \<Rightarrow> ('w, unit) io" where
  "saveABi H =
     seqio (run_task H ''compile'' Undef)
     (foreach [''Admin'', ''SalesFactory'', ''AllocationStaking'', ''C2NSale''] (\<lambda>n.
        bindio (readArtifact H n) (\<lambda>art.
        bindio (lift (member art ''abi'')) (\<lambda>abi.
        saveContractAbi H (network_name H) n abi))))"

section \<open>hardhat.config.js\<close>

text \<open>\<open>process.env.K\<close>, and \<open>process.env.K || ""\<close>.\<close>

definition env_val :: "(string \<rightharpoonup> string) \<Rightarrow> string \<Rightarrow> val" where
  "env_val env k = (case env k of None \<Rightarrow> Undef | Some s \<Rightarrow> Str s)"

definition env_or_empty :: "(string \<rightharpoonup> string) \<Rightarrow> string \<Rightarrow> val" where
  "env_or_empty env k = Str (or_default (env k) [])"

definition nova_hardhat_config :: "(string \<rightharpoonup> string) \<Rightarrow> obj" where
  "nova_hardhat_config env = [
     (''networks'', Obj [
       (''hardhat'', Obj [(''chainId'', num 31337)]),
       (''local'', Obj [(''url'', Str ''http://127.0.0.1:8545''), (''chainId'', num 31337),
          (''accounts'', Arr [env_val env ''LOCAL_PRIVATE_KEY''])]),
       (''sepolia'', Obj [(''url'', Str ''https://ethereum-sepolia.blockpi.network/v1/rpc/public''),
          (''accounts'', Arr [env_val env ''PRIVATE_KEY''])]),
       (''arb_sepolia'', Obj [(''url'', Str ''https://public.stackup.sh/api/v1/node/arbitrum-sepolia''),
          (''accounts'', Arr [env_val env ''PRIVATE_KEY''])]),
       (''bsc_test'', Obj [(''url'', Str ''https://bsc-testnet-dataseed.bnbchain.org''),
          (''accounts'', Arr [env_val env ''PRIVATE_KEY''])])]),
     (''solidity'', Obj [(''version'', Str ''0.6.12''),
       (''settings'', Obj [(''optimizer'', Obj [(''enabled'', Bool True), (''runs'', num 200)])])]),
     (''etherscan'', Obj [(''apiKey'', env_or_empty env ''ETHERSCAN_API_KEY'')])]"

end
