(* ===== verification/Nova_Scripts_Props.thy ===== *)
theory Nova_Scripts_Props
  imports Nova_Scripts
begin

text \<open>
  Properties of the deployment scripts: the address book, the exact transactions of a sale and of the
  singletons on every path, and what the checksum of a sale can find.
\<close>

section \<open>The address book\<close>

definition book :: "net \<Rightarrow> val" where
  "book s = (case files s addresses_path of Some (Json x) \<Rightarrow> x | _ \<Rightarrow> Obj [])"

definition book_entry :: "net \<Rightarrow> string \<Rightarrow> string \<Rightarrow> val" where
  "book_entry s n c = (case book s of Obj ob \<Rightarrow> (case get n ob of Obj e \<Rightarrow> get c e | _ \<Rightarrow> Undef) | _ \<Rightarrow> Undef)"

text \<open>The file is missing or holds an object of objects.\<close>

definition book_ok :: "net \<Rightarrow> bool" where
  "book_ok s \<longleftrightarrow> files s addresses_path \<noteq> Some Malformed \<and> (\<forall>xs. files s addresses_path \<noteq> Some (Lines xs)) \<and>
     (\<exists>ob. book s = Obj ob \<and> (\<forall>n. get n ob = Undef \<or> (\<exists>e. get n ob = Obj e)))"

context chain_rpc
begin

lemma read_silent: "silent v (getSavedContractAddresses H)"
  unfolding getSavedContractAddresses_def read_saved_def
  using readFile(1) by (auto simp: silent_def bindio_def catchio_def ret_def throw_def
    split: prod.split sum.split json.split) (metis snd_conv)+

lemma keeps_trace_write: "writing v (writeFile H p x) (\<lambda>s. s\<lparr>files := (files s)(p \<mapsto> x)\<rparr>)"
  by (rule writeFile)

text \<open>Saving an address sends no transaction.\<close>

lemma save_runs:
  assumes "\<And>f. R (d\<lparr>files := f\<rparr>)" and "\<And>f. Q () (d\<lparr>files := f\<rparr>)"
  shows "runs v d (saveContractAddress H n c x) Q R"
proof -
  have "d = d\<lparr>files := files d\<rparr>" by simp
  then have R: "R d" using assms(1) by metis
  show ?thesis
    unfolding saveContractAddress_def
    by (rule runs_silent_any [OF read_silent], rule R, rule runs_lift, rule R, rule runs_write [OF writeFile])
      (use R assms in auto)
qed

lemma save_seq:
  assumes "\<And>f. R (d\<lparr>files := f\<rparr>)" and "\<And>f. runs v (d\<lparr>files := f\<rparr>) m Q R"
  shows "runs v d (seqio (saveContractAddress H n c x) m) Q R"
  unfolding seqio_def
  by (rule runs_bind_all [OF save_runs [where Q = "\<lambda>_ s. \<exists>f. s = d\<lparr>files := f\<rparr>"]]) (use assms in auto)

lemma saved_contract_bind:
  "R d \<Longrightarrow> (\<And>x. runs v d (g x) Q R) \<Longrightarrow> runs v d (bindio (saved_contract H n) g) Q R"
  unfolding saved_contract_def bindio_assoc
  by (rule runs_silent_any [OF read_silent], assumption, rule runs_lift, assumption, rule runs_lift)

lemma send_wait_seq:
  assumes "R d" and "R (traced (Send adr m args) d)" and "runs v (traced (Send adr m args) d) n Q R"
  shows "runs v d (seqio (send_and_wait H adr m args) n) Q R"
  unfolding send_and_wait_def seqio_def bindio_assoc
  by (rule runs_write_bind [OF send_tx], rule assms(1), rule runs_silent_any [OF silents(17)], rule assms(2),
      rule assms(3))

lemma send_wait_last:
  assumes "R d" and "R (traced (Send adr m args) d)" and "Q () (traced (Send adr m args) d)"
  shows "runs v d (send_and_wait H adr m args) Q R"
  unfolding send_and_wait_def
  by (rule runs_write_bind [OF send_tx], rule assms(1))
    (use silents(17) assms in \<open>auto simp: triple_def outcome_def silent_def split: sum.split\<close>)

lemma send_only_seq:
  assumes "R d" and "runs v (traced (Send adr m args) d) n Q R"
  shows "runs v d (seqio (send_only H adr m args) n) Q R"
  unfolding send_only_def seqio_def bindio_assoc
  by (rule runs_write_bind [OF send_tx], rule assms(1)) (use assms in simp)

lemma send_only_last:
  assumes "R d" and "Q () (traced (Send adr m args) d)"
  shows "runs v d (send_only H adr m args) Q R"
  unfolding send_only_def
  by (rule runs_write_bind [OF send_tx], rule assms(1)) (use assms in \<open>simp add: runs_ret\<close>)

lemma at_seq: "R d \<Longrightarrow> runs v d n Q R \<Longrightarrow> runs v d (seqio (getContractAt H abi adr) n) Q R"
  and factory_seq: "R d \<Longrightarrow> runs v d n Q R \<Longrightarrow> runs v d (seqio (getContractFactory H nm) n) Q R"
  and deployed_seq: "R d \<Longrightarrow> runs v d n Q R \<Longrightarrow> runs v d (seqio (deployed H adr) n) Q R"
  and view_bind: "R d \<Longrightarrow> (\<And>x. runs v d (g x) Q R) \<Longrightarrow> runs v d (bindio (view_call H adr nm args) g) Q R"
  and time_bind: "R d \<Longrightarrow> (\<And>x. runs v d (g' x) Q R) \<Longrightarrow> runs v d (bindio (blockTimestamp H) g') Q R"
  and admin_bind: "R d \<Longrightarrow> (\<And>x. runs v d (g x) Q R) \<Longrightarrow> runs v d (bindio (proxyAdmin H) g) Q R"
  and book_bind: "R d \<Longrightarrow> (\<And>x. runs v d (g x) Q R) \<Longrightarrow> runs v d (bindio (getSavedContractAddresses H) g) Q R"
  by (auto intro: runs_silent_seq silents runs_silent_any read_silent)

lemma deploy_bind:
  "R d \<Longrightarrow> (\<And>x. runs v (traced (Deploy nm args x) d) (g x) Q R) \<Longrightarrow> runs v d (bindio (deploy H nm args) g) Q R"
  and proxy_bind:
  "R d \<Longrightarrow> (\<And>x. runs v (traced (Proxy nm args x) d) (g x) Q R) \<Longrightarrow> runs v d (bindio (deployProxy H nm args) g) Q R"
  by (rule runs_effect [OF deploy], simp_all) (rule runs_effect [OF deployProxy], simp_all)

lemma deploy_contract_bind:
  assumes "R d" and "\<And>x. R (traced (Deploy nm args x) d)" and "\<And>x. runs v (traced (Deploy nm args x) d) (g x) Q R"
  shows "runs v d (bindio (deploy_contract H nm args) g) Q R"
  unfolding deploy_contract_def seqio_def bindio_assoc
  by (rule runs_silent_any [OF silents(9)], rule assms(1), rule runs_effect [OF deploy], rule assms(1),
      rule runs_silent_any [OF silents(12)], rule assms(2)) (use assms(3) in simp)

lemma book_bind_known:
  assumes "R d" and "\<And>x. x = book d \<or> x = Obj [] \<Longrightarrow> runs v d (g x) Q R"
  shows "runs v d (bindio (getSavedContractAddresses H) g) Q R"
proof (rule runs_bind_all)
  show "runs v d (getSavedContractAddresses H) (\<lambda>x s. s = d \<and> (x = book d \<or> x = Obj [])) R"
  proof (rule tripleI)
    fix w assume w: "v w = d"
    obtain r w1 where m: "readFile H addresses_path w = (r, w1)" by fastforce
    have "v w1 = d" using readFile(1) [of addresses_path] w m unfolding silent_def by (metis snd_conv)
    moreover have "files d addresses_path = Some x" if "r = Inr x" for x
      using readFile(2) [of addresses_path w] m w that by simp
    ultimately show "outcome v (\<lambda>x s. s = d \<and> (x = book d \<or> x = Obj [])) R (getSavedContractAddresses H w)"
      using m assms(1)
      by (cases r) (auto simp: getSavedContractAddresses_def read_saved_def io_defs book_def split: json.split)
  qed
qed (use assms(2) in auto)

lemmas script_rules = save_seq saved_contract_bind send_wait_seq send_wait_last send_only_seq send_only_last
  at_seq factory_seq deployed_seq view_bind time_bind admin_bind book_bind deploy_bind proxy_bind
  deploy_contract_bind runs_lift runs_option

end

context steady_rpc
begin

lemma book_runs:
  assumes "book_ok d"
  shows "runs v d (getSavedContractAddresses H) (\<lambda>x s. x = book d \<and> s = d) R"
proof (rule tripleI)
  fix w assume w: "v w = d"
  obtain r w1 where m: "readFile H addresses_path w = (r, w1)" by fastforce
  have s: "v w1 = d" using readFile(1) [of addresses_path] w m unfolding silent_def by (metis snd_conv)
  show "outcome v (\<lambda>x s. x = book d \<and> s = d) R (getSavedContractAddresses H w)"
  proof (cases "files d addresses_path")
    case None
    then have "\<exists>e. r = Inl e" using readFile(2) [of addresses_path w] m w by (cases r) auto
    with None s m show ?thesis
      by (auto simp: getSavedContractAddresses_def read_saved_def io_defs book_def)
  next
    case (Some x)
    then have "r = Inr x" using read_total [of w addresses_path x] m w by simp
    moreover obtain y where "x = Json y" using assms Some by (cases x) (auto simp: book_ok_def)
    ultimately show ?thesis using s m Some
      by (simp add: getSavedContractAddresses_def read_saved_def io_defs book_def)
  qed
qed

lemma save_book:
  assumes "book_ok d"
  shows "runs v d (saveContractAddress H n c x)
    (\<lambda>_ s. book_ok s \<and> trace s = trace d \<and>
       (\<forall>n' c'. book_entry s n' c' = (if n' = n \<and> c' = c then x else book_entry d n' c'))) R"
proof -
  obtain ob where ob: "book d = Obj ob" "\<And>n. get n ob = Undef \<or> (\<exists>e. get n ob = Obj e)"
    using assms by (auto simp: book_ok_def)
  define e where "e = (case get n ob of Obj e \<Rightarrow> e | _ \<Rightarrow> [])"
  have s: "save_entry (Obj ob) n c x = Inr (Obj (put n (Obj (put c x e)) ob))"
    using ob(2) [of n] by (auto simp: save_entry_def e_def)
  let ?d = "d\<lparr>files := (files d)(addresses_path \<mapsto> Json (Obj (put n (Obj (put c x e)) ob)))\<rparr>"
  have "book ?d = Obj (put n (Obj (put c x e)) ob)" by (simp add: book_def)
  then have "book_ok ?d \<and> trace ?d = trace d \<and>
      (\<forall>n' c'. book_entry ?d n' c' = (if n' = n \<and> c' = c then x else book_entry d n' c'))"
    using ob ob(2) [of n] by (auto simp: book_ok_def book_entry_def e_def split: val.split)
  then show ?thesis
    unfolding saveContractAddress_def
    by (intro runs_bind [OF book_runs [OF assms]])
      (simp add: ob(1) s, rule runs_write [OF writeFile disjI1 [OF write_total]], simp)
qed

end

section \<open>Properties\<close>

text \<open>The address book. Saving an address makes it the one found under its network and name and leaves
  all others as they were, for a file that is missing or holds an object of objects.\<close>

theorem address_book_roundtrip:
  assumes "steady_rpc H v" and "book_ok (v w)"
  shows "\<exists>w'. saveContractAddress H n c x w = (Inr (), w') \<and> book_ok (v w') \<and> trace (v w') = trace (v w) \<and>
    (\<forall>n' c'. book_entry (v w') n' c' = (if n' = n \<and> c' = c then x else book_entry (v w) n' c'))"
proof -
  obtain r w' where b: "saveContractAddress H n c x w = (r, w')" by fastforce
  have "runs v (v w) (saveContractAddress H n c x) (\<lambda>_ s. book_ok s \<and> trace s = trace (v w) \<and>
      (\<forall>n' c'. book_entry s n' c' = (if n' = n \<and> c' = c then x else book_entry (v w) n' c'))) (\<lambda>_. False)"
    by (rule steady_rpc.save_book [OF assms])
  from runsD [OF this refl b] obtain u where "r = Inr u"
    "book_ok (v w') \<and> trace (v w') = trace (v w) \<and>
      (\<forall>n' c'. book_entry (v w') n' c' = (if n' = n \<and> c' = c then x else book_entry (v w) n' c'))"
    by blast
  with b show ?thesis by simp
qed

definition demo_sim :: sim where
  "demo_sim = \<lparr>snet = \<lparr>trace = [], files = [addresses_path \<mapsto>
     Json (Obj [(''local'', Obj [(''C2N-TOKEN'', Str ''0xc2''), (''SalesFactory'', Str ''0xf'')])])]\<rparr>, sfaults = []\<rparr>"

lemma address_book_roundtrip_witness:
  "\<exists>w'. saveContractAddress (calm_hre ''local'' (\<lambda>_ _ _ _. Undef)) ''sepolia'' ''Admin'' (Str ''0xa'') demo_sim = (Inr (), w') \<and>
     book_entry (snet w') ''local'' ''C2N-TOKEN'' = Str ''0xc2'' \<and> book_entry (snet w') ''sepolia'' ''Admin'' = Str ''0xa''"
proof -
  have ok: "book_ok (snet demo_sim)" by (simp add: book_ok_def book_def demo_sim_def)
  show ?thesis
    using address_book_roundtrip [OF calm.steady_rpc_axioms [of "''local''" "\<lambda>_ _ _ _. Undef"] ok,
        where n = "''sepolia''" and c = "''Admin''" and x = "Str ''0xa''"]
    by (auto simp: book_entry_def book_def demo_sim_def)
qed

text \<open>The transactions of a sale, in order.\<close>

definition sale_ops :: "'w hre \<Rightarrow> sale_config \<Rightarrow> val \<Rightarrow> val \<Rightarrow> op list" where
  "sale_ops H c factory sale = [
     Send factory ''deploySale'' [],
     Send sale ''setSaleParams'' (sale_params c (projr (parseEther H (tokenPriceInEth c)))
       (projr (parseEther H (totalTokens c))) (projr (parseEther H (maxParticipation c)))),
     Send sale ''setRegistrationTime'' [num (registrationStartAt c), num (registrationEnd c)],
     Send sale ''setSaleStart'' [num (saleStartTime c)],
     Send sale ''setVestingParams'' [Arr (map num (unlockingTimes c)), Arr (map num (portionPercents c)),
       num (maxVestingTimeShift c)]]"

context chain_rpc
begin

lemma deploy_sales_runs:
  assumes "config (network_name H) = Some c"
  shows "runs v d (deploy_sales H config)
    (\<lambda>_ s. \<exists>f sl. trace s = trace d @ sale_ops H c f sl)
    (\<lambda>s. \<exists>f sl. prefix (trace s) (trace d @ sale_ops H c f sl))"
  unfolding deploy_sales_def assms option.case
  by (intro script_rules) (auto simp: sale_ops_def)

end

text \<open>C20: A sale is set up by the same five transactions in the same order, whatever fails: the factory
  deploys it, and the sale itself is given its parameters, registration window, start and vesting
  schedule as computed from the configuration. On success all five were sent, otherwise a prefix of
  them; and with non-negative lengths registration start, registration end, sale start and sale end
  follow one another.\<close>

theorem sale_deployment:
  assumes "chain_rpc H v" and "config (network_name H) = Some c"
    and "0 \<le> registrationLength c" and "0 \<le> delayBetweenRegistrationAndSale c" and "0 \<le> saleRoundLength c"
    and "deploy_sales H config w = (r, w')"
  shows "(\<exists>f sl. case r of Inr _ \<Rightarrow> trace (v w') = trace (v w) @ sale_ops H c f sl
      | Inl _ \<Rightarrow> prefix (trace (v w')) (trace (v w) @ sale_ops H c f sl)) \<and>
    registrationStartAt c \<le> registrationEnd c \<and> registrationEnd c \<le> saleStartTime c \<and>
    saleStartTime c \<le> saleEndTime c"
proof -
  have "\<exists>f sl. case r of Inr _ \<Rightarrow> trace (v w') = trace (v w) @ sale_ops H c f sl
      | Inl _ \<Rightarrow> prefix (trace (v w')) (trace (v w) @ sale_ops H c f sl)"
  proof -
    have "runs v (v w) (deploy_sales H config) (\<lambda>_ s. \<exists>f sl. trace s = trace (v w) @ sale_ops H c f sl)
        (\<lambda>s. \<exists>f sl. prefix (trace s) (trace (v w) @ sale_ops H c f sl))"
      by (rule chain_rpc.deploy_sales_runs [OF assms(1)], rule assms(2))
    from tripleD [OF this refl] assms(6) show ?thesis by (cases r) simp_all
  qed
  with assms(3-5) show ?thesis
    by (simp add: registrationEnd_def saleStartTime_def saleEndTime_def)
qed

definition demo_sale :: sale_config where
  "demo_sale = \<lparr>tokenAddress = ''0xt'', saleOwner = ''0xo'', totalTokens = ''1000'', tokenPriceInEth = ''1'',
     maxParticipation = ''10'', registrationStartAt = 100, registrationLength = 120,
     delayBetweenRegistrationAndSale = 10, saleRoundLength = 864, TGE = 2000, portionVestingPrecision = 1000,
     maxVestingTimeShift = 5, unlockingTimes = [2000, 3000], portionPercents = [500, 500]\<rparr>"

lemma sale_deployment_witness:
  "\<exists>f sl. prefix (trace (snet (snd (deploy_sales (sim_hre ''local'' (\<lambda>_ _ _ _. Str ''0x5'')) (\<lambda>_. Some demo_sale)
      (demo_sim\<lparr>sfaults := [False, False, False, False, False, False, False, False, True]\<rparr>)))))
    (sale_ops (sim_hre ''local'' (\<lambda>_ _ _ _. Str ''0x5'')) demo_sale f sl)"
proof -
  let ?H = "sim_hre ''local'' (\<lambda>_ _ _ _. Str ''0x5'')"
  let ?w = "demo_sim\<lparr>sfaults := [False, False, False, False, False, False, False, False, True]\<rparr>"
  obtain r w' where r: "deploy_sales ?H (\<lambda>_. Some demo_sale) ?w = (r, w')" by fastforce
  have t: "trace (snet ?w) = []" by (simp add: demo_sim_def)
  have "\<exists>f sl. case r of Inr _ \<Rightarrow> trace (snet w') = trace (snet ?w) @ sale_ops ?H demo_sale f sl
      | Inl _ \<Rightarrow> prefix (trace (snet w')) (trace (snet ?w) @ sale_ops ?H demo_sale f sl)"
    using sale_deployment [OF sim.chain_rpc_axioms refl _ _ _ r] by (simp add: demo_sale_def)
  then obtain f sl where "case r of Inr _ \<Rightarrow> trace (snet w') = trace (snet ?w) @ sale_ops ?H demo_sale f sl
      | Inl _ \<Rightarrow> prefix (trace (snet w')) (trace (snet ?w) @ sale_ops ?H demo_sale f sl)" by blast
  with t have "prefix (trace (snet w')) (sale_ops ?H demo_sale f sl)" by (cases r) simp_all
  with r show ?thesis by (metis snd_conv)
qed

text \<open>The transactions of the singletons: \<open>adm\<close>, \<open>sf\<close> and \<open>st\<close> are the deployed addresses, \<open>c2n\<close> the token
  found in the address book, \<open>t\<close> the time of the last block.\<close>

definition singleton_ops ::
  "'w hre \<Rightarrow> singletons_config \<Rightarrow> val \<Rightarrow> int \<Rightarrow> val \<Rightarrow> val \<Rightarrow> val \<Rightarrow> op list" where
  "singleton_ops H c c2n t adm sf st = [
     Deploy ''Admin'' [Arr (map Str (admins c))] adm,
     Deploy ''SalesFactory'' [adm, Str ZERO_ADDRESS] sf,
     Proxy ''AllocationStaking'' [c2n, num (projr (parseEther H (allocationStakingRPS c))), num (t + delayBeforeStart c), sf] st,
     Send sf ''setAllocationStaking'' [st],
     Send c2n ''approve'' [st, num (projr (parseEther H (initialRewardsAllocationStaking c)))],
     Send st ''add'' [num 100, c2n, Bool True],
     Send st ''fund'' [num (projr (parseEther H (floor_string (initialRewardsAllocationStaking c))))]]"

context chain_rpc
begin

lemma singletons_runs:
  assumes "config (network_name H) = Some c"
  shows "runs v d (deploy_singletons H config)
    (\<lambda>_ s. \<exists>c2n t adm sf st. trace s = trace d @ singleton_ops H c c2n t adm sf st)
    (\<lambda>s. \<exists>c2n t adm sf st. prefix (trace s) (trace d @ singleton_ops H c c2n t adm sf st))"
  unfolding deploy_singletons_def Let_def assms option.case
  by (intro script_rules) (auto simp: singleton_ops_def)

lemma singletons_unknown_network:
  assumes "member (book d) (network_name H) = Inr Undef" and "config (network_name H) = Some c"
  shows "runs v d (deploy_singletons H config) (\<lambda>_ _. False)
    (\<lambda>s. \<exists>adm sf. prefix (trace s) (trace d @ [Deploy ''Admin'' [Arr (map Str (admins c))] adm,
       Deploy ''SalesFactory'' [adm, Str ZERO_ADDRESS] sf]))"
  unfolding deploy_singletons_def Let_def assms(2) option.case
proof (rule book_bind_known)
  show "\<exists>adm sf. prefix (trace d) (trace d @ [Deploy ''Admin'' [Arr (map Str (admins c))] adm,
       Deploy ''SalesFactory'' [adm, Str ZERO_ADDRESS] sf])" by simp
  fix x assume "x = book d \<or> x = Obj []"
  with assms(1) have "member x (network_name H) = Inr Undef" by auto
  then show "runs v d (bindio (lift (member x (network_name H))) (\<lambda>contracts.
     seqio (getContractFactory H ''Admin'')
     (bindio (deploy H ''Admin'' [Arr (map Str (admins c))]) (\<lambda>admin.
     seqio (deployed H admin)
     (seqio (saveContractAddress H (network_name H) ''Admin'' admin)
     (bindio (deploy_contract H ''SalesFactory'' [admin, Str ZERO_ADDRESS]) (\<lambda>salesFactory.
     seqio (saveContractAddress H (network_name H) ''SalesFactory'' salesFactory)
     (bindio (blockTimestamp H) (\<lambda>currentTimestamp.
     seqio (getContractFactory H ''AllocationStaking'')
     (bindio (lift (member contracts ''C2N-TOKEN'')) (\<lambda>c2n.
     bindio (lift (parseEther H (allocationStakingRPS c))) (\<lambda>rps.
     bindio (deployProxy H ''AllocationStaking''
       [c2n, num rps, num (currentTimestamp + delayBeforeStart c), salesFactory]) (\<lambda>staking.
     seqio (deployed H staking)
     (seqio (saveContractAddress H (network_name H) ''AllocationStakingProxy'' staking)
     (bindio (proxyAdmin H) (\<lambda>proxyAdminContract.
     seqio (saveContractAddress H (network_name H) ''ProxyAdmin'' proxyAdminContract)
     (seqio (send_only H salesFactory ''setAllocationStaking'' [staking])
     (bindio (lift (parseEther H (initialRewardsAllocationStaking c))) (\<lambda>totalRewards.
     bindio (lift (member contracts ''C2N-TOKEN'')) (\<lambda>token.
     seqio (getContractAt H (Str ''C2NToken'') token)
     (seqio (send_and_wait H token ''approve'' [staking, num totalRewards])
     (seqio (send_and_wait H staking ''add'' [num 100, token, Bool True])
     (bindio (lift (parseEther H (floor_string (initialRewardsAllocationStaking c)))) (\<lambda>fund.
     send_only H staking ''fund'' [num fund]))))))))))))))))))))))))
    (\<lambda>_ _. False)
    (\<lambda>s. \<exists>adm sf. prefix (trace s) (trace d @ [Deploy ''Admin'' [Arr (map Str (admins c))] adm,
       Deploy ''SalesFactory'' [adm, Str ZERO_ADDRESS] sf]))"
    by simp (intro script_rules runs_throw; auto)
qed

end

text \<open>The singletons are deployed and wired by the same seven transactions in the same order, each
  using the addresses of the ones before; on success all seven were sent, whatever fails otherwise
  only a prefix of them, so the staking pool is never funded before it was approved and set up.\<close>

theorem singletons_deployment:
  assumes "chain_rpc H v" and "config (network_name H) = Some c"
    and "deploy_singletons H config w = (r, w')"
  shows "\<exists>c2n t adm sf st. case r of
      Inr _ \<Rightarrow> trace (v w') = trace (v w) @ singleton_ops H c c2n t adm sf st
    | Inl _ \<Rightarrow> prefix (trace (v w')) (trace (v w) @ singleton_ops H c c2n t adm sf st)"
proof -
  have "runs v (v w) (deploy_singletons H config)
    (\<lambda>_ s. \<exists>c2n t adm sf st. trace s = trace (v w) @ singleton_ops H c c2n t adm sf st)
    (\<lambda>s. \<exists>c2n t adm sf st. prefix (trace s) (trace (v w) @ singleton_ops H c c2n t adm sf st))"
    by (rule chain_rpc.singletons_runs [OF assms(1)], rule assms(2))
  from tripleD [OF this refl] assms(3) show ?thesis by (cases r) simp_all
qed

definition demo_singletons :: singletons_config where
  "demo_singletons = \<lparr>admins = [''0xd''], delayBeforeStart = 60, allocationStakingRPS = ''1'',
     initialRewardsAllocationStaking = ''1000000''\<rparr>"

lemma singletons_deployment_witness:
  "\<exists>adm rest. trace (snet (snd (deploy_singletons (sim_hre ''local'' (\<lambda>_ _ _ _. Undef)) (\<lambda>_. Some demo_singletons)
      (demo_sim\<lparr>sfaults := []\<rparr>)))) = [] \<or>
    trace (snet (snd (deploy_singletons (sim_hre ''local'' (\<lambda>_ _ _ _. Undef)) (\<lambda>_. Some demo_singletons)
      (demo_sim\<lparr>sfaults := []\<rparr>)))) = Deploy ''Admin'' [Arr [Str ''0xd'']] adm # rest"
proof -
  let ?H = "sim_hre ''local'' (\<lambda>_ _ _ _. Undef)"
  let ?w = "demo_sim\<lparr>sfaults := []\<rparr>"
  obtain r w' where r: "deploy_singletons ?H (\<lambda>_. Some demo_singletons) ?w = (r, w')" by fastforce
  have t: "trace (snet ?w) = []" by (simp add: demo_sim_def)
  from singletons_deployment [OF sim.chain_rpc_axioms refl r] obtain c2n t adm sf st where
    "case r of Inr _ \<Rightarrow> trace (snet w') = trace (snet ?w) @ singleton_ops ?H demo_singletons c2n t adm sf st
    | Inl _ \<Rightarrow> prefix (trace (snet w')) (trace (snet ?w) @ singleton_ops ?H demo_singletons c2n t adm sf st)" by blast
  with t have "prefix (trace (snet w')) (singleton_ops ?H demo_singletons c2n t adm sf st)" by (cases r) simp_all
  then show ?thesis
    using r by (cases "trace (snet w')") (auto simp: singleton_ops_def demo_singletons_def)
qed

text \<open>On a network that has no entry in the address book the script is bound to fail, but only after it
  may have deployed \<open>Admin\<close> and \<open>SalesFactory\<close>: the book is read first and its missing entry is used
  last.\<close>

theorem singletons_fail_late:
  assumes "chain_rpc H v" and "config (network_name H) = Some c"
    and "member (book (v w)) (network_name H) = Inr Undef"
    and "deploy_singletons H config w = (r, w')"
  shows "(\<exists>e. r = Inl e) \<and> (\<exists>adm sf. prefix (trace (v w')) (trace (v w) @
    [Deploy ''Admin'' [Arr (map Str (admins c))] adm, Deploy ''SalesFactory'' [adm, Str ZERO_ADDRESS] sf]))"
proof -
  have "runs v (v w) (deploy_singletons H config) (\<lambda>_ _. False)
    (\<lambda>s. \<exists>adm sf. prefix (trace s) (trace (v w) @ [Deploy ''Admin'' [Arr (map Str (admins c))] adm,
       Deploy ''SalesFactory'' [adm, Str ZERO_ADDRESS] sf]))"
    by (rule chain_rpc.singletons_unknown_network [OF assms(1)], rule assms(3), rule assms(2))
  from tripleD [OF this refl] assms(4) show ?thesis by (cases r) simp_all
qed

lemma singletons_fail_late_witness:
  "\<exists>e. fst (deploy_singletons (sim_hre ''sepolia'' (\<lambda>_ _ _ _. Undef)) (\<lambda>_. Some demo_singletons) demo_sim) = Inl e"
proof -
  let ?H = "sim_hre ''sepolia'' (\<lambda>_ _ _ _. Undef)"
  obtain r w' where r: "deploy_singletons ?H (\<lambda>_. Some demo_singletons) demo_sim = (r, w')" by fastforce
  have "member (book (snet demo_sim)) (network_name ?H) = Inr Undef"
    by (simp add: book_def demo_sim_def sim_hre_def)
  from singletons_fail_late [OF sim.chain_rpc_axioms refl this r] r show ?thesis by auto
qed

text \<open>The checksum agrees with the deployment script. Run on a sale that holds what \<open>deploy_sales\<close> sent,
  with times that doubles represent exactly, every check of a time says \<open>VALID\<close>, except that the unlock
  time is compared with the first vesting time although the script sent \<open>TGE\<close>: that check is \<open>VALID\<close> only
  if the two settings agree.\<close>

theorem checksum_agrees:
  assumes "item sale 10 = num (saleStartTime c)"
    and "item sale 11 = sale_params c price tot maxp ! 4" and "item sale 12 = sale_params c price tot maxp ! 5"
    and "item reg 0 = num (registrationStartAt c)" and "item reg 1 = num (registrationEnd c)"
    and "\<forall>t \<in> {registrationStartAt c, registrationEnd c, saleStartTime c, saleEndTime c, TGE c}.
      dbl (of_int t) = of_int t"
    and "unlockingTimes c = u # us"
  shows "map_of (sale_verdicts dbl pu owner n c sale reg) ''TokensUnlockTime'' = Some (TGE c = u) \<and>
    map_of (sale_verdicts dbl pu owner n c sale reg) ''Sale end'' = Some True \<and>
    map_of (sale_verdicts dbl pu owner n c sale reg) ''Sale Round Start'' = Some True \<and>
    map_of (sale_verdicts dbl pu owner n c sale reg) ''Registration Start'' = Some True \<and>
    map_of (sale_verdicts dbl pu owner n c sale reg) ''Registration End'' = Some True"
proof -
  have d: "dbl (of_int (registrationStartAt c)) = of_int (registrationStartAt c)"
    "dbl (of_int (registrationEnd c)) = of_int (registrationEnd c)"
    "dbl (of_int (saleStartTime c)) = of_int (saleStartTime c)"
    "dbl (of_int (saleEndTime c)) = of_int (saleEndTime c)" "dbl (of_int (TGE c)) = of_int (TGE c)"
    using assms(6) by simp_all
  have i: "item sale 11 = num (saleEndTime c)" "item sale 12 = num (TGE c)"
    using assms(2,3) by (simp_all add: sale_params_def)
  have e: "saleEndTime c = registrationStartAt c + registrationLength c + delayBetweenRegistrationAndSale c + saleRoundLength c"
    "saleStartTime c = registrationStartAt c + registrationLength c + delayBetweenRegistrationAndSale c"
    "registrationEnd c = registrationStartAt c + registrationLength c"
    by (simp_all add: saleEndTime_def saleStartTime_def registrationEnd_def)
  show ?thesis
    unfolding sale_verdicts_def assms(1,4,5,7) i num_def int_of.simps d same_num_def
    by (simp add: e)
qed

lemma checksum_agrees_witness:
  "map_of (sale_verdicts id (\<lambda>_. None) ''0xo'' 1000 demo_sale
     (Arr (replicate 10 Undef @ [num 230, num 1094, num 2000])) (Arr [num 100, num 220])) ''TokensUnlockTime'' = Some True"
  using checksum_agrees [of "Arr (replicate 10 Undef @ [num 230, num 1094, num 2000])" demo_sale 1 1 1
      "Arr [num 100, num 220]" id 2000 "[3000]"]
  by (simp add: item_def sale_params_def demo_sale_def saleStartTime_def saleEndTime_def registrationEnd_def
      nth_append numeral_eq_Suc)

end
