(* ===== verification/Hardhat_Scripts.thy ===== *)
theory Hardhat_Scripts
  imports Nova_Scripts
begin

text \<open>
  The Hardhat project \<open>my-hardhat-project\<close>: the tasks \<open>deploy-ignition\<close> and \<open>save-ignition-deployment\<close> of
  \<open>scripts/ignition-deploy-with-save.js\<close>, and the scripts and Ignition modules of \<open>ignition/modules\<close>.
  Paths are relative to the project. The keys of the address file are \<open>Module#Contract\<close>, so no key is an
  array index and \<open>Object.entries\<close> lists them in the order of the file.
\<close>

section \<open>Reading Ignition's records\<close>

definition addresses_file :: "string \<Rightarrow> string" where
  "addresses_file chainId = ignition_dir @ ''chain-'' @ chainId @ ''/deployed_addresses.json''"

definition journal_file :: "string \<Rightarrow> string" where
  "journal_file chainId = ignition_dir @ ''chain-'' @ chainId @ ''/journal.jsonl''"

text \<open>The conversion of a value to a property name or string; objects never occur there.\<close>

fun to_string :: "val \<Rightarrow> string" where
  "to_string (Str s) = s"
| "to_string Undef = ''undefined''"
| "to_string Null = ''null''"
| "to_string (Bool b) = (if b then ''true'' else ''false'')"
| "to_string (Num x) = show_int \<lfloor>x\<rfloor>"
| "to_string _ = ''[object Object]''"

text \<open>\<open>if (entry.type === kind && entry.field) table[entry.futureId] = entry.field\<close>; a line that cannot be
  parsed, or is \<open>null\<close>, is skipped.\<close>

definition collect :: "string \<Rightarrow> string \<Rightarrow> val option \<Rightarrow> obj \<Rightarrow> obj" where
  "collect kind field line table =
     (case line of None \<Rightarrow> table | Some entry \<Rightarrow>
       (case (member entry ''type'', member entry field, member entry ''futureId'') of
          (Inr t, Inr x, Inr f) \<Rightarrow>
            if t = Str kind \<and> truthy_val x then put (to_string f) x table else table
        | _ \<Rightarrow> table))"

fun journal_lines :: "json \<Rightarrow> val option list" where
  "journal_lines (Lines ls) = ls"
| "journal_lines (Json x) = [Some x]"
| "journal_lines Malformed = [None]"

definition transactions_of :: "json \<Rightarrow> obj" where
  "transactions_of j = fold (collect ''TRANSACTION_CONFIRM'' ''hash'') (journal_lines j) []"

definition constructor_args_of :: "json \<Rightarrow> obj" where
  "constructor_args_of j =
     fold (collect ''DEPLOYMENT_EXECUTION_STATE_INITIALIZE'' ''constructorArgs'') (journal_lines j) []"

definition read_journal :: "'w hre \<Rightarrow> string \<Rightarrow> ('w, obj \<times> obj) io" where
  "read_journal H chainId =
     bindio (existsFile H (journal_file chainId)) (\<lambda>found.
     if found then bindio (readFile H (journal_file chainId)) (\<lambda>j. ret (transactions_of j, constructor_args_of j))
     else ret ([], []))"

text \<open>\<open>Object.entries(JSON.parse(..))\<close>\<close>

fun parsed_entries :: "json \<Rightarrow> js_error + obj" where
  "parsed_entries (Json Null) = Inl (TypeError ''Cannot convert undefined or null to object'')"
| "parsed_entries (Json x) = Inr (entries x)"
| "parsed_entries _ = Inl (JsError ''Unexpected token in JSON'')"

definition module_part :: "string \<Rightarrow> string" where
  "module_part key = before_char (CHR ''#'') key"

definition contract_part :: "string \<Rightarrow> string" where
  "contract_part key = (if CHR ''#'' \<in> set key then after_char (CHR ''#'') key else key)"

definition in_module :: "val \<Rightarrow> string \<Rightarrow> bool" where
  "in_module current key \<longleftrightarrow> Str (module_part key) = current \<or> prefix (to_string current @ ''#'') key"

definition first_address :: "val list \<Rightarrow> js_error + val" where
  "first_address signers = (case signers of
     [] \<Rightarrow> Inl (TypeError ''Cannot read properties of undefined'') | d # _ \<Rightarrow> Inr d)"

definition output_file :: "'w hre \<Rightarrow> string \<Rightarrow> string \<Rightarrow> string" where
  "output_file H chainId n = ''deployments/'' @ network_name H @ ''-'' @ chainId @ ''-'' @ n @ ''.json''"

definition contract_info :: "obj \<Rightarrow> string \<Rightarrow> val \<Rightarrow> obj" where
  "contract_info transactions key adr =
     [(''name'', Str (contract_part key)), (''address'', adr),
      (''transactionHash'', let h = get key transactions in if truthy_val h then h else Str ''N/A'')]"

section \<open>The task deploy-ignition\<close>

definition deployment_info :: "'w hre \<Rightarrow> string \<Rightarrow> string \<Rightarrow> val \<Rightarrow> string \<Rightarrow> obj \<Rightarrow> obj" where
  "deployment_info H chainId now deployer moduleName rest =
     [(''network'', Str (network_name H)), (''chainId'', Str chainId), (''timestamp'', Str now),
      (''deployer'', deployer), (''module'', Str moduleName)] @ rest"

definition save_contract :: "'w hre \<Rightarrow> string \<Rightarrow> string \<Rightarrow> val list \<Rightarrow> obj \<Rightarrow> string \<times> val \<Rightarrow> ('w, unit) io" where
  "save_contract H chainId moduleName signers transactions = (\<lambda>(key, adr).
     bindio (isoDate H) (\<lambda>now.
     bindio (lift (first_address signers)) (\<lambda>deployer.
     writeFile H (output_file H chainId (contract_part key))
       (Json (Obj (deployment_info H chainId now deployer moduleName
          [(''contract'', Obj (contract_info transactions key adr))]))))))"

fun error_message :: "js_error \<Rightarrow> string" where
  "error_message (TypeError s) = s"
| "error_message (ReferenceError s) = s"
| "error_message (JsError s) = s"

text \<open>A failed verification is only logged, with the arguments joined unless it had been done before.\<close>

definition verification_failed :: "val \<Rightarrow> js_error \<Rightarrow> ('w, unit) io" where
  "verification_failed constructorArgs e =
     (if sublist ''Already Verified'' (error_message e) \<or> sublist ''already verified'' (error_message e) then ret ()
      else (case constructorArgs of Arr _ \<Rightarrow> ret ()
            | _ \<Rightarrow> throw (TypeError ''constructorArgs.join is not a function'')))"

definition verify_contract :: "'w hre \<Rightarrow> obj \<Rightarrow> string \<times> val \<Rightarrow> ('w, unit) io" where
  "verify_contract H argsMap = (\<lambda>(key, adr).
     (let found = get key argsMap; constructorArgs = (if truthy_val found then found else Arr []) in
     catchio (run_task H ''verify:verify'' (Obj [(''address'', adr), (''constructorArguments'', constructorArgs)]))
       (verification_failed constructorArgs)))"

definition ensure_dir :: "'w hre \<Rightarrow> string \<Rightarrow> ('w, unit) io" where
  "ensure_dir H d = bindio (existsDir H d) (\<lambda>found. if found then ret () else mkdir H d)"

definition module_base :: "string \<Rightarrow> string" where
  "module_base path = strip_suffix ''.js'' (after_last (CHR ''/'') path)"

definition current_module :: "val \<Rightarrow> string \<Rightarrow> js_error + val" where
  "current_module md moduleName = (case member md ''id'' of Inl e \<Rightarrow> Inl e
     | Inr i \<Rightarrow> Inr (if truthy_val i then i else Str moduleName))"

definition save_contracts ::
  "'w hre \<Rightarrow> string \<Rightarrow> string \<Rightarrow> bool \<Rightarrow> obj \<times> obj \<Rightarrow> (string \<times> val) list \<Rightarrow> ('w, unit) io" where
  "save_contracts H chainId moduleName verify = (\<lambda>(transactions, argsMap) contracts.
     bindio (getSigners H) (\<lambda>signers.
     seqio (ensure_dir H ''deployments'')
     (seqio (foreach contracts (save_contract H chainId moduleName signers transactions))
     (seqio (if verify then foreach contracts (verify_contract H argsMap) else ret ())
     (bindio (lift (first_address signers)) (\<lambda>_.
     bindio (isoDate H) (\<lambda>_. ret ())))))))"

definition save_module :: "'w hre \<Rightarrow> string \<Rightarrow> string \<Rightarrow> val \<Rightarrow> bool \<Rightarrow> ('w, unit) io" where
  "save_module H chainId moduleName md verify =
     bindio (readFile H (addresses_file chainId)) (\<lambda>j.
     bindio (lift (parsed_entries j)) (\<lambda>deployedAddresses.
     bindio (read_journal H chainId) (\<lambda>journal.
     bindio (lift (current_module md moduleName)) (\<lambda>current.
     save_contracts H chainId moduleName verify journal
       (filter (\<lambda>(key, adr). in_module current key) deployedAddresses)))))"

definition deploy_ignition :: "'w hre \<Rightarrow> string \<Rightarrow> bool \<Rightarrow> ('w, unit) io" where
  "deploy_ignition H path verify =
     bindio (getNetworkChainId H) (\<lambda>chainId.
     bindio (loadModule H path) (\<lambda>md.
     bindio (ignitionDeploy H md) (\<lambda>_.
     bindio (existsFile H (addresses_file chainId)) (\<lambda>found.
     if found then save_module H chainId (module_base path) md verify else ret ()))))"

section \<open>The task save-ignition-deployment\<close>

definition save_all_info :: "'w hre \<Rightarrow> string \<Rightarrow> obj \<Rightarrow> obj \<Rightarrow> val list \<Rightarrow> string \<Rightarrow> ('w, unit) io" where
  "save_all_info H chainId deployedAddresses transactions signers moduleName =
     bindio (isoDate H) (\<lambda>now.
     bindio (lift (first_address signers)) (\<lambda>deployer.
     seqio (ensure_dir H ''deployments'')
     (writeFile H (output_file H chainId moduleName)
       (Json (Obj (deployment_info H chainId now deployer moduleName
          [(''contracts'', Arr (map (\<lambda>(key, adr). Obj (contract_info transactions key adr)) deployedAddresses))]))))))"

text \<open>A JavaScript \<open>Set\<close> iterates in the order of first insertion.\<close>

definition set_of :: "'a list \<Rightarrow> 'a list" where
  "set_of xs = rev (remdups (rev xs))"

definition save_ignition_deployment :: "'w hre \<Rightarrow> ('w, unit) io" where
  "save_ignition_deployment H =
     bindio (getNetworkChainId H) (\<lambda>chainId.
     bindio (existsFile H (addresses_file chainId)) (\<lambda>found.
     if \<not> found then ret () else
     bindio (readFile H (addresses_file chainId)) (\<lambda>j.
     bindio (lift (case j of Json x \<Rightarrow> Inr x | _ \<Rightarrow> Inl (JsError ''Unexpected token in JSON''))) (\<lambda>parsed.
     bindio (read_journal H chainId) (\<lambda>(transactions, _).
     bindio (getSigners H) (\<lambda>signers.
     bindio (lift (parsed_entries (Json parsed))) (\<lambda>deployedAddresses.
     foreach (set_of (map (\<lambda>(key, adr). module_part key) deployedAddresses))
       (save_all_info H chainId deployedAddresses transactions signers))))))))"

section \<open>The scripts and modules of ignition/modules\<close>

text \<open>\<open>MyToken.js\<close> and \<open>MyToken2.js\<close> run one procedure with different arguments; the second also records
  them. The reads of balance, owner, name, symbol and supply are only logged.\<close>

definition token_script :: "'w hre \<Rightarrow> val list \<Rightarrow> obj \<Rightarrow> ('w, unit) io" where
  "token_script H args params =
     bindio (getSigners H) (\<lambda>signers.
     bindio (lift (first_address signers)) (\<lambda>deployer.
     bindio (balanceOfAddress H deployer) (\<lambda>_.
     seqio (getContractFactory H ''MyToken'')
     (bindio (deploy H ''MyToken'' args) (\<lambda>token.
     seqio (deployed H token)
     (seqio (foreach [''owner'', ''name'', ''symbol'', ''totalSupply''] (\<lambda>m. bindio (view_call H token m []) (\<lambda>_. ret ())))
     (seqio (ensure_dir H ''ignition/deployments'')
     (bindio (isoDate H) (\<lambda>now.
     bindio (deploymentHash H token) (\<lambda>hash.
     writeFile H (''ignition/deployments/'' @ network_name H @ ''-MyToken.json'')
       (Json (Obj [(''network'', Str (network_name H)), (''timestamp'', Str now),
          (''contract'', Obj ([(''name'', Str ''MyToken''), (''address'', token), (''deployer'', deployer),
             (''transactionHash'', hash)] @ params))]))))))))))))"

definition MyToken_script :: "'w hre \<Rightarrow> ('w, unit) io" where
  "MyToken_script H = token_script H [Str ''Hello Token'', Str ''HT'', num 1000, num 18] []"

record token_params =
  tokenName :: string
  tokenSymbol :: string
  initialSupply :: val
  decimals :: val

text \<open>The environment: an unset or empty variable gives the default, \<open>parseInt\<close> of anything else may be \<open>NaN\<close>.\<close>

definition env_int :: "(string \<Rightarrow> string option) \<Rightarrow> string \<Rightarrow> int \<Rightarrow> val" where
  "env_int env k d = (if truthy (env k) then (case parseInt (the (env k)) of None \<Rightarrow> NaN | Some n \<Rightarrow> num n) else num d)"

text \<open>\<open>JSON.stringify\<close> writes \<open>NaN\<close> as \<open>null\<close>.\<close>

definition json_num :: "val \<Rightarrow> val" where
  "json_num x = (if x = NaN then Null else x)"

definition getDeployParams :: "(string \<Rightarrow> string option) \<Rightarrow> token_params" where
  "getDeployParams env = \<lparr>tokenName = or_default (env ''TOKEN_NAME'') ''My Token'',
     tokenSymbol = or_default (env ''TOKEN_SYMBOL'') ''MTK'',
     initialSupply = env_int env ''INITIAL_SUPPLY'' 1000000, decimals = env_int env ''TOKEN_DECIMALS'' 18\<rparr>"

definition MyToken2_script :: "'w hre \<Rightarrow> (string \<Rightarrow> string option) \<Rightarrow> ('w, unit) io" where
  "MyToken2_script H env =
     (let p = getDeployParams env in
     token_script H [Str (tokenName p), Str (tokenSymbol p), initialSupply p, decimals p]
       [(''parameters'', Obj [(''name'', Str (tokenName p)), (''symbol'', Str (tokenSymbol p)),
          (''initialSupply'', json_num (initialSupply p)), (''decimals'', json_num (decimals p))])])"

definition deploy_upgradeable :: "'w hre \<Rightarrow> ('w, unit) io" where
  "deploy_upgradeable H =
     seqio (getContractFactory H ''MyUpgradeableV1'')
     (bindio (deployProxy H ''MyUpgradeableV1'' [num 42]) (\<lambda>instance.
     seqio (deployed H instance)
     (bindio (erc1967 H ''implementation'' instance) (\<lambda>_. ret ()))))"

definition upgrade_script :: "'w hre \<Rightarrow> ('w, unit) io" where
  "upgrade_script H =
     seqio (getContractFactory H ''MyUpgradeableV2'')
     (bindio (upgradeProxy H (Str ''0x9c21e868B4eFA7444DdF968321d9F3EDd8BF6eEa'') ''MyUpgradeableV2'') (\<lambda>_. ret ()))"

text \<open>An Ignition module: its name and the contracts it asks for, with arguments and value sent.
  \<open>getParameter\<close> yields the given parameter or its default.\<close>

record ignition_module =
  module_id :: string
  module_contracts :: "(string \<times> string \<times> val list \<times> val) list"

definition parameter :: "obj \<Rightarrow> string \<Rightarrow> val \<Rightarrow> val" where
  "parameter params k d = (if get k params = Undef then d else get k params)"

definition LockModule :: "obj \<Rightarrow> ignition_module" where
  "LockModule params = \<lparr>module_id = ''LockModule'', module_contracts =
     [(''lock'', ''Lock'', [parameter params ''unlockTime'' (num 1893456000)],
       parameter params ''lockedAmount'' (num 1000000000))]\<rparr>"

definition MyTokenModule :: "obj \<Rightarrow> ignition_module" where
  "MyTokenModule params = \<lparr>module_id = ''MyTokenModule'', module_contracts =
     [(''token'', ''MyToken'', [Str ''Hello Token'', Str ''HT'', num 1000, num 18], num 0)]\<rparr>"

definition EthPriceFeedModule :: "obj \<Rightarrow> ignition_module" where
  "EthPriceFeedModule params = \<lparr>module_id = ''EthPriceFeedModule'', module_contracts =
     [(''ethPriceFeed'', ''EthPriceFeed'', [Str ''0x694AA1769357215DE4FAC081bf1f309aDC325306''], num 0)]\<rparr>"

definition IntervalCounterModule :: "obj \<Rightarrow> ignition_module" where
  "IntervalCounterModule params = \<lparr>module_id = ''IntervalCounter'', module_contracts =
     [(''intervalCounter'', ''IntervalCounter'', [Str ''10''], num 0)]\<rparr>"

definition SimpleStorageModule :: "obj \<Rightarrow> ignition_module" where
  "SimpleStorageModule params = \<lparr>module_id = ''SimpleStorageModule'', module_contracts =
     [(''simpleStorage'', ''SimpleStorage'', [], num 0)]\<rparr>"

section \<open>hardhat.config.js\<close>

definition key_list :: "(string \<rightharpoonup> string) \<Rightarrow> string \<Rightarrow> val" where
  "key_list env k = (if truthy (env k) then Arr [env_val env k] else Arr [])"

definition hardhat_config :: "(string \<rightharpoonup> string) \<Rightarrow> obj" where
  "hardhat_config env = [
     (''solidity'', Obj [(''version'', Str ''0.8.28''),
       (''settings'', Obj [(''optimizer'', Obj [(''enabled'', Bool True), (''runs'', num 200)])])]),
     (''networks'', Obj [
       (''localhost'', Obj [(''url'', Str ''http://127.0.0.1:8545''), (''accounts'', key_list env ''PRIVATE_KEY'')]),
       (''sepolia'', Obj [(''url'', env_or_empty env ''ALCHEMY_SEPOLIA_URL''),
          (''accounts'', key_list env ''SEPOLIA_PRIVATE_KEY'')])]),
     (''gasReporter'', Obj [(''enabled'', Bool True), (''currency'', Str ''USD''),
       (''coinmarketcap'', env_val env ''COINMARKETCAP_API_KEY''), (''gasPrice'', num 20),
       (''showTimeSpent'', Bool True), (''showMethodSig'', Bool True), (''outputFile'', Str []), (''noColors'', Bool True)]),
     (''abiExporter'', Obj [(''path'', Str ''./abi''), (''runOnCompile'', Bool True), (''clear'', Bool True),
       (''flat'', Bool True), (''only'', Arr []), (''spacing'', num 2), (''format'', Str ''json'')]),
     (''coverage'', Obj [(''excludeContracts'', Arr [Str ''Migrations'']), (''skipFiles'', Arr [Str ''mocks/'', Str ''test/'']),
       (''measureStatementCoverage'', Bool True), (''measureFunctionCoverage'', Bool True),
       (''measureBranchCoverage'', Bool True)]),
     (''etherscan'', Obj [(''apiKey'', env_or_empty env ''ETHERSCAN_API_KEY'')])]"

end
