(* ===== verification/Hardhat_Props.thy ===== *)
theory Hardhat_Props
  imports Hardhat_Scripts
begin

text \<open>
  Properties of the Hardhat tasks: the files that \<open>deploy-ignition\<close> leaves, and what
  \<open>save-ignition-deployment\<close> writes instead.
\<close>

section \<open>The journal\<close>

text \<open>The last confirmation of a future wins.\<close>

definition confirms :: "string \<Rightarrow> val option \<Rightarrow> val option" where
  "confirms k line = (case line of
     Some (Obj e) \<Rightarrow> if get ''type'' e = Str ''TRANSACTION_CONFIRM'' \<and> truthy_val (get ''hash'' e) \<and>
       to_string (get ''futureId'' e) = k then Some (get ''hash'' e) else None
   | _ \<Rightarrow> None)"

lemma collect_confirms:
  "get k (collect ''TRANSACTION_CONFIRM'' ''hash'' line t) =
     (case confirms k line of None \<Rightarrow> get k t | Some h \<Rightarrow> h)"
proof (cases line)
  case (Some e)
  then show ?thesis by (cases e) (auto simp: collect_def confirms_def)
qed (simp add: collect_def confirms_def)

lemma journal_last_wins:
  "get k (fold (collect ''TRANSACTION_CONFIRM'' ''hash'') ls t) =
     (case List.map_filter (confirms k) ls of [] \<Rightarrow> get k t | hs \<Rightarrow> last hs)"
  by (induction ls arbitrary: t) (auto simp: collect_confirms split: option.split list.split)

section \<open>Loops that write files\<close>

definition written :: "('a \<Rightarrow> string) \<Rightarrow> ('a \<Rightarrow> json \<Rightarrow> bool) \<Rightarrow> 'a list \<Rightarrow> net \<Rightarrow> net \<Rightarrow> bool" where
  "written path C xs d s \<longleftrightarrow> (\<forall>p. p \<notin> path ` set xs \<longrightarrow> files s p = files d p) \<and>
     (\<forall>ys x zs. xs = ys @ x # zs \<longrightarrow> path x \<notin> path ` set zs \<longrightarrow> (\<exists>j. C x j \<and> files s (path x) = Some j))"

lemma written_Nil: "written path C [] d d"
  by (simp add: written_def)

lemma written_snoc:
  assumes "written path C xs d s" and "C x j"
  shows "written path C (xs @ [x]) d (s\<lparr>files := (files s)(path x \<mapsto> j)\<rparr>)"
  unfolding written_def
proof (intro conjI allI impI)
  fix p assume "p \<notin> path ` set (xs @ [x])"
  then show "files (s\<lparr>files := (files s)(path x \<mapsto> j)\<rparr>) p = files d p"
    using assms(1) by (auto simp: written_def)
next
  fix ys y zs assume e: "xs @ [x] = ys @ y # zs" and n: "path y \<notin> path ` set zs"
  show "\<exists>j'. C y j' \<and> files (s\<lparr>files := (files s)(path x \<mapsto> j)\<rparr>) (path y) = Some j'"
  proof (cases zs rule: rev_cases)
    case Nil
    with e assms(2) show ?thesis by auto
  next
    case (snoc zs' z)
    with e have xs: "xs = ys @ y # zs'" and z: "z = x" by auto
    with n snoc have "path y \<noteq> path x" "path y \<notin> path ` set zs'" by auto
    moreover from assms(1) xs this(2) obtain j' where "C y j'" "files s (path y) = Some j'"
      unfolding written_def by blast
    ultimately show ?thesis by auto
  qed
qed

lemma foreach_writes:
  assumes "\<And>x s. runs v s (f x) (\<lambda>_ s'. \<exists>j. C x j \<and> s' = s\<lparr>files := (files s)(path x \<mapsto> j)\<rparr>) (\<lambda>_. True)"
  shows "runs v d (foreach xs f) (\<lambda>_. written path C xs d) (\<lambda>_. True)"
proof (induction xs rule: rev_induct)
  case Nil
  show ?case by (simp add: runs_ret written_Nil)
next
  case (snoc x xs)
  have "triple v (written path C xs d) (f x) (\<lambda>_. written path C (xs @ [x]) d) (\<lambda>_. True)"
  proof (rule runs_all)
    fix s assume s: "written path C xs d s"
    show "runs v s (f x) (\<lambda>_. written path C (xs @ [x]) d) (\<lambda>_. True)"
      by (rule runs_conseq [OF assms]) (auto intro: written_snoc [OF s])
  qed
  then have "triple v (written path C xs d) (foreach [x] f) (\<lambda>_. written path C (xs @ [x]) d) (\<lambda>_. True)"
    by (auto simp: seqio_def intro!: triple_bind triple_ret)
  with snoc show ?case unfolding foreach_append by (rule triple_seq)
qed

section \<open>The steps of the tasks\<close>

definition journal_tables :: "net \<Rightarrow> string \<Rightarrow> obj \<times> obj" where
  "journal_tables s cid = (case files s (journal_file cid) of
     None \<Rightarrow> ([], []) | Some j \<Rightarrow> (transactions_of j, constructor_args_of j))"

lemma output_outside: "\<not> prefix ignition_dir (output_file H cid n)"
  by (simp add: ignition_dir_def output_file_def)

lemma ignition_paths: "prefix ignition_dir (addresses_file cid)" "prefix ignition_dir (journal_file cid)"
  by (simp_all add: addresses_file_def journal_file_def)

lemma output_file_eq [simp]: "output_file H cid a = output_file H cid b \<longleftrightarrow> a = b"
  by (simp add: output_file_def)

context chain_rpc
begin

lemma read_bind:
  assumes "R d" and "\<And>x. files d p = Some x \<Longrightarrow> runs v d (g x) Q R"
  shows "runs v d (bindio (readFile H p) g) Q R"
proof (rule runs_bind_all)
  show "runs v d (readFile H p) (\<lambda>x s. s = d \<and> files d p = Some x) R"
  proof (rule tripleI)
    fix w assume w: "v w = d"
    obtain r w1 where m: "readFile H p w = (r, w1)" by fastforce
    have "v w1 = d" using readFile(1) [of p] w m unfolding silent_def by (metis snd_conv)
    then show "outcome v (\<lambda>x s. s = d \<and> files d p = Some x) R (readFile H p w)"
      using m assms(1) w readFile(2) [of p w] by (cases r) auto
  qed
qed (use assms(2) in auto)

lemma exists_bind: "R d \<Longrightarrow> runs v d (g (files d p \<noteq> None)) Q R \<Longrightarrow> runs v d (bindio (existsFile H p) g) Q R"
  by (rule runs_reading [OF existsFile]) auto

lemma journal_bind:
  assumes "R d" and "runs v d (g (journal_tables d cid)) Q R"
  shows "runs v d (bindio (read_journal H cid) g) Q R"
  unfolding read_journal_def bindio_assoc
proof (rule exists_bind, rule assms(1))
  show "runs v d (bindio (if files d (journal_file cid) \<noteq> None
      then bindio (readFile H (journal_file cid)) (\<lambda>j. ret (transactions_of j, constructor_args_of j))
      else ret ([], [])) g) Q R"
  proof (cases "files d (journal_file cid)")
    case None
    with assms(2) show ?thesis by (simp add: journal_tables_def)
  next
    case (Some j)
    have "runs v d (bindio (readFile H (journal_file cid))
        (\<lambda>j. bindio (ret (transactions_of j, constructor_args_of j)) g)) Q R"
      by (rule read_bind, rule assms(1)) (use Some assms(2) in \<open>simp add: journal_tables_def\<close>)
    with Some show ?thesis by (simp add: bindio_assoc)
  qed
qed

lemma ensure_keeps: "keeps v I (ensure_dir H p)"
  unfolding ensure_dir_def by (intro keeps_intros keeps_silent silents)

lemma ensure_seq: "R d \<Longrightarrow> runs v d n Q R \<Longrightarrow> runs v d (seqio (ensure_dir H p) n) Q R"
  by (rule runs_seq [OF triple_conseq [OF ensure_keeps [where I = "\<lambda>s. s = d"]]]) auto

lemma verify_keeps: "keeps v I (verify_contract H argsMap c)"
proof -
  have "keeps v I (verification_failed x e)" for x e
    unfolding verification_failed_def by (cases x) (simp_all add: keeps_ret keeps_throw)
  then show ?thesis
    unfolding verify_contract_def Let_def case_prod_unfold by (intro keeps_intros keeps_silent [OF silents(18)])
qed

text \<open>What the record of one contract looks like.\<close>

definition contract_record :: "string \<Rightarrow> string \<Rightarrow> obj \<Rightarrow> string \<times> val \<Rightarrow> json \<Rightarrow> bool" where
  "contract_record cid m ts c j \<longleftrightarrow> (\<exists>now dep. j = Json (Obj (deployment_info H cid now dep m
     [(''contract'', Obj (contract_info ts (fst c) (snd c)))])))"

lemma save_contract_runs:
  "runs v s (save_contract H cid m signers ts c)
    (\<lambda>_ s'. \<exists>j. contract_record cid m ts c j \<and>
       s' = s\<lparr>files := (files s)(output_file H cid (contract_part (fst c)) \<mapsto> j)\<rparr>) (\<lambda>_. True)"
proof -
  obtain key adr where c: "c = (key, adr)" by fastforce
  show ?thesis
    unfolding save_contract_def c prod.case
    by (rule runs_silent_any [OF silents(4)], simp, rule runs_lift, simp, rule runs_write [OF writeFile])
      (auto simp: contract_record_def)
qed

lemma save_contracts_runs:
  "runs v d (save_contracts H cid base verify tables cs)
    (\<lambda>_. written (\<lambda>c. output_file H cid (contract_part (fst c))) (contract_record cid base (fst tables)) cs d)
    (\<lambda>_. True)"
proof -
  let ?W = "written (\<lambda>c. output_file H cid (contract_part (fst c))) (contract_record cid base (fst tables)) cs d"
  have tail: "keeps v ?W (bindio (lift (first_address signers)) (\<lambda>_. bindio (isoDate H) (\<lambda>_. ret ())))" for signers
    unfolding lift_def by (intro keeps_intros keeps_silent [OF silents(4)])
  have "keeps v ?W (seqio (if verify then foreach cs (verify_contract H (snd tables)) else ret ())
      (bindio (lift (first_address signers)) (\<lambda>_. bindio (isoDate H) (\<lambda>_. ret ()))))" for signers
    by (intro keeps_seq keeps_if keeps_foreach verify_keeps keeps_ret tail)
  then have last: "triple v ?W (seqio (if verify then foreach cs (verify_contract H (snd tables)) else ret ())
      (bindio (lift (first_address signers)) (\<lambda>_. bindio (isoDate H) (\<lambda>_. ret ())))) (\<lambda>_. ?W) (\<lambda>_. True)" for signers
    by (rule triple_conseq) auto
  show ?thesis
    unfolding save_contracts_def case_prod_unfold
    by (rule runs_silent_any [OF silents(5)], simp, rule ensure_seq, simp,
        rule triple_seq [OF foreach_writes [OF save_contract_runs] last])
qed

definition saved_module :: "string \<Rightarrow> string \<Rightarrow> string \<Rightarrow> net \<Rightarrow> net \<Rightarrow> bool" where
  "saved_module cid base m d s \<longleftrightarrow> (\<exists>x as. files d (addresses_file cid) = Some (Json x) \<and>
     parsed_entries (Json x) = Inr as \<and>
     written (\<lambda>c. output_file H cid (contract_part (fst c))) (contract_record cid base (fst (journal_tables d cid)))
       (filter (\<lambda>(key, adr). in_module (Str m) key) as) d s)"

lemma save_module_runs:
  assumes "member md ''id'' = Inr (Str m)" and "m \<noteq> []"
  shows "runs v d (save_module H cid base md verify) (\<lambda>_. saved_module cid base m d) (\<lambda>_. True)"
proof -
  have current: "current_module md base = Inr (Str m)" using assms by (simp add: current_module_def)
  show ?thesis
    unfolding save_module_def current lift_simps bindio_ret
  proof (rule read_bind, simp, rule runs_lift, simp, rule journal_bind, simp)
    fix j as assume j: "files d (addresses_file cid) = Some j" and as: "parsed_entries j = Inr as"
    then obtain x where "j = Json x" by (cases j) auto
    with j as show "runs v d (save_contracts H cid base verify (journal_tables d cid)
        (filter (\<lambda>(key, adr). in_module (Str m) key) as)) (\<lambda>_. saved_module cid base m d) (\<lambda>_. True)"
      by (intro runs_conseq [OF save_contracts_runs]) (auto simp: saved_module_def)
  qed
qed

lemma deploy_ignition_runs:
  assumes "returning (getNetworkChainId H) cid" and "returning (loadModule H path) md"
    and "member md ''id'' = Inr (Str m)" and "m \<noteq> []"
  shows "runs v d (deploy_ignition H path verify)
    (\<lambda>_ s. \<exists>d'. same_outside d d' \<and>
       (if files d' (addresses_file cid) = None then s = d' else saved_module cid (module_base path) m d' s)) (\<lambda>_. True)"
  unfolding deploy_ignition_def
proof (rule runs_returning [OF silents(1) assms(1)], rule runs_returning [OF silents(19) assms(2)],
    rule runs_moving [OF ignitionDeploy], simp, rule exists_bind, simp)
  fix d' assume same: "same_outside d d'"
  show "runs v d' (if files d' (addresses_file cid) \<noteq> None
      then save_module H cid (module_base path) md verify else ret ())
    (\<lambda>_ s. \<exists>d'. same_outside d d' \<and>
       (if files d' (addresses_file cid) = None then s = d' else saved_module cid (module_base path) m d' s)) (\<lambda>_. True)"
    using same by (cases "files d' (addresses_file cid) = None")
      (auto intro!: runs_ret runs_conseq [OF save_module_runs [OF assms(3,4)]])
qed

text \<open>The record that \<open>save-ignition-deployment\<close> writes for a module.\<close>

definition full_record :: "string \<Rightarrow> obj \<Rightarrow> obj \<Rightarrow> string \<Rightarrow> json \<Rightarrow> bool" where
  "full_record cid as ts m j \<longleftrightarrow> (\<exists>now dep. j = Json (Obj (deployment_info H cid now dep m
     [(''contracts'', Arr (map (\<lambda>(key, adr). Obj (contract_info ts key adr)) as))])))"

lemma save_all_info_runs:
  "runs v s (save_all_info H cid as ts signers m)
    (\<lambda>_ s'. \<exists>j. full_record cid as ts m j \<and> s' = s\<lparr>files := (files s)(output_file H cid m \<mapsto> j)\<rparr>) (\<lambda>_. True)"
  unfolding save_all_info_def
  by (rule runs_silent_any [OF silents(4)], simp, rule runs_lift, simp, rule ensure_seq, simp,
      rule runs_write [OF writeFile]) (auto simp: full_record_def)

lemma save_task_runs:
  assumes "returning (getNetworkChainId H) cid" and "files d (addresses_file cid) = Some (Json (Obj as))"
  shows "runs v d (save_ignition_deployment H)
    (\<lambda>_. written (output_file H cid) (full_record cid as (fst (journal_tables d cid)))
       (set_of (map (module_part \<circ> fst) as)) d) (\<lambda>_. True)"
  unfolding save_ignition_deployment_def
proof (rule runs_returning [OF silents(1) assms(1)], rule exists_bind, simp, rule runs_if)
  show "runs v d (bindio (readFile H (addresses_file cid)) (\<lambda>j.
     bindio (lift (case j of Json x \<Rightarrow> Inr x | _ \<Rightarrow> Inl (JsError ''Unexpected token in JSON''))) (\<lambda>parsed.
     bindio (read_journal H cid) (\<lambda>(transactions, _).
     bindio (getSigners H) (\<lambda>signers.
     bindio (lift (parsed_entries (Json parsed))) (\<lambda>deployedAddresses.
     foreach (set_of (map (\<lambda>(key, adr). module_part key) deployedAddresses))
       (save_all_info H cid deployedAddresses transactions signers)))))))
    (\<lambda>_. written (output_file H cid) (full_record cid as (fst (journal_tables d cid)))
       (set_of (map (module_part \<circ> fst) as)) d) (\<lambda>_. True)"
  proof (rule read_bind, simp, rule runs_lift, simp, rule journal_bind, simp, unfold case_prod_unfold,
      rule runs_silent_any [OF silents(5)], simp, rule runs_lift, simp)
    fix j parsed signers es
    assume "files d (addresses_file cid) = Some j"
      and "(case j of Json x \<Rightarrow> Inr x | _ \<Rightarrow> Inl (JsError ''Unexpected token in JSON'')) = Inr parsed"
      and "parsed_entries (Json parsed) = Inr es"
    with assms(2) have es: "es = as" by auto
    show "runs v d (foreach (set_of (map (\<lambda>p. module_part (fst p)) es))
        (save_all_info H cid es (fst (journal_tables d cid)) signers))
      (\<lambda>_. written (output_file H cid) (full_record cid as (fst (journal_tables d cid)))
       (set_of (map (module_part \<circ> fst) as)) d) (\<lambda>_. True)"
      unfolding es comp_def by (rule foreach_writes [OF save_all_info_runs])
  qed
qed (use assms(2) in simp)

end

section \<open>Properties\<close>

lemma written_at:
  assumes "written path C xs d s" and "x \<in> set xs" and "inj path"
  obtains j where "C x j" and "files s (path x) = Some j"
proof -
  from split_list_last [OF assms(2)] obtain ys zs where xs: "xs = ys @ x # zs" and "x \<notin> set zs" by blast
  then have "path x \<notin> path ` set zs" using assms(3) by (auto dest: injD)
  with assms(1) xs show thesis using that unfolding written_def by blast
qed

lemma written_elsewhere: "written path C xs d s \<Longrightarrow> p \<notin> path ` set xs \<Longrightarrow> files s p = files d p"
  by (simp add: written_def)

text \<open>Two modules on one chain.\<close>

definition demo_addresses :: obj where
  "demo_addresses = [(''A#Token'', Str ''0x1''), (''B#Lock'', Str ''0x2'')]"

definition demo_chain :: sim where
  "demo_chain = \<lparr>snet = \<lparr>trace = [], files = [addresses_file ''31337'' \<mapsto> Json (Obj demo_addresses),
     journal_file ''31337'' \<mapsto> Lines [None, Some (Obj [(''type'', Str ''TRANSACTION_CONFIRM''),
       (''futureId'', Str ''A#Token''), (''hash'', Str ''0xaa'')])]]\<rparr>, sfaults = []\<rparr>"

abbreviation demo_hre :: "sim hre" where
  "demo_hre \<equiv> calm_hre ''local'' (\<lambda>_ _ _ _. Undef)"

text \<open>A successful \<open>deploy-ignition\<close> writes, for every contract of the deployed module, a record with its
  address and the hash of its last confirmed transaction (or \<open>N/A\<close>), where a later contract of the same name
  replaces an earlier one. Outside of Ignition's directory it changes no other file: contracts of other
  modules on the same chain get no record.\<close>

theorem deploy_saves_module:
  assumes "chain_rpc H v" and "returning (getNetworkChainId H) cid" and "returning (loadModule H path) md"
    and "member md ''id'' = Inr (Str m)" and "m \<noteq> []"
    and "deploy_ignition H path verify w = (Inr (), w')"
    and "files (v w') (addresses_file cid) = Some (Json (Obj as))"
  shows "(\<forall>ys key adr zs. filter (\<lambda>(key, adr). in_module (Str m) key) as = ys @ (key, adr) # zs \<longrightarrow>
      contract_part key \<notin> (contract_part \<circ> fst) ` set zs \<longrightarrow>
      (\<exists>now dep. files (v w') (output_file H cid (contract_part key)) = Some (Json (Obj
        (deployment_info H cid now dep (module_base path)
          [(''contract'', Obj (contract_info (fst (journal_tables (v w') cid)) key adr))]))))) \<and>
    (\<forall>p. \<not> prefix ignition_dir p \<longrightarrow>
      p \<notin> (\<lambda>(key, adr). output_file H cid (contract_part key)) ` set (filter (\<lambda>(key, adr). in_module (Str m) key) as) \<longrightarrow>
      files (v w') p = files (v w) p)"
proof -
  let ?path = "\<lambda>c. output_file H cid (contract_part (fst c))"
  let ?cs = "filter (\<lambda>(key, adr). in_module (Str m) key) as"
  from tripleD_ok [OF chain_rpc.deploy_ignition_runs [OF assms(1-5)] refl assms(6)] obtain d' where
    same: "same_outside (v w) d'"
    and d': "if files d' (addresses_file cid) = None then v w' = d'
      else chain_rpc.saved_module H cid (module_base path) m d' (v w')" by blast
  with assms(7) have "chain_rpc.saved_module H cid (module_base path) m d' (v w')" by (auto split: if_splits)
  then obtain x es where x: "files d' (addresses_file cid) = Some (Json x)" "parsed_entries (Json x) = Inr es"
    and W: "written ?path (chain_rpc.contract_record H cid (module_base path) (fst (journal_tables d' cid)))
       (filter (\<lambda>(key, adr). in_module (Str m) key) es) d' (v w')"
    unfolding chain_rpc.saved_module_def [OF assms(1)] by blast
  have kept: "files (v w') p = files d' p" if "prefix ignition_dir p" for p
    by (rule written_elsewhere [OF W]) (use that output_outside in auto)
  with assms(7) x ignition_paths(1) have es: "es = as" by simp
  have J: "journal_tables d' cid = journal_tables (v w') cid"
    using kept [OF ignition_paths(2)] by (simp add: journal_tables_def)
  have "\<exists>now dep. files (v w') (output_file H cid (contract_part key)) = Some (Json (Obj
        (deployment_info H cid now dep (module_base path)
          [(''contract'', Obj (contract_info (fst (journal_tables (v w') cid)) key adr))])))"
    if "?cs = ys @ (key, adr) # zs" and "contract_part key \<notin> (contract_part \<circ> fst) ` set zs" for ys key adr zs
  proof -
    from that(2) have "?path (key, adr) \<notin> ?path ` set zs" by (auto simp: image_iff)
    with W that(1) obtain j where "chain_rpc.contract_record H cid (module_base path)
        (fst (journal_tables d' cid)) (key, adr) j" "files (v w') (?path (key, adr)) = Some j"
      unfolding es written_def by blast
    then show ?thesis unfolding chain_rpc.contract_record_def [OF assms(1)] J by auto
  qed
  moreover have "files (v w') p = files (v w) p"
    if "\<not> prefix ignition_dir p" and "p \<notin> (\<lambda>(key, adr). output_file H cid (contract_part key)) ` set ?cs" for p
  proof -
    have "p \<notin> ?path ` set ?cs" using that(2) by (auto simp: case_prod_unfold)
    from written_elsewhere [OF W [unfolded es] this] same that(1) show ?thesis by (simp add: same_outside_def)
  qed
  ultimately show ?thesis by blast
qed

lemma deploy_saves_module_witness:
  "files (snet (snd (deploy_ignition demo_hre ''A'' True demo_chain))) (output_file demo_hre ''31337'' ''Lock'') = None \<and>
   (\<exists>now dep. files (snet (snd (deploy_ignition demo_hre ''A'' True demo_chain))) (output_file demo_hre ''31337'' ''Token'') =
     Some (Json (Obj (deployment_info demo_hre ''31337'' now dep ''A'' [(''contract'', Obj [(''name'', Str ''Token''),
       (''address'', Str ''0x1''), (''transactionHash'', Str ''0xaa'')])]))))"
proof -
  let ?r = "deploy_ignition demo_hre ''A'' True demo_chain"
  have "fst ?r = Inr ()" by code_simp
  then have r: "?r = (Inr (), snd ?r)" by (simp add: prod_eq_iff)
  have a: "files (snet (snd ?r)) (addresses_file ''31337'') = Some (Json (Obj demo_addresses))" by code_simp
  have f: "filter (\<lambda>(key, adr). in_module (Str ''A'') key) demo_addresses = [] @ (''A#Token'', Str ''0x1'') # []" by code_simp
  have n: "contract_part ''A#Token'' = ''Token''" by code_simp
  have b: "module_base ''A'' = ''A''" by code_simp
  have i: "contract_info (fst (journal_tables (snet (snd ?r)) ''31337'')) ''A#Token'' (Str ''0x1'') =
     [(''name'', Str ''Token''), (''address'', Str ''0x1''), (''transactionHash'', Str ''0xaa'')]" by code_simp
  have l: "files (snet demo_chain) (output_file demo_hre ''31337'' ''Lock'') = None" by code_simp
  have m: "member (Obj [(''id'', Str ''A'')]) ''id'' = Inr (Str ''A'')" and ne: "''A'' \<noteq> ''''" by simp_all
  note all = deploy_saves_module [where H = demo_hre and v = snet and cid = "''31337''" and path = "''A''" and m = "''A''",
      OF calm.chain_rpc_axioms calm_returning(1) calm_returning(2) m ne r a]
  have one: "\<exists>now dep. files (snet (snd ?r)) (output_file demo_hre ''31337'' (contract_part ''A#Token'')) = Some (Json (Obj
      (deployment_info demo_hre ''31337'' now dep (module_base ''A'')
        [(''contract'', Obj (contract_info (fst (journal_tables (snet (snd ?r)) ''31337'')) ''A#Token'' (Str ''0x1'')))])))"
    by (rule conjunct1 [OF all, rule_format], rule f) simp
  have "files (snet (snd ?r)) (output_file demo_hre ''31337'' ''Lock'') = files (snet demo_chain) (output_file demo_hre ''31337'' ''Lock'')"
    by (rule conjunct2 [OF all, rule_format], rule output_outside) (simp add: f n)
  from trans [OF this l] have two: "files (snet (snd ?r)) (output_file demo_hre ''31337'' ''Lock'') = None" .
  from one two show ?thesis unfolding n b i by blast
qed

text \<open>\<open>save-ignition-deployment\<close> writes one file per module, and each of them lists the contracts of all
  modules: unlike \<open>deploy-ignition\<close> it does not select those of the module.\<close>

theorem save_task_mixes_modules:
  assumes "chain_rpc H v" and "returning (getNetworkChainId H) cid"
    and "files (v w) (addresses_file cid) = Some (Json (Obj as))"
    and "save_ignition_deployment H w = (Inr (), w')" and "(key, adr) \<in> set as"
  shows "\<exists>now dep. files (v w') (output_file H cid (module_part key)) = Some (Json (Obj
    (deployment_info H cid now dep (module_part key)
      [(''contracts'', Arr (map (\<lambda>(k, a). Obj (contract_info (fst (journal_tables (v w) cid)) k a)) as))])))"
proof -
  from tripleD_ok [OF chain_rpc.save_task_runs [OF assms(1-3)] refl assms(4)] have
    W: "written (output_file H cid) (chain_rpc.full_record H cid as (fst (journal_tables (v w) cid)))
      (set_of (map (module_part \<circ> fst) as)) (v w) (v w')" .
  have "module_part key \<in> set (set_of (map (module_part \<circ> fst) as))"
    using assms(5) by (force simp: set_of_def)
  from written_at [OF W this] obtain j where
    "chain_rpc.full_record H cid as (fst (journal_tables (v w) cid)) (module_part key) j"
    "files (v w') (output_file H cid (module_part key)) = Some j" by (auto simp: inj_def)
  then show ?thesis unfolding chain_rpc.full_record_def [OF assms(1)] by auto
qed

lemma save_task_mixes_modules_witness:
  "\<exists>now dep. files (snet (snd (save_ignition_deployment demo_hre demo_chain))) (output_file demo_hre ''31337'' ''B'') =
     Some (Json (Obj (deployment_info demo_hre ''31337'' now dep ''B'' [(''contracts'', Arr [
       Obj [(''name'', Str ''Token''), (''address'', Str ''0x1''), (''transactionHash'', Str ''0xaa'')],
       Obj [(''name'', Str ''Lock''), (''address'', Str ''0x2''), (''transactionHash'', Str ''N/A'')]])])))"
proof -
  let ?r = "save_ignition_deployment demo_hre demo_chain"
  have "fst ?r = Inr ()" by code_simp
  then have r: "?r = (Inr (), snd ?r)" by (simp add: prod_eq_iff)
  have a: "files (snet demo_chain) (addresses_file ''31337'') = Some (Json (Obj demo_addresses))" by code_simp
  have k: "(''B#Lock'', Str ''0x2'') \<in> set demo_addresses" by (simp add: demo_addresses_def)
  have n: "module_part ''B#Lock'' = ''B''" by code_simp
  have c: "map (\<lambda>(k, a). Obj (contract_info (fst (journal_tables (snet demo_chain) ''31337'')) k a)) demo_addresses =
    [Obj [(''name'', Str ''Token''), (''address'', Str ''0x1''), (''transactionHash'', Str ''0xaa'')],
     Obj [(''name'', Str ''Lock''), (''address'', Str ''0x2''), (''transactionHash'', Str ''N/A'')]]" by code_simp
  from save_task_mixes_modules [OF calm.chain_rpc_axioms calm_returning(1) a r k] show ?thesis unfolding n c .
qed

end
