(* ===== verification/Market_Scripts.thy ===== *)
theory Market_Scripts
  imports Nova_Scripts_Props
begin

text \<open>
  The scripts of the NFT marketplace, \<open>NFTMarketplace/EasySwapContract/scripts\<close>: \<open>deploy.js\<close>,
  \<open>deploy_721.js\<close>, \<open>interact.js\<close>, \<open>updateUseUpgradeProxy.js\<close> and the checks of \<open>hardhat.config.js\<close>. The
  global variables \<open>esDex\<close>, \<open>esVault\<close>, \<open>testERC721\<close>, \<open>deployer\<close> and \<open>trader\<close> of \<open>interact.js\<close> are arguments.
\<close>

section \<open>Data\<close>

datatype side = List | Bid

datatype sale_kind = FixedPriceForCollection | FixedPriceForItem

fun side_val :: "side \<Rightarrow> val" where
  "side_val List = num 0"
| "side_val Bid = num 1"

fun sale_kind_val :: "sale_kind \<Rightarrow> val" where
  "sale_kind_val FixedPriceForCollection = num 0"
| "sale_kind_val FixedPriceForItem = num 1"

record market_order =
  order_side :: side
  order_kind :: sale_kind
  order_maker :: val
  order_nft :: "val list"
  order_price :: int
  order_expiry :: int
  order_salt :: int

definition order_val :: "market_order \<Rightarrow> val" where
  "order_val ord = Obj [(''side'', side_val (order_side ord)), (''saleKind'', sale_kind_val (order_kind ord)),
     (''maker'', order_maker ord), (''nft'', Arr (order_nft ord)), (''price'', num (order_price ord)),
     (''expiry'', num (order_expiry ord)), (''salt'', num (order_salt ord))]"

text \<open>\<open>ethers.parseUnits("0.002", 18)\<close> and \<open>toBn("0.002")\<close>.\<close>

definition list_price :: int where
  "list_price = 2 * 10 ^ 15"

definition esDex_name :: string where
  "esDex_name = ''EasySwapOrderBook''"

definition esVault_name :: string where
  "esVault_name = ''EasySwapVault''"

definition erc721_name :: string where
  "erc721_name = ''TestERC721''"

definition erc721_address :: string where
  "erc721_address = ''0x5FbDB2315678afecb367f032d93F642f64180aa3''"

section \<open>interact.js\<close>

definition approvalForVault :: "'w hre \<Rightarrow> val \<Rightarrow> val \<Rightarrow> val \<Rightarrow> ('w, unit) io" where
  "approvalForVault H testERC721 esVault deployer =
     bindio (view_call H testERC721 ''isApprovedForAll'' [deployer, esVault]) (\<lambda>isApproved.
     if truthy_val isApproved then ret ()
     else send_and_wait H testERC721 ''setApprovalForAll'' [esVault, Bool True])"

definition sell_order :: "val \<Rightarrow> val \<Rightarrow> int \<Rightarrow> int \<Rightarrow> market_order" where
  "sell_order deployer nft tokenId now = \<lparr>order_side = List, order_kind = FixedPriceForItem, order_maker = deployer,
     order_nft = [num tokenId, nft, num 1], order_price = list_price, order_expiry = now, order_salt = 1\<rparr>"

definition testMakeOrder :: "'w hre \<Rightarrow> val \<Rightarrow> val \<Rightarrow> val \<Rightarrow> int \<Rightarrow> ('w, unit) io" where
  "testMakeOrder H testERC721 esDex deployer tokenId =
     bindio (dateNow H) (\<lambda>ms.
     send_and_wait H esDex ''makeOrders'' [Arr [order_val (sell_order deployer testERC721 tokenId (ms div 1000 + 100000))]])"

definition testCancelOrder :: "'w hre \<Rightarrow> val \<Rightarrow> val list \<Rightarrow> ('w, unit) io" where
  "testCancelOrder H esDex orderKeys = send_and_wait H esDex ''cancelOrders'' [Arr orderKeys]"

definition testMatchOrder :: "'w hre \<Rightarrow> val \<Rightarrow> val \<Rightarrow> val \<Rightarrow> ('w, unit) io" where
  "testMatchOrder H esDex deployer trader =
     (let sell = sell_order deployer (Str erc721_address) 0 1734937947;
          buy = sell\<lparr>order_side := Bid, order_kind := FixedPriceForCollection, order_maker := trader\<rparr> in
     send_and_wait H esDex ''matchOrder'' [order_val sell, order_val buy, Obj [(''from'', trader), (''value'', num list_price)]])"

definition testBatchTransferERC721 :: "'w hre \<Rightarrow> val \<Rightarrow> ('w, val) io" where
  "testBatchTransferERC721 H esVault =
     view_call H esVault ''batchTransferERC721'' [Str ''0x7752A564c941f7145AdF8B50AA2eC975cEf58689'',
       Arr [Arr [Str ''0x3c8ac104dcbf03ae12c9ac80aa830e1b39609e97'', num 1159]]]"

definition getOrderInfo :: "'w hre \<Rightarrow> val \<Rightarrow> val \<Rightarrow> ('w, val) io" where
  "getOrderInfo H esDex orderKey = view_call H esDex ''orders'' [orderKey]"

definition getfillsStat :: "'w hre \<Rightarrow> val \<Rightarrow> val \<Rightarrow> ('w, val) io" where
  "getfillsStat H esDex orderKey = view_call H esDex ''filledAmount'' [orderKey]"

definition withdrawProtocolFee :: "'w hre \<Rightarrow> val \<Rightarrow> val \<Rightarrow> ('w, unit) io" where
  "withdrawProtocolFee H esDex deployer =
     send_only H esDex ''withdrawETH'' [deployer, num (11 * 10 ^ 13), Obj [(''gasLimit'', num 100000)]]"

definition mint_and_list :: "'w hre \<Rightarrow> val \<Rightarrow> val \<Rightarrow> val \<Rightarrow> int \<Rightarrow> ('w, unit) io" where
  "mint_and_list H testERC721 esDex deployer i =
     seqio (send_only H testERC721 ''mint'' [deployer, num i]) (testMakeOrder H testERC721 esDex deployer i)"

text \<open>\<open>[deployer, trader] = await getSigners()\<close>; the addresses of both are read.\<close>

definition two_signers :: "val list \<Rightarrow> js_error + val \<times> val" where
  "two_signers signers = (case signers of
     deployer # trader # _ \<Rightarrow> Inr (deployer, trader) | _ \<Rightarrow> Inl (TypeError ''Cannot read properties of undefined''))"

definition interact_main :: "'w hre \<Rightarrow> ('w, unit) io" where
  "interact_main H =
     bindio (getSigners H) (\<lambda>signers.
     bindio (getSigners H) (\<lambda>_.
     bindio (lift (two_signers signers)) (\<lambda>accounts.
     seqio (getContractFactory H esVault_name)
     (bindio (deployProxy H esVault_name []) (\<lambda>esVault.
     bindio (view_call H esVault ''owner'' []) (\<lambda>_.
     seqio (getContractFactory H esDex_name)
     (bindio (deployProxy H esDex_name [num 200, esVault, Str esDex_name, Str ''1'']) (\<lambda>esDex.
     seqio (send_and_wait H esVault ''setOrderBook'' [esDex])
     (bindio (deploy H erc721_name []) (\<lambda>testERC721.
     seqio (approvalForVault H testERC721 esVault (fst accounts))
     (seqio (mint_and_list H testERC721 esDex (fst accounts) 0)
     (foreach [1..19] (mint_and_list H testERC721 esDex (fst accounts))))))))))))))"

section \<open>The other scripts\<close>

definition log_proxy :: "'w hre \<Rightarrow> val \<Rightarrow> ('w, unit) io" where
  "log_proxy H adr =
     bindio (erc1967 H ''implementation'' adr) (\<lambda>_. bindio (erc1967 H ''admin'' adr) (\<lambda>_. ret ()))"

definition first_signer :: "val list \<Rightarrow> js_error + val" where
  "first_signer signers = (case signers of
     [] \<Rightarrow> Inl (TypeError ''Cannot read properties of undefined'') | d # _ \<Rightarrow> Inr d)"

definition market_deploy :: "'w hre \<Rightarrow> ('w, unit) io" where
  "market_deploy H =
     bindio (getSigners H) (\<lambda>signers.
     bindio (lift (first_signer signers)) (\<lambda>_.
     seqio (getContractFactory H ''EasySwapVault'')
     (bindio (deployProxy H ''EasySwapVault'' []) (\<lambda>esVault.
     seqio (deployed H esVault)
     (seqio (log_proxy H esVault)
     (seqio (getContractFactory H ''EasySwapOrderBook'')
     (bindio (deployProxy H ''EasySwapOrderBook'' [num 200, esVault, Str ''EasySwapOrderBook'', Str ''1'']) (\<lambda>esDex.
     seqio (deployed H esDex)
     (seqio (log_proxy H esDex)
     (send_and_wait H esVault ''setOrderBook'' [esDex]))))))))))"

definition deploy_721 :: "'w hre \<Rightarrow> ('w, unit) io" where
  "deploy_721 H =
     bindio (getSigners H) (\<lambda>signers.
     bindio (lift (first_signer signers)) (\<lambda>deployer.
     seqio (getContractFactory H ''TestERC721'')
     (bindio (deploy H ''TestERC721'' []) (\<lambda>testERC721.
     send_and_wait H testERC721 ''mint'' [deployer, num 50]))))"

text \<open>Everything but the greeting is commented out.\<close>

definition updateUseUpgradeProxy :: "'w hre \<Rightarrow> ('w, unit) io" where
  "updateUseUpgradeProxy H =
     bindio (getSigners H) (\<lambda>signers. bindio (lift (first_signer signers)) (\<lambda>_. ret ()))"

record market_network =
  net_url :: string
  net_accounts :: "string option list option"
  net_chainId :: int

text \<open>\<open>hardhat.config.js\<close>: the keys it insists on, and the networks.\<close>

definition market_config :: "(string \<Rightarrow> string option) \<Rightarrow> js_error + (string \<times> market_network) list" where
  "market_config env =
     (if \<not> truthy (env ''SEPOLIA_PK'') then Inl (JsError ''Please set your SEPOLIA_PK in a .env file'')
      else if \<not> truthy (env ''SEPOLIA_ALCHEMY_AK'') then Inl (JsError ''Please set your SEPOLIA_ALCHEMY_AK in a .env file'')
      else if \<not> truthy (env ''BSC_TESTNET_ALCHEMY_AK'') then Inl (JsError ''Please set your BSC_TESTNET_ALCHEMY_AK in a .env file'')
      else Inr [
        (''mainnet'', \<lparr>net_url = ''https://eth-mainnet.g.alchemy.com/v2/'' @
           (case env ''MAINNET_ALCHEMY_AK'' of None \<Rightarrow> ''undefined'' | Some k \<Rightarrow> k), net_accounts = None, net_chainId = 1\<rparr>),
        (''sepolia'', \<lparr>net_url = ''https://eth-sepolia.g.alchemy.com/v2/'' @ the (env ''SEPOLIA_ALCHEMY_AK''),
           net_accounts = Some [env ''SEPOLIA_PK''], net_chainId = 11155111\<rparr>),
        (''bscTestnet'', \<lparr>net_url = ''https://bnb-testnet.g.alchemy.com/v2/'' @ the (env ''BSC_TESTNET_ALCHEMY_AK''),
           net_accounts = Some [env ''BSC_TESTNET_PK''], net_chainId = 97\<rparr>)])"

section \<open>What is sent\<close>

text \<open>The transactions before the loop: \<open>vt\<close>, \<open>dx\<close> and \<open>nf\<close> are the addresses of vault, exchange and token,
  \<open>skip\<close> says that the vault was approved already.\<close>

definition market_setup :: "val \<Rightarrow> val \<Rightarrow> val \<Rightarrow> bool \<Rightarrow> op list" where
  "market_setup vt dx nf skip = [Proxy esVault_name [] vt,
     Proxy esDex_name [num 200, vt, Str esDex_name, Str ''1''] dx, Send vt ''setOrderBook'' [dx],
     Deploy erc721_name [] nf] @ (if skip then [] else [Send nf ''setApprovalForAll'' [vt, Bool True]])"

definition listing :: "val \<Rightarrow> val \<Rightarrow> val \<Rightarrow> int \<Rightarrow> int \<Rightarrow> op list" where
  "listing nf dx dep i t = [Send nf ''mint'' [dep, num i],
     Send dx ''makeOrders'' [Arr [order_val (sell_order dep nf i t)]]]"

definition market_trace :: "val \<Rightarrow> val \<Rightarrow> val \<Rightarrow> bool \<Rightarrow> val \<Rightarrow> int list \<Rightarrow> op list" where
  "market_trace vt dx nf skip dep ts =
     market_setup vt dx nf skip @ concat (map2 (listing nf dx dep) [0..19] ts)"

definition market_begun :: "op list \<Rightarrow> net \<Rightarrow> bool" where
  "market_begun t s \<longleftrightarrow> (\<exists>vt dx nf skip dep ts. length ts = 20 \<and> prefix (trace s) (t @ market_trace vt dx nf skip dep ts))"

definition market_done :: "op list \<Rightarrow> net \<Rightarrow> bool" where
  "market_done t s \<longleftrightarrow> (\<exists>vt dx nf skip dep ts. length ts = 20 \<and> trace s = t @ market_trace vt dx nf skip dep ts)"

lemma market_begunI: "prefix (trace s) (t @ market_setup vt dx nf skip) \<Longrightarrow> market_begun t s"
proof -
  assume "prefix (trace s) (t @ market_setup vt dx nf skip)"
  then have "prefix (trace s) ((t @ market_setup vt dx nf skip) @ concat (map2 (listing nf dx Undef) [0..19] (replicate 20 0)))"
    by (rule prefix_prefix)
  then have "prefix (trace s) (t @ market_trace vt dx nf skip Undef (replicate 20 0))"
    by (simp add: market_trace_def del: upto_rec_numeral)
  then show ?thesis unfolding market_begun_def by (metis length_replicate)
qed

context chain_rpc
begin

lemma listing_runs:
  "runs v d (mint_and_list H nf dx dep i) (\<lambda>_ s. \<exists>t. trace s = trace d @ listing nf dx dep i t)
    (\<lambda>s. \<exists>t. prefix (trace s) (trace d @ listing nf dx dep i t))"
  unfolding mint_and_list_def testMakeOrder_def
  by (rule send_only_seq, simp, rule runs_silent_any [OF silents(3)])
    (auto simp: listing_def intro!: send_wait_last)

lemma listings_run:
  assumes "trace u = t @ market_setup vt dx nf skip"
  shows "runs v u (seqio (mint_and_list H nf dx dep 0) (foreach [1..19] (mint_and_list H nf dx dep)))
    (\<lambda>_. market_done t) (market_begun t)"
proof -
  have r: "(0::int) # [1..19] = [0..19]" by (simp add: upto.simps)
  have l: "length ([0..19] :: int list) = 20" by simp
  have "runs v u (foreach [0..19] (mint_and_list H nf dx dep)) (\<lambda>_. market_done t) (market_begun t)"
    by (rule runs_conseq [OF foreach_chunks [OF listing_runs]])
      (auto simp: market_done_def market_begun_def market_trace_def assms simp del: upto_rec_numeral; blast)+
  then show ?thesis unfolding r [symmetric] by simp
qed

lemma approval_seq:
  assumes "R d" and "R (traced (Send nf ''setApprovalForAll'' [vt, Bool True]) d)"
    and "runs v d m Q R" and "runs v (traced (Send nf ''setApprovalForAll'' [vt, Bool True]) d) m Q R"
  shows "runs v d (seqio (approvalForVault H nf vt dep) m) Q R"
  unfolding approvalForVault_def seqio_def bindio_assoc
proof (rule runs_silent_any [OF silents(16)], rule assms(1))
  fix x show "runs v d (bindio (if truthy_val x then ret ()
      else send_and_wait H nf ''setApprovalForAll'' [vt, Bool True]) (\<lambda>_. m)) Q R"
    using assms(3) send_wait_seq [OF assms(1,2,4)] by (simp add: seqio_def)
qed

lemma interact_runs: "runs v d (interact_main H) (\<lambda>_. market_done (trace d)) (market_begun (trace d))"
proof -
  let ?R = "market_begun (trace d)" and ?Q = "\<lambda>_. market_done (trace d)"
  have R: "?R s" if "trace s = trace d @ take k (market_setup vt dx nf skip)" for s k vt dx nf skip
    by (rule market_begunI [of _ _ vt dx nf skip]) (simp add: that take_is_prefix)
  have R0: "?R d" by (rule R [of _ 0]) simp
  let ?last = "\<lambda>nf dx dep. seqio (mint_and_list H nf dx dep 0) (foreach [1..19] (mint_and_list H nf dx dep))"
  have token: "runs v u (bindio (deploy H erc721_name []) (\<lambda>nf. seqio (approvalForVault H nf vt dep) (?last nf dx dep))) ?Q ?R"
    if u: "trace u = trace d @ take 3 (market_setup vt dx Undef True)" for u vt dx dep
  proof (rule deploy_bind, rule R, rule u)
    fix nf
    let ?u = "traced (Deploy erc721_name [] nf) u"
    have 1: "trace ?u = trace d @ market_setup vt dx nf True" using u by (simp add: market_setup_def numeral_eq_Suc)
    have 2: "trace (traced (Send nf ''setApprovalForAll'' [vt, Bool True]) ?u) = trace d @ market_setup vt dx nf False"
      using 1 by (simp add: market_setup_def)
    show "runs v ?u (seqio (approvalForVault H nf vt dep) (?last nf dx dep)) ?Q ?R"
    proof (rule approval_seq)
      show "?R ?u" by (rule market_begunI [of _ _ vt dx nf True]) (simp only: 1 prefix_order.refl)
      show "?R (traced (Send nf ''setApprovalForAll'' [vt, Bool True]) ?u)"
        by (rule market_begunI [of _ _ vt dx nf False]) (simp only: 2 prefix_order.refl)
    qed (rule listings_run [OF 1], rule listings_run [OF 2])
  qed
  have exchange: "runs v u (bindio (deployProxy H esDex_name [num 200, vt, Str esDex_name, Str ''1'']) (\<lambda>dx.
      seqio (send_and_wait H vt ''setOrderBook'' [dx])
     (bindio (deploy H erc721_name []) (\<lambda>nf. seqio (approvalForVault H nf vt dep) (?last nf dx dep))))) ?Q ?R"
    if u: "trace u = trace d @ [Proxy esVault_name [] vt]" for u vt dep
  proof (rule proxy_bind)
    show "?R u" by (rule R [of _ 1 vt Undef Undef True]) (simp add: u market_setup_def)
    fix dx
    let ?u = "traced (Proxy esDex_name [num 200, vt, Str esDex_name, Str ''1''] dx) u"
    show "runs v ?u (seqio (send_and_wait H vt ''setOrderBook'' [dx])
     (bindio (deploy H erc721_name []) (\<lambda>nf. seqio (approvalForVault H nf vt dep) (?last nf dx dep)))) ?Q ?R"
    proof (rule send_wait_seq)
      show "?R ?u" by (rule R [of _ 2 vt dx Undef True]) (simp add: u market_setup_def numeral_eq_Suc)
      show "?R (traced (Send vt ''setOrderBook'' [dx]) ?u)"
        by (rule R [of _ 3 vt dx Undef True]) (simp add: u market_setup_def numeral_eq_Suc)
    qed (rule token, simp add: u market_setup_def numeral_eq_Suc)
  qed
  show ?thesis
    unfolding interact_main_def
  proof (rule runs_silent_any [OF silents(5)], rule R0, rule runs_silent_any [OF silents(5)], rule R0, rule runs_lift, rule R0,
      rule factory_seq, rule R0, rule proxy_bind, rule R0, rule view_bind)
    fix vt
    show "?R (traced (Proxy esVault_name [] vt) d)"
      by (rule R [of _ 1 vt Undef Undef True]) (simp add: market_setup_def)
    then show "runs v (traced (Proxy esVault_name [] vt) d) (seqio (getContractFactory H esDex_name)
      (bindio (deployProxy H esDex_name [num 200, vt, Str esDex_name, Str ''1'']) (\<lambda>dx.
      seqio (send_and_wait H vt ''setOrderBook'' [dx])
     (bindio (deploy H erc721_name []) (\<lambda>nf. seqio (approvalForVault H nf vt (fst y)) (?last nf dx (fst y))))))) ?Q ?R" for y :: "val \<times> val"
      by (rule factory_seq) (rule exchange, simp)
  qed
qed

end

text \<open>C22: The marketplace script wires the contracts before it lists anything: on success it has sent the
  deployments and \<open>setOrderBook\<close>, the approval of the vault unless it was approved, and then twenty times the
  mint of token \<open>i\<close> followed by the order that lists token \<open>i\<close>; whatever fails, what it sent is a prefix of
  such a sequence, so no order is made for a token that was not minted.\<close>

theorem market_listings:
  assumes "chain_rpc H v" and "interact_main H w = (r, w')"
  shows "case r of Inr _ \<Rightarrow> market_done (trace (v w)) (v w') | Inl _ \<Rightarrow> market_begun (trace (v w)) (v w')"
  using tripleD [OF chain_rpc.interact_runs [OF assms(1)] refl, of w] assms(2) by (cases r) simp_all

lemma market_listings_witness:
  "\<exists>vt dx nf skip dep ts. length ts = 20 \<and> prefix (trace (snet (snd (interact_main
      (sim_hre ''local'' (\<lambda>_ _ _ _. Bool False)) (demo_sim\<lparr>sfaults := replicate 20 False @ [True]\<rparr>)))))
    (market_trace vt dx nf skip dep ts)"
proof -
  let ?w = "demo_sim\<lparr>sfaults := replicate 20 False @ [True]\<rparr>"
  obtain r w' where r: "interact_main (sim_hre ''local'' (\<lambda>_ _ _ _. Bool False)) ?w = (r, w')" by fastforce
  have t: "trace (snet ?w) = []" by (simp add: demo_sim_def)
  from market_listings [OF sim.chain_rpc_axioms r] have "market_begun [] (snet w') \<or> market_done [] (snet w')"
    unfolding t by (cases r) simp_all
  then have "market_begun [] (snet w')" unfolding market_begun_def market_done_def by (metis prefix_order.refl)
  then show ?thesis unfolding r by (simp add: market_begun_def)
qed

end
