(* ===== verification/Staking_Client.thy ===== *)
theory Staking_Client
  imports Effects
begin

text \<open>
  The staking client \<open>contracts-interaction-ts/src/index.js\<close>: one definition per function, over the two
  contracts it talks to. The abstract state is the list of transactions sent. In the locale
  \<open>staking_chain\<close> the balance of the staking contract is a function \<open>bal\<close> of that list, the reward and
  the expiry of a stake are fixed during a run, and any call may throw. So nobody else stakes into or withdraws from the
  contract while the script runs, and no stake expires between two of its calls; \<open>MyStake.sol\<close> itself compares the expiry
  with the time of the block, where a stake once expired stays so.
\<close>

section \<open>The contracts\<close>

datatype stake_op = Approve string int | Transfer string int | Stake int int | Withdraw int

record 'w contracts =
  token_decimals_call :: "('w, nat) io"
  token_balanceOf :: "string \<Rightarrow> ('w, int) io"
  token_approve :: "string \<Rightarrow> int \<Rightarrow> ('w, nat) io"
  token_transfer :: "string \<Rightarrow> int \<Rightarrow> ('w, nat) io"
  staking_activeStakes :: "string \<Rightarrow> ('w, int list) io"
  staking_reward :: "string \<Rightarrow> int \<Rightarrow> ('w, int) io"
  staking_expired :: "string \<Rightarrow> int \<Rightarrow> ('w, bool) io"
  staking_stake :: "int \<Rightarrow> int \<Rightarrow> ('w, nat) io"
  staking_withdraw :: "int \<Rightarrow> ('w, nat) io"
  tx_wait :: "nat \<Rightarrow> ('w, unit) io"

section \<open>The functions\<close>

text \<open>The function logs the decimals and returns nothing: \<open>None\<close> is \<open>undefined\<close>.\<close>

definition getTokenDecimal :: "'w contracts \<Rightarrow> ('w, nat option) io" where
  "getTokenDecimal E = bindio (token_decimals_call E) (\<lambda>decimal. ret None)"

definition getTokenBalance :: "'w contracts \<Rightarrow> string \<Rightarrow> ('w, int) io" where
  "getTokenBalance E adr = token_balanceOf E adr"

definition approveSpender :: "'w contracts \<Rightarrow> string \<Rightarrow> int \<Rightarrow> ('w, unit) io" where
  "approveSpender E spender amount = bindio (token_approve E spender amount) (tx_wait E)"

definition transfer :: "'w contracts \<Rightarrow> string \<Rightarrow> int \<Rightarrow> ('w, unit) io" where
  "transfer E to amount = bindio (token_transfer E to amount) (tx_wait E)"

definition getUserActiveStakes :: "'w contracts \<Rightarrow> string \<Rightarrow> ('w, int list) io" where
  "getUserActiveStakes E user = staking_activeStakes E user"

definition calculateReward :: "'w contracts \<Rightarrow> string \<Rightarrow> int \<Rightarrow> ('w, int) io" where
  "calculateReward E user i = staking_reward E user i"

definition isStakeExpired :: "'w contracts \<Rightarrow> string \<Rightarrow> int \<Rightarrow> ('w, bool) io" where
  "isStakeExpired E user i = staking_expired E user i"

definition stake :: "'w contracts \<Rightarrow> int \<Rightarrow> int \<Rightarrow> ('w, unit) io" where
  "stake E amount period = bindio (staking_stake E amount period) (tx_wait E)"

definition withdraw :: "'w contracts \<Rightarrow> int \<Rightarrow> ('w, unit) io" where
  "withdraw E i = bindio (staking_withdraw E i) (tx_wait E)"

definition stakeContractAddress :: string where
  "stakeContractAddress = ''0x6287A4e265CfEA1B9C87C1dC692363d69f58378c''"

text \<open>\<open>ethers.parseUnits('100', decimal)\<close>: an undefined \<open>decimal\<close> is the default 18.\<close>

definition parseUnits100 :: "nat option \<Rightarrow> int" where
  "parseUnits100 decimal = 100 * 10 ^ (case decimal of None \<Rightarrow> 18 | Some n \<Rightarrow> n)"

definition settle_stake :: "'w contracts \<Rightarrow> string \<Rightarrow> int \<Rightarrow> ('w, unit) io" where
  "settle_stake E wallet i =
     bindio (calculateReward E wallet i) (\<lambda>reward.
     bindio (getTokenBalance E stakeContractAddress) (\<lambda>stakingTokenBalance.
     seqio (if reward > stakingTokenBalance
            then transfer E stakeContractAddress (reward - stakingTokenBalance) else ret ())
     (bindio (isStakeExpired E wallet i) (\<lambda>expired.
     if expired then withdraw E i else ret ()))))"

definition staking_main :: "'w contracts \<Rightarrow> string \<Rightarrow> ('w, unit) io" where
  "staking_main E wallet =
     bindio (getTokenBalance E wallet) (\<lambda>_.
     bindio (getTokenDecimal E) (\<lambda>decimal.
     bindio (getUserActiveStakes E wallet) (\<lambda>stakes.
     seqio
       (if length stakes = 0 then
          (let amount = parseUnits100 decimal in
           seqio (approveSpender E stakeContractAddress amount) (stake E amount 0))
        else ret ())
     (bindio (getUserActiveStakes E wallet) (\<lambda>stakes.
     seqio (foreach stakes (settle_stake E wallet))
     (bindio (getTokenBalance E wallet) (\<lambda>_. ret ())))))))"

section \<open>The laws\<close>

locale staking_chain =
  fixes E :: "'w contracts" and v :: "'w \<Rightarrow> stake_op list"
    and act :: "string \<Rightarrow> stake_op list \<Rightarrow> int list" and bal :: "stake_op list \<Rightarrow> int" and rw :: "int \<Rightarrow> int" and ex :: "int \<Rightarrow> bool"
  assumes decimals_call: "silent v (token_decimals_call E)"
    and any_balance: "silent v (token_balanceOf E adr)"
    and contract_balance: "reading v (token_balanceOf E stakeContractAddress) bal"
    and active: "reading v (staking_activeStakes E adr) (act adr)"
    and reward: "reading v (staking_reward E adr i) (\<lambda>_. rw i)"
    and expired: "reading v (staking_expired E adr i) (\<lambda>_. ex i)"
    and approve: "writing v (token_approve E adr x) (\<lambda>t. t @ [Approve adr x])"
    and token_transfer: "writing v (token_transfer E adr x) (\<lambda>t. t @ [Transfer adr x])"
    and stake_call: "writing v (staking_stake E x p) (\<lambda>t. t @ [Stake x p])"
    and withdraw_call: "writing v (staking_withdraw E i) (\<lambda>t. t @ [Withdraw i])"
    and waiting: "silent v (tx_wait E n)"
    and bal_transfer: "bal (t @ [Transfer stakeContractAddress x]) = bal t + x"
begin

lemma active_silent: "silent v (staking_activeStakes E adr)"
  using active [of adr] by (auto simp: silent_def reading_def)

lemma wait_runs: "R d \<Longrightarrow> Q () d \<Longrightarrow> runs v d (tx_wait E n) Q R"
  using waiting [of n] by (auto simp: silent_def triple_def outcome_def split: sum.split)

end

text \<open>Every withdrawal among the transactions \<open>new\<close>, sent after \<open>d\<close>, is of an expired stake whose reward
  the contract holds at that moment.\<close>

definition solvent :: "(stake_op list \<Rightarrow> int) \<Rightarrow> (int \<Rightarrow> int) \<Rightarrow> (int \<Rightarrow> bool) \<Rightarrow> stake_op list \<Rightarrow> stake_op list \<Rightarrow> bool" where
  "solvent bal rw ex d new \<longleftrightarrow> (\<forall>ys i zs. new = ys @ Withdraw i # zs \<longrightarrow> ex i \<and> rw i \<le> bal (d @ ys))"

lemma solvent_Nil: "solvent bal rw ex d []"
  by (simp add: solvent_def)

lemma solvent_snoc:
  assumes "solvent bal rw ex d new" and "\<And>i. p = Withdraw i \<Longrightarrow> ex i \<and> rw i \<le> bal (d @ new)"
  shows "solvent bal rw ex d (new @ [p])"
  unfolding solvent_def
proof (intro allI impI)
  fix ys i zs assume "new @ [p] = ys @ Withdraw i # zs"
  then show "ex i \<and> rw i \<le> bal (d @ ys)"
    using assms by (cases zs rule: rev_cases) (auto simp: solvent_def)
qed

context staking_chain
begin

definition safe :: "stake_op list \<Rightarrow> stake_op list \<Rightarrow> bool" where
  "safe d s \<longleftrightarrow> (\<exists>new. s = d @ new \<and> solvent bal rw ex d new)"

lemma safe_refl: "safe d d"
  by (auto simp: safe_def solvent_Nil)

lemma safe_snoc:
  "safe d s \<Longrightarrow> (\<And>i. p = Withdraw i \<Longrightarrow> ex i \<and> rw i \<le> bal s) \<Longrightarrow> safe d (s @ [p])"
proof -
  assume "safe d s" and w: "\<And>i. p = Withdraw i \<Longrightarrow> ex i \<and> rw i \<le> bal s"
  then obtain new where n: "s = d @ new" "solvent bal rw ex d new" by (auto simp: safe_def)
  then have "solvent bal rw ex d (new @ [p])" using w by (intro solvent_snoc) auto
  with n show ?thesis by (auto simp: safe_def)
qed

lemma settle_safe: "keeps v (safe d) (settle_stake E wallet i)"
proof (rule runs_all)
  fix s assume s: "safe d s"
  let ?t = "s @ [Transfer stakeContractAddress (rw i - bal s)]"
  have t: "safe d ?t" using s by (rule safe_snoc) simp
  have wd: "runs v u (bindio (staking_expired E wallet i) (\<lambda>e. if e then withdraw E i else ret ())) (\<lambda>_. safe d) (safe d)"
    if "safe d u" "rw i \<le> bal u" for u
  proof (rule runs_reading [OF expired], rule disjI2, rule that(1), rule runs_if)
    show "runs v u (withdraw E i) (\<lambda>_. safe d) (safe d)" if "ex i"
      unfolding withdraw_def
      by (rule runs_write_bind [OF withdraw_call], rule \<open>safe d u\<close>, rule wait_runs)
        (use \<open>safe d u\<close> \<open>rw i \<le> bal u\<close> that in \<open>auto intro: safe_snoc\<close>)
  qed (use that in \<open>simp add: runs_ret\<close>)
  show "runs v s (settle_stake E wallet i) (\<lambda>_. safe d) (safe d)"
    unfolding settle_stake_def calculateReward_def getTokenBalance_def isStakeExpired_def
  proof (rule runs_reading [OF reward], rule disjI2, rule s, rule runs_reading [OF contract_balance], rule disjI2, rule s)
    show "runs v s (seqio (if rw i > bal s then transfer E stakeContractAddress (rw i - bal s) else ret ())
        (bindio (staking_expired E wallet i) (\<lambda>e. if e then withdraw E i else ret ()))) (\<lambda>_. safe d) (safe d)"
    proof (cases "rw i > bal s")
      case True
      have "runs v s (transfer E stakeContractAddress (rw i - bal s)) (\<lambda>_ u. u = ?t) (safe d)"
        unfolding transfer_def
        by (rule runs_write_bind [OF token_transfer], rule s, rule wait_runs, rule t) simp
      from runs_seq [OF this wd [OF t]] True show ?thesis by (simp add: bal_transfer)
    next
      case False
      with wd [OF s] show ?thesis by simp
    qed
  qed
qed

lemma main_safe: "keeps v (safe d) (staking_main E wallet)"
  unfolding staking_main_def getTokenBalance_def getTokenDecimal_def getUserActiveStakes_def approveSpender_def
    stake_def Let_def
  by (intro keeps_intros settle_safe keeps_silent [OF any_balance] keeps_silent [OF decimals_call]
      keeps_silent [OF active_silent] keeps_silent [OF waiting] keeps_writing [OF approve] keeps_writing [OF stake_call])
    (auto intro: safe_snoc)

lemma main_stakes:
  assumes none: "act wallet d = []"
  shows "runs v d (staking_main E wallet)
    (\<lambda>_ s. prefix (d @ [Approve stakeContractAddress (100 * 10 ^ 18), Stake (100 * 10 ^ 18) 0]) s) (\<lambda>_. True)"
proof -
  let ?a = "100 * 10 ^ 18 :: int"
  let ?s = "d @ [Approve stakeContractAddress ?a, Stake ?a 0]"
  have rest: "runs v ?s (bindio (staking_activeStakes E wallet) (\<lambda>stakes.
      seqio (foreach stakes (settle_stake E wallet)) (bindio (token_balanceOf E wallet) (\<lambda>_. ret ()))))
    (\<lambda>_. prefix ?s) (\<lambda>_. True)"
  proof -
    have "keeps v (safe ?s) (bindio (staking_activeStakes E wallet) (\<lambda>stakes.
      seqio (foreach stakes (settle_stake E wallet)) (bindio (token_balanceOf E wallet) (\<lambda>_. ret ()))))"
      by (intro keeps_intros settle_safe keeps_silent [OF any_balance] keeps_silent [OF active_silent])
    then show ?thesis by (rule triple_conseq) (auto simp: safe_refl safe_def)
  qed
  have first: "runs v d (seqio (bindio (token_approve E stakeContractAddress ?a) (tx_wait E))
      (bindio (staking_stake E ?a 0) (tx_wait E))) (\<lambda>_ s. s = ?s) (\<lambda>_. True)"
    unfolding seqio_def bindio_assoc
    by (rule runs_write_bind [OF approve], simp, rule runs_silent_any [OF waiting], simp,
        rule runs_write_bind [OF stake_call], simp, rule wait_runs) simp_all
  show ?thesis
    unfolding staking_main_def getTokenBalance_def getTokenDecimal_def getUserActiveStakes_def bindio_assoc bindio_ret
    by (rule runs_silent_any [OF any_balance TrueI], rule runs_silent_any [OF decimals_call TrueI],
        rule runs_reading [OF active], rule disjI2, rule TrueI)
      (use runs_seq [OF first rest] none in \<open>simp add: Let_def parseUnits100_def approveSpender_def stake_def\<close>)
qed

end

section \<open>An in-memory staking contract\<close>

text \<open>The world is the list of transactions; staking appends the next index, withdrawing removes it.\<close>

definition sim_send :: "stake_op \<Rightarrow> (stake_op list, nat) io" where
  "sim_send p = (\<lambda>t. (Inr 0, t @ [p]))"

definition sim_view :: "(stake_op list \<Rightarrow> 'a) \<Rightarrow> (stake_op list, 'a) io" where
  "sim_view f = (\<lambda>t. (Inr (f t), t))"

fun credit :: "stake_op \<Rightarrow> int" where
  "credit (Transfer adr x) = (if adr = stakeContractAddress then x else 0)"
| "credit _ = 0"

definition sim_bal :: "stake_op list \<Rightarrow> int" where
  "sim_bal t = sum_list (map credit t)"

fun stakes_step :: "stake_op \<Rightarrow> int list \<Rightarrow> int list" where
  "stakes_step (Stake x p) is = is @ [int (length is)]"
| "stakes_step (Withdraw i) is = removeAll i is"
| "stakes_step _ is = is"

definition sim_stakes :: "int list \<Rightarrow> string \<Rightarrow> stake_op list \<Rightarrow> int list" where
  "sim_stakes is adr t = fold stakes_step t is"

definition stake_env :: "int list \<Rightarrow> (int \<Rightarrow> int) \<Rightarrow> (int \<Rightarrow> bool) \<Rightarrow> stake_op list contracts" where
  "stake_env is rw ex = \<lparr>
     token_decimals_call = sim_view (\<lambda>_. 6), token_balanceOf = (\<lambda>_. sim_view sim_bal),
     token_approve = (\<lambda>adr x. sim_send (Approve adr x)), token_transfer = (\<lambda>adr x. sim_send (Transfer adr x)),
     staking_activeStakes = (\<lambda>adr. sim_view (sim_stakes is adr)), staking_reward = (\<lambda>_ i. sim_view (\<lambda>_. rw i)),
     staking_expired = (\<lambda>_ i. sim_view (\<lambda>_. ex i)),
     staking_stake = (\<lambda>x p. sim_send (Stake x p)), staking_withdraw = (\<lambda>i. sim_send (Withdraw i)),
     tx_wait = (\<lambda>_. sim_view (\<lambda>_. ()))\<rparr>"

interpretation stake_sim: staking_chain "stake_env is rw ex" "\<lambda>t. t" "sim_stakes is" sim_bal rw ex
  by unfold_locales
    (simp_all add: stake_env_def silent_def reading_def writing_def sim_view_def sim_send_def sim_bal_def)

section \<open>Properties\<close>

text \<open>C21: Solvency. Whatever fails, the client withdraws only stakes that have expired, and only at a moment
  when the staking contract holds the reward: it transfers the difference first.\<close>

theorem withdrawals_solvent:
  assumes "staking_chain E v act bal rw ex" and "staking_main E wallet w = (r, w')"
  shows "\<exists>new. v w' = v w @ new \<and>
    (\<forall>ys i zs. new = ys @ Withdraw i # zs \<longrightarrow> ex i \<and> rw i \<le> bal (v w @ ys))"
proof -
  have "staking_chain.safe bal rw ex (v w) (v w')"
    using tripleD [OF staking_chain.main_safe [OF assms(1)] staking_chain.safe_refl [OF assms(1)], of w wallet] assms(2)
    by (cases r) auto
  then show ?thesis
    unfolding staking_chain.safe_def [OF assms(1)] solvent_def .
qed

lemma withdrawals_solvent_witness:
  "\<exists>new. snd (staking_main (stake_env [0, 1] (\<lambda>i. 5) (\<lambda>i. i = 1)) ''0xw'' []) = new \<and>
    (\<forall>ys i zs. new = ys @ Withdraw i # zs \<longrightarrow> i = 1 \<and> 5 \<le> sim_bal ys)"
proof -
  obtain r w' where r: "staking_main (stake_env [0, 1] (\<lambda>i. 5) (\<lambda>i. i = 1)) ''0xw'' [] = (r, w')" by fastforce
  from withdrawals_solvent [OF stake_sim.staking_chain_axioms r] r show ?thesis by auto
qed

text \<open>Without an active stake a successful run stakes \<open>100 * 10 ^ 18\<close> base units, whatever decimals the
  token has: \<open>getTokenDecimal\<close> reads them but returns nothing, and \<open>parseUnits\<close> falls back to 18.\<close>

theorem stakes_in_wei:
  assumes "staking_chain E v act bal rw ex" and "act wallet (v w) = []"
    and "staking_main E wallet w = (Inr (), w')"
  shows "prefix (v w @ [Approve stakeContractAddress (100 * 10 ^ 18), Stake (100 * 10 ^ 18) 0]) (v w')"
  using tripleD [OF staking_chain.main_stakes [OF assms(1,2)] refl] assms(3) by auto

lemma stakes_in_wei_witness:
  "prefix [Approve stakeContractAddress (100 * 10 ^ 18), Stake (100 * 10 ^ 18) 0]
    (snd (staking_main (stake_env [] (\<lambda>i. 5) (\<lambda>i. False)) ''0xw'' []))"
proof -
  let ?E = "stake_env [] (\<lambda>i. 5) (\<lambda>i. False)"
  have r: "staking_main ?E ''0xw'' [] = (Inr (), snd (staking_main ?E ''0xw'' []))" by code_simp
  from stakes_in_wei [OF stake_sim.staking_chain_axioms _ r] show ?thesis by (simp add: sim_stakes_def)
qed

end
