(* ===== verification/Gulp_Build.thy ===== *)
theory Gulp_Build
  imports Js_Prelude
begin

text \<open>
  The build of the exchange's web client, \<open>cex/gitbitex-web/gulpfile.js\<close> with \<open>gulp/gulp.config.js\<close> and
  \<open>gulp/webpack.config.js\<close>: the configured tasks, the Gulp tasks registered for each, and the default run.
  A Gulp 3 task names the tasks that must have finished before it starts; Gulp starts those together and
  promises no order among them. What a plugin does to the contents of a file is left out: the state of a
  build is the set of existing paths.
\<close>

section \<open>gulp.config.js\<close>

datatype task_type = Concat | Copy | Less | Webpack | Clean | Md5

record task =
  task_type :: task_type
  src :: "string list"
  out_file :: string
  build :: string
  encrypt_js :: bool
  encrypt_css :: bool
  encrypt_html :: bool
  watch :: "string option"
  page :: string
  pageBuild :: string

definition no_task :: task where
  "no_task = \<lparr>task_type = Clean, src = [], out_file = '''', build = '''', encrypt_js = False, encrypt_css = False,
     encrypt_html = False, watch = None, page = '''', pageBuild = ''''\<rparr>"

definition base_tasks :: "bool \<Rightarrow> string \<Rightarrow> (string \<times> task) list" where
  "base_tasks isProduction buildPath = [
     (''vendor.script'', no_task\<lparr>task_type := Concat, src := [
        ''node_modules/moment/min/moment-with-locales.js'', ''node_modules/collect.js/build/collect.js'',
        ''node_modules/qrcodejs/qrcode.js'', ''node_modules/highcharts/highstock.js'',
        ''node_modules/highcharts/indicators/indicators.js'', ''node_modules/highcharts/indicators/ema.js''],
        encrypt_js := isProduction, out_file := ''base.js'', build := buildPath @ ''assets/script/''\<rparr>),
     (''app.script'', no_task\<lparr>task_type := Webpack, src := [''./src/script/main.ts''], out_file := ''app.js'',
        build := buildPath @ ''assets/script/'', watch := Some ''./src/script/**/*''\<rparr>),
     (''vendor.style'', no_task\<lparr>task_type := Concat, src := [], encrypt_css := isProduction, out_file := ''base.css'',
        build := buildPath @ ''assets/style/''\<rparr>),
     (''app.style'', no_task\<lparr>task_type := Less, src := [''./src/style/app.less''], out_file := ''app.css'',
        build := buildPath @ ''assets/style/'', encrypt_css := isProduction, watch := Some ''./src/style/**/*''\<rparr>),
     (''app.index'', no_task\<lparr>task_type := Concat, encrypt_html := isProduction, src := [''./src/index.html''],
        out_file := ''index.html'', build := buildPath\<rparr>),
     (''app.font'', no_task\<lparr>task_type := Copy, src := [''./src/font/**/*''], build := buildPath @ ''assets/font/''\<rparr>),
     (''app.image'', no_task\<lparr>task_type := Copy, src := [''./src/image/**/*''], build := buildPath @ ''assets/image/''\<rparr>),
     (''app.chart'', no_task\<lparr>task_type := Copy, src := [''./src/charting-library/**/*''],
        build := buildPath @ ''assets/charting-library/''\<rparr>)]"

definition prod_tasks :: "string \<Rightarrow> (string \<times> task) list" where
  "prod_tasks buildPath = [
     (''vendor.script.md5'', no_task\<lparr>task_type := Md5, page := buildPath @ ''index.html'', pageBuild := buildPath,
        src := [buildPath @ ''assets/script/base.js''], build := buildPath @ ''assets/script/''\<rparr>),
     (''app.script.md5'', no_task\<lparr>task_type := Md5, page := buildPath @ ''index.html'', pageBuild := buildPath @ ''/'',
        src := [buildPath @ ''assets/script/app.js''], build := buildPath @ ''assets/script/''\<rparr>),
     (''app.style.md5'', no_task\<lparr>task_type := Md5, page := buildPath @ ''index.html'', pageBuild := buildPath,
        src := [buildPath @ ''assets/style/*.css''], build := buildPath @ ''assets/style/''\<rparr>),
     (''app.md5.clean'', no_task\<lparr>task_type := Clean, src := [
        buildPath @ ''assets/script/base.js'', buildPath @ ''assets/script/base.js.map'',
        buildPath @ ''assets/script/app.js'', buildPath @ ''assets/script/app.js.map'',
        buildPath @ ''assets/style/base.css'', buildPath @ ''assets/style/app.css'']\<rparr>)]"

section \<open>webpack.config.js\<close>

record webpack_config =
  entry :: "string list"
  out_filename :: string
  out_path :: string
  extensions :: "string list"
  aliases :: "(string \<times> string) list"
  loaders :: "(string \<times> string) list"
  devtool :: string
  plugins :: "string list"

definition webpack_config :: "(string \<Rightarrow> string) \<Rightarrow> task \<Rightarrow> bool \<Rightarrow> webpack_config" where
  "webpack_config resolve task isProduction = \<lparr>
     entry = src task, out_filename = out_file task, out_path = resolve (build task),
     extensions = [''.webpack.js'', ''.web.js'', ''.ts'', ''.tsx'', ''.js''],
     aliases = [(''vue'', ''vue/dist/vue.esm.js'')],
     loaders = [(''.ts?$'', ''awesome-typescript-loader?transpileOnly=false''), (''.js$'', ''source-map-loader''),
       (''.(html)$'', ''html-loader''), (''.(jade)$'', ''jade-loader'')],
     devtool = (if isProduction then '''' else ''source-map''),
     plugins = (if isProduction then [''UglifyJsPlugin'', ''DefinePlugin''] else [])\<rparr>"

section \<open>createTask\<close>

text \<open>What a registered task does: delete what a pattern matches, pipe sources through plugins to a file or a
  directory, run webpack, reload the browser, and the three steps of a revision.\<close>

datatype action =
    Delete "string list"
  | Pipe "string list" "string list" string
  | CopyTo "string list" string
  | Bundle task
  | Reload
  | Revise "string list" string string
  | ReplaceIn string string string
  | Nothing

record gulp_task =
  gname :: string
  deps :: "string list"
  action :: action

definition gulp_task :: "string \<Rightarrow> string list \<Rightarrow> action \<Rightarrow> gulp_task" where
  "gulp_task n ds a = \<lparr>gname = n, deps = ds, action = a\<rparr>"

definition createTask :: "task \<Rightarrow> string \<Rightarrow> gulp_task list" where
  "createTask task taskName =
     (let cleanTaskName = taskName @ ''.clean''; runTaskName = taskName @ ''.run'' in
     case task_type task of
       Concat \<Rightarrow>
         [gulp_task cleanTaskName [] (Delete [build task @ out_file task]),
          gulp_task runTaskName [] (Pipe (src task)
            ([''concat''] @ (if encrypt_js task then [''uglify''] else []) @
             (if encrypt_css task then [''minifyCss''] else []) @ (if encrypt_html task then [''htmlmin''] else []))
            (build task @ out_file task)),
          gulp_task taskName [cleanTaskName, runTaskName] Reload]
     | Copy \<Rightarrow>
         [gulp_task cleanTaskName [] (Delete [build task]),
          gulp_task taskName [cleanTaskName] (CopyTo (src task) (build task))]
     | Less \<Rightarrow>
         [gulp_task cleanTaskName [] (Delete [build task @ out_file task]),
          gulp_task runTaskName [] (Pipe (src task) [''less'', ''concat''] (build task @ out_file task)),
          gulp_task taskName [cleanTaskName, runTaskName] Reload]
     | Webpack \<Rightarrow> [gulp_task taskName [] (Bundle task)]
     | Clean \<Rightarrow> [gulp_task taskName [] (Delete (src task))]
     | Md5 \<Rightarrow>
         (let manifestName = taskName @ ''.rev.json'' in
         [gulp_task (taskName @ ''.rev'') [] (Revise (src task) (build task) manifestName),
          gulp_task (taskName @ ''.replace'') [] (ReplaceIn (page task) (build task @ manifestName) (pageBuild task)),
          gulp_task cleanTaskName [] (Delete [build task @ ''/*.rev.json''])]))"

section \<open>The gulpfile\<close>

definition buildPath :: string where
  "buildPath = ''./build/web''"

definition routeBase :: string where
  "routeBase = ''/''"

definition registered :: "bool \<Rightarrow> gulp_task list" where
  "registered isProduction =
     [gulp_task ''browser-sync'' [] Nothing] @
     concat (map (\<lambda>(key, task). createTask task (''base.'' @ key)) (base_tasks isProduction (buildPath @ routeBase))) @
     concat (map (\<lambda>(key, task). createTask task key) (prod_tasks (buildPath @ routeBase))) @
     [gulp_task ''clean'' [] (Delete [buildPath @ routeBase]),
      gulp_task ''clean-assets'' [] (Delete [buildPath @ routeBase @ ''assets/'']),
      gulp_task ''default'' [''clean''] Nothing]"

text \<open>\<open>gulp.watch(task.watch || task.src, [taskName])\<close>\<close>

definition watched :: "bool \<Rightarrow> (string list \<times> string) list" where
  "watched isProduction = map (\<lambda>(key, task).
     (case watch task of Some w \<Rightarrow> [w] | None \<Rightarrow> src task, ''base.'' @ key)) (base_tasks isProduction (buildPath @ routeBase))"

text \<open>\<open>runSequence\<close>: the groups run one after the other, the tasks of a group together.\<close>

definition default_sequence :: "bool \<Rightarrow> string list list" where
  "default_sequence isProduction =
     (let tasks = ''browser-sync'' # map (\<lambda>(key, _). ''base.'' @ key) (base_tasks isProduction (buildPath @ routeBase)) in
     if isProduction then [tasks,
       [''vendor.script.md5.rev''], [''vendor.script.md5.replace''], [''vendor.script.md5.clean''],
       [''app.script.md5.rev''], [''app.script.md5.replace''], [''app.script.md5.clean''],
       [''app.style.md5.rev''], [''app.style.md5.replace''], [''app.style.md5.clean''], [''app.md5.clean'']]
     else [tasks])"

section \<open>Running tasks\<close>

text \<open>The paths after a task, for the tasks that write or delete one path; a pipe without sources writes
  nothing.\<close>

fun perform :: "action \<Rightarrow> string set \<Rightarrow> string set" where
  "perform (Delete ps) fs = fs - set ps"
| "perform (Pipe srcs ps out) fs = (if srcs = [] then fs else insert out fs)"
| "perform (Bundle t) fs = insert (build t @ out_file t) fs"
| "perform _ fs = fs"

text \<open>An order in which Gulp may run a task and what it depends on: every task once, after its dependencies.\<close>

definition find_task :: "gulp_task list \<Rightarrow> string \<Rightarrow> gulp_task option" where
  "find_task ts n = find (\<lambda>t. gname t = n) ts"

fun admissible :: "gulp_task list \<Rightarrow> string list \<Rightarrow> string list \<Rightarrow> bool" where
  "admissible ts before [] = True"
| "admissible ts before (n # ns) = (n \<notin> set before \<and>
     (case find_task ts n of None \<Rightarrow> False | Some t \<Rightarrow> set (deps t) \<subseteq> set before \<and> admissible ts (n # before) ns))"

definition run_order :: "gulp_task list \<Rightarrow> string list \<Rightarrow> string set \<Rightarrow> string set" where
  "run_order ts ns fs = fold (\<lambda>n fs. case find_task ts n of None \<Rightarrow> fs | Some t \<Rightarrow> perform (action t) fs) ns fs"

section \<open>Properties\<close>

text \<open>The outputs that production renames: those of the script and style tasks.\<close>

definition outputs :: "bool \<Rightarrow> string \<Rightarrow> string list" where
  "outputs isProduction path = map (\<lambda>(_, t). build t @ out_file t)
     (filter (\<lambda>(_, t). task_type t \<in> {Concat, Less, Webpack} \<and> build t \<noteq> path) (base_tasks isProduction path))"

definition scripts :: "bool \<Rightarrow> string \<Rightarrow> string list" where
  "scripts isProduction path = filter (prefix (path @ ''assets/script/'')) (outputs isProduction path)"

text \<open>Every task that the default run starts is registered, in either mode, and so is every task that a
  registered task depends on; in production the files removed last are exactly the outputs of the script
  and style tasks and the source maps of the scripts.\<close>

theorem default_tasks_registered:
  "set (concat (default_sequence isProduction)) \<subseteq> set (map gname (registered isProduction)) \<and>
   set (concat (map deps (registered isProduction))) \<subseteq> set (map gname (registered isProduction)) \<and>
   map (\<lambda>t. set (src t)) (map snd (filter (\<lambda>(k, _). k = ''app.md5.clean'') (prod_tasks (buildPath @ routeBase)))) =
     [set (outputs isProduction (buildPath @ routeBase) @ map (\<lambda>p. p @ ''.map'') (scripts isProduction (buildPath @ routeBase)))]"
proof (intro conjI)
  show "set (concat (default_sequence isProduction)) \<subseteq> set (map gname (registered isProduction))"
    by (rule bool.induct [of _ isProduction]; code_simp)
  show "set (concat (map deps (registered isProduction))) \<subseteq> set (map gname (registered isProduction))"
    by (rule bool.induct [of _ isProduction]; code_simp)
  show "map (\<lambda>t. set (src t)) (map snd (filter (\<lambda>(k, _). k = ''app.md5.clean'') (prod_tasks (buildPath @ routeBase)))) =
     [set (outputs isProduction (buildPath @ routeBase) @ map (\<lambda>p. p @ ''.map'') (scripts isProduction (buildPath @ routeBase)))]"
    by (rule bool.induct [of _ isProduction]; code_simp)
qed

lemma vendor_script_tasks:
  "find_task (registered isProduction) ''base.vendor.script.clean'' =
     Some (gulp_task ''base.vendor.script.clean'' [] (Delete [''./build/web/assets/script/base.js'']))"
  "\<exists>srcs ps. srcs \<noteq> [] \<and> find_task (registered isProduction) ''base.vendor.script.run'' =
     Some (gulp_task ''base.vendor.script.run'' [] (Pipe srcs ps ''./build/web/assets/script/base.js''))"
  "find_task (registered isProduction) ''base.vendor.script'' =
     Some (gulp_task ''base.vendor.script'' [''base.vendor.script.clean'', ''base.vendor.script.run''] Reload)"
proof -
  show "find_task (registered isProduction) ''base.vendor.script.clean'' =
     Some (gulp_task ''base.vendor.script.clean'' [] (Delete [''./build/web/assets/script/base.js'']))"
    by (rule bool.induct [of _ isProduction]; code_simp)
  have "map_option (\<lambda>t. (gname t, deps t, case action t of Pipe srcs ps out \<Rightarrow> (srcs \<noteq> [], out) | _ \<Rightarrow> (False, [])))
      (find_task (registered isProduction) ''base.vendor.script.run'') =
    Some (''base.vendor.script.run'', [], True, ''./build/web/assets/script/base.js'')"
    by (rule bool.induct [of _ isProduction]; code_simp)
  then obtain t where t: "find_task (registered isProduction) ''base.vendor.script.run'' = Some t"
    and f: "gname t = ''base.vendor.script.run''" "deps t = []"
      "(case action t of Pipe srcs ps out \<Rightarrow> (srcs \<noteq> [], out) | _ \<Rightarrow> (False, [])) = (True, ''./build/web/assets/script/base.js'')"
    by auto
  from f(3) obtain srcs ps where "action t = Pipe srcs ps ''./build/web/assets/script/base.js''" "srcs \<noteq> []"
    by (cases "action t") auto
  with f(1,2) have "t = gulp_task ''base.vendor.script.run'' [] (Pipe srcs ps ''./build/web/assets/script/base.js'')" "srcs \<noteq> []"
    by (simp_all add: gulp_task_def)
  with t show "\<exists>srcs ps. srcs \<noteq> [] \<and> find_task (registered isProduction) ''base.vendor.script.run'' =
     Some (gulp_task ''base.vendor.script.run'' [] (Pipe srcs ps ''./build/web/assets/script/base.js''))"
    by blast
  show "find_task (registered isProduction) ''base.vendor.script'' =
     Some (gulp_task ''base.vendor.script'' [''base.vendor.script.clean'', ''base.vendor.script.run''] Reload)"
    by (rule bool.induct [of _ isProduction]; code_simp)
qed

text \<open>Cleaning and building are unordered. Rebuilding the script bundle of the vendors, as a watched change
  does, may run the deletion of the bundle before or after it is written: both orders respect the
  dependencies, after the one the bundle exists, after the other it does not.\<close>

theorem rebuild_may_lose_output:
  "\<exists>ns ns'. admissible (registered isProduction) [] ns \<and> admissible (registered isProduction) [] ns' \<and>
    last ns = ''base.vendor.script'' \<and> last ns' = ''base.vendor.script'' \<and>
    ''./build/web/assets/script/base.js'' \<in> run_order (registered isProduction) ns fs \<and>
    ''./build/web/assets/script/base.js'' \<notin> run_order (registered isProduction) ns' fs"
proof -
  obtain srcs ps where r: "srcs \<noteq> []" "find_task (registered isProduction) ''base.vendor.script.run'' =
     Some (gulp_task ''base.vendor.script.run'' [] (Pipe srcs ps ''./build/web/assets/script/base.js''))"
    using vendor_script_tasks(2) by blast
  show ?thesis
    by (rule exI [of _ "[''base.vendor.script.clean'', ''base.vendor.script.run'', ''base.vendor.script'']"],
        rule exI [of _ "[''base.vendor.script.run'', ''base.vendor.script.clean'', ''base.vendor.script'']"])
      (use r in \<open>simp add: vendor_script_tasks gulp_task_def run_order_def\<close>)
qed

end
