(* ===== verification/Evm_Checksum.thy ===== *)
theory Evm_Checksum
  imports Js_Prelude
begin

text \<open>
  \<open>NFTMarketplace/Backend/EasySwapBase/evm/eip/eip.js\<close>: the mixed-case checksum of an address. The hash of
  the package \<open>keccak\<close>, as a string of hexadecimal digits, is the parameter \<open>keccak\<close>.
\<close>

text \<open>\<open>toUpperCase\<close> of one ASCII character.\<close>

definition upper_char :: "char \<Rightarrow> char" where
  "upper_char c = (let n = (of_char c :: nat) in if 97 \<le> n \<and> n \<le> 122 then char_of (n - 32) else c)"

text \<open>\<open>s.replace('0x', '')\<close> drops the first occurrence.\<close>

fun drop_0x :: "string \<Rightarrow> string" where
  "drop_0x (a # b # s) = (if a = CHR ''0'' \<and> b = CHR ''x'' then s else a # drop_0x (b # s))"
| "drop_0x s = s"

text \<open>\<open>parseInt(h, 16) >= 8\<close>; of an \<open>undefined\<close> or malformed digit it is \<open>NaN\<close>, and the test fails.\<close>

definition high_nibble :: "char \<Rightarrow> bool" where
  "high_nibble c \<longleftrightarrow> c \<in> set ''89abcdefABCDEF''"

definition toChecksumAddress :: "(string \<Rightarrow> string) \<Rightarrow> string \<Rightarrow> string" where
  "toChecksumAddress keccak adr =
     (let body = drop_0x (toLowerCase adr); hash = keccak body in
     ''0x'' @ map (\<lambda>i. if i < length hash \<and> high_nibble (hash ! i) then upper_char (body ! i) else body ! i)
       [0..<length body])"

lemma lower_upper: "lower_char (upper_char c) = lower_char c"
  by (auto simp: lower_char_def upper_char_def Let_def)

lemma drop_0x_none: "CHR ''x'' \<notin> set s \<Longrightarrow> drop_0x s = s"
  by (induction s rule: drop_0x.induct) auto

lemma lower_body:
  "toLowerCase (toChecksumAddress keccak adr) = ''0x'' @ toLowerCase (drop_0x (toLowerCase adr))"
proof -
  have z: "toLowerCase (''0x'' @ s) = ''0x'' @ toLowerCase s" for s
    by (simp add: toLowerCase_def lower_char_def Let_def)
  have m: "map lower_char (map (\<lambda>i. if i < length h \<and> high_nibble (h ! i) then upper_char (b ! i) else b ! i) [0..<length b]) =
    map lower_char b" for h b
    by (rule nth_equalityI) (simp_all add: lower_upper)
  then show ?thesis
    unfolding toChecksumAddress_def Let_def z by (simp only: toLowerCase_def m)
qed

lemma drop_0x_set: "set (drop_0x s) \<subseteq> set s"
  by (induction s rule: drop_0x.induct) auto

lemma drop_0x_lower: "toLowerCase (drop_0x (toLowerCase adr)) = drop_0x (toLowerCase adr)"
  unfolding toLowerCase_def by (rule map_idI) (use drop_0x_set in fastforce)

lemma same_body:
  "drop_0x (toLowerCase a) = drop_0x (toLowerCase b) \<Longrightarrow> toChecksumAddress keccak a = toChecksumAddress keccak b"
  by (simp add: toChecksumAddress_def)

text \<open>The checksum changes only the case of letters and depends only on the lower-case address: its lower
  case is \<open>0x\<close> with the lower-case digits, every spelling of an address has the same checksum, and taking
  it twice is taking it once, for addresses whose digits contain no \<open>x\<close>.\<close>

theorem checksum_canonical:
  assumes "CHR ''x'' \<notin> set (drop_0x (toLowerCase adr))"
  shows "toLowerCase (toChecksumAddress keccak adr) = ''0x'' @ drop_0x (toLowerCase adr) \<and>
    toChecksumAddress keccak (toChecksumAddress keccak adr) = toChecksumAddress keccak adr \<and>
    (toLowerCase adr' = toLowerCase adr \<longrightarrow> toChecksumAddress keccak adr' = toChecksumAddress keccak adr)"
proof (intro conjI impI)
  have "toLowerCase (toChecksumAddress keccak adr) = ''0x'' @ drop_0x (toLowerCase adr)"
    by (simp add: lower_body drop_0x_lower)
  then show "toLowerCase (toChecksumAddress keccak adr) = ''0x'' @ drop_0x (toLowerCase adr)" .
  then show "toChecksumAddress keccak (toChecksumAddress keccak adr) = toChecksumAddress keccak adr"
    by (intro same_body) simp
  show "toLowerCase adr' = toLowerCase adr \<Longrightarrow> toChecksumAddress keccak adr' = toChecksumAddress keccak adr"
    by (simp add: toChecksumAddress_def)
qed

lemma checksum_canonical_witness:
  "toChecksumAddress (\<lambda>_. ''f0f'') ''0XaBc'' = ''0xAbC'' \<and>
   toChecksumAddress (\<lambda>_. ''f0f'') (toChecksumAddress (\<lambda>_. ''f0f'') ''0XaBc'') = toChecksumAddress (\<lambda>_. ''f0f'') ''0XaBc''"
proof
  show "toChecksumAddress (\<lambda>_. ''f0f'') ''0XaBc'' = ''0xAbC''" by code_simp
  have "CHR ''x'' \<notin> set (drop_0x (toLowerCase ''0XaBc''))" by code_simp
  from checksum_canonical [OF this, of "\<lambda>_. ''f0f''"]
  show "toChecksumAddress (\<lambda>_. ''f0f'') (toChecksumAddress (\<lambda>_. ''f0f'') ''0XaBc'') = toChecksumAddress (\<lambda>_. ''f0f'') ''0XaBc''"
    by blast
qed

end
