(* ===== verification/Web_Socket.thy ===== *)
theory Web_Socket
  imports Js_Numbers Effects
begin

text \<open>
  \<open>cex/gitbitex-web/src/script/service/websocket.ts\<close>, the connection of the exchange client to the feed,
  and \<open>store/buffer.ts\<close>, the buffer that collects its messages.

  The browser's sockets are numbered in the order of their creation; \<open>wire\<close> is what was sent through
  which of them. The handlers of a socket stay attached when a newer one replaces it as \<open>this.ws\<close>. The
  operations work on any extension of \<open>socket_state\<close>, so the store of the client can extend it.
\<close>

datatype ready = CONNECTING | OPEN | CLOSING | CLOSED

record socket_state =
  subscribes :: "obj list"
  ws :: "nat option"
  ws_closed :: bool
  onOpen :: bool
  token :: val
  sockets :: "ready list"
  wire :: "(nat \<times> obj) list"

section \<open>Sending\<close>

text \<open>\<open>ws.send(data)\<close>: an error while connecting, silently dropped once the socket is closing.\<close>

definition ws_send :: "nat \<Rightarrow> obj \<Rightarrow> ('a socket_state_scheme, unit) io" where
  "ws_send n data = (\<lambda>s. case sockets s ! n of
     CONNECTING \<Rightarrow> (Inl (JsError ''InvalidStateError''), s)
   | OPEN \<Rightarrow> (Inr (), s\<lparr>wire := wire s @ [(n, data)]\<rparr>)
   | _ \<Rightarrow> (Inr (), s))"

definition with_token :: "val \<Rightarrow> obj \<Rightarrow> obj" where
  "with_token t data = put ''token'' (if truthy_val t then t else Str []) data"

definition subscribe :: "obj \<Rightarrow> ('a socket_state_scheme, unit) io" where
  "subscribe data = (\<lambda>s. case ws s of
     None \<Rightarrow> (Inl (TypeError ''Cannot read properties of undefined''), s)
   | Some n \<Rightarrow> ws_send n (with_token (token s) data) s)"

section \<open>The handlers\<close>

definition modify :: "('w \<Rightarrow> 'w) \<Rightarrow> ('w, unit) io" where
  "modify f = (\<lambda>w. (Inr (), f w))"

definition ws_connect :: "('a socket_state_scheme, unit) io" where
  "ws_connect = modify (\<lambda>s. s\<lparr>sockets := sockets s @ [CONNECTING], ws := Some (length (sockets s))\<rparr>)"

definition onopen :: "('a socket_state_scheme, unit) io \<Rightarrow> ('a socket_state_scheme, unit) io" where
  "onopen callback =
     seqio (modify (\<lambda>s. s\<lparr>ws_closed := False\<rparr>))
     (seqio (\<lambda>s. if 0 < length (subscribes s)
               then seqio (foreach (subscribes s) subscribe) (modify (\<lambda>s. s\<lparr>subscribes := []\<rparr>)) s
               else ret () s)
     (seqio (\<lambda>s. if onOpen s then callback s else ret () s)
     (modify (\<lambda>s. s\<lparr>onOpen := False\<rparr>))))"

text \<open>\<open>channel.channels = [channel.name]; channel.type = 'subscribe'; this.subscribes.push(channel)\<close>\<close>

definition remember :: "val \<Rightarrow> ('a socket_state_scheme, unit) io" where
  "remember channel = (case channel of
     Obj c \<Rightarrow> modify (\<lambda>s. s\<lparr>subscribes := subscribes s @
                [put ''type'' (Str ''subscribe'') (put ''channels'' (Arr [get ''name'' c]) c)]\<rparr>)
   | _ \<Rightarrow> throw (TypeError ''Cannot set properties of undefined''))"

definition onmessage :: "(obj \<Rightarrow> ('a socket_state_scheme, unit) io) \<Rightarrow> obj \<Rightarrow> ('a socket_state_scheme, unit) io" where
  "onmessage callback msg =
     seqio (callback msg)
     (if loose_eq (get ''type'' msg) (Str ''subscriptions'')
      then seqio (modify (\<lambda>s. s\<lparr>subscribes := []\<rparr>))
             (case elements (get ''channels'' msg) of Inl e \<Rightarrow> throw e | Inr cs \<Rightarrow> foreach cs remember)
      else ret ())"

definition onclose :: "('a socket_state_scheme, unit) io" where
  "onclose = modify (\<lambda>s. s\<lparr>ws_closed := True\<rparr>)"

text \<open>\<open>if (this.ws.readyState == 1) {} else connect()\<close>, every five seconds.\<close>

definition interval :: "('a socket_state_scheme, unit) io" where
  "interval = (\<lambda>s. case ws s of
     None \<Rightarrow> (Inl (TypeError ''Cannot read properties of undefined''), s)
   | Some n \<Rightarrow> if sockets s ! n = OPEN then (Inr (), s) else ws_connect s)"

section \<open>Events\<close>

text \<open>What the browser reports: a socket changes its state, then its handler runs; a message arrives on an
  open socket; the timer fires. An event that cannot happen does nothing. An error in a handler is
  reported to the console and otherwise lost.\<close>

datatype ws_event = Opened nat | Received nat obj | Closed nat | Timer

definition reported :: "('w, unit) io \<Rightarrow> 'w \<Rightarrow> 'w" where
  "reported m w = snd (m w)"

definition ws_step ::
  "('a socket_state_scheme, unit) io \<Rightarrow> (obj \<Rightarrow> ('a socket_state_scheme, unit) io) \<Rightarrow> ws_event \<Rightarrow>
   'a socket_state_scheme \<Rightarrow> 'a socket_state_scheme" where
  "ws_step on_open on_message e s = (case e of
     Opened n \<Rightarrow> if n < length (sockets s) \<and> sockets s ! n = CONNECTING
       then reported (onopen on_open) (s\<lparr>sockets := (sockets s)[n := OPEN]\<rparr>) else s
   | Received n msg \<Rightarrow> if n < length (sockets s) \<and> sockets s ! n = OPEN
       then reported (onmessage on_message msg) s else s
   | Closed n \<Rightarrow> if n < length (sockets s) \<and> sockets s ! n \<noteq> CLOSED
       then reported onclose (s\<lparr>sockets := (sockets s)[n := CLOSED]\<rparr>) else s
   | Timer \<Rightarrow> reported interval s)"

definition ws_run ::
  "('a socket_state_scheme, unit) io \<Rightarrow> (obj \<Rightarrow> ('a socket_state_scheme, unit) io) \<Rightarrow> ws_event list \<Rightarrow>
   'a socket_state_scheme \<Rightarrow> 'a socket_state_scheme" where
  "ws_run on_open on_message es s = fold (ws_step on_open on_message) es s"

text \<open>\<open>connect(server, onOpen, onMessage)\<close>: the callbacks are stored, the first socket is created and the
  timer is started.\<close>

definition start_socket :: "('a socket_state_scheme, unit) io" where
  "start_socket = seqio (modify (\<lambda>s. s\<lparr>onOpen := True\<rparr>)) ws_connect"

section \<open>The message buffer\<close>

text \<open>\<open>push\<close>, and the function of the timer: the action gets the messages, then they are dropped. \<open>read\<close> and
  \<open>wr\<close> say where the buffer lives.\<close>

definition buffer_tick :: "('w \<Rightarrow> obj list) \<Rightarrow> (obj list \<Rightarrow> 'w \<Rightarrow> 'w) \<Rightarrow> (obj list \<Rightarrow> ('w, unit) io) \<Rightarrow> ('w, unit) io" where
  "buffer_tick read wr action = (\<lambda>w.
     if 0 < length (read w) then seqio (action (read w)) (modify (wr [])) w else ret () w)"

definition buffer_push :: "('w \<Rightarrow> obj list) \<Rightarrow> (obj list \<Rightarrow> 'w \<Rightarrow> 'w) \<Rightarrow> obj \<Rightarrow> ('w, unit) io" where
  "buffer_push read wr data = modify (\<lambda>w. wr (read w @ [data]) w)"

end
