(* ===== verification/Trade_Store.thy ===== *)
theory Trade_Store
  imports Web_Socket
begin

text \<open>
  \<open>cex/gitbitex-web/src/script/store/trade.ts\<close>: the store of the exchange client, its mutations, the
  handling of the messages of the feed and the requests it makes.

  Product objects are shared: the list \<open>products\<close> and the field \<open>product\<close> of each trade object hold the same
  references, and \<open>updatePruductPrice\<close> changes the objects in place. They live in \<open>heap\<close> and are named by their
  index in it. \<open>moment v fmt\<close> is \<open>Moment(v).format(fmt)\<close>, \<open>http url\<close> the answer of a \<open>GET\<close> request; a rejected
  request is an error that nobody catches. The elements of the arrays the server answers are objects.
\<close>

record trade_object =
  bids :: val
  asks :: val
  history :: "val list"
  historyType :: string
  tradeHistory :: "val list"
  product :: nat
  openOrders :: "val list"

record trade_state = socket_state +
  heap :: "obj list"
  products :: "nat list"
  objects :: "(string \<Rightarrow> trade_object option) option"
  funds :: obj
  bookBuffer :: "obj list option"
  orderBuffer :: "obj list option"
  fundsBuffer :: "obj list option"

type_synonym 'a store = "(trade_state, 'a) io"

definition initial_store :: trade_state where
  "initial_store = \<lparr>subscribes = [], ws = None, ws_closed = False, onOpen = False, token = Undef, sockets = [], wire = [],
     heap = [], products = [], objects = None, funds = [], bookBuffer = None, orderBuffer = None, fundsBuffer = None\<rparr>"

section \<open>Mutations\<close>

definition new_object :: "nat \<Rightarrow> trade_object" where
  "new_object a = \<lparr>bids = Arr [], asks = Arr [], history = [], historyType = ''candles_60'', tradeHistory = [],
     product = a, openOrders = []\<rparr>"

definition product_id :: "trade_state \<Rightarrow> nat \<Rightarrow> string" where
  "product_id s a = js_string (get ''id'' (heap s ! a))"

definition objects_of :: "trade_state \<Rightarrow> nat list \<Rightarrow> string \<Rightarrow> trade_object option" where
  "objects_of s ps = fold (\<lambda>a m. m(product_id s a \<mapsto> new_object a)) ps Map.empty"

definition setProducts :: "nat list \<Rightarrow> unit store" where
  "setProducts ps = modify (\<lambda>s. s\<lparr>products := ps,
     objects := (case objects s of None \<Rightarrow> Some (objects_of s ps) | Some m \<Rightarrow> Some m)\<rparr>)"

text \<open>\<open>state.objects[id]\<close>, whose fields every caller reads: an unknown product is a \<open>TypeError\<close>.\<close>

definition getObject :: "string \<Rightarrow> trade_object store" where
  "getObject productId = (\<lambda>s. case objects s of
     None \<Rightarrow> (Inl (TypeError ''Cannot read properties of undefined''), s)
   | Some m \<Rightarrow> (case m productId of
       None \<Rightarrow> (Inl (TypeError ''Cannot read properties of undefined''), s) | Some x \<Rightarrow> (Inr x, s)))"

definition put_object :: "string \<Rightarrow> trade_object \<Rightarrow> trade_state \<Rightarrow> trade_state" where
  "put_object productId x s = s\<lparr>objects := map_option (\<lambda>m. m(productId \<mapsto> x)) (objects s)\<rparr>"

definition change_object :: "string \<Rightarrow> (trade_object \<Rightarrow> trade_object) \<Rightarrow> unit store" where
  "change_object productId f = bindio (getObject productId) (\<lambda>x. modify (put_object productId (f x)))"

definition setOrderBook :: "string \<Rightarrow> val \<Rightarrow> val \<Rightarrow> unit store" where
  "setOrderBook productId b a = change_object productId (\<lambda>x. x\<lparr>bids := b, asks := a\<rparr>)"

definition setHistory :: "string \<Rightarrow> string \<Rightarrow> val list \<Rightarrow> unit store" where
  "setHistory productId type items = change_object productId (\<lambda>x. x\<lparr>history := items, historyType := type\<rparr>)"

definition setTradeHistory :: "string \<Rightarrow> val list \<Rightarrow> unit store" where
  "setTradeHistory productId trades = change_object productId (\<lambda>x. x\<lparr>tradeHistory := trades\<rparr>)"

definition setOpenOrders :: "string \<Rightarrow> val list \<Rightarrow> unit store" where
  "setOpenOrders productId items = change_object productId (\<lambda>x. x\<lparr>openOrders := items\<rparr>)"

definition setFunds :: "obj \<Rightarrow> unit store" where
  "setFunds fs = modify (\<lambda>s. s\<lparr>funds := fs\<rparr>)"

definition set_fund :: "obj \<Rightarrow> unit store" where
  "set_fund fund = modify (\<lambda>s. s\<lparr>funds := put (js_string (get ''currency'' fund)) (Obj fund) (funds s)\<rparr>)"

section \<open>The order book\<close>

text \<open>The levels of one side by price. The stored levels are filed under \<open>Number(level[0])\<close>, a change under the
  string the feed sent.\<close>

type_synonym side = "(string \<times> val) list"

definition side_object :: "val list \<Rightarrow> side" where
  "side_object levels = fold (\<lambda>l ob. if truthy_val l
     then AList.update (string_of_number (to_number (item l 0))) l ob else ob) levels []"

definition apply_side :: "val \<Rightarrow> side \<Rightarrow> side" where
  "apply_side change ob =
     (if equals_num (item change 2) (Some 0) then AList.delete (js_string (item change 1)) ob
      else AList.update (js_string (item change 1)) (Arr [item change 1, item change 2]) ob)"

definition apply_change :: "val \<Rightarrow> side \<times> side \<Rightarrow> side \<times> side" where
  "apply_change change = (\<lambda>(b, a). if loose_eq (item change 0) (Str ''buy'')
     then (apply_side change b, a) else (b, apply_side change a))"

definition by_price :: "val \<Rightarrow> val \<Rightarrow> rat" where
  "by_price a b = minus_cmp (to_number (item a 0)) (to_number (item b 0))"

definition sorted_side :: "side \<Rightarrow> val list" where
  "sorted_side ob = js_sort by_price (own_values ob)"

definition concat_val :: "val list \<Rightarrow> val \<Rightarrow> val list" where
  "concat_val xs v = (case v of Arr ys \<Rightarrow> xs @ ys | _ \<Rightarrow> xs @ [v])"

definition add_changes :: "obj \<Rightarrow> (string \<times> val list) list \<Rightarrow> (string \<times> val list) list" where
  "add_changes buffer changes = (let k = js_string (get ''productId'' buffer) in
     AList.update k (concat_val (case map_of changes k of None \<Rightarrow> [] | Some xs \<Rightarrow> xs) (get ''changes'' buffer)) changes)"

definition group_changes :: "obj list \<Rightarrow> (string \<times> val list) list" where
  "group_changes buffers = fold add_changes buffers []"

definition book_after :: "val list \<Rightarrow> val list \<Rightarrow> val list \<Rightarrow> val list \<times> val list" where
  "book_after bs as' changes = (let (b, a) = fold apply_change changes (side_object bs, side_object as') in
     (rev (sorted_side b), sorted_side a))"

definition update_book :: "val list \<Rightarrow> string \<Rightarrow> unit store" where
  "update_book changes productId =
     bindio (getObject productId) (\<lambda>x.
     bindio (lift (elements (bids x))) (\<lambda>bs.
     bindio (lift (elements (asks x))) (\<lambda>as'.
     (let (b, a) = book_after bs as' changes in setOrderBook productId (Arr b) (Arr a)))))"

definition updateOrderBook :: "obj list \<Rightarrow> unit store" where
  "updateOrderBook buffers = (let changes = group_changes buffers in
     foreach (own_keys changes) (\<lambda>productId. update_book (the (map_of changes productId)) productId))"

section \<open>Trades and candles\<close>

definition granularity_of :: "string \<Rightarrow> rat option" where
  "granularity_of type = number_of_string (remove_first ''candles_'' type)"

definition last_record :: "trade_object \<Rightarrow> val" where
  "last_record x = (case history x of [] \<Rightarrow> Undef | c # _ \<Rightarrow> c)"

text \<open>The start of the candle that a trade falls into.\<close>

definition bucket :: "(val \<Rightarrow> string \<Rightarrow> string) \<Rightarrow> obj \<Rightarrow> string \<Rightarrow> rat option" where
  "bucket moment data type =
     (let time = map_option (\<lambda>x. of_int \<lfloor>x\<rfloor>) (number_of_string (moment (get ''time'' data) ''X'')) in
      lift2 (-) time (js_mod time (granularity_of type)))"

definition extended :: "val \<Rightarrow> rat option \<Rightarrow> rat option \<Rightarrow> val" where
  "extended cdl price amount = Arr
     [item cdl 0,
      if greater (to_number (item cdl 1)) price then num_val price else item cdl 1,
      if greater (to_number (item cdl 2)) price then item cdl 2 else num_val price,
      item cdl 3, num_val price, js_plus (item cdl 5) amount]"

definition opened :: "rat option \<Rightarrow> rat option \<Rightarrow> rat option \<Rightarrow> val" where
  "opened time price amount = Arr (map num_val [time, price, price, price, price, amount])"

definition updateHistory :: "(val \<Rightarrow> string \<Rightarrow> string) \<Rightarrow> obj \<Rightarrow> unit store" where
  "updateHistory moment data = (let productId = js_string (get ''productId'' data) in
     bindio (getObject productId) (\<lambda>x.
     (let time = bucket moment data (historyType x); cdl = last_record x;
          price = to_number (get ''price'' data); amount = to_number (get ''size'' data) in
      if \<not> truthy_val cdl then ret ()
      else
        (let h = extended cdl price amount # tl (history x) in
         change_object productId (\<lambda>x. x\<lparr>history :=
           (if equals_num (item cdl 0) time then h else opened time price amount # h)\<rparr>)))))"

definition updateTradeHistory :: "(val \<Rightarrow> string \<Rightarrow> string) \<Rightarrow> obj \<Rightarrow> unit store" where
  "updateTradeHistory moment data =
     seqio (updateHistory moment data)
     (let data' = put ''localTime'' (Str (moment (get ''time'' data) ''H:mm:ss'')) data;
          productId = js_string (get ''productId'' data) in
      bindio (getObject productId) (\<lambda>x.
      (let trades = Obj data' # tradeHistory x in
       setTradeHistory productId (if length trades > 120 then take 120 trades else trades))))"

section \<open>Tickers\<close>

text \<open>\<open>((price*100/open24h)-100).toFixed(2)\<close>, division by zero included.\<close>

definition rate24h :: "rat option \<Rightarrow> rat option \<Rightarrow> string" where
  "rate24h price open24h = (case (price, open24h) of
     (Some p, Some q) \<Rightarrow>
       if q = 0 then (if p = 0 then ''NaN'' else if p > 0 then ''Infinity'' else ''-Infinity'')
       else (case toFixed (Some (p * 100 / q - 100)) 2 of Inr s \<Rightarrow> s | Inl _ \<Rightarrow> [])
   | _ \<Rightarrow> ''NaN'')"

definition ticked :: "obj \<Rightarrow> obj \<Rightarrow> obj" where
  "ticked p data =
     (let p1 = spread p data;
          p2 = put ''rate24h'' (Str (rate24h (to_number (get ''price'' p1)) (to_number (get ''open24h'' p1)))) p1 in
      put ''volume24h'' (num_val (map_option (\<lambda>x. of_int \<lfloor>x\<rfloor>) (to_number (get ''volume24h'' p2)))) p2)"

definition updatePruductPrice :: "obj \<Rightarrow> unit store" where
  "updatePruductPrice data =
     seqio (\<lambda>s. foreach (products s) (\<lambda>a. modify (\<lambda>s.
        if loose_eq (get ''id'' (heap s ! a)) (get ''productId'' data)
        then s\<lparr>heap := (heap s)[a := ticked (heap s ! a) data]\<rparr> else s)) s)
     (\<lambda>s. setProducts (products s) s)"

section \<open>Orders and funds\<close>

text \<open>The digits argument of \<open>toFixed\<close>, and \<open>o.k = Number(o.k).toFixed(d)\<close>.\<close>

definition digits :: "val \<Rightarrow> int" where
  "digits v = (case to_number v of None \<Rightarrow> 0 | Some x \<Rightarrow> if x < 0 then \<lceil>x\<rceil> else \<lfloor>x\<rfloor>)"

definition fix_field :: "string \<times> int \<Rightarrow> js_error + obj \<Rightarrow> js_error + obj" where
  "fix_field = (\<lambda>(k, d) r. case r of Inl e \<Rightarrow> Inl e
     | Inr ob \<Rightarrow> (case toFixed (to_number (get k ob)) d of Inl e \<Rightarrow> Inl e | Inr t \<Rightarrow> Inr (put k (Str t) ob)))"

definition with_times :: "(val \<Rightarrow> string \<Rightarrow> string) \<Rightarrow> obj \<Rightarrow> obj" where
  "with_times moment ob =
     (let ob1 = put ''timeFormat'' (Str (moment (get ''createdAt'' ob) ''MM-DD hh:mm:ss'')) ob;
          p = to_number (get ''price'' ob1) in
      put ''priceFormat'' (if p = None \<or> p = Some 0 then Str ''MARKET'' else get ''price'' ob1) ob1)"

definition format_order :: "(val \<Rightarrow> string \<Rightarrow> string) \<Rightarrow> (string \<times> int) list \<Rightarrow> obj \<Rightarrow> js_error + obj" where
  "format_order moment fixed order =
     map_sum (\<lambda>e. e) (with_times moment)
       (fold fix_field fixed (Inr (put ''statusFormat'' (get ''status'' order) order)))"

definition loaded_fields :: "int \<Rightarrow> (string \<times> int) list" where
  "loaded_fields q = [(''price'', q), (''fillFees'', q), (''filledSize'', 4), (''size'', 4)]"

definition updated_fields :: "int \<Rightarrow> (string \<times> int) list" where
  "updated_fields q = [(''price'', q), (''filledSize'', 4), (''fillFees'', q), (''size'', 4)]"

text \<open>The first order with the same \<open>id\<close> is updated in place, otherwise the new one goes to the front.\<close>

fun merge_first :: "obj \<Rightarrow> val list \<Rightarrow> val list option" where
  "merge_first order [] = None"
| "merge_first order (v # vs) =
     (if loose_eq (get ''id'' (entries v)) (get ''id'' order) then Some (Obj (spread (entries v) order) # vs)
      else map_option ((#) v) (merge_first order vs))"

definition upsert_order :: "obj \<Rightarrow> val list \<Rightarrow> val list" where
  "upsert_order order orders = (case merge_first order orders of None \<Rightarrow> Obj order # orders | Some vs \<Rightarrow> vs)"

definition update_order :: "(val \<Rightarrow> string \<Rightarrow> string) \<Rightarrow> string \<Rightarrow> obj \<Rightarrow> unit store" where
  "update_order moment productId order =
     bindio (getObject productId) (\<lambda>x. \<lambda>s.
     (case format_order moment (updated_fields (digits (get ''quoteScale'' (heap s ! product x)))) order of
        Inl e \<Rightarrow> (Inl e, s)
      | Inr order' \<Rightarrow> setOpenOrders productId (upsert_order order' (openOrders x)) s))"

text \<open>\<open>Collect(buffers).groupBy('productId')\<close>: a missing key counts as the empty string.\<close>

definition group_key :: "val \<Rightarrow> string" where
  "group_key v = (if truthy_val v \<or> v = Num 0 then js_string v else [])"

definition groupBy :: "string \<Rightarrow> obj list \<Rightarrow> (string \<times> obj list) list" where
  "groupBy key buffers = fold (\<lambda>b gs. let k = group_key (get key b) in
     AList.update k ((case map_of gs k of None \<Rightarrow> [] | Some xs \<Rightarrow> xs) @ [b]) gs) buffers []"

definition updateOrder :: "(val \<Rightarrow> string \<Rightarrow> string) \<Rightarrow> obj list \<Rightarrow> unit store" where
  "updateOrder moment buffers = (let gs = groupBy ''productId'' buffers in
     foreach (own_keys gs) (\<lambda>productId.
       bindio (getObject productId) (\<lambda>_.
       seqio (foreach (the (map_of gs productId)) (update_order moment productId))
       (change_object productId (\<lambda>x. x)))))"

definition updateFund :: "obj list \<Rightarrow> unit store" where
  "updateFund buffers =
     (let fs = fold (\<lambda>b fs. AList.update (js_string (get ''currencyCode'' b))
          [(''available'', get ''available'' b), (''currency'', get ''currencyCode'' b), (''hold'', get ''hold'' b)] fs)
          buffers [] in
      foreach (own_values fs) set_fund)"

section \<open>Requests\<close>

definition subscription :: "string \<Rightarrow> string \<Rightarrow> string list \<Rightarrow> string list \<Rightarrow> obj" where
  "subscription type key names channels = [(''type'', Str type), (key, Arr (map Str names)), (''channels'', Arr (map Str channels))]"

definition subscribe_products :: "string list \<Rightarrow> string list \<Rightarrow> unit store" where
  "subscribe_products productIds channels = subscribe (subscription ''subscribe'' ''product_ids'' productIds channels)"

definition subscribeFunds :: "string list \<Rightarrow> unit store" where
  "subscribeFunds currencies = subscribe (subscription ''subscribe'' ''currency_ids'' currencies [''funds''])"

definition unsubscribe :: "string list \<Rightarrow> string list \<Rightarrow> unit store" where
  "unsubscribe productIds channels = subscribe (subscription ''unsubscribe'' ''product_ids'' productIds channels)"

definition subscribeAllTicker :: "unit store" where
  "subscribeAllTicker = (\<lambda>s. subscribe_products (map (product_id s) (products s)) [''ticker''] s)"

definition clearUserTrades :: "unit store" where
  "clearUserTrades = (\<lambda>s. foreach (map (product_id s) (products s)) (\<lambda>productId.
     seqio (setOpenOrders productId []) (unsubscribe [productId] [''order''])) s)"

definition store_products :: "val list \<Rightarrow> unit store" where
  "store_products ps = (\<lambda>s. setProducts [length (heap s)..<length (heap s) + length ps]
     (s\<lparr>heap := heap s @ map entries ps\<rparr>))"

definition loadProducts :: "(string \<Rightarrow> val store) \<Rightarrow> unit store \<Rightarrow> unit store" where
  "loadProducts http callback =
     bindio (http ''/products'') (\<lambda>response.
     bindio (lift (elements response)) (\<lambda>ps.
     seqio (store_products ps) callback))"

definition candles :: "nat \<Rightarrow> string" where
  "candles granularity = ''candles_'' @ show_nat granularity"

definition loadProductHistory :: "(string \<Rightarrow> val store) \<Rightarrow> string \<Rightarrow> nat \<Rightarrow> unit store \<Rightarrow> unit store" where
  "loadProductHistory http productId granularity callback =
     seqio (subscribe_products [productId] [candles granularity])
     (bindio (http (''/products/'' @ productId @ ''/candles?granularity='' @ show_nat granularity)) (\<lambda>response.
     bindio (lift (elements response)) (\<lambda>items.
     seqio (setHistory productId (candles granularity) items) callback)))"

definition local_time :: "(val \<Rightarrow> string \<Rightarrow> string) \<Rightarrow> obj \<Rightarrow> val" where
  "local_time moment t = Obj (put ''localTime'' (Str (moment (get ''time'' t) ''H:mm:ss'')) t)"

definition loadTradeHistory :: "(val \<Rightarrow> string \<Rightarrow> string) \<Rightarrow> (string \<Rightarrow> val store) \<Rightarrow> string \<Rightarrow> unit store" where
  "loadTradeHistory moment http productId =
     bindio (http (''/products/'' @ productId @ ''/trades'')) (\<lambda>response.
     bindio (lift (elements response)) (\<lambda>trades.
     setTradeHistory productId (map (local_time moment \<circ> entries) trades)))"

fun map_results :: "('a \<Rightarrow> js_error + 'b) \<Rightarrow> 'a list \<Rightarrow> js_error + 'b list" where
  "map_results f [] = Inr []"
| "map_results f (x # xs) = (case f x of Inl e \<Rightarrow> Inl e | Inr y \<Rightarrow> map_sum (\<lambda>e. e) ((#) y) (map_results f xs))"

definition loadOpenOrders ::
  "(val \<Rightarrow> string \<Rightarrow> string) \<Rightarrow> (string \<Rightarrow> val store) \<Rightarrow> string \<Rightarrow> unit store \<Rightarrow> unit store" where
  "loadOpenOrders moment http productId callback =
     seqio (subscribe_products [productId] [''order''])
     (bindio (getObject productId) (\<lambda>x.
     bindio (http (''/orders?productId='' @ productId @ ''&limit=30&status=open'')) (\<lambda>response.
     bindio (lift (elements response)) (\<lambda>items.
     bindio (\<lambda>s. lift (map_results
       (\<lambda>v. format_order moment (loaded_fields (digits (get ''quoteScale'' (heap s ! product x)))) (entries v)) items) s)
       (\<lambda>orders. seqio (setOpenOrders productId (map Obj orders)) callback)))))"

fun join_query :: "string list \<Rightarrow> string" where
  "join_query [] = []"
| "join_query [s] = s"
| "join_query (s # t # ss) = s @ ''&'' @ join_query (t # ss)"

definition loadFunds :: "(string \<Rightarrow> val store) \<Rightarrow> string list \<Rightarrow> unit store" where
  "loadFunds http currencies =
     seqio (subscribeFunds currencies)
     (bindio (http (''/accounts?'' @ join_query (map (\<lambda>c. ''currency='' @ c) currencies))) (\<lambda>response.
     bindio (lift (elements response)) (\<lambda>xs.
     setFunds (fold (\<lambda>v fs. put (js_string (get ''currency'' (entries v))) v fs) xs []))))"

section \<open>Messages\<close>

text \<open>The three buffers are created by their first message; each has a timer that hands its messages to the
  store.\<close>

definition buffered :: "obj list option \<Rightarrow> obj list" where
  "buffered b = (case b of None \<Rightarrow> [] | Some ms \<Rightarrow> ms)"

definition push_book :: "obj \<Rightarrow> unit store" where
  "push_book = buffer_push (\<lambda>s. buffered (bookBuffer s)) (\<lambda>ms s. s\<lparr>bookBuffer := Some ms\<rparr>)"

definition push_order :: "obj \<Rightarrow> unit store" where
  "push_order = buffer_push (\<lambda>s. buffered (orderBuffer s)) (\<lambda>ms s. s\<lparr>orderBuffer := Some ms\<rparr>)"

definition push_funds :: "obj \<Rightarrow> unit store" where
  "push_funds = buffer_push (\<lambda>s. buffered (fundsBuffer s)) (\<lambda>ms s. s\<lparr>fundsBuffer := Some ms\<rparr>)"

definition book_timer :: "unit store" where
  "book_timer = buffer_tick (\<lambda>s. buffered (bookBuffer s)) (\<lambda>ms s. s\<lparr>bookBuffer := Some ms\<rparr>) updateOrderBook"

definition order_timer :: "(val \<Rightarrow> string \<Rightarrow> string) \<Rightarrow> unit store" where
  "order_timer moment =
     buffer_tick (\<lambda>s. buffered (orderBuffer s)) (\<lambda>ms s. s\<lparr>orderBuffer := Some ms\<rparr>) (updateOrder moment)"

definition funds_timer :: "unit store" where
  "funds_timer = buffer_tick (\<lambda>s. buffered (fundsBuffer s)) (\<lambda>ms s. s\<lparr>fundsBuffer := Some ms\<rparr>) updateFund"

text \<open>The type of a message is a string; on anything else \<open>indexOf\<close> fails.\<close>

definition parseWebSocketMessage :: "(val \<Rightarrow> string \<Rightarrow> string) \<Rightarrow> obj \<Rightarrow> unit store" where
  "parseWebSocketMessage moment msg = (case get ''type'' msg of
     Str type \<Rightarrow>
       if type = ''snapshot'' then setOrderBook (js_string (get ''productId'' msg)) (get ''bids'' msg) (get ''asks'' msg)
       else if type = ''l2update'' then push_book msg
       else if prefix ''candles'' type then updateHistory moment msg
       else if type = ''match'' then updateTradeHistory moment msg
       else if type = ''ticker'' then updatePruductPrice msg
       else if type = ''order'' then push_order msg
       else if type = ''funds'' then push_funds msg
       else ret ()
   | _ \<Rightarrow> throw (TypeError ''msg.type.indexOf is not a function''))"

section \<open>The application\<close>

text \<open>\<open>app.ts\<close>, \<open>loadData\<close>: the products are loaded, then the socket is connected; its callbacks subscribe to the
  tickers (\<open>callback\<close> starts the pages) and hand the messages to the store.\<close>

definition loadData :: "(string \<Rightarrow> val store) \<Rightarrow> unit store" where
  "loadData http = loadProducts http start_socket"

definition app_open :: "unit store \<Rightarrow> unit store" where
  "app_open callback = seqio subscribeAllTicker callback"

definition app_run :: "(val \<Rightarrow> string \<Rightarrow> string) \<Rightarrow> unit store \<Rightarrow> ws_event list \<Rightarrow> trade_state \<Rightarrow> trade_state" where
  "app_run moment callback = ws_run (app_open callback) (parseWebSocketMessage moment)"

end
