(* ===== verification/Trade_Book.thy ===== *)
theory Trade_Book
  imports Trade_Store
begin

text \<open>
  The order book of the exchange client against its specification: per product and side a map from prices to
  sizes, changed by one message of the feed after the other. The client collects messages, regroups
  them by product, files the levels under the strings of their prices and sorts them.
\<close>

section \<open>Specification\<close>

definition price :: "val \<Rightarrow> rat" where
  "price l = (case to_number (item l 0) of Some x \<Rightarrow> x | None \<Rightarrow> 0)"

text \<open>A price is a decimal that prints whole; the feed writes it the way \<open>String\<close> would.\<close>

definition priced :: "val \<Rightarrow> bool" where
  "priced v = (case to_number v of None \<Rightarrow> False | Some x \<Rightarrow> decimal 20 x)"

definition canonical :: "val \<Rightarrow> bool" where
  "canonical v \<longleftrightarrow> priced v \<and> js_string v = string_of_number (to_number v)"

definition levels_ok :: "val list \<Rightarrow> bool" where
  "levels_ok ls \<longleftrightarrow> list_all (\<lambda>l. priced (item l 0)) ls \<and> distinct (map price ls)"

type_synonym depth = "rat \<Rightarrow> val option"

definition depth_of :: "val list \<Rightarrow> depth" where
  "depth_of ls = map_of (map (\<lambda>l. (price l, item l 1)) ls)"

definition spec_side :: "val \<Rightarrow> depth \<Rightarrow> depth" where
  "spec_side c m = m(the (to_number (item c 1)) :=
     (if equals_num (item c 2) (Some 0) then None else Some (item c 2)))"

definition spec_change :: "val \<Rightarrow> depth \<times> depth \<Rightarrow> depth \<times> depth" where
  "spec_change c = (\<lambda>(b, a). if loose_eq (item c 0) (Str ''buy'') then (spec_side c b, a) else (b, spec_side c a))"

section \<open>One side\<close>

lemma string_of_number_inj:
  "decimal 20 x \<Longrightarrow> decimal 20 y \<Longrightarrow> string_of_number (Some x) = string_of_number (Some y) \<Longrightarrow> x = y"
  using number_of_string_of_number by (metis option.inject)

definition side_ok :: "side \<Rightarrow> bool" where
  "side_ok ob \<longleftrightarrow> distinct (map fst ob) \<and>
     (\<forall>(k, l) \<in> set ob. priced (item l 0) \<and> k = string_of_number (to_number (item l 0)))"

definition side_depth :: "side \<Rightarrow> depth" where
  "side_depth ob x = (if decimal 20 x then map_option (\<lambda>l. item l 1) (map_of ob (string_of_number (Some x))) else None)"

lemma priced_price: "priced (item l 0) \<Longrightarrow> to_number (item l 0) = Some (price l) \<and> decimal 20 (price l)"
  by (auto simp: priced_def price_def split: option.splits)

lemma priced_truthy: "priced (item l 0) \<Longrightarrow> truthy_val l"
  by (cases l) (auto simp: priced_def item_def)

lemma side_ok_Nil [simp]: "side_ok []"
  by (simp add: side_ok_def)

lemma side_ok_update:
  assumes "side_ok ob" "priced (item l 0)"
  shows "side_ok (AList.update (string_of_number (to_number (item l 0))) l ob)"
proof -
  have "distinct (map fst (AList.update (string_of_number (to_number (item l 0))) l ob))"
    using assms(1) by (intro distinct_update) (simp add: side_ok_def)
  moreover note set_update_subset [of "string_of_number (to_number (item l 0))" l ob]
  ultimately show ?thesis using assms by (fastforce simp: side_ok_def)
qed

lemma side_depth_update:
  assumes "priced (item l 0)"
  shows "side_depth (AList.update (string_of_number (to_number (item l 0))) l ob) = (side_depth ob)(price l \<mapsto> item l 1)"
proof
  fix x
  note p = priced_price [OF assms]
  show "side_depth (AList.update (string_of_number (to_number (item l 0))) l ob) x = ((side_depth ob)(price l \<mapsto> item l 1)) x"
  proof (cases "decimal 20 x")
    case True
    then show ?thesis using p string_of_number_inj [of x "price l"] by (auto simp: side_depth_def update_conv')
  next
    case False
    with p have "x \<noteq> price l" by auto
    with False show ?thesis by (simp add: side_depth_def)
  qed
qed

lemma side_ok_delete: "side_ok ob \<Longrightarrow> side_ok (AList.delete k ob)"
  using AList.distinct_delete [of ob k] by (auto simp: side_ok_def AList.delete_eq)

lemma side_depth_delete:
  assumes "decimal 20 y"
  shows "side_depth (AList.delete (string_of_number (Some y)) ob) = (side_depth ob)(y := None)"
proof
  fix x
  show "side_depth (AList.delete (string_of_number (Some y)) ob) x = ((side_depth ob)(y := None)) x"
    using assms string_of_number_inj [of x y] by (auto simp: side_depth_def delete_conv')
qed

lemma depth_of_snoc: "price l \<notin> price ` set ls \<Longrightarrow> depth_of (ls @ [l]) = (depth_of ls)(price l \<mapsto> item l 1)"
proof -
  assume a: "price l \<notin> price ` set ls"
  show ?thesis
  proof
    fix x
    have "x = price l \<Longrightarrow> map_of (map (\<lambda>l. (price l, item l 1)) ls) x = None"
      using a by (auto simp: map_of_eq_None_iff)
    then show "depth_of (ls @ [l]) x = ((depth_of ls)(price l \<mapsto> item l 1)) x"
      by (auto simp: depth_of_def map_add_def split: option.splits)
  qed
qed

lemma side_object_ok:
  "levels_ok ls \<Longrightarrow> side_ok (side_object ls) \<and> side_depth (side_object ls) = depth_of ls"
proof (induction ls rule: rev_induct)
  case Nil
  show ?case by (auto simp: side_object_def side_depth_def depth_of_def)
next
  case (snoc l ls)
  then have ok: "levels_ok ls" and p: "priced (item l 0)" and n: "price l \<notin> price ` set ls"
    by (auto simp: levels_ok_def)
  then have t: "truthy_val l" by (simp add: priced_truthy)
  have "side_object (ls @ [l]) = AList.update (string_of_number (to_number (item l 0))) l (side_object ls)"
    using t by (simp add: side_object_def)
  with snoc.IH [OF ok] p n show ?case
    by (simp add: side_ok_update side_depth_update depth_of_snoc)
qed

lemma apply_side_ok:
  assumes "side_ok ob" "canonical (item c 1)"
  shows "side_ok (apply_side c ob) \<and> side_depth (apply_side c ob) = spec_side c (side_depth ob)"
proof -
  obtain x where x: "to_number (item c 1) = Some x" "decimal 20 x" "js_string (item c 1) = string_of_number (Some x)"
    using assms(2) by (auto simp: canonical_def priced_def split: option.splits)
  let ?l = "Arr [item c 1, item c 2]"
  have l: "item ?l 0 = item c 1" "item ?l 1 = item c 2" by (simp_all add: item_def del: One_nat_def)
  have p: "priced (item ?l 0)" "price ?l = x" using x by (simp_all only: l priced_def price_def option.case)
  show ?thesis
  proof (cases "equals_num (item c 2) (Some 0)")
    case True
    with x assms(1) show ?thesis
      by (simp add: apply_side_def spec_side_def side_ok_delete side_depth_delete)
  next
    case False
    with side_ok_update [OF assms(1) p(1)] side_depth_update [OF p(1), of ob] p(2) x l show ?thesis
      by (simp add: apply_side_def spec_side_def)
  qed
qed

section \<open>Sorting\<close>

lemma side_okD:
  assumes "side_ok ob" "map_of ob k = Some l"
  shows "priced (item l 0)" "k = string_of_number (Some (price l))"
proof -
  have "(k, l) \<in> set ob" using assms(2) by (rule map_of_SomeD)
  with assms(1) have p: "priced (item l 0)" and k: "k = string_of_number (to_number (item l 0))"
    by (auto simp: side_ok_def)
  from p show "priced (item l 0)" .
  from k priced_price [OF p] show "k = string_of_number (Some (price l))" by simp
qed

lemma own_key_SomeI: "k \<in> set (own_keys ob) \<Longrightarrow> map_of ob k = Some (the (map_of ob k))"
  using map_of_eq_None_iff [of ob k] by (cases "map_of ob k") auto

lemma side_values:
  assumes "side_ok ob"
  shows "levels_ok (own_values ob)"
proof -
  note d = side_okD [OF assms own_key_SomeI]
  have "list_all (\<lambda>l. priced (item l 0)) (own_values ob)"
    using d(1) by (auto simp: own_values_def list_all_iff simp del: set_own_keys)
  moreover have "inj_on (\<lambda>k. price (the (map_of ob k))) (set (own_keys ob))"
    by (rule inj_on_inverseI [where g = "\<lambda>x. string_of_number (Some x)"]) (rule d(2) [symmetric])
  moreover have "distinct (own_keys ob)" using assms by (simp add: side_ok_def distinct_own_keys)
  ultimately show ?thesis by (simp add: levels_ok_def own_values_def distinct_map comp_def)
qed

lemma depth_of_iff: "levels_ok ls \<Longrightarrow> depth_of ls x = Some v \<longleftrightarrow> (\<exists>l \<in> set ls. price l = x \<and> item l 1 = v)"
  by (auto simp: depth_of_def levels_ok_def comp_def image_iff intro!: map_of_is_SomeI dest!: map_of_SomeD)

lemma option_eqI: "(\<And>v. a = Some v \<longleftrightarrow> b = Some v) \<Longrightarrow> a = b"
  by (cases a; cases b) auto

lemma depth_of_cong: "levels_ok ls \<Longrightarrow> levels_ok ks \<Longrightarrow> set ls = set ks \<Longrightarrow> depth_of ls = depth_of ks"
  by (rule ext, rule option_eqI) (simp add: depth_of_iff)

lemma depth_own_values:
  assumes "side_ok ob"
  shows "depth_of (own_values ob) = side_depth ob"
proof
  fix x
  have "depth_of (own_values ob) x = Some v \<longleftrightarrow> side_depth ob x = Some v" for v
  proof -
    have "depth_of (own_values ob) x = Some v \<longleftrightarrow> (\<exists>l \<in> ran (map_of ob). price l = x \<and> item l 1 = v)"
      by (simp add: depth_of_iff [OF side_values [OF assms]] set_own_values)
    also have "\<dots> \<longleftrightarrow> decimal 20 x \<and> (\<exists>l. map_of ob (string_of_number (Some x)) = Some l \<and> item l 1 = v)"
      using side_okD [OF assms] priced_price string_of_number_inj by (auto simp: ran_def)
    also have "\<dots> \<longleftrightarrow> side_depth ob x = Some v" by (auto simp: side_depth_def)
    finally show ?thesis .
  qed
  then show "depth_of (own_values ob) x = side_depth ob x" by (rule option_eqI)
qed

text \<open>The sorted side has the same levels, by ascending price.\<close>

lemma by_price_price: "levels_ok ls \<Longrightarrow> \<forall>k \<in> set ls. \<forall>l \<in> set ls. by_price k l = price k - price l"
  by (simp add: levels_ok_def list_all_iff by_price_def minus_cmp_def priced_price)

definition ascending :: "val list \<Rightarrow> bool" where
  "ascending ls \<longleftrightarrow> sorted_wrt (<) (map price ls)"

lemma sorted_side_ok:
  assumes "side_ok ob"
  shows "levels_ok (sorted_side ob)" "ascending (sorted_side ob)" "depth_of (sorted_side ob) = side_depth ob"
proof -
  note v = side_values [OF assms]
  have s: "sorted_side ob = sort_key price (own_values ob)"
    unfolding sorted_side_def by (rule js_sort_key) (rule by_price_price [OF v])
  have d: "distinct (map price (sorted_side ob))"
    using v mset_eq_imp_distinct_iff [of "map price (sorted_side ob)" "map price (own_values ob)"]
    by (simp add: s levels_ok_def)
  then show k: "levels_ok (sorted_side ob)" using v by (simp add: levels_ok_def s list_all_iff)
  show "ascending (sorted_side ob)"
    using d sorted_sort_key [of price "own_values ob"] by (simp add: ascending_def s strict_sorted_iff)
  show "depth_of (sorted_side ob) = side_depth ob"
    using depth_of_cong [OF k v] depth_own_values [OF assms] by (simp add: s)
qed

lemma levels_ok_rev [simp]: "levels_ok (rev ls) = levels_ok ls"
  by (simp add: levels_ok_def rev_map [symmetric])

lemma depth_of_rev: "levels_ok ls \<Longrightarrow> depth_of (rev ls) = depth_of ls"
  by (rule depth_of_cong) simp_all

section \<open>Both sides, one product\<close>

definition canonical_change :: "val \<Rightarrow> bool" where
  "canonical_change c \<longleftrightarrow> canonical (item c 1)"

lemma apply_changes_ok:
  assumes "side_ok b" "side_ok a" "list_all canonical_change cs" "fold apply_change cs (b, a) = (b', a')"
  shows "side_ok b' \<and> side_ok a' \<and>
    (side_depth b', side_depth a') = fold spec_change cs (side_depth b, side_depth a)"
  using assms
proof (induction cs arbitrary: b a)
  case (Cons c cs)
  then have c: "canonical (item c 1)" by (simp add: canonical_change_def)
  obtain b1 a1 where s: "apply_change c (b, a) = (b1, a1)" by fastforce
  with apply_side_ok [OF Cons.prems(1) c] apply_side_ok [OF Cons.prems(2) c] Cons.prems(1,2)
  have "side_ok b1" "side_ok a1" "(side_depth b1, side_depth a1) = spec_change c (side_depth b, side_depth a)"
    by (auto simp: apply_change_def spec_change_def split: if_splits)
  with Cons.IH [of b1 a1] Cons.prems(3,4) s show ?case by simp
qed simp

lemma book_after_ok:
  assumes "levels_ok bs" "levels_ok as'" "list_all canonical_change cs" "book_after bs as' cs = (b, a)"
  shows "levels_ok b" "levels_ok a" "ascending (rev b)" "ascending a"
    "(depth_of b, depth_of a) = fold spec_change cs (depth_of bs, depth_of as')"
proof -
  obtain x y where f: "fold apply_change cs (side_object bs, side_object as') = (x, y)" by fastforce
  have o: "side_ok x" "side_ok y"
    "(side_depth x, side_depth y) = fold spec_change cs (depth_of bs, depth_of as')"
    using apply_changes_ok [OF _ _ assms(3) f] side_object_ok [OF assms(1)] side_object_ok [OF assms(2)] by auto
  have e: "b = rev (sorted_side x)" "a = sorted_side y" using assms(4) f by (simp_all add: book_after_def)
  note x = sorted_side_ok [OF o(1)] and y = sorted_side_ok [OF o(2)]
  show "levels_ok b" "levels_ok a" "ascending (rev b)" "ascending a" using e x y by simp_all
  show "(depth_of b, depth_of a) = fold spec_change cs (depth_of bs, depth_of as')"
    using e x y o(3) by (simp add: depth_of_rev)
qed

section \<open>The store\<close>

type_synonym books = "string \<Rightarrow> (depth \<times> depth) option"

definition levels :: "val \<Rightarrow> val list" where
  "levels v = (case v of Arr xs \<Rightarrow> xs | _ \<Rightarrow> [])"

definition books_of :: "trade_state \<Rightarrow> books" where
  "books_of s p = (case objects s of None \<Rightarrow> None
     | Some m \<Rightarrow> map_option (\<lambda>x. (depth_of (levels (bids x)), depth_of (levels (asks x)))) (m p))"

definition object_ok :: "trade_object \<Rightarrow> bool" where
  "object_ok x = (case (bids x, asks x) of (Arr b, Arr a) \<Rightarrow> levels_ok b \<and> levels_ok a | _ \<Rightarrow> False)"

definition books_ok :: "trade_state \<Rightarrow> bool" where
  "books_ok s = (case objects s of None \<Rightarrow> False | Some m \<Rightarrow> (\<forall>p x. m p = Some x \<longrightarrow> object_ok x))"

definition sorted_book :: "trade_state \<Rightarrow> string \<Rightarrow> bool" where
  "sorted_book s p = (case objects s of None \<Rightarrow> False | Some m \<Rightarrow> (case m p of None \<Rightarrow> False
     | Some x \<Rightarrow> ascending (rev (levels (bids x))) \<and> ascending (levels (asks x))))"

definition message_product :: "obj \<Rightarrow> string" where
  "message_product m = js_string (get ''productId'' m)"

definition message_changes :: "obj \<Rightarrow> val list" where
  "message_changes m = levels (get ''changes'' m)"

definition feed_message :: "trade_state \<Rightarrow> obj \<Rightarrow> bool" where
  "feed_message s m \<longleftrightarrow> get ''type'' m = Str ''l2update'' \<and> books_of s (message_product m) \<noteq> None \<and>
     get ''changes'' m = Arr (message_changes m) \<and> list_all canonical_change (message_changes m)"

definition spec_message :: "obj \<Rightarrow> books \<Rightarrow> books" where
  "spec_message m B = B(message_product m := map_option (fold spec_change (message_changes m)) (B (message_product m)))"

lemma update_book_step:
  assumes "books_ok s" "books_of s p \<noteq> None" "list_all canonical_change cs"
  shows "\<exists>m. update_book cs p s = (Inr (), s\<lparr>objects := Some m\<rparr>) \<and> books_ok (s\<lparr>objects := Some m\<rparr>) \<and>
    books_of (s\<lparr>objects := Some m\<rparr>) = (books_of s)(p := map_option (fold spec_change cs) (books_of s p)) \<and>
    sorted_book (s\<lparr>objects := Some m\<rparr>) p \<and> (\<forall>q. q \<noteq> p \<longrightarrow> sorted_book s q \<longrightarrow> sorted_book (s\<lparr>objects := Some m\<rparr>) q)"
proof -
  obtain m x where m: "objects s = Some m" "m p = Some x"
    using assms(2) by (auto simp: books_of_def split: option.splits)
  with assms(1) have "object_ok x" by (auto simp: books_ok_def)
  then obtain bs as' where x: "bids x = Arr bs" "asks x = Arr as'" "levels_ok bs" "levels_ok as'"
    by (auto simp: object_ok_def split: val.splits)
  obtain b a where ba: "book_after bs as' cs = (b, a)" by fastforce
  note ok = book_after_ok [OF x(3,4) assms(3) ba]
  let ?x = "x\<lparr>bids := Arr b, asks := Arr a\<rparr>" and ?m = "\<lambda>x'. m(p \<mapsto> x')"
  have "update_book cs p s = (Inr (), s\<lparr>objects := Some (?m ?x)\<rparr>)"
    using m x(1,2) ba by (simp add: update_book_def getObject_def elements_def lift_def io_defs
        setOrderBook_def change_object_def put_object_def modify_def)
  moreover have "books_ok (s\<lparr>objects := Some (?m ?x)\<rparr>)"
    using assms(1) m ok(1,2) by (auto simp: books_ok_def object_ok_def)
  moreover have "books_of (s\<lparr>objects := Some (?m ?x)\<rparr>) = (books_of s)(p := map_option (fold spec_change cs) (books_of s p))"
    using m x(1,2) ok(5) by (auto simp: books_of_def levels_def)
  moreover have "sorted_book (s\<lparr>objects := Some (?m ?x)\<rparr>) p"
    using ok(3,4) by (simp add: sorted_book_def levels_def)
  moreover have "\<forall>q. q \<noteq> p \<longrightarrow> sorted_book s q \<longrightarrow> sorted_book (s\<lparr>objects := Some (?m ?x)\<rparr>) q"
    using m by (auto simp: sorted_book_def)
  ultimately show ?thesis by blast
qed

lemma update_books:
  assumes "distinct ks" "books_ok s" "\<forall>k \<in> set ks. books_of s k \<noteq> None \<and> list_all canonical_change (c k)"
  shows "\<exists>m. foreach ks (\<lambda>k. update_book (c k) k) s = (Inr (), s\<lparr>objects := m\<rparr>) \<and> books_ok (s\<lparr>objects := m\<rparr>) \<and>
    books_of (s\<lparr>objects := m\<rparr>) = (\<lambda>p. if p \<in> set ks then map_option (fold spec_change (c p)) (books_of s p) else books_of s p) \<and>
    (\<forall>q. q \<in> set ks \<or> sorted_book s q \<longrightarrow> sorted_book (s\<lparr>objects := m\<rparr>) q)"
  using assms
proof (induction ks arbitrary: s)
  case Nil
  then show ?case by (intro exI [of _ "objects s"]) (simp add: ret_def)
next
  case (Cons k ks)
  from Cons.prems have "books_of s k \<noteq> None" "list_all canonical_change (c k)" by auto
  from update_book_step [OF Cons.prems(2) this] obtain m where
    m: "update_book (c k) k s = (Inr (), s\<lparr>objects := Some m\<rparr>)" "books_ok (s\<lparr>objects := Some m\<rparr>)"
      "books_of (s\<lparr>objects := Some m\<rparr>) = (books_of s)(k := map_option (fold spec_change (c k)) (books_of s k))"
      "sorted_book (s\<lparr>objects := Some m\<rparr>) k" "\<forall>q. q \<noteq> k \<longrightarrow> sorted_book s q \<longrightarrow> sorted_book (s\<lparr>objects := Some m\<rparr>) q"
    by blast
  have "\<forall>j \<in> set ks. books_of (s\<lparr>objects := Some m\<rparr>) j \<noteq> None \<and> list_all canonical_change (c j)"
    using Cons.prems m(3) by auto
  with Cons.IH [OF _ m(2)] Cons.prems(1) obtain m' where
    m': "foreach ks (\<lambda>k. update_book (c k) k) (s\<lparr>objects := Some m\<rparr>) = (Inr (), s\<lparr>objects := m'\<rparr>)"
      "books_ok (s\<lparr>objects := m'\<rparr>)"
      "books_of (s\<lparr>objects := m'\<rparr>) = (\<lambda>p. if p \<in> set ks then map_option (fold spec_change (c p)) (books_of (s\<lparr>objects := Some m\<rparr>) p)
         else books_of (s\<lparr>objects := Some m\<rparr>) p)"
      "\<forall>q. q \<in> set ks \<or> sorted_book (s\<lparr>objects := Some m\<rparr>) q \<longrightarrow> sorted_book (s\<lparr>objects := m'\<rparr>) q"
    by auto
  show ?case
  proof (intro exI conjI)
    show "foreach (k # ks) (\<lambda>k. update_book (c k) k) s = (Inr (), s\<lparr>objects := m'\<rparr>)"
      using m(1) m'(1) by (simp add: seqio_def bindio_def)
    show "books_of (s\<lparr>objects := m'\<rparr>) = (\<lambda>p. if p \<in> set (k # ks) then map_option (fold spec_change (c p)) (books_of s p) else books_of s p)"
      using m(3) m'(3) Cons.prems(1) by (auto simp: fun_eq_iff)
    show "\<forall>q. q \<in> set (k # ks) \<or> sorted_book s q \<longrightarrow> sorted_book (s\<lparr>objects := m'\<rparr>) q"
      using m(4,5) m'(4) by (metis set_ConsD)
  qed (rule m'(2))
qed

text \<open>Regrouping keeps the order of the changes of each product.\<close>

lemma group_changes_ok:
  assumes "\<forall>m \<in> set ms. feed_message s m"
  shows "distinct (map fst (group_changes ms)) \<and> fst ` set (group_changes ms) = message_product ` set ms \<and>
    (\<forall>k cs. map_of (group_changes ms) k = Some cs \<longrightarrow> list_all canonical_change cs \<and>
      fold spec_message ms B k = map_option (fold spec_change cs) (B k)) \<and>
    (\<forall>k. map_of (group_changes ms) k = None \<longrightarrow> fold spec_message ms B k = B k)"
  using assms
proof (induction ms rule: rev_induct)
  case Nil
  then show ?case by (simp add: group_changes_def)
next
  case (snoc m ms)
  let ?G = "group_changes ms" and ?k = "message_product m" and ?c = "message_changes m"
  have f: "get ''changes'' m = Arr ?c" "list_all canonical_change ?c" using snoc.prems by (simp_all add: feed_message_def)
  have g: "group_changes (ms @ [m]) =
      AList.update ?k ((case map_of ?G ?k of None \<Rightarrow> [] | Some xs \<Rightarrow> xs) @ ?c) ?G"
    using f(1) by (simp add: group_changes_def add_changes_def message_product_def concat_val_def Let_def)
  from snoc.prems have ih: "distinct (map fst ?G)" "fst ` set ?G = message_product ` set ms"
    "\<And>k cs. map_of ?G k = Some cs \<Longrightarrow> list_all canonical_change cs \<and> fold spec_message ms B k = map_option (fold spec_change cs) (B k)"
    "\<And>k. map_of ?G k = None \<Longrightarrow> fold spec_message ms B k = B k"
    using snoc.IH by auto
  show ?case
  proof (intro conjI allI impI)
    show "distinct (map fst (group_changes (ms @ [m])))"
      unfolding g by (rule distinct_update) (rule ih(1))
    show "fst ` set (group_changes (ms @ [m])) = message_product ` set (ms @ [m])"
      unfolding g dom_map_of_conv_image_fst [symmetric] update_conv' using ih(2)
      by (simp add: dom_map_of_conv_image_fst insert_commute)
    fix k cs assume k: "map_of (group_changes (ms @ [m])) k = Some cs"
    show "list_all canonical_change cs"
      using k ih(3) f(2) by (auto simp: g update_conv' split: if_splits option.splits)
    show "fold spec_message (ms @ [m]) B k = map_option (fold spec_change cs) (B k)"
      using k ih(3,4) by (cases "map_of ?G k")
        (auto simp: g update_conv' spec_message_def option.map_comp comp_def split: if_splits)
  next
    fix k assume "map_of (group_changes (ms @ [m])) k = None"
    then show "fold spec_message (ms @ [m]) B k = B k"
      using ih(4) by (auto simp: g update_conv' spec_message_def split: if_splits)
  qed
qed

text \<open>Where every message concerns a known product and writes its prices as \<open>String\<close> would, handling the collected
  messages at once leaves for every product exactly the prices and sizes that applying the messages one by
  one leaves; bids come out by descending, asks by ascending price, and nothing else of the store changes.\<close>

lemma book_refines:
  assumes "books_ok s" "\<forall>m \<in> set ms. feed_message s m"
  shows "\<exists>m. updateOrderBook ms s = (Inr (), s\<lparr>objects := m\<rparr>) \<and> books_ok (s\<lparr>objects := m\<rparr>) \<and>
    books_of (s\<lparr>objects := m\<rparr>) = fold spec_message ms (books_of s) \<and>
    (\<forall>q. sorted_book s q \<longrightarrow> sorted_book (s\<lparr>objects := m\<rparr>) q)"
proof -
  let ?G = "group_changes ms"
  note g = group_changes_ok [OF assms(2), of "books_of s"]
  have d: "distinct (own_keys ?G)" using g by (simp add: distinct_own_keys)
  have k: "set (own_keys ?G) = message_product ` set ms" using g by simp
  have c: "\<forall>k \<in> set (own_keys ?G). books_of s k \<noteq> None \<and> list_all canonical_change (the (map_of ?G k))"
  proof
    fix k assume a: "k \<in> set (own_keys ?G)"
    with k assms(2) have "books_of s k \<noteq> None" by (auto simp: feed_message_def)
    with own_key_SomeI [OF a] g show "books_of s k \<noteq> None \<and> list_all canonical_change (the (map_of ?G k))" by blast
  qed
  obtain m where m: "updateOrderBook ms s = (Inr (), s\<lparr>objects := m\<rparr>)" "books_ok (s\<lparr>objects := m\<rparr>)"
    "books_of (s\<lparr>objects := m\<rparr>) = (\<lambda>p. if p \<in> set (own_keys ?G)
       then map_option (fold spec_change (the (map_of ?G p))) (books_of s p) else books_of s p)"
    "\<forall>q. q \<in> set (own_keys ?G) \<or> sorted_book s q \<longrightarrow> sorted_book (s\<lparr>objects := m\<rparr>) q"
    using update_books [OF d assms(1) c] by (auto simp: updateOrderBook_def Let_def)
  have "books_of (s\<lparr>objects := m\<rparr>) p = fold spec_message ms (books_of s) p" for p
  proof (cases "p \<in> set (own_keys ?G)")
    case True
    with own_key_SomeI [OF True] g have "fold spec_message ms (books_of s) p = map_option (fold spec_change (the (map_of ?G p))) (books_of s p)"
      by blast
    with True m(3) show ?thesis by (simp only: if_True)
  next
    case False
    then have "map_of ?G p = None" by (simp add: map_of_eq_None_iff)
    with g have "fold spec_message ms (books_of s) p = books_of s p" by blast
    with False m(3) show ?thesis by (simp only: if_False)
  qed
  then have "books_of (s\<lparr>objects := m\<rparr>) = fold spec_message ms (books_of s)" by (rule ext)
  moreover have "\<forall>q. sorted_book s q \<longrightarrow> sorted_book (s\<lparr>objects := m\<rparr>) q" using m(4) by blast
  ultimately show ?thesis using m(1,2) by (intro exI [of _ m] conjI)
qed

text \<open>A store with one product, and two messages that change its book.\<close>

definition demo_object :: trade_object where
  "demo_object = \<lparr>bids = Arr [Arr [Num (21 / 2), Num 1], Arr [Num 10, Num 3]], asks = Arr [Arr [Num 11, Num 2]],
     history = [Arr [Num 60, Num 9, Num 12, Num 10, Num 10, Num 5]], historyType = ''candles_60'', tradeHistory = [],
     product = 0, openOrders = []\<rparr>"

definition demo_store :: trade_state where
  "demo_store = initial_store\<lparr>heap := [[(''id'', Str ''BTC-USDT'')]], products := [0],
     objects := Some [''BTC-USDT'' \<mapsto> demo_object]\<rparr>"

definition l2update :: "string \<Rightarrow> val list \<Rightarrow> obj" where
  "l2update p cs = [(''type'', Str ''l2update''), (''productId'', Str p), (''changes'', Arr cs)]"

definition demo_updates :: "obj list" where
  "demo_updates = [l2update ''BTC-USDT'' [Arr [Str ''buy'', Str ''10.5'', Str ''0''], Arr [Str ''sell'', Str ''12'', Str ''4'']],
     l2update ''BTC-USDT'' [Arr [Str ''buy'', Str ''9.25'', Str ''7'']]]"

lemma demo_books_ok: "books_ok demo_store"
proof -
  have "object_ok demo_object" by code_simp
  then show ?thesis by (simp add: books_ok_def demo_store_def)
qed

section \<open>Prices with trailing zeros\<close>

lemma map_of_side_object:
  assumes "levels_ok ls" "l \<in> set ls"
  shows "map_of (side_object ls) (string_of_number (to_number (item l 0))) = Some l"
  using assms
proof (induction ls rule: rev_induct)
  case (snoc k ls)
  then have p: "priced (item k 0)" "levels_ok ls" by (auto simp: levels_ok_def)
  have s: "side_object (ls @ [k]) = AList.update (string_of_number (to_number (item k 0))) k (side_object ls)"
    using priced_truthy [OF p(1)] by (simp add: side_object_def)
  show ?case
  proof (cases "l = k")
    case False
    with snoc.prems have l: "l \<in> set ls" "priced (item l 0)" "price l \<noteq> price k"
      by (auto simp: levels_ok_def list_all_iff intro: rev_image_eqI)
    then have "string_of_number (to_number (item l 0)) \<noteq> string_of_number (to_number (item k 0))"
      using priced_price [OF p(1)] priced_price [OF l(2)] string_of_number_inj by auto
    with snoc.IH [OF p(2) l(1)] show ?thesis by (simp add: s update_conv')
  qed (simp add: s update_conv')
qed simp

lemma apply_side_other: "js_string (item c 1) \<noteq> k \<Longrightarrow> map_of (apply_side c ob) k = map_of ob k"
  by (simp add: apply_side_def update_conv' delete_conv')

lemma apply_changes_other:
  assumes "\<forall>c \<in> set cs. js_string (item c 1) \<noteq> k" "fold apply_change cs (b, a) = (b', a')"
  shows "map_of b' k = map_of b k \<and> map_of a' k = map_of a k"
  using assms
proof (induction cs arbitrary: b a)
  case (Cons c cs)
  obtain b1 a1 where s: "apply_change c (b, a) = (b1, a1)" by fastforce
  with Cons.prems(1) apply_side_other [of c k] have "map_of b1 k = map_of b k" "map_of a1 k = map_of a k"
    by (auto simp: apply_change_def split: if_splits)
  with Cons.IH [of b1 a1] Cons.prems s show ?case by simp
qed simp

lemma in_sorted_side: "map_of ob k = Some l \<Longrightarrow> l \<in> set (sorted_side ob)"
  by (auto simp: sorted_side_def set_own_values ran_def)

text \<open>A level is removed or replaced only by a change that spells its price the way \<open>String\<close> prints
  the number. Whatever else a batch holds, the level stays; in particular a change with size 0 at \<open>10.50\<close>
  leaves the level at 10.5 in the book.\<close>

theorem misspelt_change_ignored:
  assumes "levels_ok bs" "levels_ok as'" "book_after bs as' cs = (b, a)"
    and "\<forall>c \<in> set cs. js_string (item c 1) \<noteq> string_of_number (to_number (item l 0))"
  shows "(l \<in> set bs \<longrightarrow> l \<in> set b) \<and> (l \<in> set as' \<longrightarrow> l \<in> set a)"
proof -
  obtain x y where f: "fold apply_change cs (side_object bs, side_object as') = (x, y)" by fastforce
  have e: "b = rev (sorted_side x)" "a = sorted_side y" using assms(3) f by (simp_all add: book_after_def)
  have k: "map_of x (string_of_number (to_number (item l 0))) = map_of (side_object bs) (string_of_number (to_number (item l 0)))"
    "map_of y (string_of_number (to_number (item l 0))) = map_of (side_object as') (string_of_number (to_number (item l 0)))"
    using apply_changes_other [OF assms(4) f] by simp_all
  show ?thesis
  proof (intro conjI impI)
    assume "l \<in> set bs"
    with k(1) show "l \<in> set b" using map_of_side_object [OF assms(1)] in_sorted_side e(1) by simp
  next
    assume "l \<in> set as'"
    with k(2) show "l \<in> set a" using map_of_side_object [OF assms(2)] in_sorted_side e(2) by simp
  qed
qed

theorem misspelt_change_ignored_witness:
  "Arr [Num (21 / 2), Num 1] \<in> set (fst (book_after [Arr [Num (21 / 2), Num 1]] [] [Arr [Str ''buy'', Str ''10.50'', Str ''0'']]))"
proof -
  let ?l = "Arr [Num (21 / 2), Num 1]" and ?c = "Arr [Str ''buy'', Str ''10.50'', Str ''0'']"
  obtain b a where ba: "book_after [?l] [] [?c] = (b, a)" by fastforce
  have "levels_ok [?l]" "levels_ok []" by code_simp+
  moreover have "\<forall>c \<in> set [?c]. js_string (item c 1) \<noteq> string_of_number (to_number (item ?l 0))" by code_simp
  ultimately show ?thesis using misspelt_change_ignored [OF _ _ ba, of ?l] ba by simp
qed

end
