(* ===== verification/Message_Buffer.thy ===== *)
theory Message_Buffer
  imports Web_Socket
begin

text \<open>
  The message buffers of the exchange client (\<open>store/buffer.ts\<close>) as an interface: messages are pushed one at a
  time, a timer hands all that wait to the action and drops them when it returns. \<open>message_buffer\<close> is any
  such buffer, \<open>refining_buffer\<close> one whose action refines a specification of single messages. The store
  of the exchange client (\<open>Trade_Props\<close>) provides the buffers of the book and of the funds.
\<close>

datatype buffer_event = Push obj | Tick

fun pushes :: "buffer_event list \<Rightarrow> obj list" where
  "pushes [] = []"
| "pushes (Push m # es) = m # pushes es"
| "pushes (Tick # es) = pushes es"

definition buffer_step ::
  "('w \<Rightarrow> obj list) \<Rightarrow> (obj list \<Rightarrow> 'w \<Rightarrow> 'w) \<Rightarrow> (obj list \<Rightarrow> ('w, unit) io) \<Rightarrow> buffer_event \<Rightarrow> 'w \<Rightarrow> 'w" where
  "buffer_step read wr action e w = snd (case e of
     Push m \<Rightarrow> buffer_push read wr m w | Tick \<Rightarrow> buffer_tick read wr action w)"

definition buffer_run ::
  "('w \<Rightarrow> obj list) \<Rightarrow> (obj list \<Rightarrow> 'w \<Rightarrow> 'w) \<Rightarrow> (obj list \<Rightarrow> ('w, unit) io) \<Rightarrow> buffer_event list \<Rightarrow> 'w \<Rightarrow> 'w" where
  "buffer_run read wr action es w = fold (buffer_step read wr action) es w"

locale message_buffer =
  fixes read :: "'w \<Rightarrow> obj list" and wr :: "obj list \<Rightarrow> 'w \<Rightarrow> 'w" and action :: "obj list \<Rightarrow> ('w, unit) io"
  assumes read_wr [simp]: "read (wr ms w) = ms"
    and action_read [simp]: "read (snd (action ms w)) = read w"
begin

lemma step_Push: "read (buffer_step read wr action (Push m) w) = read w @ [m]"
  by (simp add: buffer_step_def buffer_push_def modify_def)

lemma step_Tick:
  "read (buffer_step read wr action Tick w) = (if \<exists>u. fst (action (read w) w) = Inr u then [] else read w)"
  by (auto simp: buffer_step_def buffer_tick_def modify_def io_defs split: prod.splits sum.splits)
    (metis action_read snd_conv)+

end

text \<open>A refining buffer: on acceptable messages the action succeeds, keeps the invariant and does to the
  abstract state what the specification does message by message.\<close>

locale refining_buffer = message_buffer read wr action
  for read :: "'w \<Rightarrow> obj list" and wr :: "obj list \<Rightarrow> 'w \<Rightarrow> 'w" and action :: "obj list \<Rightarrow> ('w, unit) io" +
  fixes I :: "'w \<Rightarrow> bool" and abst :: "'w \<Rightarrow> 'b" and spec :: "obj \<Rightarrow> 'b \<Rightarrow> 'b" and accept :: "obj \<Rightarrow> bool"
  assumes wr_inv: "I (wr ms w) = I w"
    and wr_abst: "abst (wr ms w) = abst w"
    and action_refines: "I w \<Longrightarrow> list_all accept ms \<Longrightarrow>
      \<exists>w'. action ms w = (Inr (), w') \<and> I w' \<and> abst w' = fold spec ms (abst w)"
begin

lemma step_refines:
  assumes "I w" "list_all accept (read w)" "list_all accept (pushes [e])"
  defines "w' \<equiv> buffer_step read wr action e w"
  shows "I w' \<and> list_all accept (read w') \<and>
    fold spec (read w') (abst w') = fold spec (read w @ pushes [e]) (abst w) \<and> (e = Tick \<longrightarrow> read w' = [])"
proof (cases e)
  case (Push m)
  then show ?thesis using assms by (simp add: buffer_step_def buffer_push_def modify_def wr_inv wr_abst)
next
  case Tick
  from action_refines [OF assms(1,2)] obtain v where
    v: "action (read w) w = (Inr (), v)" "I v" "abst v = fold spec (read w) (abst w)" by blast
  with Tick assms(1) show ?thesis
    by (auto simp: w'_def buffer_step_def buffer_tick_def modify_def io_defs wr_inv wr_abst)
qed

lemma run_refines:
  assumes "I w" "list_all accept (read w)" "list_all accept (pushes es)"
  defines "w' \<equiv> buffer_run read wr action es w"
  shows "I w' \<and> list_all accept (read w') \<and>
    fold spec (read w') (abst w') = fold spec (read w @ pushes es) (abst w) \<and>
    (es \<noteq> [] \<and> last es = Tick \<longrightarrow> read w' = [])"
  unfolding w'_def using assms(1-3)
proof (induction es rule: rev_induct)
  case Nil
  then show ?case by (simp add: buffer_run_def)
next
  case (snoc e es)
  have p: "pushes (es @ [e]) = pushes es @ pushes [e]" by (induction es rule: pushes.induct) simp_all
  let ?v = "buffer_run read wr action es w"
  have v: "I ?v" "list_all accept (read ?v)" "fold spec (read ?v) (abst ?v) = fold spec (read w @ pushes es) (abst w)"
    using snoc p by auto
  have "buffer_run read wr action (es @ [x]) w = buffer_step read wr action x ?v" for x by (simp add: buffer_run_def)
  with step_refines [OF v(1,2), of e] v(3) snoc.prems p show ?case by simp
qed

text \<open>What was pushed before the last tick has been applied, in order and once.\<close>

lemma delivered:
  assumes "I w" "read w = []" "list_all accept (pushes es)"
  shows "read (buffer_run read wr action (es @ [Tick]) w) = []"
    "abst (buffer_run read wr action (es @ [Tick]) w) = fold spec (pushes es) (abst w)"
proof -
  have p: "pushes (es @ [Tick]) = pushes es" by (induction es rule: pushes.induct) simp_all
  from run_refines [OF assms(1), of "es @ [Tick]"] assms(2,3) p
  show r: "read (buffer_run read wr action (es @ [Tick]) w) = []" by simp
  from run_refines [OF assms(1), of "es @ [Tick]"] assms(2,3) p r
  show "abst (buffer_run read wr action (es @ [Tick]) w) = fold spec (pushes es) (abst w)" by simp
qed

end

end
