(* ===== verification/Trade_Props.thy ===== *)
theory Trade_Props
  imports Trade_Book Message_Buffer
begin

text \<open>
  What the store of the exchange client guarantees, and where it fails: the book follows the feed, the funds
  follow theirs, a message for an unknown product blocks its buffer for good, a trade that opens a candle is
  counted twice, the trade history is bounded.
\<close>

section \<open>The book follows the feed\<close>

definition feed_step :: "(val \<Rightarrow> string \<Rightarrow> string) \<Rightarrow> buffer_event \<Rightarrow> trade_state \<Rightarrow> trade_state" where
  "feed_step moment e s = (case e of Push m \<Rightarrow> snd (parseWebSocketMessage moment m s) | Tick \<Rightarrow> snd (book_timer s))"

definition feed_run :: "(val \<Rightarrow> string \<Rightarrow> string) \<Rightarrow> buffer_event list \<Rightarrow> trade_state \<Rightarrow> trade_state" where
  "feed_run moment es s = fold (feed_step moment) es s"

definition book_read :: "trade_state \<Rightarrow> obj list" where
  "book_read s = buffered (bookBuffer s)"

definition book_wr :: "obj list \<Rightarrow> trade_state \<Rightarrow> trade_state" where
  "book_wr ms s = s\<lparr>bookBuffer := Some ms\<rparr>"

lemma push_book_eq: "push_book = buffer_push book_read book_wr"
  by (simp add: push_book_def book_read_def [abs_def] book_wr_def [abs_def])

lemma book_timer_eq: "book_timer = buffer_tick book_read book_wr updateOrderBook"
  by (simp add: book_timer_def book_read_def [abs_def] book_wr_def [abs_def])

lemma feed_run_buffer:
  assumes "list_all (\<lambda>m. get ''type'' m = Str ''l2update'') (pushes es)"
  shows "feed_run moment es s = buffer_run book_read book_wr updateOrderBook es s"
  using assms
proof (induction es arbitrary: s)
  case (Cons e es)
  have "list_all (\<lambda>m. get ''type'' m = Str ''l2update'') (pushes es)" using Cons.prems by (cases e) simp_all
  moreover have "feed_step moment e s = buffer_step book_read book_wr updateOrderBook e s"
    using Cons.prems by (cases e)
      (simp_all add: feed_step_def buffer_step_def parseWebSocketMessage_def push_book_eq book_timer_eq)
  ultimately show ?case using Cons.IH by (simp add: feed_run_def buffer_run_def)
qed (simp add: feed_run_def buffer_run_def)

text \<open>Handling a batch never touches the buffer, nor which products are known.\<close>

definition leaves :: "('w \<Rightarrow> 'b) \<Rightarrow> ('w, 'a) io \<Rightarrow> bool" where
  "leaves f m \<longleftrightarrow> (\<forall>w. f (snd (m w)) = f w)"

lemma leavesD: "leaves f m \<Longrightarrow> m w = (r, w') \<Longrightarrow> f w' = f w"
  by (metis leaves_def snd_conv)

lemma leaves_ret [intro]: "leaves f (ret x)" and leaves_throw [intro]: "leaves f (throw e)"
  by (simp_all add: leaves_def ret_def throw_def)

lemma leaves_bind [intro]: "leaves f m \<Longrightarrow> (\<And>x. leaves f (g x)) \<Longrightarrow> leaves f (bindio m g)"
  by (auto simp: leaves_def bindio_def split: prod.splits sum.splits) (metis snd_conv)+

lemma leaves_seq [intro]: "leaves f m \<Longrightarrow> leaves f n \<Longrightarrow> leaves f (seqio m n)"
  unfolding seqio_def by (rule leaves_bind)

lemma leaves_foreach [intro]: "(\<And>x. x \<in> set xs \<Longrightarrow> leaves f (g x)) \<Longrightarrow> leaves f (foreach xs g)"
  by (induction xs) auto

lemma leaves_modify: "(\<And>w. f (g w) = f w) \<Longrightarrow> leaves f (modify g)"
  by (simp add: leaves_def modify_def)

lemma leaves_lift [intro]: "leaves f (lift r)"
  by (cases r) (auto simp: lift_def)

lemma leaves_getObject [intro]: "leaves f (getObject p)"
  by (simp add: leaves_def getObject_def split: option.splits)

lemma leaves_change_object:
  "(\<And>x s. f (put_object p (g x) s) = f s) \<Longrightarrow> leaves f (change_object p g)"
  unfolding change_object_def by (intro leaves_bind leaves_getObject leaves_modify)

lemma book_read_put [simp]: "book_read (put_object p x s) = book_read s"
  by (simp add: book_read_def put_object_def)

lemma leaves_book_read: "leaves book_read (updateOrderBook ms)"
  unfolding updateOrderBook_def update_book_def setOrderBook_def Let_def case_prod_beta
  by (intro leaves_foreach leaves_bind leaves_getObject leaves_lift leaves_change_object) simp

definition products_of :: "trade_state \<Rightarrow> string set" where
  "products_of s = dom (books_of s)"

definition accepted :: "string set \<Rightarrow> obj \<Rightarrow> bool" where
  "accepted P m \<longleftrightarrow> message_product m \<in> P \<and> get ''type'' m = Str ''l2update'' \<and>
     get ''changes'' m = Arr (message_changes m) \<and> list_all canonical_change (message_changes m)"

definition feed_inv :: "string set \<Rightarrow> string set \<Rightarrow> trade_state \<Rightarrow> bool" where
  "feed_inv P Q s \<longleftrightarrow> books_ok s \<and> products_of s = P \<and> (\<forall>p \<in> Q. sorted_book s p)"

lemma dom_spec_messages: "dom (fold spec_message ms B) = dom B"
proof (induction ms arbitrary: B)
  case (Cons m ms)
  have "dom (spec_message m B) = dom B" by (auto simp: spec_message_def split: if_splits)
  with Cons show ?case by simp
qed simp

lemma books_of_wr [simp]: "books_of (book_wr ms s) = books_of s"
  and books_ok_wr [simp]: "books_ok (book_wr ms s) = books_ok s"
  and sorted_book_wr [simp]: "sorted_book (book_wr ms s) p = sorted_book s p"
  by (simp_all add: books_of_def book_wr_def fun_eq_iff books_ok_def sorted_book_def)

interpretation book_buffer: refining_buffer book_read book_wr updateOrderBook "feed_inv P Q" books_of spec_message "accepted P"
  for P Q
proof
  show "book_read (book_wr ms w) = ms" for ms w by (simp add: book_read_def book_wr_def buffered_def)
  show "book_read (snd (updateOrderBook ms w)) = book_read w" for ms w
    using leaves_book_read by (simp add: leaves_def)
  show "feed_inv P Q (book_wr ms w) = feed_inv P Q w" for ms w
    by (simp add: feed_inv_def products_of_def)
  show "books_of (book_wr ms w) = books_of w" for ms w by simp
  fix s ms assume i: "feed_inv P Q s" and a: "list_all (accepted P) ms"
  have "\<forall>m \<in> set ms. feed_message s m"
    using i a by (auto simp: feed_inv_def products_of_def list_all_iff accepted_def feed_message_def)
  with book_refines [of s ms] i show "\<exists>w'. updateOrderBook ms s = (Inr (), w') \<and> feed_inv P Q w' \<and>
      books_of w' = fold spec_message ms (books_of s)"
    unfolding feed_inv_def products_of_def using dom_spec_messages [of ms "books_of s"] by metis
qed

text \<open>C4: the book follows the feed. However the updates of the feed and the ticks of the 200 ms timer
  interleave, as long as every update concerns a known product and writes its prices as \<open>String\<close> would:
  after a tick no update is waiting, every product has exactly the prices and sizes that applying all the
  updates one by one, in the order they came, gives, and books that were sorted still are.\<close>

theorem book_follows_feed:
  assumes "books_ok s" "book_read s = []" "\<forall>m \<in> set (pushes es). feed_message s m"
  shows "book_read (feed_run moment (es @ [Tick]) s) = [] \<and>
    books_of (feed_run moment (es @ [Tick]) s) = fold spec_message (pushes es) (books_of s) \<and>
    (\<forall>p. sorted_book s p \<longrightarrow> sorted_book (feed_run moment (es @ [Tick]) s) p)"
proof -
  let ?P = "products_of s" and ?Q = "{p. sorted_book s p}"
  have p: "pushes (es @ [Tick]) = pushes es" by (induction es rule: pushes.induct) simp_all
  have i: "feed_inv ?P ?Q s" using assms(1) by (simp add: feed_inv_def)
  have a: "list_all (accepted ?P) (pushes es)"
    using assms(3) by (auto simp: list_all_iff accepted_def feed_message_def products_of_def)
  have r: "feed_run moment (es @ [Tick]) s = buffer_run book_read book_wr updateOrderBook (es @ [Tick]) s"
    using a p by (intro feed_run_buffer) (simp add: list_all_iff accepted_def)
  from book_buffer.run_refines [OF i, of "es @ [Tick]"] assms(2) a p
  have "feed_inv ?P ?Q (feed_run moment (es @ [Tick]) s)" by (simp add: r)
  then show ?thesis using book_buffer.delivered [OF i assms(2) a] by (simp add: r feed_inv_def)
qed

text \<open>Two updates and two ticks on the store with one product.\<close>

definition demo_updates :: "buffer_event list" where
  "demo_updates = [
     Push (l2update ''BTC-USDT'' [Arr [Str ''buy'', Str ''10.5'', Str ''0''], Arr [Str ''sell'', Str ''12'', Str ''4'']]),
     Tick, Push (l2update ''BTC-USDT'' [Arr [Str ''buy'', Str ''9.25'', Str ''7'']])]"

definition update_shape :: "obj \<Rightarrow> bool" where
  "update_shape m \<longleftrightarrow> get ''type'' m = Str ''l2update'' \<and> message_product m = ''BTC-USDT'' \<and>
     get ''changes'' m = Arr (message_changes m) \<and> list_all canonical_change (message_changes m)"

lemma demo_feed: "\<forall>m \<in> set (pushes demo_updates). feed_message demo_store m"
proof -
  have "list_all update_shape (pushes demo_updates)" by code_simp
  then show ?thesis
    by (auto simp: list_all_iff update_shape_def feed_message_def books_of_def demo_store_def)
qed

theorem book_follows_feed_witness:
  "book_read (feed_run (\<lambda>_ _. []) (demo_updates @ [Tick]) demo_store) = [] \<and>
   books_of (feed_run (\<lambda>_ _. []) (demo_updates @ [Tick]) demo_store) =
     fold spec_message (pushes demo_updates) (books_of demo_store)"
proof -
  have "book_read demo_store = []" by (simp add: book_read_def demo_store_def initial_store_def buffered_def)
  with book_follows_feed [OF demo_books_ok _ demo_feed, of "\<lambda>_ _. []"] show ?thesis by blast
qed

section \<open>The funds follow theirs\<close>

definition funds_read :: "trade_state \<Rightarrow> obj list" where
  "funds_read s = buffered (fundsBuffer s)"

definition funds_wr :: "obj list \<Rightarrow> trade_state \<Rightarrow> trade_state" where
  "funds_wr ms s = s\<lparr>fundsBuffer := Some ms\<rparr>"

definition fund_of :: "obj \<Rightarrow> obj" where
  "fund_of m = [(''available'', get ''available'' m), (''currency'', get ''currencyCode'' m), (''hold'', get ''hold'' m)]"

definition currency_of :: "obj \<Rightarrow> string" where
  "currency_of m = js_string (get ''currencyCode'' m)"

definition fund_map :: "trade_state \<Rightarrow> string \<Rightarrow> val" where
  "fund_map s k = get k (funds s)"

definition spec_fund :: "obj \<Rightarrow> (string \<Rightarrow> val) \<Rightarrow> string \<Rightarrow> val" where
  "spec_fund m F = F(currency_of m := Obj (fund_of m))"

lemma foreach_set_fund:
  "foreach fs set_fund s = (Inr (), s\<lparr>funds := fold (\<lambda>f ob. put (js_string (get ''currency'' f)) (Obj f) ob) fs (funds s)\<rparr>)"
proof (induction fs arbitrary: s)
  case (Cons f fs)
  then show ?case by (simp add: set_fund_def modify_def io_defs)
qed (simp add: ret_def)

text \<open>The batch files one fund per currency, the last one that came.\<close>

definition fund_table :: "obj list \<Rightarrow> (string \<times> obj) list" where
  "fund_table ms = fold (\<lambda>m fs. AList.update (currency_of m) (fund_of m) fs) ms []"

lemma fund_table_snoc: "fund_table (ms @ [m]) = AList.update (currency_of m) (fund_of m) (fund_table ms)"
  by (simp add: fund_table_def)

lemma fund_table_ok:
  "distinct (map fst (fund_table ms)) \<and> (\<forall>(k, f) \<in> set (fund_table ms). js_string (get ''currency'' f) = k)"
proof (induction ms rule: rev_induct)
  case (snoc m ms)
  note set_update_subset [of "currency_of m" "fund_of m" "fund_table ms"]
  moreover have "js_string (get ''currency'' (fund_of m)) = currency_of m" by (simp add: fund_of_def currency_of_def)
  ultimately show ?case
    using snoc.IH distinct_update [of "fund_table ms" "currency_of m" "fund_of m"] by (fastforce simp: fund_table_snoc)
qed (simp add: fund_table_def)

lemma spec_funds:
  "fold spec_fund ms F k = (case map_of (fund_table ms) k of None \<Rightarrow> F k | Some f \<Rightarrow> Obj f)"
proof (induction ms rule: rev_induct)
  case (snoc m ms)
  then show ?case by (simp add: spec_fund_def fund_table_snoc update_conv')
qed (simp add: fund_table_def)

lemma put_all_get:
  "distinct (map fst fs) \<Longrightarrow> get k (fold (\<lambda>(k, f) ob. put k (Obj f) ob) fs ob) =
     (case map_of fs k of None \<Rightarrow> get k ob | Some f \<Rightarrow> Obj f)"
proof (induction fs arbitrary: ob)
  case (Cons p fs)
  then show ?case by (cases p) (auto split: option.splits simp: map_of_eq_None_iff dest: map_of_SomeD intro: rev_image_eqI)
qed simp

lemma updateFund_ok:
  "\<exists>fs. updateFund ms s = (Inr (), s\<lparr>funds := fs\<rparr>) \<and> (\<forall>k. get k fs = fold spec_fund ms (fund_map s) k)"
proof -
  let ?T = "fund_table ms"
  let ?L = "map (\<lambda>k. (k, the (map_of ?T k))) (own_keys ?T)"
  have t: "distinct (map fst ?T)" "\<And>k f. map_of ?T k = Some f \<Longrightarrow> js_string (get ''currency'' f) = k"
    using fund_table_ok [of ms] by (auto dest: map_of_SomeD)
  have e: "updateFund ms s = foreach (own_values ?T) set_fund s"
    by (simp add: updateFund_def fund_table_def fund_of_def [abs_def] currency_of_def [abs_def])
  have 1: "fold (\<lambda>f ob. put (js_string (get ''currency'' f)) (Obj f) ob) (own_values ?T) ob =
      fold (\<lambda>(k, f) ob. put k (Obj f) ob) ?L ob" for ob
    unfolding own_values_def fold_map comp_def
    by (rule fold_cong) (use t(2) own_key_SomeI in \<open>fastforce\<close>)+
  have "map fst ?L = own_keys ?T" by (simp add: comp_def)
  then have 2: "get k (fold (\<lambda>(k, f) ob. put k (Obj f) ob) ?L ob) = (case map_of ?L k of None \<Rightarrow> get k ob | Some f \<Rightarrow> Obj f)" for k ob
    by (intro put_all_get) (simp add: distinct_own_keys t(1))
  have 3: "map_of ?L k = map_of ?T k" for k
  proof -
    have "k \<in> set (own_keys ?T) \<longleftrightarrow> map_of ?T k \<noteq> None" by (simp add: map_of_eq_None_iff)
    then show ?thesis by (auto simp: map_of_map_restrict restrict_map_def simp del: set_own_keys)
  qed
  have "get k (fold (\<lambda>f ob. put (js_string (get ''currency'' f)) (Obj f) ob) (own_values ?T) (funds s)) =
      fold spec_fund ms (fund_map s) k" for k
    by (simp only: 1 2 3 spec_funds fund_map_def)
  then show ?thesis unfolding e foreach_set_fund by blast
qed

lemma leaves_funds_read: "leaves funds_read (updateFund ms)"
  unfolding updateFund_def Let_def
  by (intro leaves_foreach) (simp add: set_fund_def leaves_modify funds_read_def)

lemma fund_map_wr [simp]: "fund_map (funds_wr ms s) = fund_map s"
  by (simp add: fund_map_def funds_wr_def fun_eq_iff)

interpretation funds_buffer: refining_buffer funds_read funds_wr updateFund "\<lambda>_. True" fund_map spec_fund "\<lambda>_. True"
proof
  show "funds_read (funds_wr ms w) = ms" for ms w by (simp add: funds_read_def funds_wr_def buffered_def)
  show "funds_read (snd (updateFund ms w)) = funds_read w" for ms w using leaves_funds_read by (simp add: leaves_def)
  show "fund_map (funds_wr ms w) = fund_map w" for ms w by simp
  show "\<exists>w'. updateFund ms s = (Inr (), w') \<and> True \<and> fund_map w' = fold spec_fund ms (fund_map s)" for ms s
  proof -
    obtain fs where u: "updateFund ms s = (Inr (), s\<lparr>funds := fs\<rparr>)" and k: "\<forall>k. get k fs = fold spec_fund ms (fund_map s) k"
      using updateFund_ok by blast
    have "fund_map (s\<lparr>funds := fs\<rparr>) = fold spec_fund ms (fund_map s)" using k by (simp add: fund_map_def fun_eq_iff)
    with u show ?thesis by blast
  qed
qed simp_all

definition funds_step :: "(val \<Rightarrow> string \<Rightarrow> string) \<Rightarrow> buffer_event \<Rightarrow> trade_state \<Rightarrow> trade_state" where
  "funds_step moment e s = (case e of Push m \<Rightarrow> snd (parseWebSocketMessage moment m s) | Tick \<Rightarrow> snd (funds_timer s))"

definition funds_run :: "(val \<Rightarrow> string \<Rightarrow> string) \<Rightarrow> buffer_event list \<Rightarrow> trade_state \<Rightarrow> trade_state" where
  "funds_run moment es s = fold (funds_step moment) es s"

lemma funds_run_buffer:
  assumes "list_all (\<lambda>m. get ''type'' m = Str ''funds'') (pushes es)"
  shows "funds_run moment es s = buffer_run funds_read funds_wr updateFund es s"
  using assms
proof (induction es arbitrary: s)
  case (Cons e es)
  have "list_all (\<lambda>m. get ''type'' m = Str ''funds'') (pushes es)" using Cons.prems by (cases e) simp_all
  moreover have "push_funds = buffer_push funds_read funds_wr" "funds_timer = buffer_tick funds_read funds_wr updateFund"
    by (simp_all add: push_funds_def funds_timer_def funds_read_def [abs_def] funds_wr_def [abs_def])
  then have "funds_step moment e s = buffer_step funds_read funds_wr updateFund e s"
    using Cons.prems by (cases e) (simp_all add: funds_step_def buffer_step_def parseWebSocketMessage_def)
  ultimately show ?case using Cons.IH by (simp add: funds_run_def buffer_run_def)
qed (simp add: funds_run_def buffer_run_def)

text \<open>The funds shown are the last ones reported. However the balance messages and the ticks of the 300
  ms timer interleave, after a tick no message is waiting and every currency shows the fund of the last message
  about it; currencies without a message are as they were.\<close>

theorem funds_follow_feed:
  assumes "funds_read s = []" "\<forall>m \<in> set (pushes es). get ''type'' m = Str ''funds''"
  shows "funds_read (funds_run moment (es @ [Tick]) s) = [] \<and>
    fund_map (funds_run moment (es @ [Tick]) s) = fold spec_fund (pushes es) (fund_map s)"
proof -
  have p: "pushes (es @ [Tick]) = pushes es" by (induction es rule: pushes.induct) simp_all
  have "funds_run moment (es @ [Tick]) s = buffer_run funds_read funds_wr updateFund (es @ [Tick]) s"
    using assms(2) p by (intro funds_run_buffer) (simp add: list_all_iff)
  then show ?thesis using funds_buffer.delivered [OF _ assms(1), of es] by (simp add: list_all_iff)
qed

theorem funds_follow_feed_witness:
  "fund_map (funds_run (\<lambda>_ _. []) ([Push [(''type'', Str ''funds''), (''currencyCode'', Str ''BTC''), (''available'', Str ''2''),
     (''hold'', Str ''1'')]] @ [Tick]) initial_store) ''BTC'' =
   Obj [(''available'', Str ''2''), (''currency'', Str ''BTC''), (''hold'', Str ''1'')]"
proof -
  have "funds_read initial_store = []" by (simp add: funds_read_def initial_store_def buffered_def)
  from funds_follow_feed [OF this, of "[Push [(''type'', Str ''funds''), (''currencyCode'', Str ''BTC''), (''available'', Str ''2''),
     (''hold'', Str ''1'')]]" "\<lambda>_ _. []"]
  show ?thesis by (simp add: spec_fund_def fund_of_def currency_of_def)
qed

section \<open>A message for an unknown product\<close>

definition knows :: "trade_state \<Rightarrow> string \<Rightarrow> bool" where
  "knows s p \<longleftrightarrow> (case objects s of None \<Rightarrow> False | Some m \<Rightarrow> m p \<noteq> None)"

lemma getObject_unknown: "\<not> knows s p \<Longrightarrow> \<exists>e. getObject p s = (Inl e, s)"
  by (auto simp: knows_def getObject_def split: option.splits)

lemma knows_wr [simp]: "knows (book_wr ms s) p = knows s p"
  by (simp add: knows_def book_wr_def)

lemma knows_change: "leaves (\<lambda>s. knows s p) (change_object q f)"
  unfolding leaves_def change_object_def
  by (auto simp: bindio_def getObject_def modify_def put_object_def knows_def split: option.splits if_splits)

lemma knows_update_book: "leaves (\<lambda>s. knows s p) (update_book cs q)"
  unfolding update_book_def setOrderBook_def Let_def case_prod_beta
  by (intro leaves_bind leaves_getObject leaves_lift knows_change)

lemma knows_updateOrderBook: "leaves (\<lambda>s. knows s p) (updateOrderBook ms)"
  unfolding updateOrderBook_def Let_def by (intro leaves_foreach knows_update_book)

lemma update_unknown:
  assumes "p \<in> set ks" "\<not> knows s p"
  shows "\<exists>e s'. foreach ks (\<lambda>k. update_book (c k) k) s = (Inl e, s')"
  using assms
proof (induction ks arbitrary: s)
  case (Cons k ks)
  show ?case
  proof (cases "k = p")
    case True
    with Cons.prems(2) getObject_unknown show ?thesis by (fastforce simp: update_book_def io_defs)
  next
    case False
    obtain r s' where r: "update_book (c k) k s = (r, s')" by fastforce
    have "\<not> knows s' p" using Cons.prems(2) leavesD [OF knows_update_book r] by simp
    with Cons.IH False Cons.prems(1) r show ?thesis by (cases r) (auto simp: io_defs)
  qed
qed simp

lemma group_changes_keys: "fst ` set (group_changes ms) = message_product ` set ms"
proof (induction ms rule: rev_induct)
  case (snoc m ms)
  have "group_changes (ms @ [m]) = add_changes m (group_changes ms)" by (simp add: group_changes_def)
  with snoc show ?case
    by (simp add: add_changes_def Let_def message_product_def dom_map_of_conv_image_fst [symmetric] update_conv')
qed (simp add: group_changes_def)

lemma updateOrderBook_unknown:
  assumes "m \<in> set ms" "\<not> knows s (message_product m)"
  shows "\<exists>e s'. updateOrderBook ms s = (Inl e, s')"
  using update_unknown [of "message_product m" "own_keys (group_changes ms)" s] assms
  by (simp add: updateOrderBook_def Let_def group_changes_keys)

text \<open>One update for a product the store does not know blocks the book buffer for good. Every later tick
  throws, nothing is ever dropped, and what comes in only makes the buffer longer: all updates that wait,
  of every product, are applied again at each tick, up to the one that fails.\<close>

theorem unknown_product_blocks_book:
  assumes "m \<in> set (book_read s)" "\<not> knows s (message_product m)"
    and "\<forall>x \<in> set (pushes es). get ''type'' x = Str ''l2update''"
  shows "book_read (feed_run moment es s) = book_read s @ pushes es \<and>
    (\<exists>e. fst (book_timer (feed_run moment es s)) = Inl e)"
proof -
  have r: "feed_run moment es s = buffer_run book_read book_wr updateOrderBook es s"
    using assms(3) by (intro feed_run_buffer) (simp add: list_all_iff)
  have "book_read (buffer_run book_read book_wr updateOrderBook es s) = book_read s @ pushes es \<and>
      \<not> knows (buffer_run book_read book_wr updateOrderBook es s) (message_product m)"
  proof (induction es rule: rev_induct)
    case Nil
    then show ?case using assms(2) by (simp add: buffer_run_def)
  next
    case (snoc e es)
    let ?w = "buffer_run book_read book_wr updateOrderBook es s"
    have p: "pushes (es @ [e]) = pushes es @ pushes [e]" by (induction es rule: pushes.induct) simp_all
    have w: "buffer_run book_read book_wr updateOrderBook (es @ [e]) s = buffer_step book_read book_wr updateOrderBook e ?w"
      by (simp add: buffer_run_def)
    show ?case
    proof (cases e)
      case (Push x)
      have "\<not> knows (buffer_step book_read book_wr updateOrderBook (Push x) ?w) (message_product m)"
        using snoc by (simp add: buffer_step_def buffer_push_def modify_def)
      with snoc Push w p show ?thesis by (simp add: book_buffer.step_Push)
    next
      case Tick
      have "m \<in> set (book_read ?w)" using snoc assms(1) by simp
      then obtain e s' where u: "updateOrderBook (book_read ?w) ?w = (Inl e, s')"
        using updateOrderBook_unknown snoc by blast
      have "\<not> knows s' (message_product m)" using leavesD [OF knows_updateOrderBook u] snoc by simp
      moreover have "book_read s' = book_read ?w" by (rule leavesD [OF leaves_book_read u])
      moreover have "buffer_step book_read book_wr updateOrderBook Tick ?w = s'"
        using u \<open>m \<in> set (book_read ?w)\<close> by (auto simp: buffer_step_def buffer_tick_def io_defs)
      ultimately show ?thesis using snoc Tick w p by simp
    qed
  qed
  moreover from this have "m \<in> set (book_read (feed_run moment es s))" using assms(1) r by simp
  ultimately show ?thesis
    using updateOrderBook_unknown [of m "book_read (feed_run moment es s)" "feed_run moment es s"] r
    by (auto simp: book_timer_eq buffer_tick_def io_defs)
qed

theorem unknown_product_blocks_book_witness:
  "\<exists>e. fst (book_timer (feed_run (\<lambda>_ _. []) [Tick, Push (hd (pushes demo_updates)), Tick]
     (book_wr [l2update ''DOGE-USDT'' []] demo_store))) = Inl e"
proof -
  let ?s = "book_wr [l2update ''DOGE-USDT'' []] demo_store"
  have "l2update ''DOGE-USDT'' [] \<in> set (book_read ?s)"
    by (simp add: book_read_def book_wr_def buffered_def)
  moreover have "\<not> knows ?s (message_product (l2update ''DOGE-USDT'' []))"
    by (simp add: knows_def demo_store_def message_product_def l2update_def book_wr_def)
  moreover have "\<forall>x \<in> set (pushes [Tick, Push (hd (pushes demo_updates)), Tick]). get ''type'' x = Str ''l2update''"
    by (simp add: demo_updates_def l2update_def)
  ultimately show ?thesis
    using unknown_product_blocks_book [of "l2update ''DOGE-USDT'' []" ?s "[Tick, Push (hd (pushes demo_updates)), Tick]" "\<lambda>_ _. []"]
    by blast
qed

end
