(* ===== verification/Trade_Prices.thy ===== *)
theory Trade_Prices
  imports Trade_Props
begin

text \<open>
  The order book at one price, for feeds that spell other prices in other ways. The client files a stored level under
  \<open>Number(price)\<close> and a change under the text the feed sent, so a change with trailing zeros misses its level
  (\<open>misspelt_change_ignored\<close>); here it is shown that it harms no other price.
\<close>

section \<open>Levels at a price\<close>

text \<open>The sizes a side shows at a price.\<close>

definition at_price :: "rat \<Rightarrow> val list \<Rightarrow> val list" where
  "at_price x ls = map (\<lambda>l. item l 1) (filter (\<lambda>l. price l = x) ls)"

definition spelt :: "rat \<Rightarrow> val \<Rightarrow> bool" where
  "spelt x c \<longleftrightarrow> (to_number (item c 1) = Some x \<longrightarrow> js_string (item c 1) = string_of_number (Some x))"

definition spec_sizes :: "rat \<Rightarrow> val \<Rightarrow> val list \<Rightarrow> val list" where
  "spec_sizes x c ss = (if to_number (item c 1) \<noteq> Some x then ss
     else if equals_num (item c 2) (Some 0) then [] else [item c 2])"

definition spec_pair :: "rat \<Rightarrow> val \<Rightarrow> val list \<times> val list \<Rightarrow> val list \<times> val list" where
  "spec_pair x c = (\<lambda>(b, a). if loose_eq (item c 0) (Str ''buy'') then (spec_sizes x c b, a) else (b, spec_sizes x c a))"

definition all_priced :: "val list \<Rightarrow> bool" where
  "all_priced ls \<longleftrightarrow> list_all (\<lambda>l. priced (item l 0)) ls"

definition side_at :: "rat \<Rightarrow> side \<Rightarrow> val list \<Rightarrow> bool" where
  "side_at x ob ss \<longleftrightarrow> distinct (map fst ob) \<and>
     (\<forall>(k, l) \<in> set ob. priced (item l 0) \<and> (price l = x \<longleftrightarrow> k = string_of_number (Some x))) \<and>
     ss = (case map_of ob (string_of_number (Some x)) of None \<Rightarrow> [] | Some l \<Rightarrow> [item l 1])"

text \<open>A value that prints as a number is that number.\<close>

lemma printed_number:
  assumes "priced v" and "decimal 20 x" and "js_string v = string_of_number (Some x)"
  shows "to_number v = Some x"
proof -
  have n: "number_of_string (js_string v) = Some x"
    using assms(2,3) by (simp add: number_of_string_of_number)
  show ?thesis
  proof (cases v)
    case (Num y)
    with assms(1,3) string_of_number_inj [OF _ assms(2), of y] show ?thesis by (simp add: priced_def)
  next
    case Null
    with n show ?thesis by (simp add: number_of_string_def trim_def is_blank_def unsigned_def toNumber_def before_char_def is_digit_def Let_def)
  next
    case (Bool b)
    with n show ?thesis
      by (cases b) (simp_all add: number_of_string_def trim_def is_blank_def unsigned_def toNumber_def before_char_def is_digit_def Let_def exponent_def)
  qed (use n assms(1) in \<open>simp_all add: priced_def\<close>)
qed

lemma side_at_update:
  assumes "side_at x ob ss" and "priced (item l 0)" and "price l = x \<longleftrightarrow> k = string_of_number (Some x)"
  shows "side_at x (AList.update k l ob) (if price l = x then [item l 1] else ss)"
proof -
  have "distinct (map fst (AList.update k l ob))"
    using assms(1) by (intro distinct_update) (simp add: side_at_def)
  moreover have "\<forall>(k', l') \<in> set (AList.update k l ob). priced (item l' 0) \<and> (price l' = x \<longleftrightarrow> k' = string_of_number (Some x))"
    using assms set_update_subset [of k l ob] by (fastforce simp: side_at_def)
  ultimately show ?thesis using assms(1,3) by (auto simp: side_at_def update_conv')
qed

lemma side_at_delete:
  assumes "side_at x ob ss"
  shows "side_at x (AList.delete k ob) (if k = string_of_number (Some x) then [] else ss)"
proof -
  have "distinct (map fst (AList.delete k ob))" using assms AList.distinct_delete [of ob k] by (simp add: side_at_def)
  moreover have "\<forall>(k', l') \<in> set (AList.delete k ob). priced (item l' 0) \<and> (price l' = x \<longleftrightarrow> k' = string_of_number (Some x))"
    using assms by (auto simp: side_at_def AList.delete_eq)
  ultimately show ?thesis using assms by (auto simp: side_at_def delete_conv')
qed

lemma apply_side_at:
  assumes "side_at x ob ss" and "decimal 20 x" and "priced (item c 1)" and "spelt x c"
  shows "side_at x (apply_side c ob) (spec_sizes x c ss)"
proof -
  let ?l = "Arr [item c 1, item c 2]"
  have k: "to_number (item c 1) = Some x \<longleftrightarrow> js_string (item c 1) = string_of_number (Some x)"
    using printed_number [OF assms(3,2)] assms(4) unfolding spelt_def by blast
  have l: "item ?l 0 = item c 1" "item ?l 1 = item c 2" by (simp_all add: item_def del: One_nat_def)
  have p: "price ?l = x \<longleftrightarrow> js_string (item c 1) = string_of_number (Some x)"
    using k assms(3) unfolding price_def l by (cases "to_number (item c 1)") (simp_all add: priced_def)
  show ?thesis
  proof (cases "equals_num (item c 2) (Some 0)")
    case True
    with side_at_delete [OF assms(1), of "js_string (item c 1)"] k show ?thesis
      by (cases "js_string (item c 1) = string_of_number (Some x)") (simp_all add: apply_side_def spec_sizes_def)
  next
    case False
    with side_at_update [OF assms(1) _ p] assms(3) k p l show ?thesis
      by (cases "js_string (item c 1) = string_of_number (Some x)") (simp_all add: apply_side_def spec_sizes_def)
  qed
qed

lemma side_object_at:
  assumes "all_priced ls" and "length (at_price x ls) \<le> 1" and "decimal 20 x"
  shows "side_at x (side_object ls) (at_price x ls)"
  using assms(1,2)
proof (induction ls rule: rev_induct)
  case Nil
  show ?case by (simp add: side_object_def side_at_def at_price_def)
next
  case (snoc l ls)
  then have p: "priced (item l 0)" and o: "side_at x (side_object ls) (at_price x ls)"
    by (auto simp: all_priced_def at_price_def)
  have s: "side_object (ls @ [l]) = AList.update (string_of_number (to_number (item l 0))) l (side_object ls)"
    using priced_truthy [OF p] by (simp add: side_object_def)
  have k: "price l = x \<longleftrightarrow> string_of_number (to_number (item l 0)) = string_of_number (Some x)"
    using priced_price [OF p] string_of_number_inj [OF _ assms(3), of "price l"] by auto
  have "at_price x (ls @ [l]) = (if price l = x then [item l 1] else at_price x ls)"
    using snoc.prems(2) by (auto simp: at_price_def)
  with side_at_update [OF o p k] s show ?case by simp
qed

lemma filter_single: "distinct xs \<Longrightarrow> filter (\<lambda>y. y = a) xs = (if a \<in> set xs then [a] else [])"
  by (induction xs) auto

lemma own_values_at:
  assumes "side_at x ob ss"
  shows "all_priced (own_values ob) \<and> at_price x (own_values ob) = ss"
proof -
  let ?k = "string_of_number (Some x)"
  have d: "distinct (own_keys ob)" using assms by (simp add: side_at_def distinct_own_keys)
  have i: "priced (item l 0) \<and> (price l = x \<longleftrightarrow> k = ?k)" if "map_of ob k = Some l" for k l
    using assms map_of_SomeD [OF that] by (auto simp: side_at_def)
  have "filter (\<lambda>k. price (the (map_of ob k)) = x) (own_keys ob) = filter (\<lambda>k. k = ?k) (own_keys ob)"
    using i [OF own_key_SomeI] by (intro filter_cong) (auto simp del: set_own_keys)
  also have "\<dots> = (if ?k \<in> set (own_keys ob) then [?k] else [])" by (rule filter_single [OF d])
  also have "\<dots> = (if map_of ob ?k = None then [] else [?k])" by (simp add: map_of_eq_None_iff)
  finally have "at_price x (own_values ob) = ss"
    using assms by (auto simp: at_price_def own_values_def filter_map comp_def side_at_def split: option.splits)
  moreover have "all_priced (own_values ob)"
    using i [OF own_key_SomeI] by (auto simp: all_priced_def own_values_def list_all_iff simp del: set_own_keys)
  ultimately show ?thesis by blast
qed

text \<open>Sorting moves levels, but keeps those of one price together; a price has at most one.\<close>

definition ordered :: "val list \<Rightarrow> bool" where
  "ordered ls \<longleftrightarrow> sorted (map price ls)"

lemma sorted_side_at:
  assumes "side_at x ob ss"
  shows "all_priced (sorted_side ob) \<and> ordered (sorted_side ob) \<and> at_price x (sorted_side ob) = ss"
proof -
  note v = own_values_at [OF assms]
  have "\<forall>k \<in> set (own_values ob). \<forall>l \<in> set (own_values ob). by_price k l = price k - price l"
    using v by (simp add: all_priced_def list_all_iff by_price_def minus_cmp_def priced_price)
  then have s: "sorted_side ob = sort_key price (own_values ob)" unfolding sorted_side_def by (rule js_sort_key)
  have "filter (\<lambda>l. price l = x) (sort_key price (own_values ob)) = filter (\<lambda>l. price l = x) (own_values ob)"
    by (rule sort_key_stable)
  with v show ?thesis unfolding s at_price_def by (simp add: all_priced_def ordered_def list_all_iff)
qed

lemma at_price_rev: "length (at_price x ls) \<le> 1 \<Longrightarrow> at_price x (rev ls) = at_price x ls"
  by (cases "at_price x ls") (auto simp: at_price_def rev_map [symmetric] rev_filter [symmetric])

section \<open>One product\<close>

lemma side_at_le_1: "side_at x ob ss \<Longrightarrow> length ss \<le> 1"
  by (auto simp: side_at_def split: option.splits)

definition fit_change :: "rat \<Rightarrow> val \<Rightarrow> bool" where
  "fit_change x c \<longleftrightarrow> priced (item c 1) \<and> spelt x c"

lemma apply_changes_at:
  assumes "side_at x b sb" "side_at x a sa" "decimal 20 x" "list_all (fit_change x) cs" "fold apply_change cs (b, a) = (b', a')"
    and "fold (spec_pair x) cs (sb, sa) = (sb', sa')"
  shows "side_at x b' sb' \<and> side_at x a' sa'"
  using assms
proof (induction cs arbitrary: b a sb sa)
  case (Cons c cs)
  then have c: "priced (item c 1)" "spelt x c" by (simp_all add: fit_change_def)
  obtain b1 a1 where s: "apply_change c (b, a) = (b1, a1)" by fastforce
  obtain u1 v1 where t: "spec_pair x c (sb, sa) = (u1, v1)" by fastforce
  have "side_at x b1 u1" "side_at x a1 v1"
    using s t Cons.prems(1,2) apply_side_at [OF _ Cons.prems(3) c]
    by (auto simp: apply_change_def spec_pair_def split: if_splits)
  with Cons.IH [of b1 u1 a1 v1] Cons.prems(3-6) s t show ?case by simp
qed simp

lemma book_after_at:
  assumes "all_priced bs" "all_priced as'" "length (at_price x bs) \<le> 1" "length (at_price x as') \<le> 1" "decimal 20 x"
    and "list_all (fit_change x) cs" "book_after bs as' cs = (b, a)"
  shows "all_priced b" "all_priced a" "ordered (rev b)" "ordered a"
    "(at_price x b, at_price x a) = fold (spec_pair x) cs (at_price x bs, at_price x as')"
    "length (at_price x b) \<le> 1" "length (at_price x a) \<le> 1"
proof -
  obtain u v where f: "fold apply_change cs (side_object bs, side_object as') = (u, v)" by fastforce
  obtain su sv where g: "fold (spec_pair x) cs (at_price x bs, at_price x as') = (su, sv)" by fastforce
  have o: "side_at x u su" "side_at x v sv"
    using apply_changes_at [OF side_object_at [OF assms(1,3,5)] side_object_at [OF assms(2,4,5)] assms(5,6) f g] by auto
  have e: "b = rev (sorted_side u)" "a = sorted_side v" using assms(7) f by (simp_all add: book_after_def)
  note u = sorted_side_at [OF o(1)] and v = sorted_side_at [OF o(2)]
  have l: "length (at_price x (sorted_side u)) \<le> 1" using u side_at_le_1 [OF o(1)] by simp
  show "all_priced b" "all_priced a" "ordered (rev b)" "ordered a" using e u v by (simp_all add: all_priced_def)
  show "(at_price x b, at_price x a) = fold (spec_pair x) cs (at_price x bs, at_price x as')"
    using e u v g at_price_rev [OF l] by simp
  show "length (at_price x b) \<le> 1" "length (at_price x a) \<le> 1"
    using e l u v side_at_le_1 [OF o(2)] at_price_rev [OF l] by simp_all
qed

text \<open>Whatever the spelling, a batch leaves numbers in order.\<close>

definition side_priced :: "side \<Rightarrow> bool" where
  "side_priced ob \<longleftrightarrow> (\<forall>(k, l) \<in> set ob. priced (item l 0))"

lemma side_priced_object: "all_priced ls \<Longrightarrow> side_priced (side_object ls)"
proof (induction ls rule: rev_induct)
  case (snoc l ls)
  then have p: "priced (item l 0)" and o: "side_priced (side_object ls)" by (simp_all add: all_priced_def)
  have s: "side_object (ls @ [l]) = AList.update (string_of_number (to_number (item l 0))) l (side_object ls)"
    using priced_truthy [OF p] by (simp add: side_object_def)
  show ?case
    using o p set_update_subset [of "string_of_number (to_number (item l 0))" l "side_object ls"]
    unfolding s side_priced_def by fastforce
qed (simp add: side_object_def side_priced_def)

lemma side_priced_apply: "side_priced ob \<Longrightarrow> priced (item c 1) \<Longrightarrow> side_priced (apply_side c ob)"
proof -
  assume o: "side_priced ob" and p: "priced (item c 1)"
  let ?l = "Arr [item c 1, item c 2]"
  have l: "item ?l 0 = item c 1" by (simp add: item_def del: One_nat_def)
  have "side_priced (AList.delete k ob)" for k using o by (auto simp: side_priced_def AList.delete_eq)
  moreover have "side_priced (AList.update k ?l ob)" for k
  proof -
    have "\<forall>(k', l') \<in> insert (k, ?l) (set ob). priced (item l' 0)" using o p l by (simp add: side_priced_def)
    with set_update_subset [of k ?l ob] show ?thesis unfolding side_priced_def by blast
  qed
  ultimately show ?thesis by (simp add: apply_side_def)
qed

lemma apply_changes_priced:
  assumes "side_priced b" "side_priced a" "list_all (\<lambda>c. priced (item c 1)) cs" "fold apply_change cs (b, a) = (b', a')"
  shows "side_priced b' \<and> side_priced a'"
  using assms
proof (induction cs arbitrary: b a)
  case (Cons c cs)
  obtain b1 a1 where s: "apply_change c (b, a) = (b1, a1)" by fastforce
  then have "side_priced b1" "side_priced a1"
    using Cons.prems(1-3) side_priced_apply by (auto simp: apply_change_def split: if_splits)
  with Cons.IH [of b1 a1] Cons.prems(3,4) s show ?case by simp
qed simp

lemma sorted_side_priced: "side_priced ob \<Longrightarrow> all_priced (sorted_side ob) \<and> ordered (sorted_side ob)"
proof -
  assume o: "side_priced ob"
  have v: "\<forall>l \<in> set (own_values ob). priced (item l 0)"
    using o by (auto simp: set_own_values ran_def side_priced_def dest!: map_of_SomeD)
  then have "\<forall>k \<in> set (own_values ob). \<forall>l \<in> set (own_values ob). by_price k l = price k - price l"
    by (simp add: by_price_def minus_cmp_def priced_price)
  then have "sorted_side ob = sort_key price (own_values ob)" unfolding sorted_side_def by (rule js_sort_key)
  with v show ?thesis by (simp add: all_priced_def ordered_def list_all_iff)
qed

lemma book_after_priced:
  assumes "all_priced bs" "all_priced as'" "list_all (\<lambda>c. priced (item c 1)) cs" "book_after bs as' cs = (b, a)"
  shows "all_priced b" "all_priced a" "ordered (rev b)" "ordered a"
proof -
  obtain u v where f: "fold apply_change cs (side_object bs, side_object as') = (u, v)" by fastforce
  have o: "side_priced u" "side_priced v"
    using apply_changes_priced [OF _ _ assms(3) f] side_priced_object assms(1,2) by auto
  have e: "b = rev (sorted_side u)" "a = sorted_side v" using assms(4) f by (simp_all add: book_after_def)
  show "all_priced b" "all_priced a" "ordered (rev b)" "ordered a"
    using e sorted_side_priced [OF o(1)] sorted_side_priced [OF o(2)] by (simp_all add: all_priced_def)
qed

section \<open>The store\<close>

definition object_priced :: "trade_object \<Rightarrow> bool" where
  "object_priced x = (case (bids x, asks x) of (Arr b, Arr a) \<Rightarrow> all_priced b \<and> all_priced a | _ \<Rightarrow> False)"

definition books_priced :: "trade_state \<Rightarrow> bool" where
  "books_priced s = (case objects s of None \<Rightarrow> False | Some m \<Rightarrow> (\<forall>p x. m p = Some x \<longrightarrow> object_priced x))"

definition ordered_book :: "trade_state \<Rightarrow> string \<Rightarrow> bool" where
  "ordered_book s p = (case objects s of None \<Rightarrow> False | Some m \<Rightarrow> (case m p of None \<Rightarrow> False
     | Some x \<Rightarrow> ordered (rev (levels (bids x))) \<and> ordered (levels (asks x))))"

text \<open>The sizes bid and asked for a product at a price: none or one of each.\<close>

definition sizes_of :: "rat \<Rightarrow> string \<Rightarrow> trade_state \<Rightarrow> val list \<times> val list" where
  "sizes_of x p s = (case objects s of None \<Rightarrow> ([], []) | Some m \<Rightarrow> (case m p of None \<Rightarrow> ([], [])
     | Some ob \<Rightarrow> (at_price x (levels (bids ob)), at_price x (levels (asks ob)))))"

definition single :: "val list \<times> val list \<Rightarrow> bool" where
  "single ss \<longleftrightarrow> length (fst ss) \<le> 1 \<and> length (snd ss) \<le> 1"

lemma update_book_at:
  assumes "books_priced s" "q \<in> products_of s" "list_all (\<lambda>c. priced (item c 1)) cs"
  shows "\<exists>m. update_book cs q s = (Inr (), s\<lparr>objects := Some m\<rparr>) \<and> books_priced (s\<lparr>objects := Some m\<rparr>) \<and>
    products_of (s\<lparr>objects := Some m\<rparr>) = products_of s \<and>
    (\<forall>p. p = q \<or> ordered_book s p \<longrightarrow> ordered_book (s\<lparr>objects := Some m\<rparr>) p) \<and>
    (\<forall>p. p \<noteq> q \<longrightarrow> sizes_of x p (s\<lparr>objects := Some m\<rparr>) = sizes_of x p s) \<and>
    (decimal 20 x \<longrightarrow> single (sizes_of x q s) \<longrightarrow> list_all (spelt x) cs \<longrightarrow>
       sizes_of x q (s\<lparr>objects := Some m\<rparr>) = fold (spec_pair x) cs (sizes_of x q s) \<and> single (sizes_of x q (s\<lparr>objects := Some m\<rparr>)))"
proof -
  obtain m ob where m: "objects s = Some m" "m q = Some ob"
    using assms(2) by (auto simp: products_of_def books_of_def dom_def split: option.splits)
  with assms(1) have "object_priced ob" by (auto simp: books_priced_def)
  then obtain bs as' where x: "bids ob = Arr bs" "asks ob = Arr as'" "all_priced bs" "all_priced as'"
    by (auto simp: object_priced_def split: val.splits)
  obtain b a where ba: "book_after bs as' cs = (b, a)" by fastforce
  note ok = book_after_priced [OF x(3,4) assms(3) ba]
  let ?ob = "ob\<lparr>bids := Arr b, asks := Arr a\<rparr>"
  let ?m = "m(q \<mapsto> ?ob)"
  let ?s = "s\<lparr>objects := Some ?m\<rparr>"
  have "update_book cs q s = (Inr (), ?s)"
    using m x(1,2) ba by (simp add: update_book_def getObject_def elements_def lift_def io_defs
        setOrderBook_def change_object_def put_object_def modify_def)
  moreover have "books_priced ?s" using assms(1) m ok(1,2) by (auto simp: books_priced_def object_priced_def)
  moreover have "products_of ?s = products_of s" using m by (auto simp: products_of_def books_of_def dom_def)
  moreover have "\<forall>p. p = q \<or> ordered_book s p \<longrightarrow> ordered_book ?s p"
    using m ok(3,4) by (auto simp: ordered_book_def levels_def)
  moreover have "\<forall>p. p \<noteq> q \<longrightarrow> sizes_of x p ?s = sizes_of x p s" using m by (simp add: sizes_of_def)
  moreover have "sizes_of x q ?s = fold (spec_pair x) cs (sizes_of x q s) \<and> single (sizes_of x q ?s)"
    if d: "decimal 20 x" "single (sizes_of x q s)" "list_all (spelt x) cs"
  proof -
    have old: "sizes_of x q s = (at_price x bs, at_price x as')" using m x(1,2) by (simp add: sizes_of_def levels_def)
    have new: "sizes_of x q ?s = (at_price x b, at_price x a)" by (simp add: sizes_of_def levels_def)
    have "list_all (fit_change x) cs" using d(3) assms(3) by (simp add: list_all_iff fit_change_def)
    note at = book_after_at [OF x(3,4) _ _ d(1) this ba]
    have "length (at_price x bs) \<le> 1" "length (at_price x as') \<le> 1" using d(2) old by (simp_all add: single_def)
    from at(5-7) [OF this] show ?thesis unfolding old new by (metis fst_conv snd_conv single_def)
  qed
  ultimately show ?thesis by blast
qed

definition changes_of :: "obj list \<Rightarrow> string \<Rightarrow> val list" where
  "changes_of ms p = concat (map message_changes (filter (\<lambda>m. message_product m = p) ms))"

lemma group_changes_at:
  assumes "\<forall>m \<in> set ms. get ''changes'' m = Arr (message_changes m)"
  shows "distinct (map fst (group_changes ms)) \<and>
    (\<forall>k. map_of (group_changes ms) k = (if k \<in> message_product ` set ms then Some (changes_of ms k) else None))"
  using assms
proof (induction ms rule: rev_induct)
  case Nil
  then show ?case by (simp add: group_changes_def)
next
  case (snoc m ms)
  let ?G = "group_changes ms" and ?k = "message_product m"
  have g: "group_changes (ms @ [m]) =
      AList.update ?k ((case map_of ?G ?k of None \<Rightarrow> [] | Some xs \<Rightarrow> xs) @ message_changes m) ?G"
    using snoc.prems by (simp add: group_changes_def add_changes_def message_product_def concat_val_def Let_def)
  have ih: "distinct (map fst ?G)" "\<And>k. map_of ?G k = (if k \<in> message_product ` set ms then Some (changes_of ms k) else None)"
    using snoc by simp_all
  have none: "changes_of ms k = []" if "k \<notin> message_product ` set ms" for k
    using that by (auto simp: changes_of_def filter_empty_conv)
  have "map_of (group_changes (ms @ [m])) k =
      (if k \<in> message_product ` set (ms @ [m]) then Some (changes_of (ms @ [m]) k) else None)" for k
    using none [of k] by (auto simp: g update_conv' ih(2) changes_of_def)
  then show ?case unfolding g using distinct_update [OF ih(1)] by simp
qed

lemma update_books_at:
  assumes "distinct ks" "books_priced s" "set ks \<subseteq> products_of s" "\<forall>k \<in> set ks. list_all (\<lambda>c. priced (item c 1)) (c k)"
  shows "\<exists>m. foreach ks (\<lambda>k. update_book (c k) k) s = (Inr (), s\<lparr>objects := m\<rparr>) \<and> books_priced (s\<lparr>objects := m\<rparr>) \<and>
    products_of (s\<lparr>objects := m\<rparr>) = products_of s \<and>
    (\<forall>p. p \<in> set ks \<or> ordered_book s p \<longrightarrow> ordered_book (s\<lparr>objects := m\<rparr>) p) \<and>
    (\<forall>p. p \<notin> set ks \<longrightarrow> sizes_of x p (s\<lparr>objects := m\<rparr>) = sizes_of x p s) \<and>
    (\<forall>p \<in> set ks. decimal 20 x \<longrightarrow> single (sizes_of x p s) \<longrightarrow> list_all (spelt x) (c p) \<longrightarrow>
       sizes_of x p (s\<lparr>objects := m\<rparr>) = fold (spec_pair x) (c p) (sizes_of x p s) \<and> single (sizes_of x p (s\<lparr>objects := m\<rparr>)))"
  using assms
proof (induction ks arbitrary: s)
  case Nil
  then show ?case by (intro exI [of _ "objects s"]) (simp add: ret_def)
next
  case (Cons k ks)
  then have "k \<in> products_of s" "list_all (\<lambda>c. priced (item c 1)) (c k)" by auto
  from update_book_at [OF Cons.prems(2) this, of x] obtain m where
    m: "update_book (c k) k s = (Inr (), s\<lparr>objects := Some m\<rparr>)" "books_priced (s\<lparr>objects := Some m\<rparr>)"
      "products_of (s\<lparr>objects := Some m\<rparr>) = products_of s"
      "\<forall>p. p = k \<or> ordered_book s p \<longrightarrow> ordered_book (s\<lparr>objects := Some m\<rparr>) p"
      "\<forall>p. p \<noteq> k \<longrightarrow> sizes_of x p (s\<lparr>objects := Some m\<rparr>) = sizes_of x p s"
      "decimal 20 x \<longrightarrow> single (sizes_of x k s) \<longrightarrow> list_all (spelt x) (c k) \<longrightarrow>
       sizes_of x k (s\<lparr>objects := Some m\<rparr>) = fold (spec_pair x) (c k) (sizes_of x k s) \<and> single (sizes_of x k (s\<lparr>objects := Some m\<rparr>))"
    by blast
  have ks: "distinct ks" "set ks \<subseteq> products_of (s\<lparr>objects := Some m\<rparr>)" "\<forall>k \<in> set ks. list_all (\<lambda>c. priced (item c 1)) (c k)" "k \<notin> set ks"
    using Cons.prems m(3) by auto
  from Cons.IH [OF ks(1) m(2) ks(2,3)] obtain m' where
    m': "foreach ks (\<lambda>k. update_book (c k) k) (s\<lparr>objects := Some m\<rparr>) = (Inr (), s\<lparr>objects := m'\<rparr>)" "books_priced (s\<lparr>objects := m'\<rparr>)"
      "products_of (s\<lparr>objects := m'\<rparr>) = products_of (s\<lparr>objects := Some m\<rparr>)"
      "\<forall>p. p \<in> set ks \<or> ordered_book (s\<lparr>objects := Some m\<rparr>) p \<longrightarrow> ordered_book (s\<lparr>objects := m'\<rparr>) p"
      "\<forall>p. p \<notin> set ks \<longrightarrow> sizes_of x p (s\<lparr>objects := m'\<rparr>) = sizes_of x p (s\<lparr>objects := Some m\<rparr>)"
      "\<forall>p \<in> set ks. decimal 20 x \<longrightarrow> single (sizes_of x p (s\<lparr>objects := Some m\<rparr>)) \<longrightarrow> list_all (spelt x) (c p) \<longrightarrow>
       sizes_of x p (s\<lparr>objects := m'\<rparr>) = fold (spec_pair x) (c p) (sizes_of x p (s\<lparr>objects := Some m\<rparr>)) \<and> single (sizes_of x p (s\<lparr>objects := m'\<rparr>))"
    by auto
  show ?case
  proof (intro exI conjI)
    show "foreach (k # ks) (\<lambda>k. update_book (c k) k) s = (Inr (), s\<lparr>objects := m'\<rparr>)"
      using m(1) m'(1) by (simp add: seqio_def bindio_def)
    show "products_of (s\<lparr>objects := m'\<rparr>) = products_of s" using m(3) m'(3) by simp
    show "\<forall>p. p \<in> set (k # ks) \<or> ordered_book s p \<longrightarrow> ordered_book (s\<lparr>objects := m'\<rparr>) p" using m(4) m'(4) by (metis set_ConsD)
    show "\<forall>p. p \<notin> set (k # ks) \<longrightarrow> sizes_of x p (s\<lparr>objects := m'\<rparr>) = sizes_of x p s" using m(5) m'(5) by simp
    show "\<forall>p \<in> set (k # ks). decimal 20 x \<longrightarrow> single (sizes_of x p s) \<longrightarrow> list_all (spelt x) (c p) \<longrightarrow>
       sizes_of x p (s\<lparr>objects := m'\<rparr>) = fold (spec_pair x) (c p) (sizes_of x p s) \<and> single (sizes_of x p (s\<lparr>objects := m'\<rparr>))"
      using m(5,6) m'(5,6) ks(4) by (metis set_ConsD)
  qed (rule m'(2))
qed

text \<open>An update that concerns a known product, spelt in any way but at the price watched.\<close>

definition fit_message :: "string set \<Rightarrow> string \<Rightarrow> rat \<Rightarrow> obj \<Rightarrow> bool" where
  "fit_message P p x m \<longleftrightarrow> get ''type'' m = Str ''l2update'' \<and> message_product m \<in> P \<and>
     get ''changes'' m = Arr (message_changes m) \<and> list_all (\<lambda>c. priced (item c 1)) (message_changes m) \<and>
     (message_product m = p \<longrightarrow> list_all (spelt x) (message_changes m))"

definition spec_at :: "string \<Rightarrow> rat \<Rightarrow> obj \<Rightarrow> val list \<times> val list \<Rightarrow> val list \<times> val list" where
  "spec_at p x m ss = (if message_product m = p then fold (spec_pair x) (message_changes m) ss else ss)"

definition watch_inv :: "string set \<Rightarrow> string set \<Rightarrow> string \<Rightarrow> rat \<Rightarrow> trade_state \<Rightarrow> bool" where
  "watch_inv P Q p x s \<longleftrightarrow> books_priced s \<and> products_of s = P \<and> decimal 20 x \<and> single (sizes_of x p s) \<and> (\<forall>q \<in> Q. ordered_book s q)"

lemma spec_at_changes: "fold (spec_at p x) ms ss = fold (spec_pair x) (changes_of ms p) ss"
  by (induction ms arbitrary: ss) (simp_all add: changes_of_def spec_at_def)

lemma batch_at:
  assumes "watch_inv P Q p x s" "list_all (fit_message P p x) ms"
  shows "\<exists>s'. updateOrderBook ms s = (Inr (), s') \<and> watch_inv P Q p x s' \<and> sizes_of x p s' = fold (spec_at p x) ms (sizes_of x p s)"
proof -
  let ?G = "group_changes ms"
  note i = assms(1) [unfolded watch_inv_def]
  have g: "distinct (map fst ?G)" "\<And>k. map_of ?G k = (if k \<in> message_product ` set ms then Some (changes_of ms k) else None)"
    using group_changes_at [of ms] assms(2) by (auto simp: list_all_iff fit_message_def)
  have keys: "set (own_keys ?G) = message_product ` set ms"
    using g(2) by (auto simp: dom_map_of_conv_image_fst [symmetric] dom_def split: if_splits)
  have d: "distinct (own_keys ?G)" using g(1) by (simp add: distinct_own_keys)
  have c: "the (map_of ?G k) = changes_of ms k" if "k \<in> set (own_keys ?G)" for k using that keys g(2) by simp
  have sub: "set (own_keys ?G) \<subseteq> products_of s"
    using assms(2) i unfolding keys by (auto simp: list_all_iff fit_message_def)
  have pr: "\<forall>k \<in> set (own_keys ?G). list_all (\<lambda>c. priced (item c 1)) (the (map_of ?G k))"
    using c assms(2) by (auto simp: changes_of_def list_all_iff fit_message_def)
  have sp: "list_all (spelt x) (changes_of ms p)"
    using assms(2) by (auto simp: changes_of_def list_all_iff fit_message_def)
  from update_books_at [OF d _ sub pr, of x] i obtain m where
    m: "updateOrderBook ms s = (Inr (), s\<lparr>objects := m\<rparr>)" "books_priced (s\<lparr>objects := m\<rparr>)" "products_of (s\<lparr>objects := m\<rparr>) = products_of s"
      "\<forall>q. q \<in> set (own_keys ?G) \<or> ordered_book s q \<longrightarrow> ordered_book (s\<lparr>objects := m\<rparr>) q"
      "p \<notin> set (own_keys ?G) \<longrightarrow> sizes_of x p (s\<lparr>objects := m\<rparr>) = sizes_of x p s"
      "p \<in> set (own_keys ?G) \<longrightarrow> decimal 20 x \<longrightarrow> single (sizes_of x p s) \<longrightarrow> list_all (spelt x) (the (map_of ?G p)) \<longrightarrow>
       sizes_of x p (s\<lparr>objects := m\<rparr>) = fold (spec_pair x) (the (map_of ?G p)) (sizes_of x p s) \<and> single (sizes_of x p (s\<lparr>objects := m\<rparr>))"
    unfolding updateOrderBook_def Let_def by blast
  have "sizes_of x p (s\<lparr>objects := m\<rparr>) = fold (spec_at p x) ms (sizes_of x p s) \<and> single (sizes_of x p (s\<lparr>objects := m\<rparr>))"
  proof (cases "p \<in> set (own_keys ?G)")
    case True
    with m(6) i sp c [OF True] have "sizes_of x p (s\<lparr>objects := m\<rparr>) = fold (spec_pair x) (changes_of ms p) (sizes_of x p s)"
      "single (sizes_of x p (s\<lparr>objects := m\<rparr>))" by metis+
    then show ?thesis unfolding spec_at_changes by blast
  next
    case False
    then have "changes_of ms p = []" unfolding keys by (auto simp: changes_of_def filter_empty_conv)
    with False m(5) i show ?thesis unfolding spec_at_changes by simp
  qed
  with m(1-4) i show ?thesis unfolding watch_inv_def by blast
qed

lemma watch_wr [simp]: "watch_inv P Q p x (book_wr ms s) = watch_inv P Q p x s" "sizes_of x p (book_wr ms s) = sizes_of x p s"
proof -
  have o: "objects (book_wr ms s) = objects s" by (simp add: book_wr_def)
  show "sizes_of x p (book_wr ms s) = sizes_of x p s" by (simp only: sizes_of_def o)
  then show "watch_inv P Q p x (book_wr ms s) = watch_inv P Q p x s"
    by (simp add: watch_inv_def books_priced_def ordered_book_def products_of_def o)
qed

interpretation price_buffer: refining_buffer book_read book_wr updateOrderBook "watch_inv P Q p x" "sizes_of x p" "spec_at p x" "fit_message P p x"
  for P Q p x
proof
  fix s ms assume "watch_inv P Q p x s" "list_all (fit_message P p x) ms"
  then show "\<exists>s'. updateOrderBook ms s = (Inr (), s') \<and> watch_inv P Q p x s' \<and> sizes_of x p s' = fold (spec_at p x) ms (sizes_of x p s)"
    by (rule batch_at)
qed simp_all

section \<open>Properties\<close>

text \<open>C5: whatever else the feed holds, prices spelt with trailing zeros included: a price at which every change for a product is
  spelt the way \<open>String\<close> prints the number shows, after a tick of the timer, exactly the size that the changes at this price
  leave, applied one by one; there is at most one level of it, and books in order stay in order. All products are known and all
  prices are numbers.\<close>

theorem price_follows_feed:
  assumes "books_priced s" "book_read s = []" "decimal 20 x" "single (sizes_of x p s)"
    and "\<forall>m \<in> set (pushes es). fit_message (products_of s) p x m"
  shows "let s' = feed_run moment (es @ [Tick]) s in book_read s' = [] \<and>
    sizes_of x p s' = fold (spec_at p x) (pushes es) (sizes_of x p s) \<and> single (sizes_of x p s') \<and>
    (\<forall>q. ordered_book s q \<longrightarrow> ordered_book s' q)"
proof -
  let ?P = "products_of s" and ?Q = "{q. ordered_book s q}"
  have p: "pushes (es @ [Tick]) = pushes es" by (induction es rule: pushes.induct) simp_all
  have i: "watch_inv ?P ?Q p x s" using assms(1,3,4) by (simp add: watch_inv_def)
  have a: "list_all (fit_message ?P p x) (pushes es)" using assms(5) by (simp add: list_all_iff)
  have r: "feed_run moment (es @ [Tick]) s = buffer_run book_read book_wr updateOrderBook (es @ [Tick]) s"
    using a p by (intro feed_run_buffer) (simp add: list_all_iff fit_message_def)
  from price_buffer.run_refines [OF i, of "es @ [Tick]"] assms(2) a p
  have "watch_inv ?P ?Q p x (feed_run moment (es @ [Tick]) s)" by (simp add: r)
  then show ?thesis using price_buffer.delivered [OF i assms(2) a] by (simp add: r watch_inv_def Let_def)
qed

text \<open>The bid of 1 at 10.5 is missed by its removal at \<open>10.50\<close>; the bid at 10 and the asks follow all the same.\<close>

definition spelt_updates :: "buffer_event list" where
  "spelt_updates = [
     Push (l2update ''BTC-USDT'' [Arr [Str ''buy'', Str ''10.50'', Str ''0''], Arr [Str ''buy'', Str ''10'', Str ''4'']]),
     Tick, Push (l2update ''BTC-USDT'' [Arr [Str ''sell'', Str ''11.00'', Str ''7'']])]"

theorem price_follows_feed_witness:
  "sizes_of 10 ''BTC-USDT'' (feed_run (\<lambda>_ _. []) (spelt_updates @ [Tick]) demo_store) = ([Str ''4''], [])"
proof -
  have p: "products_of demo_store = {''BTC-USDT''}" by (auto simp: products_of_def books_of_def demo_store_def dom_def split: if_splits)
  have ob: "object_priced demo_object" by code_simp
  have sz: "sizes_of 10 ''BTC-USDT'' demo_store = ([Num 3], [])"
  proof -
    have "(at_price 10 (levels (bids demo_object)), at_price 10 (levels (asks demo_object))) = ([Num 3], [])" by code_simp
    then show ?thesis by (simp add: sizes_of_def demo_store_def)
  qed
  have "list_all (fit_message {''BTC-USDT''} ''BTC-USDT'' 10) (pushes spelt_updates)" by code_simp
  then have f: "\<forall>m \<in> set (pushes spelt_updates). fit_message (products_of demo_store) ''BTC-USDT'' 10 m" by (simp add: p list_all_iff)
  have e: "fold (spec_at ''BTC-USDT'' 10) (pushes spelt_updates) ([Num 3], []) = ([Str ''4''], [])" by code_simp
  have "books_priced demo_store" using ob by (simp add: books_priced_def demo_store_def)
  moreover have "book_read demo_store = []" by (simp add: book_read_def demo_store_def initial_store_def buffered_def)
  moreover have "decimal 20 10" by code_simp
  moreover have "single (sizes_of 10 ''BTC-USDT'' demo_store)" by (simp add: sz single_def)
  ultimately show ?thesis
    using price_follows_feed [of demo_store 10 "''BTC-USDT''" spelt_updates "\<lambda>_ _. []"] f e sz by (simp add: Let_def)
qed

end
