(* ===== verification/Trade_History.thy ===== *)
theory Trade_History
  imports Trade_Props
begin

text \<open>
  The candles and the trade history of the exchange client, and the shape of its store: what a trade does to
  them, and what no event of the browser ever breaks.
\<close>

section \<open>Candles\<close>

definition candle_volume :: "val \<Rightarrow> rat" where
  "candle_volume c = (case to_number (item c 5) of Some v \<Rightarrow> v | None \<Rightarrow> 0)"

definition traded_volume :: "val list \<Rightarrow> rat" where
  "traded_volume h = sum_list (map candle_volume h)"

definition candle :: "rat \<Rightarrow> rat \<Rightarrow> rat \<Rightarrow> rat \<Rightarrow> rat \<Rightarrow> rat \<Rightarrow> val" where
  "candle t lo hi op cl v = Arr [Num t, Num lo, Num hi, Num op, Num cl, Num v]"

lemma item_Cons [simp]: "item (Arr (x # xs)) 0 = x" "item (Arr (x # xs)) (Suc n) = item (Arr xs) n"
  by (simp_all add: item_def)

lemma candle_fields [simp]:
  "item (candle t lo hi op cl v) 0 = Num t" "item (candle t lo hi op cl v) 1 = Num lo"
  "item (candle t lo hi op cl v) 2 = Num hi" "item (candle t lo hi op cl v) 3 = Num op"
  "item (candle t lo hi op cl v) 4 = Num cl" "item (candle t lo hi op cl v) 5 = Num v"
  by (simp_all add: candle_def item_def)

lemma candle_volume_candle [simp]: "candle_volume (candle t lo hi op cl v) = v"
  by (simp add: candle_volume_def)

lemma extended_candle:
  "extended (candle t lo hi op cl v) (Some p) (Some q) = candle t (min lo p) (max hi p) op p (v + q)"
  unfolding extended_def candle_fields
  by (auto simp: candle_def greater_def js_plus_def lift2_def min_def max_def)

lemma opened_candle: "opened (Some t) (Some p) (Some q) = candle t p p p p q"
  by (simp add: opened_def candle_def)

text \<open>What a trade does to the candles. A trade of the running candle moves its bounds, its closing price
  and its volume. A trade that opens a new candle does all that to the previous candle too: it closes at the
  price of a trade outside it, and the size of the trade is counted twice.\<close>

theorem new_candle_counts_twice:
  assumes "objects s = Some m" "m p = Some x" "history x = candle t lo hi op cl v # cs"
    and "js_string (get ''productId'' data) = p" "to_number (get ''price'' data) = Some pr"
    and "to_number (get ''size'' data) = Some q" "bucket moment data (historyType x) = Some b"
  shows "\<exists>h. updateHistory moment data s = (Inr (), put_object p (x\<lparr>history := h\<rparr>) s) \<and>
    h = (if t = b then [] else [candle b pr pr pr pr q]) @ candle t (min lo pr) (max hi pr) op pr (v + q) # cs \<and>
    traded_volume h = traded_volume (history x) + (if t = b then q else 2 * q)"
proof -
  let ?e = "candle t (min lo pr) (max hi pr) op pr (v + q)"
  let ?h = "(if t = b then [] else [candle b pr pr pr pr q]) @ ?e # cs"
  have c: "last_record x = candle t lo hi op cl v" "truthy_val (candle t lo hi op cl v)"
    using assms(3) by (simp_all add: last_record_def candle_def)
  have "updateHistory moment data s = (Inr (), put_object p (x\<lparr>history := ?h\<rparr>) s)"
    using assms(1,2,3,4,5,6,7) c
    by (simp add: updateHistory_def Let_def getObject_def change_object_def modify_def io_defs equals_num_def
        extended_candle opened_candle)
  moreover have "traded_volume ?h = traded_volume (history x) + (if t = b then q else 2 * q)"
    using assms(3) by (simp add: traded_volume_def)
  ultimately show ?thesis by blast
qed

text \<open>A clock that reads the number of seconds, and a trade of the next minute.\<close>

definition demo_moment :: "val \<Rightarrow> string \<Rightarrow> string" where
  "demo_moment v fmt = js_string v"

definition demo_trade :: obj where
  "demo_trade = [(''type'', Str ''match''), (''productId'', Str ''BTC-USDT''), (''time'', Str ''125''),
     (''price'', Str ''13''), (''size'', Str ''2'')]"

theorem new_candle_counts_twice_witness:
  "\<exists>h. updateHistory demo_moment demo_trade demo_store =
      (Inr (), put_object ''BTC-USDT'' (demo_object\<lparr>history := h\<rparr>) demo_store) \<and>
    h = [candle 120 13 13 13 13 2, candle 60 9 13 10 13 7] \<and> traded_volume h = 9"
proof -
  have b: "bucket demo_moment demo_trade (historyType demo_object) = Some 120" by code_simp
  have n: "to_number (get ''price'' demo_trade) = Some 13" "to_number (get ''size'' demo_trade) = Some 2"
    by code_simp+
  have "history demo_object = candle 60 9 12 10 10 5 # []" by (simp add: demo_object_def candle_def)
  from new_candle_counts_twice [where s = demo_store and p = "''BTC-USDT''" and data = demo_trade, OF _ _ this _ n b]
  show ?thesis
    by (simp add: demo_store_def demo_trade_def traded_volume_def)
qed

section \<open>Trades\<close>

definition stamped :: "(val \<Rightarrow> string \<Rightarrow> string) \<Rightarrow> obj \<Rightarrow> val" where
  "stamped moment data = Obj (put ''localTime'' (Str (moment (get ''time'' data) ''H:mm:ss'')) data)"

definition trades_of :: "trade_state \<Rightarrow> string \<Rightarrow> val list option" where
  "trades_of s p = (case objects s of None \<Rightarrow> None | Some m \<Rightarrow> map_option tradeHistory (m p))"

lemma take_append_take: "take n (xs @ take n ys) = take n (xs @ ys)"
  by (simp add: min_absorb1)

lemma trades_put:
  "trades_of s p \<noteq> None \<Longrightarrow> trades_of (put_object p x s) p = Some (tradeHistory x)"
  by (auto simp: trades_of_def put_object_def split: option.splits)

lemma getObject_trades: "trades_of s p = Some ts \<longleftrightarrow> (\<exists>x. getObject p s = (Inr x, s) \<and> tradeHistory x = ts)"
  by (auto simp: trades_of_def getObject_def split: option.splits)

lemma updateHistory_trades:
  assumes "trades_of s p = Some ts" "js_string (get ''productId'' data) = p"
  shows "\<exists>s'. updateHistory moment data s = (Inr (), s') \<and> trades_of s' p = Some ts"
proof -
  obtain x where x: "getObject p s = (Inr x, s)" "tradeHistory x = ts" using assms(1) getObject_trades by auto
  show ?thesis
    using x assms trades_put [of s p]
    by (auto simp: updateHistory_def Let_def change_object_def modify_def io_defs)
qed

lemma updateTradeHistory_trades:
  assumes "trades_of s p = Some ts" "js_string (get ''productId'' data) = p"
  shows "\<exists>s'. updateTradeHistory moment data s = (Inr (), s') \<and> trades_of s' p = Some (take 120 (stamped moment data # ts))"
proof -
  obtain s1 where s1: "updateHistory moment data s = (Inr (), s1)" "trades_of s1 p = Some ts"
    using updateHistory_trades [OF assms] by blast
  then obtain x where x: "getObject p s1 = (Inr x, s1)" "tradeHistory x = ts" using getObject_trades by auto
  show ?thesis
    using s1 x assms(2) trades_put [of s1 p]
    by (auto simp: updateTradeHistory_def Let_def setTradeHistory_def change_object_def modify_def io_defs stamped_def)
qed

text \<open>The trade history of a product is the last 120 trades, the newest first. Whatever it held, after
  any number of trades of the product it is the first 120 entries of the reversed trades followed by the
  old entries, each trade stamped with its local time.\<close>

theorem trades_newest_first:
  assumes "trades_of s p = Some ts" "length ts \<le> 120" "\<forall>d \<in> set ds. js_string (get ''productId'' d) = p"
  shows "\<exists>s'. foreach ds (updateTradeHistory moment) s = (Inr (), s') \<and>
    trades_of s' p = Some (take 120 (rev (map (stamped moment) ds) @ ts))"
  using assms
proof (induction ds arbitrary: s ts)
  case Nil
  then show ?case by (simp add: ret_def)
next
  case (Cons d ds)
  obtain s1 where s1: "updateTradeHistory moment d s = (Inr (), s1)"
    "trades_of s1 p = Some (take 120 (stamped moment d # ts))"
    using updateTradeHistory_trades [OF Cons.prems(1)] Cons.prems(3) by force
  have "take 120 (rev (map (stamped moment) ds) @ take 120 (stamped moment d # ts)) =
      take 120 (rev (map (stamped moment) (d # ds)) @ ts)"
    unfolding take_append_take by simp
  with Cons.IH [OF s1(2)] s1(1) Cons.prems(3) show ?case by (simp add: io_defs)
qed

theorem trades_newest_first_witness:
  "\<exists>s'. foreach [demo_trade, demo_trade] (updateTradeHistory demo_moment) demo_store = (Inr (), s') \<and>
    trades_of s' ''BTC-USDT'' = Some [stamped demo_moment demo_trade, stamped demo_moment demo_trade]"
proof -
  have t: "trades_of demo_store ''BTC-USDT'' = Some []" by (simp add: trades_of_def demo_store_def demo_object_def)
  have d: "\<forall>d \<in> set [demo_trade, demo_trade]. js_string (get ''productId'' d) = ''BTC-USDT''"
    by (simp add: demo_trade_def)
  from trades_newest_first [OF t _ d, of demo_moment] show ?thesis by simp
qed

section \<open>The shape of the store\<close>

text \<open>References are in range, the current socket exists and the histories are bounded.\<close>

definition object_shape :: "nat \<Rightarrow> trade_object \<Rightarrow> bool" where
  "object_shape n x \<longleftrightarrow> product x < n \<and> length (tradeHistory x) \<le> 120"

definition store_shape :: "string set \<Rightarrow> trade_state \<Rightarrow> bool" where
  "store_shape P s \<longleftrightarrow> (\<forall>a \<in> set (products s). a < length (heap s)) \<and>
     (case objects s of None \<Rightarrow> False | Some m \<Rightarrow> dom m = P \<and> (\<forall>x \<in> ran m. object_shape (length (heap s)) x)) \<and>
     (case ws s of None \<Rightarrow> True | Some n \<Rightarrow> n < length (sockets s))"

lemma shape_cong:
  "store_shape P s \<Longrightarrow> products s' = products s \<Longrightarrow> length (heap s') = length (heap s) \<Longrightarrow> objects s' = objects s \<Longrightarrow>
   ws s' = ws s \<Longrightarrow> length (sockets s') = length (sockets s) \<Longrightarrow> store_shape P s'"
  by (cases "objects s"; cases "ws s") (simp_all add: store_shape_def)

abbreviation shaped :: "string set \<Rightarrow> 'a store \<Rightarrow> bool" where
  "shaped P m \<equiv> triple (\<lambda>s. s) (store_shape P) m (\<lambda>_. store_shape P) (store_shape P)"

named_theorems shape_rules "operations that keep the shape of the store"

lemma shaped_bind [shape_rules]: "shaped P m \<Longrightarrow> (\<And>x. shaped P (f x)) \<Longrightarrow> shaped P (bindio m f)"
  by (rule triple_bind)

lemma shaped_seq [shape_rules]: "shaped P m \<Longrightarrow> shaped P n \<Longrightarrow> shaped P (seqio m n)"
  by (rule triple_seq)

lemma shaped_foreach [shape_rules]: "(\<And>x. shaped P (f x)) \<Longrightarrow> shaped P (foreach xs f)"
  by (rule triple_foreach)

lemma shaped_basic [shape_rules]: "shaped P (ret x)" "shaped P (throw e)" "shaped P (lift r)" "shaped P (getObject p)"
  by (auto simp: lift_def triple_def ret_def throw_def getObject_def split: sum.splits option.splits)

lemma shaped_foreach_of: "(\<And>x. shaped P (g x)) \<Longrightarrow> shaped P (\<lambda>s. foreach (xs s) g s)"
  using shaped_foreach [of P g] by (simp add: triple_def)

lemma shaped_when:
  "(\<And>s. shaped P (m s)) \<Longrightarrow> shaped P (\<lambda>s. if b s then m s s else ret () s)"
  using shaped_basic(1) [of P "()"] by (simp add: triple_def)

lemma shaped_if [shape_rules]: "shaped P m \<Longrightarrow> shaped P n \<Longrightarrow> shaped P (if b then m else n)"
  by simp

lemma shaped_modify: "(\<And>s. store_shape P s \<Longrightarrow> store_shape P (f s)) \<Longrightarrow> shaped P (modify f)"
  by (simp add: triple_def modify_def)

lemma shaped_change_object [shape_rules]:
  assumes "\<And>x n. object_shape n x \<Longrightarrow> object_shape n (f x)"
  shows "shaped P (change_object p f)"
proof (rule tripleI)
  fix s assume s: "store_shape P s"
  show "outcome (\<lambda>s. s) (\<lambda>_. store_shape P) (store_shape P) (change_object p f s)"
  proof (cases "knows s p")
    case False
    with getObject_unknown [OF this] s show ?thesis by (auto simp: change_object_def io_defs)
  next
    case True
    then obtain m x where m: "objects s = Some m" "m p = Some x" by (auto simp: knows_def split: option.splits)
    with s have x: "object_shape (length (heap s)) x" and d: "dom m = P" "\<forall>x \<in> ran m. object_shape (length (heap s)) x"
      by (auto simp: store_shape_def ran_def)
    have "ran (m(p \<mapsto> f x)) \<subseteq> insert (f x) (ran m)" by (auto simp: ran_def)
    moreover have "dom (m(p \<mapsto> f x)) = P" using d(1) m(2) by auto
    ultimately have "store_shape P (put_object p (f x) s)"
      using s m d x assms by (auto simp: store_shape_def put_object_def split: option.splits)
    with m show ?thesis by (simp add: change_object_def getObject_def modify_def io_defs)
  qed
qed

lemma shaped_book [shape_rules]: "shaped P (setOrderBook p b a)" "shaped P (updateOrderBook ms)"
  unfolding updateOrderBook_def update_book_def setOrderBook_def Let_def case_prod_beta
  by (intro shape_rules; simp add: object_shape_def)+

lemma shaped_updateHistory [shape_rules]: "shaped P (updateHistory moment data)"
  unfolding updateHistory_def Let_def by (intro shape_rules; simp add: object_shape_def)

lemma shaped_updateTradeHistory [shape_rules]: "shaped P (updateTradeHistory moment data)"
  unfolding updateTradeHistory_def setTradeHistory_def Let_def by (intro shape_rules; simp add: object_shape_def)

lemma shaped_setProducts: "shaped P (\<lambda>s. setProducts (products s) s)"
proof (rule tripleI)
  fix s assume "store_shape P s"
  then have "store_shape P (snd (setProducts (products s) s))"
    by (rule shape_cong) (use \<open>store_shape P s\<close> in \<open>auto simp: setProducts_def modify_def store_shape_def split: option.splits\<close>)
  then show "outcome (\<lambda>s. s) (\<lambda>_. store_shape P) (store_shape P) (setProducts (products s) s)"
    by (simp add: setProducts_def modify_def)
qed

lemma shaped_updatePruductPrice [shape_rules]: "shaped P (updatePruductPrice data)"
  unfolding updatePruductPrice_def
  by (intro shaped_seq shaped_setProducts shaped_foreach_of shaped_modify; erule shape_cong; simp)

lemma shaped_updateOrder [shape_rules]: "shaped P (updateOrder moment ms)"
proof -
  have "shaped P (update_order moment p order)" for p order
  proof -
    have "shaped P (\<lambda>s. case r s of Inl e \<Rightarrow> (Inl e, s) | Inr y \<Rightarrow> setOpenOrders p (f y) s)" for r and f :: "obj \<Rightarrow> val list"
    proof -
      have "shaped P (setOpenOrders p xs)" for xs
        unfolding setOpenOrders_def by (intro shape_rules) (simp add: object_shape_def)
      then show ?thesis by (auto simp: triple_def split: sum.splits)
    qed
    then show ?thesis unfolding update_order_def by (intro shaped_bind shaped_basic)
  qed
  then show ?thesis unfolding updateOrder_def Let_def by (intro shape_rules; simp add: object_shape_def)
qed

lemma shaped_updateFund [shape_rules]: "shaped P (updateFund ms)"
  unfolding updateFund_def Let_def set_fund_def
  by (intro shape_rules shaped_modify; erule shape_cong; simp)

lemma shaped_buffers [shape_rules]:
  "shaped P (push_book m)" "shaped P (push_order m)" "shaped P (push_funds m)"
  "shaped P book_timer" "shaped P (order_timer moment)" "shaped P funds_timer"
proof -
  have t: "shaped P (buffer_tick read wr action)"
    if "\<And>ms. shaped P (action ms)" "\<And>ms s. store_shape P s \<Longrightarrow> store_shape P (wr ms s)" for read wr action
    unfolding buffer_tick_def
    by (rule shaped_when [where m = "\<lambda>w. seqio (action (read w)) (modify (wr []))"]) (intro shaped_seq shaped_modify that)
  have p: "shaped P (buffer_push read wr m)" if "\<And>ms s. store_shape P s \<Longrightarrow> store_shape P (wr ms s)" for read wr m
    unfolding buffer_push_def by (intro shaped_modify that)
  show "shaped P (push_book m)" "shaped P (push_order m)" "shaped P (push_funds m)"
    unfolding push_book_def push_order_def push_funds_def by (rule p; erule shape_cong; simp)+
  show "shaped P book_timer" "shaped P (order_timer moment)" "shaped P funds_timer"
    unfolding book_timer_def order_timer_def funds_timer_def
    by (rule t; (rule shape_rules | (erule shape_cong; simp)))+
qed

lemma shaped_parse [shape_rules]: "shaped P (parseWebSocketMessage moment msg)"
  unfolding parseWebSocketMessage_def by (cases "get ''type'' msg"; simp; intro conjI impI shape_rules)

lemma shaped_socket:
  assumes "shaped P callback"
  shows "shaped P (subscribe d)" "shaped P (onopen callback)" "shaped P onclose" "shaped P interval"
    "(\<And>m. shaped P (on_message m)) \<Longrightarrow> shaped P (onmessage on_message msg)"
proof -
  show sub: "shaped P (subscribe d)" for d
    unfolding subscribe_def ws_send_def
    by (auto simp: triple_def split: option.splits ready.splits intro: shape_cong)
  show "shaped P (onopen callback)"
    unfolding onopen_def
    by (intro shaped_seq shaped_modify
        shaped_when [where m = "\<lambda>s. seqio (foreach (subscribes s) subscribe) (modify (\<lambda>s. s\<lparr>subscribes := []\<rparr>))"]
        shaped_when [where m = "\<lambda>_. callback"] shaped_foreach sub assms; erule shape_cong; simp)
  show "shaped P onclose"
    unfolding onclose_def by (intro shaped_modify; erule shape_cong; simp)
  show "shaped P interval"
    by (auto simp: interval_def triple_def ws_connect_def modify_def store_shape_def split: option.splits)
  have "shaped P (remember c)" for c
    unfolding remember_def by (cases c; simp; intro shaped_basic shaped_modify; erule shape_cong; simp)
  then have r: "shaped P (foreach cs remember)" for cs by (intro shaped_foreach)
  have m: "shaped P (modify (\<lambda>s. s\<lparr>subscribes := []\<rparr>))" by (intro shaped_modify; erule shape_cong; simp)
  show "shaped P (onmessage on_message msg)" if "\<And>m. shaped P (on_message m)"
    unfolding onmessage_def
    using that r by (cases "elements (get ''channels'' msg)") (auto intro!: shaped_seq m shaped_basic)
qed

text \<open>An event of the page: the socket, or one of the timers of the buffers.\<close>

datatype page_event = Socket ws_event | Book_Timer | Order_Timer | Funds_Timer

definition page_step :: "(val \<Rightarrow> string \<Rightarrow> string) \<Rightarrow> unit store \<Rightarrow> page_event \<Rightarrow> trade_state \<Rightarrow> trade_state" where
  "page_step moment callback e s = (case e of
     Socket w \<Rightarrow> app_run moment callback [w] s
   | Book_Timer \<Rightarrow> reported book_timer s
   | Order_Timer \<Rightarrow> reported (order_timer moment) s
   | Funds_Timer \<Rightarrow> reported funds_timer s)"

lemma shaped_reported: "shaped P m \<Longrightarrow> store_shape P s \<Longrightarrow> store_shape P (reported m s)"
  unfolding reported_def using tripleD [of "\<lambda>s. s" "store_shape P" m _ _ s]
  by (cases "m s"; cases "fst (m s)") fastforce+

lemma shape_ws_step:
  assumes "\<And>d. shaped P (on_message d)" "shaped P on_open" "store_shape P s"
  shows "store_shape P (ws_step on_open on_message e s)"
proof -
  have "store_shape P (s\<lparr>sockets := ss\<rparr>)" if "length ss = length (sockets s)" for ss
    using assms(3) by (rule shape_cong) (simp_all add: that)
  then show ?thesis
    using assms shaped_socket [OF assms(2)]
    by (auto simp: ws_step_def split: ws_event.splits intro!: shaped_reported)
qed

text \<open>C11: the store keeps its shape. Whatever messages, socket events and timer ticks happen in whatever order,
  with all the errors they raise: the products the store knows stay the same, every product reference
  points into the heap, no trade history exceeds 120 entries, and the current socket exists.\<close>

theorem page_keeps_shape:
  assumes "store_shape P s" "shaped P callback"
  shows "store_shape P (fold (page_step moment callback) es s)"
  using assms(1)
proof (induction es arbitrary: s)
  case (Cons e es)
  have "shaped P (app_open callback)"
    unfolding app_open_def subscribeAllTicker_def subscribe_products_def
    using assms(2) shaped_socket(1) [OF assms(2)] by (intro shaped_seq) (auto simp: triple_def)
  then have "store_shape P (app_run moment callback [w] s)" for w
    unfolding app_run_def ws_run_def using Cons.prems by (simp add: shape_ws_step shaped_parse)
  then have "store_shape P (page_step moment callback e s)"
    using Cons.prems by (cases e) (simp_all add: page_step_def shaped_reported shaped_buffers)
  with Cons.IH show ?case by simp
qed simp

theorem page_keeps_shape_witness:
  "store_shape {''BTC-USDT''} (fold (page_step demo_moment (ret ()))
     [Socket Timer, Socket (Opened 0), Socket (Received 0 demo_trade), Book_Timer] (snd (start_socket demo_store)))"
proof (rule page_keeps_shape)
  show "store_shape {''BTC-USDT''} (snd (start_socket demo_store))"
    by (simp add: start_socket_def ws_connect_def modify_def io_defs store_shape_def demo_store_def initial_store_def
        object_shape_def demo_object_def)
  show "shaped {''BTC-USDT''} (ret ())" by (rule shaped_basic)
qed

end
