(* ===== verification/Trade_Views.thy ===== *)
theory Trade_Views
  imports Trade_History
begin

text \<open>
  What the exchange client shows of its store: the merging of the order book (\<open>helper.ts\<close>), the order book
  panel and the depth chart that use it (\<open>component/panel/order-book\<close>, \<open>component/chart/depth\<close>), and the
  forms that send orders and withdrawals (\<open>component/form\<close>, \<open>service/order.ts\<close>).
\<close>

section \<open>helper.ts\<close>

text \<open>\<open>Math.round\<close>, \<open>Number_toString\<close> (a decimal never prints with an exponent here) and the price of a level on
  a scale, as a string.\<close>

definition js_round :: "rat \<Rightarrow> rat" where
  "js_round x = of_int \<lfloor>x + 1 / 2\<rfloor>"

definition Number_toString :: "rat \<Rightarrow> string" where
  "Number_toString n = string_of_number (Some n)"

definition Trade_scalePrice :: "rat option \<Rightarrow> rat \<Rightarrow> js_error + string" where
  "Trade_scalePrice p scale = (let r = map_option (\<lambda>x. js_round (x / scale) * scale) p in
     if scale \<ge> 1 then Inr (string_of_number r)
     else toFixed r (int (length (Number_toString scale)) - 2))"

type_synonym merged = "(string \<times> rat option \<times> rat option) list"

text \<open>\<open>bids[price] || (bids[price] = [Number(price), 0]); bids[price][1] += Number(bid[1])\<close>\<close>

definition merge_level :: "rat \<Rightarrow> val \<Rightarrow> js_error + merged \<Rightarrow> js_error + merged" where
  "merge_level scale l r = (case r of Inl e \<Rightarrow> Inl e | Inr t \<Rightarrow>
     (case Trade_scalePrice (to_number (item l 0)) scale of Inl e \<Rightarrow> Inl e | Inr k \<Rightarrow>
       (let (p, q) = (case map_of t k of None \<Rightarrow> (number_of_string k, Some 0) | Some e \<Rightarrow> e) in
        Inr (AList.update k (p, lift2 (+) q (to_number (item l 1))) t))))"

definition merge_side :: "rat \<Rightarrow> val list \<Rightarrow> js_error + (rat option \<times> rat option) list" where
  "merge_side scale ls = map_sum (\<lambda>e. e) own_values (fold (merge_level scale) ls (Inr []))"

text \<open>With a count \<open>n\<close>, both sides are filled up with empty levels below the first bid and above the last ask; a
  filler's price is \<open>Number\<close> of its string here, as every reader takes it.\<close>

definition filler :: "rat \<Rightarrow> rat option \<Rightarrow> rat \<Rightarrow> nat \<Rightarrow> rat option \<times> rat option" where
  "filler sign base scale i =
     ((case Trade_scalePrice (map_option (\<lambda>x. x + sign * of_nat (i + 1) * scale) base) scale of
         Inl e \<Rightarrow> None | Inr k \<Rightarrow> number_of_string k), Some 0)"

definition fill_side :: "rat \<Rightarrow> rat option \<Rightarrow> rat \<Rightarrow> nat \<Rightarrow> (rat option \<times> rat option) list \<Rightarrow> (rat option \<times> rat option) list" where
  "fill_side sign base scale n xs = xs @ map (filler sign base scale) [0..<n - length xs]"

definition Trade_margeOrderBook ::
  "val list \<Rightarrow> val list \<Rightarrow> rat \<Rightarrow> nat \<Rightarrow> js_error + (rat option \<times> rat option) list \<times> (rat option \<times> rat option) list" where
  "Trade_margeOrderBook bs as' scale n =
     (case merge_side scale bs of Inl e \<Rightarrow> Inl e | Inr b \<Rightarrow>
     (case merge_side scale as' of Inl e \<Rightarrow> Inl e | Inr a \<Rightarrow>
       Inr (if n \<noteq> 0 \<and> b \<noteq> [] \<and> a \<noteq> []
            then (fill_side (- 1) (fst (hd b)) scale n b, fill_side 1 (fst (last a)) scale n a)
            else (b, a))))"

text \<open>The other helpers: \<open>map\<close> over an object, membership, and the renaming of keys between the two cases.\<close>

definition object_map :: "(string \<times> 'a) list \<Rightarrow> ('a \<Rightarrow> string \<Rightarrow> 'b) \<Rightarrow> 'b list" where
  "object_map ob handle = map (\<lambda>k. handle (the (map_of ob k)) k) (own_keys ob)"

definition Array_in :: "val \<Rightarrow> val list \<Rightarrow> bool" where
  "Array_in search xs \<longleftrightarrow> list_ex (\<lambda>x. loose_eq x search) xs"

definition is_upper :: "char \<Rightarrow> bool" where
  "is_upper c = (let n = (of_char c :: nat) in 65 \<le> n \<and> n \<le> 90)"

definition is_word :: "char \<Rightarrow> bool" where
  "is_word c = (is_digit c \<or> is_upper c \<or> is_upper (char_of ((of_char c :: nat) - 32)) \<or> c = CHR ''_'')"

definition upper_char :: "char \<Rightarrow> char" where
  "upper_char c = (let n = (of_char c :: nat) in if 97 \<le> n \<and> n \<le> 122 then char_of (n - 32) else c)"

fun snake_key :: "string \<Rightarrow> string" where
  "snake_key [] = []"
| "snake_key (c # s) = (if is_upper c then CHR ''_'' # lower_char c # snake_key s else lower_char c # snake_key s)"

fun camel_key :: "string \<Rightarrow> string" where
  "camel_key [] = []"
| "camel_key [c] = [c]"
| "camel_key (c # d # s) = (if c = CHR ''_'' \<and> is_word d then upper_char d # camel_key s else c # camel_key (d # s))"

section \<open>The order book panel\<close>

definition AGGREGATION :: "nat list" where
  "AGGREGATION = [1, 5, 10, 50, 100, 250, 500, 1000]"

type_synonym row = "rat option \<times> rat option \<times> rat option \<times> string"

record book_panel =
  lastedAsks :: "row list"
  lastedBids :: "row list"
  tradePriceDiff :: string
  aggregationIndex :: int
  priceScale :: "rat option"
  nativeScale :: rat
  scaleUpBtnEnable :: bool
  scaleDownBtnEnable :: bool

definition lineMax :: nat where
  "lineMax = 50"

definition aggregation_at :: "int \<Rightarrow> rat option" where
  "aggregation_at i = (if 0 \<le> i \<and> i < int (length AGGREGATION) then Some (of_nat (AGGREGATION ! nat i)) else None)"

definition panel_created :: "rat \<Rightarrow> book_panel" where
  "panel_created scale = \<lparr>lastedAsks = [], lastedBids = [], tradePriceDiff = ''0'', aggregationIndex = 0,
     priceScale = Some scale, nativeScale = scale, scaleUpBtnEnable = True, scaleDownBtnEnable = False\<rparr>"

definition aggregationDown :: "book_panel \<Rightarrow> book_panel" where
  "aggregationDown p = (let i = aggregationIndex p - 1 in
     p\<lparr>aggregationIndex := i, priceScale := lift2 (*) (Some (nativeScale p)) (aggregation_at i),
       scaleDownBtnEnable := i > 0, scaleUpBtnEnable := True\<rparr>)"

definition aggregationUp :: "book_panel \<Rightarrow> book_panel" where
  "aggregationUp p = (let i = aggregationIndex p + 1 in
     p\<lparr>aggregationIndex := i, priceScale := lift2 (*) (Some (nativeScale p)) (aggregation_at i),
       scaleUpBtnEnable := i < int (length AGGREGATION) - 1, scaleDownBtnEnable := True\<rparr>)"

text \<open>Fifty rows per side, bids from the first level down, asks up to the first; each with its share of the largest
  size in percent. Sizes are not negative.\<close>

definition bid_rows :: "(rat option \<times> rat option) list \<Rightarrow> (rat option \<times> rat option) list" where
  "bid_rows xs = map (\<lambda>i. if length xs > i then xs ! i else (Some 0, Some 0)) [0..<lineMax]"

definition ask_rows :: "(rat option \<times> rat option) list \<Rightarrow> (rat option \<times> rat option) list" where
  "ask_rows xs = map (\<lambda>i. if length xs \<ge> lineMax - i then xs ! (lineMax - i - 1) else (Some 0, Some 0)) [0..<lineMax]"

definition size_max :: "(rat option \<times> rat option) list \<Rightarrow> rat option" where
  "size_max rows = fold (\<lambda>r m. lift2 max m (snd r)) rows (Some 0)"

definition percent :: "rat option \<Rightarrow> rat option \<Rightarrow> rat option" where
  "percent m q = (if q = None \<or> q = Some 0 then Some 0
     else map_option (\<lambda>x. of_int \<lfloor>x * 100\<rfloor>) (lift2 (/) q m))"

text \<open>\<open>toMark\<close>: a row whose price was shown before is marked when its size changed, by the parity of the clock;
  a new price gets its own mark.\<close>

definition same_number :: "rat option \<Rightarrow> rat option \<Rightarrow> bool" where
  "same_number a b \<longleftrightarrow> a \<noteq> None \<and> a = b"

definition mark_of :: "bool \<Rightarrow> row list \<Rightarrow> rat option \<times> rat option \<Rightarrow> string" where
  "mark_of oddTime lasted = (\<lambda>(p, q). if lasted = [] then [] else
     (case find (\<lambda>(p', _). same_number p p') lasted of
        None \<Rightarrow> ''am-1''
      | Some (_, q', _) \<Rightarrow> if \<not> same_number q' q then (if oddTime then ''am-0-1'' else ''am-0-0'') else []))"

definition marked_rows :: "bool \<Rightarrow> row list \<Rightarrow> (rat option \<times> rat option) list \<Rightarrow> row list" where
  "marked_rows oddTime lasted rows =
     map (\<lambda>r. (fst r, snd r, percent (size_max rows) (snd r), mark_of oddTime lasted r)) rows"

definition shown_book :: "bool \<Rightarrow> int \<Rightarrow> trade_object \<Rightarrow> book_panel \<Rightarrow> js_error + (row list \<times> row list) \<times> book_panel" where
  "shown_book oddTime quoteScale x p =
     (case priceScale p of None \<Rightarrow> Inl (JsError ''RangeError'') | Some scale \<Rightarrow>
     (case Trade_margeOrderBook (levels (bids x)) (levels (asks x)) scale 0 of Inl e \<Rightarrow> Inl e | Inr (b, a) \<Rightarrow>
       (let fb = marked_rows oddTime (lastedBids p) (bid_rows b); fa = marked_rows oddTime (lastedAsks p) (ask_rows a);
            p' = p\<lparr>lastedBids := fb, lastedAsks := fa\<rparr> in
        (case (levels (bids x), levels (asks x)) of
           (firstBid # _, lastAsk # _) \<Rightarrow>
             (case toFixed (lift2 (-) (to_number (item lastAsk 0)) (to_number (item firstBid 0))) quoteScale of
                Inl e \<Rightarrow> Inl e | Inr d \<Rightarrow> Inr ((fa, fb), p'\<lparr>tradePriceDiff := d\<rparr>))
         | _ \<Rightarrow> Inr ((fa, fb), p')))))"

section \<open>The depth chart\<close>

text \<open>The cumulated volume at each of the prices around the last one, both rounded for the chart:
  \<open>Number(price.toFixed(priceScaleNumber))\<close>, \<open>Number(volume.toFixed(4))\<close>.\<close>

definition cumulated :: "(rat \<Rightarrow> bool) \<Rightarrow> (rat option \<times> rat option) list \<Rightarrow> rat option" where
  "cumulated inside xs = fold (\<lambda>(p, q) v. case p of None \<Rightarrow> v | Some x \<Rightarrow> if inside x then lift2 (+) v q else v) xs (Some 0)"

definition depth_limit :: nat where
  "depth_limit = 200"

definition rounded :: "int \<Rightarrow> rat option \<Rightarrow> rat option" where
  "rounded d x = (case toFixed x d of Inl e \<Rightarrow> None | Inr s \<Rightarrow> number_of_string s)"

definition depth_values ::
  "int \<Rightarrow> rat \<Rightarrow> rat \<Rightarrow> (rat option \<times> rat option) list \<Rightarrow> (rat option \<times> rat option) list \<Rightarrow>
   (rat option \<times> rat option) list \<times> (rat option \<times> rat option) list" where
  "depth_values quoteScale productPrice scale bs as' =
     (let minPrice = productPrice - scale * of_nat depth_limit;
          px = (\<lambda>i. minPrice + scale * of_nat i) in
      (map (\<lambda>i. (rounded quoteScale (Some (px i)), rounded 4 (cumulated (\<lambda>x. x \<ge> px i) bs))) [0..<depth_limit],
       map (\<lambda>i. (rounded quoteScale (Some (px i)), rounded 4 (cumulated (\<lambda>x. x \<le> px i) as'))) [depth_limit - 1..<2 * depth_limit]))"

section \<open>Forms\<close>

text \<open>\<open>!v\<close> is the negation of \<open>js_true v\<close>; \<open>v <= 0\<close>.\<close>

definition js_true :: "val \<Rightarrow> bool" where
  "js_true v \<longleftrightarrow> v \<noteq> NaN \<and> truthy_val v"

definition at_most_zero :: "val \<Rightarrow> bool" where
  "at_most_zero v \<longleftrightarrow> (case to_number v of None \<Rightarrow> False | Some x \<Rightarrow> x \<le> 0)"

record order_form =
  form_side :: nat
  form_type :: nat
  form_price :: val
  form_size :: val
  form_quote :: val
  form_productId :: string
  form_status :: int
  form_error :: string

definition order_request :: "'a order_form_scheme \<Rightarrow> obj" where
  "order_request t =
     [(''productId'', Str (form_productId t)), (''side'', item (Arr [Str ''buy'', Str ''sell'']) (form_side t)),
      (''type'', item (Arr [Str ''market'', Str ''limit'']) (form_type t)), (''price'', form_price t),
      (''size'', form_size t), (''funds'', form_quote t)]"

definition alert :: "int \<Rightarrow> string \<Rightarrow> ('a order_form_scheme, unit) io" where
  "alert status msg = modify (\<lambda>t. t\<lparr>form_status := status, form_error := msg\<rparr>)"

definition error_text :: "js_error \<Rightarrow> string" where
  "error_text e = (case e of TypeError m \<Rightarrow> m | ReferenceError m \<Rightarrow> m | JsError m \<Rightarrow> m)"

text \<open>\<open>submit()\<close>: \<open>post\<close> is the request of the HTTP client, \<open>current\<close> the price of the product. A market order takes
  the current price.\<close>

definition submit_order :: "(string \<Rightarrow> obj \<Rightarrow> ('a order_form_scheme, unit) io) \<Rightarrow> val \<Rightarrow> ('a order_form_scheme, unit) io" where
  "submit_order post current =
     seqio (modify (\<lambda>t. if form_type t = 0 then t\<lparr>form_price := num_val (to_number current)\<rparr> else t))
     (\<lambda>t. (if \<not> js_true (form_size t) \<or> at_most_zero (form_size t) then alert 2 ''Amount must be specified''
        else if form_type t = 1 \<and> (\<not> js_true (form_price t) \<or> at_most_zero (form_price t))
             then alert 2 ''Price must be specified''
        else catchio
          (seqio (post ''/orders'' (order_request t))
            (seqio (alert 1 []) (modify (\<lambda>t. t\<lparr>form_size := Num 0, form_quote := Num 0\<rparr>))))
          (\<lambda>e. alert 2 (error_text e))) t)"

definition tradeSideChange :: "nat \<Rightarrow> val \<Rightarrow> 'a order_form_scheme \<Rightarrow> 'a order_form_scheme" where
  "tradeSideChange side current t =
     t\<lparr>form_side := side, form_price := current, form_size := Undef, form_quote := Undef\<rparr>"

definition tradeTypeChange :: "nat \<Rightarrow> val \<Rightarrow> 'a order_form_scheme \<Rightarrow> 'a order_form_scheme" where
  "tradeTypeChange type current t =
     t\<lparr>form_type := type, form_price := current, form_size := Undef, form_quote := Undef\<rparr>"

definition setTrade :: "nat \<Rightarrow> val \<Rightarrow> val \<Rightarrow> 'a order_form_scheme \<Rightarrow> 'a order_form_scheme" where
  "setTrade side p q t = t\<lparr>form_type := 1, form_side := side, form_price := p, form_size := q\<rparr>"

text \<open>The withdrawal form: \<open>Number(amount <= 0)\<close> is true only of a number that is at most 0. Its \<open>catch\<close> reads
  \<open>error.response.data.message\<close>, but a rejection of the HTTP client is the body of the answer, or an error of the
  connection, and neither has a \<open>response\<close>: the handler throws itself.\<close>

record withdrawal_form =
  w_currency :: string
  w_amount :: val
  w_address :: string
  w_error :: string
  w_loading :: bool

definition submit_withdrawal ::
  "(string \<Rightarrow> obj \<Rightarrow> ('a withdrawal_form_scheme, unit) io) \<Rightarrow> ('a withdrawal_form_scheme, unit) io \<Rightarrow> ('a withdrawal_form_scheme, unit) io" where
  "submit_withdrawal post success = (\<lambda>t.
     (if w_address t = [] then modify (\<lambda>t. t\<lparr>w_error := ''The '' @ w_currency t @ '' address is required''\<rparr>)
      else if at_most_zero (w_amount t) then modify (\<lambda>t. t\<lparr>w_error := ''Please enter amount more than 0''\<rparr>)
      else seqio (modify (\<lambda>t. t\<lparr>w_error := [], w_loading := True\<rparr>))
        (catchio
          (seqio (post (''/wallets/'' @ w_currency t @ ''/withdrawal'')
              [(''amount'', w_amount t), (''cryptoAddress'', Str (w_address t))]) success)
          (\<lambda>_. throw (TypeError ''Cannot read properties of undefined (reading data)'')))) t)"

section \<open>Merging keeps the volume\<close>

definition numeric_size :: "val \<Rightarrow> bool" where
  "numeric_size l \<longleftrightarrow> to_number (item l 1) \<noteq> None"

definition size_of :: "val \<Rightarrow> rat" where
  "size_of l = the (to_number (item l 1))"

definition table_volume :: "merged \<Rightarrow> rat" where
  "table_volume t = sum_list (map (\<lambda>(k, p, q). the q) t)"

definition merged_ok :: "merged \<Rightarrow> bool" where
  "merged_ok t \<longleftrightarrow> distinct (map fst t) \<and> (\<forall>(k, p, q) \<in> set t. q \<noteq> None)"

definition side_volume :: "(rat option \<times> rat option) list \<Rightarrow> rat" where
  "side_volume xs = sum_list (map (\<lambda>(p, q). the q) xs)"

lemma volume_update:
  "distinct (map fst t) \<Longrightarrow> table_volume (AList.update k (p, q) t) =
     table_volume t - (case map_of t k of None \<Rightarrow> 0 | Some e \<Rightarrow> the (snd e)) + the q"
proof (induction t)
  case (Cons e t)
  then show ?case by (cases e) (auto simp: table_volume_def map_of_eq_None_iff split: option.splits)
qed (simp add: table_volume_def)

lemma merge_level_volume:
  assumes "merged_ok t" "numeric_size l" "merge_level scale l (Inr t) = Inr t'"
  shows "merged_ok t' \<and> table_volume t' = table_volume t + size_of l"
proof -
  obtain k where k: "Trade_scalePrice (to_number (item l 0)) scale = Inr k"
    using assms(3) by (auto simp: merge_level_def split: sum.splits)
  obtain x where x: "to_number (item l 1) = Some x" using assms(2) by (auto simp: numeric_size_def)
  obtain p q where pq: "(case map_of t k of None \<Rightarrow> (number_of_string k, Some 0) | Some e \<Rightarrow> e) = (p, q)"
    by fastforce
  have q: "q \<noteq> None" "the q = (case map_of t k of None \<Rightarrow> 0 | Some e \<Rightarrow> the (snd e))"
  proof -
    have "q \<noteq> None \<and> the q = (case map_of t k of None \<Rightarrow> 0 | Some e \<Rightarrow> the (snd e))"
    proof (cases "map_of t k")
      case (Some e)
      with pq have "e = (p, q)" by simp
      with Some assms(1) have "(k, p, q) \<in> set t" by (auto dest: map_of_SomeD)
      with assms(1) Some \<open>e = (p, q)\<close> show ?thesis by (auto simp: merged_ok_def)
    qed (use pq in auto)
    then show "q \<noteq> None" "the q = (case map_of t k of None \<Rightarrow> 0 | Some e \<Rightarrow> the (snd e))" by auto
  qed
  have t': "t' = AList.update k (p, lift2 (+) q (Some x)) t"
    using assms(3) k x pq by (simp add: merge_level_def)
  have "lift2 (+) q (Some x) = Some (the q + x)" using q(1) by (auto simp: lift2_def)
  with t' q x assms(1) volume_update [of t k p "Some (the q + x)"] distinct_update [of t k "(p, Some (the q + x))"]
    set_update_subset [of k "(p, Some (the q + x))" t]
  show ?thesis by (auto simp: merged_ok_def size_of_def)
qed

lemma merge_levels_volume:
  assumes "merged_ok t" "list_all numeric_size ls" "fold (merge_level scale) ls (Inr t) = Inr t'"
  shows "merged_ok t' \<and> table_volume t' = table_volume t + sum_list (map size_of ls)"
  using assms
proof (induction ls arbitrary: t)
  case (Cons l ls)
  show ?case
  proof (cases "merge_level scale l (Inr t)")
    case (Inl e)
    moreover have "fold (merge_level scale) ls (Inl e) = Inl e" by (induction ls) (simp_all add: merge_level_def)
    ultimately show ?thesis using Cons.prems(3) by simp
  next
    case (Inr t1)
    with merge_level_volume [OF Cons.prems(1) _ Inr] Cons.prems Cons.IH [of t1] show ?thesis by simp
  qed
qed simp

lemma own_values_volume: "distinct (map fst t) \<Longrightarrow> side_volume (own_values t) = table_volume t"
proof -
  assume d: "distinct (map fst t)"
  have "side_volume (own_values t) = sum_list (map (\<lambda>k. the (snd (the (map_of t k)))) (own_keys t))"
    by (simp add: side_volume_def own_values_def comp_def case_prod_beta)
  also have "\<dots> = sum_list (map (\<lambda>k. the (snd (the (map_of t k)))) (map fst t))"
  proof -
    have m: "sum_list (map f xs) = sum_mset (image_mset f (mset xs))" for f :: "string \<Rightarrow> rat" and xs
      by (simp flip: sum_mset_sum_list)
    show ?thesis by (simp only: m mset_own_keys)
  qed
  also have "\<dots> = table_volume t"
    unfolding table_volume_def map_map
    by (rule arg_cong [where f = sum_list], rule map_cong) (use d in \<open>auto\<close>)
  finally show ?thesis .
qed

lemma merge_side_volume:
  assumes "list_all numeric_size ls" "merge_side scale ls = Inr xs"
  shows "side_volume xs = sum_list (map size_of ls)"
proof -
  obtain t where t: "fold (merge_level scale) ls (Inr []) = Inr t" "xs = own_values t"
    using assms(2) by (cases "fold (merge_level scale) ls (Inr [])") (auto simp: merge_side_def)
  have "merged_ok []" by (simp add: merged_ok_def)
  from merge_levels_volume [OF this assms(1) t(1)] own_values_volume [of t] t(2) show ?thesis
    by (simp add: merged_ok_def table_volume_def)
qed

lemma fill_side_volume: "side_volume (fill_side sign base scale n xs) = side_volume xs"
proof -
  have "sum_list (map (\<lambda>i. the (snd (filler sign base scale i))) is) = 0" for "is"
    by (induction "is") (simp_all add: filler_def)
  then show ?thesis by (simp add: side_volume_def fill_side_def case_prod_beta comp_def)
qed

text \<open>Merging the order book keeps its volume. On whatever scale the levels are merged, and with however
  many fillers, the sizes shown on each side add up to the sizes of the levels of the book.\<close>

theorem merging_keeps_volume:
  assumes "list_all numeric_size bs" "list_all numeric_size as'"
    and "Trade_margeOrderBook bs as' scale n = Inr (b, a)"
  shows "side_volume b = sum_list (map size_of bs) \<and> side_volume a = sum_list (map size_of as')"
  using assms merge_side_volume [OF assms(1), of scale] merge_side_volume [OF assms(2), of scale]
  by (auto simp: Trade_margeOrderBook_def fill_side_volume split: sum.splits if_splits)

theorem merging_keeps_volume_witness:
  "\<exists>b a. Trade_margeOrderBook [Arr [Num (21 / 2), Num 1], Arr [Str ''10.25'', Str ''3'']] [] 1 0 = Inr (b, a) \<and> side_volume b = 4"
proof -
  let ?bs = "[Arr [Num (21 / 2), Num 1], Arr [Str ''10.25'', Str ''3'']]"
  have n: "list_all numeric_size ?bs" "list_all numeric_size []" by code_simp+
  have "\<exists>b a. Trade_margeOrderBook ?bs [] 1 0 = Inr (b, a)"
    by (simp add: Trade_margeOrderBook_def merge_side_def merge_level_def Trade_scalePrice_def case_prod_beta)
  then obtain b a where "Trade_margeOrderBook ?bs [] 1 0 = Inr (b, a)" by blast
  moreover have "sum_list (map size_of ?bs) = 4" by code_simp
  ultimately show ?thesis using merging_keeps_volume [OF n] by metis
qed

section \<open>Merging by whole numbers turns the bids around\<close>

lemma string_of_nat: "string_of_number (Some (of_nat n)) = show_nat n"
  by (simp add: string_of_number_def string_of_abs_def)

lemma index_nat: "n < 4294967295 \<Longrightarrow> array_index (show_nat n)"
  by (simp add: array_index_def read_show_nat)

definition whole_price :: "rat \<Rightarrow> val \<Rightarrow> bool" where
  "whole_price scale l \<longleftrightarrow> (case to_number (item l 0) of None \<Rightarrow> False
     | Some x \<Rightarrow> 0 \<le> x \<and> js_round (x / scale) * scale < 4294967295)"

definition index_table :: "merged \<Rightarrow> bool" where
  "index_table t \<longleftrightarrow> distinct (map fst t) \<and> (\<forall>(k, p, q) \<in> set t. \<exists>n. k = show_nat n \<and> n < 4294967295 \<and> p = Some (of_nat n))"

lemma number_of_show_nat: "number_of_string (show_nat n) = Some (of_nat n)"
proof -
  have "decimal 20 (of_nat n)" by (simp add: decimal_Ints)
  from number_of_string_of_number [OF this] show ?thesis by (simp add: string_of_nat)
qed

lemma merge_level_index:
  assumes "index_table t" "whole_price (of_nat m) l" "1 \<le> m"
  shows "\<exists>t'. merge_level (of_nat m) l (Inr t) = Inr t' \<and> index_table t'"
proof -
  obtain x where x: "to_number (item l 0) = Some x" "0 \<le> x" "js_round (x / of_nat m) * of_nat m < 4294967295"
    using assms(2) by (auto simp: whole_price_def split: option.splits)
  define n where "n = nat \<lfloor>x / of_nat m + 1 / 2\<rfloor> * m"
  have "0 \<le> x / of_nat m + 1 / 2" using x(2) by simp
  then have r: "js_round (x / of_nat m) * of_nat m = of_nat n" by (simp add: n_def js_round_def)
  have n: "n < 4294967295"
    using x(3) unfolding r by (metis of_nat_less_iff of_nat_numeral)
  have k: "Trade_scalePrice (to_number (item l 0)) (of_nat m) = Inr (show_nat n)"
    using assms(3) x(1) r by (simp add: Trade_scalePrice_def string_of_nat)
  obtain p q where pq: "(case map_of t (show_nat n) of None \<Rightarrow> (number_of_string (show_nat n), Some 0) | Some e \<Rightarrow> e) = (p, q)"
    by fastforce
  have p: "p = Some (of_nat n)"
  proof (cases "map_of t (show_nat n)")
    case None
    with pq show ?thesis by (simp add: number_of_show_nat)
  next
    case (Some e)
    with pq have "(show_nat n, p, q) \<in> set t" by (auto dest: map_of_SomeD)
    with assms(1) obtain n' where "show_nat n = show_nat n'" "p = Some (of_nat n')" by (auto simp: index_table_def)
    then show ?thesis by (metis read_show_nat)
  qed
  let ?t = "AList.update (show_nat n) (p, lift2 (+) q (to_number (item l 1))) t"
  have "merge_level (of_nat m) l (Inr t) = Inr ?t" by (simp add: merge_level_def k pq)
  moreover have "index_table ?t"
    using assms(1) n p distinct_update [of t] set_update_subset [of "show_nat n" "(p, lift2 (+) q (to_number (item l 1)))" t]
    unfolding index_table_def by blast
  ultimately show ?thesis by blast
qed

lemma merge_levels_index:
  assumes "index_table t" "list_all (whole_price (of_nat m)) ls" "1 \<le> m"
  shows "\<exists>t'. fold (merge_level (of_nat m)) ls (Inr t) = Inr t' \<and> index_table t'"
  using assms(1,2)
proof (induction ls arbitrary: t)
  case (Cons l ls)
  then show ?case using merge_level_index [OF Cons.prems(1) _ assms(3), of l] by fastforce
qed simp

lemma index_values_ascend:
  assumes "index_table t"
  shows "sorted_wrt (<) (map (\<lambda>e. the (fst e)) (own_values t))"
proof -
  have i: "list_all array_index (map fst t)" using assms by (auto simp: index_table_def list_all_iff index_nat)
  have e: "filter array_index (map fst t) = map fst t" "filter (\<lambda>k. \<not> array_index k) (map fst t) = []"
    using i by (simp_all add: list_all_iff filter_id_conv filter_empty_conv)
  then have k: "own_keys t = sort_key read_digits (map fst t)" by (simp add: own_keys_def)
  have v: "the (fst (the (map_of t k))) = of_nat (read_digits k)" if "k \<in> set (own_keys t)" for k
  proof -
    have "(k, the (map_of t k)) \<in> set t" using own_key_SomeI [OF that] by (rule map_of_SomeD)
    with assms show ?thesis by (cases "the (map_of t k)") (auto simp: index_table_def read_show_nat)
  qed
  have "map (\<lambda>e. the (fst e)) (own_values t) = map (of_nat \<circ> read_digits) (own_keys t)"
    using v by (simp add: own_values_def)
  moreover have "inj_on read_digits (set (map fst t))"
    by (rule inj_on_inverseI [where g = show_nat]) (use i in \<open>auto simp: list_all_iff array_index_def\<close>)
  then have "distinct (map read_digits (own_keys t))"
    using assms by (simp add: k distinct_map index_table_def)
  then have "sorted_wrt (<) (map read_digits (own_keys t))" by (simp add: k strict_sorted_iff)
  ultimately show ?thesis by (simp add: sorted_wrt_map)
qed

text \<open>Merged by whole numbers, both sides come out by ascending price. Where the scale is a whole number and
  the prices are not negative (and below \<open>2^32 - 1\<close>), the strings of the prices are array indices, which
  \<open>Object.keys\<close> lists in ascending order: the asks keep their order, the bids, best first in the store, are
  turned around, and the panel, which shows the first fifty, shows the worst.\<close>
theorem whole_scale_turns_bids:
  assumes "list_all (whole_price (of_nat m)) bs" "list_all (whole_price (of_nat m)) as'" "1 \<le> m"
  shows "\<exists>b a. Trade_margeOrderBook bs as' (of_nat m) 0 = Inr (b, a) \<and>
    sorted_wrt (<) (map (\<lambda>e. the (fst e)) b) \<and> sorted_wrt (<) (map (\<lambda>e. the (fst e)) a)"
proof -
  have "index_table []" by (simp add: index_table_def)
  from merge_levels_index [OF this assms(1,3)] merge_levels_index [OF this assms(2,3)] obtain tb ta where
    "fold (merge_level (of_nat m)) bs (Inr []) = Inr tb" "index_table tb"
    "fold (merge_level (of_nat m)) as' (Inr []) = Inr ta" "index_table ta" by blast
  then show ?thesis by (simp add: Trade_margeOrderBook_def merge_side_def index_values_ascend)
qed

theorem whole_scale_turns_bids_witness:
  "\<exists>b a. Trade_margeOrderBook [Arr [Num 101, Num 1], Arr [Num 100, Num 3]] [] (of_nat 1) 0 = Inr (b, a) \<and>
    sorted_wrt (<) (map (\<lambda>e. the (fst e)) b)"
proof -
  have "list_all (whole_price (of_nat 1)) [Arr [Num 101, Num 1], Arr [Num 100, Num 3]]" "list_all (whole_price (of_nat 1)) []"
    by code_simp+
  from whole_scale_turns_bids [OF this] show ?thesis by auto
qed

section \<open>What the forms send\<close>

text \<open>Only filled-in orders are sent. The order form sends a request exactly when a size that is not at most
  0 is given and, for a limit order, such a price; a market order carries the current price. Otherwise the
  form only shows what is missing. A text that is no number passes both checks. (\<open>post\<close> is traced by a form that records what it is given.)\<close>

record traced_form = order_form +
  posted :: "(string \<times> obj) list"

definition trace_post :: "string \<Rightarrow> obj \<Rightarrow> (traced_form, unit) io" where
  "trace_post url body = modify (\<lambda>t. t\<lparr>posted := posted t @ [(url, body)]\<rparr>)"

definition positive :: "val \<Rightarrow> bool" where
  "positive v \<longleftrightarrow> js_true v \<and> \<not> at_most_zero v"

definition order_complete :: "'a order_form_scheme \<Rightarrow> bool" where
  "order_complete t = (positive (form_size t) \<and> (if form_type t = 1 then positive (form_price t) else True))"

theorem orders_need_size_and_price:
  fixes t :: traced_form and current :: val
  defines "t1 \<equiv> (if form_type t = 0 then t\<lparr>form_price := num_val (to_number current)\<rparr> else t)"
  defines "t' \<equiv> snd (submit_order trace_post current t)"
  shows "posted t' = (if order_complete t then posted t @ [(''/orders'', order_request t1)] else posted t) \<and>
    form_status t' = (if order_complete t then 1 else 2)"
  unfolding t'_def t1_def submit_order_def trace_post_def alert_def positive_def order_complete_def
  by (auto simp: modify_def io_defs)

text \<open>A withdrawal that is turned down leaves the form loading for ever, without a message: the handler of the
  rejection throws before it stores either.\<close>

theorem rejected_withdrawal_hangs:
  assumes "w_address t \<noteq> []" and "\<not> at_most_zero (w_amount t)"
    and "\<And>url body u. snd (post url body u) = u"
    and "\<exists>e. fst (post (''/wallets/'' @ w_currency t @ ''/withdrawal'')
      [(''amount'', w_amount t), (''cryptoAddress'', Str (w_address t))] (t\<lparr>w_error := [], w_loading := True\<rparr>)) = Inl e"
  shows "snd (submit_withdrawal post success t) = t\<lparr>w_error := [], w_loading := True\<rparr>"
proof -
  let ?t = "t\<lparr>w_error := [], w_loading := True\<rparr>"
  let ?b = "[(''amount'', w_amount t), (''cryptoAddress'', Str (w_address t))]"
  from assms(3,4) obtain e where "post (''/wallets/'' @ w_currency t @ ''/withdrawal'') ?b ?t = (Inl e, ?t)"
    by (metis prod.collapse)
  then show ?thesis using assms(1,2) by (simp add: submit_withdrawal_def modify_def io_defs)
qed

text \<open>A form without an amount, which passes the check on it, is rejected by the server.\<close>

lemma rejected_withdrawal_hangs_witness:
  "snd (submit_withdrawal (\<lambda>_ _. throw (JsError ''amount is required'')) (ret ())
      \<lparr>w_currency = ''BTC'', w_amount = Undef, w_address = ''bc1'', w_error = [], w_loading = False\<rparr>) =
    \<lparr>w_currency = ''BTC'', w_amount = Undef, w_address = ''bc1'', w_error = [], w_loading = True\<rparr>"
  using rejected_withdrawal_hangs [of "\<lparr>w_currency = ''BTC'', w_amount = Undef, w_address = ''bc1'', w_error = [], w_loading = False\<rparr>"
      "\<lambda>_ _. throw (JsError ''amount is required'')" "ret ()"]
  by (simp add: at_most_zero_def throw_def)

end
