(* ===== verification/Socket_Props.thy ===== *)
theory Socket_Props
  imports Trade_History
begin

text \<open>
  The connection of the exchange client: what it re-establishes after a loss, and what a slow connection does
  to the messages of the feed.
\<close>

definition resubscription :: "obj \<Rightarrow> obj" where
  "resubscription c = put ''type'' (Str ''subscribe'') (put ''channels'' (Arr [get ''name'' c]) c)"

lemma remember_Obj: "remember (Obj c) s = (Inr (), s\<lparr>subscribes := subscribes s @ [resubscription c]\<rparr>)"
  by (simp add: remember_def modify_def resubscription_def)

lemma foreach_remember:
  "foreach (map Obj cs) remember s = (Inr (), s\<lparr>subscribes := subscribes s @ map resubscription cs\<rparr>)"
  for s :: "'a socket_state_scheme"
proof (induction cs arbitrary: s)
  case (Cons c cs)
  then show ?case by (simp add: remember_Obj seqio_def bindio_def)
qed (simp add: ret_def)

lemma foreach_subscribe:
  fixes s :: "'a socket_state_scheme"
  assumes "ws s = Some n" "sockets s ! n = OPEN"
  shows "foreach ds subscribe s = (Inr (), s\<lparr>wire := wire s @ map (\<lambda>d. (n, with_token (token s) d)) ds\<rparr>)"
  using assms
proof (induction ds arbitrary: s)
  case (Cons d ds)
  then show ?case by (simp add: subscribe_def ws_send_def io_defs)
qed (simp add: ret_def)

lemma onopen_resubscribes:
  fixes s :: "'a socket_state_scheme"
  assumes "ws s = Some n" "sockets s ! n = OPEN" "\<not> onOpen s"
  shows "onopen callback s = (Inr (), s\<lparr>subscribes := [], ws_closed := False,
     wire := wire s @ map (\<lambda>d. (n, with_token (token s) d)) (subscribes s)\<rparr>)"
proof (cases "subscribes s")
  case Nil
  with assms(3) show ?thesis by (simp add: onopen_def modify_def io_defs)
next
  case (Cons d ds)
  with assms foreach_subscribe [of "s\<lparr>ws_closed := False\<rparr>" n "subscribes s"] show ?thesis
    by (simp add: onopen_def modify_def io_defs)
qed

lemma parse_subscriptions: "get ''type'' msg = Str ''subscriptions'' \<Longrightarrow> parseWebSocketMessage moment msg = ret ()"
  by (simp add: parseWebSocketMessage_def)

text \<open>C19: a lost connection is restored with its subscriptions. After the server has confirmed its channels and
  the socket is lost, the next tick of the timer opens a new socket, and once that is open exactly the
  confirmed channels are subscribed through it, in order and with the current token; nothing is left to
  send, and the callback of the first connection does not run again.\<close>

theorem reconnect_resubscribes:
  fixes moment :: "val \<Rightarrow> string \<Rightarrow> string" and callback :: "unit store"
  assumes "ws s = Some n" "n < length (sockets s)" "sockets s ! n = OPEN" "\<not> onOpen s"
    and "get ''type'' msg = Str ''subscriptions''" "get ''channels'' msg = Arr (map Obj cs)"
  defines "k \<equiv> length (sockets s)"
  defines "s' \<equiv> app_run moment callback [Received n msg, Closed n, Timer, Opened k] s"
  shows "ws s' = Some k \<and> sockets s' ! k = OPEN \<and> subscribes s' = [] \<and>
    wire s' = wire s @ map (\<lambda>c. (k, with_token (token s) (resubscription c))) cs"
proof -
  let ?s1 = "s\<lparr>subscribes := map resubscription cs\<rparr>"
  have 1: "ws_step (app_open callback) (parseWebSocketMessage moment) (Received n msg) s = ?s1"
    using assms(2,3) foreach_remember [of cs "s\<lparr>subscribes := []\<rparr>"]
    by (simp add: ws_step_def reported_def onmessage_def parse_subscriptions [OF assms(5)] assms(5,6) elements_def
        modify_def io_defs)
  let ?s2 = "?s1\<lparr>sockets := (sockets s)[n := CLOSED], ws_closed := True\<rparr>"
  have 2: "ws_step (app_open callback) (parseWebSocketMessage moment) (Closed n) ?s1 = ?s2"
    using assms(2,3) by (simp add: ws_step_def reported_def onclose_def modify_def)
  let ?s3 = "?s2\<lparr>sockets := (sockets s)[n := CLOSED] @ [CONNECTING], ws := Some k\<rparr>"
  have 3: "ws_step (app_open callback) (parseWebSocketMessage moment) Timer ?s2 = ?s3"
    using assms(1,2) by (simp add: ws_step_def reported_def interval_def ws_connect_def modify_def k_def)
  let ?s4 = "?s3\<lparr>sockets := (sockets s)[n := CLOSED] @ [OPEN]\<rparr>"
  have o: "sockets ?s4 ! k = OPEN" by (simp add: k_def nth_append)
  have "ws_step (app_open callback) (parseWebSocketMessage moment) (Opened k) ?s3 = snd (onopen (app_open callback) ?s4)"
    by (simp add: ws_step_def reported_def k_def nth_append list_update_append)
  then have 4: "s' = snd (onopen (app_open callback) ?s4)"
    by (simp only: s'_def app_run_def ws_run_def fold_simps 1 2 3)
  have "onopen (app_open callback) ?s4 = (Inr (), ?s4\<lparr>subscribes := [], ws_closed := False,
     wire := wire ?s4 @ map (\<lambda>d. (k, with_token (token ?s4) d)) (subscribes ?s4)\<rparr>)"
    by (rule onopen_resubscribes) (use assms(4) o in \<open>simp_all\<close>)
  with 4 o show ?thesis by (simp add: comp_def)
qed

text \<open>A store whose socket is open.\<close>

definition connected_store :: trade_state where
  "connected_store = demo_store\<lparr>sockets := [OPEN], ws := Some 0, token := Str ''t''\<rparr>"

theorem reconnect_resubscribes_witness:
  "wire (app_run demo_moment (ret ())
     [Received 0 [(''type'', Str ''subscriptions''), (''channels'', Arr (map Obj [[(''name'', Str ''ticker'')]]))],
      Closed 0, Timer, Opened (length (sockets connected_store))] connected_store) =
   [(1, [(''name'', Str ''ticker''), (''channels'', Arr [Str ''ticker'']), (''type'', Str ''subscribe''),
         (''token'', Str ''t'')])]"
proof -
  have c: "ws connected_store = Some 0" "0 < length (sockets connected_store)" "sockets connected_store ! 0 = OPEN"
    "\<not> onOpen connected_store"
    by (simp_all add: connected_store_def demo_store_def initial_store_def)
  from reconnect_resubscribes [OF c, of "[(''type'', Str ''subscriptions''), (''channels'', Arr (map Obj [[(''name'', Str ''ticker'')]]))]"
      "[[(''name'', Str ''ticker'')]]" demo_moment "ret ()"]
  show ?thesis
    by (simp add: resubscription_def with_token_def) (simp add: connected_store_def demo_store_def initial_store_def)
qed

section \<open>Slow connections\<close>

lemma onopen_connecting:
  fixes s :: "'a socket_state_scheme"
  assumes "ws s = Some k" "sockets s ! k = CONNECTING" "\<not> onOpen s"
  shows "snd (onopen callback s) = s\<lparr>ws_closed := False\<rparr>"
proof (cases "subscribes s")
  case Nil
  with assms show ?thesis by (simp add: onopen_def modify_def io_defs)
next
  case (Cons d ds)
  with assms show ?thesis
    by (simp add: onopen_def modify_def io_defs subscribe_def ws_send_def)
qed

text \<open>A slow connection subscribes once. When the timer finds the socket still connecting it opens a second
  one, which becomes the current one, and the handlers of both stay attached. In whichever order the two
  open, every remembered channel is subscribed exactly once, in order, through the newer socket: the handler
  of the older one fails at its first \<open>send\<close> and leaves the list, or finds it empty.\<close>

theorem slow_connection_subscribes_once:
  fixes moment :: "val \<Rightarrow> string \<Rightarrow> string" and callback :: "unit store"
  assumes "ws s = Some n" "n < length (sockets s)" "sockets s ! n = CONNECTING" "\<not> onOpen s"
    and "opens = [Opened n, Opened (length (sockets s))] \<or> opens = [Opened (length (sockets s)), Opened n]"
  defines "k \<equiv> length (sockets s)"
  defines "s' \<equiv> app_run moment callback (Timer # opens) s"
  shows "ws s' = Some k \<and> subscribes s' = [] \<and>
    wire s' = wire s @ map (\<lambda>d. (k, with_token (token s) d)) (subscribes s)"
proof -
  let ?step = "ws_step (app_open callback) (parseWebSocketMessage moment)"
  let ?s1 = "s\<lparr>sockets := sockets s @ [CONNECTING], ws := Some k\<rparr>"
  let ?ds = "map (\<lambda>d. (k, with_token (token s) d)) (subscribes s)"
  have 1: "?step Timer s = ?s1"
    using assms(1,2,3) by (simp add: ws_step_def reported_def interval_def ws_connect_def modify_def k_def)
  show ?thesis
  proof (cases "opens = [Opened n, Opened k]")
    case True
    let ?s2 = "?s1\<lparr>sockets := (sockets s)[n := OPEN] @ [CONNECTING], ws_closed := False\<rparr>"
    have 2: "?step (Opened n) ?s1 = ?s2"
      using assms(2,3,4) onopen_connecting [of "?s1\<lparr>sockets := (sockets s)[n := OPEN] @ [CONNECTING]\<rparr>" k]
      by (simp add: ws_step_def reported_def k_def nth_append list_update_append)
    let ?s3 = "?s2\<lparr>sockets := (sockets s)[n := OPEN] @ [OPEN]\<rparr>"
    have 3: "?step (Opened k) ?s2 = ?s3\<lparr>subscribes := [], ws_closed := False, wire := wire s @ ?ds\<rparr>"
      using assms(4) onopen_resubscribes [of ?s3 k]
      by (simp add: ws_step_def reported_def k_def nth_append list_update_append)
    have "s' = ?s3\<lparr>subscribes := [], ws_closed := False, wire := wire s @ ?ds\<rparr>"
      by (simp only: s'_def app_run_def ws_run_def True fold_simps 1 2 3)
    then show ?thesis by simp
  next
    case False
    with assms(5) have o: "opens = [Opened k, Opened n]" by (simp add: k_def)
    let ?s2 = "?s1\<lparr>sockets := sockets s @ [OPEN]\<rparr>"
    let ?s3 = "?s2\<lparr>subscribes := [], ws_closed := False, wire := wire s @ ?ds\<rparr>"
    have 2: "?step (Opened k) ?s1 = ?s3"
      using assms(4) onopen_resubscribes [of ?s2 k]
      by (simp add: ws_step_def reported_def k_def nth_append list_update_append)
    have 3: "?step (Opened n) ?s3 = ?s3\<lparr>sockets := (sockets s)[n := OPEN] @ [OPEN]\<rparr>"
      using assms(2,3,4) onopen_resubscribes [of "?s3\<lparr>sockets := (sockets s)[n := OPEN] @ [OPEN]\<rparr>" k]
      by (simp add: ws_step_def reported_def k_def nth_append list_update_append)
    have "s' = ?s3\<lparr>sockets := (sockets s)[n := OPEN] @ [OPEN]\<rparr>"
      by (simp only: s'_def app_run_def ws_run_def o fold_simps 1 2 3)
    then show ?thesis by simp
  qed
qed

theorem slow_connection_subscribes_once_witness:
  "wire (app_run demo_moment (ret ()) (Timer # [Opened 0, Opened (length (sockets (demo_store\<lparr>sockets := [CONNECTING],
     ws := Some 0, subscribes := [[(''name'', Str ''ticker'')]]\<rparr>)))])
     (demo_store\<lparr>sockets := [CONNECTING], ws := Some 0, subscribes := [[(''name'', Str ''ticker'')]]\<rparr>)) =
   [(1, [(''name'', Str ''ticker''), (''token'', Str [])])]"
proof -
  let ?s = "demo_store\<lparr>sockets := [CONNECTING], ws := Some 0, subscribes := [[(''name'', Str ''ticker'')]]\<rparr>"
  have c: "ws ?s = Some 0" "0 < length (sockets ?s)" "sockets ?s ! 0 = CONNECTING" "\<not> onOpen ?s"
    by (simp_all add: demo_store_def initial_store_def)
  show ?thesis
    using slow_connection_subscribes_once [OF c, of "[Opened 0, Opened (length (sockets ?s))]" demo_moment "ret ()"]
    by (simp add: with_token_def) (simp add: demo_store_def initial_store_def)
qed

end
