(* ===== verification/Exchange_Account.thy ===== *)
theory Exchange_Account
  imports Socket_Props
begin

text \<open>
  The HTTP client and the account of the exchange client: \<open>service/request.ts\<close>, \<open>service/account.ts\<close>,
  \<open>service/order.ts\<close>, \<open>service/trade.ts\<close> and \<open>store/account.ts\<close>. The browser (\<open>localStorage\<close>, the address
  of the page) is part of the state, the server is the parameter \<open>serve\<close>.
\<close>

record http_response =
  resp_status :: int
  resp_data :: val
  resp_headers :: obj

record http_request =
  req_method :: string
  req_url :: string
  req_data :: val
  req_headers :: obj

record client =
  trade :: trade_state
  localStorage :: "string \<Rightarrow> string option"
  location :: string
  userInfo :: obj
  requests :: "http_request list"

type_synonym 'a action = "(client, 'a) io"

definition on_trade :: "'a store \<Rightarrow> 'a action" where
  "on_trade m = (\<lambda>c. case m (trade c) of (r, s) \<Rightarrow> (r, c\<lparr>trade := s\<rparr>))"

section \<open>request.ts\<close>

text \<open>The interceptors: a relative address goes to \<open>/api\<close>; a status below 300 gives the data, or the whole response
  where the caller asked for it; 401 sends the browser to the sign-in page and resolves with \<open>undefined\<close>;
  everything else rejects with the data.\<close>

definition on_request :: "http_request \<Rightarrow> http_request" where
  "on_request r = (if prefix ''http'' (req_url r) then r else r\<lparr>req_url := ''/api'' @ req_url r\<rparr>)"

definition response_val :: "http_response \<Rightarrow> val" where
  "response_val r = Obj [(''status'', Num (of_int (resp_status r))), (''data'', resp_data r), (''headers'', Obj (resp_headers r))]"

definition rejection :: "val \<Rightarrow> js_error" where
  "rejection v = JsError (js_string (get ''message'' (entries v)))"

definition on_http_response :: "http_request \<Rightarrow> http_response \<Rightarrow> val action" where
  "on_http_response q r =
     (if resp_status r < 300 then
        ret (if truthy_val (get ''ResponseAll'' (req_headers q)) then response_val r else resp_data r)
      else if resp_status r = 401 then
        seqio (modify (\<lambda>c. c\<lparr>location := ''/account/signin''\<rparr>)) (ret Undef)
      else throw (rejection (resp_data r)))"

definition issue :: "http_request \<Rightarrow> unit action" where
  "issue q = modify (\<lambda>c. c\<lparr>requests := requests c @ [on_request q]\<rparr>)"

definition send_request :: "(http_request \<Rightarrow> http_response) \<Rightarrow> http_request \<Rightarrow> val action" where
  "send_request serve q = seqio (issue q) (on_http_response q (serve (on_request q)))"

definition http_get :: "string \<Rightarrow> http_request" where
  "http_get url = \<lparr>req_method = ''get'', req_url = url, req_data = Undef, req_headers = []\<rparr>"

definition http_post :: "string \<Rightarrow> obj \<Rightarrow> http_request" where
  "http_post url data = \<lparr>req_method = ''post'', req_url = url, req_data = Obj data, req_headers = []\<rparr>"

definition http_delete :: "string \<Rightarrow> http_request" where
  "http_delete url = \<lparr>req_method = ''delete'', req_url = url, req_data = Undef, req_headers = []\<rparr>"

section \<open>The services\<close>

definition signup_request :: "obj \<Rightarrow> http_request" where
  "signup_request account = http_post ''/users'' account"

definition signin_request :: "string \<Rightarrow> string \<Rightarrow> http_request" where
  "signin_request email password = http_post ''/users/accessToken'' [(''email'', Str email), (''password'', Str password)]"

definition signOut_request :: http_request where
  "signOut_request = http_delete ''/users/accessToken''"

definition current_request :: http_request where
  "current_request = (http_get ''/users/self'')\<lparr>req_headers := [(''HideAuthError'', Bool True)]\<rparr>"

definition getFunds_request :: "string list \<Rightarrow> http_request" where
  "getFunds_request currencies = http_get (''/accounts?'' @ join_query (map (\<lambda>c. ''currency='' @ c) currencies))"

definition getDepositAddress_request :: "string \<Rightarrow> http_request" where
  "getDepositAddress_request currency = http_get (''/wallets/'' @ currency @ ''/address'')"

definition postWithdrawal_request :: "string \<Rightarrow> val \<Rightarrow> val \<Rightarrow> http_request" where
  "postWithdrawal_request currency amount address =
     http_post (''/wallets/'' @ currency @ ''/withdrawal'') [(''amount'', amount), (''cryptoAddress'', address)]"

definition getTransactions_request :: "string \<Rightarrow> http_request" where
  "getTransactions_request currency = http_get (''/wallets/'' @ currency @ ''/transactions'')"

definition changePassword_request :: "string \<Rightarrow> string \<Rightarrow> http_request" where
  "changePassword_request old new = http_post ''/users/password'' [(''oldPassword'', Str old), (''newPassword'', Str new)]"

definition sendEmailVerifyCode_request :: "string \<Rightarrow> http_request" where
  "sendEmailVerifyCode_request email = http_post ''/verifyCodes/restPassword'' [(''email'', Str email)]"

definition resetPassword_request :: "obj \<Rightarrow> http_request" where
  "resetPassword_request pwd = http_post ''/users/password/reset'' pwd"

definition saveNickname_request :: "string \<Rightarrow> http_request" where
  "saveNickname_request nickname = http_post ''/users/name'' [(''name'', Str nickname)]"

definition saveAvatar_request :: "string \<Rightarrow> http_request" where
  "saveAvatar_request avatar = http_post ''/users/profilePhoto'' [(''profilePhotoUrl'', Str avatar)]"

text \<open>\<open>getOrders\<close> ignores its limit: the query says 30.\<close>

definition getOrders_request :: "string \<Rightarrow> nat \<Rightarrow> string list \<Rightarrow> (string \<times> string) list \<Rightarrow> http_request" where
  "getOrders_request productId limit status pagination =
     (http_get (''/orders?productId='' @ productId @ ''&limit=30&'' @
       join_query (map (\<lambda>s. ''status='' @ s) status @ map (\<lambda>k. k @ ''='' @ the (map_of pagination k)) (own_keys pagination))))
     \<lparr>req_headers := [(''ResponseAll'', Bool True)]\<rparr>"

definition cancelOrder_request :: "string \<Rightarrow> http_request" where
  "cancelOrder_request orderId = http_delete (''/orders/'' @ orderId)"

definition cancelAll_request :: "string \<Rightarrow> http_request" where
  "cancelAll_request productId = http_delete (''/orders?productId='' @ productId)"

definition getProducts_request :: http_request where
  "getProducts_request = http_get ''/products''"

definition getProductHistory_request :: "string \<Rightarrow> nat \<Rightarrow> http_request" where
  "getProductHistory_request productId granularity =
     http_get (''/products/'' @ productId @ ''/candles?granularity='' @ show_nat granularity)"

definition getProductTradeHistory_request :: "string \<Rightarrow> http_request" where
  "getProductTradeHistory_request productId = http_get (''/products/'' @ productId @ ''/trades'')"

section \<open>The account\<close>

definition saveToken :: "string \<Rightarrow> unit action" where
  "saveToken t = modify (\<lambda>c. c\<lparr>localStorage := (localStorage c)(''access-token'' \<mapsto> t)\<rparr>)"

definition clearToken :: "unit action" where
  "clearToken = modify (\<lambda>c. c\<lparr>localStorage := (localStorage c)(''access-token'' := None)\<rparr>)"

definition getToken :: "client \<Rightarrow> val" where
  "getToken c = (case localStorage c ''access-token'' of None \<Rightarrow> Null | Some t \<Rightarrow> Str t)"

definition setUserInfo :: "obj \<Rightarrow> unit action" where
  "setUserInfo info = modify (\<lambda>c. c\<lparr>userInfo := info\<rparr>)"

definition logined :: "client \<Rightarrow> bool" where
  "logined c = truthy_val (get ''userId'' (userInfo c))"

text \<open>\<open>current(callback)\<close>: an error in the first callback leads to a second call of it.\<close>

definition account_current :: "(http_request \<Rightarrow> http_response) \<Rightarrow> unit action \<Rightarrow> unit action" where
  "account_current serve callback =
     catchio
       (bindio (send_request serve current_request) (\<lambda>response.
        bindio (lift (member response ''name'')) (\<lambda>nickname.
        seqio (setUserInfo [(''nickname'', nickname), (''userId'', get ''id'' (entries response)),
                 (''avatar'', get ''profilePhoto'' (entries response))])
        (seqio (\<lambda>c. on_trade (modify (\<lambda>s. s\<lparr>token := getToken c\<rparr>)) c) callback))))
       (\<lambda>_. callback)"

definition signOut :: "unit action" where
  "signOut =
     seqio (issue signOut_request)
     (seqio clearToken
     (seqio (on_trade clearUserTrades)
     (setUserInfo [(''nickname'', Str []), (''userId'', Num 0)])))"

definition save_user_field :: "(http_request \<Rightarrow> http_response) \<Rightarrow> http_request \<Rightarrow> string \<Rightarrow> string \<Rightarrow> val action" where
  "save_user_field serve q field new =
     bindio (send_request serve q) (\<lambda>response.
     seqio (\<lambda>c. setUserInfo (spread (userInfo c) [(field, Str new)]) c) (ret response))"

definition saveAvatar :: "(http_request \<Rightarrow> http_response) \<Rightarrow> string \<Rightarrow> val action" where
  "saveAvatar serve url = save_user_field serve (saveAvatar_request url) ''avatar'' url"

definition saveNickname :: "(http_request \<Rightarrow> http_response) \<Rightarrow> string \<Rightarrow> val action" where
  "saveNickname serve nickname = save_user_field serve (saveNickname_request nickname) ''nickname'' nickname"

section \<open>Signing out\<close>

lemma leaves_foreach_state: "(\<And>x. leaves f (g x)) \<Longrightarrow> leaves f (\<lambda>s. foreach (xs s) g s)"
  using leaves_foreach [of _ f g] by (simp add: leaves_def)

lemma token_clearUserTrades: "leaves token clearUserTrades"
proof -
  have "leaves token (setOpenOrders p xs)" for p xs
    unfolding setOpenOrders_def by (intro leaves_change_object) (simp add: put_object_def)
  moreover have "leaves token (unsubscribe ps cs)" for ps cs
    by (simp add: leaves_def unsubscribe_def subscribe_def ws_send_def split: option.splits ready.splits)
  ultimately show ?thesis
    unfolding clearUserTrades_def by (intro leaves_foreach_state leaves_seq)
qed

lemma signOut_steps:
  "snd (signOut c) = (let c1 = c\<lparr>requests := requests c @ [on_request signOut_request],
       localStorage := (localStorage c)(''access-token'' := None)\<rparr> in
     (case clearUserTrades (trade c) of
        (Inl e, s) \<Rightarrow> c1\<lparr>trade := s\<rparr>
      | (Inr _, s) \<Rightarrow> c1\<lparr>trade := s, userInfo := [(''nickname'', Str []), (''userId'', Num 0)]\<rparr>))"
  by (simp add: signOut_def issue_def clearToken_def on_trade_def setUserInfo_def modify_def io_defs Let_def
      split: prod.splits sum.splits)

text \<open>Signing out leaves the token with the socket. The stored token is removed, the server is told, and
  the user counts as signed out exactly if the cancelling of the subscriptions succeeded: while the socket is
  still connecting it throws for the first product, and the page goes on showing the user as signed in. In
  every case the socket leaves the token, and whatever it subscribes next is sent with it.\<close>

theorem sign_out_keeps_socket_token:
  fixes c :: client
  defines "c' \<equiv> snd (signOut c)"
  shows "localStorage c' ''access-token'' = None \<and> token (trade c') = token (trade c) \<and>
    last (requests c') = on_request signOut_request \<and>
    userInfo c' = (case fst (clearUserTrades (trade c)) of Inl e \<Rightarrow> userInfo c
      | Inr _ \<Rightarrow> [(''nickname'', Str []), (''userId'', Num 0)])"
proof -
  obtain r s where r: "clearUserTrades (trade c) = (r, s)" by fastforce
  have "token s = token (trade c)" by (rule leavesD [OF token_clearUserTrades r])
  with r show ?thesis unfolding c'_def signOut_steps by (cases r) (simp_all add: Let_def)
qed

text \<open>While the socket is connecting, signing out does not sign out. With at least one product on show, the
  request and the stored token go, but the user information stays and \<open>logined\<close> is what it was.\<close>

theorem sign_out_while_connecting:
  assumes "products (trade c) = a # ps" "trades_of (trade c) (product_id (trade c) a) \<noteq> None"
    and "ws (trade c) = Some n" "sockets (trade c) ! n = CONNECTING"
  shows "userInfo (snd (signOut c)) = userInfo c \<and> logined (snd (signOut c)) = logined c"
proof -
  let ?p = "product_id (trade c) a"
  obtain x where x: "getObject ?p (trade c) = (Inr x, trade c)" using assms(2) getObject_trades by blast
  have "\<exists>e s. clearUserTrades (trade c) = (Inl e, s)"
    using x assms(1,3,4)
    by (simp add: clearUserTrades_def setOpenOrders_def change_object_def modify_def put_object_def unsubscribe_def
        subscribe_def ws_send_def io_defs)
  then obtain e s where "clearUserTrades (trade c) = (Inl e, s)" by blast
  then show ?thesis by (simp add: signOut_steps Let_def logined_def)
qed

definition demo_client :: client where
  "demo_client = \<lparr>trade = demo_store\<lparr>sockets := [CONNECTING], ws := Some 0\<rparr>, localStorage = [''access-token'' \<mapsto> ''t''],
     location = ''/'', userInfo = [(''nickname'', Str ''u''), (''userId'', Num 7)], requests = []\<rparr>"

theorem sign_out_while_connecting_witness: "logined (snd (signOut demo_client))"
proof -
  have "products (trade demo_client) = 0 # []" "ws (trade demo_client) = Some 0" "sockets (trade demo_client) ! 0 = CONNECTING"
    by (simp_all add: demo_client_def demo_store_def)
  moreover have "trades_of (trade demo_client) (product_id (trade demo_client) 0) \<noteq> None"
    by (simp add: demo_client_def trades_of_def product_id_def demo_store_def)
  ultimately have "logined (snd (signOut demo_client)) = logined demo_client"
    using sign_out_while_connecting by blast
  then show ?thesis by (simp add: logined_def demo_client_def)
qed

end
