(* ===== verification/Stake_Watch.thy ===== *)
theory Stake_Watch
  imports Js_Prelude
begin

text \<open>
  The listener for the events of the staking contract, \<open>contracts-interaction-ts/src/watchMyStake.ts\<close>.
  Providers are numbered in the order of their creation. Each is asked for its block number once, by
  \<open>initialize\<close>: \<open>reach n\<close> says whether provider \<open>n\<close> answers.
\<close>

section \<open>State\<close>

datatype event_type = Staked | Withdrawn | All

record watch_config =
  userAddress :: "string option"
  eventType :: event_type

datatype event_filter = Staked_Filter "string option" | Withdrawn_Filter "string option"

record listener =
  config :: watch_config
  providers :: nat
  provider :: "nat option"
  contract :: "nat option"
  stakingFilter :: event_filter
  withdrawnFilter :: event_filter
  listeners :: "(nat \<times> event_filter) list"
  error_handlers :: "nat list"
  isRunning :: bool
  reconnectAttempts :: nat
  sigint :: bool

definition MAX_RECONNECT_ATTEMPTS :: nat where
  "MAX_RECONNECT_ATTEMPTS = 10"

text \<open>\<open>new StakingEventListener(config)\<close>: an absent event type means all events.\<close>

definition new_listener :: "string option \<Rightarrow> event_type option \<Rightarrow> listener" where
  "new_listener user type = \<lparr>config = \<lparr>userAddress = user, eventType = (case type of None \<Rightarrow> All | Some t \<Rightarrow> t)\<rparr>,
     providers = 0, provider = None, contract = None, stakingFilter = Staked_Filter None, withdrawnFilter = Withdrawn_Filter None,
     listeners = [], error_handlers = [], isRunning = False, reconnectAttempts = 0, sigint = False\<rparr>"

section \<open>Operations\<close>

definition update :: "('w \<Rightarrow> 'w) \<Rightarrow> ('w, unit) io" where
  "update f = (\<lambda>w. (Inr (), f w))"

text \<open>An empty user address filters nothing.\<close>

definition user_filter :: "watch_config \<Rightarrow> string option" where
  "user_filter c = (if truthy (userAddress c) then userAddress c else None)"

definition initialize :: "(nat \<Rightarrow> bool) \<Rightarrow> (listener, unit) io" where
  "initialize reach = (\<lambda>l.
     let n = providers l; u = user_filter (config l);
         l' = l\<lparr>providers := n + 1, provider := Some n, contract := Some n,
                stakingFilter := Staked_Filter u, withdrawnFilter := Withdrawn_Filter u\<rparr> in
     if reach n then (Inr (), l') else (Inl (JsError ''could not detect network''), l'))"

definition startListening :: "(listener, unit) io" where
  "startListening = (\<lambda>l. case contract l of
     None \<Rightarrow> (Inl (JsError ''contract not initialized''), l)
   | Some c \<Rightarrow>
       (let s = [(c, stakingFilter l)]; w = [(c, withdrawnFilter l)] in
        (Inr (), l\<lparr>listeners := listeners l @ (case eventType (config l) of
            Staked \<Rightarrow> s | Withdrawn \<Rightarrow> w | All \<Rightarrow> s @ w), reconnectAttempts := 0\<rparr>)))"

definition stopListening :: "(listener, unit) io" where
  "stopListening = update (\<lambda>l. case contract l of None \<Rightarrow> l
     | Some c \<Rightarrow> l\<lparr>listeners := filter (\<lambda>(d, _). d \<noteq> c) (listeners l)\<rparr>)"

text \<open>\<open>handleError\<close> calls itself when a reconnection fails, as long as fewer than ten attempts have been made.
  \<open>reconnect n\<close> is that recursion with \<open>n\<close> attempts left (\<open>handleError_step\<close> below is the code's form).\<close>

primrec reconnect :: "(nat \<Rightarrow> bool) \<Rightarrow> nat \<Rightarrow> (listener, unit) io" where
  "reconnect reach 0 = update (\<lambda>l. l\<lparr>isRunning := False\<rparr>)"
| "reconnect reach (Suc n) =
     seqio (update (\<lambda>l. l\<lparr>reconnectAttempts := reconnectAttempts l + 1\<rparr>))
     (seqio stopListening
     (catchio (seqio (initialize reach) startListening) (\<lambda>_. reconnect reach n)))"

definition handleError :: "(nat \<Rightarrow> bool) \<Rightarrow> (listener, unit) io" where
  "handleError reach = (\<lambda>l. reconnect reach (MAX_RECONNECT_ATTEMPTS - reconnectAttempts l) l)"

definition watch_provider :: "(listener, unit) io" where
  "watch_provider = update (\<lambda>l. case provider l of None \<Rightarrow> l | Some n \<Rightarrow> l\<lparr>error_handlers := error_handlers l @ [n]\<rparr>)"

definition start_watch :: "(nat \<Rightarrow> bool) \<Rightarrow> (listener, unit) io" where
  "start_watch reach =
     seqio (update (\<lambda>l. l\<lparr>isRunning := True\<rparr>))
     (catchio
       (seqio (initialize reach) (seqio startListening (seqio watch_provider (update (\<lambda>l. l\<lparr>sigint := True\<rparr>)))))
       (\<lambda>_. handleError reach))"

definition stop_watch :: "(listener, unit) io" where
  "stop_watch =
     seqio (update (\<lambda>l. l\<lparr>isRunning := False\<rparr>))
     (seqio stopListening
     (update (\<lambda>l. case provider l of None \<Rightarrow> l
        | Some n \<Rightarrow> l\<lparr>error_handlers := filter (\<lambda>m. m \<noteq> n) (error_handlers l)\<rparr>)))"

text \<open>What happens to a listener: a provider reports an error, which reaches \<open>handleError\<close> if that provider has the
  handler; the process is interrupted.\<close>

datatype watch_event = Provider_Error nat | Interrupt

definition watch_step :: "(nat \<Rightarrow> bool) \<Rightarrow> watch_event \<Rightarrow> listener \<Rightarrow> listener" where
  "watch_step reach e l = (case e of
     Provider_Error n \<Rightarrow> if n \<in> set (error_handlers l) then snd (handleError reach l) else l
   | Interrupt \<Rightarrow> if sigint l then snd (stop_watch l) else l)"

text \<open>Which events are reported: the two handlers check the configured type again.\<close>

definition reports_staked :: "watch_config \<Rightarrow> bool" where
  "reports_staked c \<longleftrightarrow> eventType c \<noteq> Withdrawn"

definition reports_withdrawn :: "watch_config \<Rightarrow> bool" where
  "reports_withdrawn c \<longleftrightarrow> eventType c \<noteq> Staked"

section \<open>Reconnecting\<close>

lemma handleError_step:
  assumes "reconnectAttempts l \<le> MAX_RECONNECT_ATTEMPTS"
  shows "handleError reach l =
    (if reconnectAttempts l < MAX_RECONNECT_ATTEMPTS then
       seqio (update (\<lambda>l. l\<lparr>reconnectAttempts := reconnectAttempts l + 1\<rparr>))
       (seqio stopListening
       (catchio (seqio (initialize reach) startListening) (\<lambda>_. handleError reach))) l
     else (Inr (), l\<lparr>isRunning := False\<rparr>))"
proof (cases "reconnectAttempts l < MAX_RECONNECT_ATTEMPTS")
  case True
  then obtain n where n: "MAX_RECONNECT_ATTEMPTS - reconnectAttempts l = Suc n"
    by (metis Suc_diff_Suc)
  then have "MAX_RECONNECT_ATTEMPTS - Suc (reconnectAttempts l) = n" by simp
  with n True show ?thesis
    by (simp add: handleError_def update_def stopListening_def initialize_def startListening_def io_defs Let_def
        split: option.splits)
next
  case False
  with assms show ?thesis by (simp add: handleError_def update_def)
qed

text \<open>The listeners a configuration asks for, on the contract of provider \<open>n\<close>.\<close>

definition wanted :: "watch_config \<Rightarrow> nat \<Rightarrow> (nat \<times> event_filter) list" where
  "wanted c n = (let u = user_filter c; s = [(n, Staked_Filter u)]; w = [(n, Withdrawn_Filter u)] in
     case eventType c of Staked \<Rightarrow> s | Withdrawn \<Rightarrow> w | All \<Rightarrow> s @ w)"

definition listening_on :: "listener \<Rightarrow> nat \<Rightarrow> bool" where
  "listening_on l n \<longleftrightarrow> provider l = Some n \<and> contract l = Some n \<and> listeners l = wanted (config l) n"

text \<open>Listeners exist only for the current contract, and error handlers only for providers that exist.\<close>

definition watch_ok :: "listener \<Rightarrow> bool" where
  "watch_ok l \<longleftrightarrow> (\<forall>(c, f) \<in> set (listeners l). contract l = Some c) \<and> (\<forall>n \<in> set (error_handlers l). n < providers l) \<and>
     reconnectAttempts l \<le> MAX_RECONNECT_ATTEMPTS"

lemma stopListening_ok:
  "watch_ok l \<Longrightarrow> stopListening l = (Inr (), l\<lparr>listeners := []\<rparr>)"
proof -
  assume ok: "watch_ok l"
  show ?thesis
  proof (cases "contract l")
    case None
    with ok have "listeners l = []" by (cases "listeners l") (auto simp: watch_ok_def)
    with None show ?thesis by (simp add: stopListening_def update_def)
  next
    case (Some c)
    with ok have "filter (\<lambda>(d, _). d \<noteq> c) (listeners l) = []" by (auto simp: watch_ok_def filter_empty_conv)
    with Some show ?thesis by (simp add: stopListening_def update_def)
  qed
qed

lemma reconnect_outcome:
  assumes "watch_ok l" "n + reconnectAttempts l \<le> MAX_RECONNECT_ATTEMPTS"
  shows "\<exists>l'. reconnect reach n l = (Inr (), l') \<and> watch_ok l' \<and> config l' = config l \<and> sigint l' = sigint l \<and>
    error_handlers l' = error_handlers l \<and>
    (\<exists>k. k \<le> n \<and> providers l' = providers l + k \<and>
      (k = n \<and> \<not> isRunning l' \<and> (\<forall>i < n. \<not> reach (providers l + i)) \<or>
       0 < k \<and> reach (providers l + k - 1) \<and> (\<forall>i < k - 1. \<not> reach (providers l + i)) \<and>
       listening_on l' (providers l + k - 1) \<and> reconnectAttempts l' = 0 \<and> isRunning l' = isRunning l))"
  using assms
proof (induction n arbitrary: l)
  case 0
  then show ?case by (simp add: update_def watch_ok_def)
next
  case (Suc n)
  let ?u = "user_filter (config l)"
  let ?l1 = "l\<lparr>reconnectAttempts := reconnectAttempts l + 1, listeners := [], providers := providers l + 1,
    provider := Some (providers l), contract := Some (providers l),
    stakingFilter := Staked_Filter ?u, withdrawnFilter := Withdrawn_Filter ?u\<rparr>"
  have ok: "watch_ok (l\<lparr>reconnectAttempts := reconnectAttempts l + 1\<rparr>)"
    using Suc.prems by (auto simp: watch_ok_def)
  have ok1: "watch_ok ?l1" using Suc.prems by (auto simp: watch_ok_def)
  have s: "reconnect reach (Suc n) l =
      (if reach (providers l) then (Inr (), ?l1\<lparr>listeners := wanted (config l) (providers l), reconnectAttempts := 0\<rparr>)
       else reconnect reach n ?l1)"
    using stopListening_ok [OF ok]
    by (simp add: update_def io_defs initialize_def startListening_def Let_def wanted_def split: event_type.split)
  show ?case
  proof (cases "reach (providers l)")
    case True
    let ?l2 = "?l1\<lparr>listeners := wanted (config l) (providers l), reconnectAttempts := 0\<rparr>"
    have "watch_ok ?l2" using ok1 by (auto simp: watch_ok_def wanted_def Let_def split: event_type.splits)
    with True s show ?thesis
      by (intro exI [of _ ?l2]) (auto simp: listening_on_def intro!: exI [of _ 1])
  next
    case False
    have "n + reconnectAttempts ?l1 \<le> MAX_RECONNECT_ATTEMPTS" using Suc.prems by simp
    from Suc.IH [OF ok1 this] obtain l' k where l': "reconnect reach n ?l1 = (Inr (), l')" "watch_ok l'" "config l' = config l"
      "sigint l' = sigint l" "error_handlers l' = error_handlers l" "k \<le> n" "providers l' = providers l + 1 + k"
      "k = n \<and> \<not> isRunning l' \<and> (\<forall>i < n. \<not> reach (providers l + 1 + i)) \<or>
       0 < k \<and> reach (providers l + 1 + k - 1) \<and> (\<forall>i < k - 1. \<not> reach (providers l + 1 + i)) \<and>
       listening_on l' (providers l + 1 + k - 1) \<and> reconnectAttempts l' = 0 \<and> isRunning l' = isRunning l"
      by auto
    have sh: "(\<forall>i < Suc m. \<not> reach (providers l + i)) \<longleftrightarrow> (\<forall>i < m. \<not> reach (providers l + 1 + i))" for m
      using False by (metis (no_types, lifting) Suc_less_eq add.assoc add.commute add.right_neutral gr0_implies_Suc not_gr0 plus_1_eq_Suc)
    show ?thesis
    proof (intro exI conjI)
      show "reconnect reach (Suc n) l = (Inr (), l')" using False s l'(1) by simp
      show "Suc k \<le> Suc n" "providers l' = providers l + Suc k" using l' by auto
      show "Suc k = Suc n \<and> \<not> isRunning l' \<and> (\<forall>i < Suc n. \<not> reach (providers l + i)) \<or>
        0 < Suc k \<and> reach (providers l + Suc k - 1) \<and> (\<forall>i < Suc k - 1. \<not> reach (providers l + i)) \<and>
        listening_on l' (providers l + Suc k - 1) \<and> reconnectAttempts l' = 0 \<and> isRunning l' = isRunning l"
      proof (cases k)
        case 0
        with l'(8) sh [of n] show ?thesis by simp
      next
        case (Suc j)
        with l'(8) sh [of j] sh [of n] show ?thesis by auto
      qed
    qed (use l' in auto)
  qed
qed

text \<open>Reconnecting ends. After an error the listener tries at most as many new connections as are left of the
  ten, one after the other, and stops at the first that answers: then it listens, on that connection only, to
  exactly what its configuration asks for, and all ten attempts are available again. If none answers it stops
  running. It never throws.\<close>

theorem reconnecting_ends:
  assumes "watch_ok l" and "handleError reach l = (r, l')"
  shows "r = Inr () \<and> providers l' \<le> providers l + (MAX_RECONNECT_ATTEMPTS - reconnectAttempts l) \<and>
    (if \<exists>i < MAX_RECONNECT_ATTEMPTS - reconnectAttempts l. reach (providers l + i)
     then reach (providers l' - 1) \<and> listening_on l' (providers l' - 1) \<and> reconnectAttempts l' = 0
     else \<not> isRunning l')"
proof -
  let ?n = "MAX_RECONNECT_ATTEMPTS - reconnectAttempts l"
  have "?n + reconnectAttempts l \<le> MAX_RECONNECT_ATTEMPTS" using assms(1) by (simp add: watch_ok_def)
  from reconnect_outcome [OF assms(1) this, of reach] assms(2) obtain k where
    r: "r = Inr ()" and k: "k \<le> ?n" "providers l' = providers l + k" and
    d: "k = ?n \<and> \<not> isRunning l' \<and> (\<forall>i < ?n. \<not> reach (providers l + i)) \<or>
       0 < k \<and> reach (providers l + k - 1) \<and> (\<forall>i < k - 1. \<not> reach (providers l + i)) \<and>
       listening_on l' (providers l + k - 1) \<and> reconnectAttempts l' = 0 \<and> isRunning l' = isRunning l"
    by (auto simp: handleError_def)
  from d show ?thesis
  proof
    assume "k = ?n \<and> \<not> isRunning l' \<and> (\<forall>i < ?n. \<not> reach (providers l + i))"
    with r k show ?thesis by auto
  next
    assume a: "0 < k \<and> reach (providers l + k - 1) \<and> (\<forall>i < k - 1. \<not> reach (providers l + i)) \<and>
       listening_on l' (providers l + k - 1) \<and> reconnectAttempts l' = 0 \<and> isRunning l' = isRunning l"
    then have "k - 1 < ?n" "reach (providers l + (k - 1))" using k by auto
    then have "\<exists>i < ?n. reach (providers l + i)" by blast
    with a r k show ?thesis by simp
  qed
qed

definition running_listener :: listener where
  "running_listener = snd (start_watch (\<lambda>n. n = 0) (new_listener None None))"

lemma running_listener_ok: "watch_ok running_listener"
  by (simp add: running_listener_def start_watch_def initialize_def startListening_def watch_provider_def update_def
      io_defs Let_def new_listener_def watch_ok_def)

theorem reconnecting_ends_witness:
  "fst (handleError (\<lambda>n. n = 4) running_listener) = Inr () \<and>
   reconnectAttempts (snd (handleError (\<lambda>n. n = 4) running_listener)) = 0"
proof -
  obtain r l' where h: "handleError (\<lambda>n. n = 4) running_listener = (r, l')" by fastforce
  have p: "providers running_listener = 1" "reconnectAttempts running_listener = 0"
    by (simp_all add: running_listener_def start_watch_def initialize_def startListening_def watch_provider_def
        update_def io_defs Let_def new_listener_def)
  have "\<exists>i < MAX_RECONNECT_ATTEMPTS - reconnectAttempts running_listener. providers running_listener + i = 4"
    by (rule exI [of _ 3]) (simp add: p MAX_RECONNECT_ATTEMPTS_def)
  with reconnecting_ends [OF running_listener_ok h] h show ?thesis by auto
qed

text \<open>A restored connection is not watched. The handler that starts the reconnection is attached by
  \<open>start\<close> only: after a reconnection the new provider has none, so when that connection fails in turn
  nothing happens; the listener still counts as running, and hears no event any more.\<close>

theorem restored_connection_unwatched:
  assumes "watch_ok l" "handleError reach l = (r, l')" "provider l' = Some n" "provider l \<noteq> Some n"
    and "\<exists>i < MAX_RECONNECT_ATTEMPTS - reconnectAttempts l. reach (providers l + i)"
  shows "watch_step reach' (Provider_Error n) l' = l'"
proof -
  let ?n = "MAX_RECONNECT_ATTEMPTS - reconnectAttempts l"
  have "?n + reconnectAttempts l \<le> MAX_RECONNECT_ATTEMPTS" using assms(1) by (simp add: watch_ok_def)
  from reconnect_outcome [OF assms(1) this, of reach] assms(2,5) obtain k where
    k: "error_handlers l' = error_handlers l" "0 < k" "listening_on l' (providers l + k - 1)"
    by (auto simp: handleError_def)
  with assms(3) have "providers l \<le> n" by (simp add: listening_on_def)
  with assms(1) k(1) have "n \<notin> set (error_handlers l')" by (auto simp: watch_ok_def)
  then show ?thesis by (simp add: watch_step_def)
qed

theorem restored_connection_unwatched_witness:
  "watch_step (\<lambda>_. True) (Provider_Error 4) (snd (handleError (\<lambda>n. n = 4) running_listener)) =
   snd (handleError (\<lambda>n. n = 4) running_listener)"
proof -
  obtain r l' where h: "handleError (\<lambda>n. n = 4) running_listener = (r, l')" by fastforce
  have p: "providers running_listener = 1" "reconnectAttempts running_listener = 0" "provider running_listener = Some 0"
    by (simp_all add: running_listener_def start_watch_def initialize_def startListening_def watch_provider_def
        update_def io_defs Let_def new_listener_def)
  have e: "\<exists>i < MAX_RECONNECT_ATTEMPTS - reconnectAttempts running_listener. providers running_listener + i = 4"
    by (rule exI [of _ 3]) (simp add: p MAX_RECONNECT_ATTEMPTS_def)
  have "provider (snd (handleError (\<lambda>n. n = 4) running_listener)) = Some 4" by code_simp
  with h have "provider l' = Some 4" by simp
  with restored_connection_unwatched [OF running_listener_ok h _ _ e, of 4] h p show ?thesis by simp
qed

end
