(* ===== verification/Token_Clients.thy ===== *)
theory Token_Clients
  imports Effects
begin

text \<open>
  The airdrop script \<open>contracts-interaction-ts/src/batchTransfer.ts\<close> and the transfer script
  \<open>transferERC20AndBNB.ts\<close>, over the contracts, the node and the wallet they use. The abstract state is the
  list of transactions sent. In the locale \<open>token_chain\<close> any call may throw; what is read is a function of
  the transactions sent so far.
\<close>

section \<open>The interface\<close>

text \<open>Fees of a transaction: \<open>type 2\<close> with its two bounds, or \<open>type 0\<close> with the price the node gave, if any.\<close>

datatype gas_fees = Dynamic int int | Legacy "int option"

record tx_request =
  send_to :: string
  send_value :: "int option"
  send_call :: "(string \<times> int) option"
  send_fees :: gas_fees
  send_limit :: int

datatype token_op =
    Approve_Tokens string string int
  | Drop_Tokens "string list" "int list"
  | Drop_BNB "string list" "int list" int
  | Send tx_request

record fee_data =
  fee_gasPrice :: "int option"
  fee_max :: "int option"
  fee_priority :: "int option"

record 'w token_env =
  private_key :: "string option"
  wallet_address :: string
  parseUnits :: "string \<Rightarrow> nat \<Rightarrow> js_error + int"
  native_balance :: "string \<Rightarrow> ('w, int) io"
  erc20_decimals :: "string \<Rightarrow> ('w, nat) io"
  erc20_balanceOf :: "string \<Rightarrow> string \<Rightarrow> ('w, int) io"
  erc20_approve :: "string \<Rightarrow> string \<Rightarrow> int \<Rightarrow> ('w, nat) io"
  airdrop_erc20_call :: "string list \<Rightarrow> int list \<Rightarrow> ('w, nat) io"
  airdrop_bnb_call :: "string list \<Rightarrow> int list \<Rightarrow> int \<Rightarrow> ('w, nat) io"
  getFeeData :: "('w, fee_data) io"
  estimate_transfer :: "string \<Rightarrow> string \<Rightarrow> int \<Rightarrow> ('w, int) io"
  estimate_native :: "string \<Rightarrow> int \<Rightarrow> ('w, int) io"
  populate_transfer :: "string \<Rightarrow> string \<Rightarrow> int \<Rightarrow> ('w, unit) io"
  sendTransaction :: "tx_request \<Rightarrow> ('w, nat) io"
  wait_tx :: "nat \<Rightarrow> ('w, unit) io"
  random_address :: "('w, string) io"
  pause :: "('w, unit) io"

section \<open>batchTransfer.ts\<close>

definition AIRDROP_CONTRACT_ADDRESS :: string where
  "AIRDROP_CONTRACT_ADDRESS = ''0xDad6EcF65ef31C11D568Bb0E3B4F52Da169364D0''"

definition MYERC20_CONTRACT_ADDRESS :: string where
  "MYERC20_CONTRACT_ADDRESS = ''0x3d720e33044bD6691A850cEcF03E5D1C9e25Eda3''"

definition BATCH_SIZE :: nat where
  "BATCH_SIZE = 100"

primrec generateRandomAddresses :: "'w token_env \<Rightarrow> nat \<Rightarrow> ('w, string list) io" where
  "generateRandomAddresses E 0 = ret []"
| "generateRandomAddresses E (Suc n) =
     bindio (random_address E) (\<lambda>a. bindio (generateRandomAddresses E n) (\<lambda>as'. ret (a # as')))"

text \<open>The loop \<open>for (let i = 0; i < recipients.length; i += BATCH_SIZE)\<close>; the \<open>catch\<close> logs and rethrows.\<close>

definition send_batch :: "'w token_env \<Rightarrow> string list \<Rightarrow> int \<Rightarrow> nat \<Rightarrow> ('w, unit) io" where
  "send_batch E recipients amount i =
     (let batch = take (min (i + BATCH_SIZE) (length recipients) - i) (drop i recipients);
          amounts = replicate (length batch) amount in
      catchio
        (bindio (airdrop_erc20_call E batch amounts) (\<lambda>tx.
         seqio (wait_tx E tx) (if i + BATCH_SIZE < length recipients then pause E else ret ())))
        throw)"

function airdrop_from :: "'w token_env \<Rightarrow> string list \<Rightarrow> int \<Rightarrow> nat \<Rightarrow> ('w, unit) io" where
  "airdrop_from E recipients amount i =
     (if i < length recipients
      then seqio (send_batch E recipients amount i) (airdrop_from E recipients amount (i + BATCH_SIZE))
      else ret ())"
  by pat_completeness auto
termination by (relation "measure (\<lambda>(E, rs, x, i). length rs - i)") (auto simp: BATCH_SIZE_def)

declare airdrop_from.simps [simp del]

definition airdropERC20 :: "'w token_env \<Rightarrow> string list \<Rightarrow> int \<Rightarrow> ('w, unit) io" where
  "airdropERC20 E recipients amount = airdrop_from E recipients amount 0"

definition airdropBNB :: "'w token_env \<Rightarrow> string list \<Rightarrow> int \<Rightarrow> ('w, unit) io" where
  "airdropBNB E recipients amount =
     (let totalAmount = amount * int (length recipients) in
      catchio
        (bindio (airdrop_bnb_call E recipients (replicate (length recipients) amount) totalAmount) (wait_tx E))
        throw)"

definition bnbRecipients :: "string list" where
  "bnbRecipients = [''0x3DA0E0Aa4Db801ca5161412513558E9096E288bA'', ''0x24ca20D955cc2B6f722eCfdE9A7053435885dDe9'']"

definition erc20AddressCount :: nat where
  "erc20AddressCount = 10"

definition airdrop_main :: "'w token_env \<Rightarrow> ('w, unit) io" where
  "airdrop_main E =
     (if \<not> truthy (private_key E) then throw (JsError ''private key missing'')
      else
        bindio (native_balance E (wallet_address E)) (\<lambda>bnbBalance.
        bindio (erc20_balanceOf E MYERC20_CONTRACT_ADDRESS (wallet_address E)) (\<lambda>tokenBalance.
        bindio (erc20_decimals E MYERC20_CONTRACT_ADDRESS) (\<lambda>tokenDecimals.
        bindio (lift (parseUnits E ''1'' tokenDecimals)) (\<lambda>erc20Amount.
        (let totalTokensNeeded = erc20Amount * int erc20AddressCount in
        seqio
          (if tokenBalance < totalTokensNeeded then ret ()
           else
             bindio (generateRandomAddresses E erc20AddressCount) (\<lambda>randomAddresses.
             bindio (erc20_approve E MYERC20_CONTRACT_ADDRESS AIRDROP_CONTRACT_ADDRESS totalTokensNeeded) (\<lambda>tx.
             seqio (wait_tx E tx) (airdropERC20 E randomAddresses erc20Amount))))
        (bindio (lift (parseUnits E ''0.01'' 18)) (\<lambda>bnbAmount.
         if bnbBalance < bnbAmount * int (length bnbRecipients) then ret ()
         else airdropBNB E bnbRecipients bnbAmount))))))))"

section \<open>transferERC20AndBNB.ts\<close>

record transfer_config =
  gasLimitPadding :: int
  maxPriorityFeePerGas :: "int option"
  maxFeePerGas :: "int option"

text \<open>A \<open>bigint\<close> that may be missing: 0 counts as missing in a condition.\<close>

definition given :: "int option \<Rightarrow> bool" where
  "given x \<longleftrightarrow> x \<noteq> None \<and> x \<noteq> Some 0"

definition or_int :: "int option \<Rightarrow> int option \<Rightarrow> int" where
  "or_int x y = (if given x then the x else the y)"

definition getOptimalGasPrice :: "'w token_env \<Rightarrow> transfer_config \<Rightarrow> ('w, gas_fees) io" where
  "getOptimalGasPrice E c =
     bindio (getFeeData E) (\<lambda>f.
       ret (if given (fee_max f) \<and> given (fee_priority f)
            then Dynamic (or_int (maxFeePerGas c) (fee_max f)) (or_int (maxPriorityFeePerGas c) (fee_priority f))
            else Legacy (fee_gasPrice f)))"

text \<open>\<open>BigInt\<close> division truncates; gas and padding are not negative.\<close>

definition padded :: "int \<Rightarrow> int \<Rightarrow> int" where
  "padded estimatedGas paddingPercent = estimatedGas + (estimatedGas * paddingPercent) div 100"

definition estimateGasWithPadding :: "('w, int) io \<Rightarrow> int \<Rightarrow> ('w, int) io" where
  "estimateGasWithPadding estimate paddingPercent = bindio estimate (\<lambda>g. ret (padded g paddingPercent))"

text \<open>After the transaction has been sent its fee is printed: without a gas price \<open>formatUnits\<close> fails there.\<close>

definition print_fee :: "gas_fees \<Rightarrow> ('w, unit) io" where
  "print_fee g = (case g of Legacy None \<Rightarrow> throw (TypeError ''invalid BigNumberish value'') | _ \<Rightarrow> ret ())"

text \<open>After the receipt the cost is printed as \<open>receipt.gasUsed * (gasPrice || maxFeePerGas)\<close>: a gas price of 0 leaves
  \<open>undefined\<close> there, and the product throws.\<close>

definition print_cost :: "gas_fees \<Rightarrow> ('w, unit) io" where
  "print_cost g = (case g of Legacy (Some p) \<Rightarrow> if p = 0 then throw (TypeError ''Cannot mix BigInt'') else ret () | _ \<Rightarrow> ret ())"

definition send_and_report :: "'w token_env \<Rightarrow> tx_request \<Rightarrow> ('w, unit) io" where
  "send_and_report E req =
     bindio (sendTransaction E req) (\<lambda>tx.
       seqio (print_fee (send_fees req)) (seqio (wait_tx E tx) (print_cost (send_fees req))))"

definition transferERC20 :: "'w token_env \<Rightarrow> string \<Rightarrow> string \<Rightarrow> string \<Rightarrow> transfer_config \<Rightarrow> ('w, unit) io" where
  "transferERC20 E contractAddress recipient amount c =
     catchio
       (bindio (erc20_decimals E contractAddress) (\<lambda>decimals.
        bindio (lift (parseUnits E amount decimals)) (\<lambda>amountInWei.
        bindio (erc20_balanceOf E contractAddress (wallet_address E)) (\<lambda>balance.
        if balance < amountInWei then throw (JsError ''insufficient balance'')
        else
          bindio (getOptimalGasPrice E c) (\<lambda>fees.
          bindio (estimateGasWithPadding (estimate_transfer E contractAddress recipient amountInWei) (gasLimitPadding c)) (\<lambda>gasLimit.
          bindio (populate_transfer E contractAddress recipient amountInWei) (\<lambda>_.
          send_and_report E \<lparr>send_to = contractAddress, send_value = None, send_call = Some (recipient, amountInWei),
            send_fees = fees, send_limit = gasLimit\<rparr>)))))))
       throw"

definition transferNativeCoin :: "'w token_env \<Rightarrow> string \<Rightarrow> string \<Rightarrow> transfer_config \<Rightarrow> ('w, unit) io" where
  "transferNativeCoin E recipient amount c =
     catchio
       (bindio (lift (parseUnits E amount 18)) (\<lambda>amountInWei.
        bindio (native_balance E (wallet_address E)) (\<lambda>balance.
        if balance < amountInWei then throw (JsError ''insufficient balance'')
        else
          bindio (getOptimalGasPrice E c) (\<lambda>fees.
          bindio (estimateGasWithPadding (estimate_native E recipient amountInWei) (gasLimitPadding c)) (\<lambda>gasLimit.
          send_and_report E \<lparr>send_to = recipient, send_value = Some amountInWei, send_call = None,
            send_fees = fees, send_limit = gasLimit\<rparr>)))))
       throw"

definition transfer_recipient :: string where
  "transfer_recipient = ''0x3DA0E0Aa4Db801ca5161412513558E9096E288bA''"

text \<open>The token's address is a constant, so its guard is always taken. Each of the two examples swallows its error.\<close>

definition transfer_main :: "'w token_env \<Rightarrow> ('w, unit) io" where
  "transfer_main E =
     (if \<not> truthy (private_key E) then throw (JsError ''private key missing'')
      else
        bindio (native_balance E (wallet_address E)) (\<lambda>_.
        bindio (lift (parseUnits E ''2'' 9)) (\<lambda>prio.
        bindio (lift (parseUnits E ''50'' 9)) (\<lambda>fee.
        (let c = \<lparr>gasLimitPadding = 20, maxPriorityFeePerGas = Some prio, maxFeePerGas = Some fee\<rparr> in
        seqio
          (catchio (transferERC20 E MYERC20_CONTRACT_ADDRESS transfer_recipient ''1'' c) (\<lambda>_. ret ()))
          (catchio (transferNativeCoin E transfer_recipient ''0.01'' c) (\<lambda>_. ret ())))))))"

section \<open>The laws\<close>

locale token_chain =
  fixes E :: "'w token_env" and v :: "'w \<Rightarrow> token_op list"
    and bnb :: "token_op list \<Rightarrow> int" and tok :: "token_op list \<Rightarrow> int" and dec :: nat
  assumes native: "reading v (native_balance E (wallet_address E)) bnb"
    and tokens: "reading v (erc20_balanceOf E t (wallet_address E)) tok"
    and decimals: "reading v (erc20_decimals E t) (\<lambda>_. dec)"
    and approve: "writing v (erc20_approve E t s x) (\<lambda>ops. ops @ [Approve_Tokens t s x])"
    and drop_erc20: "writing v (airdrop_erc20_call E rs xs) (\<lambda>ops. ops @ [Drop_Tokens rs xs])"
    and drop_bnb: "writing v (airdrop_bnb_call E rs xs x) (\<lambda>ops. ops @ [Drop_BNB rs xs x])"
    and fees: "silent v (getFeeData E)"
    and estimate: "silent v (estimate_transfer E t r x)" "silent v (estimate_native E r x)"
    and populate: "silent v (populate_transfer E t r x)"
    and sending: "writing v (sendTransaction E q) (\<lambda>ops. ops @ [Send q])"
    and waiting: "silent v (wait_tx E n)"
    and random: "silent v (random_address E)"
    and pausing: "silent v (pause E)"
    and units: "parseUnits E ''1'' d = Inr (10 ^ d)" "parseUnits E ''0.01'' 18 = Inr (10 ^ 16)"
      "parseUnits E ''2'' 9 = Inr (2 * 10 ^ 9)" "parseUnits E ''50'' 9 = Inr (50 * 10 ^ 9)"

text \<open>The batches of the airdrop: a hundred recipients at a time.\<close>

function chunks :: "'a list \<Rightarrow> 'a list list" where
  "chunks xs = (if xs = [] then [] else take BATCH_SIZE xs # chunks (drop BATCH_SIZE xs))"
  by pat_completeness auto
termination by (relation "measure length") (auto simp: BATCH_SIZE_def)

declare chunks.simps [simp del]

lemma concat_chunks: "concat (chunks xs) = xs"
  by (induction xs rule: chunks.induct) (subst chunks.simps, simp)

lemma chunk_sizes: "b \<in> set (chunks xs) \<Longrightarrow> b \<noteq> [] \<and> length b \<le> BATCH_SIZE"
proof (induction xs rule: chunks.induct)
  case (1 xs)
  then show ?case by (subst (asm) (2) chunks.simps) (auto simp: BATCH_SIZE_def split: if_splits)
qed

definition batch_op :: "int \<Rightarrow> string list \<Rightarrow> token_op" where
  "batch_op amount b = Drop_Tokens b (replicate (length b) amount)"

context token_chain
begin

lemma wait_ends: "R d \<Longrightarrow> (\<And>u. Q u d) \<Longrightarrow> runs v d (wait_tx E n) Q R"
  using waiting [of n] by (auto simp: silent_def triple_def outcome_def split: sum.split)

lemma pause_ends: "R d \<Longrightarrow> (\<And>u. Q u d) \<Longrightarrow> runs v d (pause E) Q R"
  using pausing by (auto simp: silent_def triple_def outcome_def split: sum.split)

lemma batch_runs:
  assumes "i < length rs" "R d" "R (d @ [batch_op x (take BATCH_SIZE (drop i rs))])"
  shows "runs v d (send_batch E rs x i) (\<lambda>_ s. s = d @ [batch_op x (take BATCH_SIZE (drop i rs))]) R"
proof -
  have b: "take (min (i + BATCH_SIZE) (length rs) - i) (drop i rs) = take BATCH_SIZE (drop i rs)"
    using assms(1) by (simp add: min_def)
  let ?d = "d @ [batch_op x (take BATCH_SIZE (drop i rs))]"
  have t: "runs v ?d (seqio (wait_tx E tx) (if i + BATCH_SIZE < length rs then pause E else ret ())) (\<lambda>_ s. s = ?d) R" for tx
    by (rule runs_silent_seq [OF waiting], rule assms(3)) (auto intro!: pause_ends runs_ret assms(3))
  show ?thesis
    unfolding send_batch_def Let_def b
    by (rule runs_catch [where A = R], rule runs_write_bind [OF drop_erc20], rule assms(2))
      (use t in \<open>auto simp: batch_op_def triple_def throw_def\<close>)
qed

lemma airdrop_from_runs:
  assumes "\<And>k. R (d @ map (batch_op x) (take k (chunks (drop i rs))))"
  shows "runs v d (airdrop_from E rs x i) (\<lambda>_ s. s = d @ map (batch_op x) (chunks (drop i rs))) R"
  using assms
proof (induction "length rs - i" arbitrary: i d rule: less_induct)
  case less
  show ?case
  proof (cases "i < length rs")
    case False
    with less.prems [of 0] show ?thesis
      by (subst airdrop_from.simps) (simp add: runs_ret chunks.simps)
  next
    case True
    let ?b = "take BATCH_SIZE (drop i rs)"
    have c: "chunks (drop i rs) = ?b # chunks (drop (i + BATCH_SIZE) rs)"
      using True by (subst chunks.simps) (simp add: add.commute)
    have R0: "R d" using less.prems [of 0] by simp
    have R1: "R ((d @ [batch_op x ?b]) @ map (batch_op x) (take k (chunks (drop (i + BATCH_SIZE) rs))))" for k
      using less.prems [of "Suc k"] by (simp add: c)
    have "length rs - (i + BATCH_SIZE) < length rs - i" using True by (simp add: BATCH_SIZE_def)
    from less.hyps [OF this R1] have
      "runs v (d @ [batch_op x ?b]) (airdrop_from E rs x (i + BATCH_SIZE))
         (\<lambda>_ s. s = d @ map (batch_op x) (chunks (drop i rs))) R" by (simp add: c)
    moreover have "runs v d (send_batch E rs x i) (\<lambda>_ s. s = d @ [batch_op x ?b]) R"
      by (rule batch_runs) (use True R0 R1 [of 0] in simp_all)
    ultimately have "runs v d (seqio (send_batch E rs x i) (airdrop_from E rs x (i + BATCH_SIZE)))
        (\<lambda>_ s. s = d @ map (batch_op x) (chunks (drop i rs))) R" by (intro runs_seq)
    with True show ?thesis by (subst airdrop_from.simps) simp
  qed
qed

lemma random_runs:
  "R d \<Longrightarrow> (\<And>rs. length rs = n \<Longrightarrow> runs v d (g rs) Q R) \<Longrightarrow> runs v d (bindio (generateRandomAddresses E n) g) Q R"
proof (induction n arbitrary: g)
  case (Suc n)
  show ?case
    unfolding generateRandomAddresses.simps bindio_assoc bindio_ret
    by (rule runs_silent_any [OF random], rule Suc.prems(1), rule Suc.IH, rule Suc.prems(1), rule Suc.prems(2)) simp
qed simp

end

text \<open>What the airdrop sends from \<open>d\<close> when nothing fails, with \<open>rs\<close> the random recipients.\<close>

definition airdrop_ops :: "int \<Rightarrow> int \<Rightarrow> nat \<Rightarrow> string list \<Rightarrow> token_op list" where
  "airdrop_ops bnb tok dec rs =
     (if tok < 10 * 10 ^ dec then []
      else [Approve_Tokens MYERC20_CONTRACT_ADDRESS AIRDROP_CONTRACT_ADDRESS (10 * 10 ^ dec),
            Drop_Tokens rs (replicate 10 (10 ^ dec))]) @
     (if bnb < 2 * 10 ^ 16 then [] else [Drop_BNB bnbRecipients [10 ^ 16, 10 ^ 16] (2 * 10 ^ 16)])"

context token_chain
begin

lemma airdrop_main_runs:
  assumes "truthy (private_key E)"
  shows "runs v d (airdrop_main E)
    (\<lambda>_ s. \<exists>rs. length rs = 10 \<and> s = d @ airdrop_ops (bnb d) (tok d) dec rs)
    (\<lambda>s. \<exists>rs. length rs = 10 \<and> prefix s (d @ airdrop_ops (bnb d) (tok d) dec rs))"
proof -
  let ?R = "\<lambda>s. \<exists>rs :: string list. length rs = 10 \<and> prefix s (d @ airdrop_ops (bnb d) (tok d) dec rs)"
  let ?Q = "\<lambda>(_ :: unit) s. \<exists>rs :: string list. length rs = 10 \<and> s = d @ airdrop_ops (bnb d) (tok d) dec rs"
  let ?b = "if bnb d < 2 * 10 ^ 16 then [] else [Drop_BNB bnbRecipients [10 ^ 16, 10 ^ 16] (2 * 10 ^ 16)]"
  have R: "?R s" if "prefix s (d @ airdrop_ops (bnb d) (tok d) dec rs)" "length rs = 10" for s rs using that by blast
  have bn: "runs v s (bindio (lift (parseUnits E ''0.01'' 18)) (\<lambda>bnbAmount.
         if bnb d < bnbAmount * int (length bnbRecipients) then ret () else airdropBNB E bnbRecipients bnbAmount)) ?Q ?R"
    if s: "s @ ?b = d @ airdrop_ops (bnb d) (tok d) dec rs" "length rs = 10" for s rs
  proof (cases "bnb d < 2 * 10 ^ 16")
    case True
    with s show ?thesis by (auto simp: units bnbRecipients_def intro!: runs_ret exI [of _ rs])
  next
    case False
    have p: "?R s" "?R (s @ ?b)" using s by (auto intro!: R [of _ rs] simp flip: s(1))
    have "runs v s (airdropBNB E bnbRecipients (10 ^ 16)) ?Q ?R"
      unfolding airdropBNB_def Let_def
    proof (rule runs_catch [where A = ?R])
      show "runs v s (bindio (airdrop_bnb_call E bnbRecipients (replicate (length bnbRecipients) (10 ^ 16))
          (10 ^ 16 * int (length bnbRecipients))) (wait_tx E)) ?Q ?R"
        by (rule runs_write_bind [OF drop_bnb], rule p(1), rule wait_ends)
          (use p(2) s False in \<open>auto simp: bnbRecipients_def numeral_2_eq_2\<close>)
    qed (auto simp: triple_def throw_def)
    with False show ?thesis by (simp add: units bnbRecipients_def)
  qed
  have ts: "runs v d (seqio
        (if tok d < 10 ^ dec * int erc20AddressCount then ret ()
         else bindio (generateRandomAddresses E erc20AddressCount) (\<lambda>rs.
             bindio (erc20_approve E MYERC20_CONTRACT_ADDRESS AIRDROP_CONTRACT_ADDRESS (10 ^ dec * int erc20AddressCount)) (\<lambda>tx.
             seqio (wait_tx E tx) (airdropERC20 E rs (10 ^ dec)))))
        (bindio (lift (parseUnits E ''0.01'' 18)) (\<lambda>bnbAmount.
         if bnb d < bnbAmount * int (length bnbRecipients) then ret () else airdropBNB E bnbRecipients bnbAmount))) ?Q ?R"
  proof (cases "tok d < 10 * 10 ^ dec")
    case True
    then have "d @ ?b = d @ airdrop_ops (bnb d) (tok d) dec (replicate 10 [])" by (simp add: airdrop_ops_def)
    from bn [OF this] True show ?thesis by (simp add: erc20AddressCount_def mult.commute)
  next
    case False
    let ?u = "10 ^ dec :: int"
    let ?a = "Approve_Tokens MYERC20_CONTRACT_ADDRESS AIRDROP_CONTRACT_ADDRESS (10 * ?u)"
    have step: "runs v d (bindio (erc20_approve E MYERC20_CONTRACT_ADDRESS AIRDROP_CONTRACT_ADDRESS (?u * int erc20AddressCount)) (\<lambda>tx.
             seqio (wait_tx E tx) (airdropERC20 E rs ?u)))
        (\<lambda>_ s. \<exists>rs. length rs = 10 \<and> s = d @ [?a, Drop_Tokens rs (replicate 10 ?u)]) ?R" if rs: "length rs = erc20AddressCount" for rs
    proof -
      have l: "length rs = 10" using rs by (simp add: erc20AddressCount_def)
      then have c: "chunks rs = [rs]" by (subst chunks.simps, subst chunks.simps) (auto simp: BATCH_SIZE_def)
      have k: "?R (d @ ?a # map (batch_op ?u) (take k [rs]))" for k
        using l False by (intro R [of _ rs]) (cases k; simp add: airdrop_ops_def batch_op_def)+
      have r0: "?R d" using l by (intro R [of _ rs]) simp_all
      have "runs v (d @ [?a]) (airdropERC20 E rs ?u) (\<lambda>_ s. s = (d @ [?a]) @ map (batch_op ?u) (chunks (drop 0 rs))) ?R"
        unfolding airdropERC20_def by (rule airdrop_from_runs) (use k in \<open>simp add: c\<close>)
      then have "runs v (d @ [?a]) (airdropERC20 E rs ?u)
          (\<lambda>_ s. \<exists>rs. length rs = 10 \<and> s = d @ [?a, Drop_Tokens rs (replicate 10 ?u)]) ?R"
        by (rule runs_conseq) (use l in \<open>auto simp: c batch_op_def\<close>)
      then show ?thesis
        using k [of 0] by (intro runs_write_bind [OF approve] runs_silent_seq [OF waiting] r0)
          (simp_all add: erc20AddressCount_def mult.commute)
    qed
    have A: "runs v d (bindio (generateRandomAddresses E erc20AddressCount) (\<lambda>rs.
             bindio (erc20_approve E MYERC20_CONTRACT_ADDRESS AIRDROP_CONTRACT_ADDRESS (?u * int erc20AddressCount)) (\<lambda>tx.
             seqio (wait_tx E tx) (airdropERC20 E rs ?u))))
        (\<lambda>_ s. \<exists>rs. length rs = 10 \<and> s = d @ [?a, Drop_Tokens rs (replicate 10 ?u)]) ?R"
      by (rule random_runs, rule R [of _ "replicate 10 []"]) (use step in simp_all)
    have B: "triple v (\<lambda>s. \<exists>rs. length rs = 10 \<and> s = d @ [?a, Drop_Tokens rs (replicate 10 ?u)])
        (bindio (lift (parseUnits E ''0.01'' 18)) (\<lambda>bnbAmount.
         if bnb d < bnbAmount * int (length bnbRecipients) then ret () else airdropBNB E bnbRecipients bnbAmount)) ?Q ?R"
    proof (rule runs_all, elim exE conjE)
      fix s rs assume "length rs = 10" "s = d @ [?a, Drop_Tokens rs (replicate 10 ?u)]"
      with False have "s @ ?b = d @ airdrop_ops (bnb d) (tok d) dec rs" by (simp add: airdrop_ops_def)
      from bn [OF this \<open>length rs = 10\<close>] show "runs v s (bindio (lift (parseUnits E ''0.01'' 18)) (\<lambda>bnbAmount.
         if bnb d < bnbAmount * int (length bnbRecipients) then ret () else airdropBNB E bnbRecipients bnbAmount)) ?Q ?R" .
    qed
    from triple_seq [OF A B] False show ?thesis by (simp add: erc20AddressCount_def mult.commute)
  qed
  have r0: "?R d" by (rule R [of _ "replicate 10 []"]) simp_all
  have "runs v d (airdrop_main E) ?Q ?R"
    unfolding airdrop_main_def eqTrueI [OF assms] not_True_eq_False if_False
    by (rule runs_reading [OF native], rule disjI2, rule r0, rule runs_reading [OF tokens], rule disjI2, rule r0,
      rule runs_reading [OF decimals], rule disjI2, rule r0, unfold units(1) lift_simps bindio_ret Let_def, rule ts)
  then show ?thesis .
qed

end

text \<open>A leg of the transfer script sends one transaction or none; \<open>P\<close> is what it may be.\<close>

definition sent :: "token_op list \<Rightarrow> (tx_request \<Rightarrow> bool) \<Rightarrow> token_op list \<Rightarrow> bool" where
  "sent d P s \<longleftrightarrow> s = d \<or> (\<exists>q. s = d @ [Send q] \<and> P q)"

lemma sent_refl [simp]: "sent d P d"
  by (simp add: sent_def)

text \<open>The request of a leg: the configured fees, or the node's own price, and the padded gas limit.\<close>

definition leg :: "string \<Rightarrow> int option \<Rightarrow> (string \<times> int) option \<Rightarrow> tx_request \<Rightarrow> bool" where
  "leg t x c q \<longleftrightarrow> send_to q = t \<and> send_value q = x \<and> send_call q = c \<and>
     (send_fees q = Dynamic (50 * 10 ^ 9) (2 * 10 ^ 9) \<or> (\<exists>p. send_fees q = Legacy p)) \<and>
     (\<exists>g. send_limit q = g + g * 20 div 100)"

lemma print_fee_runs: "R d \<Longrightarrow> runs v d (print_fee g) (\<lambda>_ s. s = d) R"
  and print_cost_runs: "R d \<Longrightarrow> runs v d (print_cost g) (\<lambda>_ s. s = d) R"
  by (auto simp: print_fee_def print_cost_def intro!: runs_ret runs_throw split: gas_fees.split option.split)

context token_chain
begin

lemma report_runs:
  assumes "R d" "R (d @ [Send q])"
  shows "runs v d (send_and_report E q) (\<lambda>_. R) R"
  unfolding send_and_report_def
  by (rule runs_write_bind [OF sending], rule assms(1), rule runs_seq [OF print_fee_runs], rule assms(2),
      rule runs_silent_seq [OF waiting], rule assms(2), rule runs_conseq [OF print_cost_runs, where R = R])
    (use assms(2) in auto)

lemma gas_price_runs:
  assumes "R d"
    and "\<And>g. g = Dynamic (or_int (maxFeePerGas c) (Some 0)) (or_int (maxPriorityFeePerGas c) (Some 0)) \<or> (\<exists>p. g = Legacy p)
      \<Longrightarrow> runs v d (k g) Q R"
    and "given (maxFeePerGas c)" "given (maxPriorityFeePerGas c)"
  shows "runs v d (bindio (getOptimalGasPrice E c) k) Q R"
  unfolding getOptimalGasPrice_def bindio_assoc bindio_ret
  by (rule runs_silent_any [OF fees], rule assms(1), rule assms(2)) (use assms(3,4) in \<open>simp add: or_int_def\<close>)

lemma padding_runs:
  "silent v m \<Longrightarrow> R d \<Longrightarrow> (\<And>g. runs v d (k (padded g x)) Q R) \<Longrightarrow> runs v d (bindio (estimateGasWithPadding m x) k) Q R"
  unfolding estimateGasWithPadding_def bindio_assoc bindio_ret by (rule runs_silent_any)

abbreviation "config \<equiv> \<lparr>gasLimitPadding = 20, maxPriorityFeePerGas = Some (2 * 10 ^ 9), maxFeePerGas = Some (50 * 10 ^ 9)\<rparr>"

lemma transferERC20_runs:
  "runs v d (transferERC20 E t r ''1'' config)
    (\<lambda>_. sent d (\<lambda>q. leg t None (Some (r, 10 ^ dec)) q \<and> 10 ^ dec \<le> tok d))
    (sent d (\<lambda>q. leg t None (Some (r, 10 ^ dec)) q \<and> 10 ^ dec \<le> tok d))"
  unfolding transferERC20_def
  by (rule runs_rethrow,
      rule runs_reading [OF decimals], rule disjI2, rule sent_refl, simp only: units(1) lift_simps bindio_ret,
      rule runs_reading [OF tokens], rule disjI2, rule sent_refl, rule runs_if, rule runs_throw, rule sent_refl,
      rule gas_price_runs, rule sent_refl, rule padding_runs [OF estimate(1)], rule sent_refl,
      rule runs_silent_any [OF populate], rule sent_refl, rule report_runs, rule sent_refl)
    (auto simp: sent_def leg_def or_int_def given_def padded_def)

lemma transferNativeCoin_runs:
  "runs v d (transferNativeCoin E r ''0.01'' config)
    (\<lambda>_. sent d (\<lambda>q. leg r (Some (10 ^ 16)) None q \<and> 10 ^ 16 \<le> bnb d))
    (sent d (\<lambda>q. leg r (Some (10 ^ 16)) None q \<and> 10 ^ 16 \<le> bnb d))"
  unfolding transferNativeCoin_def
  by (rule runs_rethrow,
      simp only: units(2) lift_simps bindio_ret,
      rule runs_reading [OF native], rule disjI2, rule sent_refl, rule runs_if, rule runs_throw, rule sent_refl,
      rule gas_price_runs, rule sent_refl, rule padding_runs [OF estimate(2)], rule sent_refl,
      rule report_runs, rule sent_refl)
    (auto simp: sent_def leg_def or_int_def given_def padded_def)

end

section \<open>An in-memory chain\<close>

text \<open>The world is the list of transactions sent; both balances and the fee data are fixed.\<close>

definition token_read :: "'a \<Rightarrow> (token_op list, 'a) io" where
  "token_read x = (\<lambda>t. (Inr x, t))"

definition token_send :: "token_op \<Rightarrow> (token_op list, nat) io" where
  "token_send p = (\<lambda>t. (Inr (length t), t @ [p]))"

definition demo_units :: "string \<Rightarrow> nat \<Rightarrow> js_error + int" where
  "demo_units s d =
     (if s = ''1'' then Inr (10 ^ d) else if s = ''2'' then Inr (2 * 10 ^ d) else if s = ''50'' then Inr (50 * 10 ^ d)
      else if s = ''0.01'' \<and> 2 \<le> d then Inr (10 ^ (d - 2)) else Inl (JsError ''invalid FixedNumber''))"

definition demo_tokens :: "int \<Rightarrow> int \<Rightarrow> fee_data \<Rightarrow> token_op list token_env" where
  "demo_tokens b t f = \<lparr>
     private_key = Some ''0xk'', wallet_address = ''0xw'', parseUnits = demo_units,
     native_balance = (\<lambda>_. token_read b), erc20_decimals = (\<lambda>_. token_read 2), erc20_balanceOf = (\<lambda>_ _. token_read t),
     erc20_approve = (\<lambda>c s x. token_send (Approve_Tokens c s x)),
     airdrop_erc20_call = (\<lambda>rs xs. token_send (Drop_Tokens rs xs)),
     airdrop_bnb_call = (\<lambda>rs xs x. token_send (Drop_BNB rs xs x)),
     getFeeData = token_read f, estimate_transfer = (\<lambda>_ _ _. token_read 50000), estimate_native = (\<lambda>_ _. token_read 21000),
     populate_transfer = (\<lambda>_ _ _. token_read ()), sendTransaction = (\<lambda>q. token_send (Send q)),
     wait_tx = (\<lambda>_. token_read ()), random_address = token_read ''0xr'', pause = token_read ()\<rparr>"

interpretation demo_chain: token_chain "demo_tokens b t f" "\<lambda>s. s" "\<lambda>_. b" "\<lambda>_. t" 2
  by unfold_locales
    (simp_all add: demo_tokens_def token_read_def token_send_def demo_units_def reading_def writing_def silent_def)

section \<open>Properties\<close>

text \<open>C18: Whatever fails, the airdrop approves exactly the tokens it then distributes, ten times one token, and
  pays them out in one batch, or skips this part when the balance is too small; then it sends 0.01 BNB to each of
  the two recipients, if the balance read at the start suffices. A failure leaves a prefix of these transactions.\<close>

theorem airdrop_pays_what_it_approves:
  assumes "token_chain E v bnb tok dec" and "truthy (private_key E)" and "airdrop_main E w = (r, w')"
  shows "\<exists>rs. length rs = 10 \<and> prefix (v w') (v w @ airdrop_ops (bnb (v w)) (tok (v w)) dec rs) \<and>
    (\<not> isl r \<longrightarrow> v w' = v w @ airdrop_ops (bnb (v w)) (tok (v w)) dec rs)"
  using tripleD [OF token_chain.airdrop_main_runs [OF assms(1,2), of "v w"] refl] assms(3) by (cases r) auto

lemma airdrop_pays_what_it_approves_witness:
  "\<exists>rs. length rs = 10 \<and> prefix (snd (airdrop_main (demo_tokens 0 5000 undefined) [])) (airdrop_ops 0 5000 2 rs) \<and>
    snd (airdrop_main (demo_tokens 0 5000 undefined) []) = airdrop_ops 0 5000 2 rs"
proof -
  let ?E = "demo_tokens 0 5000 undefined"
  have k: "truthy (private_key ?E)" by (simp add: demo_tokens_def)
  obtain r w' where r: "airdrop_main ?E [] = (r, w')" by fastforce
  have "\<not> isl (fst (airdrop_main ?E []))" by code_simp
  with airdrop_pays_what_it_approves [OF demo_chain.token_chain_axioms k r] r show ?thesis by auto
qed

text \<open>\<open>airdropERC20\<close> sends the recipients in batches of at most a hundred, every recipient exactly once
  and in order, each with the same amount; a failure leaves the first few batches.\<close>

theorem airdrop_in_batches:
  assumes "token_chain E v bnb tok dec" and "airdropERC20 E rs x w = (r, w')"
  shows "\<exists>bs k. concat bs = rs \<and> (\<forall>b \<in> set bs. b \<noteq> [] \<and> length b \<le> 100) \<and>
    v w' = v w @ map (\<lambda>b. Drop_Tokens b (replicate (length b) x)) (take k bs) \<and> (\<not> isl r \<longrightarrow> length bs \<le> k)"
proof -
  let ?R = "\<lambda>s. \<exists>k. s = v w @ map (batch_op x) (take k (chunks rs))"
  have "runs v (v w) (airdropERC20 E rs x) (\<lambda>_ s. s = v w @ map (batch_op x) (chunks (drop 0 rs))) ?R"
    unfolding airdropERC20_def by (rule token_chain.airdrop_from_runs [OF assms(1)]) auto
  note o = tripleD [OF this refl, unfolded assms(2)]
  obtain k where "v w' = v w @ map (batch_op x) (take k (chunks rs))" "\<not> isl r \<longrightarrow> length (chunks rs) \<le> k"
  proof (cases r)
    case (Inl e)
    with o that show ?thesis by auto
  next
    case (Inr u)
    with o that [of "length (chunks rs)"] show ?thesis by simp
  qed
  with concat_chunks [of rs] chunk_sizes [of _ rs] show ?thesis
    unfolding batch_op_def BATCH_SIZE_def by blast
qed

lemma airdrop_in_batches_witness:
  "\<exists>bs k. concat bs = replicate 150 ''0xr'' \<and> (\<forall>b \<in> set bs. b \<noteq> [] \<and> length b \<le> 100) \<and>
    snd (airdropERC20 (demo_tokens 0 0 undefined) (replicate 150 ''0xr'') 7 []) =
      map (\<lambda>b. Drop_Tokens b (replicate (length b) 7)) (take k bs)"
proof -
  obtain r w' where r: "airdropERC20 (demo_tokens 0 0 undefined) (replicate 150 ''0xr'') 7 [] = (r, w')" by fastforce
  from airdrop_in_batches [OF demo_chain.token_chain_axioms r] r show ?thesis by auto
qed

text \<open>The transfer script sends at most one token transfer and after it at most one native transfer, each
  only if the balance then read covers it, with the configured fee bounds where the network has dynamic fees and
  a gas limit a fifth over the estimate. It fails only before the first of them: a leg that throws, also after its
  transaction has been sent, does not stop the other.\<close>

theorem transfers_covered:
  assumes "token_chain E v bnb tok dec" and "transfer_main E w = (r, w')"
  shows "\<exists>d. sent (v w) (\<lambda>q. leg MYERC20_CONTRACT_ADDRESS None (Some (transfer_recipient, 10 ^ dec)) q \<and> 10 ^ dec \<le> tok (v w)) d \<and>
    sent d (\<lambda>q. leg transfer_recipient (Some (10 ^ 16)) None q \<and> 10 ^ 16 \<le> bnb d) (v w') \<and>
    (isl r \<longrightarrow> v w' = v w)"
proof -
  let ?P = "\<lambda>q. leg MYERC20_CONTRACT_ADDRESS None (Some (transfer_recipient, 10 ^ dec)) q \<and> 10 ^ dec \<le> tok (v w)"
  let ?N = "\<lambda>d q. leg transfer_recipient (Some (10 ^ 16)) None q \<and> 10 ^ 16 \<le> bnb d"
  let ?Q = "\<lambda>(_ :: unit) s. \<exists>d. sent (v w) ?P d \<and> sent d (?N d) s"
  note T = token_chain.transferERC20_runs [OF assms(1)] token_chain.transferNativeCoin_runs [OF assms(1)]
  note units = token_chain.units [OF assms(1)]
  have main: "runs v (v w) (transfer_main E) ?Q (\<lambda>s. s = v w)"
    unfolding transfer_main_def Let_def units lift_simps bindio_ret
    by (rule runs_if, rule runs_throw, rule refl, rule runs_reading [OF token_chain.native [OF assms(1)]],
        rule disjI2, rule refl, rule triple_seq [OF runs_swallow [OF T(1)]], rule runs_all,
        rule runs_conseq [OF runs_swallow [OF T(2)]]) auto
  show ?thesis
    using tripleD [OF main refl] assms(2) by (cases r) (auto intro: exI [of _ "v w"])
qed

text \<open>Both legs send on this network with a node price only and no price known; printing the fee of the first fails.\<close>

definition plain_fees :: fee_data where
  "plain_fees = \<lparr>fee_gasPrice = None, fee_max = None, fee_priority = None\<rparr>"

lemma transfers_covered_witness:
  "length (snd (transfer_main (demo_tokens (10 ^ 17) 500 plain_fees) [])) = 2 \<and>
   (\<exists>d. sent [] (\<lambda>q. leg MYERC20_CONTRACT_ADDRESS None (Some (transfer_recipient, 100)) q \<and> 100 \<le> (500 :: int)) d \<and>
    sent d (\<lambda>q. leg transfer_recipient (Some (10 ^ 16)) None q \<and> 10 ^ 16 \<le> (10 ^ 17 :: int))
      (snd (transfer_main (demo_tokens (10 ^ 17) 500 plain_fees) [])))"
proof -
  let ?m = "transfer_main (demo_tokens (10 ^ 17) 500 plain_fees)"
  have l: "length (snd (?m [])) = 2" by code_simp
  obtain r w' where r: "?m [] = (r, w')" by fastforce
  from transfers_covered [OF demo_chain.token_chain_axioms r] r l show ?thesis by auto
qed

end
