(* ===== verification/Js_Doubles.thy ===== *)
theory Js_Doubles
  imports Js_Numbers "HOL-Library.Log_Nat"
begin

text \<open>
  The doubles of JavaScript: the double nearest to a rational, ties to the even significand. Only the width of the significand,
  53 bits, is modelled; exponents are unbounded, so the statements are about numbers between \<open>2\<^sup>-\<^sup>1\<^sup>0\<^sup>2\<^sup>2\<close> and
  \<open>2\<^sup>1\<^sup>0\<^sup>2\<^sup>4\<close>. Elsewhere a \<open>Num x\<close> stands for the double nearest to the decimal \<open>x\<close>.
\<close>

section \<open>Doubles\<close>

definition pow2 :: "int \<Rightarrow> rat" where
  "pow2 e = (if 0 \<le> e then 2 ^ nat e else 1 / 2 ^ nat (- e))"

text \<open>The exponent of a positive number, and the nearest integer with ties to the even one.\<close>

definition binade :: "rat \<Rightarrow> int" where
  "binade x = (let (a, b) = quotient_of x; e = bitlen a - bitlen b in if pow2 e \<le> x then e else e - 1)"

definition round_even :: "rat \<Rightarrow> int" where
  "round_even x = (let f = \<lfloor>x\<rfloor>; r = frac x in if r < 1 / 2 then f else if r > 1 / 2 then f + 1 else if even f then f else f + 1)"

definition to_double :: "rat \<Rightarrow> rat" where
  "to_double x = (if x = 0 then 0 else let u = pow2 (binade \<bar>x\<bar> - 52) in of_int (round_even (x / u)) * u)"

text \<open>\<open>a * b\<close>: the operands are doubles, and the product is rounded to one.\<close>

definition double_times :: "rat \<Rightarrow> rat \<Rightarrow> rat" where
  "double_times a b = to_double (to_double a * to_double b)"

section \<open>Doubles are close\<close>

lemma pow2_pos: "0 < pow2 e"
  by (simp add: pow2_def)

lemma pow2_powi: "pow2 e = 2 powi e"
  by (simp add: pow2_def power_int_def inverse_eq_divide power_one_over)

lemma pow2_add: "pow2 (a + b) = pow2 a * pow2 b"
  unfolding pow2_powi by (rule power_int_add) simp

lemma pow2_52: "pow2 (e - 52) = pow2 e / 2 ^ 52"
  using pow2_add [of "e - 52" 52] by (simp add: pow2_def)

lemma binade_le:
  assumes "0 < x"
  shows "pow2 (binade x) \<le> x"
proof -
  obtain a b where q: "quotient_of x = (a, b)" by fastforce
  then have b: "0 < b" and x: "x = of_int a / of_int b" by (simp_all add: quotient_of_denom_pos quotient_of_div)
  with assms have a: "0 < a" by (simp add: zero_less_divide_iff)
  have "pow2 (bitlen a - 1) \<le> of_int a"
  proof -
    have "2 ^ nat (bitlen a - 1) \<le> a" using bitlen_bounds [OF a] by simp
    then have "(of_int (2 ^ nat (bitlen a - 1)) :: rat) \<le> of_int a" by (simp only: of_int_le_iff)
    moreover have "0 \<le> bitlen a - 1" using a bitlen_nonneg [of a] bitlen_eq_zero_iff [of a] by linarith
    ultimately show ?thesis by (simp add: pow2_def)
  qed
  moreover have "of_int b \<le> pow2 (bitlen b)"
  proof -
    have "b \<le> 2 ^ nat (bitlen b)" using bitlen_bounds [OF b] by simp
    then have "(of_int b :: rat) \<le> of_int (2 ^ nat (bitlen b))" by (simp only: of_int_le_iff)
    then show ?thesis by (simp add: pow2_def bitlen_nonneg)
  qed
  ultimately have "pow2 (bitlen a - 1) / pow2 (bitlen b) \<le> x"
    unfolding x using a b pow2_pos by (intro frac_le) simp_all
  moreover have "pow2 (bitlen a - 1) / pow2 (bitlen b) = pow2 (bitlen a - bitlen b - 1)"
    using pow2_add [of "bitlen a - bitlen b - 1" "bitlen b"] pow2_pos [of "bitlen b"] by simp
  ultimately show ?thesis by (simp add: binade_def q Let_def)
qed

lemma round_even_close: "\<bar>of_int (round_even x) - x\<bar> \<le> 1 / 2"
proof -
  have "0 \<le> frac x" "frac x < 1" "x = of_int \<lfloor>x\<rfloor> + frac x"
    by (rule frac_ge_0, rule frac_lt_1, simp add: frac_def)
  then show ?thesis by (auto simp: round_even_def Let_def abs_le_iff)
qed

lemma to_double_close: "\<bar>to_double x - x\<bar> \<le> \<bar>x\<bar> / 2 ^ 53"
proof (cases "x = 0")
  case False
  let ?u = "pow2 (binade \<bar>x\<bar> - 52)"
  have u: "0 < ?u" by (rule pow2_pos)
  have "to_double x - x = (of_int (round_even (x / ?u)) - x / ?u) * ?u"
    using False u by (simp add: to_double_def Let_def algebra_simps)
  then have "\<bar>to_double x - x\<bar> = \<bar>of_int (round_even (x / ?u)) - x / ?u\<bar> * ?u"
    using u by (simp add: abs_mult)
  also have "\<dots> \<le> 1 / 2 * ?u" using round_even_close u by (intro mult_right_mono) simp_all
  also have "\<dots> \<le> 1 / 2 * (\<bar>x\<bar> / 2 ^ 52)"
    using binade_le [of "\<bar>x\<bar>"] False by (simp add: pow2_52 divide_right_mono)
  finally show ?thesis by simp
qed (simp add: to_double_def)

lemma to_double_nonneg: "0 \<le> x \<Longrightarrow> 0 \<le> to_double x"
proof -
  assume "0 \<le> x"
  then have "0 \<le> round_even (x / pow2 (binade \<bar>x\<bar> - 52))"
    using pow2_pos [of "binade \<bar>x\<bar> - 52"] by (simp add: round_even_def Let_def zero_le_floor)
  then show ?thesis using pow2_pos [of "binade \<bar>x\<bar> - 52"] by (simp add: to_double_def Let_def)
qed

lemma to_double_le: "0 \<le> x \<Longrightarrow> to_double x \<le> x + x / 2 ^ 53"
  using to_double_close [of x] unfolding abs_le_iff by (simp only: abs_of_nonneg) linarith

text \<open>Whole numbers below \<open>2\<^sup>5\<^sup>3\<close> are doubles.\<close>

lemma pow2_mono: "a \<le> b \<Longrightarrow> pow2 a \<le> pow2 b"
  unfolding pow2_powi by (rule power_int_increasing) simp_all

lemma round_even_int [simp]: "round_even (of_int k) = k"
  by (simp add: round_even_def)

lemma to_double_nat:
  assumes "n < 2 ^ 53"
  shows "to_double (of_nat n) = of_nat n"
proof (cases "n = 0")
  case False
  let ?e = "binade (of_nat n) - 52"
  have "pow2 (binade (of_nat n)) \<le> of_nat n" using binade_le [of "of_nat n"] False by simp
  also have "\<dots> < of_nat (2 ^ 53)" using assms by (simp only: of_nat_less_iff)
  finally have "pow2 (binade (of_nat n)) < pow2 53" by (simp add: pow2_def)
  then have e: "?e \<le> 0" using pow2_mono [of 53 "binade (of_nat n)"] by linarith
  have "of_nat n / pow2 ?e = of_int (int n * 2 ^ nat (- ?e))"
    using e by (cases "?e = 0") (simp_all add: pow2_def)
  then have "round_even (of_nat n / pow2 ?e) = int n * 2 ^ nat (- ?e)" by (simp only: round_even_int)
  with False e show ?thesis
    using pow2_pos [of ?e] by (cases "?e = 0") (simp_all add: to_double_def Let_def pow2_def)
qed (simp add: to_double_def)

text \<open>The error of a product of an operand that is off by \<open>d\<close> with a small whole number.\<close>

lemma double_times_close:
  assumes "0 \<le> a" and "\<bar>a - x\<bar> \<le> d" and "0 \<le> x" and "n < 2 ^ 53"
  shows "\<bar>double_times a (of_nat n) - x * of_nat n\<bar> \<le> x * of_nat n / 2 ^ 52 + x * of_nat n / 2 ^ 106 + 2 * d * of_nat n"
proof -
  let ?n = "of_nat n :: rat"
  define e :: rat where "e = 1 / 2 ^ 53"
  have e: "0 \<le> e" by (simp add: e_def)
  have d: "0 \<le> d" using assms(2) by linarith
  have 1: "\<bar>to_double a - a\<bar> \<le> a * e" using to_double_close [of a] assms(1) by (simp add: e_def)
  have 2: "\<bar>to_double (to_double a * ?n) - to_double a * ?n\<bar> \<le> to_double a * ?n * e"
    using to_double_close [of "to_double a * ?n"] to_double_nonneg [OF assms(1)] by (simp add: e_def)
  have a: "a \<le> x + d" using assms(2) by linarith
  have t: "\<bar>to_double a - x\<bar> \<le> d + (x + d) * e"
  proof -
    have "a * e \<le> (x + d) * e" using a by (intro mult_right_mono) (simp_all add: e)
    with 1 assms(2) show ?thesis by linarith
  qed
  then have u: "to_double a \<le> x + d + (x + d) * e" by linarith
  have "\<bar>to_double a * ?n - x * ?n\<bar> = \<bar>to_double a - x\<bar> * ?n"
    by (simp flip: left_diff_distrib add: abs_mult)
  also have "\<dots> \<le> (d + (x + d) * e) * ?n" using t by (intro mult_right_mono) (simp_all add: e)
  finally have 3: "\<bar>to_double a * ?n - x * ?n\<bar> \<le> (d + (x + d) * e) * ?n" .
  have 4: "to_double a * ?n * e \<le> (x + d + (x + d) * e) * ?n * e"
    using u by (intro mult_right_mono) (simp_all add: e)
  have eq: "(d + (x + d) * e) * ?n + (x + d + (x + d) * e) * ?n * e =
      x * ?n * (2 * e + e * e) + d * ?n * (1 + 2 * e + e * e)"
    by (simp add: algebra_simps)
  have "d * ?n * (1 + 2 * e + e * e) \<le> d * ?n * 2"
    using d by (intro mult_left_mono mult_nonneg_nonneg) (simp_all add: e_def)
  moreover have "x * ?n * (2 * e + e * e) = x * ?n / 2 ^ 52 + x * ?n / 2 ^ 106"
    by (simp add: e_def algebra_simps)
  ultimately have "(d + (x + d) * e) * ?n + (x + d + (x + d) * e) * ?n * e \<le>
      x * ?n / 2 ^ 52 + x * ?n / 2 ^ 106 + 2 * d * ?n"
    unfolding eq by (simp add: algebra_simps)
  with 2 3 4 show ?thesis
    unfolding double_times_def to_double_nat [OF assms(4)] by linarith
qed

end
