(* ===== verification/Nova_Util.thy ===== *)
theory Nova_Util
  imports Js_Doubles "HOL-Library.Word"
begin

text \<open>
  \<open>NovaLaunch/nova-fe/src/util/index.ts\<close>: amounts, dates, hexadecimal strings and numbers with separators.
  The conversions of \<open>ethers\<close> (\<open>BigNumber.from\<close>, \<open>formatUnits\<close>, \<open>parseUnits\<close>) are the record \<open>ethers\<close>; the
  locale \<open>units\<close> states what its documentation says of them. A \<open>BigNumber\<close> is an object that carries its integer.
\<close>

unbundle bit_operations_syntax

section \<open>Amounts\<close>

record ethers =
  big_from :: "string \<Rightarrow> int option"
  units_string :: "int \<Rightarrow> nat \<Rightarrow> string"
  units_parse :: "string \<Rightarrow> nat \<Rightarrow> int option"

definition big :: "int \<Rightarrow> val" where
  "big n = Obj [(''_isBigNumber'', Bool True), (''_hex'', Num (of_int n))]"

definition big_of :: "val \<Rightarrow> int option" where
  "big_of v = (if get ''_isBigNumber'' (entries v) = Bool True
     then (case get ''_hex'' (entries v) of Num x \<Rightarrow> Some \<lfloor>x\<rfloor> | _ \<Rightarrow> None) else None)"

text \<open>\<open>s.replace(/\.\d+/g, '')\<close>\<close>

function drop_fractions :: "string \<Rightarrow> string" where
  "drop_fractions [] = []"
| "drop_fractions (c # s) = (if c = CHR ''.'' \<and> takeWhile is_digit s \<noteq> []
     then drop_fractions (dropWhile is_digit s) else c # drop_fractions s)"
  by pat_completeness auto
termination by (relation "measure length") (auto simp: le_imp_less_Suc length_dropWhile_le)

text \<open>\<open>parseFloat(parseFloat(s).toFixed(d))\<close>: the decimal is read as a double before it is cut; the \<open>Num\<close> of the result stands for
  the double nearest to it. From \<open>10\<^sup>2\<^sup>1\<close> on, where \<open>toFixed\<close> prints an exponent, reading it back gives the same number.\<close>

definition formatUnits :: "ethers \<Rightarrow> val \<Rightarrow> int \<Rightarrow> nat \<Rightarrow> val" where
  "formatUnits E v fractionDigits decimals =
     (let r = (case v of
          Num x \<Rightarrow> map_option big (big_from E (drop_fractions (js_string v)))
        | Str s \<Rightarrow> map_option big (big_from E (drop_fractions s))
        | _ \<Rightarrow> if v = NaN then map_option big (big_from E ''NaN'') else Some v) in
      case r of None \<Rightarrow> v
      | Some b \<Rightarrow> (case big_of b of None \<Rightarrow> b
        | Some n \<Rightarrow> (case toFixed (map_option to_double (number_of_string (units_string E n decimals))) fractionDigits of
            Inl e \<Rightarrow> Undef | Inr s \<Rightarrow> num_val (number_of_string s))))"

definition formatEther :: "ethers \<Rightarrow> val \<Rightarrow> int \<Rightarrow> val" where
  "formatEther E v fractionDigits = formatUnits E v fractionDigits 18"

text \<open>\<open>v + ''\<close>: a \<open>BigNumber\<close> prints as its decimal.\<close>

definition text_of :: "val \<Rightarrow> string" where
  "text_of v = (case big_of v of Some n \<Rightarrow> show_int n | None \<Rightarrow> js_string v)"

definition parseEther :: "ethers \<Rightarrow> val \<Rightarrow> val" where
  "parseEther E v = (case units_parse E (text_of v) 18 of None \<Rightarrow> v | Some n \<Rightarrow> big n)"

definition parseWei :: "ethers \<Rightarrow> val \<Rightarrow> val" where
  "parseWei E v =
     (let v' = (case big_of v of Some n \<Rightarrow> Str (show_int n) | None \<Rightarrow> v) in
      case units_parse E (text_of v') 0 of None \<Rightarrow> v' | Some n \<Rightarrow> big n)"

section \<open>Dates\<close>

text \<open>The parts of a date in local time, or none for an invalid date.\<close>

record date_parts =
  fullYear :: int
  month :: nat
  dayOfMonth :: nat
  hours :: nat
  minutes :: nat
  seconds :: nat

text \<open>\<open>s.replace(/pat/g, rep)\<close> for a pattern of letters; \<open>eq\<close> compares characters, without case for the flag \<open>i\<close>.\<close>

function replace_all :: "(char \<Rightarrow> char \<Rightarrow> bool) \<Rightarrow> string \<Rightarrow> string \<Rightarrow> string \<Rightarrow> string" where
  "replace_all eq pat rep [] = []"
| "replace_all eq pat rep (c # s) = (if pat \<noteq> [] \<and> list_all2 eq pat (take (length pat) (c # s))
     then rep @ replace_all eq pat rep (drop (length pat) (c # s)) else c # replace_all eq pat rep s)"
  by pat_completeness auto
termination by (relation "measure (\<lambda>(eq, pat, rep, s). length s)") auto

definition same_letter :: "char \<Rightarrow> char \<Rightarrow> bool" where
  "same_letter a b \<longleftrightarrow> lower_char a = lower_char b"

definition fillZero :: "nat \<Rightarrow> string" where
  "fillZero n = (let s = show_nat n in if length s = 1 then CHR ''0'' # s else s)"

definition month_names :: "string list" where
  "month_names = [''January'', ''February'', ''March'', ''April'', ''May'', ''June'', ''July'', ''August'', ''September'',
     ''October'', ''November'', ''December'']"

definition formatDate :: "(rat option \<Rightarrow> date_parts option) \<Rightarrow> val \<Rightarrow> string \<Rightarrow> string" where
  "formatDate local timestamp formatter =
     (case local (to_number timestamp) of None \<Rightarrow> []
      | Some d \<Rightarrow>
        (let ret = (if formatter = [] then ''YYYY-MM-DD'' else formatter) in
         replace_all (=) ''ss'' (fillZero (seconds d))
         (replace_all (=) ''mm'' (fillZero (minutes d))
         (replace_all same_letter ''HH'' (fillZero (hours d))
         (replace_all same_letter ''DD'' (fillZero (dayOfMonth d))
         (replace_all (=) ''Month'' (month_names ! month d)
         (replace_all (=) ''MM'' (fillZero (month d + 1))
         (replace_all same_letter ''YYYY'' (show_int (fullYear d)) ret))))))))"

section \<open>Hexadecimal strings\<close>

definition hex_val :: "char \<Rightarrow> nat option" where
  "hex_val c = (let n = of_char (lower_char c) :: nat in
     if is_digit c then Some (digit_val c) else if 97 \<le> n \<and> n \<le> 102 then Some (n - 87) else None)"

definition is_hex :: "char \<Rightarrow> bool" where
  "is_hex c \<longleftrightarrow> hex_val c \<noteq> None"

text \<open>\<open>parseInt(s, 16)\<close>: blanks, a sign and \<open>0x\<close> are skipped, then the longest run of digits counts; \<open>None\<close> is
  \<open>NaN\<close>.\<close>

definition parseInt16 :: "string \<Rightarrow> int option" where
  "parseInt16 s =
     (let t = dropWhile is_blank s;
          u = (case t of c # cs \<Rightarrow> if c = CHR ''-'' \<or> c = CHR ''+'' then cs else t | [] \<Rightarrow> []);
          w = (if map lower_char (take 2 u) = ''0x'' then drop 2 u else u);
          ds = takeWhile is_hex w;
          n = foldl (\<lambda>a c. 16 * a + int (the (hex_val c))) 0 ds in
      if ds = [] then None else Some (if t \<noteq> [] \<and> hd t = CHR ''-'' then - n else n))"

fun hexToBytes :: "string \<Rightarrow> int option list" where
  "hexToBytes [] = []"
| "hexToBytes [a] = [parseInt16 [a]]"
| "hexToBytes (a # b # s) = parseInt16 [a, b] # hexToBytes s"

definition hex_char :: "nat \<Rightarrow> char" where
  "hex_char d = char_of (if d < 10 then 48 + d else 87 + d)"

fun show_hex :: "nat \<Rightarrow> string" where
  "show_hex n = (if n < 16 then [hex_char n] else show_hex (n div 16) @ [hex_char (n mod 16)])"

declare show_hex.simps [simp del]

text \<open>\<open>>>>\<close> and \<open>&\<close> work on 32 bits, \<open>NaN\<close> counts as 0.\<close>

definition byte_hex :: "int option \<Rightarrow> string" where
  "byte_hex b =
     (let current = (case b of None \<Rightarrow> 0 | Some x \<Rightarrow> if x < 0 then x + 256 else x);
          w = word_of_int current :: 32 word in
      show_hex (unat (drop_bit 4 w)) @ show_hex (unat (w AND 0xF)))"

definition bytesToHex :: "int option list \<Rightarrow> string" where
  "bytesToHex bytes = concat (map byte_hex bytes)"

section \<open>Numbers with separators\<close>

definition is_word_char :: "char \<Rightarrow> bool" where
  "is_word_char c = (let n = of_char (lower_char c) :: nat in is_digit c \<or> 97 \<le> n \<and> n \<le> 122 \<or> c = CHR ''_'')"

text \<open>\<open>s.replace(/\B(?=(?:\d{3})+(?!\d))/g, ",")\<close>: a separator before every digit that follows a word character
  and begins a run of digits whose length is a multiple of three.\<close>

fun insert_commas :: "bool \<Rightarrow> string \<Rightarrow> string" where
  "insert_commas inner [] = []"
| "insert_commas inner (c # s) =
     (if inner \<and> is_digit c \<and> length (takeWhile is_digit (c # s)) mod 3 = 0 then [CHR '','', c] else [c])
       @ insert_commas (is_word_char c) s"

definition separated :: "string \<Rightarrow> string" where
  "separated s = (if list_ex is_digit s then insert_commas False s else [])"

definition seperateNumWithComma :: "val \<Rightarrow> string" where
  "seperateNumWithComma num = separated (js_string num)"

text \<open>\<open>~~x\<close>: the integer part, in 32 bits with a sign.\<close>

definition toInt32 :: "rat option \<Rightarrow> int" where
  "toInt32 x = (case x of None \<Rightarrow> 0
     | Some y \<Rightarrow> sint (word_of_int (if y < 0 then \<lceil>y\<rceil> else \<lfloor>y\<rfloor>) :: 32 word))"

definition formatNumber :: "val \<Rightarrow> string" where
  "formatNumber num = separated
     (case to_number num of
        Some x \<Rightarrow> if x \<ge> 1000000
          then show_int (toInt32 (case toFixed (Some (x / 1000000)) 2 of Inr s \<Rightarrow> number_of_string s | Inl e \<Rightarrow> None)) @ ''M''
          else js_string num
      | None \<Rightarrow> js_string num)"

section \<open>Hexadecimal strings and bytes\<close>

definition good_hex :: "nat \<Rightarrow> char \<Rightarrow> bool" where
  "good_hex d c \<longleftrightarrow> hex_val c = Some d \<and> \<not> is_blank c \<and> c \<noteq> CHR ''-'' \<and> c \<noteq> CHR ''+'' \<and> lower_char c \<noteq> CHR ''x''"

lemma of_lower_char: "(of_char (lower_char c) :: nat) = (let n = of_char c in if 65 \<le> n \<and> n \<le> 90 then n + 32 else n)"
  by (simp add: lower_char_def Let_def)

lemma char_neq: "(of_char a :: nat) \<noteq> of_char b \<Longrightarrow> a \<noteq> b"
  by blast

lemma hex_val_good:
  assumes "hex_val c = Some d"
  shows "d < 16 \<and> good_hex d c \<and> hex_char d = lower_char c"
proof -
  let ?n = "of_char c :: nat"
  have d: "48 \<le> ?n \<and> ?n \<le> 57 \<and> d = ?n - 48 \<or> 97 \<le> ?n \<and> ?n \<le> 102 \<and> d = ?n - 87 \<or> 65 \<le> ?n \<and> ?n \<le> 70 \<and> d = ?n - 55"
    using assms by (auto simp: hex_val_def is_digit_def digit_val_def Let_def of_lower_char split: if_splits)
  then have "(of_char (hex_char d) :: nat) = of_char (lower_char c)"
    by (auto simp: hex_char_def of_lower_char)
  moreover have "\<not> is_blank c" "c \<noteq> CHR ''-''" "c \<noteq> CHR ''+''" "lower_char c \<noteq> CHR ''x''"
    using d by (auto simp: is_blank_def of_lower_char intro!: char_neq)
  ultimately show ?thesis using assms d by (auto simp: good_hex_def)
qed

lemma hex_char_good: "d < 16 \<Longrightarrow> good_hex d (hex_char d)"
proof -
  assume d: "d < 16"
  then have "hex_val (hex_char d) = Some d"
    by (auto simp: hex_val_def hex_char_def is_digit_def digit_val_def Let_def of_lower_char)
  then show ?thesis by (rule hex_val_good [THEN conjunct2, THEN conjunct1])
qed

lemma byte_hex_pair:
  assumes "x < 16" "y < 16"
  shows "unat (drop_bit 4 (word_of_int (16 * int x + int y) :: 32 word)) = x"
    "unat ((word_of_int (16 * int x + int y) :: 32 word) AND 0xF) = y"
proof -
  let ?w = "word_of_int (16 * int x + int y) :: 32 word"
  have w: "?w = word_of_nat (16 * x + y)" by simp
  have "take_bit 32 (16 * x + y) = 16 * x + y" by (rule take_bit_nat_eq_self) (use assms in simp)
  then have u: "unat ?w = 16 * x + y" unfolding w unsigned_of_nat by simp
  show "unat (drop_bit 4 ?w) = x" unfolding unat_drop_bit_eq u using assms by (simp add: drop_bit_eq_div)
  have m: "0xF = (mask 4 :: 32 word)" by (simp add: mask_eq_exp_minus_1)
  have "unat (?w AND 0xF) = take_bit 4 (unat ?w)" unfolding m by (simp only: take_bit_eq_mask [symmetric] unsigned_take_bit_eq)
  then show "unat (?w AND 0xF) = y" unfolding u using assms by (simp add: take_bit_eq_mod)
qed

lemma show_hex_small: "d < 16 \<Longrightarrow> show_hex d = [hex_char d]"
  by (subst show_hex.simps) simp

lemma byte_hex_nat: "n < 256 \<Longrightarrow> byte_hex (Some (int n)) = [hex_char (n div 16), hex_char (n mod 16)]"
proof -
  assume "n < 256"
  then have b: "n div 16 < 16" "n mod 16 < 16" by auto
  have "16 * int (n div 16) + int (n mod 16) = int n"
    by (metis int_ops(7) mult_div_mod_eq of_nat_add of_nat_numeral)
  with byte_hex_pair [OF b] have w: "unat (drop_bit 4 (word_of_int (int n) :: 32 word)) = n div 16"
    "unat ((word_of_int (int n) :: 32 word) AND 0xF) = n mod 16" by simp_all
  have "byte_hex (Some (int n)) = show_hex (n div 16) @ show_hex (n mod 16)"
    unfolding byte_hex_def Let_def option.case using w by simp
  with b show ?thesis by (simp add: show_hex_small)
qed

lemma parseInt16_pair: "good_hex x a \<Longrightarrow> good_hex y b \<Longrightarrow> parseInt16 [a, b] = Some (int (16 * x + y))"
  and parseInt16_single: "good_hex x a \<Longrightarrow> parseInt16 [a] = Some (int x)"
  by (simp_all add: parseInt16_def is_hex_def good_hex_def Let_def)

lemma hexToBytes_bytes: "list_all (\<lambda>n. n < 256) ns \<Longrightarrow> hexToBytes (bytesToHex (map (Some \<circ> int) ns)) = map (Some \<circ> int) ns"
proof (induction ns)
  case (Cons n ns)
  have g: "good_hex (n div 16) (hex_char (n div 16))" "good_hex (n mod 16) (hex_char (n mod 16))"
    using Cons.prems by (auto intro!: hex_char_good)
  show ?case using Cons parseInt16_pair [OF g] by (simp add: bytesToHex_def byte_hex_nat)
qed (simp add: bytesToHex_def)

lemma hex_char_zero: "hex_char 0 = CHR ''0''"
proof -
  have "char_of (of_char (CHR ''0'') :: nat) = CHR ''0''" by (rule char_of_char)
  then show ?thesis by (simp add: hex_char_def)
qed

lemma bytesToHex_digits:
  "list_all is_hex h \<Longrightarrow> bytesToHex (hexToBytes h) =
     (if even (length h) then toLowerCase h else toLowerCase (butlast h) @ [CHR ''0'', lower_char (last h)])"
proof (induction h rule: hexToBytes.induct)
  case (2 a)
  then obtain x where x: "hex_val a = Some x" by (auto simp: is_hex_def)
  from hex_val_good [OF this] have g: "good_hex x a" "x < 16" "hex_char x = lower_char a" by auto
  then show ?case
    by (simp add: bytesToHex_def parseInt16_single byte_hex_nat toLowerCase_def hex_char_zero)
next
  case (3 a b s)
  then obtain x y where "hex_val a = Some x" "hex_val b = Some y" by (auto simp: is_hex_def)
  from hex_val_good [OF this(1)] hex_val_good [OF this(2)]
  have g: "good_hex x a" "good_hex y b" "x < 16" "y < 16" "hex_char x = lower_char a" "hex_char y = lower_char b" by auto
  have "byte_hex (Some (int (16 * x + y))) = [lower_char a, lower_char b]"
    using g by (subst byte_hex_nat) auto
  with 3 g show ?case by (auto simp: bytesToHex_def parseInt16_pair toLowerCase_def)
qed (simp add: bytesToHex_def toLowerCase_def)

text \<open>The reference\<close>

definition three_digits :: "nat \<Rightarrow> string" where
  "three_digits m = [digit_char (m div 100), digit_char (m div 10 mod 10), digit_char (m mod 10)]"

fun thousands :: "nat \<Rightarrow> string" where
  "thousands n = (if n < 1000 then show_nat n else thousands (n div 1000) @ CHR '','' # three_digits (n mod 1000))"

declare thousands.simps [simp del]

lemma digit_word: "is_digit c \<Longrightarrow> is_word_char c"
  by (simp add: is_word_char_def Let_def)

lemma commas_Cons:
  "list_all is_digit (c # s) \<Longrightarrow> insert_commas inner (c # s) =
     (if inner \<and> length (c # s) mod 3 = 0 then [CHR '','', c] else [c]) @ insert_commas True s"
proof -
  assume "list_all is_digit (c # s)"
  moreover from this have "takeWhile is_digit (c # s) = c # s" by (simp only: takeWhile_eq_all_conv list_all_iff)
  moreover have "is_digit c" "is_word_char c" using \<open>list_all is_digit (c # s)\<close> by (simp_all add: digit_word)
  ultimately show ?thesis by (simp only: insert_commas.simps simp_thms)
qed

lemma commas_append:
  "list_all is_digit (s @ t) \<Longrightarrow> s \<noteq> [] \<Longrightarrow> length t = 3 \<Longrightarrow> insert_commas inner (s @ t) = insert_commas inner s @ CHR '','' # t"
proof (induction s arbitrary: inner)
  case (Cons c s)
  have "length (c # s @ t) = length (c # s) + 3" using Cons.prems(3) by simp
  then have l: "length (c # s @ t) mod 3 = length (c # s) mod 3" by (simp only: mod_add_self2)
  have h: "insert_commas inner (c # s @ t) =
      (if inner \<and> length (c # s) mod 3 = 0 then [CHR '','', c] else [c]) @ insert_commas True (s @ t)"
    using Cons.prems commas_Cons [of c "s @ t" inner] unfolding l by simp
  show ?case
  proof (cases "s = []")
    case True
    from Cons.prems obtain x y z where "t = [x, y, z]" by (auto simp: length_Suc_conv numeral_3_eq_3)
    with Cons.prems True h show ?thesis by (simp add: commas_Cons)
  next
    case False
    with Cons.prems have "insert_commas True (s @ t) = insert_commas True s @ CHR '','' # t" by (intro Cons.IH) auto
    with h Cons.prems commas_Cons [of c s inner] show ?thesis by simp
  qed
qed simp

lemma show_nat_thousand: "1000 \<le> n \<Longrightarrow> show_nat n = show_nat (n div 1000) @ three_digits (n mod 1000)"
proof -
  assume n: "1000 \<le> n"
  have "show_nat n = show_nat (n div 10) @ [digit_char (n mod 10)]" using n by (subst show_nat.simps) simp
  also have "show_nat (n div 10) = show_nat (n div 10 div 10) @ [digit_char (n div 10 mod 10)]" using n by (subst show_nat.simps) auto
  also have "show_nat (n div 10 div 10) = show_nat (n div 10 div 10 div 10) @ [digit_char (n div 10 div 10 mod 10)]"
    using n by (subst show_nat.simps) auto
  finally have "show_nat n = show_nat (n div 1000) @ [digit_char (n div 100 mod 10), digit_char (n div 10 mod 10), digit_char (n mod 10)]"
    by (simp add: div_mult2_eq [symmetric])
  moreover have "n mod 1000 div 100 = n div 100 mod 10" "n mod 1000 div 10 mod 10 = n div 10 mod 10" "n mod 1000 mod 10 = n mod 10"
  proof -
    show "n mod 1000 div 100 = n div 100 mod 10" using mod_mult2_eq [of n 100 10] by simp
    show "n mod 1000 div 10 mod 10 = n div 10 mod 10" using mod_mult2_eq [of n 10 100] by (simp add: mod_mod_cancel)
    show "n mod 1000 mod 10 = n mod 10" by (simp add: mod_mod_cancel)
  qed
  ultimately show ?thesis by (simp add: three_digits_def)
qed

lemma show_nat_step: "10 \<le> n \<Longrightarrow> show_nat n = show_nat (n div 10) @ [digit_char (n mod 10)]"
  and show_nat_digit: "n < 10 \<Longrightarrow> show_nat n = [digit_char n]"
  by (subst show_nat.simps, simp)+

lemma show_nat_short: "n < 1000 \<Longrightarrow> length (show_nat n) \<le> 3"
proof -
  assume n: "n < 1000"
  consider "n < 10" | "10 \<le> n" "n div 10 < 10" | "10 \<le> n" "10 \<le> n div 10" by linarith
  then show ?thesis
  proof cases
    case 3
    have "n div 10 div 10 < 10" using n by linarith
    with 3 show ?thesis by (simp only: show_nat_step show_nat_digit) simp
  qed (simp_all only: show_nat_step show_nat_digit, simp_all)
qed

lemma separated_nat: "separated (show_nat n) = thousands n"
proof -
  have d: "list_all is_digit (show_nat n)" for n using show_nat_digits by (simp add: list_all_iff)
  have "insert_commas False (show_nat n) = thousands n"
  proof (induction n rule: thousands.induct)
    case (1 n)
    show ?case
    proof (cases "n < 1000")
      case True
      then have "length (show_nat n) \<le> 3" by (rule show_nat_short)
      then have "\<exists>a b c. show_nat n = [a] \<or> show_nat n = [a, b] \<or> show_nat n = [a, b, c]"
        using show_nat_nonempty [of n] by (cases "show_nat n" rule: remdups_adj.cases) (auto simp: le_Suc_eq length_Suc_conv numeral_3_eq_3)
      with d [of n] True show ?thesis by (subst thousands.simps) (auto simp: commas_Cons)
    next
      case False
      then have s: "show_nat n = show_nat (n div 1000) @ three_digits (n mod 1000)" by (intro show_nat_thousand) simp
      have "insert_commas False (show_nat n) = insert_commas False (show_nat (n div 1000)) @ CHR '','' # three_digits (n mod 1000)"
        unfolding s by (rule commas_append) (use d [of n] s show_nat_nonempty in \<open>auto simp: three_digits_def\<close>)
      with 1 False show ?thesis by (simp add: thousands.simps [of n])
    qed
  qed
  moreover have "list_ex is_digit (show_nat n)"
    using d [of n] show_nat_nonempty [of n] by (cases "show_nat n") auto
  ultimately show ?thesis by (simp add: separated_def)
qed

lemma thousands_split: "thousands n = (if n < 1000 then show_nat n else thousands (n div 1000) @ CHR '','' # three_digits (n mod 1000))"
  by (rule thousands.simps)

lemma js_string_nat: "js_string (Num (of_nat n)) = show_nat n"
  by (simp add: string_of_number_def string_of_abs_def frac_def)

section \<open>Amounts as decimals\<close>

text \<open>What the documentation of \<open>ethers\<close> says of the two conversions: \<open>formatUnits\<close> prints \<open>n / 10\<^sup>d\<close> exactly, and
  \<open>parseUnits\<close> reads a decimal exactly or throws when it has more than \<open>d\<close> digits after the point.\<close>

locale units =
  fixes E :: ethers
  assumes units_format: "d \<le> 20 \<Longrightarrow> number_of_string (units_string E n d) = Some (of_int n / 10 ^ d)"
    and units_exact: "decimal 20 x \<Longrightarrow> decimal d x \<Longrightarrow> units_parse E (js_string (Num x)) d = Some \<lfloor>x * 10 ^ d\<rfloor>"
    and units_fine: "decimal 20 x \<Longrightarrow> \<not> decimal d x \<Longrightarrow> units_parse E (js_string (Num x)) d = None"

lemma read_digits_zeros: "read_digits (replicate k (CHR ''0'') @ s) = read_digits s"
  by (induction k) (simp_all add: read_digits_Cons digit_val_def)

lemma number_of_fixed: "number_of_string (fixed_digits d n) = Some (of_nat n / 10 ^ d)"
proof -
  let ?t = "replicate (Suc d - length (show_nat n)) (CHR ''0'') @ show_nat n"
  let ?a = "take (length ?t - d) ?t" and ?b = "drop (length ?t - d) ?t"
  have dig: "list_all is_digit ?t" using show_nat_digits [of n] by (auto simp: list_all_iff is_digit_def)
  have len: "d < length ?t" by simp
  have read: "read_digits ?t = n" by (simp only: read_digits_zeros read_show_nat)
  have ab: "list_all is_digit ?a" "list_all is_digit ?b" "?a \<noteq> []" "length ?b = d"
    using dig len by (auto simp: list_all_iff dest: in_set_takeD in_set_dropD simp del: append_take_drop_id)
  have plain: "number_of_string s = toNumber s" if p: "list_all plain_char s" and ne: "s \<noteq> []" for s
  proof -
    have "trim s = s" using p plain_charD(5) by (intro trim_plain) (auto simp: list_all_iff)
    moreover obtain c cs where "s = c # cs" using ne by (cases s) auto
    ultimately show ?thesis using p plain_charD(3,4) [of c] by (simp add: number_of_string_def unsigned_plain)
  qed
  show ?thesis
  proof (cases "d = 0")
    case True
    have ne: "?t \<noteq> []" using len by force
    have "list_all plain_char ?t" using dig by (auto simp: list_all_iff plain_char_def)
    from plain [OF this ne] toNumber_int [OF dig ne] read
    have "number_of_string ?t = Some (of_nat n)" by simp
    moreover have "fixed_digits d n = ?t" using True by (simp add: fixed_digits_def Let_def)
    ultimately show ?thesis using True by simp
  next
    case False
    have "read_digits ?a * 10 ^ d + read_digits ?b = n"
      using read_digits_append [of ?a ?b] read ab(4) by (simp only: append_take_drop_id)
    then have e: "(of_nat (read_digits ?a) * 10 ^ d + of_nat (read_digits ?b) :: rat) = of_nat n"
      by (metis of_nat_add of_nat_mult of_nat_numeral of_nat_power)
    have "(of_nat (read_digits ?a) :: rat) + of_nat (read_digits ?b) / 10 ^ d = of_nat n / 10 ^ d"
      unfolding e [symmetric] by (simp add: add_divide_distrib)
    moreover have "fixed_digits d n = ?a @ CHR ''.'' # ?b"
      using False unfolding fixed_digits_def Let_def by (simp only: if_False)
    moreover have p: "list_all plain_char (?a @ CHR ''.'' # ?b)"
      using ab(1,2) unfolding list_all_iff set_append list.set plain_char_def by blast
    moreover have ne: "?a @ CHR ''.'' # ?b \<noteq> []" by blast
    ultimately show ?thesis
      by (simp only: plain [OF p ne] toNumber_point [OF ab(1,3,2)] ab(4))
  qed
qed

definition rounded :: "nat \<Rightarrow> rat \<Rightarrow> rat" where
  "rounded k x = of_int \<lfloor>x * 10 ^ k + 1 / 2\<rfloor> / 10 ^ k"

lemma rounded_close: "\<bar>rounded k x - x\<bar> \<le> 1 / (2 * 10 ^ k)"
proof -
  let ?m = "of_int \<lfloor>x * 10 ^ k + 1 / 2\<rfloor> :: rat"
  have m: "\<bar>?m - x * 10 ^ k\<bar> \<le> 1 / 2" by linarith
  have "rounded k x - x = (?m - x * 10 ^ k) / 10 ^ k" by (simp add: rounded_def diff_divide_distrib)
  then have "\<bar>rounded k x - x\<bar> = \<bar>?m - x * 10 ^ k\<bar> / 10 ^ k" by simp
  also have "\<dots> \<le> 1 / 2 / 10 ^ k" using m by (intro divide_right_mono) simp_all
  finally show ?thesis by simp
qed

lemma toFixed_value: "0 \<le> x \<Longrightarrow> k \<le> 100 \<Longrightarrow> \<exists>s. toFixed (Some x) (int k) = Inr s \<and> number_of_string s = Some (rounded k x)"
proof -
  assume x: "0 \<le> x" "k \<le> 100"
  have "0 \<le> x * 10 ^ k + 1 / 2" using x by (intro add_nonneg_nonneg mult_nonneg_nonneg) auto
  then have "(of_nat (nat \<lfloor>x * 10 ^ k + 1 / 2\<rfloor>) :: rat) = of_int \<lfloor>x * 10 ^ k + 1 / 2\<rfloor>" by simp
  with x show ?thesis by (simp add: toFixed_def number_of_fixed rounded_def)
qed

lemma big_of_big [simp]: "big_of (big n) = Some n"
  by (simp add: big_def big_of_def)

lemma formatUnits_big: "formatUnits E (big n) k d = (case toFixed (map_option to_double (number_of_string (units_string E n d))) k of
    Inl e \<Rightarrow> Undef | Inr s \<Rightarrow> num_val (number_of_string s))"
  by (simp add: formatUnits_def big_def NaN_def big_of_def)

context units
begin

lemma formatEther_big: "0 \<le> n \<Longrightarrow> k \<le> 100 \<Longrightarrow> formatEther E (big n) (int k) = Num (rounded k (to_double (of_int n / 10 ^ 18)))"
  using toFixed_value [of "to_double (of_int n / 10 ^ 18)" k] units_format [of 18 n] to_double_nonneg [of "of_int n / 10 ^ 18"]
  by (auto simp: formatEther_def formatUnits_big)

lemma parseEther_number:
  "decimal 20 x \<Longrightarrow> parseEther E (Num x) = (if decimal 18 x then big \<lfloor>x * 10 ^ 18\<rfloor> else Num x)"
  using units_exact [of x 18] units_fine [of x 18] by (auto simp: parseEther_def text_of_def big_of_def)

end

text \<open>An exact printer and reader of decimals.\<close>

definition plain_units :: ethers where
  "plain_units = \<lparr> big_from = (\<lambda>s. map_option floor (number_of_string s)),
     units_string = (\<lambda>n d. string_of_number (Some (of_int n / 10 ^ d))),
     units_parse = (\<lambda>s d. case number_of_string s of None \<Rightarrow> None
       | Some x \<Rightarrow> if decimal d x then Some \<lfloor>x * 10 ^ d\<rfloor> else None) \<rparr>"

interpretation plain: units plain_units
proof
  fix n :: int and d :: nat
  assume d: "d \<le> 20"
  then have "(of_int n / 10 ^ d) * 10 ^ 20 = (of_int (n * 10 ^ (20 - d)) :: rat)"
    by (simp add: field_simps flip: power_add)
  then have "decimal 20 (of_int n / 10 ^ d)" unfolding decimal_Ints by (metis Ints_of_int)
  then show "number_of_string (units_string plain_units n d) = Some (of_int n / 10 ^ d)"
    by (simp add: plain_units_def number_of_string_of_number)
qed (simp_all add: plain_units_def number_of_string_of_number)

section \<open>Properties\<close>

text \<open>C15: bytes survive their hexadecimal string, and a hexadecimal string of even length comes back in lower case.
  One of odd length does not: its last digit is read as a byte of its own, so a \<open>0\<close> appears before it.\<close>

theorem hex_roundtrip:
  assumes "list_all (\<lambda>n. n < 256) ns" and "list_all is_hex h"
  shows "hexToBytes (bytesToHex (map (Some \<circ> int) ns)) = map (Some \<circ> int) ns \<and>
    bytesToHex (hexToBytes h) =
      (if even (length h) then toLowerCase h else toLowerCase (butlast h) @ [CHR ''0'', lower_char (last h)])"
  using hexToBytes_bytes [OF assms(1)] bytesToHex_digits [OF assms(2)] by simp

theorem hex_roundtrip_witness:
  "hexToBytes (bytesToHex (map (Some \<circ> int) [0, 171, 255])) = map (Some \<circ> int) [0, 171, 255] \<and>
   bytesToHex (hexToBytes ''123'') = ''12'' @ ''03''"
  using hex_roundtrip [of "[0, 171, 255]" "''123''"]
  by (simp add: is_hex_def hex_val_def is_digit_def Let_def toLowerCase_def lower_char_def)

text \<open>For a whole number \<open>seperateNumWithComma\<close> is the grouping of its decimal digits in thousands: the
  regular expression, which looks ahead at every position, agrees with the recursion on the quotient by 1000.\<close>

theorem comma_groups: "seperateNumWithComma (Num (of_nat n)) = thousands n"
  unfolding seperateNumWithComma_def js_string_nat by (rule separated_nat)

lemma comma_in_fraction: "separated ''0.1234'' = ''0.1,234''"
  by (simp add: separated_def is_digit_def is_word_char_def Let_def lower_char_def)

text \<open>An amount of tokens is shown to \<open>k\<close> digits within half a unit of the last one and the rounding of a double, and a decimal with at most
  18 digits after the point is converted to its exact number of units; one with more is passed on unconverted.\<close>

theorem amounts_within_half_a_unit:
  assumes "units E" and "0 \<le> n" and "k \<le> 100" and "decimal 20 x"
  shows "(\<exists>r. formatEther E (big n) (int k) = Num r \<and> \<bar>r - of_int n / 10 ^ 18\<bar> \<le> 1 / (2 * 10 ^ k) + of_int n / 10 ^ 18 / 2 ^ 53) \<and>
    parseEther E (Num x) = (if decimal 18 x then big \<lfloor>x * 10 ^ 18\<rfloor> else Num x)"
proof -
  let ?x = "of_int n / 10 ^ 18 :: rat"
  have "\<bar>to_double ?x - ?x\<bar> \<le> ?x / 2 ^ 53" using to_double_close [of ?x] assms(2) by simp
  then have "\<bar>rounded k (to_double ?x) - ?x\<bar> \<le> 1 / (2 * 10 ^ k) + ?x / 2 ^ 53"
    using rounded_close [of k "to_double ?x"] by linarith
  then show ?thesis using units.formatEther_big [OF assms(1-3)] units.parseEther_number [OF assms(1,4)] by auto
qed

theorem amounts_within_half_a_unit_witness:
  "(\<exists>r. formatEther plain_units (big 996000000000000000) 2 = Num r \<and> \<bar>r - 996 / 1000\<bar> \<le> 1 / 200 + 996 / 1000 / 2 ^ 53) \<and>
   parseEther plain_units (Num (3 / 2)) = big 1500000000000000000"
proof -
  have d: "decimal k (3 / 2)" if "1 \<le> k" for k
    using that by (cases k) (simp_all add: decimal_Ints)
  show ?thesis
    using amounts_within_half_a_unit [OF plain.units_axioms, of 996000000000000000 2 "3 / 2"] d by auto
qed

end
