(* ===== verification/Page_Env.thy ===== *)
theory Page_Env
  imports Effects Js_Numbers
begin

text \<open>
  What the pages of the launchpad share: \<open>hooks/useErrorHandler.ts\<close>, \<open>hooks/useMessage.ts\<close>, the setters of
  React state and the list of what a page has done (the trace). A handler is a closure of one rendering: it sees the
  state of that rendering, and what its setters write is seen by the next one, so the setters only extend the trace.
  A promise that nobody awaits is run at the point where it is started; what it throws is lost (\<open>floating\<close>).
\<close>

section \<open>Operations of a page\<close>

datatype 'tx page_op =
    Tx 'tx
  | Shown bool string
  | Set string val

text \<open>What remains of a trace when the setters are left out: transactions and messages.\<close>

definition core :: "'tx page_op list \<Rightarrow> 'tx page_op list" where
  "core t = filter (\<lambda>p. case p of Set s x \<Rightarrow> False | _ \<Rightarrow> True) t"

lemma core_simps [simp]:
  "core [] = []" "core (t @ u) = core t @ core u"
  "core (Tx x # t) = Tx x # core t" "core (Shown b s # t) = Shown b s # core t" "core (Set n y # t) = core t"
  by (simp_all add: core_def)

lemma core_Set: "core [Set n y] = []" and core_Shown: "core [Shown b s] = [Shown b s]" and core_Tx: "core [Tx x] = [Tx x]"
  by simp_all

text \<open>The transactions of a trace.\<close>

fun sent :: "'tx page_op list \<Rightarrow> 'tx list" where
  "sent [] = []"
| "sent (Tx x # t) = x # sent t"
| "sent (_ # t) = sent t"

lemma sent_append [simp]: "sent (t @ u) = sent t @ sent u"
  by (induction t rule: sent.induct) simp_all

text \<open>The value a variable of the page was set to last.\<close>

fun value_of :: "string \<Rightarrow> val \<Rightarrow> 'tx page_op list \<Rightarrow> val" where
  "value_of n x [] = x"
| "value_of n x (Set m y # t) = value_of n (if m = n then y else x) t"
| "value_of n x (_ # t) = value_of n x t"

lemma value_of_append [simp]: "value_of n x (t @ u) = value_of n (value_of n x t) u"
  by (induction n x t rule: value_of.induct) simp_all

record 'w page_env =
  thrown :: "js_error \<Rightarrow> val"
  set_state :: "string \<Rightarrow> val \<Rightarrow> ('w, unit) io"
  show_message :: "bool \<Rightarrow> string \<Rightarrow> ('w, unit) io"

text \<open>\<open>Promise.reject()\<close> rejects with \<open>undefined\<close>.\<close>

definition rejected :: js_error where
  "rejected = JsError []"

definition error_value :: "('w, 'x) page_env_scheme \<Rightarrow> js_error \<Rightarrow> val" where
  "error_value E e = (if e = rejected then Undef else thrown E e)"

definition setSuccessMessage :: "('w, 'x) page_env_scheme \<Rightarrow> string \<Rightarrow> ('w, unit) io" where
  "setSuccessMessage E content = show_message E True content"

definition setErrorMessage :: "('w, 'x) page_env_scheme \<Rightarrow> string \<Rightarrow> ('w, unit) io" where
  "setErrorMessage E content = show_message E False content"

text \<open>\<open>m.then(f).catch(console.error)\<close> and a promise nobody awaits.\<close>

definition floating :: "('w, 'a) io \<Rightarrow> ('w, unit) io" where
  "floating m = catchio (seqio m (ret ())) (\<lambda>e. ret ())"

section \<open>useErrorHandler.ts\<close>

definition errorMessageMaps :: "(string \<times> string) list" where
  "errorMessageMaps = [
     (''Last sale you registered for is not finished yet.'', ''Last sale you registered for is not finished yet.''),
     (''withdraw: can'' @ [CHR 0x27] @ ''t withdraw more than deposit'', ''withdraw: can'' @ [CHR 0x27] @ ''t withdraw more than deposit''),
     (''Registration gate is closed.'', ''Registration not start yet, please try again later.''),
     (''ERC20: transfer amount exceeds allowance'', ''Approve amount should be greater than staking amount!'')]"

definition mapped_message :: "val \<Rightarrow> val" where
  "mapped_message v = (case map_of errorMessageMaps (js_string v) of Some m \<Rightarrow> Str m | None \<Rightarrow> v)"

definition js_or :: "val \<Rightarrow> val \<Rightarrow> val" where
  "js_or a b = (if truthy_val a then a else b)"

text \<open>\<open>v?.k\<close>\<close>

definition opt_member :: "val \<Rightarrow> string \<Rightarrow> val" where
  "opt_member v k = (case v of Obj ob \<Rightarrow> get k ob | _ \<Rightarrow> Undef)"

definition is_object :: "val \<Rightarrow> bool" where
  "is_object v = (case v of Obj ob \<Rightarrow> True | Arr xs \<Rightarrow> True | Ref n \<Rightarrow> n \<noteq> 0 | _ \<Rightarrow> False)"

text \<open>\<open>m.replace(/execution reverted: /, '')\<close> of a value that need not be a string.\<close>

definition without_revert :: "val \<Rightarrow> js_error + val" where
  "without_revert m = (case m of Str s \<Rightarrow> Inr (Str (remove_first ''execution reverted: '' s))
     | _ \<Rightarrow> Inl (TypeError ''replace is not a function''))"

text \<open>The second group of \<open>/("message"):(".*")/g.exec(s)\<close>: from the quote after the first \<open>"message":\<close> that has
  another quote behind it on its line, up to the last one of the line. The quotes belong to the group.\<close>

definition dquote :: char where
  "dquote = CHR 0x22"

definition to_last_quote :: "string \<Rightarrow> string option" where
  "to_last_quote s = (let l = takeWhile (\<lambda>c. c \<noteq> CHR 0x0A \<and> c \<noteq> CHR 0x0D) s in
     if dquote \<in> set l then Some (rev (dropWhile (\<lambda>c. c \<noteq> dquote) (rev l))) else None)"

definition message_key :: string where
  "message_key = dquote # ''message'' @ [dquote, CHR '':'', dquote]"

fun quoted_message :: "string \<Rightarrow> string option" where
  "quoted_message [] = None"
| "quoted_message (c # s) =
     (case (if prefix message_key (c # s) then to_last_quote (drop (length message_key) (c # s)) else None) of
        Some m \<Rightarrow> Some (dquote # m) | None \<Rightarrow> quoted_message s)"

definition getErrorMessage :: "val \<Rightarrow> js_error + val" where
  "getErrorMessage err =
     (if truthy_val err \<and> equals_num (opt_member err ''code'') (Some (- 32603)) then
        (let m = opt_member (opt_member err ''data'') ''message'' in
         if truthy_val m then (case without_revert m of Inl e \<Rightarrow> Inl e
           | Inr s \<Rightarrow> Inr (mapped_message (js_or s (Str []))))
         else Inr (mapped_message (Str [])))
      else if truthy_val err \<and> is_object err then
        Inr (mapped_message (js_or (opt_member (opt_member err ''data'') ''message'') (js_or (opt_member err ''message'') (Str []))))
      else (case err of
          Str s \<Rightarrow> Inr (mapped_message (case quoted_message s of
              Some m \<Rightarrow> Str (remove_first ''execution reverted: '' m) | None \<Rightarrow> Str []))
        | _ \<Rightarrow> Inr Undef))"

text \<open>\<open>'Stake failed. ' + (msg || '')\<close>\<close>

definition failure_text :: "string \<Rightarrow> val \<Rightarrow> string" where
  "failure_text title msg = title @ js_string (js_or msg (Str []))"

section \<open>The interface\<close>

text \<open>Setters and messages never throw; each leaves its mark.\<close>

locale page =
  fixes E :: "('w, 'x) page_env_scheme" and v :: "'w \<Rightarrow> 'tx page_op list"
  assumes set_state_marks: "writing v (set_state E n x) (\<lambda>t. t @ [Set n x])" "total_io (set_state E n x)"
    and message_marks: "writing v (show_message E b s) (\<lambda>t. t @ [Shown b s])" "total_io (show_message E b s)"

text \<open>Through \<open>core\<close> a setter is silent. Calls composed of silent ones are silent.\<close>

definition cored :: "('w \<Rightarrow> 'tx page_op list) \<Rightarrow> 'w \<Rightarrow> 'tx page_op list" where
  "cored v w = core (v w)"

named_theorems silent_rules "rules that decompose silent"

lemma silent_ret [silent_rules]: "silent u (ret x)" and silent_throw [silent_rules]: "silent u (throw e)"
  by (simp_all add: silent_def ret_def throw_def)

lemma silent_bind [silent_rules]: "silent u m \<Longrightarrow> (\<And>x. silent u (g x)) \<Longrightarrow> silent u (bindio m g)"
  unfolding silent_def bindio_def by (auto split: prod.split sum.split) (metis snd_conv)+

lemma silent_seq [silent_rules]: "silent u m \<Longrightarrow> silent u n \<Longrightarrow> silent u (seqio m n)"
  unfolding seqio_def by (rule silent_bind)

lemma silent_catch [silent_rules]: "silent u m \<Longrightarrow> (\<And>e. silent u (h e)) \<Longrightarrow> silent u (catchio m h)"
  unfolding silent_def catchio_def by (auto split: prod.split sum.split) (metis snd_conv)+

lemma silent_if [silent_rules]: "(b \<Longrightarrow> silent u m) \<Longrightarrow> (\<not> b \<Longrightarrow> silent u n) \<Longrightarrow> silent u (if b then m else n)"
  by simp

lemma silent_option [silent_rules]:
  "silent u m \<Longrightarrow> (\<And>y. silent u (f y)) \<Longrightarrow> silent u (case x of None \<Rightarrow> m | Some y \<Rightarrow> f y)"
  by (cases x) auto

lemma silent_finally [silent_rules]: "silent u m \<Longrightarrow> silent u f \<Longrightarrow> silent u (finallyio m f)"
  unfolding silent_def finallyio_def by (auto split: prod.split sum.split) (metis snd_conv)+

lemma silent_lift [silent_rules]: "silent u (lift y)"
  by (cases y) (simp_all add: silent_ret silent_throw)

text \<open>A call that always throws, and what follows it.\<close>

lemma runs_failing:
  assumes "silent u m" and "\<And>w. \<exists>e. fst (m w) = Inl e" and "R d"
  shows "runs u d (bindio m g) Q R"
proof (rule tripleI)
  fix w assume w: "u w = d"
  obtain e w1 where m: "m w = (Inl e, w1)" using assms(2) [of w] by (metis prod.collapse)
  then have "u w1 = d" using assms(1) w unfolding silent_def by (metis snd_conv)
  with m assms(3) show "outcome u Q R (bindio m g w)" by (simp add: bindio_def)
qed

lemma silent_floating [silent_rules]: "silent u m \<Longrightarrow> silent u (floating m)"
  unfolding floating_def by (intro silent_rules)

lemma total_floating: "total_io (floating m)"
  by (auto simp: total_io_def floating_def catchio_def ret_def split: prod.split sum.split)

lemma total_seq: "total_io m \<Longrightarrow> total_io n \<Longrightarrow> total_io (seqio m n)"
  unfolding total_io_def seqio_def bindio_def by (auto split: prod.split sum.split) (metis fst_conv sum.distinct(1))

lemma total_ret: "total_io (ret x)"
  by (simp add: total_io_def ret_def)

lemma silent_cored: "silent v m \<Longrightarrow> silent (cored v) m"
  by (simp add: silent_def cored_def)

lemma writing_cored:
  assumes "writing v m (\<lambda>t. t @ l)" and "core l = l'"
  shows "writing (cored v) m (\<lambda>c. c @ l')"
  unfolding writing_def cored_def
proof
  fix w
  show "(\<exists>x. fst (m w) = Inr x) \<and> core (v (snd (m w))) = core (v w) @ l' \<or>
      (\<exists>e. fst (m w) = Inl e) \<and> core (v (snd (m w))) = core (v w)"
    using assms(1) [unfolded writing_def, THEN spec, of w] assms(2) by auto
qed

lemma runs_floating:
  "silent u m \<Longrightarrow> runs u d n Q R \<Longrightarrow> runs u d (seqio (floating m) n) Q R"
  unfolding seqio_def by (rule runs_silent) (auto simp: total_floating intro: silent_rules)

lemma runs_floating_end: "silent u m \<Longrightarrow> Q () d \<Longrightarrow> runs u d (floating m) Q R"
  using silent_floating [of u m] total_floating [of m] unfolding triple_def outcome_def silent_def total_io_def
  by (auto split: sum.split)

lemma tripleD_all: "triple u P m Q R \<Longrightarrow> P d \<Longrightarrow> runs u d m Q R"
  by (simp add: triple_def)

lemma runs_silent_end: "silent u m \<Longrightarrow> (\<And>x. Q x d) \<Longrightarrow> R d \<Longrightarrow> runs u d m Q R"
  by (rule tripleI) (auto simp: silent_def outcome_def split: sum.split)

context page
begin

lemma set_state_silent [silent_rules]: "silent (cored v) (set_state E n x)"
  using writing_cored [OF set_state_marks(1) core_Set] unfolding writing_def silent_def by auto

lemma runs_message:
  "runs (cored v) (d @ [Shown b s]) n Q R \<Longrightarrow> runs (cored v) d (seqio (show_message E b s) n) Q R"
  using writing_cored [OF message_marks(1) core_Shown] message_marks(2) by (intro runs_writing) auto

lemma runs_message_end: "Q () (d @ [Shown b s]) \<Longrightarrow> runs (cored v) d (show_message E b s) Q R"
  using writing_cored [OF message_marks(1) core_Shown] message_marks(2) by (intro runs_write) auto

lemma runs_set: "runs (cored v) d n Q R \<Longrightarrow> runs (cored v) d (seqio (set_state E k x) n) Q R"
  unfolding seqio_def by (rule runs_silent) (auto simp: set_state_marks intro: silent_rules)

end

text \<open>A call that always throws the same error, through what surrounds it.\<close>

definition rejecting :: "('w, 'a) io \<Rightarrow> js_error \<Rightarrow> bool" where
  "rejecting m e \<longleftrightarrow> (\<forall>w. fst (m w) = Inl e)"

lemma rejecting_seq: "total_io m \<Longrightarrow> rejecting n e \<Longrightarrow> rejecting (seqio m n) e"
  unfolding rejecting_def total_io_def seqio_def bindio_def by (auto split: prod.split sum.split) (metis fst_conv sum.distinct(1))

lemma rejecting_bind: "total_io m \<Longrightarrow> (\<And>x. rejecting (f x) e) \<Longrightarrow> rejecting (bindio m f) e"
  unfolding rejecting_def total_io_def bindio_def by (auto split: prod.split sum.split) (metis fst_conv sum.distinct(1))

lemma rejecting_rethrow: "rejecting m e \<Longrightarrow> total_io n \<Longrightarrow> rejecting (catchio m (\<lambda>e. seqio n (throw e))) e"
  unfolding rejecting_def total_io_def catchio_def seqio_def bindio_def throw_def
  by (auto split: prod.split sum.split) (metis fst_conv sum.inject(1) sum.distinct(1))+

lemma rejecting_finally: "rejecting m e \<Longrightarrow> total_io f \<Longrightarrow> rejecting (finallyio m f) e"
  unfolding rejecting_def total_io_def finallyio_def by (auto split: prod.split sum.split) (metis fst_conv sum.distinct(1))+

lemma rejecting_head: "rejecting m e \<Longrightarrow> rejecting (bindio m f) e"
  unfolding rejecting_def bindio_def by (auto split: prod.split sum.split) (metis fst_conv sum.inject(1) sum.distinct(1))+

lemma runs_rejecting_end: "silent u m \<Longrightarrow> rejecting m e \<Longrightarrow> R d \<Longrightarrow> runs u d m Q R"
  unfolding triple_def outcome_def silent_def rejecting_def by (auto split: sum.split)

lemma runs_catch_rejecting:
  assumes "runs u d m Q' A" and "rejecting m e" and "\<And>s. A s \<Longrightarrow> runs u s (h e) Q R"
  shows "runs u d (catchio m h) Q R"
proof (rule tripleI)
  fix w assume "u w = d"
  with tripleD [OF assms(1)] have o: "outcome u Q' A (m w)" by blast
  obtain w1 where m: "m w = (Inl e, w1)" using assms(2) unfolding rejecting_def by (metis prod.collapse)
  with o have "A (u w1)" by simp
  from tripleD [OF assms(3) [OF this] refl] m show "outcome u Q R (catchio m h w)" by (simp add: catchio_def)
qed

section \<open>The transactions alone\<close>

definition sending :: "('w \<Rightarrow> 'tx page_op list) \<Rightarrow> 'w \<Rightarrow> 'tx list" where
  "sending v w = sent (v w)"

lemma silent_sending: "silent v m \<Longrightarrow> silent (sending v) m"
  by (simp add: silent_def sending_def)

lemma writing_sending: "writing v m (\<lambda>t. t @ [Tx x]) \<Longrightarrow> writing (sending v) m (\<lambda>c. c @ [x])"
  unfolding writing_def sending_def by (metis sent.simps(1,2) sent_append)

context page
begin

lemma unsent [silent_rules]: "silent (sending v) (set_state E n x)" "silent (sending v) (show_message E b s)"
proof -
  have *: "silent (sending v) m" if "writing v m (\<lambda>t. t @ l)" "sent l = []" for m :: "('w, unit) io" and l
    unfolding silent_def sending_def
  proof
    fix w show "sent (v (snd (m w))) = sent (v w)" using that(1) [unfolded writing_def, THEN spec, of w] that(2) by auto
  qed
  show "silent (sending v) (set_state E n x)" "silent (sending v) (show_message E b s)"
    by (rule * [OF set_state_marks(1)], simp) (rule * [OF message_marks(1)], simp)
qed

end

lemma sent_core: "sent (core t) = sent t"
  by (induction t rule: sent.induct) simp_all

lemma sending_cored:
  assumes "\<And>c. runs (cored v) c m (\<lambda>x c'. S x (sent c) (sent c')) (\<lambda>c'. T (sent c) (sent c'))"
  shows "runs (sending v) d m (\<lambda>x. S x d) (T d)"
proof (rule tripleI)
  fix w assume "sending v w = d"
  with tripleD [OF assms [of "cored v w"] refl]
  show "outcome (sending v) (\<lambda>x. S x d) (T d) (m w)"
    by (auto simp: outcome_def sending_def cored_def sent_core split: sum.splits)
qed

section \<open>The value of one variable\<close>

definition valued :: "string \<Rightarrow> val \<Rightarrow> ('w \<Rightarrow> 'tx page_op list) \<Rightarrow> 'w \<Rightarrow> val" where
  "valued n x v w = value_of n x (v w)"

lemma silent_valued: "silent v m \<Longrightarrow> silent (valued n x v) m"
  by (simp add: silent_def valued_def)

lemma valued_silent:
  assumes "writing v m (\<lambda>t. t @ l)" and "\<And>y. value_of n y l = y"
  shows "silent (valued n x v) m"
  unfolding silent_def valued_def
proof
  fix w
  show "value_of n x (v (snd (m w))) = value_of n x (v w)"
    using assms(1) [unfolded writing_def, THEN spec, of w] assms(2) by auto
qed

lemma value_of_other:
  "value_of n y [Tx t] = y" "value_of n y [Shown b s] = y" "m \<noteq> n \<Longrightarrow> value_of n y [Set m z] = y"
  by simp_all

context page
begin

lemma set_other_silent: "m \<noteq> n \<Longrightarrow> silent (valued n x v) (set_state E m y)"
  by (rule valued_silent [OF set_state_marks(1)]) simp

lemma message_silent [silent_rules]: "silent (valued n x v) (show_message E b s)"
  by (rule valued_silent [OF message_marks(1)]) simp

lemma runs_assign: "runs (valued n x v) y k Q R \<Longrightarrow> runs (valued n x v) d (seqio (set_state E n y) k) Q R"
proof -
  assume k: "runs (valued n x v) y k Q R"
  have "runs (valued n x v) d (set_state E n y) (\<lambda>_ s. s = y) (\<lambda>_. False)"
    using set_state_marks [of n y] unfolding triple_def outcome_def writing_def total_io_def valued_def
    by (auto split: sum.split)
  from runs_seq [OF runs_conseq [OF this] k] show ?thesis by auto
qed

text \<open>Whatever happens before it, a final assignment decides.\<close>

lemma runs_finally_set: "runs (valued n x v) d (finallyio m (set_state E n z)) (\<lambda>_ s. s = z) (\<lambda>s. s = z)"
proof (rule tripleI)
  fix w
  obtain r w1 where m: "m w = (r, w1)" by fastforce
  have "runs (valued n x v) (valued n x v w1) (seqio (set_state E n z) (ret ())) (\<lambda>_ s. s = z) (\<lambda>_. False)"
    by (rule runs_assign) (simp add: runs_ret)
  from tripleD [OF this refl] obtain w2 where s: "set_state E n z w1 = (Inr (), w2)" and v: "valued n x v w2 = z"
    by (auto simp: seqio_def bindio_def ret_def outcome_def split: prod.splits sum.splits)
  then show "outcome (valued n x v) (\<lambda>_ s. s = z) (\<lambda>s. s = z) (finallyio m (set_state E n z) w)"
    by (cases r) (simp_all add: finallyio_def m)
qed

end

end
