(* ===== verification/Stake_Pages.thy ===== *)
theory Stake_Pages
  imports Page_Env Nova_Util Nova_Config
begin

text \<open>
  The staking and the farming page of the launchpad: \<open>hooks/useStake.ts\<close> and the handlers of
  \<open>containers/StakingForm/StakingForm.tsx\<close> and \<open>containers/FarmingForm/FarmingForm.tsx\<close>. The record \<open>render\<close> is what
  a handler sees of the rendering it belongs to; the contracts are calls of the environment (their ABI has every method
  the code asks for). The abstract state is the trace of the page.
\<close>

section \<open>The environment and a rendering\<close>

text \<open>The transactions of the pages; the last three are those of the project page.\<close>

datatype stake_tx =
    Approve string string int
  | Deposit string int val
  | Withdraw string int val
  | Register string "int option list" int
  | Participate string "int option list" int int
  | Withdraw_Portions string "nat list"

record 'w stake_env = "'w page_env" +
  units_of :: ethers
  token_allowance :: "string \<Rightarrow> val \<Rightarrow> string \<Rightarrow> ('w, val) io"
  token_balanceOf :: "string \<Rightarrow> val \<Rightarrow> ('w, val) io"
  token_decimals :: "string \<Rightarrow> ('w, val) io"
  token_symbol :: "string \<Rightarrow> ('w, val) io"
  token_approve :: "string \<Rightarrow> string \<Rightarrow> int \<Rightarrow> ('w, nat) io"
  stake_pending :: "string \<Rightarrow> int \<Rightarrow> val \<Rightarrow> ('w, val) io"
  stake_totalPending :: "string \<Rightarrow> ('w, val) io"
  stake_deposited :: "string \<Rightarrow> int \<Rightarrow> val \<Rightarrow> ('w, val) io"
  stake_deposit :: "string \<Rightarrow> int \<Rightarrow> val \<Rightarrow> ('w, nat) io"
  stake_withdraw :: "string \<Rightarrow> int \<Rightarrow> val \<Rightarrow> ('w, nat) io"
  stake_userInfo :: "string \<Rightarrow> int \<Rightarrow> val \<Rightarrow> ('w, val) io"
  stake_poolInfo :: "string \<Rightarrow> int \<Rightarrow> ('w, val) io"
  view_poolInfo :: "string \<Rightarrow> int \<Rightarrow> ('w, val) io"
  view_rewardPerSecond :: "string \<Rightarrow> ('w, val) io"
  wait_stake_tx :: "nat \<Rightarrow> ('w, val) io"

record render =
  stakingContract :: "string option"
  viewStakingContract :: "string option"
  depositTokenContract :: "string option"
  earnedTokenContract :: "string option"
  hook_walletAddress :: val
  allowanceAddress :: string
  hook_poolId :: int
  balance :: val
  depositedAmount :: val
  deposit_symbol :: val
  depositNum :: val
  withdrawNum :: val
  page_poolId :: int
  page_stakingAddress :: string

section \<open>useStake.ts\<close>

text \<open>The contracts of a rendering. \<open>getAirDropToken\<close> reads the chain before it is known to exist.\<close>

definition getAirDropToken :: "val \<Rightarrow> js_error + string option" where
  "getAirDropToken chain = (case member chain ''chainId'' of Inl e \<Rightarrow> Inl e
     | Inr c \<Rightarrow> Inr (tok_address (case find (\<lambda>i. equals_num c (Some (of_nat (tok_chainId i)))) tokenInfos of
         Some i \<Rightarrow> i | None \<Rightarrow> hd tokenInfos)))"

definition staking_contract :: "string \<Rightarrow> val \<Rightarrow> string option" where
  "staking_contract addr signer = (if addr \<noteq> [] \<and> truthy_val signer then Some addr else None)"

definition view_staking_contract :: "string \<Rightarrow> val \<Rightarrow> string option" where
  "view_staking_contract addr chain = (if addr \<noteq> [] \<and> truthy_val chain then Some addr else None)"

definition deposit_token_contract :: "string \<Rightarrow> val \<Rightarrow> val \<Rightarrow> js_error + string option" where
  "deposit_token_contract addr signer chain =
     (if addr = [] \<or> \<not> truthy_val signer then Inr None else getAirDropToken chain)"

definition earned_token_contract :: "string \<Rightarrow> val \<Rightarrow> string option" where
  "earned_token_contract addr signer =
     (if addr = [] \<or> \<not> truthy_val signer then None else Some addr)"

definition global_pool :: "(staking_pool \<Rightarrow> string) \<Rightarrow> val \<Rightarrow> string" where
  "global_pool f chain = (if truthy_val chain then
     (case find (\<lambda>i. equals_num (opt_member chain ''chainId'') (Some (of_nat (pool_chainId i)))) stakingPoolAddresses of
        Some i \<Rightarrow> f i | None \<Rightarrow> []) else [])"

text \<open>\<open>call().then(setX).catch(console.error)\<close>\<close>

definition load :: "('w, 'x) page_env_scheme \<Rightarrow> string \<Rightarrow> ('w, val) io \<Rightarrow> ('w, unit) io" where
  "load E n m = floating (bindio m (set_state E n))"

definition load_token :: "'w stake_env \<Rightarrow> string \<Rightarrow> val \<Rightarrow> ('w, unit) io" where
  "load_token E tk account =
     seqio (load E ''balance'' (token_balanceOf E tk account))
     (seqio (load E ''depositDecimals'' (token_decimals E tk)) (load E ''depositSymbol'' (token_symbol E tk)))"

definition getBalance :: "'w stake_env \<Rightarrow> render \<Rightarrow> val \<Rightarrow> ('w, unit) io" where
  "getBalance E r account =
     seqio (case depositTokenContract r of None \<Rightarrow> ret ()
       | Some tk \<Rightarrow> if \<not> truthy_val account then ret () else load_token E tk account)
     (seqio (case earnedTokenContract r of None \<Rightarrow> ret ()
       | Some tk \<Rightarrow> if \<not> truthy_val account then ret () else load E ''earnedSymbol'' (token_symbol E tk))
     (case stakingContract r of None \<Rightarrow> ret ()
       | Some sc \<Rightarrow> if \<not> truthy_val account then ret ()
         else seqio (load E ''earnedBre'' (stake_pending E sc (hook_poolId r) account))
                (load E ''totalPending'' (stake_totalPending E sc))))"

definition getDeposited :: "'w stake_env \<Rightarrow> render \<Rightarrow> int \<Rightarrow> val \<Rightarrow> ('w, unit) io" where
  "getDeposited E r pid address =
     (case stakingContract r of None \<Rightarrow> ret ()
      | Some sc \<Rightarrow> if \<not> truthy_val address then ret ()
        else load E ''depositedAmount'' (stake_deposited E sc pid address))"

definition getAllowance :: "'w stake_env \<Rightarrow> render \<Rightarrow> val \<Rightarrow> string \<Rightarrow> ('w, unit) io" where
  "getAllowance E r owner spender =
     (case depositTokenContract r of None \<Rightarrow> throw rejected
      | Some tk \<Rightarrow> if \<not> truthy_val owner \<or> spender = [] then throw rejected
        else load E ''allowance'' (token_allowance E tk owner spender))"

text \<open>The three effects of the hook that read the contracts.\<close>

definition allowance_effect :: "'w stake_env \<Rightarrow> render \<Rightarrow> ('w, unit) io" where
  "allowance_effect E r =
     (if depositTokenContract r \<noteq> None \<and> allowanceAddress r \<noteq> []
      then floating (getAllowance E r (hook_walletAddress r) (allowanceAddress r)) else ret ())"

definition deposited_effect :: "'w stake_env \<Rightarrow> render \<Rightarrow> ('w, unit) io" where
  "deposited_effect E r =
     (if stakingContract r \<noteq> None then getDeposited E r (hook_poolId r) (hook_walletAddress r) else ret ())"

definition token_effect :: "'w stake_env \<Rightarrow> render \<Rightarrow> ('w, unit) io" where
  "token_effect E r =
     (case depositTokenContract r of None \<Rightarrow> ret ()
      | Some tk \<Rightarrow> if \<not> truthy_val (hook_walletAddress r) then ret () else load_token E tk (hook_walletAddress r))"

text \<open>\<open>a > b\<close>; one of the two is a number wherever the pages compare.\<close>

definition js_gt :: "val \<Rightarrow> val \<Rightarrow> bool" where
  "js_gt a b = greater (to_number a) (to_number b)"

definition units_or_throw :: "ethers \<Rightarrow> string \<Rightarrow> nat \<Rightarrow> ('w, int) io" where
  "units_or_throw U s d = (case units_parse U s d of None \<Rightarrow> throw (JsError ''invalid amount'') | Some n \<Rightarrow> ret n)"

text \<open>The amount worked out from \<open>amount\<close> only goes to the log, where converting it may throw; what is approved is
  a constant. A refused approval is logged and swallowed.\<close>

definition logged_amount :: "val \<Rightarrow> val" where
  "logged_amount amount = (if js_gt amount (Num (of_nat APPROVE_STAKING_AMOUNT_ETHER)) then amount
     else Num (of_nat APPROVE_STAKING_AMOUNT_ETHER))"

definition approve :: "'w stake_env \<Rightarrow> render \<Rightarrow> string \<Rightarrow> val \<Rightarrow> nat \<Rightarrow> ('w, unit) io" where
  "approve E r target amount decimals =
     (case depositTokenContract r of None \<Rightarrow> throw rejected
      | Some tk \<Rightarrow>
        seqio (floating (token_allowance E tk (hook_walletAddress r) target))
        (bindio (units_or_throw (units_of E) (text_of (logged_amount amount)) decimals) (\<lambda>logged.
         bindio (units_or_throw (units_of E) ''10000'' 18) (\<lambda>n.
         finallyio
           (floating (bindio (token_approve E tk target n) (\<lambda>tx. wait_stake_tx E tx)))
           (floating (getAllowance E r (hook_walletAddress r) (allowanceAddress r)))))))"

definition deposit :: "'w stake_env \<Rightarrow> render \<Rightarrow> int \<Rightarrow> val \<Rightarrow> ('w, nat) io" where
  "deposit E r pid amount =
     (case stakingContract r of None \<Rightarrow> throw rejected
      | Some sc \<Rightarrow> catchio (stake_deposit E sc pid (parseEther (units_of E) amount)) throw)"

definition withdraw :: "'w stake_env \<Rightarrow> render \<Rightarrow> int \<Rightarrow> val \<Rightarrow> ('w, nat) io" where
  "withdraw E r pid amount =
     (case stakingContract r of None \<Rightarrow> throw rejected
      | Some sc \<Rightarrow> stake_withdraw E sc pid (parseEther (units_of E) amount))"

definition poolInfo :: "'w stake_env \<Rightarrow> render \<Rightarrow> int \<Rightarrow> ('w, unit) io" where
  "poolInfo E r pid =
     (case stakingContract r of None \<Rightarrow> throw rejected | Some sc \<Rightarrow> seqio (stake_poolInfo E sc pid) (ret ()))"

text \<open>\<open>Promise.all\<close> of the three; only the last can reject.\<close>

definition updateBalanceInfo :: "'w stake_env \<Rightarrow> render \<Rightarrow> ('w, unit) io" where
  "updateBalanceInfo E r =
     seqio (getBalance E r (hook_walletAddress r))
     (seqio (getDeposited E r (hook_poolId r) (hook_walletAddress r))
     (getAllowance E r (hook_walletAddress r) (allowanceAddress r)))"

section \<open>StakingForm.tsx\<close>

definition getPoolInfo :: "'w stake_env \<Rightarrow> render \<Rightarrow> int \<Rightarrow> ('w, unit) io" where
  "getPoolInfo E r pid =
     (case viewStakingContract r of None \<Rightarrow> throw rejected
      | Some vc \<Rightarrow> load E ''poolInfo'' (view_poolInfo E vc pid))"

text \<open>The guard asks for one contract, the call is made on the other: \<open>null.rewardPerSecond\<close> throws and is caught.\<close>

definition getRewardPerSecond :: "'w stake_env \<Rightarrow> render \<Rightarrow> ('w, unit) io" where
  "getRewardPerSecond E r =
     (if stakingContract r = None then throw rejected
      else load E ''rewardPerSecond'' (case viewStakingContract r of Some vc \<Rightarrow> view_rewardPerSecond E vc
        | None \<Rightarrow> throw (TypeError ''Cannot read properties of null'')))"

definition refresh_page :: "'w stake_env \<Rightarrow> render \<Rightarrow> ('w, unit) io" where
  "refresh_page E r =
     seqio (floating (getPoolInfo E r (page_poolId r)))
     (seqio (floating (getRewardPerSecond E r)) (floating (updateBalanceInfo E r)))"

text \<open>The effect of the page at once, and its timer every 20 seconds.\<close>

definition staking_effect :: "'w stake_env \<Rightarrow> render \<Rightarrow> ('w, bool) io" where
  "staking_effect E r =
     (if viewStakingContract r = None then ret False else seqio (refresh_page E r) (ret True))"

definition staking_tick :: "'w stake_env \<Rightarrow> render \<Rightarrow> ('w, unit) io" where
  "staking_tick E r = refresh_page E r"

definition totalDeposits :: "val \<Rightarrow> js_error + val" where
  "totalDeposits info = (if truthy_val info
     then (case member info ''totalDeposits'' of Inl e \<Rightarrow> Inl e | Inr x \<Rightarrow> Inr (js_or x (Num 1))) else Inr (Num 1))"

text \<open>What the \<open>catch\<close> of the two stake buttons does.\<close>

definition stake_failed :: "'w stake_env \<Rightarrow> render \<Rightarrow> js_error \<Rightarrow> ('w, unit) io" where
  "stake_failed E r e =
     (let err = error_value E e in
      bindio (lift (getErrorMessage err)) (\<lambda>m.
      let msg = (case err of Str s \<Rightarrow> if sublist ''ERC20: transfer amount exceeds allowance'' s
                   then Str ''Approve amount should be greater than staking amount!'' else m | _ \<Rightarrow> m) in
      seqio (setErrorMessage E (failure_text ''Stake failed. '' msg))
        (floating (updateBalanceInfo E r))))"

definition stake_succeeded :: "'w stake_env \<Rightarrow> render \<Rightarrow> ('w, unit) io" where
  "stake_succeeded E r =
     seqio (setSuccessMessage E (''Congratulations, you have successfully deposited '' @ js_string (depositNum r) @ '' ''
       @ js_string (deposit_symbol r)))
     (seqio (set_state E ''depositNum'' (Num 0)) (floating (updateBalanceInfo E r)))"

definition onStakeButtonClick :: "'w stake_env \<Rightarrow> render \<Rightarrow> ('w, unit) io" where
  "onStakeButtonClick E r =
     (if equals_num (depositNum r) (Some 0) then setErrorMessage E (''Cannot stake 0 '' @ js_string (deposit_symbol r) @ ''!'')
      else
        seqio (updateBalanceInfo E r)
        (if js_gt (depositNum r) (formatEther (units_of E) (balance r) 2)
         then setErrorMessage E (''Not enough '' @ js_string (deposit_symbol r) @ '' to stake!'')
         else
           catchio
             (seqio (approve E r (page_stakingAddress r) (depositNum r) 18)
             (bindio (deposit E r (page_poolId r) (depositNum r)) (\<lambda>transaction.
              seqio (wait_stake_tx E transaction) (stake_succeeded E r))))
             (stake_failed E r)))"

definition onWithdrawButtonClick :: "'w stake_env \<Rightarrow> render \<Rightarrow> ('w, unit) io" where
  "onWithdrawButtonClick E r =
     catchio
       (bindio (withdraw E r (page_poolId r) (withdrawNum r)) (\<lambda>transaction.
        seqio (wait_stake_tx E transaction)
        (seqio (setSuccessMessage E ''Withdraw success!'')
        (seqio (set_state E ''withdrawNum'' (Num 0)) (floating (updateBalanceInfo E r))))))
       (\<lambda>e. bindio (lift (getErrorMessage (error_value E e))) (\<lambda>msg.
          setErrorMessage E (failure_text ''Withdraw failed. '' msg)))"

section \<open>FarmingForm.tsx\<close>

text \<open>The timer of this page is given \<open>() => schedule\<close>: it names the function and never calls it.\<close>

definition farm_effect :: "'w stake_env \<Rightarrow> render \<Rightarrow> ('w, bool) io" where
  "farm_effect E r = (if stakingContract r = None then ret False else seqio (refresh_page E r) (ret True))"

definition farm_tick :: "'w stake_env \<Rightarrow> render \<Rightarrow> ('w, unit) io" where
  "farm_tick E r = ret ()"

text \<open>\<open>updateContracts\<close>: \<open>chain?.chainId != props.chainId || !signer\<close>.\<close>

definition updateContracts :: "'w stake_env \<Rightarrow> val \<Rightarrow> val \<Rightarrow> rat \<Rightarrow> string \<Rightarrow> ('w, unit) io" where
  "updateContracts E chain signer cid addr =
     (if \<not> equals_num (opt_member chain ''chainId'') (Some cid) \<or> \<not> truthy_val signer
      then seqio (set_state E ''stakingAddress'' (Str [])) (set_state E ''allowanceAddress'' (Str []))
      else if addr \<noteq> []
      then seqio (set_state E ''stakingAddress'' (Str addr)) (set_state E ''allowanceAddress'' (Str addr))
      else ret ())"

definition userInfo :: "'w stake_env \<Rightarrow> render \<Rightarrow> val \<Rightarrow> ('w, unit) io" where
  "userInfo E r address = (case stakingContract r of None \<Rightarrow> throw rejected
     | Some sc \<Rightarrow> seqio (stake_userInfo E sc 0 address) (ret ()))"

definition farm_stake :: "'w stake_env \<Rightarrow> render \<Rightarrow> ('w, unit) io" where
  "farm_stake E r =
     (if equals_num (depositNum r) (Some 0) then ret ()
      else
        seqio (updateBalanceInfo E r)
        (if js_gt (depositNum r) (formatEther (units_of E) (balance r) 2)
         then setErrorMessage E (''Not enough '' @ js_string (deposit_symbol r) @ '' to stake!'')
         else
           seqio (set_state E ''stakeLoading'' (Bool True))
           (catchio
             (seqio (approve E r (page_stakingAddress r) (depositNum r) 18)
             (bindio (deposit E r (page_poolId r) (depositNum r)) (\<lambda>transaction.
              seqio (wait_stake_tx E transaction)
              (seqio (set_state E ''stakeLoading'' (Bool False)) (stake_succeeded E r)))))
             (stake_failed E r))))"

definition farm_withdraw :: "'w stake_env \<Rightarrow> render \<Rightarrow> ('w, unit) io" where
  "farm_withdraw E r =
     seqio (set_state E ''withdrawLoading'' (Bool True))
     (catchio
       (bindio (withdraw E r (page_poolId r) (withdrawNum r)) (\<lambda>transaction.
        seqio (wait_stake_tx E transaction)
        (seqio (set_state E ''withdrawLoading'' (Bool False))
        (seqio (setSuccessMessage E ''Withdraw success!'')
        (seqio (set_state E ''withdrawNum'' (Num 0)) (floating (updateBalanceInfo E r)))))))
       (\<lambda>e. bindio (lift (getErrorMessage (error_value E e))) (\<lambda>msg.
          setErrorMessage E (failure_text ''Withdraw failed. '' msg))))"

definition farm_harvest :: "'w stake_env \<Rightarrow> render \<Rightarrow> ('w, unit) io" where
  "farm_harvest E r =
     catchio
       (bindio (withdraw E r (page_poolId r) (Num 0)) (\<lambda>transaction.
        seqio (wait_stake_tx E transaction)
        (seqio (setSuccessMessage E ''Harvest success!'') (floating (updateBalanceInfo E r)))))
       (\<lambda>e. bindio (lift (getErrorMessage (error_value E e))) (\<lambda>msg.
          setErrorMessage E (failure_text ''Harvest failed. '' msg)))"

text \<open>The \<open>MAX\<close> buttons.\<close>

definition maxNumber :: "val \<Rightarrow> val" where
  "maxNumber num = (if js_gt num (Num (1 / 100)) then num_val (lift2 (-) (to_number num) (Some (1 / 100))) else num)"

definition staking_max :: "'w stake_env \<Rightarrow> render \<Rightarrow> val" where
  "staking_max E r = formatEther (units_of E) (balance r) 2"

definition farming_max :: "'w stake_env \<Rightarrow> render \<Rightarrow> val" where
  "farming_max E r = maxNumber (formatEther (units_of E) (balance r) 2)"

text \<open>The transactions of one click on \<open>Stake\<close>, and what may become of a click: a part of them in this order,
  then one message; the message of success only after the deposit.\<close>

definition stake_txs :: "'w stake_env \<Rightarrow> render \<Rightarrow> int \<Rightarrow> stake_tx list" where
  "stake_txs E r n =
     (case depositTokenContract r of None \<Rightarrow> [] | Some tk \<Rightarrow> [Approve tk (page_stakingAddress r) n]) @
     (case stakingContract r of None \<Rightarrow> []
      | Some sc \<Rightarrow> [Deposit sc (page_poolId r) (parseEther (units_of E) (depositNum r))])"

fun is_deposit :: "stake_tx \<Rightarrow> bool" where
  "is_deposit (Deposit sc pid x) = True"
| "is_deposit _ = False"

section \<open>The interface\<close>

text \<open>Reads leave no trace, a transaction leaves its mark when the wallet sends it and none when it throws. Any of them may
  throw at any time.\<close>

locale stake_page = page E v for E :: "'w stake_env" and v :: "'w \<Rightarrow> stake_tx page_op list" +
  assumes token_reads: "silent v (token_allowance E tk a sp)" "silent v (token_balanceOf E tk a)"
      "silent v (token_decimals E tk)" "silent v (token_symbol E tk)"
    and stake_reads: "silent v (stake_pending E sc pid a)" "silent v (stake_totalPending E sc)"
      "silent v (stake_deposited E sc pid a)" "silent v (stake_userInfo E sc pid a)" "silent v (stake_poolInfo E sc pid)"
      "silent v (view_poolInfo E sc pid)" "silent v (view_rewardPerSecond E sc)" "silent v (wait_stake_tx E tx)"
    and approve_marks: "writing v (token_approve E tk sp n) (\<lambda>t. t @ [Tx (Approve tk sp n)])"
    and deposit_marks: "writing v (stake_deposit E sc pid x) (\<lambda>t. t @ [Tx (Deposit sc pid x)])"
    and withdraw_marks: "writing v (stake_withdraw E sc pid x) (\<lambda>t. t @ [Tx (Withdraw sc pid x)])"
begin

lemmas reads_silent [silent_rules] = token_reads [THEN silent_cored] stake_reads [THEN silent_cored]

lemma load_silent [silent_rules]: "silent (cored v) m \<Longrightarrow> silent (cored v) (load E n m)"
  unfolding load_def by (intro silent_rules)

lemma updateBalanceInfo_silent [silent_rules]: "silent (cored v) (updateBalanceInfo E r)"
  unfolding updateBalanceInfo_def getBalance_def getDeposited_def getAllowance_def load_token_def by (intro silent_rules)

lemma getAllowance_silent [silent_rules]: "silent (cored v) (getAllowance E r a sp)"
  unfolding getAllowance_def by (intro silent_rules)

lemma refresh_page_silent: "silent (cored v) (refresh_page E r)"
  unfolding refresh_page_def getPoolInfo_def getRewardPerSecond_def by (intro silent_rules)

text \<open>An approval sends at most the one transaction, for the constant amount.\<close>

lemma approve_runs:
  assumes "depositTokenContract r = Some tk" and "units_parse (units_of E) ''10000'' 18 = Some n"
  shows "runs (cored v) c (approve E r target x d) (\<lambda>_ c'. c' = c \<or> c' = c @ [Tx (Approve tk target n)]) (\<lambda>c'. c' = c)"
proof -
  have sent: "runs (cored v) c (floating (bindio (token_approve E tk target n) (wait_stake_tx E)))
      (\<lambda>_ c'. c' = c \<or> c' = c @ [Tx (Approve tk target n)]) (\<lambda>_. False)"
    unfolding floating_def seqio_def bindio_assoc
    by (rule runs_catch [where A = "\<lambda>c'. c' = c \<or> c' = c @ [Tx (Approve tk target n)]"],
        rule runs_write_bind [OF writing_cored [OF approve_marks core_Tx]], simp,
        rule runs_silent [OF reads_silent(12)], simp, rule runs_ret, simp, rule runs_ret)
  have quiet: "silent (cored v) (floating (getAllowance E r (hook_walletAddress r) (allowanceAddress r)))"
    by (intro silent_rules)
  have "runs (cored v) c (finallyio (floating (bindio (token_approve E tk target n) (wait_stake_tx E)))
      (floating (getAllowance E r (hook_walletAddress r) (allowanceAddress r))))
      (\<lambda>_ c'. c' = c \<or> c' = c @ [Tx (Approve tk target n)]) (\<lambda>c'. c' = c)"
  proof (rule triple_finally [OF sent])
    show "triple (cored v) (\<lambda>c'. c' = c \<or> c' = c @ [Tx (Approve tk target n)])
        (floating (getAllowance E r (hook_walletAddress r) (allowanceAddress r)))
        (\<lambda>_ c'. c' = c \<or> c' = c @ [Tx (Approve tk target n)]) (\<lambda>c'. c' = c)"
      using quiet total_floating [of "getAllowance E r (hook_walletAddress r) (allowanceAddress r)"]
      unfolding silent_def total_io_def triple_def outcome_def by (auto split: sum.split)
  qed (simp add: triple_def)
  then show ?thesis
    using assms unfolding approve_def
    by (auto simp: Let_def units_or_throw_def intro!: runs_floating [OF reads_silent(1)] runs_throw split: option.split)
qed

abbreviation sends :: "render \<Rightarrow> int \<Rightarrow> stake_tx page_op list \<Rightarrow> stake_tx page_op list \<Rightarrow> bool" where
  "sends r n c c' \<equiv> \<exists>l. c' = c @ map Tx l \<and> subseq l (stake_txs E r n)"

abbreviation tells :: "render \<Rightarrow> int \<Rightarrow> stake_tx page_op list \<Rightarrow> stake_tx page_op list \<Rightarrow> bool" where
  "tells r n c c' \<equiv> \<exists>l b m. c' = c @ map Tx l @ [Shown b m] \<and> subseq l (stake_txs E r n) \<and> (b \<longrightarrow> list_ex is_deposit l)"

lemma stake_inner:
  assumes "units_parse (units_of E) ''10000'' 18 = Some n"
    and K: "\<And>c. runs (cored v) c K (\<lambda>_ c'. \<exists>m. c' = c @ [Shown True m]) (\<lambda>_. False)"
  shows "runs (cored v) c (seqio (approve E r (page_stakingAddress r) (depositNum r) 18)
      (bindio (deposit E r (page_poolId r) (depositNum r)) (\<lambda>tx. seqio (wait_stake_tx E tx) K)))
    (\<lambda>_. tells r n c) (sends r n c)"
proof (cases "depositTokenContract r")
  case None
  then show ?thesis by (simp add: approve_def runs_throw)
next
  case (Some tk)
  let ?A = "Approve tk (page_stakingAddress r) n"
  have "runs (cored v) c' (bindio (deposit E r (page_poolId r) (depositNum r)) (\<lambda>tx. seqio (wait_stake_tx E tx) K))
      (\<lambda>_. tells r n c) (sends r n c)" if c': "c' = c @ map Tx l" and l: "l = [] \<or> l = [?A]" for c' l
  proof (cases "stakingContract r")
    case None
    then show ?thesis using c' l Some by (auto simp: deposit_def stake_txs_def intro!: runs_throw)
  next
    case (Some sc)
    let ?D = "Deposit sc (page_poolId r) (parseEther (units_of E) (depositNum r))"
    have p: "subseq l (stake_txs E r n)" "subseq (l @ [?D]) (stake_txs E r n)"
      using l Some \<open>depositTokenContract r = Some tk\<close> by (auto simp: stake_txs_def)
    have m: "bindio (catchio (stake_deposit E sc (page_poolId r) (parseEther (units_of E) (depositNum r))) throw) g =
        bindio (stake_deposit E sc (page_poolId r) (parseEther (units_of E) (depositNum r))) g" for g
      by (auto simp: bindio_def catchio_def throw_def fun_eq_iff split: prod.split sum.split)
    have "runs (cored v) (c @ map Tx (l @ [?D])) K (\<lambda>_. tells r n c) (sends r n c)"
      by (rule runs_conseq [OF K]) (use p(2) in \<open>auto intro!: exI [of _ "l @ [?D]"]\<close>)
    then have "runs (cored v) (c @ map Tx (l @ [?D])) (seqio (wait_stake_tx E tx) K) (\<lambda>_. tells r n c) (sends r n c)" for tx
      by (intro runs_silent_seq [OF reads_silent(12)]) (use p(2) in \<open>blast+\<close>)
    then show ?thesis
      using Some c' p(1) unfolding deposit_def
      by (auto simp: m intro!: runs_write_bind [OF writing_cored [OF deposit_marks core_Tx]])
  qed
  note D = this
  show ?thesis
    unfolding seqio_def
  proof (rule runs_bind_all [OF runs_conseq [OF approve_runs [OF Some assms(1)]]])
    fix c' :: "stake_tx page_op list"
    assume "c' = c \<or> c' = c @ [Tx ?A]"
    then show "runs (cored v) c' (bindio (deposit E r (page_poolId r) (depositNum r)) (\<lambda>tx. bindio (wait_stake_tx E tx) (\<lambda>_. K)))
        (\<lambda>_. tells r n c) (sends r n c)"
      using D [of c' "[]"] D [of c' "[?A]"] unfolding seqio_def by auto
  qed auto
qed

lemma stake_failed_runs:
  "triple (cored v) (sends r n c) (stake_failed E r e) (\<lambda>_. tells r n c) (sends r n c)"
proof (rule runs_all)
  fix d assume d: "sends r n c d"
  have end': "runs (cored v) d (seqio (setErrorMessage E s) (floating (updateBalanceInfo E r))) (\<lambda>_. tells r n c) (sends r n c)" for s
    unfolding setErrorMessage_def
    by (rule runs_message, rule runs_floating_end) (use d in \<open>auto intro: silent_rules\<close>)
  show "runs (cored v) d (stake_failed E r e) (\<lambda>_. tells r n c) (sends r n c)"
    unfolding stake_failed_def Let_def
    by (rule runs_lift) (use d end' in auto)
qed

lemma stake_succeeded_runs: "runs (cored v) c (stake_succeeded E r) (\<lambda>_ c'. \<exists>m. c' = c @ [Shown True m]) (\<lambda>_. False)"
  unfolding stake_succeeded_def setSuccessMessage_def
  by (rule runs_message, rule runs_set, rule runs_floating_end) (auto intro: silent_rules)

lemma stake_click_runs:
  assumes "units_parse (units_of E) ''10000'' 18 = Some n"
  shows "runs (cored v) c (onStakeButtonClick E r) (\<lambda>_. tells r n c) (sends r n c)"
proof -
  have start: "sends r n c c" "\<exists>m. tells r n c (c @ [Shown False m])" by (auto intro!: exI [of _ "[]"])
  have msg: "tells r n c (c @ [Shown False m])" for m by (auto intro!: exI [of _ "[]"])
  show ?thesis
    unfolding onStakeButtonClick_def setErrorMessage_def
    by (intro runs_if runs_message_end msg runs_silent_seq [OF updateBalanceInfo_silent] start(1)
        runs_catch [OF stake_inner [OF assms stake_succeeded_runs]] tripleD_all [OF stake_failed_runs])
qed

lemma farm_stake_runs:
  assumes "units_parse (units_of E) ''10000'' 18 = Some n" and "\<not> equals_num (depositNum r) (Some 0)"
  shows "runs (cored v) c (farm_stake E r) (\<lambda>_. tells r n c) (sends r n c)"
proof -
  have start: "sends r n c c" by (auto intro!: exI [of _ "[]"])
  have msg: "tells r n c (c @ [Shown False m])" for m by (auto intro!: exI [of _ "[]"])
  show ?thesis
    unfolding farm_stake_def setErrorMessage_def if_not_P [OF assms(2)]
    by (intro runs_if runs_message_end msg runs_set runs_silent_seq [OF updateBalanceInfo_silent] start
        runs_catch [OF stake_inner [OF assms(1) runs_set [OF stake_succeeded_runs]]] tripleD_all [OF stake_failed_runs])
qed

lemma stake_refused_runs:
  assumes "js_gt (depositNum r) (formatEther (units_of E) (balance r) 2) \<or> equals_num (depositNum r) (Some 0)"
  shows "runs (cored v) c (onStakeButtonClick E r) (\<lambda>_ c'. \<exists>m. c' = c @ [Shown False m]) (\<lambda>c'. c' = c)"
  unfolding onStakeButtonClick_def setErrorMessage_def
  by (intro runs_if runs_message_end runs_silent_seq [OF updateBalanceInfo_silent]) (use assms in auto)

end

text \<open>Where the contracts, the account and the spender are known, the refresh does not throw.\<close>

definition connected :: "render \<Rightarrow> bool" where
  "connected r \<longleftrightarrow> depositTokenContract r \<noteq> None \<and> stakingContract r \<noteq> None \<and> truthy_val (hook_walletAddress r) \<and>
     allowanceAddress r \<noteq> []"

lemma updateBalanceInfo_total: "connected r \<Longrightarrow> total_io (updateBalanceInfo E r)"
  unfolding connected_def updateBalanceInfo_def getBalance_def getDeposited_def getAllowance_def load_token_def load_def
  by (auto intro!: total_seq total_floating total_ret split: option.split)

definition affordable :: "'w stake_env \<Rightarrow> render \<Rightarrow> bool" where
  "affordable E r \<longleftrightarrow> \<not> equals_num (depositNum r) (Some 0) \<and> \<not> js_gt (depositNum r) (formatEther (units_of E) (balance r) 2)"

context stake_page
begin

lemma refused_approval_runs:
  assumes ok: "connected r" "affordable E r" and sc: "stakingContract r = Some sc"
    and parse: "units_parse (units_of E) ''10000'' 18 \<noteq> None"
      "units_parse (units_of E) (text_of (logged_amount (depositNum r))) 18 \<noteq> None"
    and refused: "\<And>tk sp n w. \<exists>e. fst (token_approve E tk sp n w) = Inl e" and sent: "\<And>x. total_io (stake_deposit E sc (page_poolId r) x)"
  shows "runs (cored v) c (onStakeButtonClick E r)
    (\<lambda>_ c'. \<exists>b m. c' = c @ [Tx (Deposit sc (page_poolId r) (parseEther (units_of E) (depositNum r))), Shown b m])
    (\<lambda>c'. c' = c @ [Tx (Deposit sc (page_poolId r) (parseEther (units_of E) (depositNum r)))])"
proof -
  let ?c = "c @ [Tx (Deposit sc (page_poolId r) (parseEther (units_of E) (depositNum r)))]"
  obtain tk where tk: "depositTokenContract r = Some tk" using ok(1) by (auto simp: connected_def)
  have mute: "silent (cored v) (token_approve E tk sp n)" for sp n
    using writing_cored [OF approve_marks core_Tx, of tk sp n] refused [of tk sp n] unfolding writing_def silent_def
    by (metis sum.distinct(1))
  have appr: "runs (cored v) c (approve E r (page_stakingAddress r) (depositNum r) 18) (\<lambda>_ c'. c' = c) (\<lambda>_. False)"
  proof -
    obtain n k where n: "units_parse (units_of E) ''10000'' 18 = Some n"
      "units_parse (units_of E) (text_of (logged_amount (depositNum r))) 18 = Some k" using parse by auto
    have f: "total_io (finallyio (floating m) (floating m'))" for m :: "('a, 'b) io" and m' :: "('a, 'c) io"
      using total_floating [of m] total_floating [of m'] unfolding total_io_def finallyio_def
      by (auto split: prod.split sum.split) (metis fst_conv sum.distinct(1))+
    show ?thesis
      unfolding approve_def tk option.case Let_def units_or_throw_def n
      by (auto simp: intro!: runs_floating [OF reads_silent(1)] triple_finally [where A = "\<lambda>_ s. s = c" and B = "\<lambda>_. False"]
          runs_floating_end silent_rules mute simp: triple_def [of _ "\<lambda>_. False"])
  qed
  have inner: "runs (cored v) c (seqio (approve E r (page_stakingAddress r) (depositNum r) 18)
      (bindio (deposit E r (page_poolId r) (depositNum r)) (\<lambda>tx. seqio (wait_stake_tx E tx) (stake_succeeded E r))))
      (\<lambda>_ c'. \<exists>b m. c' = ?c @ [Shown b m]) (\<lambda>c'. c' = ?c)"
  proof (rule runs_seq [OF runs_conseq [OF appr]])
    have "runs (cored v) ?c (seqio (wait_stake_tx E tx) (stake_succeeded E r)) (\<lambda>_ c'. \<exists>b m. c' = ?c @ [Shown b m]) (\<lambda>c'. c' = ?c)" for tx
      by (intro runs_silent_seq [OF reads_silent(12)] runs_conseq [OF stake_succeeded_runs]) auto
    moreover have "runs (cored v) c (deposit E r (page_poolId r) (depositNum r)) (\<lambda>_ c'. c' = ?c) (\<lambda>c'. c' = ?c)"
      unfolding deposit_def sc option.case
      by (rule runs_rethrow, rule runs_write [OF writing_cored [OF deposit_marks core_Tx]]) (use sent in auto)
    ultimately show "runs (cored v) c (bindio (deposit E r (page_poolId r) (depositNum r))
        (\<lambda>tx. seqio (wait_stake_tx E tx) (stake_succeeded E r))) (\<lambda>_ c'. \<exists>b m. c' = ?c @ [Shown b m]) (\<lambda>c'. c' = ?c)"
      by (intro runs_bind_all [where A = "\<lambda>_ c'. c' = ?c"]) simp_all
  qed auto
  have failed: "runs (cored v) ?c (stake_failed E r e) (\<lambda>_ c'. \<exists>b m. c' = ?c @ [Shown b m]) (\<lambda>c'. c' = ?c)" for e
    unfolding stake_failed_def Let_def setErrorMessage_def
    by (intro runs_lift runs_message runs_floating_end silent_rules) auto
  have c: "runs (cored v) c (catchio (seqio (approve E r (page_stakingAddress r) (depositNum r) 18)
      (bindio (deposit E r (page_poolId r) (depositNum r)) (\<lambda>tx. seqio (wait_stake_tx E tx) (stake_succeeded E r)))) (stake_failed E r))
      (\<lambda>_ c'. \<exists>b m. c' = ?c @ [Shown b m]) (\<lambda>c'. c' = ?c)"
    by (rule runs_catch [OF inner]) (simp only: failed)
  have g: "\<not> equals_num (depositNum r) (Some 0)" "\<not> js_gt (depositNum r) (formatEther (units_of E) (balance r) 2)"
    using ok(2) by (simp_all add: affordable_def)
  have "runs (cored v) c (onStakeButtonClick E r) (\<lambda>_ c'. \<exists>b m. c' = ?c @ [Shown b m]) (\<lambda>c'. c' = ?c)"
    unfolding onStakeButtonClick_def if_not_P [OF g(1)] if_not_P [OF g(2)] seqio_def [of "updateBalanceInfo E r"]
    by (rule runs_silent [OF updateBalanceInfo_silent disjI1 [OF updateBalanceInfo_total [OF ok(1)]]]) (rule c)
  then show ?thesis by simp
qed

text \<open>The flag of the farming page. Only its two setters touch it.\<close>

lemma flag_silent [silent_rules]:
  "silent (valued ''stakeLoading'' x v) (updateBalanceInfo E r)"
  "silent (valued ''stakeLoading'' x v) (approve E r target a d)"
  "silent (valued ''stakeLoading'' x v) (stake_failed E r e)"
proof -
  note s = token_reads [THEN silent_valued] stake_reads [THEN silent_valued] set_other_silent
    valued_silent [OF approve_marks value_of_other(1)]
  show u: "silent (valued ''stakeLoading'' x v) (updateBalanceInfo E r)" for x r
    unfolding updateBalanceInfo_def getBalance_def getDeposited_def getAllowance_def load_token_def load_def
    by (intro silent_rules s) simp_all
  show "silent (valued ''stakeLoading'' x v) (approve E r target a d)"
    unfolding approve_def units_or_throw_def getAllowance_def load_def
    by (intro silent_rules s) simp_all
  show "silent (valued ''stakeLoading'' x v) (stake_failed E r e)"
    unfolding stake_failed_def Let_def setErrorMessage_def by (intro silent_rules u)
qed

lemma failed_stake_loading:
  assumes "connected r" and "affordable E r" and "\<And>sc x w. \<exists>e. fst (stake_deposit E sc (page_poolId r) x w) = Inl e"
  shows "runs (valued ''stakeLoading'' b v) d (farm_stake E r) (\<lambda>_ d'. d' = Bool True) (\<lambda>d'. d' = Bool True)"
proof -
  let ?u = "valued ''stakeLoading'' b v"
  obtain sc where sc: "stakingContract r = Some sc" using assms(1) by (auto simp: connected_def)
  let ?m = "deposit E r (page_poolId r) (depositNum r)"
  have f: "\<exists>e. fst (?m w) = Inl e" for w
    using assms(3) [of sc "parseEther (units_of E) (depositNum r)" w]
    by (auto simp: deposit_def sc catchio_def throw_def split: prod.split)
  have q: "silent ?u ?m"
    unfolding deposit_def sc option.case by (intro silent_rules valued_silent [OF deposit_marks value_of_other(1)])
  have inner: "runs ?u (Bool True) (seqio (approve E r (page_stakingAddress r) (depositNum r) 18) (bindio ?m g))
      (\<lambda>_ d'. d' = Bool True) (\<lambda>d'. d' = Bool True)" for g :: "nat \<Rightarrow> ('w, unit) io"
    by (intro runs_silent_seq flag_silent runs_failing [OF q f]) simp_all
  have g: "\<not> equals_num (depositNum r) (Some 0)" "\<not> js_gt (depositNum r) (formatEther (units_of E) (balance r) 2)"
    using assms(2) by (simp_all add: affordable_def)
  have c: "runs ?u (Bool True) (catchio (seqio (approve E r (page_stakingAddress r) (depositNum r) 18) (bindio ?m g)) (stake_failed E r))
      (\<lambda>_ d'. d' = Bool True) (\<lambda>d'. d' = Bool True)" for g :: "nat \<Rightarrow> ('w, unit) io"
    by (rule runs_catch [OF inner]) (simp, intro runs_silent_end flag_silent, simp_all)
  show ?thesis
    unfolding farm_stake_def if_not_P [OF g(1)] if_not_P [OF g(2)] seqio_def [of "updateBalanceInfo E r"]
    by (rule runs_silent [OF flag_silent(1) disjI1 [OF updateBalanceInfo_total [OF assms(1)]]]) (rule runs_assign [OF c])
qed

end

section \<open>A page in memory\<close>

text \<open>The world is the trace; the wallet sends what \<open>ok\<close> accepts and rejects the rest, every read answers 0.\<close>

definition sim_write :: "'tx page_op \<Rightarrow> ('tx page_op list, unit) io" where
  "sim_write p = (\<lambda>t. (Inr (), t @ [p]))"

definition sim_send :: "('tx \<Rightarrow> bool) \<Rightarrow> 'tx \<Rightarrow> ('tx page_op list, nat) io" where
  "sim_send ok x = (\<lambda>t. if ok x then (Inr (length t), t @ [Tx x]) else (Inl (JsError ''user rejected''), t))"

definition sim_stake :: "(stake_tx \<Rightarrow> bool) \<Rightarrow> stake_tx page_op list stake_env" where
  "sim_stake ok = \<lparr>
     thrown = (\<lambda>e. case e of JsError s \<Rightarrow> Obj [(''message'', Str s)] | TypeError s \<Rightarrow> Obj [(''message'', Str s)]
       | ReferenceError s \<Rightarrow> Obj [(''message'', Str s)]),
     set_state = (\<lambda>n x. sim_write (Set n x)), show_message = (\<lambda>b s. sim_write (Shown b s)), units_of = plain_units,
     token_allowance = (\<lambda>tk a sp. ret (big 0)), token_balanceOf = (\<lambda>tk a. ret (big 0)),
     token_decimals = (\<lambda>tk. ret (Num 18)), token_symbol = (\<lambda>tk. ret (Str ''C2N'')),
     token_approve = (\<lambda>tk sp n. sim_send ok (Approve tk sp n)),
     stake_pending = (\<lambda>sc pid a. ret (big 0)), stake_totalPending = (\<lambda>sc. ret (big 0)),
     stake_deposited = (\<lambda>sc pid a. ret (big 0)),
     stake_deposit = (\<lambda>sc pid x. sim_send ok (Deposit sc pid x)), stake_withdraw = (\<lambda>sc pid x. sim_send ok (Withdraw sc pid x)),
     stake_userInfo = (\<lambda>sc pid a. ret Null), stake_poolInfo = (\<lambda>sc pid. ret Null), view_poolInfo = (\<lambda>sc pid. ret Null),
     view_rewardPerSecond = (\<lambda>sc. ret (big 0)), wait_stake_tx = (\<lambda>tx. ret Null) \<rparr>"

lemma sim_writing: "writing (\<lambda>t. t) (sim_write p) (\<lambda>t. t @ [p])" "total_io (sim_write p)"
  and sim_sending: "writing (\<lambda>t. t) (sim_send ok x) (\<lambda>t. t @ [Tx x])"
  by (auto simp: writing_def total_io_def sim_write_def sim_send_def)

interpretation sim_stake: stake_page "sim_stake ok" "\<lambda>t. t"
  by unfold_locales (simp_all add: sim_stake_def sim_writing sim_sending silent_ret)

definition demo_render :: render where
  "demo_render = \<lparr> stakingContract = Some ''0xStake'', viewStakingContract = Some ''0xStake'', depositTokenContract = Some ''0xToken'',
     earnedTokenContract = None, hook_walletAddress = Str ''0xMe'', allowanceAddress = ''0xStake'', hook_poolId = 0,
     balance = big (20 * 10 ^ 18), depositedAmount = big 0, deposit_symbol = Str ''C2N'', depositNum = Num 12, withdrawNum = Num 0,
     page_poolId = 0, page_stakingAddress = ''0xStake'' \<rparr>"

lemma units_10000: "units_parse plain_units ''10000'' 18 = Some (10000 * 10 ^ 18)"
proof -
  have "char_of (of_char (CHR ''1'') :: nat) = CHR ''1''" "char_of (of_char (CHR ''0'') :: nat) = CHR ''0''" by (rule char_of_char)+
  then have "show_nat 10000 = ''10000''" by (simp add: show_nat.simps digit_char_def)
  then have "js_string (Num (of_nat 10000)) = ''10000''" by (simp only: js_string_nat)
  then show ?thesis using plain.units_exact [of 10000 18] by (simp add: decimal_Ints)
qed

section \<open>Properties\<close>

text \<open>C8: whatever fails and whenever, a click on \<open>Stake\<close> sends at most the approval and the deposit of the
  rendering, in this order and each once, and then shows exactly one message, that of success only after the deposit; a click
  that throws shows none. What is approved does not depend on the amount: the parameter \<open>n\<close> is what \<open>10000\<close> tokens are.\<close>

theorem stake_click:
  assumes "stake_page E v" and "units_parse (units_of E) ''10000'' 18 = Some n" and "onStakeButtonClick E r w = (res, w')"
  shows "\<exists>l msgs. core (v w') = core (v w) @ map Tx l @ msgs \<and> subseq l (stake_txs E r n) \<and>
    (case res of Inl e \<Rightarrow> msgs = [] | Inr u \<Rightarrow> \<exists>b m. msgs = [Shown b m] \<and> (b \<longrightarrow> list_ex is_deposit l))"
proof -
  from tripleD [OF stake_page.stake_click_runs [OF assms(1,2), of "cored v w" r] refl] assms(3)
  show ?thesis by (cases res) (fastforce simp: cored_def outcome_def)+
qed

theorem stake_click_witness:
  "\<exists>l msgs. core (snd (onStakeButtonClick (sim_stake (\<lambda>x. True)) demo_render [])) = map Tx l @ msgs \<and>
     subseq l (stake_txs (sim_stake (\<lambda>x. True)) demo_render (10000 * 10 ^ 18))"
proof -
  obtain res t where r: "onStakeButtonClick (sim_stake (\<lambda>x. True)) demo_render [] = (res, t)" by fastforce
  have u: "units_parse (units_of (sim_stake (\<lambda>x. True))) ''10000'' 18 = Some (10000 * 10 ^ 18)"
    using units_10000 by (simp add: sim_stake_def)
  from stake_click [OF sim_stake.stake_page_axioms u r] r show ?thesis by auto
qed

text \<open>A user who refuses the approval is asked for the deposit all the same: the refusal is logged, and the deposit
  of the amount goes to the staking contract, followed by one message. The hypotheses say that the page is connected, the balance
  suffices, amounts convert, the approval is always refused and the deposit always sent.\<close>

theorem refused_approval_deposits:
  assumes "stake_page E v" and "connected r" and "affordable E r" and "stakingContract r = Some sc"
    and "units_parse (units_of E) ''10000'' 18 \<noteq> None"
    and "units_parse (units_of E) (text_of (logged_amount (depositNum r))) 18 \<noteq> None"
    and "\<And>tk sp n w. \<exists>e. fst (token_approve E tk sp n w) = Inl e" and "\<And>x. total_io (stake_deposit E sc (page_poolId r) x)"
  shows "\<exists>l. core (v (snd (onStakeButtonClick E r w))) = core (v w) @ Tx (Deposit sc (page_poolId r) (parseEther (units_of E) (depositNum r))) # l
    \<and> length l \<le> 1"
proof -
  obtain res w' where r: "onStakeButtonClick E r w = (res, w')" by fastforce
  from tripleD [OF stake_page.refused_approval_runs [OF assms, of "cored v w"] refl] r
  show ?thesis by (cases res) (auto simp: cored_def)
qed

lemma demo_checks: "connected demo_render" "affordable (sim_stake ok) demo_render"
proof -
  have "formatEther plain_units (big (20 * 10 ^ 18)) 2 = Num (rounded 2 20)"
    using plain.formatEther_big [of "20 * 10 ^ 18" 2] to_double_nat [of 20] by simp
  moreover have "rounded 2 20 = 20" by (simp add: rounded_def floor_eq_iff)
  ultimately show "affordable (sim_stake ok) demo_render"
    by (simp add: affordable_def demo_render_def sim_stake_def js_gt_def greater_def equals_num_def)
qed (simp add: connected_def demo_render_def)

lemma demo_logged: "units_parse plain_units (text_of (logged_amount (Num 12))) 18 \<noteq> None"
  using plain.units_exact [of 1000000 18]
  by (simp add: logged_amount_def js_gt_def greater_def APPROVE_STAKING_AMOUNT_ETHER_def text_of_def big_of_def decimal_Ints)

theorem refused_approval_deposits_witness:
  "\<exists>l. core (snd (onStakeButtonClick (sim_stake is_deposit) demo_render [])) =
     Tx (Deposit ''0xStake'' 0 (big 12000000000000000000)) # l"
proof -
  have e: "parseEther plain_units (Num 12) = big 12000000000000000000"
    using plain.parseEther_number [of 12] by (simp add: decimal_Ints)
  from refused_approval_deposits [OF sim_stake.stake_page_axioms [of is_deposit] demo_checks, of "''0xStake''" "[]"] e
  show ?thesis using units_10000 demo_logged by (auto simp: demo_render_def sim_stake_def sim_send_def total_io_def)
qed

text \<open>A stake that fails on the farming page, where the page is connected and the amount passes the checks, leaves
  its flag \<open>stakeLoading\<close> set: the handler clears it only after a deposit that succeeded.\<close>

theorem failed_farm_stake_keeps_loading:
  assumes "stake_page E v" and "connected r" and "affordable E r"
    and "\<And>sc x w. \<exists>e. fst (stake_deposit E sc (page_poolId r) x w) = Inl e"
  shows "value_of ''stakeLoading'' b (v (snd (farm_stake E r w))) = Bool True"
proof -
  obtain res w' where r: "farm_stake E r w = (res, w')" by fastforce
  from tripleD [OF stake_page.failed_stake_loading [OF assms, of b "valued ''stakeLoading'' b v w"] refl] r
  show ?thesis by (cases res) (auto simp: valued_def)
qed

theorem failed_farm_stake_keeps_loading_witness:
  "value_of ''stakeLoading'' (Bool False) (snd (farm_stake (sim_stake (\<lambda>x. False)) demo_render [])) = Bool True"
  using failed_farm_stake_keeps_loading [OF sim_stake.stake_page_axioms [of "\<lambda>x. False"] demo_checks, of "Bool False" "[]"]
  by (simp add: sim_stake_def sim_send_def)

text \<open>On the farms of Sepolia and of the local chain the contract that the farming page reads the balance of and
  approves is not the farm's deposit token: the hook looks up the token of the chain and ignores the address it was given.\<close>

theorem farm_reads_other_token:
  assumes "f \<in> set farms" and "truthy_val signer"
  shows "deposit_token_contract (depositTokenAddress f) signer (Obj [(''chainId'', Num (of_nat (farm_chainId f)))]) =
      Inr (TOKEN_ADDRESS_MAP (farm_chainId f)) \<and>
    (farm_chainId f \<noteq> 97 \<longrightarrow> TOKEN_ADDRESS_MAP (farm_chainId f) \<noteq> Some (depositTokenAddress f))"
  using assms
  by (auto simp: farms_def deposit_token_contract_def getAirDropToken_def tokenInfos_def TOKEN_ADDRESS_MAP_def equals_num_def)

theorem farm_reads_other_token_witness:
  "\<exists>a. deposit_token_contract (depositTokenAddress (hd farms)) (Ref 1) (Obj [(''chainId'', Num 11155111)]) = Inr (Some a) \<and>
     a \<noteq> depositTokenAddress (hd farms)"
  using farm_reads_other_token [of "hd farms" "Ref 1"] by (simp add: farms_def TOKEN_ADDRESS_MAP_def)

end
