(* ===== verification/Project_Page.thy ===== *)
theory Project_Page
  imports Stake_Pages
begin

text \<open>
  The page of a sale, \<open>pages/project.tsx\<close>: the state of the sale from its milestones, which portions can be withdrawn, and
  the handlers that register, buy and withdraw. The calls of the sale contract and the back end belong to the environment
  \<open>project_env\<close>, which contains the one of \<open>useStake\<close>.
\<close>

section \<open>The environment and a rendering\<close>

record 'w project_env =
  staking :: "'w stake_env"
  sale_isRegistered :: "string \<Rightarrow> val \<Rightarrow> ('w, val) io"
  sale_isParticipated :: "string \<Rightarrow> val \<Rightarrow> ('w, val) io"
  sale_getParticipation :: "string \<Rightarrow> val \<Rightarrow> ('w, val) io"
  sale_register :: "string \<Rightarrow> int option list \<Rightarrow> int \<Rightarrow> ('w, nat) io"
  sale_participate :: "string \<Rightarrow> int option list \<Rightarrow> int \<Rightarrow> int \<Rightarrow> ('w, nat) io"
  sale_withdraw :: "string \<Rightarrow> nat list \<Rightarrow> ('w, nat) io"
  http_post :: "string \<Rightarrow> (string \<times> val) list \<Rightarrow> ('w, val) io"
  show_login :: "('w, unit) io"

record sale_render =
  hooks :: render
  saleContract :: "string option"
  saleAddress :: string
  sale_wallet :: val
  isUserRegister :: val
  sale_poolId :: int
  allocationTop :: string
  depositDecimals :: nat
  projectInfo :: val
  canWithdrawArr :: "bool list"

section \<open>Milestones\<close>

record mile_stones =
  registrationTimeStarts :: val
  registrationTimeEnds :: val
  saleStart :: val
  saleEnd :: val
  unlock :: val

text \<open>\<open>(bigSec && BigNumber.from(bigSec).toString()) || ''\<close>. Despite its name nothing is converted.\<close>

definition bigNumSec2Milsec :: "ethers \<Rightarrow> val \<Rightarrow> js_error + val" where
  "bigNumSec2Milsec U bigSec = (if \<not> truthy_val bigSec then Inr (Str [])
     else case big_of bigSec of Some n \<Rightarrow> Inr (Str (show_int n))
       | None \<Rightarrow> (case big_from U (js_string bigSec) of None \<Rightarrow> Inl (JsError ''invalid BigNumber value'')
         | Some n \<Rightarrow> Inr (Str (show_int n))))"

definition project_milestones :: "ethers \<Rightarrow> val \<Rightarrow> js_error + mile_stones" where
  "project_milestones U info =
     (case (bigNumSec2Milsec U (opt_member info ''registrationTimeStarts''), bigNumSec2Milsec U (opt_member info ''registrationTimeEnds''),
            bigNumSec2Milsec U (opt_member info ''saleStart''), bigNumSec2Milsec U (opt_member info ''saleEnd''),
            bigNumSec2Milsec U (opt_member info ''unlockTime'')) of
        (Inr a, Inr b, Inr c, Inr d, Inr e) \<Rightarrow> Inr \<lparr> registrationTimeStarts = a, registrationTimeEnds = b, saleStart = c,
          saleEnd = d, unlock = e \<rparr>
      | _ \<Rightarrow> Inl (JsError ''invalid BigNumber value''))"

text \<open>\<open>now < m\<close> and \<open>now >= m\<close> for the number \<open>now\<close>: a missing milestone counts as \<open>NaN\<close>, an empty one as 0.\<close>

definition before :: "rat \<Rightarrow> val \<Rightarrow> bool" where
  "before now m = greater (to_number m) (Some now)"

definition reached :: "rat \<Rightarrow> val \<Rightarrow> bool" where
  "reached now m = (case to_number m of None \<Rightarrow> False | Some x \<Rightarrow> x \<le> now)"

text \<open>The status the timer sets every second, \<open>None\<close> when it sets none.\<close>

definition judgePoolStatus :: "rat \<Rightarrow> mile_stones \<Rightarrow> int option" where
  "judgePoolStatus now ms =
     (if before now (registrationTimeStarts ms) then Some 0
      else if before now (registrationTimeEnds ms) then Some 1
      else if before now (saleStart ms) then Some 2
      else if before now (saleEnd ms) then Some 3
      else if before now (unlock ms) then Some 4
      else if reached now (unlock ms) then Some 5 else None)"

section \<open>Portions\<close>

text \<open>\<open>a <= b\<close> with a string on the right: two strings compare as text. \<open>'0' + '000'\<close> is evaluated before \<open>||\<close>.
  The flags of the portions are an array, as the sale contract answers them.\<close>

fun str_le :: "string \<Rightarrow> string \<Rightarrow> bool" where
  "str_le [] t = True"
| "str_le (c # s) [] = False"
| "str_le (c # s) (d # t) = (if c = d then str_le s t else (of_char c :: nat) < of_char d)"

definition le_text :: "val \<Rightarrow> string \<Rightarrow> bool" where
  "le_text a s = (case a of Str t \<Rightarrow> str_le t s
     | _ \<Rightarrow> (case (to_number a, number_of_string s) of (Some x, Some y) \<Rightarrow> x \<le> y | _ \<Rightarrow> False))"

definition vestingPortionsUnlockTime :: "val \<Rightarrow> val" where
  "vestingPortionsUnlockTime info =
     (if truthy_val info \<and> truthy_val (opt_member info ''vestingPercentPerPortion'') \<and> truthy_val (opt_member info ''vestingPortionsUnlockTime'')
      then opt_member info ''vestingPortionsUnlockTime'' else Arr [])"

definition isPortionWithdrawn :: "val \<Rightarrow> val" where
  "isPortionWithdrawn participateInfo =
     (if truthy_val participateInfo then js_or (item participateInfo 3) (Num 0) else Num 0)"

definition portions :: "rat \<Rightarrow> val \<Rightarrow> val \<Rightarrow> bool list" where
  "portions now unlocks withdrawn =
     (if truthy_val withdrawn
      then (case withdrawn of Arr ws \<Rightarrow>
          map (\<lambda>(i, w). \<not> truthy_val w \<and> le_text (js_or (item unlocks i) (Str ''0000'')) (js_string (Num now))) (List.enumerate 0 ws)
        | _ \<Rightarrow> [])
      else [True])"

section \<open>Requests\<close>

definition getParticipateInfo :: "'w project_env \<Rightarrow> sale_render \<Rightarrow> ('w, unit) io" where
  "getParticipateInfo E r =
     (case saleContract r of None \<Rightarrow> ret ()
      | Some sc \<Rightarrow> catchio
          (bindio (sale_getParticipation E sc (sale_wallet r)) (set_state (staking E) ''participateInfo''))
          (\<lambda>e. setErrorMessage (staking E) ''Get participation info fail, please check your network and refresh!''))"

definition refreshStates :: "'w project_env \<Rightarrow> sale_render \<Rightarrow> ('w, unit) io" where
  "refreshStates E r =
     (case saleContract r of None \<Rightarrow> ret ()
      | Some sc \<Rightarrow>
         if \<not> truthy_val (sale_wallet r) then ret ()
         else
           seqio (floating (bindio (sale_isRegistered E sc (sale_wallet r)) (set_state (staking E) ''isRegistered'')))
           (seqio (floating (bindio (sale_isParticipated E sc (sale_wallet r)) (\<lambda>data.
              seqio (set_state (staking E) ''isParticipated'' data)
                (if truthy_val data then floating (getParticipateInfo E r) else ret ()))))
           (set_state (staking E) ''statesReady'' (Bool True))))"

text \<open>A failed request shows a message and yields \<open>undefined\<close>.\<close>

definition signed_request :: "'w project_env \<Rightarrow> string \<Rightarrow> (string \<times> val) list \<Rightarrow> string \<Rightarrow> ('w, val) io" where
  "signed_request E url f failure =
     catchio (bindio (http_post E url f) (\<lambda>response. lift (member response ''data'')))
       (\<lambda>e. seqio (setErrorMessage (staking E) failure) (ret Undef))"

definition getRegistrationSign :: "'w project_env \<Rightarrow> sale_render \<Rightarrow> ('w, val) io" where
  "getRegistrationSign E r = signed_request E ''/boba/encode/sign_registration''
     [(''userAddress'', js_or (sale_wallet r) (Str [])), (''contractAddress'', Str (saleAddress r))] ''Register fail''"

definition getParticipateSign :: "'w project_env \<Rightarrow> sale_render \<Rightarrow> ('w, val) io" where
  "getParticipateSign E r = signed_request E ''/boba/encode/sign_participation''
     [(''userAddress'', js_or (sale_wallet r) (Str [])), (''contractAddress'', Str (saleAddress r)), (''amount'', Str (allocationTop r))]
     ''Purchase fail''"

definition bindReferral :: "'w project_env \<Rightarrow> sale_render \<Rightarrow> string \<Rightarrow> ('w, val) io" where
  "bindReferral E r code =
     http_post E ''/boba/referral/bind'' [(''referralCode'', Str code), (''participant'', sale_wallet r)]"

text \<open>\<open>hexToBytes\<close> of whatever the back end answered.\<close>

definition hex_bytes :: "val \<Rightarrow> js_error + int option list" where
  "hex_bytes s = (case s of Str t \<Rightarrow> Inr (hexToBytes t)
     | Undef \<Rightarrow> Inl (TypeError ''Cannot read properties of undefined'')
     | Null \<Rightarrow> Inl (TypeError ''Cannot read properties of null'')
     | Arr xs \<Rightarrow> if xs = [] then Inr [] else Inl (TypeError ''hex.substr is not a function'')
     | _ \<Rightarrow> Inr [])"

section \<open>Handlers\<close>

definition sale_failed :: "'w project_env \<Rightarrow> string \<Rightarrow> js_error \<Rightarrow> ('w, unit) io" where
  "sale_failed E what e =
     bindio (lift (getErrorMessage (error_value (staking E) e))) (\<lambda>msg.
       setErrorMessage (staking E) (failure_text what msg))"

text \<open>What the timers after a registration call resolves at once and does nothing.\<close>

definition registerForSale :: "'w project_env \<Rightarrow> sale_render \<Rightarrow> ('w, unit) io" where
  "registerForSale E r =
     (if \<not> truthy_val (isUserRegister r) then show_login E
      else case saleContract r of None \<Rightarrow> throw rejected
      | Some sc \<Rightarrow> catchio
          (bindio (getRegistrationSign E r) (\<lambda>registrationSign.
           bindio (lift (hex_bytes registrationSign)) (\<lambda>signBuffer.
           bindio (sale_register E sc signBuffer (sale_poolId r)) (\<lambda>transaction.
           seqio (wait_stake_tx (staking E) transaction)
           (seqio (setSuccessMessage (staking E) ''Register success'') (floating (refreshStates E r)))))))
          (sale_failed E ''Participate failed. ''))"

text \<open>\<open>BigNumber.from(projectInfo.tokenPriceInPT).mul(~~value.value)\<close>\<close>

definition token_price :: "ethers \<Rightarrow> val \<Rightarrow> js_error + int" where
  "token_price U info = (case member info ''tokenPriceInPT'' of Inl e \<Rightarrow> Inl e
     | Inr p \<Rightarrow> (case big_of p of Some n \<Rightarrow> Inr n
       | None \<Rightarrow> if p = Undef \<or> p = Null then Inl (JsError ''invalid BigNumber value'')
         else (case big_from U (js_string p) of None \<Rightarrow> Inl (JsError ''invalid BigNumber value'') | Some n \<Rightarrow> Inr n)))"

definition paymentAmount :: "ethers \<Rightarrow> val \<Rightarrow> val \<Rightarrow> js_error + int" where
  "paymentAmount U info value = (case token_price U info of Inl e \<Rightarrow> Inl e
     | Inr p \<Rightarrow> (case member value ''value'' of Inl e \<Rightarrow> Inl e | Inr x \<Rightarrow> Inr (p * toInt32 (to_number x))))"

definition buy :: "'w project_env \<Rightarrow> sale_render \<Rightarrow> string \<Rightarrow> int \<Rightarrow> ('w, unit) io" where
  "buy E r sc payment =
     (let U = units_of (staking E) in
      seqio (approve (staking E) (hooks r) (saleAddress r)
          (num_val (number_of_string (units_string U payment (depositDecimals r)))) (depositDecimals r))
      (bindio (getParticipateSign E r) (\<lambda>participateSign.
       bindio (lift (hex_bytes participateSign)) (\<lambda>signBuffer.
       (case big_from U (allocationTop r) of None \<Rightarrow> throw (JsError ''invalid BigNumber value'')
        | Some allocation \<Rightarrow>
          bindio (sale_participate E sc signBuffer allocation payment) (\<lambda>transaction.
          seqio (wait_stake_tx (staking E) transaction)
          (seqio (setSuccessMessage (staking E) ''Purchase success'')
          (seqio (floating (refreshStates E r))
          (set_state (staking E) ''showParticipateModal'' (Bool False))))))))))"

definition participate :: "'w project_env \<Rightarrow> sale_render \<Rightarrow> val \<Rightarrow> ('w, unit) io" where
  "participate E r value =
     (case saleContract r of None \<Rightarrow> throw rejected
      | Some sc \<Rightarrow>
        seqio (set_state (staking E) ''loading'' (Bool True))
        (bindio (lift (paymentAmount (units_of (staking E)) (projectInfo r) value)) (\<lambda>payment.
         finallyio (catchio (buy E r sc payment) (sale_failed E ''Purchase fail. ''))
           (set_state (staking E) ''loading'' (Bool False)))))"

definition portion_ids :: "bool list \<Rightarrow> nat list" where
  "portion_ids cs = map fst (filter snd (List.enumerate 0 cs))"

text \<open>The unused first line converts the price, which throws when there is none.\<close>

definition withdrawTokens :: "'w project_env \<Rightarrow> sale_render \<Rightarrow> ('w, unit) io" where
  "withdrawTokens E r =
     bindio (lift (token_price (units_of (staking E)) (projectInfo r))) (\<lambda>price.
       case saleContract r of None \<Rightarrow> throw rejected
       | Some sc \<Rightarrow> catchio
           (bindio (sale_withdraw E sc (portion_ids (canWithdrawArr r))) (\<lambda>transaction.
            seqio (wait_stake_tx (staking E) transaction)
            (seqio (setSuccessMessage (staking E) ''withdraw success'') (floating (refreshStates E r)))))
           (sale_failed E ''Withdraw fail. ''))"

section \<open>The status of a sale\<close>

lemma judge_mono:
  assumes "judgePoolStatus n ms = Some s" and "judgePoolStatus n' ms = Some s'" and "n \<le> n'"
  shows "s \<le> s'"
proof -
  have "before n m" if "before n' m" for m
    using that assms(3) by (auto simp: before_def greater_def split: option.splits)
  then show ?thesis
    using assms(1,2) unfolding judgePoolStatus_def by (auto split: if_splits)
qed

definition mile_list :: "mile_stones \<Rightarrow> val list" where
  "mile_list ms = [registrationTimeStarts ms, registrationTimeEnds ms, saleStart ms, saleEnd ms, unlock ms]"

lemma judge_counts:
  assumes "map to_number (mile_list ms) = map Some ts" and "sorted ts"
  shows "judgePoolStatus now ms = Some (int (length (filter (\<lambda>t. t \<le> now) ts)))"
proof -
  from assms(1) obtain a b c d e where ts: "ts = [a, b, c, d, e]" and
    m: "to_number (registrationTimeStarts ms) = Some a" "to_number (registrationTimeEnds ms) = Some b"
      "to_number (saleStart ms) = Some c" "to_number (saleEnd ms) = Some d" "to_number (unlock ms) = Some e"
    by (auto simp: mile_list_def map_eq_Cons_conv)
  then show ?thesis
    using assms(2) by (auto simp: judgePoolStatus_def before_def reached_def greater_def not_less)
qed

text \<open>Milestones in seconds, as the types of the page document them, are compared with a clock in milliseconds.\<close>

lemma judge_seconds:
  assumes "map to_number (mile_list ms) = map Some ts" and "\<forall>t \<in> set ts. t \<le> now"
  shows "judgePoolStatus now ms = Some 5"
proof -
  from assms(1) obtain a b c d e where ts: "ts = [a, b, c, d, e]" and
    m: "to_number (registrationTimeStarts ms) = Some a" "to_number (registrationTimeEnds ms) = Some b"
      "to_number (saleStart ms) = Some c" "to_number (saleEnd ms) = Some d" "to_number (unlock ms) = Some e"
    by (auto simp: mile_list_def map_eq_Cons_conv)
  with assms(2) show ?thesis by (auto simp: judgePoolStatus_def before_def reached_def greater_def not_less)
qed

text \<open>The transactions of a purchase.\<close>

definition purchase_txs :: "sale_render \<Rightarrow> string \<Rightarrow> int \<Rightarrow> int option list \<Rightarrow> int \<Rightarrow> int \<Rightarrow> stake_tx list" where
  "purchase_txs r sc n sig k p = (case depositTokenContract (hooks r) of None \<Rightarrow> []
     | Some tk \<Rightarrow> [Approve tk (saleAddress r) n, Participate sc sig k p])"

section \<open>The interface\<close>

locale project_page = stake_page "staking E" v for E :: "'w project_env" and v :: "'w \<Rightarrow> stake_tx page_op list" +
  assumes sale_reads: "silent v (sale_isRegistered E sc a)" "silent v (sale_isParticipated E sc a)"
      "silent v (sale_getParticipation E sc a)" "silent v (http_post E url f)" "silent v (show_login E)"
    and register_marks: "writing v (sale_register E sc sig pid) (\<lambda>t. t @ [Tx (Register sc sig pid)])"
    and participate_marks: "writing v (sale_participate E sc sig k n) (\<lambda>t. t @ [Tx (Participate sc sig k n)])"
    and portions_marks: "writing v (sale_withdraw E sc ids) (\<lambda>t. t @ [Tx (Withdraw_Portions sc ids)])"
begin

lemmas page_unsent [silent_rules] = unsent sale_reads [THEN silent_sending] stake_reads [THEN silent_sending]

lemma project_quiet [silent_rules]:
  "silent (sending v) (refreshStates E r)" "silent (sending v) (signed_request E url f m)" "silent (sending v) (sale_failed E m e)"
  unfolding refreshStates_def getParticipateInfo_def signed_request_def sale_failed_def setErrorMessage_def
  by (intro silent_rules)+

lemma approve_sending:
  assumes "depositTokenContract r = Some tk" and "units_parse (units_of (staking E)) ''10000'' 18 = Some n"
  shows "runs (sending v) d (approve (staking E) r target x dec) (\<lambda>_ d'. d' = d \<or> d' = d @ [Approve tk target n]) (\<lambda>d'. d' = d)"
  by (rule sending_cored, rule runs_conseq [OF approve_runs [OF assms]]) auto

lemma buy_runs:
  assumes n: "units_parse (units_of (staking E)) ''10000'' 18 = Some n"
    and k: "big_from (units_of (staking E)) (allocationTop r) = Some k"
  shows "runs (sending v) d (buy E r sc p) (\<lambda>_ d'. \<exists>l sig. d' = d @ l \<and> subseq l (purchase_txs r sc n sig k p))
    (\<lambda>d'. \<exists>l sig. d' = d @ l \<and> subseq l (purchase_txs r sc n sig k p))" (is "runs _ _ _ (\<lambda>_. ?Q) ?Q")
proof (cases "depositTokenContract (hooks r)")
  case None
  then show ?thesis by (auto simp: buy_def Let_def approve_def purchase_txs_def intro!: runs_throw)
next
  case (Some tk)
  let ?A = "Approve tk (saleAddress r) n"
  have q: "?Q (d @ l)" if "subseq l (purchase_txs r sc n sig k p)" for l sig using that by blast
  have "runs (sending v) (d @ l) (bindio (getParticipateSign E r) (\<lambda>participateSign.
       bindio (lift (hex_bytes participateSign)) (\<lambda>signBuffer.
       (case big_from (units_of (staking E)) (allocationTop r) of None \<Rightarrow> throw (JsError ''invalid BigNumber value'')
        | Some allocation \<Rightarrow>
          bindio (sale_participate E sc signBuffer allocation p) (\<lambda>transaction.
          seqio (wait_stake_tx (staking E) transaction)
          (seqio (setSuccessMessage (staking E) ''Purchase success'')
          (seqio (floating (refreshStates E r))
          (set_state (staking E) ''showParticipateModal'' (Bool False))))))))) (\<lambda>_. ?Q) ?Q"
    if l: "l = [] \<or> l = [?A]" for l
  proof -
    have l1: "subseq l (purchase_txs r sc n sig k p)" for sig using l Some by (auto simp: purchase_txs_def)
    have l2: "subseq (l @ [Participate sc sig k p]) (purchase_txs r sc n sig k p)" for sig
      using l Some by (auto simp: purchase_txs_def)
    have rest: "runs (sending v) (d @ l @ [Participate sc sig k p]) (seqio (wait_stake_tx (staking E) tx)
        (seqio (setSuccessMessage (staking E) s) (seqio (floating (refreshStates E r)) (set_state (staking E) m b)))) (\<lambda>_. ?Q) ?Q"
      for sig tx s m b
      unfolding setSuccessMessage_def by (rule runs_silent_end) (intro silent_rules, use q [OF l2] in auto)
    show ?thesis
      unfolding getParticipateSign_def k option.case
      by (rule runs_silent_any, intro silent_rules, rule q [OF l1], rule runs_lift, rule q [OF l1],
          rule runs_write_bind [OF writing_sending [OF participate_marks]], rule q [OF l1]) (use rest in simp)
  qed
  note D = this
  show ?thesis
    unfolding buy_def Let_def seqio_def [of "approve (staking E) r' t x d'" for r' t x d']
  proof (rule runs_bind_all [OF runs_conseq [OF approve_sending [OF Some n]]], assumption)
    show "?Q s" if "s = d" for s using that q [of "[]"] by simp
  next
    fix s assume "s = d \<or> s = d @ [?A]"
    then show "runs (sending v) s (bindio (getParticipateSign E r) (\<lambda>participateSign.
       bindio (lift (hex_bytes participateSign)) (\<lambda>signBuffer.
       (case big_from (units_of (staking E)) (allocationTop r) of None \<Rightarrow> throw (JsError ''invalid BigNumber value'')
        | Some allocation \<Rightarrow>
          bindio (sale_participate E sc signBuffer allocation p) (\<lambda>transaction.
          seqio (wait_stake_tx (staking E) transaction)
          (seqio (setSuccessMessage (staking E) ''Purchase success'')
          (seqio (floating (refreshStates E r))
          (set_state (staking E) ''showParticipateModal'' (Bool False))))))))) (\<lambda>_. ?Q) ?Q"
      using D [of "[]"] D [of "[?A]"] by auto
  qed
qed

lemma participate_runs:
  assumes n: "units_parse (units_of (staking E)) ''10000'' 18 = Some n"
    and k: "big_from (units_of (staking E)) (allocationTop r) = Some k" and sc: "saleContract r = Some sc"
    and p: "paymentAmount (units_of (staking E)) (projectInfo r) amount = Inr p"
  shows "triple (sending v) (\<lambda>s. s = d) (participate E r amount)
    (\<lambda>_ d'. \<exists>l sig. d' = d @ l \<and> subseq l (purchase_txs r sc n sig k p))
    (\<lambda>d'. \<exists>l sig. d' = d @ l \<and> subseq l (purchase_txs r sc n sig k p))" (is "triple _ _ _ (\<lambda>_. ?Q) ?Q")
proof -
  have "runs (sending v) d (catchio (buy E r sc p) (sale_failed E m)) (\<lambda>_. ?Q) ?Q" for m
    by (rule runs_catch [OF buy_runs [OF n k]]) (rule runs_silent_end, intro silent_rules, assumption+)
  then have "runs (sending v) d (finallyio (catchio (buy E r sc p) (sale_failed E m)) (set_state (staking E) s b)) (\<lambda>_. ?Q) ?Q"
    for m s b
    by (rule triple_finally) (rule runs_all, rule runs_silent_end, intro silent_rules, assumption+)+
  then have "runs (sending v) d (seqio (set_state (staking E) s x)
      (finallyio (catchio (buy E r sc p) (sale_failed E m)) (set_state (staking E) s b))) (\<lambda>_. ?Q) ?Q" for m s x b
    unfolding seqio_def by (intro runs_silent) (auto intro: silent_rules simp: set_state_marks)
  then show ?thesis unfolding participate_def sc option.case p by simp
qed

lemma participate_loading:
  assumes "saleContract r = Some sc"
  shows "runs (valued ''loading'' b v) d (participate E r amount)
    (\<lambda>_ d'. d' = Bool (\<exists>e. paymentAmount (units_of (staking E)) (projectInfo r) amount = Inl e))
    (\<lambda>d'. d' = Bool (\<exists>e. paymentAmount (units_of (staking E)) (projectInfo r) amount = Inl e))"
  unfolding participate_def assms option.case
  by (rule runs_assign, cases "paymentAmount (units_of (staking E)) (projectInfo r) amount")
    (simp_all add: runs_throw runs_finally_set)

lemma withdraw_runs:
  "runs (sending v) d (withdrawTokens E r) (\<lambda>_ d'. \<exists>sc. saleContract r = Some sc \<and>
      (d' = d \<or> d' = d @ [Withdraw_Portions sc (portion_ids (canWithdrawArr r))]))
    (\<lambda>d'. d' = d \<or> (\<exists>sc. saleContract r = Some sc \<and> d' = d @ [Withdraw_Portions sc (portion_ids (canWithdrawArr r))]))"
proof (cases "saleContract r")
  case None
  then show ?thesis
    unfolding withdrawTokens_def by (intro runs_lift) (auto intro: runs_throw)
next
  case (Some sc)
  let ?X = "\<lambda>d'. d' = d \<or> d' = d @ [Withdraw_Portions sc (portion_ids (canWithdrawArr r))]"
  have "runs (sending v) d (catchio (bindio (sale_withdraw E sc (portion_ids (canWithdrawArr r))) (\<lambda>transaction.
      seqio (wait_stake_tx (staking E) transaction) (seqio (setSuccessMessage (staking E) m) (floating (refreshStates E r)))))
      (sale_failed E t)) (\<lambda>_. ?X) ?X" for m t
    by (rule runs_catch [where A = ?X], rule runs_write_bind [OF writing_sending [OF portions_marks]], simp,
        rule runs_silent_end, unfold setSuccessMessage_def, intro silent_rules, simp, simp,
        rule runs_silent_end, intro silent_rules, assumption+)
  then show ?thesis
    unfolding withdrawTokens_def Some option.case by (intro runs_lift) (auto elim: runs_conseq)
qed

end

section \<open>A page in memory\<close>

definition sim_project :: "(stake_tx \<Rightarrow> bool) \<Rightarrow> stake_tx page_op list project_env" where
  "sim_project ok = \<lparr> staking = sim_stake ok, sale_isRegistered = (\<lambda>sc a. ret (Bool True)),
     sale_isParticipated = (\<lambda>sc a. ret (Bool False)), sale_getParticipation = (\<lambda>sc a. ret Null),
     sale_register = (\<lambda>sc sig pid. sim_send ok (Register sc sig pid)),
     sale_participate = (\<lambda>sc sig k n. sim_send ok (Participate sc sig k n)),
     sale_withdraw = (\<lambda>sc ids. sim_send ok (Withdraw_Portions sc ids)),
     http_post = (\<lambda>url f. ret (Obj [(''data'', Str ''a1'')])), show_login = ret () \<rparr>"

interpretation sim_project: project_page "sim_project ok" "\<lambda>t. t"
  by (rule project_page.intro, simp add: sim_project_def, rule sim_stake.stake_page_axioms)
    (unfold_locales, simp_all add: sim_project_def sim_sending silent_ret)

section \<open>Properties\<close>

text \<open>C17: with five milestones in order the status that the timer sets is the number of milestones already reached, and
  whatever the milestones are, in or out of order, missing or empty, the status never goes back as time passes.\<close>

theorem sale_status_counts:
  assumes "map to_number (mile_list ms) = map Some ts" and "sorted ts"
    and "judgePoolStatus n any = Some s" and "judgePoolStatus n' any = Some s'" and "n \<le> n'"
  shows "judgePoolStatus now ms = Some (int (length (filter (\<lambda>t. t \<le> now) ts))) \<and> s \<le> s'"
  using judge_counts [OF assms(1,2)] judge_mono [OF assms(3-5)] by simp

definition demo_milestones :: mile_stones where
  "demo_milestones = \<lparr> registrationTimeStarts = Num 10, registrationTimeEnds = Num 20, saleStart = Num 30, saleEnd = Num 40, unlock = Num 50 \<rparr>"

theorem sale_status_counts_witness:
  "judgePoolStatus 35 demo_milestones = Some 3 \<and> (0 :: int) \<le> 3"
  using sale_status_counts [of demo_milestones "[10, 20, 30, 40, 50]" 5 demo_milestones 0 35 3 35]
  by (simp add: demo_milestones_def mile_list_def judgePoolStatus_def before_def greater_def)

text \<open>The types of the page document milestones and unlock times in seconds, the clock counts milliseconds, and the
  conversion converts nothing. So a sale whose milestones are numbers of seconds below the number of milliseconds on the clock, those of
  the next fifty thousand years, is over, and a portion not yet withdrawn is offered as soon as the clock passes its number.\<close>

theorem seconds_unlock_at_once:
  assumes "map to_number (mile_list ms) = map Some ts" and "\<forall>t \<in> set ts. t \<le> of_nat now"
    and "i < length ws" and "\<not> truthy_val (ws ! i)" and "item unlocks i = Num t" and "0 < t" and "t \<le> of_nat now"
  shows "judgePoolStatus (of_nat now) ms = Some 5 \<and> portions (of_nat now) unlocks (Arr ws) ! i"
proof -
  have "number_of_string (js_string (Num (of_nat now))) = Some (of_nat now)"
    by (rule to_number_js_string) (simp add: decimal_Ints)
  with assms(5-7) have "le_text (js_or (item unlocks i) (Str ''0000'')) (js_string (Num (of_nat now)))"
    by (simp add: le_text_def js_or_def)
  with assms(3,4) judge_seconds [OF assms(1,2)] show ?thesis
    by (simp add: portions_def nth_enumerate_eq)
qed

definition next_sale :: mile_stones where
  "next_sale = \<lparr> registrationTimeStarts = Num 1800000000, registrationTimeEnds = Num 1800600000, saleStart = Num 1801000000,
     saleEnd = Num 1802000000, unlock = Num 1900000000 \<rparr>"

theorem seconds_unlock_at_once_witness:
  "judgePoolStatus 1700000000000 next_sale = Some 5 \<and>
   portions 1700000000000 (Arr [Num 1900000000]) (Arr [Bool False]) ! 0"
  using seconds_unlock_at_once [of next_sale "[1800000000, 1800600000, 1801000000, 1802000000, 1900000000]" 1700000000000
      0 "[Bool False]" "Arr [Num 1900000000]" 1900000000]
  by (simp add: next_sale_def mile_list_def item_def)

text \<open>C7: whatever fails, a purchase sends at most the approval of the constant amount and one participation, in this
  order, and the participation pays the price times the number the buyer entered, cut to a 32-bit integer.\<close>

theorem purchase_pays_price:
  assumes "project_page E v" and "units_parse (units_of (staking E)) ''10000'' 18 = Some n"
    and "big_from (units_of (staking E)) (allocationTop r) = Some k" and "saleContract r = Some sc"
    and "token_price (units_of (staking E)) (projectInfo r) = Inr price" and "member amount ''value'' = Inr x"
    and "participate E r amount w = (res, w')"
  shows "\<exists>l sig. sent (v w') = sent (v w) @ l \<and> subseq l (purchase_txs r sc n sig k (price * toInt32 (to_number x)))"
proof -
  have p: "paymentAmount (units_of (staking E)) (projectInfo r) amount = Inr (price * toInt32 (to_number x))"
    using assms(5,6) by (simp add: paymentAmount_def)
  from tripleD [OF project_page.participate_runs [OF assms(1-4) p, of "sending v w"] refl] assms(7)
  show ?thesis by (cases res) (auto simp: sending_def)
qed

definition demo_sale :: sale_render where
  "demo_sale = \<lparr> hooks = demo_render, saleContract = Some ''0xSale'', saleAddress = ''0xSale'', sale_wallet = Str ''0xMe'',
     isUserRegister = Bool True, sale_poolId = 0, allocationTop = ''1000'', depositDecimals = 18,
     projectInfo = Obj [(''tokenPriceInPT'', big 5)], canWithdrawArr = [True, False, True] \<rparr>"

theorem purchase_pays_price_witness:
  "\<exists>l sig. sent (snd (participate (sim_project (\<lambda>x. True)) demo_sale (Obj [(''value'', Num (7 / 2))]) [])) = l \<and>
     subseq l (purchase_txs demo_sale ''0xSale'' 10000000000000000000000 sig 1000 15)"
proof -
  obtain res t where r: "participate (sim_project (\<lambda>x. True)) demo_sale (Obj [(''value'', Num (7 / 2))]) [] = (res, t)" by fastforce
  have u: "units_of (staking (sim_project (\<lambda>x. True))) = plain_units" by (simp add: sim_project_def sim_stake_def)
  have f: "\<lfloor>7 / 2 :: rat\<rfloor> = 3" by (simp add: floor_eq_iff)
  have k: "big_from plain_units ''1000'' = Some 1000"
    by (simp add: plain_units_def number_of_string_def trim_def Js_Literals.unsigned_def toNumber_def before_char_def is_blank_def
        is_digit_def digit_val_def read_digits_def)
  show ?thesis
    using purchase_pays_price [OF sim_project.project_page_axioms _ _ _ _ _ r, of 10000000000000000000000 1000 "''0xSale''" 5 "Num (7 / 2)"]
      units_10000 r k
    by (auto simp: u demo_sale_def token_price_def toInt32_def f)
qed

text \<open>A purchase that could not compute its payment leaves the page loading; every other one clears the flag.\<close>

theorem purchase_loading:
  assumes "project_page E v" and "saleContract r = Some sc"
  shows "value_of ''loading'' b (v (snd (participate E r amount w))) =
    Bool (\<exists>e. paymentAmount (units_of (staking E)) (projectInfo r) amount = Inl e)"
proof -
  obtain res w' where r: "participate E r amount w = (res, w')" by fastforce
  from tripleD [OF project_page.participate_loading [OF assms, where b = b and amount = amount and d = "valued ''loading'' b v w"] refl] r
  show ?thesis by (cases res) (auto simp: valued_def)
qed

theorem purchase_loading_witness:
  "value_of ''loading'' (Bool False) (snd (participate (sim_project (\<lambda>x. True)) demo_sale Undef [])) = Bool True"
  using purchase_loading [OF sim_project.project_page_axioms [of "\<lambda>x. True"], of demo_sale "''0xSale''" "Bool False" Undef "[]"]
  by (auto simp: demo_sale_def paymentAmount_def token_price_def)

end
