(* ===== verification/Bridge_Page.thy ===== *)
theory Bridge_Page
  imports Page_Env Nova_Util Nova_Config
begin

text \<open>
  The bridge of the launchpad: the requests of \<open>hooks/useBridge.ts\<close> and the exchange of
  \<open>containers/BridgeForm/BridgeForm.tsx\<close>. An exchange creates an order at the back end (or goes on with the one it has),
  pays the address the order names, and reports the payment. The trace records the order requests beside the payments.
\<close>

section \<open>The environment and a rendering\<close>

datatype bridge_op =
    Order_Create obj
  | Pay_Native string int
  | Pay_Token string string int
  | Order_Update obj

record 'w bridge_env = "'w page_env" +
  bridge_units :: ethers
  md5 :: "string \<Rightarrow> string"
  date_now :: "('w, int) io"
  quote_post :: "obj \<Rightarrow> ('w, val) io"
  order_create :: "obj \<Rightarrow> obj \<Rightarrow> ('w, val) io"
  order_update :: "obj \<Rightarrow> ('w, val) io"
  order_list :: "obj \<Rightarrow> ('w, val) io"
  pay_native :: "string \<Rightarrow> int \<Rightarrow> ('w, val) io"
  pay_token :: "string \<Rightarrow> string \<Rightarrow> int \<Rightarrow> ('w, val) io"
  wait_payment :: "val \<Rightarrow> ('w, val) io"
  coin_balance :: "string \<Rightarrow> val \<Rightarrow> ('w, val) io"
  coin_decimals :: "string \<Rightarrow> ('w, val) io"

record bridge_render =
  wallet :: val
  pageIndex :: nat
  tokenUnits :: "route list"
  coinContract :: "string option"
  fromNum :: val
  fromUnitValue :: string
  toUnit :: string
  coinDecimals :: int
  orderData :: val
  quoteData :: val
  waiting :: bool

definition pageSize :: nat where
  "pageSize = 20"

section \<open>useBridge.ts\<close>

definition secret :: string where
  "secret = ''bre2022.PL''"

definition quoteBridgeAmount :: "'w bridge_env \<Rightarrow> string \<Rightarrow> string \<Rightarrow> val \<Rightarrow> ('w, val) io" where
  "quoteBridgeAmount E from to q = quote_post E [(''deposit_coin'', Str from), (''receive_coin'', Str to), (''quantity'', q)]"

definition createBridgeOrder :: "'w bridge_env \<Rightarrow> obj \<Rightarrow> ('w, val) io" where
  "createBridgeOrder E order =
     bindio (date_now E) (\<lambda>timeStamp.
       order_create E order
         [(''hash'', Str (md5 E (js_string (get ''account_id'' order) @ show_int timeStamp @ secret))),
          (''timeStamp'', Num (of_int timeStamp))])"

definition update_data :: "'w bridge_env \<Rightarrow> val \<Rightarrow> val \<Rightarrow> obj" where
  "update_data E oid txid =
     [(''orderId'', oid), (''txId'', txid), (''hash'', Str (md5 E (js_string oid @ js_string txid @ secret)))]"

definition updateOrder :: "'w bridge_env \<Rightarrow> val \<Rightarrow> val \<Rightarrow> ('w, val) io" where
  "updateOrder E oid txid = bindio (date_now E) (\<lambda>timeStamp. order_update E (update_data E oid txid))"

definition getOrderList :: "'w bridge_env \<Rightarrow> val \<Rightarrow> nat \<Rightarrow> nat \<Rightarrow> ('w, val) io" where
  "getOrderList E accountId index page_len =
     bindio (date_now E) (\<lambda>timeStamp.
     bindio (order_list E [(''hash'', Str (md5 E (js_string accountId @ secret))), (''accountId'', accountId),
       (''pageIndex'', Num (of_nat index)), (''pageSize'', Num (of_nat page_len))]) (\<lambda>response.
     lift (member response ''data'')))"

section \<open>BridgeForm.tsx\<close>

definition getOrder :: "'w bridge_env \<Rightarrow> bridge_render \<Rightarrow> ('w, unit) io" where
  "getOrder E r =
     (if \<not> truthy_val (wallet r) then ret ()
      else
        bindio (getOrderList E (wallet r) (pageIndex r) pageSize) (\<lambda>orderListData.
        seqio (set_state E ''historyRecord'' (js_or (opt_member orderListData ''data'') (Arr [])))
        (bindio (lift (member orderListData ''dataCount'')) (set_state E ''recordTotal''))))"

definition coin_of :: "bridge_render \<Rightarrow> route option" where
  "coin_of r = find (\<lambda>u. route_value u = fromUnitValue r) (tokenUnits r)"

definition bridge_balance :: "'w bridge_env \<Rightarrow> bridge_render \<Rightarrow> ('w, unit) io" where
  "bridge_balance E r =
     (case coinContract r of None \<Rightarrow> ret ()
      | Some tk \<Rightarrow> seqio (floating (bindio (coin_balance E tk (wallet r)) (set_state E ''balance'')))
          (floating (bindio (coin_decimals E tk) (set_state E ''decimals''))))"

text \<open>The coin's contract is only set on the chain of the coin.\<close>

definition token_address_effect :: "'w bridge_env \<Rightarrow> bridge_render \<Rightarrow> val \<Rightarrow> ('w, unit) io" where
  "token_address_effect E r ch =
     (case coin_of r of None \<Rightarrow> throw (TypeError ''Cannot read properties of undefined'')
      | Some u \<Rightarrow> set_state E ''depositTokenAddress''
          (if contractAddress u \<noteq> [] \<and> loose_eq (Str (route_chainId u)) (opt_member ch ''chainId'')
           then Str (contractAddress u) else Str []))"

definition chain_effect :: "'w bridge_env \<Rightarrow> bridge_render \<Rightarrow> val \<Rightarrow> ('w, unit) io" where
  "chain_effect E r ch =
     (case find (\<lambda>u. loose_eq (Str (route_chainId u)) (opt_member ch ''chainId'')) (tokenUnits r) of None \<Rightarrow> ret ()
      | Some u \<Rightarrow> set_state E ''fromUnitValue'' (Str (route_value u)))"

definition to_unit_effect :: "'w bridge_env \<Rightarrow> bridge_render \<Rightarrow> ('w, unit) io" where
  "to_unit_effect E r =
     (if fromUnitValue r = [] then ret ()
      else case coin_of r of None \<Rightarrow> throw (TypeError ''Cannot read properties of undefined'')
      | Some u \<Rightarrow> set_state E ''toUnit'' (Str (toValue u)))"

text \<open>\<open>res.data.receive_amount - res.data.receive_fee\<close>, not below 0, to four digits.\<close>

definition quoted_amount :: "val \<Rightarrow> val" where
  "quoted_amount d =
     (let amount = lift2 (-) (to_number (get ''receive_amount'' (entries d))) (to_number (get ''receive_fee'' (entries d)));
          amount' = (if greater (Some 0) amount then Some 0 else amount) in
      case toFixed amount' 4 of Inl e \<Rightarrow> Undef | Inr s \<Rightarrow> num_val (number_of_string s))"

definition updateQuoteAmount :: "'w bridge_env \<Rightarrow> bridge_render \<Rightarrow> ('w, unit) io" where
  "updateQuoteAmount E r =
     bindio (quoteBridgeAmount E (fromUnitValue r) (toUnit r) (fromNum r)) (\<lambda>res.
       let d = opt_member res ''data'' in
       seqio (set_state E ''quoteData'' (js_or d Null))
         (if truthy_val (opt_member d ''receive_amount'') then set_state E ''toNum'' (quoted_amount d) else ret ()))"

text \<open>\<open>min.toFixed(4)\<close>\<close>

definition fixed4 :: "rat option \<Rightarrow> string" where
  "fixed4 x = (case toFixed x 4 of Inl e \<Rightarrow> [] | Inr s \<Rightarrow> s)"

text \<open>What the checks complain about, if anything.\<close>

definition exchange_refusal :: "bridge_render \<Rightarrow> string option" where
  "exchange_refusal r =
     (let unit_label = (case coin_of r of None \<Rightarrow> [] | Some u \<Rightarrow> label u);
          least = to_number (opt_member (quoteData r) ''deposit_min'');
          most = to_number (opt_member (quoteData r) ''deposit_max'') in
      if \<not> truthy_val (fromNum r) then Some ''Please input exchange token number''
      else if truthy_val (quoteData r) \<and> greater least (to_number (fromNum r))
        then Some (''Cannot exchange less than '' @ fixed4 least @ '' '' @ unit_label)
      else if truthy_val (quoteData r) \<and> greater (to_number (fromNum r)) most
        then Some (''Cannot exchange more than '' @ fixed4 most @ '' '' @ unit_label)
      else None)"

definition order_of :: "bridge_render \<Rightarrow> obj" where
  "order_of r = [(''account_id'', wallet r), (''deposit_coin'', Str (fromUnitValue r)), (''receive_coin'', Str (toUnit r)),
     (''deposit_amount'', fromNum r), (''receive_addr'', wallet r), (''receive_memo'', Str []), (''refund_addr'', wallet r),
     (''refund_memo'', Str []), (''client_order'', Str ''true'')]"

text \<open>The order at hand or a new one; \<open>None\<close> is the promise that never settles after a failed request.\<close>

definition order_promise :: "'w bridge_env \<Rightarrow> bridge_render \<Rightarrow> ('w, val option) io" where
  "order_promise E r =
     (if truthy_val (orderData r) then ret (Some (orderData r))
      else catchio
        (bindio (createBridgeOrder E (order_of r)) (\<lambda>res.
         bindio (lift (member res ''data'')) (\<lambda>d.
         seqio (set_state E ''orderData'' d) (ret (Some d)))))
        (\<lambda>e. seqio (set_state E ''exchangeStatus'' (Num 0)) (seqio (setErrorMessage E ''Create order fail.'') (ret None))))"

text \<open>\<open>parseEther(fromNum).div(Math.pow(10, 18 - decimals))\<close>: the power must be a whole number below \<open>2\<^sup>5\<^sup>3\<close>, the
  division rounds towards 0.\<close>

definition trunc_div :: "int \<Rightarrow> int \<Rightarrow> int" where
  "trunc_div a b = (if a < 0 then - ((- a) div b) else a div b)"

definition exchange_amount :: "ethers \<Rightarrow> val \<Rightarrow> int \<Rightarrow> js_error + int" where
  "exchange_amount U num decimals =
     (case big_of (parseEther U num) of None \<Rightarrow> Inl (TypeError ''div is not a function'')
      | Some n \<Rightarrow> if decimals > 18 then Inl (JsError ''underflow'')
        else if 18 - decimals > 15 then Inl (JsError ''overflow'')
        else Inr (trunc_div n (10 ^ nat (18 - decimals))))"

definition pay :: "'w bridge_env \<Rightarrow> bridge_render \<Rightarrow> route \<Rightarrow> string \<Rightarrow> int \<Rightarrow> ('w, val) io" where
  "pay E r u addr amount =
     (if fromUnitValue r = ''44:ETH'' then pay_native E addr amount else pay_token E (contractAddress u) addr amount)"

definition pay_order :: "'w bridge_env \<Rightarrow> bridge_render \<Rightarrow> route \<Rightarrow> val \<Rightarrow> string \<Rightarrow> int \<Rightarrow> ('w, unit) io" where
  "pay_order E r u oid addr amount =
     finallyio
       (catchio
         (seqio (set_state E ''exchangeStatus'' (Num 3))
         (seqio (set_state E ''exchangeStatus'' (Num 4))
         (bindio (pay E r u addr amount) (\<lambda>transaction.
          seqio (floating (updateOrder E oid
            (js_or (opt_member transaction ''hash'') (opt_member transaction ''blockHash''))))
          (seqio (set_state E ''orderData'' Null)
          (seqio (wait_payment E transaction)
          (seqio (setSuccessMessage E ''Exchange success. The transaction progress would be completed in a few minutes.'')
          (seqio (bridge_balance E r) (getOrder E r)))))))))
         (\<lambda>e. seqio (set_state E ''exchangeStatus'' (Num 0)) (throw e)))
       (set_state E ''exchangeStatus'' (Num 0))"

definition with_order :: "'w bridge_env \<Rightarrow> bridge_render \<Rightarrow> val \<Rightarrow> ('w, unit) io" where
  "with_order E r d =
     (let oid = opt_member d ''order_id'' in
      if \<not> truthy_val d \<or> \<not> truthy_val oid then throw (JsError ''Create order fail.'')
      else if truthy_val (opt_member d ''sp_receive_addr'') then
        (case coin_of r of None \<Rightarrow> throw (TypeError ''Cannot read properties of undefined'')
         | Some u \<Rightarrow>
            bindio (lift (exchange_amount (bridge_units E) (fromNum r) (coinDecimals r))) (\<lambda>amount.
              pay_order E r u oid (js_string (opt_member d ''sp_receive_addr'')) amount))
      else ret ())"

definition exchange_failed :: "'w bridge_env \<Rightarrow> js_error \<Rightarrow> ('w, unit) io" where
  "exchange_failed E e =
     seqio (set_state E ''exchangeStatus'' (Num 0))
     (bindio (lift (getErrorMessage (error_value E e))) (\<lambda>msg.
       setErrorMessage E (failure_text ''Exchange failed. '' msg)))"

definition onExchangeButtonClick :: "'w bridge_env \<Rightarrow> bridge_render \<Rightarrow> ('w, unit) io" where
  "onExchangeButtonClick E r =
     (case exchange_refusal r of Some m \<Rightarrow> setErrorMessage E m
      | None \<Rightarrow>
        seqio (set_state E ''exchangeStatus'' (Num 2))
        (bindio (order_promise E r) (\<lambda>od.
          case od of None \<Rightarrow> ret () | Some d \<Rightarrow> catchio (with_order E r d) (exchange_failed E))))"

text \<open>One click in two seconds.\<close>

definition debouncedOnExchangeButtonClick :: "'w bridge_env \<Rightarrow> bridge_render \<Rightarrow> ('w, unit) io" where
  "debouncedOnExchangeButtonClick E r =
     (if waiting r then ret () else seqio (floating (onExchangeButtonClick E r)) (set_state E ''waiting'' (Bool True)))"

definition onSwitchButtonClick :: "'w bridge_env \<Rightarrow> bridge_render \<Rightarrow> ('w, unit) io" where
  "onSwitchButtonClick E r =
     (case coin_of r of None \<Rightarrow> throw (TypeError ''Cannot read properties of undefined'')
      | Some u \<Rightarrow> set_state E ''fromUnitValue'' (Str (toValue u)))"

section \<open>The amount\<close>

lemma exchange_amount_exact:
  assumes U: "units U" and x: "decimal 20 x" "decimal 18 x" "0 \<le> x" and d: "3 \<le> d" "d \<le> 18"
  shows "exchange_amount U (Num x) d = Inr \<lfloor>x * 10 ^ nat d\<rfloor>"
proof -
  obtain m where m: "x * 10 ^ 18 = of_int m" using x(2) unfolding decimal_Ints by (auto elim: Ints_cases)
  have p: "parseEther U (Num x) = big m" using units.parseEther_number [OF U x(1)] x(2) m by simp
  have m0: "0 \<le> m" using x(3) m by (metis mult_nonneg_nonneg of_int_0_le_iff zero_le_numeral zero_le_power)
  have pw: "(10 :: rat) ^ 18 = 10 ^ nat d * 10 ^ nat (18 - d)" using d by (simp flip: power_add nat_add_distrib)
  have "x * 10 ^ nat d = of_int m / of_int (10 ^ nat (18 - d))"
    using m unfolding pw by (simp add: field_simps)
  then have "\<lfloor>x * 10 ^ nat d\<rfloor> = m div 10 ^ nat (18 - d)" by (simp only: floor_divide_of_int_eq)
  with p m0 d show ?thesis by (simp add: exchange_amount_def trunc_div_def)
qed

section \<open>The interface\<close>

text \<open>A request that creates or updates an order may have reached the back end although its answer is lost; a payment that throws
  has not been sent.\<close>

text \<open>The order an exchange goes on with, what it sends, and the identifier the payment is reported under.\<close>

definition payment_op :: "bridge_render \<Rightarrow> route \<Rightarrow> string \<Rightarrow> int \<Rightarrow> bridge_op" where
  "payment_op r u addr n = (if fromUnitValue r = ''44:ETH'' then Pay_Native addr n else Pay_Token (contractAddress u) addr n)"

definition tx_id :: "val \<Rightarrow> val" where
  "tx_id t = js_or (opt_member t ''hash'') (opt_member t ''blockHash'')"

text \<open>What a payment of an order may send: the payment, then the report of the transaction that the payment answered.\<close>

definition payment_trace :: "'w bridge_env \<Rightarrow> bridge_render \<Rightarrow> route \<Rightarrow> val \<Rightarrow> string \<Rightarrow> int \<Rightarrow> bridge_op list \<Rightarrow> bool" where
  "payment_trace E r u oid addr n l \<longleftrightarrow> l = [] \<or> l = [payment_op r u addr n] \<or>
     (\<exists>t w. fst (pay E r u addr n w) = Inr t \<and> l = [payment_op r u addr n, Order_Update (update_data E oid (tx_id t))])"

definition first_ops :: "bridge_render \<Rightarrow> bridge_op list" where
  "first_ops r = (if truthy_val (orderData r) then [] else [Order_Create (order_of r)])"

text \<open>The order at hand, or the data of what the back end answers to the new order in the state \<open>w\<close>.\<close>

definition exchange_order :: "'w bridge_env \<Rightarrow> bridge_render \<Rightarrow> 'w \<Rightarrow> val \<Rightarrow> bool" where
  "exchange_order E r w d \<longleftrightarrow>
     (if truthy_val (orderData r) then d = orderData r
      else \<exists>res. fst (createBridgeOrder E (order_of r) w) = Inr res \<and> member res ''data'' = Inr d)"

definition order_paid :: "'w bridge_env \<Rightarrow> bridge_render \<Rightarrow> val \<Rightarrow> bridge_op list \<Rightarrow> bool" where
  "order_paid E r d l \<longleftrightarrow> l = [] \<or>
     (\<exists>u n. coin_of r = Some u \<and> exchange_amount (bridge_units E) (fromNum r) (coinDecimals r) = Inr n \<and>
        payment_trace E r u (opt_member d ''order_id'') (js_string (opt_member d ''sp_receive_addr'')) n l)"

locale bridge_page = page E v for E :: "'w bridge_env" and v :: "'w \<Rightarrow> bridge_op page_op list" +
  assumes bridge_reads: "silent v (date_now E)" "silent v (quote_post E f)" "silent v (order_list E f)"
      "silent v (wait_payment E tx)" "silent v (coin_balance E tk a)" "silent v (coin_decimals E tk)"
    and create_marks: "moving v (order_create E f g) (\<lambda>t u. u = t \<or> u = t @ [Tx (Order_Create f)])"
    and created: "fst (order_create E f g w) = Inr x \<Longrightarrow> v (snd (order_create E f g w)) = v w @ [Tx (Order_Create f)]"
    and update_marks: "moving v (order_update E f) (\<lambda>t u. u = t \<or> u = t @ [Tx (Order_Update f)])"
    and native_marks: "writing v (pay_native E addr n) (\<lambda>t. t @ [Tx (Pay_Native addr n)])"
    and token_marks: "writing v (pay_token E tk addr n) (\<lambda>t. t @ [Tx (Pay_Token tk addr n)])"
begin

lemmas bridge_unsent [silent_rules] = unsent bridge_reads [THEN silent_sending]

lemma bridge_quiet [silent_rules]:
  "silent (sending v) (getOrder E r)" "silent (sending v) (bridge_balance E r)" "silent (sending v) (exchange_failed E e)"
  unfolding getOrder_def getOrderList_def bridge_balance_def exchange_failed_def setErrorMessage_def
  by (intro silent_rules)+

lemma pay_writing: "writing (sending v) (pay E r u addr n) (\<lambda>d. d @ [payment_op r u addr n])"
  unfolding pay_def payment_op_def using writing_sending [OF native_marks] writing_sending [OF token_marks] by auto

lemma update_runs:
  "runs (sending v) d (floating (updateOrder E oid tx)) (\<lambda>_ d'. d' = d \<or> d' = d @ [Order_Update (update_data E oid tx)]) (\<lambda>_. False)"
proof -
  let ?f = "update_data E oid tx"
  have m: "moving (sending v) (order_update E ?f) (\<lambda>t u. u = t \<or> u = t @ [Order_Update ?f])"
    using update_marks [of ?f] unfolding moving_def sending_def by (metis sent.simps(1,2) sent_append)
  show ?thesis
    unfolding floating_def updateOrder_def seqio_def bindio_assoc
    by (rule runs_catch [where A = "\<lambda>d'. d' = d \<or> d' = d @ [Order_Update ?f]"],
        rule runs_silent_any [OF bridge_unsent(3)], simp,
        rule runs_moving [OF m]) (auto intro: runs_ret)
qed

lemma pay_order_runs:
  "runs (sending v) d (pay_order E r u oid addr n)
     (\<lambda>_ d'. \<exists>l. d' = d @ l \<and> payment_trace E r u oid addr n l)
     (\<lambda>d'. \<exists>l. d' = d @ l \<and> payment_trace E r u oid addr n l)" (is "runs _ _ _ (\<lambda>_. ?Q) ?Q")
proof -
  let ?P = "payment_op r u addr n"
  have q: "?Q d" "?Q (d @ [?P])"
    by (auto simp: payment_trace_def intro: exI [of _ "[]"] exI [of _ "[?P]"])
  have q3: "?Q (d @ [?P, Order_Update (update_data E oid (tx_id t))])" if "fst (pay E r u addr n w) = Inr t" for t w
    using that unfolding payment_trace_def by blast
  have after: "runs (sending v) s (seqio (set_state E ''orderData'' Null) (seqio (wait_payment E tx)
      (seqio (setSuccessMessage E m) (seqio (bridge_balance E r) (getOrder E r))))) (\<lambda>_. ?Q) ?Q" if "?Q s" for s tx m
    unfolding setSuccessMessage_def by (rule runs_silent_end) (intro silent_rules, use that in auto)
  have report: "runs (sending v) (d @ [?P]) (seqio (floating (updateOrder E oid (tx_id tx))) (seqio (set_state E ''orderData'' Null)
      (seqio (wait_payment E tx) (seqio (setSuccessMessage E m) (seqio (bridge_balance E r) (getOrder E r)))))) (\<lambda>_. ?Q) ?Q"
    if "fst (pay E r u addr n w) = Inr tx" for tx w m
    unfolding seqio_def [of "floating (updateOrder E oid z)" for z]
    by (rule runs_bind_all [OF runs_conseq [OF update_runs]], assumption, simp, rule after) (use q(2) q3 [OF that] in auto)
  have inner: "runs (sending v) d (seqio (set_state E a x) (seqio (set_state E b y) (bindio (pay E r u addr n) (\<lambda>tx.
      seqio (floating (updateOrder E oid (tx_id tx))) (seqio (set_state E ''orderData'' Null) (seqio (wait_payment E tx)
      (seqio (setSuccessMessage E m) (seqio (bridge_balance E r) (getOrder E r)))))))))  (\<lambda>_. ?Q) ?Q" for a x b y m
    unfolding seqio_def [of "set_state E a x"] seqio_def [of "set_state E b y"]
    by (rule runs_silent, intro silent_rules, simp add: set_state_marks, rule runs_silent, intro silent_rules,
        simp add: set_state_marks, rule runs_write_answer [OF pay_writing], rule q(1), rule report)
  then have c: "runs (sending v) d (catchio (seqio (set_state E a x) (seqio (set_state E b y) (bindio (pay E r u addr n) (\<lambda>tx.
      seqio (floating (updateOrder E oid (tx_id tx))) (seqio (set_state E ''orderData'' Null) (seqio (wait_payment E tx)
      (seqio (setSuccessMessage E m) (seqio (bridge_balance E r) (getOrder E r)))))))))
      (\<lambda>e. seqio (set_state E c z) (throw e))) (\<lambda>_. ?Q) ?Q" for a x b y m c z
    by (rule runs_catch) (rule runs_silent_end, intro silent_rules, assumption+)
  show ?thesis
    unfolding pay_order_def tx_id_def [symmetric]
    by (rule triple_finally [OF c]) (rule runs_all, rule runs_silent_end, intro silent_rules, assumption+)+
qed

lemma with_order_runs:
  "runs (sending v) d (with_order E r dd) (\<lambda>_ d'. \<exists>l. d' = d @ l \<and> order_paid E r dd l)
    (\<lambda>d'. \<exists>l. d' = d @ l \<and> order_paid E r dd l)" (is "runs _ _ _ (\<lambda>_. ?Q) ?Q")
proof -
  have q: "?Q d" by (auto simp: order_paid_def)
  have p: "runs (sending v) d (pay_order E r u (opt_member dd ''order_id'') (js_string (opt_member dd ''sp_receive_addr'')) n)
      (\<lambda>_. ?Q) ?Q"
    if "coin_of r = Some u" "exchange_amount (bridge_units E) (fromNum r) (coinDecimals r) = Inr n" for u n
    by (rule runs_conseq [OF pay_order_runs]) (use that in \<open>auto simp: order_paid_def\<close>)
  show ?thesis
    unfolding with_order_def Let_def
    by (intro runs_if runs_option runs_throw q runs_ret runs_lift p) auto
qed

lemma created_sending: "fst (order_create E f g w) = Inr x \<Longrightarrow> sending v (snd (order_create E f g w)) = sending v w @ [Order_Create f]"
  by (simp add: created sending_def)

lemma create_sending: "moving (sending v) (order_create E f g) (\<lambda>t u. u = t \<or> u = t @ [Order_Create f])"
  using create_marks [of f g] unfolding moving_def sending_def by (metis sent.simps(1,2) sent_append)

lemma new_order_runs:
  "runs (sending v) d (createBridgeOrder E f) (\<lambda>_ d'. d' = d @ [Order_Create f]) (\<lambda>d'. d' = d \<or> d' = d @ [Order_Create f])"
  unfolding createBridgeOrder_def
proof (rule runs_silent_any [OF bridge_unsent(3)], simp)
  fix n
  show "runs (sending v) d (order_create E f [(''hash'', Str (md5 E (js_string (get ''account_id'' f) @ show_int n @ secret))),
      (''timeStamp'', Num (of_int n))]) (\<lambda>_ d'. d' = d @ [Order_Create f]) (\<lambda>d'. d' = d \<or> d' = d @ [Order_Create f])"
    (is "runs _ _ ?m _ _")
  proof (rule tripleI)
    fix w assume w: "sending v w = d"
    obtain z w' where m: "?m w = (z, w')" by fastforce
    have mv: "sending v w' = d \<or> sending v w' = d @ [Order_Create f]"
      using create_sending w m unfolding moving_def by (metis snd_conv)
    show "outcome (sending v) (\<lambda>_ d'. d' = d @ [Order_Create f]) (\<lambda>d'. d' = d \<or> d' = d @ [Order_Create f]) (?m w)"
    proof (cases z)
      case (Inr x)
      have "sending v w' = d @ [Order_Create f]" using created_sending [of f _ w x] m Inr w by (metis fst_conv snd_conv)
      with Inr m show ?thesis by simp
    qed (use mv m in simp)
  qed
qed

lemma order_promise_runs:
  "runs (sending v) d (order_promise E r)
     (\<lambda>od d'. case od of None \<Rightarrow> \<not> truthy_val (orderData r) \<and> (d' = d \<or> d' = d @ [Order_Create (order_of r)])
       | Some dd \<Rightarrow> if truthy_val (orderData r) then dd = orderData r \<and> d' = d else d' = d @ [Order_Create (order_of r)])
     (\<lambda>_. False)"
proof (cases "truthy_val (orderData r)")
  case True
  then show ?thesis by (simp add: order_promise_def runs_ret)
next
  case False
  let ?C = "\<lambda>d'. d' = d \<or> d' = d @ [Order_Create (order_of r)]"
  let ?S = "\<lambda>(od :: val option) d'. case od of None \<Rightarrow> ?C d' | Some dd \<Rightarrow> d' = d @ [Order_Create (order_of r)]"
  have "runs (sending v) d (bindio (createBridgeOrder E (order_of r)) (\<lambda>res.
      bindio (lift (member res ''data'')) (\<lambda>x. seqio (set_state E n x) (ret (Some x))))) ?S ?C" for n
    by (rule runs_bind_all [OF runs_conseq [OF new_order_runs]], assumption, assumption, rule runs_lift, simp,
        rule runs_silent_end, intro silent_rules) (auto split: option.split)
  then have "runs (sending v) d (catchio (bindio (createBridgeOrder E (order_of r)) (\<lambda>res.
      bindio (lift (member res ''data'')) (\<lambda>x. seqio (set_state E n x) (ret (Some x)))))
      (\<lambda>e. seqio (set_state E k y) (seqio (setErrorMessage E m) (ret None)))) ?S (\<lambda>_. False)" for n k y m
  proof (rule runs_catch)
    fix s assume "?C s"
    then show "runs (sending v) s (seqio (set_state E k y) (seqio (setErrorMessage E m) (ret None))) ?S (\<lambda>_. False)"
      unfolding setErrorMessage_def seqio_def
      by (intro runs_silent) (auto intro: silent_rules runs_ret simp: set_state_marks message_marks)
  qed
  then show ?thesis
    unfolding order_promise_def if_not_P [OF False] by (rule runs_conseq) (use False in \<open>auto split: option.splits\<close>)
qed

lemma order_promise_answer:
  assumes "order_promise E r w = (Inr (Some d), w')"
  shows "exchange_order E r w d"
proof (cases "truthy_val (orderData r)")
  case True
  with assms show ?thesis by (simp add: order_promise_def exchange_order_def ret_def)
next
  case False
  obtain z w1 where z: "createBridgeOrder E (order_of r) w = (z, w1)" by fastforce
  have no: "order_promise E r w \<noteq> (Inr (Some d), w')" if "z = Inl e \<or> (\<exists>x. z = Inr x \<and> member x ''data'' = Inl e)" for e
    using that z False by (auto simp: order_promise_def catchio_def bindio_def seqio_def setErrorMessage_def ret_def throw_def
        split: prod.splits sum.splits)
  show ?thesis
  proof (cases z)
    case (Inl e)
    with no assms show ?thesis by blast
  next
    case (Inr x)
    show ?thesis
    proof (cases "member x ''data''")
      case (Inl e)
      with no assms Inr show ?thesis by blast
    next
      case (Inr y)
      obtain q w2 where q: "set_state E ''orderData'' y w1 = (Inr q, w2)"
        using set_state_marks(2) unfolding total_io_def by (metis prod.collapse)
      with z \<open>z = Inr x\<close> Inr False assms show ?thesis
        by (simp add: order_promise_def exchange_order_def catchio_def bindio_def seqio_def ret_def)
    qed
  qed
qed

lemma exchange_traces:
  assumes "onExchangeButtonClick E r w = (res, w')"
  shows "\<exists>l. sending v w' = sending v w @ l \<and> (exchange_refusal r \<noteq> None \<longrightarrow> l = []) \<and>
    (l = [] \<or> l = first_ops r \<or> (\<exists>d paid. exchange_order E r (snd (set_state E ''exchangeStatus'' (Num 2) w)) d \<and>
       l = first_ops r @ paid \<and> order_paid E r d paid))"
proof (cases "exchange_refusal r")
  case (Some m)
  have "silent (sending v) (setErrorMessage E m)" unfolding setErrorMessage_def by (intro silent_rules)
  with assms Some have "sending v w' = sending v w"
    unfolding silent_def onExchangeButtonClick_def option.case by (metis option.simps(5) snd_conv)
  then show ?thesis by simp
next
  case None
  obtain q w0 where q: "set_state E ''exchangeStatus'' (Num 2) w = (Inr q, w0)"
    using set_state_marks(2) unfolding total_io_def by (metis prod.collapse)
  have w0: "sending v w0 = sending v w" using unsent(1) q unfolding silent_def by (metis snd_conv)
  obtain z w1 where z: "order_promise E r w0 = (z, w1)" by fastforce
  from runsD [OF order_promise_runs refl z] obtain od where od: "z = Inr od"
    "case od of None \<Rightarrow> \<not> truthy_val (orderData r) \<and> (sending v w1 = sending v w0 \<or> sending v w1 = sending v w0 @ [Order_Create (order_of r)])
     | Some dd \<Rightarrow> if truthy_val (orderData r) then dd = orderData r \<and> sending v w1 = sending v w0
         else sending v w1 = sending v w0 @ [Order_Create (order_of r)]" by auto
  have run: "onExchangeButtonClick E r w =
      (case od of None \<Rightarrow> ret () | Some d \<Rightarrow> catchio (with_order E r d) (exchange_failed E)) w1"
    using None q z od(1) by (simp add: onExchangeButtonClick_def seqio_def bindio_def)
  show ?thesis
  proof (cases od)
    case None
    with run assms od(2) w0 \<open>exchange_refusal r = None\<close> show ?thesis by (auto simp: ret_def first_ops_def)
  next
    case (Some d)
    have s: "sending v w1 = sending v w @ first_ops r" using od(2) Some w0 by (auto simp: first_ops_def split: if_splits)
    have run1: "runs (sending v) (sending v w1) (catchio (with_order E r d) (exchange_failed E))
        (\<lambda>_ d'. \<exists>l. d' = sending v w1 @ l \<and> order_paid E r d l) (\<lambda>d'. \<exists>l. d' = sending v w1 @ l \<and> order_paid E r d l)"
      by (rule runs_catch [OF with_order_runs], rule runs_silent_end, intro silent_rules) blast+
    have "catchio (with_order E r d) (exchange_failed E) w1 = (res, w')" using run assms Some by simp
    with tripleD [OF run1, of w1] have "\<exists>l. sending v w' = sending v w1 @ l \<and> order_paid E r d l"
      by (cases res) simp_all
    then obtain paid where "sending v w' = sending v w1 @ paid" "order_paid E r d paid" by blast
    moreover have "exchange_order E r w0 d" using order_promise_answer z od(1) Some by blast
    ultimately show ?thesis using s q \<open>exchange_refusal r = None\<close> by auto
  qed
qed

text \<open>An order without an address to pay.\<close>

lemma runs_marked: "runs v (d @ [Set n x]) k Q R \<Longrightarrow> runs v d (seqio (set_state E n x) k) Q R"
  by (rule runs_writing [OF set_state_marks(1)]) (auto simp: set_state_marks)

lemma hanging_runs:
  assumes "exchange_refusal r = None" and "\<not> truthy_val (orderData r)" and "total_io (date_now E)"
    and "\<And>f g. returning (order_create E f g) res" and "member res ''data'' = Inr dd"
    and "truthy_val (opt_member dd ''order_id'')" and "\<not> truthy_val (opt_member dd ''sp_receive_addr'')"
  shows "runs v d (onExchangeButtonClick E r)
    (\<lambda>_ d'. d' = d @ [Set ''exchangeStatus'' (Num 2), Tx (Order_Create (order_of r)), Set ''orderData'' dd]) (\<lambda>_. False)"
proof -
  have dd: "truthy_val dd" using assms(6) by (cases dd) (auto simp: opt_member_def)
  have create: "runs v c (bindio (createBridgeOrder E f) k) Q (\<lambda>_. False)"
    if k: "runs v (c @ [Tx (Order_Create f)]) (k res) Q (\<lambda>_. False)" for c f k and Q :: "val option \<Rightarrow> _"
    unfolding createBridgeOrder_def bindio_assoc
  proof (rule runs_silent [OF bridge_reads(1)], simp add: assms(3), rule tripleI)
    fix n w assume w: "v w = c"
    let ?m = "order_create E f [(''hash'', Str (md5 E (js_string (get ''account_id'' f) @ show_int n @ secret))),
      (''timeStamp'', Num (of_int n))]"
    obtain w' where m: "?m w = (Inr res, w')" using assms(4) unfolding returning_def by (metis prod.collapse)
    with created w have "v w' = c @ [Tx (Order_Create f)]" by (metis fst_conv snd_conv)
    from tripleD [OF k this] m show "outcome v Q (\<lambda>_. False) (bindio ?m k w)" by (simp add: bindio_def)
  qed
  have promise: "runs v c (order_promise E r)
      (\<lambda>od c'. od = Some dd \<and> c' = c @ [Tx (Order_Create (order_of r)), Set ''orderData'' dd]) (\<lambda>_. False)" for c
    unfolding order_promise_def if_not_P [OF assms(2)]
    by (rule runs_catch [where A = "\<lambda>_. False"], rule create) (auto simp: assms(5) intro!: runs_marked runs_ret)
  show ?thesis
    unfolding onExchangeButtonClick_def assms(1) option.case
    by (rule runs_marked, rule runs_bind_all [OF promise])
      (use dd assms(6,7) in \<open>auto simp: with_order_def Let_def intro: runs_ret\<close>)
qed

text \<open>A payment that arrives while the list of orders cannot be read.\<close>

lemma silent_cored_reads [silent_rules]:
  "silent (cored v) (wait_payment E tx)" "silent (cored v) (bridge_balance E r)" "silent (cored v) (date_now E)" "silent (cored v) (order_list E f)"
  unfolding bridge_balance_def by (intro silent_rules silent_cored bridge_reads set_state_silent)+

lemma getOrder_cored: "silent (cored v) (getOrder E r)"
  unfolding getOrder_def getOrderList_def by (intro silent_rules)

lemma getOrder_rejecting:
  assumes "truthy_val (wallet r)" and "total_io (date_now E)" and "\<And>f. rejecting (order_list E f) e"
  shows "rejecting (getOrder E r) e"
proof -
  have "getOrder E r = bindio (getOrderList E (wallet r) (pageIndex r) pageSize) (\<lambda>orderListData.
      seqio (set_state E ''historyRecord'' (js_or (opt_member orderListData ''data'') (Arr [])))
      (bindio (lift (member orderListData ''dataCount'')) (set_state E ''recordTotal'')))"
    using assms(1) by (simp add: getOrder_def)
  moreover have "rejecting (getOrderList E (wallet r) (pageIndex r) pageSize) e"
    unfolding getOrderList_def by (rule rejecting_bind [OF assms(2)], rule rejecting_head, rule assms(3))
  ultimately show ?thesis by (simp only: rejecting_head)
qed

lemma paid_runs:
  assumes "truthy_val (wallet r)" and "total_io (date_now E)" and "\<And>f. rejecting (order_list E f) rejected"
    and "total_io (pay E r u addr n)" and "\<And>tx. total_io (wait_payment E tx)"
  shows "rejecting (pay_order E r u oid addr n) rejected"
    and "runs (cored v) c (pay_order E r u oid addr n) (\<lambda>_ _. False)
      (\<lambda>c'. \<exists>l. c' = c @ Tx (payment_op r u addr n) # l @ [Shown True
        ''Exchange success. The transaction progress would be completed in a few minutes.''] \<and> length l \<le> 1)"
proof -
  have b: "total_io (bridge_balance E r)"
    unfolding bridge_balance_def by (auto intro: total_ret total_seq total_floating split: option.split)
  note g = getOrder_rejecting [OF assms(1-3)]
  show "rejecting (pay_order E r u oid addr n) rejected"
    unfolding pay_order_def setSuccessMessage_def
    by (intro rejecting_finally rejecting_rethrow rejecting_seq rejecting_bind g b assms total_floating set_state_marks message_marks)
  have w: "writing (cored v) (pay E r u addr n) (\<lambda>c. c @ [Tx (payment_op r u addr n)])"
    unfolding pay_def payment_op_def
    using writing_cored [OF native_marks core_Tx] writing_cored [OF token_marks core_Tx] by auto
  have up: "runs (cored v) d (floating (updateOrder E oid tx)) (\<lambda>_ d'. d' = d \<or> d' = d @ [Tx (Order_Update (update_data E oid tx))]) (\<lambda>_. False)"
    for d tx
  proof -
    let ?f = "update_data E oid tx"
    have m: "moving (cored v) (order_update E ?f) (\<lambda>t u. u = t \<or> u = t @ [Tx (Order_Update ?f)])"
      using update_marks [of ?f] unfolding moving_def cored_def by (metis core_Tx core_simps(2))
    show ?thesis
      unfolding floating_def updateOrder_def seqio_def bindio_assoc
      by (rule runs_catch [where A = "\<lambda>d'. d' = d \<or> d' = d @ [Tx (Order_Update ?f)]"],
          rule runs_silent_any [OF silent_cored_reads(3)], simp, rule runs_moving [OF m]) (auto intro: runs_ret)
  qed
  show "runs (cored v) c (pay_order E r u oid addr n) (\<lambda>_ _. False)
      (\<lambda>c'. \<exists>l. c' = c @ Tx (payment_op r u addr n) # l @ [Shown True
        ''Exchange success. The transaction progress would be completed in a few minutes.''] \<and> length l \<le> 1)"
    (is "runs _ _ _ _ ?R")
  proof -
    let ?P = "Tx (payment_op r u addr n)"
    have R: "?R (c @ [?P] @ l @ [Shown True ''Exchange success. The transaction progress would be completed in a few minutes.''])"
      if "length l \<le> 1" for l using that by auto
    have tail: "runs (cored v) (c @ [?P] @ l) (seqio (set_state E ''orderData'' Null) (seqio (wait_payment E tx)
        (seqio (setSuccessMessage E ''Exchange success. The transaction progress would be completed in a few minutes.'')
        (seqio (bridge_balance E r) (getOrder E r))))) (\<lambda>_ _. False) ?R" if l: "length l \<le> 1" for l tx
      unfolding setSuccessMessage_def seqio_def [of "wait_payment E tx"] seqio_def [of "bridge_balance E r"]
      by (rule runs_set, rule runs_silent, intro silent_rules, simp add: assms, rule runs_message,
          rule runs_silent, intro silent_rules, simp add: b, rule runs_rejecting_end, rule getOrder_cored, rule g, use R [OF l] in simp)
    let ?tail = "\<lambda>tx. seqio (set_state E ''orderData'' Null) (seqio (wait_payment E tx)
        (seqio (setSuccessMessage E ''Exchange success. The transaction progress would be completed in a few minutes.'')
        (seqio (bridge_balance E r) (getOrder E r))))"
    have report: "runs (cored v) (c @ [?P]) (seqio (floating (updateOrder E oid y)) (?tail tx)) (\<lambda>_ _. False) ?R" for y tx
      unfolding seqio_def [of "floating (updateOrder E oid y)"]
    proof (rule runs_bind_all [OF runs_conseq [OF up]])
      fix z s assume s: "s = c @ [?P] \<or> s = (c @ [?P]) @ [Tx (Order_Update (update_data E oid y))]"
      show "runs (cored v) s (?tail tx) (\<lambda>_ _. False) ?R"
        using s tail [of "[]" tx] tail [of "[Tx (Order_Update (update_data E oid y))]" tx] by (elim disjE) simp_all
    qed simp_all
    have inner: "runs (cored v) c (seqio (set_state E ''exchangeStatus'' (Num 3)) (seqio (set_state E ''exchangeStatus'' (Num 4))
        (bindio (pay E r u addr n) (\<lambda>tx. seqio (floating (updateOrder E oid (k tx))) (?tail tx))))) (\<lambda>_ _. False) ?R" for k
      by (rule runs_set, rule runs_set, rule runs_bind_all [where A = "\<lambda>_ s. s = c @ [?P]"],
          rule runs_write [OF w disjI1 [OF assms(4)]], rule refl) (simp only: report)
    have reset: "runs (cored v) d (set_state E m x) (\<lambda>_. ?R) ?R" if "?R d" for d m x
      by (rule runs_silent_end [OF set_state_silent]) (rule that)+
    have rethrow: "runs (cored v) d (seqio (set_state E m x) (throw e)) (\<lambda>_ _. False) ?R" if "?R d" for d m x and e
      by (rule runs_set, rule runs_throw) (rule that)
    show ?thesis
      unfolding pay_order_def
    proof (rule triple_finally [where A = "\<lambda>_ _. False" and B = ?R])
      show "triple (cored v) ?R (set_state E ''exchangeStatus'' (Num 0)) (\<lambda>_. ?R) ?R" by (rule runs_all) (rule reset)
    qed (rule runs_catch [OF inner rethrow], assumption, simp add: triple_def)
  qed
qed

lemma twice_runs:
  assumes "exchange_refusal r = None" and "truthy_val (orderData r)" and "truthy_val (opt_member (orderData r) ''order_id'')"
    and "truthy_val (opt_member (orderData r) ''sp_receive_addr'')" and "coin_of r = Some u"
    and "exchange_amount (bridge_units E) (fromNum r) (coinDecimals r) = Inr n"
    and "truthy_val (wallet r)" and "total_io (date_now E)" and "\<And>f. rejecting (order_list E f) rejected"
    and "\<And>addr. total_io (pay E r u addr n)" and "\<And>tx. total_io (wait_payment E tx)"
  shows "runs (cored v) c (onExchangeButtonClick E r)
    (\<lambda>_ c'. \<exists>l. c' = c @ Tx (payment_op r u (js_string (opt_member (orderData r) ''sp_receive_addr'')) n) # l @ [Shown True
        ''Exchange success. The transaction progress would be completed in a few minutes.'', Shown False ''Exchange failed. ''] \<and> length l \<le> 1)
    (\<lambda>_. False)" (is "runs _ _ _ ?Q _")
proof -
  let ?addr = "js_string (opt_member (orderData r) ''sp_receive_addr'')"
  note p = paid_runs [OF assms(7-9) assms(10) [of ?addr] assms(11)]
  have wo: "with_order E r (orderData r) = pay_order E r u (opt_member (orderData r) ''order_id'') ?addr n"
    using assms(2-6) by (simp add: with_order_def Let_def)
  have m: "getErrorMessage (error_value E rejected) = Inr Undef"
    by (simp add: error_value_def getErrorMessage_def)
  have h: "runs (cored v) d (exchange_failed E rejected) ?Q (\<lambda>_. False)"
    if "\<exists>l. d = c @ Tx (payment_op r u ?addr n) # l @ [Shown True
        ''Exchange success. The transaction progress would be completed in a few minutes.''] \<and> length l \<le> 1" for d
    unfolding exchange_failed_def m lift_simps bindio_ret setErrorMessage_def
    by (rule runs_set, rule runs_message_end) (use that in \<open>auto simp: failure_text_def js_or_def\<close>)
  have "runs (cored v) c (catchio (with_order E r (orderData r)) (exchange_failed E)) ?Q (\<lambda>_. False)"
    unfolding wo by (rule runs_catch_rejecting [OF p(2) p(1)]) (rule h)
  then show ?thesis
    unfolding onExchangeButtonClick_def assms(1) option.case order_promise_def if_P [OF assms(2)] bindio_ret
    by (rule runs_set)
qed

end

section \<open>A bridge in memory\<close>

definition sim_http :: "bridge_op \<Rightarrow> val \<Rightarrow> (bridge_op page_op list, val) io" where
  "sim_http p x = (\<lambda>t. (Inr x, t @ [Tx p]))"

definition sim_bridge :: "val \<Rightarrow> bridge_op page_op list bridge_env" where
  "sim_bridge answer = \<lparr>
     thrown = (\<lambda>e. Undef), set_state = (\<lambda>n x t. (Inr (), t @ [Set n x])), show_message = (\<lambda>b s t. (Inr (), t @ [Shown b s])),
     bridge_units = plain_units, md5 = (\<lambda>s. s), date_now = ret 0, quote_post = (\<lambda>f. ret Undef),
     order_create = (\<lambda>f g. sim_http (Order_Create f) answer), order_update = (\<lambda>f. sim_http (Order_Update f) Undef),
     order_list = (\<lambda>f. throw rejected),
     pay_native = (\<lambda>a n. sim_http (Pay_Native a n) (Obj [(''hash'', Str ''0xTx'')])),
     pay_token = (\<lambda>tk a n. sim_http (Pay_Token tk a n) (Obj [(''hash'', Str ''0xTx'')])),
     wait_payment = (\<lambda>tx. ret Undef), coin_balance = (\<lambda>tk a. ret (big 0)), coin_decimals = (\<lambda>tk. ret (Num 18)) \<rparr>"

lemma sim_http_marks: "writing (\<lambda>t. t) (sim_http p x) (\<lambda>t. t @ [Tx p])" "moving (\<lambda>t. t) (sim_http p x) (\<lambda>t u. u = t \<or> u = t @ [Tx p])"
  "total_io (sim_http p x)" "snd (sim_http p x t) = t @ [Tx p]"
  by (auto simp: writing_def moving_def total_io_def sim_http_def)

lemma sim_mark: "writing (\<lambda>t. t) (\<lambda>t. (Inr x, t @ [p])) (\<lambda>t. t @ [p])" "total_io (\<lambda>t. (Inr x, t @ [p]))"
  by (simp_all add: writing_def total_io_def)

interpretation sim_bridge: bridge_page "sim_bridge answer" "\<lambda>t. t"
  by unfold_locales (simp_all add: sim_bridge_def sim_http_marks silent_ret silent_throw sim_mark)

definition demo_bridge :: "val \<Rightarrow> bridge_render" where
  "demo_bridge order = \<lparr> wallet = Str ''0xMe'', pageIndex = 0, tokenUnits = token_info, coinContract = None, fromNum = Num (3 / 2),
     fromUnitValue = ''16:USDT'', toUnit = ''44:USDT'', coinDecimals = 18, orderData = order, quoteData = Null, waiting = False \<rparr>"

section \<open>Properties\<close>

text \<open>C3: whatever fails, one exchange that is refused sends nothing, and any other sends a prefix of: the order (unless there is
  one already), one payment to the receiving address of that order, of the amount computed from the input, and the report of the
  transaction the payment answered, under that order's identifier. The order is the one at hand or the data the back end answered
  to the order just sent.\<close>

theorem exchange_sends:
  assumes "bridge_page E v" and "onExchangeButtonClick E r w = (res, w')"
  shows "\<exists>l. sent (v w') = sent (v w) @ l \<and> (exchange_refusal r \<noteq> None \<longrightarrow> l = []) \<and>
    (l = [] \<or> l = first_ops r \<or> (\<exists>d paid. exchange_order E r (snd (set_state E ''exchangeStatus'' (Num 2) w)) d \<and>
       l = first_ops r @ paid \<and> order_paid E r d paid))"
  using bridge_page.exchange_traces [OF assms] unfolding sending_def .

text \<open>A back end that answers with an order: the payment goes to the address in the answer.\<close>

definition demo_answer :: val where
  "demo_answer = Obj [(''data'', Obj [(''order_id'', Str ''17''), (''sp_receive_addr'', Str ''0xPool'')])]"

theorem exchange_sends_witness:
  "\<exists>l. sent (snd (onExchangeButtonClick (sim_bridge demo_answer) (demo_bridge Null) [])) = l \<and>
     (l = [] \<or> l = first_ops (demo_bridge Null) \<or>
      (\<exists>paid. l = first_ops (demo_bridge Null) @ paid \<and>
         order_paid (sim_bridge demo_answer) (demo_bridge Null) (Obj [(''order_id'', Str ''17''), (''sp_receive_addr'', Str ''0xPool'')]) paid))"
proof -
  obtain res t where r: "onExchangeButtonClick (sim_bridge demo_answer) (demo_bridge Null) [] = (res, t)" by fastforce
  have d: "d = Obj [(''order_id'', Str ''17''), (''sp_receive_addr'', Str ''0xPool'')]"
    if "exchange_order (sim_bridge demo_answer) (demo_bridge Null) w d" for w d
    using that by (simp add: exchange_order_def demo_bridge_def createBridgeOrder_def sim_bridge_def sim_http_def bindio_ret
        demo_answer_def)
  from exchange_sends [OF sim_bridge.bridge_page_axioms r] d r show ?thesis by fastforce
qed

text \<open>The payment is the input times ten to the decimals of the rendering, rounded down. The input is a decimal with at
  most 18 digits; below three decimals the divisor is no safe integer and the exchange fails.\<close>

theorem exchange_amount_floor:
  assumes "units U" and "decimal 20 x" and "decimal 18 x" and "0 \<le> x" and "3 \<le> d" and "d \<le> 18"
  shows "exchange_amount U (Num x) d = Inr \<lfloor>x * 10 ^ nat d\<rfloor>"
  using assms by (rule exchange_amount_exact)

lemma decimal_3_2: "1 \<le> k \<Longrightarrow> decimal k (3 / 2)"
  by (cases k) (simp_all add: decimal_Ints)

theorem exchange_amount_floor_witness: "exchange_amount plain_units (Num (3 / 2)) 6 = Inr 1500000"
  using exchange_amount_floor [OF plain.units_axioms, of "3 / 2" 6] by (simp add: decimal_3_2)

text \<open>An order whose answer names no address to pay leaves the page at \<open>Creating order...\<close>: nothing is paid, no message
  is shown and the status is not reset.\<close>

theorem order_without_address_hangs:
  assumes "bridge_page E v" and "exchange_refusal r = None" and "\<not> truthy_val (orderData r)" and "total_io (date_now E)"
    and "\<And>f g. returning (order_create E f g) res" and "member res ''data'' = Inr dd"
    and "truthy_val (opt_member dd ''order_id'')" and "\<not> truthy_val (opt_member dd ''sp_receive_addr'')"
  shows "core (v (snd (onExchangeButtonClick E r w))) = core (v w) @ [Tx (Order_Create (order_of r))] \<and>
    value_of ''exchangeStatus'' x (v (snd (onExchangeButtonClick E r w))) = Num 2"
proof -
  obtain z w' where r: "onExchangeButtonClick E r w = (z, w')" by fastforce
  from tripleD [OF bridge_page.hanging_runs [OF assms, of "v w"] refl] r
  have "v w' = v w @ [Set ''exchangeStatus'' (Num 2), Tx (Order_Create (order_of r)), Set ''orderData'' dd]"
    by (cases z) simp_all
  then show ?thesis by (simp add: r)
qed

theorem order_without_address_hangs_witness:
  "value_of ''exchangeStatus'' (Num 0) (snd (onExchangeButtonClick (sim_bridge (Obj [(''data'', Obj [(''order_id'', Num 7)])]))
     (demo_bridge Null) [])) = Num 2"
  using order_without_address_hangs [OF sim_bridge.bridge_page_axioms [of "Obj [(''data'', Obj [(''order_id'', Num 7)])]"],
      of "demo_bridge Null" "Obj [(''data'', Obj [(''order_id'', Num 7)])]" "Obj [(''order_id'', Num 7)]" "[]" "Num 0"]
  by (simp add: demo_bridge_def exchange_refusal_def Let_def sim_bridge_def total_ret returning_def sim_http_def opt_member_def)

text \<open>A payment that was sent and confirmed, with the list of orders unreachable, is announced as a success and right
  after as a failure: reading the list again belongs to the promise whose rejection means that the exchange failed.\<close>

theorem exchange_reported_twice:
  assumes "bridge_page E v" and "exchange_refusal r = None" and "truthy_val (orderData r)"
    and "truthy_val (opt_member (orderData r) ''order_id'')" and "truthy_val (opt_member (orderData r) ''sp_receive_addr'')"
    and "coin_of r = Some u" and "exchange_amount (bridge_units E) (fromNum r) (coinDecimals r) = Inr n"
    and "truthy_val (wallet r)" and "total_io (date_now E)" and "\<And>f. rejecting (order_list E f) rejected"
    and "\<And>addr. total_io (pay E r u addr n)" and "\<And>tx. total_io (wait_payment E tx)"
  shows "\<exists>l. core (v (snd (onExchangeButtonClick E r w))) = core (v w) @
      Tx (payment_op r u (js_string (opt_member (orderData r) ''sp_receive_addr'')) n) # l @
      [Shown True ''Exchange success. The transaction progress would be completed in a few minutes.'', Shown False ''Exchange failed. ''] \<and>
    length l \<le> 1"
proof -
  obtain z w' where r: "onExchangeButtonClick E r w = (z, w')" by fastforce
  from tripleD [OF bridge_page.twice_runs [OF assms, of "cored v w"] refl] r show ?thesis by (cases z) (auto simp: cored_def)
qed

theorem exchange_reported_twice_witness:
  "\<exists>l. core (snd (onExchangeButtonClick (sim_bridge Undef)
      (demo_bridge (Obj [(''order_id'', Num 7), (''sp_receive_addr'', Str ''0xPay'')])) [])) =
      Tx (Pay_Token ''0x55d398326f99059fF775485246999027B3197955'' ''0xPay'' 1500000000000000000) # l @
      [Shown True ''Exchange success. The transaction progress would be completed in a few minutes.'', Shown False ''Exchange failed. '']"
proof -
  let ?r = "demo_bridge (Obj [(''order_id'', Num 7), (''sp_receive_addr'', Str ''0xPay'')])"
  have u: "coin_of ?r = Some (token_info ! 4)" by (simp add: coin_of_def demo_bridge_def token_info_def)
  have n: "exchange_amount plain_units (Num (3 / 2)) 18 = Inr 1500000000000000000"
    using exchange_amount_exact [OF plain.units_axioms, of "3 / 2" 18] by (simp add: decimal_3_2)
  show ?thesis
    using exchange_reported_twice [OF sim_bridge.bridge_page_axioms [of Undef], of ?r "token_info ! 4" 1500000000000000000 "[]"] u n
    by (simp add: demo_bridge_def exchange_refusal_def Let_def sim_bridge_def total_ret opt_member_def rejecting_def throw_def
        pay_def payment_op_def sim_http_marks token_info_def) blast
qed

end
