(* ===== verification/Js_Regex.thy ===== *)
theory Js_Regex
  imports Js_Prelude
begin

text \<open>
  Regular expressions without groups and back references, as the forms test them with \<open>/^..$/.test(s)\<close>: the
  language, and a matcher by derivatives that decides it. A character class is a predicate.
\<close>

datatype rx =
    Eps
  | Fail
  | Class "char \<Rightarrow> bool"
  | Seq rx rx
  | Alt rx rx
  | Many rx

abbreviation Some_Of :: "rx \<Rightarrow> rx" where
  "Some_Of r \<equiv> Seq r (Many r)"

abbreviation Maybe :: "rx \<Rightarrow> rx" where
  "Maybe r \<equiv> Alt r Eps"

section \<open>Languages\<close>

inductive_set many :: "string set \<Rightarrow> string set" for L where
  many_Nil: "[] \<in> many L"
| many_append: "s \<in> L \<Longrightarrow> t \<in> many L \<Longrightarrow> s @ t \<in> many L"

primrec lang :: "rx \<Rightarrow> string set" where
  "lang Eps = {[]}"
| "lang Fail = {}"
| "lang (Class p) = {[c] | c. p c}"
| "lang (Seq r q) = {s @ t | s t. s \<in> lang r \<and> t \<in> lang q}"
| "lang (Alt r q) = lang r \<union> lang q"
| "lang (Many r) = many (lang r)"

section \<open>The matcher\<close>

primrec nullable :: "rx \<Rightarrow> bool" where
  "nullable Eps = True"
| "nullable Fail = False"
| "nullable (Class p) = False"
| "nullable (Seq r q) = (nullable r \<and> nullable q)"
| "nullable (Alt r q) = (nullable r \<or> nullable q)"
| "nullable (Many r) = True"

primrec deriv :: "char \<Rightarrow> rx \<Rightarrow> rx" where
  "deriv c Eps = Fail"
| "deriv c Fail = Fail"
| "deriv c (Class p) = (if p c then Eps else Fail)"
| "deriv c (Seq r q) = (if nullable r then Alt (Seq (deriv c r) q) (deriv c q) else Seq (deriv c r) q)"
| "deriv c (Alt r q) = Alt (deriv c r) (deriv c q)"
| "deriv c (Many r) = Seq (deriv c r) (Many r)"

fun matches :: "rx \<Rightarrow> string \<Rightarrow> bool" where
  "matches r [] = nullable r"
| "matches r (c # s) = matches (deriv c r) s"

lemma nullable_lang: "nullable r \<longleftrightarrow> [] \<in> lang r"
  by (induction r) (auto intro: many_Nil)

lemma many_Cons:
  "c # s \<in> many L \<longleftrightarrow> (\<exists>t u. s = t @ u \<and> c # t \<in> L \<and> u \<in> many L)"
proof
  have "s' = c # s \<Longrightarrow> \<exists>t u. s = t @ u \<and> c # t \<in> L \<and> u \<in> many L" if "s' \<in> many L" for s'
    using that
  proof (induction arbitrary: s)
    case (many_append a b)
    then show ?case by (cases a) auto
  qed simp
  then show "c # s \<in> many L \<Longrightarrow> \<exists>t u. s = t @ u \<and> c # t \<in> L \<and> u \<in> many L" by blast
next
  assume "\<exists>t u. s = t @ u \<and> c # t \<in> L \<and> u \<in> many L"
  then show "c # s \<in> many L" using many_append [of "c # _"] by fastforce
qed

lemma deriv_lang: "s \<in> lang (deriv c r) \<longleftrightarrow> c # s \<in> lang r"
proof (induction r arbitrary: s)
  case (Seq r q)
  show ?case by (auto simp: Seq.IH nullable_lang Cons_eq_append_conv)
next
  case (Many r)
  show ?case by (auto simp: Many.IH many_Cons)
qed auto

lemma matches_lang: "matches r s \<longleftrightarrow> s \<in> lang r"
  by (induction s arbitrary: r) (simp_all add: nullable_lang deriv_lang)

section \<open>Shapes that occur\<close>

lemma many_class: "s \<in> many {[c] | c. p c} \<longleftrightarrow> list_all p s"
proof (induction s)
  case (Cons c s)
  have "c # s \<in> many {[c] | c. p c} \<longleftrightarrow> p c \<and> s \<in> many {[c] | c. p c}" by (auto simp: many_Cons)
  with Cons show ?case by simp
qed (simp add: many_Nil)

lemma some_class: "s \<in> lang (Some_Of (Class p)) \<longleftrightarrow> s \<noteq> [] \<and> list_all p s"
proof
  assume "s \<noteq> [] \<and> list_all p s"
  then obtain c t where "s = [c] @ t" "p c" "list_all p t" by (cases s) auto
  then show "s \<in> lang (Some_Of (Class p))" by (simp only: lang.simps many_class) blast
qed (auto simp: many_class)

lemma seq_lang: "s \<in> lang (Seq r q) \<longleftrightarrow> (\<exists>a b. s = a @ b \<and> a \<in> lang r \<and> b \<in> lang q)"
  by simp

lemma seq_class: "s \<in> lang (Seq (Class p) r) \<longleftrightarrow> (\<exists>c t. s = c # t \<and> p c \<and> t \<in> lang r)"
proof
  assume "s \<in> lang (Seq (Class p) r)"
  then obtain a b where "s = a @ b" "a \<in> lang (Class p)" "b \<in> lang r" by auto
  then show "\<exists>c t. s = c # t \<and> p c \<and> t \<in> lang r" by auto
next
  assume "\<exists>c t. s = c # t \<and> p c \<and> t \<in> lang r"
  then obtain c t where "s = [c] @ t" "[c] \<in> lang (Class p)" "t \<in> lang r" by auto
  then show "s \<in> lang (Seq (Class p) r)" unfolding lang.simps(4) by blast
qed

lemma some_of:
  assumes "[] \<notin> lang r"
  shows "s \<in> lang (Some_Of r) \<longleftrightarrow> s \<noteq> [] \<and> s \<in> many (lang r)"
proof
  show "s \<in> lang (Some_Of r) \<Longrightarrow> s \<noteq> [] \<and> s \<in> many (lang r)"
    using assms by (auto intro: many_append)
next
  show "s \<noteq> [] \<and> s \<in> many (lang r) \<Longrightarrow> s \<in> lang (Some_Of r)"
    by (auto elim: many.cases)
qed

lemma many_concat: "s \<in> many L \<longleftrightarrow> (\<exists>ss. set ss \<subseteq> L \<and> s = concat ss)"
proof
  show "s \<in> many L \<Longrightarrow> \<exists>ss. set ss \<subseteq> L \<and> s = concat ss"
  proof (induction rule: many.induct)
    case many_Nil
    show ?case by (rule exI [of _ "[]"]) simp
  next
    case (many_append a b)
    then obtain ss where "set ss \<subseteq> L" "b = concat ss" by auto
    with many_append(1) show ?case by (intro exI [of _ "a # ss"]) simp
  qed
next
  have "set ss \<subseteq> L \<Longrightarrow> concat ss \<in> many L" for ss
    by (induction ss) (auto intro: many.intros)
  then show "\<exists>ss. set ss \<subseteq> L \<and> s = concat ss \<Longrightarrow> s \<in> many L" by blast
qed

end
