(* ===== verification/Login_Modal.thy ===== *)
theory Login_Modal
  imports Nova_Client Js_Numbers Js_Regex
begin

text \<open>
  The registration dialog of the launchpad, \<open>NovaLaunch/nova-fe/src/hooks/useLoginModal.tsx\<close>: a form of seven pages
  whose steps are clicks, inputs and the answers of the server, in any order. The state is that of the hook with the
  requests under way; a settled answer is what \<open>api/axios.js\<close> makes of the response. The repeated change handlers of
  \<open>delayExecute\<close> (they set again what the input holds) and the markup are left out.
\<close>

section \<open>What the inputs accept\<close>

definition name_char :: "char \<Rightarrow> bool" where
  "name_char c = (let n = (of_char c :: nat) in 97 \<le> n \<and> n \<le> 122 \<or> 65 \<le> n \<and> n \<le> 90 \<or> is_digit c \<or> n = 95 \<or> n = 45)"

definition dot :: char where
  "dot = CHR ''.''"

text \<open>\<open>/^([a-zA-Z0-9_-]\.?)+@[a-zA-Z0-9_-]+(\.[a-zA-Z0-9_-]+)+$/\<close>\<close>

definition email_rx :: rx where
  "email_rx =
     Seq (Some_Of (Seq (Class name_char) (Maybe (Class (\<lambda>c. c = dot)))))
    (Seq (Class (\<lambda>c. c = CHR ''@''))
    (Seq (Some_Of (Class name_char))
         (Some_Of (Seq (Class (\<lambda>c. c = dot)) (Some_Of (Class name_char))))))"

definition emailValid :: "string \<Rightarrow> bool" where
  "emailValid loginEmail = matches email_rx loginEmail"

text \<open>\<open>/^\d{6}$/\<close> and \<open>/\w/\<close>\<close>

definition codeValid :: "string \<Rightarrow> bool" where
  "codeValid loginCode = (let d = Class is_digit in matches (Seq d (Seq d (Seq d (Seq d (Seq d d))))) loginCode)"

definition retweetLinkValid :: "string \<Rightarrow> bool" where
  "retweetLinkValid retweetLink = list_ex (\<lambda>c. name_char c \<and> c \<noteq> CHR ''-'') retweetLink"

text \<open>\<open>encodeURI\<close> of a string of characters below 256, which UTF-8 writes in one or two bytes.\<close>

definition uri_char :: "char \<Rightarrow> bool" where
  "uri_char c = (name_char c \<or> c \<in> set '';,/?:@&=+$.!~*#()'' \<or> c = CHR 0x27)"

definition percent :: "nat \<Rightarrow> string" where
  "percent n = (let digit = (\<lambda>d. ''0123456789ABCDEF'' ! d) in [CHR ''%'', digit (n div 16), digit (n mod 16)])"

definition encodeURI :: "string \<Rightarrow> string" where
  "encodeURI s = concat (map (\<lambda>c. let n = (of_char c :: nat) in
     if uri_char c then [c] else if n < 128 then percent n
     else percent (192 + n div 64) @ percent (128 + n mod 64)) s)"

section \<open>The state\<close>

text \<open>The requests with their parameters, as they are sent. \<open>telegram\<close> are the wallets of the clicks whose authorisation
  is under way.\<close>

datatype login_request =
    Is_Register val nat
  | User_Code string
  | User_Register val string string
  | Address_Add val val
  | Twitter_Task val string string nat
  | Tg_Register val val val

record login_state =
  walletAddress :: val
  isModalVisible :: bool
  isUserRegister :: val
  loginEmail :: string
  loginCode :: string
  twitterName :: string
  retweetLink :: string
  confirmLoading :: bool
  dataLoading :: bool
  loginState :: int
  registerData :: val
  userAddress :: val
  telegram :: "val list"
  pending :: "login_request list"
  requested :: "login_request list"
  messages :: "(bool \<times> string) list"

definition send :: "login_request \<Rightarrow> login_state \<Rightarrow> login_state" where
  "send r s = s\<lparr>pending := pending s @ [r], requested := requested s @ [r]\<rparr>"

definition tell :: "bool \<Rightarrow> string \<Rightarrow> login_state \<Rightarrow> login_state" where
  "tell b m s = s\<lparr>messages := messages s @ [(b, m)]\<rparr>"

section \<open>Effects\<close>

definition getRegisterStatus :: "nat \<Rightarrow> login_state \<Rightarrow> login_state" where
  "getRegisterStatus pId s =
     (if \<not> truthy_val (walletAddress s) then s
      else send (Is_Register (walletAddress s) pId) (s\<lparr>dataLoading := True\<rparr>))"

definition opt_get :: "val \<Rightarrow> string \<Rightarrow> val" where
  "opt_get v k = (case v of Obj ob \<Rightarrow> get k ob | _ \<Rightarrow> Undef)"

definition js_and :: "val \<Rightarrow> val \<Rightarrow> val" where
  "js_and a b = (if truthy_val a then b else a)"

definition visible_effect :: "nat \<Rightarrow> login_state \<Rightarrow> login_state" where
  "visible_effect pId s =
     (if isModalVisible s then getRegisterStatus pId s else s)\<lparr>loginEmail := [], confirmLoading := False\<rparr>"

definition register_effect :: "login_state \<Rightarrow> login_state" where
  "register_effect s = (let d = registerData s in
     if truthy_val d \<and> \<not> truthy_val (opt_get d ''loginEmail'') then s\<lparr>loginState := 0\<rparr>
     else if truthy_val d \<and> \<not> truthy_val (opt_get d ''userAddress'') then s\<lparr>loginState := 3\<rparr>
     else if truthy_val d \<and> \<not> truthy_val (opt_get d ''retweetLink'') then s\<lparr>loginState := 6\<rparr>
     else s)"

section \<open>Handlers\<close>

definition showLoginModal :: "nat \<Rightarrow> login_state \<Rightarrow> login_state" where
  "showLoginModal pId s =
     (if isModalVisible s then s else visible_effect pId (s\<lparr>isModalVisible := True\<rparr>))"

definition handleCancel :: "nat \<Rightarrow> login_state \<Rightarrow> login_state" where
  "handleCancel pId s =
     (if isModalVisible s then visible_effect pId (s\<lparr>isModalVisible := False\<rparr>) else s)"

definition sendEmailCode :: "login_state \<Rightarrow> login_state" where
  "sendEmailCode s = send (User_Code (encodeURI (loginEmail s))) (s\<lparr>confirmLoading := True\<rparr>)"

definition verifyEmailCode :: "login_state \<Rightarrow> login_state" where
  "verifyEmailCode s = send (User_Register (walletAddress s) (loginEmail s) (loginCode s)) (s\<lparr>confirmLoading := True\<rparr>)"

definition saveUserAddress :: "login_state \<Rightarrow> login_state" where
  "saveUserAddress s = send (Address_Add (walletAddress s) (userAddress s)) (s\<lparr>confirmLoading := True\<rparr>)"

definition saveUserTwitter :: "nat \<Rightarrow> login_state \<Rightarrow> login_state" where
  "saveUserTwitter pId s =
     send (Twitter_Task (walletAddress s) (twitterName s) (retweetLink s) pId) (s\<lparr>confirmLoading := True\<rparr>)"

definition handleTgGroupButtonClick :: "login_state \<Rightarrow> login_state" where
  "handleTgGroupButtonClick s = (let d = registerData s in
     if truthy_val d \<and> truthy_val (opt_get d ''retweetLink'') then s\<lparr>loginState := 5\<rparr>
     else if truthy_val d \<and> truthy_val (opt_get d ''userAddress'') then s\<lparr>loginState := 4\<rparr>
     else s\<lparr>loginState := 3\<rparr>)"

definition telegramFailCb :: "login_state \<Rightarrow> login_state" where
  "telegramFailCb s = (tell False ''Telegram verify fail, please try again.'' s)\<lparr>confirmLoading := False\<rparr>"

text \<open>The click on page 2: \<open>refusal\<close> is the message of what \<open>Telegram.Login.auth\<close> throws, if it does.\<close>

definition handleTelegramButtonClick :: "string option \<Rightarrow> login_state \<Rightarrow> login_state" where
  "handleTelegramButtonClick refusal s = (let s' = s\<lparr>confirmLoading := True\<rparr> in
     case refusal of None \<Rightarrow> s'\<lparr>telegram := telegram s @ [walletAddress s]\<rparr>
     | Some m \<Rightarrow> (tell False (if m = [] then ''Telegram verify fail, please try again.'' else m) s')\<lparr>confirmLoading := False\<rparr>)"

text \<open>The callback sees the wallet of the click.\<close>

definition telegramCallback :: "val \<Rightarrow> val \<Rightarrow> login_state \<Rightarrow> login_state" where
  "telegramCallback adr x s =
     (if \<not> truthy_val x then telegramFailCb s
      else (let user = (if truthy_val (opt_get x ''user'') then opt_get x ''user'' else x) in
        send (Tg_Register adr (opt_get user ''id'') (opt_get user ''username'')) s))"

section \<open>Answers\<close>

text \<open>\<open>error?.message || d\<close>\<close>

definition message_or :: "string \<Rightarrow> val \<Rightarrow> string" where
  "message_or d e = (let m = opt_get e ''message'' in if truthy_val m then js_string m else d)"

text \<open>\<open>new Error(res)\<close> has the text of the object as its message, and \<open>res.code\<close> throws where \<open>res\<close> is missing.\<close>

definition code_failure :: "val \<Rightarrow> string option" where
  "code_failure res = (case member res ''code'' of
       Inl e \<Rightarrow> Some (case e of TypeError m \<Rightarrow> m | ReferenceError m \<Rightarrow> m | JsError m \<Rightarrow> m)
     | Inr c \<Rightarrow> if equals_num c (Some 200) then None else Some (js_string res))"

definition status_answer :: "settled \<Rightarrow> login_state \<Rightarrow> login_state" where
  "status_answer a s = (case a of
       Reject e \<Rightarrow> s\<lparr>dataLoading := False\<rparr>
     | Resolve res \<Rightarrow>
         (let d = (if truthy_val res then opt_get res ''data'' else res);
              s' = (if truthy_val d
                then register_effect (s\<lparr>isUserRegister := js_and (opt_get d ''loginEmail'')
                   (js_and (opt_get d ''userAddress'') (opt_get d ''retweetLink'')), registerData := d\<rparr>)
                else s)
          in s'\<lparr>dataLoading := False\<rparr>))"

definition code_answer :: "settled \<Rightarrow> login_state \<Rightarrow> login_state" where
  "code_answer a s = (let failed = (\<lambda>m. (tell False m s)\<lparr>confirmLoading := False\<rparr>) in
     case a of
       Reject e \<Rightarrow> failed (message_or ''Network error, please try again.'' e)
     | Resolve res \<Rightarrow> (case code_failure res of
           Some m \<Rightarrow> failed (if m = [] then ''Network error, please try again.'' else m)
         | None \<Rightarrow> (tell True ''A verify code has sent to your email, please check out your mail box.'' s)
             \<lparr>confirmLoading := False, loginState := 1\<rparr>))"

definition verify_answer :: "settled \<Rightarrow> login_state \<Rightarrow> login_state" where
  "verify_answer a s = (let failed = tell False ''Verification failed, please check your email and try again.'' s in
     (case a of
        Reject e \<Rightarrow> failed
      | Resolve res \<Rightarrow> (case member res ''data'' of
            Inl e \<Rightarrow> failed
          | Inr d \<Rightarrow> if truthy_val d then (tell True ''Verify email success!'' s)\<lparr>loginState := 6\<rparr> else s))
     \<lparr>confirmLoading := False\<rparr>)"

definition address_answer :: "settled \<Rightarrow> login_state \<Rightarrow> login_state" where
  "address_answer a s =
     (case a of Reject e \<Rightarrow> tell False ''Verification failed, please try again.'' s
      | Resolve res \<Rightarrow> s\<lparr>loginState := 4\<rparr>)\<lparr>confirmLoading := False\<rparr>"

definition twitter_answer :: "settled \<Rightarrow> login_state \<Rightarrow> login_state" where
  "twitter_answer a s =
     (case a of Reject e \<Rightarrow> tell False ''Verification failed, please try again.'' s
      | Resolve res \<Rightarrow> s\<lparr>isUserRegister := Bool True, loginState := 5\<rparr>)\<lparr>confirmLoading := False\<rparr>"

definition tg_answer :: "settled \<Rightarrow> login_state \<Rightarrow> login_state" where
  "tg_answer a s = (case a of
       Reject e \<Rightarrow> telegramFailCb s
     | Resolve res \<Rightarrow> if code_failure res = None then s\<lparr>loginState := 6, confirmLoading := False\<rparr> else telegramFailCb s)"

fun answer_request :: "login_request \<Rightarrow> settled \<Rightarrow> login_state \<Rightarrow> login_state" where
  "answer_request (Is_Register adr pid) a = status_answer a"
| "answer_request (User_Code mail) a = code_answer a"
| "answer_request (User_Register adr mail cd) a = verify_answer a"
| "answer_request (Address_Add adr country) a = address_answer a"
| "answer_request (Twitter_Task adr nm link pid) a = twitter_answer a"
| "answer_request (Tg_Register adr tid nm) a = tg_answer a"

section \<open>Steps\<close>

definition first_state :: login_state where
  "first_state = \<lparr> walletAddress = Null, isModalVisible = False, isUserRegister = Bool False, loginEmail = [], loginCode = [],
     twitterName = [], retweetLink = [], confirmLoading = False, dataLoading = False, loginState = 0, registerData = Null,
     userAddress = Str [], telegram = [], pending = [], requested = [], messages = [] \<rparr>"

datatype login_event =
    Wallet val
  | Open
  | Cancel
  | Type_Email string
  | Type_Code string
  | Type_Name string
  | Type_Link string
  | Choose val
  | Next_Click
  | Prev_Click
  | Telegram_Click "string option"
  | Telegram_Answer nat val
  | Answer nat settled

text \<open>What is shown: the page of the form, unless the registration is being read. Inputs are disabled and buttons
  do nothing while a step is confirmed; only the button back and the choice of the country are not guarded.\<close>

definition on_page :: "int \<Rightarrow> login_state \<Rightarrow> bool" where
  "on_page k s \<longleftrightarrow> isModalVisible s \<and> \<not> dataLoading s \<and> loginState s = k"

text \<open>The buttons \<open>Next\<close> of the pages.\<close>

definition email_next :: "login_state \<Rightarrow> login_state" where
  "email_next s = (if emailValid (loginEmail s) then sendEmailCode s else s)"

definition code_next :: "login_state \<Rightarrow> login_state" where
  "code_next s = (if emailValid (loginEmail s) \<and> codeValid (loginCode s) then verifyEmailCode s else s)"

definition country_next :: "login_state \<Rightarrow> login_state" where
  "country_next s = (if truthy_val (userAddress s) then saveUserAddress s else s)"

definition twitter_next :: "nat \<Rightarrow> login_state \<Rightarrow> login_state" where
  "twitter_next pId s = (if retweetLinkValid (retweetLink s) then saveUserTwitter pId s else s)"

definition next_click :: "nat \<Rightarrow> login_state \<Rightarrow> login_state" where
  "next_click pId s =
     (if confirmLoading s then s
      else if on_page 0 s then email_next s
      else if on_page 1 s then code_next s
      else if on_page 3 s then country_next s
      else if on_page 4 s then twitter_next pId s
      else if on_page 6 s then handleTgGroupButtonClick s
      else s)"

text \<open>What stands above the page, and the link of the button \<open>Retweet\<close>.\<close>

definition page_title :: "int \<Rightarrow> string" where
  "page_title n =
     (if n = 0 \<or> n = 1 then ''Verify your email'' else if n = 2 then ''Verify your Telegram''
      else if n = 3 then ''Verify your country/region'' else if n = 4 then ''Follow our Twitter''
      else if n = 5 then ''Register Success'' else if n = 6 then ''Verify your Telegram'' else [])"

definition retweetTargetLink :: "val \<Rightarrow> string" where
  "retweetTargetLink loginConfig =
     (let t = opt_get loginConfig ''tweetId'' in
      ''https://twitter.com/intent/retweet?tweet_id='' @ js_string (if truthy_val t then t else Str []) @
      ''&related=twitterapi,twittermedia,twitter,support&original_referer=https://bobabrewery.com'')"

definition drop_nth :: "nat \<Rightarrow> 'a list \<Rightarrow> 'a list" where
  "drop_nth i xs = take i xs @ drop (Suc i) xs"

definition typing :: "int \<Rightarrow> (login_state \<Rightarrow> login_state) \<Rightarrow> login_state \<Rightarrow> login_state" where
  "typing k f s = (if on_page k s \<and> \<not> confirmLoading s then f s else s)"

fun login_step :: "nat \<Rightarrow> login_event \<Rightarrow> login_state \<Rightarrow> login_state" where
  "login_step pId (Wallet x) s = (if x = walletAddress s then s else getRegisterStatus pId (s\<lparr>walletAddress := x\<rparr>))"
| "login_step pId Open s = showLoginModal pId s"
| "login_step pId Cancel s = handleCancel pId s"
| "login_step pId (Type_Email t) s = typing 0 (\<lambda>s. s\<lparr>loginEmail := t\<rparr>) s"
| "login_step pId (Type_Code t) s = typing 1 (\<lambda>s. s\<lparr>loginCode := t\<rparr>) s"
| "login_step pId (Type_Name t) s = typing 4 (\<lambda>s. s\<lparr>twitterName := t\<rparr>) s"
| "login_step pId (Type_Link t) s = typing 4 (\<lambda>s. s\<lparr>retweetLink := t\<rparr>) s"
| "login_step pId (Choose x) s = (if on_page 3 s then s\<lparr>userAddress := x\<rparr> else s)"
| "login_step pId Next_Click s = next_click pId s"
| "login_step pId Prev_Click s = (if on_page 1 s then s\<lparr>loginState := loginState s - 1\<rparr> else s)"
| "login_step pId (Telegram_Click refusal) s =
     (if on_page 2 s \<and> \<not> confirmLoading s then handleTelegramButtonClick refusal s else s)"
| "login_step pId (Telegram_Answer i x) s =
     (if i < length (telegram s)
      then telegramCallback (telegram s ! i) x (s\<lparr>telegram := drop_nth i (telegram s)\<rparr>) else s)"
| "login_step pId (Answer i a) s =
     (if i < length (pending s)
      then answer_request (pending s ! i) a (s\<lparr>pending := drop_nth i (pending s)\<rparr>) else s)"

definition login_run :: "nat \<Rightarrow> login_event list \<Rightarrow> login_state \<Rightarrow> login_state" where
  "login_run pId es s = fold (login_step pId) es s"

section \<open>Email addresses\<close>

text \<open>The two halves of an address: no dot at the start and no two in a row before the \<open>@\<close> (one may stand at the end),
  and at least two labels behind it.\<close>

definition apart :: "char \<Rightarrow> char \<Rightarrow> bool" where
  "apart a b \<longleftrightarrow> a \<noteq> dot \<or> b \<noteq> dot"

definition local_part :: "string \<Rightarrow> bool" where
  "local_part l \<longleftrightarrow> l \<noteq> [] \<and> hd l \<noteq> dot \<and> list_all (\<lambda>c. name_char c \<or> c = dot) l \<and>
     successively apart l"

definition label_ok :: "string \<Rightarrow> bool" where
  "label_ok l \<longleftrightarrow> l \<noteq> [] \<and> list_all name_char l"

lemma name_char_dot [simp]: "\<not> name_char dot"
  by (simp add: name_char_def dot_def is_digit_def)

abbreviation piece_rx :: rx where
  "piece_rx \<equiv> Seq (Class name_char) (Maybe (Class (\<lambda>c. c = dot)))"

lemma piece: "s \<in> lang piece_rx \<longleftrightarrow> (\<exists>c. name_char c \<and> (s = [c] \<or> s = [c, dot]))"
  unfolding seq_class by auto

fun pieces :: "string \<Rightarrow> bool" where
  "pieces [] = True"
| "pieces [c] = name_char c"
| "pieces (c # d # s) = (name_char c \<and> (if d = dot then pieces s else pieces (d # s)))"

lemma pieces_many: "s \<in> many (lang piece_rx) \<longleftrightarrow> pieces s"
proof (induction s rule: pieces.induct)
  case 1
  show ?case by (simp add: many_Nil)
next
  case (2 c)
  have "[c] \<in> many (lang piece_rx) \<longleftrightarrow> (\<exists>t u. [] = t @ u \<and> c # t \<in> lang piece_rx \<and> u \<in> many (lang piece_rx))"
    by (rule many_Cons)
  also have "\<dots> \<longleftrightarrow> name_char c" by (auto simp: piece many_Nil simp del: lang.simps)
  finally show ?case by simp
next
  case (3 c d s)
  have nodot: "dot # s \<notin> many (lang piece_rx)" for s
    by (auto simp: many_Cons piece simp del: lang.simps)
  have "c # d # s \<in> many (lang piece_rx) \<longleftrightarrow>
      (\<exists>t u. d # s = t @ u \<and> c # t \<in> lang piece_rx \<and> u \<in> many (lang piece_rx))"
    by (rule many_Cons)
  also have "\<dots> \<longleftrightarrow> name_char c \<and> (d # s \<in> many (lang piece_rx) \<or> d = dot \<and> s \<in> many (lang piece_rx))"
    by (simp only: piece Cons_eq_append_conv) (auto, metis append_Cons append_Nil)
  finally show ?case using 3 nodot by auto
qed

lemma apart_simps [simp]: "apart dot dot = False" "c \<noteq> dot \<Longrightarrow> apart c d" "d \<noteq> dot \<Longrightarrow> apart c d"
  by (simp_all add: apart_def)

lemma successively_dot:
  "successively apart (dot # s) \<longleftrightarrow> (s = [] \<or> hd s \<noteq> dot) \<and> successively apart s"
  by (cases s) auto

lemma successively_other: "c \<noteq> dot \<Longrightarrow> successively apart (c # s) \<longleftrightarrow> successively apart s"
  by (cases s) (auto simp: apart_def)

lemma pieces_local: "pieces s \<longleftrightarrow> s = [] \<or> local_part s"
proof (induction s rule: pieces.induct)
  case (2 c)
  show ?case by (auto simp: local_part_def)
next
  case (3 c d s)
  have "name_char c \<longrightarrow> c \<noteq> dot" by auto
  with 3 show ?case by (cases "d = dot") (auto simp: local_part_def successively_dot successively_other)
qed simp

lemma local_rx: "s \<in> lang (Some_Of piece_rx) \<longleftrightarrow> local_part s"
proof -
  have "[] \<notin> lang piece_rx" by (simp only: piece) simp
  from some_of [OF this, of s] have "s \<in> lang (Some_Of piece_rx) \<longleftrightarrow> s \<noteq> [] \<and> (s = [] \<or> local_part s)"
    unfolding pieces_many pieces_local .
  then show ?thesis unfolding local_part_def by blast
qed

abbreviation label_rx :: rx where
  "label_rx \<equiv> Seq (Class (\<lambda>c. c = dot)) (Some_Of (Class name_char))"

lemma label_rx: "s \<in> lang label_rx \<longleftrightarrow> (\<exists>l. s = dot # l \<and> label_ok l)"
  using seq_class [of s "\<lambda>c. c = dot" "Some_Of (Class name_char)"] unfolding some_class label_ok_def by simp

lemma labels_rx: "s \<in> lang (Some_Of label_rx) \<longleftrightarrow>
    (\<exists>ls. ls \<noteq> [] \<and> list_all label_ok ls \<and> s = concat (map ((#) dot) ls))"
proof -
  have ne: "[] \<notin> lang label_rx" by (simp only: label_rx) simp
  have "s \<in> many (lang label_rx) \<longleftrightarrow> (\<exists>ls. list_all label_ok ls \<and> s = concat (map ((#) dot) ls))"
  proof
    assume "s \<in> many (lang label_rx)"
    then show "\<exists>ls. list_all label_ok ls \<and> s = concat (map ((#) dot) ls)"
    proof (induction rule: many.induct)
      case many_Nil
      show ?case by (rule exI [of _ "[]"]) simp
    next
      case (many_append a b)
      then obtain l ls where "a = dot # l" "label_ok l" "list_all label_ok ls" "b = concat (map ((#) dot) ls)"
        unfolding label_rx by blast
      then show ?case by (intro exI [of _ "l # ls"]) simp
    qed
  next
    have "list_all label_ok ls \<Longrightarrow> concat (map ((#) dot) ls) \<in> many (lang label_rx)" for ls
    proof (induction ls)
      case (Cons l ls)
      then have "dot # l \<in> lang label_rx" unfolding label_rx by simp
      with Cons show ?case using many.many_append [of "dot # l"] by simp
    qed (simp add: many_Nil)
    then show "\<exists>ls. list_all label_ok ls \<and> s = concat (map ((#) dot) ls) \<Longrightarrow> s \<in> many (lang label_rx)" by blast
  qed
  with some_of [OF ne, of s] show ?thesis
    by (auto simp del: lang.simps)
qed


text \<open>The regular expression of the form accepts exactly the addresses with one local part in front of the \<open>@\<close>
  and a domain of at least two labels; an address with any other character, such as a plus sign, is turned down.\<close>

theorem email_shape:
  "emailValid s \<longleftrightarrow> (\<exists>l d ds. s = l @ CHR ''@'' # d @ concat (map ((#) dot) ds) \<and>
     local_part l \<and> label_ok d \<and> ds \<noteq> [] \<and> list_all label_ok ds)"
proof -
  let ?domain = "Seq (Some_Of (Class name_char)) (Some_Of label_rx)"
  have at: "t \<in> lang (Seq (Class (\<lambda>c. c = CHR ''@'')) r) \<longleftrightarrow> (\<exists>u. t = CHR ''@'' # u \<and> u \<in> lang r)" for t r
    using seq_class [of t "\<lambda>c. c = CHR ''@''" r] by simp
  have "emailValid s \<longleftrightarrow> (\<exists>l t. s = l @ t \<and> l \<in> lang (Some_Of piece_rx) \<and>
      t \<in> lang (Seq (Class (\<lambda>c. c = CHR ''@'')) ?domain))"
    unfolding emailValid_def email_rx_def matches_lang by (rule seq_lang)
  also have "\<dots> \<longleftrightarrow> (\<exists>l u. s = l @ CHR ''@'' # u \<and> local_part l \<and> u \<in> lang ?domain)"
    unfolding at local_rx by blast
  also have "\<dots> \<longleftrightarrow> (\<exists>l d e. s = l @ CHR ''@'' # d @ e \<and> local_part l \<and> label_ok d \<and> e \<in> lang (Some_Of label_rx))"
    unfolding seq_lang [of _ "Some_Of (Class name_char)"] some_class label_ok_def by blast
  finally show ?thesis unfolding labels_rx by blast
qed

lemma email_chars:
  assumes "emailValid s"
  shows "list_all (\<lambda>c. name_char c \<or> c = dot \<or> c = CHR ''@'') s"
proof -
  have "list_all label_ok ds \<Longrightarrow> list_all (\<lambda>c. name_char c \<or> c = dot) (concat (map ((#) dot) ds))" for ds
    by (induction ds) (auto simp: label_ok_def list_all_iff)
  with assms show ?thesis
    unfolding email_shape by (auto simp: local_part_def label_ok_def list_all_iff)
qed

text \<open>Nothing of a valid address is escaped.\<close>

lemma encodeURI_email:
  assumes "emailValid s"
  shows "encodeURI s = s"
proof -
  have "uri_char c" if "name_char c \<or> c = dot \<or> c = CHR ''@''" for c
    using that by (auto simp: uri_char_def dot_def)
  then have "list_all uri_char s" using email_chars [OF assms] by (auto simp: list_all_iff)
  then show ?thesis unfolding encodeURI_def by (induction s) (auto simp: Let_def)
qed

section \<open>What a registration sends\<close>

fun valid_request :: "nat \<Rightarrow> login_request \<Rightarrow> bool" where
  "valid_request pId (Is_Register adr p) = (truthy_val adr \<and> p = pId)"
| "valid_request pId (User_Code mail) = emailValid mail"
| "valid_request pId (User_Register adr mail cd) = (emailValid mail \<and> codeValid cd)"
| "valid_request pId (Address_Add adr country) = truthy_val country"
| "valid_request pId (Twitter_Task adr nm link p) = (retweetLinkValid link \<and> p = pId)"
| "valid_request pId (Tg_Register adr tid nm) = False"

fun is_twitter :: "login_request \<Rightarrow> bool" where
  "is_twitter (Twitter_Task adr nm link p) = True"
| "is_twitter _ = False"

definition recorded_link :: "val \<Rightarrow> bool" where
  "recorded_link d \<longleftrightarrow> truthy_val d \<and> truthy_val (opt_get d ''retweetLink'')"

definition login_ok :: "nat \<Rightarrow> login_state \<Rightarrow> bool" where
  "login_ok pId s \<longleftrightarrow> loginState s \<in> {0, 1, 3, 4, 5, 6} \<and> telegram s = [] \<and>
     list_all (valid_request pId) (requested s) \<and> set (pending s) \<subseteq> set (requested s) \<and>
     (loginState s = 5 \<longrightarrow> list_ex is_twitter (requested s) \<or> recorded_link (registerData s))"

lemma ok_send [simp]: "valid_request pId r \<Longrightarrow> login_ok pId s \<Longrightarrow> login_ok pId (send r s)"
  by (auto simp: login_ok_def send_def)

lemma ok_status: "login_ok pId s \<Longrightarrow> login_ok pId (getRegisterStatus pId s)"
  unfolding getRegisterStatus_def by (auto simp: login_ok_def send_def)

lemma ok_visible: "login_ok pId s \<Longrightarrow> login_ok pId (visible_effect pId s)"
  using ok_status [of pId s] by (auto simp: visible_effect_def login_ok_def)

lemma ok_page: "login_ok pId s \<Longrightarrow> n \<in> {0, 1, 3, 4, 6} \<Longrightarrow> login_ok pId (s\<lparr>loginState := n\<rparr>)"
  by (auto simp: login_ok_def)

lemma ok_loading [simp]: "login_ok pId (s\<lparr>confirmLoading := b\<rparr>) = login_ok pId s"
  by (simp add: login_ok_def)

lemma ok_group: "login_ok pId s \<Longrightarrow> login_ok pId (handleTgGroupButtonClick s)"
  by (auto simp: handleTgGroupButtonClick_def Let_def login_ok_def recorded_link_def)

lemma ok_next: "login_ok pId s \<Longrightarrow> login_ok pId (next_click pId s)"
  unfolding next_click_def email_next_def code_next_def country_next_def twitter_next_def sendEmailCode_def verifyEmailCode_def saveUserAddress_def saveUserTwitter_def
  by (simp add: ok_group encodeURI_email)

lemma ok_answers:
  assumes "login_ok pId s" and "r \<in> set (requested s)"
  shows "login_ok pId (answer_request r a s)"
proof (cases r)
  case (Is_Register adr p)
  with assms show ?thesis
    by (cases a) (auto simp: status_answer_def register_effect_def recorded_link_def login_ok_def Let_def)
next
  case (User_Code mail)
  with assms show ?thesis
    by (cases a) (auto simp: code_answer_def tell_def login_ok_def Let_def split: option.split)
next
  case (User_Register adr mail cd)
  with assms show ?thesis
    by (cases a) (auto simp: verify_answer_def tell_def login_ok_def Let_def split: sum.split)
next
  case (Address_Add adr country)
  with assms show ?thesis by (cases a) (auto simp: address_answer_def tell_def login_ok_def)
next
  case (Twitter_Task adr nm link p)
  with assms have "list_ex is_twitter (requested s)" unfolding list_ex_iff by force
  with Twitter_Task assms show ?thesis by (cases a) (auto simp: twitter_answer_def tell_def login_ok_def)
next
  case (Tg_Register adr tid nm)
  with assms show ?thesis by (auto simp: login_ok_def list_all_iff)
qed

lemma ok_drop: "login_ok pId s \<Longrightarrow> login_ok pId (s\<lparr>pending := drop_nth i (pending s)\<rparr>)"
  using set_take_subset [of i "pending s"] set_drop_subset [of "Suc i" "pending s"]
  by (auto simp: login_ok_def drop_nth_def)

lemma ok_step:
  assumes "login_ok pId s"
  shows "login_ok pId (login_step pId e s)"
proof (cases e)
  case (Wallet x)
  have "login_ok pId (s\<lparr>walletAddress := x\<rparr>)" using assms by (simp add: login_ok_def)
  with Wallet assms show ?thesis by (auto intro: ok_status)
next
  case Open
  have "login_ok pId (s\<lparr>isModalVisible := True\<rparr>)" using assms by (simp add: login_ok_def)
  with Open assms show ?thesis by (auto simp: showLoginModal_def intro: ok_visible)
next
  case Cancel
  have "login_ok pId (s\<lparr>isModalVisible := False\<rparr>)" using assms by (simp add: login_ok_def)
  with Cancel assms show ?thesis by (auto simp: handleCancel_def intro: ok_visible)
next
  case Next_Click
  with assms show ?thesis by (simp add: ok_next)
next
  case Prev_Click
  with assms show ?thesis by (auto simp: on_page_def intro: ok_page)
next
  case (Telegram_Click refusal)
  with assms have "\<not> on_page 2 s" by (auto simp: on_page_def login_ok_def)
  with Telegram_Click assms show ?thesis by simp
next
  case (Telegram_Answer i x)
  with assms show ?thesis by (auto simp: login_ok_def)
next
  case (Answer i a)
  show ?thesis
  proof (cases "i < length (pending s)")
    case True
    with assms have "pending s ! i \<in> set (requested s)" by (auto simp: login_ok_def)
    with Answer True show ?thesis using ok_answers [OF ok_drop [OF assms], of "pending s ! i" i a] by simp
  qed (use Answer assms in simp)
qed (use assms in \<open>auto simp: typing_def login_ok_def\<close>)

lemma ok_run: "login_ok pId s \<Longrightarrow> login_ok pId (login_run pId es s)"
  unfolding login_run_def by (induction es arbitrary: s) (auto intro: ok_step)

lemma ok_first: "login_ok pId first_state"
  by (simp add: login_ok_def first_state_def)

definition answered :: "val \<Rightarrow> settled" where
  "answered d = Resolve (Obj [(''code'', Num 200), (''data'', d)])"

text \<open>A new user who gives valid answers and is answered: two readings of the registration (at the start and when the dialog
  opens), then the steps.\<close>

definition registration :: "val \<Rightarrow> val \<Rightarrow> string \<Rightarrow> string \<Rightarrow> val \<Rightarrow> string \<Rightarrow> string \<Rightarrow> login_event list" where
  "registration adr d mail cd country nm link =
     [Wallet adr, Answer 0 (answered d), Open, Answer 0 (answered d),
      Type_Email mail, Next_Click, Answer 0 (answered Null), Type_Code cd, Next_Click, Answer 0 (answered (Bool True)),
      Next_Click, Choose country, Next_Click, Answer 0 (answered Null),
      Type_Name nm, Type_Link link, Next_Click, Answer 0 (answered Null)]"

lemmas login_defs = first_state_def login_run_def registration_def answered_def getRegisterStatus_def send_def tell_def
  showLoginModal_def visible_effect_def status_answer_def register_effect_def opt_get_def drop_nth_def typing_def on_page_def
  next_click_def email_next_def code_next_def country_next_def twitter_next_def sendEmailCode_def verifyEmailCode_def saveUserAddress_def saveUserTwitter_def
  handleTgGroupButtonClick_def code_answer_def code_failure_def verify_answer_def address_answer_def twitter_answer_def
  equals_num_def

text \<open>C24: a new user is led from page to page, and the registration sends the address, the code, the country and the
  tweet, each once and for the connected wallet, and ends on the page of success. The Telegram account is never sent.\<close>

theorem new_user_registers:
  assumes "truthy_val adr" and "emailValid mail" and "codeValid cd" and "truthy_val country" and "retweetLinkValid link"
    and "d = Obj ob" and "\<not> truthy_val (get ''loginEmail'' ob)" and "\<not> truthy_val (get ''userAddress'' ob)"
    and "\<not> truthy_val (get ''retweetLink'' ob)"
  shows "let s = login_run pId (registration adr d mail cd country nm link) first_state in
    loginState s = 5 \<and> isUserRegister s = Bool True \<and> pending s = [] \<and>
    requested s = [Is_Register adr pId, Is_Register adr pId, User_Code mail, User_Register adr mail cd,
      Address_Add adr country, Twitter_Task adr nm link pId]"
proof -
  have "adr \<noteq> Null" using assms(1) by auto
  then show ?thesis
    using assms by (simp add: login_defs encodeURI_email Let_def)
qed

text \<open>C23: whatever the user does and however the server answers, no request carries an input that the form does not accept,
  the page that verifies the Telegram account is never shown and no such account is sent, and the page of success is reached only
  after the tweet was sent or with a tweet on record.\<close>

theorem registration_safe:
  "let s = login_run pId es first_state in
     loginState s \<noteq> 2 \<and> list_all (valid_request pId) (requested s) \<and>
     (loginState s = 5 \<longrightarrow> list_ex is_twitter (requested s) \<or> recorded_link (registerData s))"
  using ok_run [OF ok_first, of pId es] by (auto simp: login_ok_def Let_def)

text \<open>A user whose registration is complete is shown the first page again: the page is set only for a missing step.\<close>

theorem registered_user_asked_again:
  assumes "truthy_val adr" and "truthy_val (get ''loginEmail'' ob)" and "truthy_val (get ''userAddress'' ob)"
    and "truthy_val (get ''retweetLink'' ob)"
  shows "let s = login_run pId [Wallet adr, Answer 0 (answered (Obj ob)), Open, Answer 0 (answered (Obj ob))] first_state in
    on_page 0 s \<and> truthy_val (isUserRegister s)"
proof -
  have "adr \<noteq> Null" using assms(1) by auto
  then show ?thesis
    using assms by (simp add: login_defs js_and_def Let_def)
qed

text \<open>An answer about an account that is no longer connected is taken for the connected one. When the wallet
  changes from \<open>a\<close> to \<open>b\<close>, whose registration is complete, and the answer for \<open>a\<close> comes last, the dialog holds the registration
  of \<open>a\<close>, asks for the country and sends it for \<open>b\<close>.\<close>

theorem stale_registration:
  assumes "truthy_val a" and "truthy_val b" and "a \<noteq> b" and "truthy_val country"
    and "\<forall>k \<in> {''loginEmail'', ''userAddress'', ''retweetLink''}. truthy_val (get k ob)"
    and "truthy_val (get ''loginEmail'' oa)" and "\<not> truthy_val (get ''userAddress'' oa)"
  shows "let s = login_run pId [Wallet a, Wallet b, Answer 1 (answered (Obj ob)), Answer 0 (answered (Obj oa)),
      Open, Answer 0 (Reject Undef), Choose country, Next_Click] first_state in
    registerData s = Obj oa \<and> walletAddress s = b \<and> Address_Add b country \<in> set (requested s)"
proof -
  have "a \<noteq> Null" "b \<noteq> Null" using assms(1,2) by auto
  then show ?thesis
    using assms by (simp add: login_defs Let_def)
qed

definition demo_user :: obj where
  "demo_user = [(''loginEmail'', Null), (''userAddress'', Null), (''retweetLink'', Null)]"

lemma demo_inputs: "emailValid ''ann@c2n.io''" "codeValid ''123456''" "retweetLinkValid ''x''"
  by (simp_all add: emailValid_def email_rx_def codeValid_def retweetLinkValid_def name_char_def is_digit_def dot_def Let_def)

theorem new_user_registers_witness:
  "loginState (login_run 7 (registration (Str ''0xa1'') (Obj demo_user) ''ann@c2n.io'' ''123456'' (Str ''Peru'') ''ann'' ''x'') first_state) = 5"
  using new_user_registers [of "Str ''0xa1''" "''ann@c2n.io''" "''123456''" "Str ''Peru''" "''x''" "Obj demo_user" demo_user 7 "''ann''"]
    demo_inputs by (simp add: demo_user_def Let_def)

theorem registration_safe_witness:
  "list_ex is_twitter (requested (login_run 7 (registration (Str ''0xa1'') (Obj demo_user) ''ann@c2n.io'' ''123456'' (Str ''Peru'') ''ann'' ''x'')
     first_state)) \<or> recorded_link (registerData (login_run 7 (registration (Str ''0xa1'') (Obj demo_user) ''ann@c2n.io'' ''123456''
     (Str ''Peru'') ''ann'' ''x'') first_state))"
  using registration_safe [of 7 "registration (Str ''0xa1'') (Obj demo_user) ''ann@c2n.io'' ''123456'' (Str ''Peru'') ''ann'' ''x''"]
    demo_inputs by (simp add: login_defs demo_user_def encodeURI_email Let_def)

theorem stale_registration_witness:
  "walletAddress (login_run 7 [Wallet (Str ''0xa1''), Wallet (Str ''0xb2''),
     Answer 1 (answered (Obj [(''loginEmail'', Num 1), (''userAddress'', Num 1), (''retweetLink'', Num 1)])),
     Answer 0 (answered (Obj [(''loginEmail'', Num 1)])), Open, Answer 0 (Reject Undef), Choose (Str ''Peru''), Next_Click] first_state)
   = Str ''0xb2''"
  using stale_registration [of "Str ''0xa1''" "Str ''0xb2''" "Str ''Peru''"
      "[(''loginEmail'', Num 1), (''userAddress'', Num 1), (''retweetLink'', Num 1)]" "[(''loginEmail'', Num 1)]" 7]
  by (simp add: Let_def)

end
