(* ===== verification/Candle_Chart.thy ===== *)
theory Candle_Chart
  imports Js_Numbers
begin

text \<open>
  The candle chart of the exchange web client, \<open>component/chart/candle/candle.ts\<close>: the ranges and the points that
  \<open>updateData\<close> draws. The store keeps the candles newest first; the loop fills the gaps of the market with points of its
  own. A candle of the store is an array of numbers (time in seconds, low, high, open, close, volume).
\<close>

section \<open>Ranges\<close>

record range =
  range_type :: string
  range_count :: nat
  granularity :: nat

definition rangeNameOptions :: "string list" where
  "rangeNameOptions = [''1m'', ''5m'', ''15m'', ''30m'', ''1h'', ''6h'', ''1d'']"

definition ranges :: "range list" where
  "ranges = [
     \<lparr>range_type = ''minute'', range_count = 1, granularity = 60\<rparr>,
     \<lparr>range_type = ''minute'', range_count = 5, granularity = 60 * 5\<rparr>,
     \<lparr>range_type = ''minute'', range_count = 15, granularity = 60 * 15\<rparr>,
     \<lparr>range_type = ''minute'', range_count = 30, granularity = 60 * 30\<rparr>,
     \<lparr>range_type = ''hour'', range_count = 1, granularity = 60 * 60\<rparr>,
     \<lparr>range_type = ''hour'', range_count = 6, granularity = 60 * 60 * 6\<rparr>,
     \<lparr>range_type = ''day'', range_count = 1, granularity = 60 * 60 * 24\<rparr>]"

section \<open>updateData\<close>

record candle =
  c_time :: rat
  c_low :: rat
  c_high :: rat
  c_open :: rat
  c_close :: rat
  c_volume :: rat

record point =
  p_time :: rat
  p_open :: rat
  p_high :: rat
  p_low :: rat
  p_close :: rat
  p_volume :: rat

text \<open>\<open>Number(x.toFixed(4))\<close>\<close>

definition four_digits :: "rat \<Rightarrow> rat" where
  "four_digits x = (case toFixed (Some x) 4 of Inl e \<Rightarrow> 0
     | Inr s \<Rightarrow> (case number_of_string s of None \<Rightarrow> 0 | Some y \<Rightarrow> y))"

definition point_of :: "candle \<Rightarrow> point" where
  "point_of c = \<lparr> p_time = c_time c * 1000, p_open = c_open c, p_high = c_high c, p_low = c_low c, p_close = c_close c,
     p_volume = four_digits (c_volume c) \<rparr>"

definition filler :: "rat \<Rightarrow> point \<Rightarrow> point" where
  "filler g p = \<lparr> p_time = p_time p - g * 1000, p_open = p_close p, p_high = p_close p, p_low = p_close p, p_close = p_close p,
     p_volume = 0 \<rparr>"

text \<open>The \<open>while\<close> loop: the points pushed between the last one and a candle at \<open>t\<close>. \<open>None\<close> is a loop that does not end.\<close>

partial_function (option) fill :: "rat \<Rightarrow> point \<Rightarrow> rat \<Rightarrow> point list option" where
  "fill g p t = (if p_time p / 1000 - t > g
     then Option.bind (fill g (filler g p) t) (\<lambda>ps. Some (filler g p # ps)) else Some [])"

declare fill.simps [code]

definition add_candle :: "rat \<Rightarrow> candle \<Rightarrow> point list \<Rightarrow> point list option" where
  "add_candle g c ps = Option.bind (if ps = [] then Some [] else fill g (last ps) (c_time c))
     (\<lambda>fs. Some (ps @ fs @ [point_of c]))"

fun add_candles :: "rat \<Rightarrow> candle list \<Rightarrow> point list \<Rightarrow> point list option" where
  "add_candles g [] ps = Some ps"
| "add_candles g (c # cs) ps = Option.bind (add_candle g c ps) (add_candles g cs)"

text \<open>The data of the two series. The seven places after the last candle have no volume; without candles there is no last one.\<close>

definition updateData :: "rat \<Rightarrow> candle list \<Rightarrow> (js_error + point list \<times> (rat \<times> rat option) list) option" where
  "updateData g cs = Option.bind (add_candles g cs []) (\<lambda>ps.
     let volumes = rev (map (\<lambda>c. (c_time c * 1000, Some (c_volume c))) cs) in
     Some (if volumes = [] then Inl (TypeError ''Cannot read properties of undefined'')
       else let lastTime = fst (last volumes) in
         Inr (rev ps, volumes @ map (\<lambda>i. (lastTime + of_nat i * g * 1000, None)) [0..<7])))"

text \<open>The index of the first volume shown when the view moves to the end; \<open>width\<close> is the width of the chart.\<close>

definition first_shown :: "nat \<Rightarrow> rat \<Rightarrow> nat" where
  "first_shown n width = nat (max (int n - \<lfloor>width * 101 / 1000\<rfloor>) 0)"

definition moves_view :: "rat \<Rightarrow> rat \<Rightarrow> rat \<Rightarrow> bool" where
  "moves_view g lastTime shown = (lastTime - shown < 5 * g * 1000)"

section \<open>The loop ends\<close>

definition gap :: "rat \<Rightarrow> point \<Rightarrow> rat \<Rightarrow> nat" where
  "gap g p t = nat \<lceil>(p_time p / 1000 - t) / g\<rceil>"

fun fillers :: "rat \<Rightarrow> nat \<Rightarrow> point \<Rightarrow> point list" where
  "fillers g 0 p = []"
| "fillers g (Suc n) p = filler g p # fillers g n (filler g p)"

lemma filler_simps [simp]: "p_time (filler g p) = p_time p - g * 1000" "p_close (filler g p) = p_close p"
  by (simp_all add: filler_def)

lemma fill_fillers:
  assumes "0 < g"
  shows "fill g p t = Some (fillers g (gap g p t - 1) p)"
proof (induction "gap g p t" arbitrary: p rule: less_induct)
  case less
  let ?d = "(p_time p / 1000 - t) / g"
  show ?case
  proof (cases "p_time p / 1000 - t > g")
    case True
    have d1: "(p_time (filler g p) / 1000 - t) / g = ?d - 1" using assms by (simp add: field_simps)
    have "1 < ?d" using True assms by (simp add: field_simps)
    then have n: "gap g p t = Suc (gap g (filler g p) t)" "0 < gap g (filler g p) t"
      unfolding gap_def d1 by linarith+
    then have "fill g (filler g p) t = Some (fillers g (gap g (filler g p) t - 1) (filler g p))"
      by (intro less) simp
    moreover obtain k where "gap g (filler g p) t = Suc k" using n(2) by (cases "gap g (filler g p) t") auto
    ultimately show ?thesis using True n by (subst fill.simps) simp
  next
    case False
    then have "?d \<le> 1" using assms by (simp add: field_simps)
    then have "gap g p t \<le> 1" unfolding gap_def by linarith
    with False show ?thesis by (subst fill.simps) simp
  qed
qed

lemma last_fillers: "p_time (last (p # fillers g n p)) = p_time p - of_nat n * g * 1000"
proof (induction n arbitrary: p)
  case (Suc n)
  have "last (p # fillers g (Suc n) p) = last (filler g p # fillers g n (filler g p))" by simp
  then show ?case using Suc [of "filler g p"] by (simp only:) (simp add: algebra_simps)
qed simp

lemma fillers_gap:
  assumes "0 < g"
  shows "p_time (last (p # fillers g (gap g p t - 1) p)) / 1000 - t \<le> g"
proof -
  let ?d = "(p_time p / 1000 - t) / g"
  have "?d - of_nat (gap g p t - 1) \<le> 1" unfolding gap_def by linarith
  then have "(?d - of_nat (gap g p t - 1)) * g \<le> 1 * g" using assms by (intro mult_right_mono) auto
  moreover have "?d * g = p_time p / 1000 - t" using assms by simp
  ultimately have "p_time p / 1000 - t - of_nat (gap g p t - 1) * g \<le> g" by (simp only: left_diff_distrib mult_1)
  then show ?thesis unfolding last_fillers by (simp add: diff_divide_distrib)
qed

section \<open>The points\<close>

text \<open>Neighbours at most one granularity apart.\<close>

definition close_points :: "rat \<Rightarrow> point \<Rightarrow> point \<Rightarrow> bool" where
  "close_points g p q \<longleftrightarrow> p_time p - p_time q \<le> g * 1000"

lemma fillers_chain: "successively (close_points g) (p # fillers g n p)"
  by (induction n arbitrary: p) (simp_all add: close_points_def)

lemma add_candle_chain:
  assumes g: "0 < g" and "successively (close_points g) ps"
  shows "\<exists>qs. add_candle g c ps = Some qs \<and> successively (close_points g) qs \<and>
    (\<exists>fs. qs = ps @ fs @ [point_of c] \<and> (\<forall>f \<in> set fs. ps \<noteq> [] \<and> p_volume f = 0 \<and> p_open f = p_close (last ps)
      \<and> p_high f = p_close (last ps) \<and> p_low f = p_close (last ps) \<and> p_close f = p_close (last ps)))"
proof (cases "ps = []")
  case True
  then show ?thesis by (simp add: add_candle_def)
next
  case False
  let ?p = "last ps" let ?fs = "fillers g (gap g (last ps) (c_time c) - 1) (last ps)"
  have vals: "\<forall>f \<in> set (fillers g n p). p_volume f = 0 \<and> p_open f = p_close p \<and> p_high f = p_close p \<and> p_low f = p_close p \<and> p_close f = p_close p"
    for n p by (induction n arbitrary: p) (auto simp: filler_def)
  have split: "ps = butlast ps @ [?p]" using False by simp
  have e: "close_points g (last (?p # ?fs)) (point_of c)"
    using fillers_gap [OF g, of ?p "c_time c"] by (simp add: close_points_def point_of_def field_simps)
  have "successively (close_points g) (butlast ps @ (?p # ?fs))"
    using assms(2) fillers_chain [of g "?p" "gap g ?p (c_time c) - 1"]
    by (subst (asm) split, subst successively_append_iff) (auto simp: successively_append_iff)
  then have "successively (close_points g) ((butlast ps @ (?p # ?fs)) @ [point_of c])"
    using e by (subst successively_append_iff) auto
  then have "successively (close_points g) (ps @ ?fs @ [point_of c])"
    by (subst split) simp
  moreover have "add_candle g c ps = Some (ps @ ?fs @ [point_of c])"
    using False g by (simp add: add_candle_def fill_fillers)
  ultimately show ?thesis using vals False by blast
qed

lemma add_candles_chain:
  assumes "0 < g" and "successively (close_points g) ps"
  shows "\<exists>qs. add_candles g cs ps = Some qs \<and> successively (close_points g) qs \<and> (\<exists>ts. qs = ps @ ts \<and> subseq (map point_of cs) ts)"
  using assms(2)
proof (induction cs arbitrary: ps)
  case (Cons c cs)
  from add_candle_chain [OF assms(1) Cons.prems, of c] obtain qs fs where
    q: "add_candle g c ps = Some qs" "successively (close_points g) qs" "qs = ps @ fs @ [point_of c]" by blast
  from Cons.IH [OF q(2)] obtain rs ts where
    r: "add_candles g cs qs = Some rs" "successively (close_points g) rs" "rs = qs @ ts" "subseq (map point_of cs) ts" by blast
  have "subseq (map point_of (c # cs)) (fs @ point_of c # ts)" using r(4) by (simp add: list_emb_append2)
  with q r show ?case by (auto intro!: exI [of _ "fs @ point_of c # ts"])
qed simp

lemma subseq_rev: "subseq xs ys \<Longrightarrow> subseq (rev xs) (rev ys)"
  by (induction rule: list_emb.induct) (auto intro: list_emb_append_mono subseq_rev_drop_many)

text \<open>C12: for every granularity above 0, so for every range of the page, whatever the store holds, the loop of the chart
  ends; the points it draws contain every candle in order, and neighbours lie at most one granularity apart. Only an empty history throws.\<close>

theorem chart_gapless:
  assumes "0 < g" and "cs \<noteq> []"
  shows "\<exists>ps volumes. updateData g cs = Some (Inr (ps, volumes)) \<and> subseq (rev (map point_of cs)) ps \<and>
    successively (\<lambda>p q. p_time q - p_time p \<le> g * 1000) ps \<and> length volumes = length cs + 7"
proof -
  from add_candles_chain [OF assms(1), of "[]" cs] obtain qs where
    q: "add_candles g cs [] = Some qs" "successively (close_points g) qs" "subseq (map point_of cs) qs" by auto
  then have "subseq (rev (map point_of cs)) (rev qs)" by (simp add: subseq_rev)
  moreover have "successively (\<lambda>p q. p_time q - p_time p \<le> g * 1000) (rev qs)"
    using q(2) by (simp add: successively_rev close_points_def)
  ultimately show ?thesis using q(1) assms(2) by (simp add: updateData_def Let_def)
qed

definition demo_candles :: "candle list" where
  "demo_candles = [\<lparr>c_time = 360, c_low = 1, c_high = 9, c_open = 2, c_close = 8, c_volume = 5\<rparr>,
     \<lparr>c_time = 60, c_low = 1, c_high = 3, c_open = 2, c_close = 2, c_volume = 1\<rparr>]"

theorem chart_gapless_witness:
  "\<exists>ps volumes. updateData 60 demo_candles = Some (Inr (ps, volumes)) \<and> length volumes = 9"
  using chart_gapless [of 60 demo_candles] by (auto simp: demo_candles_def)

text \<open>A gap is filled with a price from after it: every point that the chart inserts before an older candle carries the
  close of the newer one, at which the market only arrived later.\<close>

theorem gap_filled_from_future:
  assumes "0 < g"
  shows "\<exists>fs. add_candles g [a, b] [] = Some (point_of a # fs @ [point_of b]) \<and>
    length fs = nat \<lceil>(c_time a - c_time b) / g\<rceil> - 1 \<and>
    (\<forall>f \<in> set fs. p_open f = c_close a \<and> p_high f = c_close a \<and> p_low f = c_close a \<and> p_close f = c_close a)"
proof -
  have len: "length (fillers g n p) = n" for n p by (induction n arbitrary: p) simp_all
  have v: "\<forall>f \<in> set (fillers g n p). p_open f = p_close p \<and> p_high f = p_close p \<and> p_low f = p_close p \<and> p_close f = p_close p"
    for n p by (induction n arbitrary: p) (auto simp: filler_def)
  have "add_candles g [a, b] [] = Some (point_of a # fillers g (gap g (point_of a) (c_time b) - 1) (point_of a) @ [point_of b])"
    using assms by (simp add: add_candle_def fill_fillers)
  moreover have "p_close (point_of a) = c_close a" "gap g (point_of a) (c_time b) = nat \<lceil>(c_time a - c_time b) / g\<rceil>"
    by (simp_all add: point_of_def gap_def)
  ultimately show ?thesis using len v by fastforce
qed

theorem gap_filled_from_future_witness:
  "\<exists>fs. add_candles 60 demo_candles [] = Some (point_of (demo_candles ! 0) # fs @ [point_of (demo_candles ! 1)]) \<and> length fs = 4 \<and>
     (\<forall>f \<in> set fs. p_close f = 8)"
  using gap_filled_from_future [of 60 "demo_candles ! 0" "demo_candles ! 1"] by (auto simp: demo_candles_def)

end
