(* ===== verification/Chart_Feed.thy ===== *)
theory Chart_Feed
  imports Js_Numbers
begin

text \<open>
  The data feed of the exchange's charting library, \<open>chart/datafeed.ts\<close>: \<open>UDFCompatibleDatafeed\<close> with its two pulse
  updaters. The library and the timers call in; the store of the trades answers a request for history at some later time, or never.
  These are the events of the step function \<open>feed_step\<close>; what the listeners receive is the list \<open>delivered\<close>. A listener does
  not call back into the feed.
\<close>

section \<open>State\<close>

text \<open>A subscription is an object: the closures of the pulse keep it after it has left the table \<open>subscribers\<close>.\<close>

record subscription =
  sub_resolution :: string
  lastBarTime :: "rat option"
  listeners :: "nat list"

text \<open>Who waits for the history: a pulse, with the name its variable \<open>listenerGUID\<close> holds and its subscription, or a chart.\<close>

datatype waiting = Pulse string nat | Chart nat

datatype delivery = To_Listener nat val | To_Chart nat "val list"

record feed =
  feed_resolution :: string
  subscribers :: "(string \<times> nat) list"
  subscriptions :: "subscription list"
  requestsPending :: int
  loads :: "waiting list"
  requested :: "rat option list"
  delivered :: "delivery list"

definition new_feed :: feed where
  "new_feed = \<lparr> feed_resolution = ''0'', subscribers = [], subscriptions = [], requestsPending = 0, loads = [], requested = [], delivered = [] \<rparr>"

section \<open>Configuration\<close>

definition resolutions :: val where
  "resolutions = Arr (map Str [''1'', ''5'', ''15'', ''30'', ''60'', ''240'', ''1D'', ''1W''])"

definition configJSON :: obj where
  "configJSON = [(''supports_search'', Bool True), (''supports_time'', Bool True), (''supports_timescale_marks'', Bool True),
     (''supports_group_request'', Bool False), (''supports_marks'', Bool False), (''supported_resolutions'', resolutions)]"

definition symbolResolveJSON :: obj where
  "symbolResolveJSON = [(''name'', Str ''BTC/USDT''), (''timezone'', Str ''Asia/Shanghai''), (''minmov'', Num (3 / 2)),
     (''minmov2'', Num 1), (''pointvalue'', Num (1 / 100)), (''has_intraday'', Bool True), (''intraday_multipliers'', resolutions),
     (''has_daily'', Bool True), (''has_empty_bars'', Bool False), (''has_no_volume'', Bool False),
     (''has_weekly_and_monthly'', Bool True), (''description'', Str []), (''type'', Str ''Index''),
     (''supported_resolutions'', resolutions), (''pricescale'', Num (1 / 10)), (''ticker'', Str ''BTC/USDT'')]"

definition defaultConfiguration :: obj where
  "defaultConfiguration = [(''supports_search'', Bool False), (''supports_group_request'', Bool True),
     (''supported_resolutions'', Arr (map Str [''1'', ''5'', ''15'', ''30'', ''60'', ''1D''])), (''supports_marks'', Bool False),
     (''supports_timescale_marks'', Bool False)]"

text \<open>The configuration after \<open>setupWithConfiguration\<close>, and whether the feed counts as initialised at once.\<close>

definition or_val :: "val \<Rightarrow> val \<Rightarrow> val" where
  "or_val a b = (if truthy_val a then a else b)"

definition setupWithConfiguration :: "obj \<Rightarrow> js_error + obj \<times> bool" where
  "setupWithConfiguration c =
     (let c1 = (if truthy_val (get ''exchanges'' c) then c else put ''exchanges'' (Arr []) c);
          c2 = put ''supported_resolutions'' (or_val (get ''supported_resolutions'' c1) (get ''supportedResolutions'' c1)) c1;
          c3 = put ''symbols_types'' (or_val (get ''symbols_types'' c2) (get ''symbolsTypes'' c2)) c2 in
      if \<not> truthy_val (get ''supports_search'' c3) \<and> \<not> truthy_val (get ''supports_group_request'' c3)
      then Inl (JsError ''Unsupported datafeed configuration. Must either support search, or support group request'')
      else Inr (c3, \<not> truthy_val (get ''supports_group_request'' c3)))"

text \<open>What \<open>resolveSymbol\<close> answers once initialised: the same symbol for every name.\<close>

definition resolved_symbol :: "obj \<Rightarrow> string \<Rightarrow> val option" where
  "resolved_symbol c symbolName = (if truthy_val (get ''supports_group_request'' c) then None else Some (Obj symbolResolveJSON))"

section \<open>getBars\<close>

text \<open>\<open>periodLengthSeconds\<close>: a resolution that is neither a letter nor a number gives \<open>NaN\<close>.\<close>

definition periodLengthSeconds :: "string \<Rightarrow> rat \<Rightarrow> rat option" where
  "periodLengthSeconds resolution n =
     map_option (\<lambda>d. d * 24 * 60 * 60)
       (if resolution = ''D'' then Some n else if resolution = ''M'' then Some (31 * n) else if resolution = ''W'' then Some (7 * n)
        else lift2 (\<lambda>a b. a * b / (24 * 60)) (Some n) (number_of_string resolution))"

text \<open>A candle of the store as a bar. The store holds the newest candle first.\<close>

definition bar :: "val \<Rightarrow> val" where
  "bar c = Obj [(''time'', item c 0), (''close'', item c 4), (''open'', item c 3), (''high'', item c 2), (''low'', item c 1), (''volume'', item c 5)]"

definition returnBars :: "val list \<Rightarrow> val list" where
  "returnBars history = rev (map bar history)"

definition bar_time :: "val \<Rightarrow> rat option" where
  "bar_time b = to_number (get ''time'' (entries b))"

text \<open>Either the bars at once, or nothing yet: the first call of all only notes the resolution and is never answered, the others
  wait for the history.\<close>

definition getBars :: "val list \<Rightarrow> string \<Rightarrow> waiting \<Rightarrow> feed \<Rightarrow> val list option \<times> feed" where
  "getBars history resolution who s =
     (if feed_resolution s = ''0'' then (None, s\<lparr>feed_resolution := resolution\<rparr>)
      else
        let second = periodLengthSeconds resolution 1;
            bars = (if feed_resolution s \<noteq> resolution then [] else returnBars history) in
        if bars \<noteq> [] then (Some bars, s)
        else (None, s\<lparr>feed_resolution := resolution, loads := loads s @ [who], requested := requested s @ [second]\<rparr>))"

section \<open>DataPulseUpdater\<close>

definition upd_subscription :: "nat \<Rightarrow> (subscription \<Rightarrow> subscription) \<Rightarrow> feed \<Rightarrow> feed" where
  "upd_subscription i f s = s\<lparr>subscriptions := (subscriptions s)[i := f (subscriptions s ! i)]\<rparr>"

definition deliver :: "nat list \<Rightarrow> val \<Rightarrow> feed \<Rightarrow> feed" where
  "deliver ls b s = s\<lparr>delivered := delivered s @ map (\<lambda>l. To_Listener l b) ls\<rparr>"

text \<open>\<open>a < b\<close> on times, false for \<open>NaN\<close>.\<close>

definition earlier :: "rat option \<Rightarrow> rat option \<Rightarrow> bool" where
  "earlier a b = greater b a"

text \<open>The callback of the pulse. \<open>Inl\<close>: it throws.\<close>

definition on_bars :: "string \<Rightarrow> nat \<Rightarrow> val list \<Rightarrow> feed \<Rightarrow> js_error option \<times> feed" where
  "on_bars guid i bars s0 =
     (let s = s0\<lparr>requestsPending := requestsPending s0 - 1\<rparr>; sub = subscriptions s ! i; lastBar = last bars in
      if map_of (subscribers s) guid = None \<or> bars = [] then (None, s)
      else if earlier (bar_time lastBar) (lastBarTime sub) then (None, s)
      else if earlier (lastBarTime sub) (bar_time lastBar) then
        (if length bars < 2 then (Some (JsError ''Not enough bars in history for proper pulse update. Need at least 2.''), s)
         else (None, deliver (listeners sub) lastBar
           (upd_subscription i (\<lambda>x. x\<lparr>lastBarTime := bar_time lastBar\<rparr>)
             (deliver (listeners sub) (bars ! (length bars - 2)) s))))
      else (None, deliver (listeners sub) lastBar (upd_subscription i (\<lambda>x. x\<lparr>lastBarTime := bar_time lastBar\<rparr>) s)))"

text \<open>The loop of \<open>update\<close> over the keys of the table; an error of the callback leaves it. The second component of the result is the
  value that the variable \<open>listenerGUID\<close>, one for the whole loop, is left with.\<close>

fun pulse_keys :: "val list \<Rightarrow> string list \<Rightarrow> string \<Rightarrow> feed \<Rightarrow> string \<times> feed" where
  "pulse_keys history [] guid s = (guid, s)"
| "pulse_keys history (k # ks) guid s =
     (let i = the (map_of (subscribers s) k);
          s1 = s\<lparr>requestsPending := requestsPending s + 1\<rparr> in
      case getBars history (sub_resolution (subscriptions s ! i)) (Pulse k i) s1 of
        (None, s2) \<Rightarrow> pulse_keys history ks k s2
      | (Some bars, s2) \<Rightarrow> (case on_bars k i bars s2 of (Some e, s3) \<Rightarrow> (k, s3) | (None, s3) \<Rightarrow> pulse_keys history ks k s3))"

definition rename :: "string \<Rightarrow> waiting \<Rightarrow> waiting" where
  "rename guid x = (case x of Pulse k i \<Rightarrow> Pulse guid i | Chart c \<Rightarrow> Chart c)"

definition update :: "val list \<Rightarrow> feed \<Rightarrow> feed" where
  "update history s =
     (if requestsPending s > 0 then s
      else case pulse_keys history (own_keys (subscribers s)) [] s of (guid, s') \<Rightarrow>
        s'\<lparr>loads := loads s @ map (rename guid) (drop (length (loads s)) (loads s'))\<rparr>)"

definition subscribeDataListener :: "string \<Rightarrow> nat \<Rightarrow> string \<Rightarrow> feed \<Rightarrow> feed" where
  "subscribeDataListener resolution callback guid s =
     (let s' = (if map_of (subscribers s) guid \<noteq> None then s
        else s\<lparr>subscribers := subscribers s @ [(guid, length (subscriptions s))],
               subscriptions := subscriptions s @ [\<lparr>sub_resolution = resolution, lastBarTime = None, listeners = []\<rparr>]\<rparr>) in
      upd_subscription (the (map_of (subscribers s') guid)) (\<lambda>x. x\<lparr>listeners := listeners x @ [callback]\<rparr>) s')"

definition unsubscribeDataListener :: "string \<Rightarrow> feed \<Rightarrow> feed" where
  "unsubscribeDataListener guid s = s\<lparr>subscribers := AList.delete guid (subscribers s)\<rparr>"

section \<open>Events\<close>

text \<open>\<open>Loaded k\<close>: the \<open>k\<close>-th request that waits is answered and the store holds \<open>history\<close>. \<open>Lost k\<close>: it fails; the store has no
  handler for that, so its callback never runs.\<close>

datatype event =
    Tick "val list"
  | Get_Bars "val list" string nat
  | Subscribe string nat string
  | Unsubscribe string
  | Loaded nat "val list"
  | Lost nat

definition drop_nth :: "nat \<Rightarrow> 'a list \<Rightarrow> 'a list" where
  "drop_nth k xs = take k xs @ drop (Suc k) xs"

definition chart_bars :: "val list \<Rightarrow> string \<Rightarrow> nat \<Rightarrow> feed \<Rightarrow> feed" where
  "chart_bars history resolution c s = (case getBars history resolution (Chart c) s of
     (None, s') \<Rightarrow> s' | (Some bars, s') \<Rightarrow> s'\<lparr>delivered := delivered s' @ [To_Chart c bars]\<rparr>)"

definition answer :: "waiting \<Rightarrow> val list \<Rightarrow> feed \<Rightarrow> feed" where
  "answer who history s = (case who of
     Pulse guid i \<Rightarrow> snd (on_bars guid i (returnBars history) s)
   | Chart c \<Rightarrow> s\<lparr>delivered := delivered s @ [To_Chart c (returnBars history)]\<rparr>)"

fun feed_step :: "event \<Rightarrow> feed \<Rightarrow> feed" where
  "feed_step (Tick history) s = update history s"
| "feed_step (Get_Bars history resolution c) s = chart_bars history resolution c s"
| "feed_step (Subscribe resolution callback guid) s = subscribeDataListener resolution callback guid s"
| "feed_step (Unsubscribe guid) s = unsubscribeDataListener guid s"
| "feed_step (Loaded k history) s = (if k < length (loads s) then answer (loads s ! k) history (s\<lparr>loads := drop_nth k (loads s)\<rparr>) else s)"
| "feed_step (Lost k) s = s\<lparr>loads := drop_nth k (loads s)\<rparr>"

section \<open>QuotesPulseUpdater\<close>

record quotes =
  quote_subscribers :: "(string \<times> nat list) list"
  quotesPending :: int
  quoted :: "(nat \<times> val) list"

text \<open>\<open>getQuotes\<close> is empty: neither callback is ever called.\<close>

definition updateQuotes :: "quotes \<Rightarrow> quotes" where
  "updateQuotes q = (if quotesPending q > 0 then q
     else q\<lparr>quotesPending := quotesPending q + int (length (quote_subscribers q))\<rparr>)"

definition subscribeQuotes :: "nat \<Rightarrow> string \<Rightarrow> quotes \<Rightarrow> quotes" where
  "subscribeQuotes callback guid q = q\<lparr>quote_subscribers :=
     AList.update guid ((case map_of (quote_subscribers q) guid of None \<Rightarrow> [] | Some ls \<Rightarrow> ls) @ [callback]) (quote_subscribers q)\<rparr>"

definition unsubscribeQuotes :: "string \<Rightarrow> quotes \<Rightarrow> quotes" where
  "unsubscribeQuotes guid q = q\<lparr>quote_subscribers := AList.delete guid (quote_subscribers q)\<rparr>"

section \<open>Requests that are never answered\<close>

fun is_pulse :: "waiting \<Rightarrow> bool" where
  "is_pulse (Pulse k i) = True"
| "is_pulse (Chart c) = False"

definition open_pulses :: "feed \<Rightarrow> int" where
  "open_pulses s = int (length (filter is_pulse (loads s)))"

text \<open>The requests that count as pending although nobody will answer them.\<close>

definition forgotten :: "feed \<Rightarrow> int" where
  "forgotten s = requestsPending s - open_pulses s"

lemma deliver_forgotten [simp]: "forgotten (deliver ls b s) = forgotten s" "loads (deliver ls b s) = loads s"
    "requestsPending (deliver ls b s) = requestsPending s"
  and upd_forgotten [simp]: "forgotten (upd_subscription i f s) = forgotten s" "loads (upd_subscription i f s) = loads s"
    "requestsPending (upd_subscription i f s) = requestsPending s"
  by (simp_all add: deliver_def upd_subscription_def forgotten_def open_pulses_def)

lemma on_bars_counts:
  assumes "on_bars g i bars s = (r, s')"
  shows "loads s' = loads s" "requestsPending s' = requestsPending s - 1" "subscribers s' = subscribers s"
proof -
  have "loads s' = loads s \<and> requestsPending s' = requestsPending s - 1 \<and> subscribers s' = subscribers s"
    using assms unfolding on_bars_def Let_def
    by (auto simp: deliver_def upd_subscription_def split: if_splits)
  then show "loads s' = loads s" "requestsPending s' = requestsPending s - 1" "subscribers s' = subscribers s" by blast+
qed

lemma getBars_counts:
  assumes "getBars h r who s = (b, s')"
  shows "requestsPending s' = requestsPending s" "subscribers s' = subscribers s"
    "loads s' = loads s \<or> b = None \<and> loads s' = loads s @ [who]"
  using assms unfolding getBars_def Let_def by (auto split: if_splits)

lemma pulse_keys_counts:
  "pulse_keys h ks g s = (g', s') \<Longrightarrow>
     forgotten s \<le> forgotten s' \<and> (\<exists>l. loads s' = loads s @ l) \<and> subscribers s' = subscribers s"
proof (induction ks arbitrary: g s)
  case (Cons k ks)
  let ?i = "the (map_of (subscribers s) k)" and ?s1 = "s\<lparr>requestsPending := requestsPending s + 1\<rparr>"
  obtain b s2 where b: "getBars h (sub_resolution (subscriptions s ! ?i)) (Pulse k ?i) ?s1 = (b, s2)" by fastforce
  note c = getBars_counts [OF b]
  have f2: "forgotten s \<le> forgotten s2" "\<exists>l. loads s2 = loads s @ l" "subscribers s2 = subscribers s"
    using c by (auto simp: forgotten_def open_pulses_def)
  show ?case
  proof (cases b)
    case None
    with Cons.prems b have "pulse_keys h ks k s2 = (g', s')" by (simp add: Let_def)
    from Cons.IH [OF this] have "forgotten s2 \<le> forgotten s' \<and> (\<exists>l. loads s' = loads s2 @ l) \<and> subscribers s' = subscribers s2" .
    with f2 show ?thesis by auto
  next
    case (Some bars)
    obtain e s3 where e: "on_bars k ?i bars s2 = (e, s3)" by fastforce
    have f3: "forgotten s \<le> forgotten s3" "loads s3 = loads s" "subscribers s3 = subscribers s"
      using on_bars_counts [OF e] c Some by (auto simp: forgotten_def open_pulses_def)
    show ?thesis
    proof (cases e)
      case None
      with Cons.prems b e Some have "pulse_keys h ks k s3 = (g', s')" by (simp add: Let_def)
      from Cons.IH [OF this] have "forgotten s3 \<le> forgotten s' \<and> (\<exists>l. loads s' = loads s3 @ l) \<and> subscribers s' = subscribers s3" .
      with f3 show ?thesis by auto
    next
      case (Some _)
      with Cons.prems b e \<open>b = Some bars\<close> f3 show ?thesis by (simp add: Let_def)
    qed
  qed
qed simp

lemma is_pulse_rename [simp]: "is_pulse (rename g x) = is_pulse x"
  by (cases x) (simp_all add: rename_def)

lemma update_forgotten: "forgotten s \<le> forgotten (update h s)"
proof (cases "requestsPending s > 0")
  case False
  obtain g s' where p: "pulse_keys h (own_keys (subscribers s)) [] s = (g, s')" by fastforce
  from pulse_keys_counts [OF this] obtain l where l: "loads s' = loads s @ l" and f: "forgotten s \<le> forgotten s'" by blast
  have "filter is_pulse (map (rename g) l) = map (rename g) (filter is_pulse l)" by (induction l) simp_all
  then have "forgotten (update h s) = forgotten s'"
    using False p l by (simp add: update_def forgotten_def open_pulses_def)
  with f show ?thesis by simp
qed (simp add: update_def)

lemma filter_drop_nth:
  assumes "k < length xs"
  shows "int (length (filter P (drop_nth k xs))) = int (length (filter P xs)) - (if P (xs ! k) then 1 else 0)"
proof -
  have "xs = take k xs @ xs ! k # drop (Suc k) xs" by (rule id_take_nth_drop [OF assms])
  then have "length (filter P xs) = length (filter P (take k xs @ xs ! k # drop (Suc k) xs))" by simp
  then show ?thesis by (simp add: drop_nth_def)
qed

lemma drop_nth_out: "\<not> k < length xs \<Longrightarrow> drop_nth k xs = xs"
  by (simp add: drop_nth_def)

lemma lost_forgotten:
  "k < length (loads s) \<Longrightarrow> forgotten (feed_step (Lost k) s) = forgotten s + (if is_pulse (loads s ! k) then 1 else 0)"
  using filter_drop_nth [of k "loads s" is_pulse] by (simp add: forgotten_def open_pulses_def)

lemma step_forgotten: "forgotten s \<le> forgotten (feed_step e s)"
proof (cases e)
  case (Tick h)
  then show ?thesis by (simp add: update_forgotten)
next
  case (Get_Bars h r c)
  obtain b s' where b: "getBars h r (Chart c) s = (b, s')" by fastforce
  with Get_Bars getBars_counts [OF b] show ?thesis
    by (auto simp: chart_bars_def forgotten_def open_pulses_def split: option.split)
next
  case (Subscribe r c g)
  then show ?thesis by (simp add: subscribeDataListener_def Let_def) (simp add: forgotten_def open_pulses_def)
next
  case (Unsubscribe g)
  then show ?thesis by (simp add: unsubscribeDataListener_def forgotten_def open_pulses_def)
next
  case (Loaded k h)
  show ?thesis
  proof (cases "k < length (loads s)")
    case True
    let ?s = "s\<lparr>loads := drop_nth k (loads s)\<rparr>"
    show ?thesis
    proof (cases "loads s ! k")
      case (Pulse g i)
      obtain r s' where o: "on_bars g i (returnBars h) ?s = (r, s')" by fastforce
      from Pulse True Loaded filter_drop_nth [OF True, of is_pulse] o on_bars_counts [OF o] show ?thesis
        by (simp add: answer_def forgotten_def open_pulses_def)
    next
      case (Chart c)
      with True Loaded filter_drop_nth [OF True, of is_pulse] show ?thesis
        by (simp add: answer_def forgotten_def open_pulses_def)
    qed
  qed (simp add: Loaded)
next
  case (Lost k)
  then show ?thesis
    using lost_forgotten [of k s] drop_nth_out [of k "loads s"] by (cases "k < length (loads s)") auto
qed

lemma steps_forgotten: "forgotten s \<le> forgotten (fold feed_step es s)"
proof (induction es arbitrary: s)
  case (Cons e es)
  from order_trans [OF step_forgotten Cons.IH] show ?case by simp
qed simp

lemma forgotten_stops: "0 < forgotten s \<Longrightarrow> feed_step (Tick h) s = s"
  by (simp add: forgotten_def open_pulses_def update_def)

text \<open>After one request of the pulse that is never answered, however the page got there and whatever happens afterwards, every
  later tick of the timer changes nothing: the counter of pending requests can no longer fall to 0.\<close>

theorem lost_request_stops_pulse:
  assumes "s = fold feed_step es new_feed" and "k < length (loads s)" and "is_pulse (loads s ! k)"
  shows "feed_step (Tick h) (fold feed_step es' (feed_step (Lost k) s)) = fold feed_step es' (feed_step (Lost k) s)"
proof (rule forgotten_stops)
  have "0 \<le> forgotten s" using steps_forgotten [of new_feed es] assms(1) by (simp add: forgotten_def open_pulses_def new_feed_def)
  then have "0 < forgotten (feed_step (Lost k) s)" using lost_forgotten [OF assms(2)] assms(3) by simp
  then show "0 < forgotten (fold feed_step es' (feed_step (Lost k) s))" using steps_forgotten by (rule less_le_trans)
qed

definition demo_events :: "event list" where
  "demo_events = [Get_Bars [] ''60'' 0, Subscribe ''60'' 7 ''g'', Tick []]"

lemma lossy_feed: "fold feed_step demo_events new_feed = \<lparr> feed_resolution = ''60'', subscribers = [(''g'', 0)],
    subscriptions = [\<lparr>sub_resolution = ''60'', lastBarTime = None, listeners = [7]\<rparr>], requestsPending = 1, loads = [Pulse ''g'' 0],
    requested = [periodLengthSeconds ''60'' 1], delivered = [] \<rparr>"
proof -
  have k: "own_keys [(''g'', 0 :: nat)] = [''g'']" by (cases "array_index ''g''") (simp_all add: own_keys_def)
  show ?thesis
    by (simp add: demo_events_def new_feed_def chart_bars_def getBars_def subscribeDataListener_def upd_subscription_def Let_def
        update_def k returnBars_def rename_def)
qed

theorem lost_request_stops_pulse_witness:
  "feed_step (Tick [Arr [Num 60]]) (feed_step (Lost 0) (fold feed_step demo_events new_feed)) =
   feed_step (Lost 0) (fold feed_step demo_events new_feed)"
  using lost_request_stops_pulse [OF refl, of 0 demo_events "[Arr [Num 60]]" "[]"] by (simp add: lossy_feed)

section \<open>The variable of the loop\<close>

definition sub_of :: "feed \<Rightarrow> string \<Rightarrow> nat" where
  "sub_of s k = the (map_of (subscribers s) k)"

lemma pulse_keys_empty:
  assumes "feed_resolution s \<noteq> ''0''" and "\<forall>k \<in> set ks. sub_resolution (subscriptions s ! sub_of s k) \<noteq> ''0''"
  shows "\<exists>s'. pulse_keys [] ks g s = (last (g # ks), s') \<and> loads s' = loads s @ map (\<lambda>k. Pulse k (sub_of s k)) ks \<and>
    subscribers s' = subscribers s \<and> subscriptions s' = subscriptions s \<and> delivered s' = delivered s"
  using assms
proof (induction ks arbitrary: s g)
  case (Cons k ks)
  let ?i = "sub_of s k" and ?s1 = "s\<lparr>requestsPending := requestsPending s + 1\<rparr>"
  obtain s2 where s2: "getBars [] (sub_resolution (subscriptions s ! ?i)) (Pulse k ?i) ?s1 = (None, s2)"
    "loads s2 = loads s @ [Pulse k ?i]" "subscribers s2 = subscribers s" "subscriptions s2 = subscriptions s" "delivered s2 = delivered s"
    "feed_resolution s2 \<noteq> ''0''"
    using Cons.prems by (auto simp: getBars_def Let_def returnBars_def)
  have sub: "sub_of s2 = sub_of s" using s2(3) by (auto simp: sub_of_def)
  have "\<forall>k \<in> set ks. sub_resolution (subscriptions s2 ! sub_of s2 k) \<noteq> ''0''" using Cons.prems(2) s2(4) sub by simp
  from Cons.IH [OF s2(6) this, of k] obtain s' where
    "pulse_keys [] ks k s2 = (last (k # ks), s')" "loads s' = loads s2 @ map (\<lambda>k. Pulse k (sub_of s2 k)) ks"
    "subscribers s' = subscribers s2" "subscriptions s' = subscriptions s2" "delivered s' = delivered s2" by blast
  with s2 sub show ?case by (simp add: sub_of_def Let_def)
qed simp

text \<open>A subscription that is cancelled while its request is under way is still served, unless it was the last of the
  table: the callbacks of one tick share the variable \<open>listenerGUID\<close> and all of them look up its last value. Here the store is empty at
  the tick, the subscription has no bar yet, and the answer arrives after it was cancelled.\<close>

theorem cancelled_listener_still_fed:
  assumes "own_keys (subscribers s) = ks" and "n < length ks" and "ks ! n \<noteq> last ks" and "requestsPending s = 0"
    and "feed_resolution s \<noteq> ''0''" and "\<forall>k \<in> set ks. sub_resolution (subscriptions s ! sub_of s k) \<noteq> ''0''"
    and "lastBarTime (subscriptions s ! sub_of s (ks ! n)) = None" and "h \<noteq> []"
  shows "delivered (fold feed_step [Tick [], Unsubscribe (ks ! n), Loaded (length (loads s) + n) h] s) =
    delivered s @ map (\<lambda>l. To_Listener l (bar (hd h))) (listeners (subscriptions s ! sub_of s (ks ! n)))"
proof -
  from pulse_keys_empty [OF assms(5,6), of "[]"] obtain s' where
    p: "pulse_keys [] ks [] s = (last ([] # ks), s')" and l: "loads s' = loads s @ map (\<lambda>k. Pulse k (sub_of s k)) ks"
      and o: "subscribers s' = subscribers s" "subscriptions s' = subscriptions s" "delivered s' = delivered s" by blast
  let ?s1 = "update [] s"
  have ks: "ks \<noteq> []" using assms(2) by auto
  have s1: "loads ?s1 = loads s @ map (\<lambda>k. Pulse (last ks) (sub_of s k)) ks" "subscribers ?s1 = subscribers s"
    "subscriptions ?s1 = subscriptions s" "delivered ?s1 = delivered s"
    using assms(1,4) p l o ks by (simp_all add: update_def rename_def comp_def)
  have "last ks \<in> fst ` set (subscribers s)" using last_in_set [OF ks] unfolding assms(1) [symmetric] set_own_keys .
  then have m: "map_of (AList.delete (ks ! n) (subscribers s)) (last ks) \<noteq> None"
    using assms(3) by (auto simp: delete_conv' map_of_eq_None_iff)
  have b: "last (returnBars h) = bar (hd h)" "returnBars h \<noteq> []" using assms(8) by (simp_all add: returnBars_def last_rev hd_map)
  let ?s2 = "unsubscribeDataListener (ks ! n) ?s1"
  have k: "length (loads s) + n < length (loads ?s2)" "loads ?s2 ! (length (loads s) + n) = Pulse (last ks) (sub_of s (ks ! n))"
    using s1 assms(2) by (simp_all add: unsubscribeDataListener_def nth_append)
  show ?thesis
    using k m b assms(7) s1
    by (auto simp: answer_def on_bars_def Let_def unsubscribeDataListener_def earlier_def greater_def deliver_def upd_subscription_def split: option.split)
qed

definition demo_two :: feed where
  "demo_two = new_feed\<lparr>feed_resolution := ''60'', subscribers := [(''a'', 0), (''b'', 1)],
     subscriptions := [\<lparr>sub_resolution = ''60'', lastBarTime = None, listeners = [7]\<rparr>, \<lparr>sub_resolution = ''5'', lastBarTime = None, listeners = [8]\<rparr>]\<rparr>"

theorem cancelled_listener_still_fed_witness:
  "delivered (fold feed_step [Tick [], Unsubscribe ''a'', Loaded 0 [Arr [Num 60]]] demo_two) = [To_Listener 7 (bar (Arr [Num 60]))]"
proof -
  have "\<not> array_index ''a''" "\<not> array_index ''b''"
    by (simp_all add: array_index_def read_digits_def digit_val_def show_nat.simps)
  then have k: "own_keys (subscribers demo_two) = [''a'', ''b'']" by (simp add: own_keys_def demo_two_def)
  show ?thesis
    using cancelled_listener_still_fed [OF k, of 0 "[Arr [Num 60]]"] by (simp add: demo_two_def new_feed_def sub_of_def)
qed

section \<open>Quotes\<close>

text \<open>No quote is ever delivered, and after the first subscription that a timer sees nothing is even requested.\<close>

lemma quotes_stop: "quote_subscribers q \<noteq> [] \<Longrightarrow> 0 \<le> quotesPending q \<Longrightarrow> updateQuotes (updateQuotes q) = updateQuotes q"
  by (auto simp: updateQuotes_def)

end
