(* ===== verification/Chain_Table.thy ===== *)
theory Chain_Table
  imports Js_Prelude
begin

text \<open>
  The table of chains of the launchpad, \<open>NovaLaunch/nova-fe/src/util/chain_id.ts\<close>, entry by entry and in its order; the
  definitions follow it in pieces. The hooks and utilities search it by \<open>chainId\<close>.
  The three characters outside ASCII are written as their UTF-8 bytes.
\<close>

datatype coin = Coin (coin_name: string) (coin_symbol: string) (coin_decimals: nat)

datatype net = Net (net_name: string) (chain_id: nat) (short_name: string) (network_id: nat) (native: coin)
  (rpc_urls: "string list") (faucet_urls: "string list") (info_url: string)

definition chains_1 :: "net list" where
  "chains_1 = [
     Net ''Ethereum Mainnet'' 1 ''eth'' 1 (Coin ''Ether'' ''ETH'' 18)
       [''https://mainnet.infura.io/v3/${INFURA_API_KEY}'', ''wss://mainnet.infura.io/ws/v3/${INFURA_API_KEY}'',
        ''https://api.mycryptoapi.com/eth'', ''https://cloudflare-eth.com'']
       [] ''https://ethereum.org'',
     Net ''Sepolia'' 11155111 ''sepolia'' 11155111 (Coin ''Ether'' ''ETH'' 18)
       [''https://rpc.sepolia.org'']
       [] ''https://www.sepolia.io'',
     Net ''Expanse Network'' 2 ''exp'' 1 (Coin ''Expanse Network Ether'' ''EXP'' 18)
       [''https://node.expanse.tech'']
       [] ''https://expanse.tech'',
     Net ''Ethereum Testnet Ropsten'' 3 ''rop'' 3 (Coin ''Ropsten Ether'' ''ROP'' 18)
       [''https://ropsten.infura.io/v3/${INFURA_API_KEY}'', ''wss://ropsten.infura.io/ws/v3/${INFURA_API_KEY}'']
       [''https://faucet.ropsten.be?${ADDRESS}''] ''https://github.com/ethereum/ropsten'',
     Net ''Rinkeby'' 4 ''rin'' 4 (Coin ''Rinkeby Ether'' ''RIN'' 18)
       [''https://rinkeby.infura.io/v3/9aa3d95b3bc440fa88ea12eaa4456161'', ''wss://rinkeby.infura.io/ws/v3/9aa3d95b3bc440fa88ea12eaa4456161'']
       [''https://faucet.rinkeby.io''] ''https://www.rinkeby.io'',
     Net (''G'' @ [CHR 0xC3, CHR 0xB6] @ ''rli'') 5 ''gor'' 5 (Coin (''G'' @ [CHR 0xC3, CHR 0xB6] @ ''rli Ether'') ''GOR'' 18)
       [''https://goerli.infura.io/v3/9aa3d95b3bc440fa88ea12eaa4456161'', ''wss://goerli.infura.io/v3/9aa3d95b3bc440fa88ea12eaa4456161'',
        ''https://rpc.goerli.mudit.blog/'']
       [''https://goerli-faucet.slock.it/?address=${ADDRESS}'', ''https://faucet.goerli.mudit.blog''] ''https://goerli.net/#about'',
     Net ''Ethereum Classic Testnet Kotti'' 6 ''kot'' 6 (Coin ''Kotti Ether'' ''KOT'' 18)
       []
       [] ''https://explorer.jade.builders/?network=kotti'',
     Net ''ThaiChain'' 7 ''tch'' 7 (Coin ''ThaiChain Ether'' ''TCH'' 18)
       [''https://rpc.dome.cloud'']
       [] ''https://thaichain.io'']"

definition chains_2 :: "net list" where
  "chains_2 = [
     Net ''Ubiq'' 8 ''ubq'' 8 (Coin ''Ubiq Ether'' ''UBQ'' 18)
       [''https://rpc.octano.dev'', ''https://pyrus2.ubiqscan.io'']
       [] ''https://ubiqsmart.com'',
     Net ''Ubiq Network Testnet'' 9 ''tubq'' 2 (Coin ''Ubiq Testnet Ether'' ''TUBQ'' 18)
       []
       [] ''https://ethersocial.org'',
     Net ''Optimistic Ethereum'' 10 ''oeth'' 10 (Coin ''Ether'' ''OETH'' 18)
       [''https://mainnet.optimism.io/'']
       [] ''https://optimism.io'',
     Net ''Metadium Mainnet'' 11 ''meta'' 11 (Coin ''Metadium Mainnet Ether'' ''META'' 18)
       [''https://api.metadium.com/prod'']
       [] ''https://metadium.com'',
     Net ''Metadium Testnet'' 12 ''kal'' 12 (Coin ''Metadium Testnet Ether'' ''KAL'' 18)
       [''https://api.metadium.com/dev'']
       [] ''https://metadium.com'',
     Net ''Diode Testnet Staging'' 13 ''dstg'' 13 (Coin ''Staging Diodes'' ''sDIODE'' 18)
       [''https://staging.diode.io:8443/'', ''wss://staging.diode.io:8443/ws'']
       [] ''https://diode.io/staging'',
     Net ''Flare Mainnet'' 14 ''flr'' 14 (Coin ''Spark'' ''FLR'' 18)
       []
       [] ''https://flare.xyz'',
     Net ''Diode Prenet'' 15 ''diode'' 15 (Coin ''Diodes'' ''DIODE'' 18)
       [''https://prenet.diode.io:8443/'', ''wss://prenet.diode.io:8443/ws'']
       [] ''https://diode.io/prenet'',
     Net ''Flare Testnet Coston'' 16 ''cflr'' 16 (Coin ''Coston Spark'' ''CFLR'' 18)
       []
       [''https://faucet.towolabs.com''] ''https://github.com/flare-eng/coston'']"

definition chains_3 :: "net list" where
  "chains_3 = [
     Net ''ThaiChain 2.0 ThaiFi'' 17 ''tfi'' 17 (Coin ''Thaifi Ether'' ''TFI'' 18)
       [''https://rpc.thaifi.com'']
       [] ''https://exp.thaifi.com'',
     Net ''ThunderCore Testnet'' 18 ''TST'' 18 (Coin ''ThunderCore Testnet Ether'' ''TST'' 18)
       [''https://testnet-rpc.thundercore.com'']
       [''https://faucet-testnet.thundercore.com''] ''https://thundercore.com'',
     Net ''Songbird Canary-Network'' 19 ''sgb'' 19 (Coin ''Songbird'' ''SGB'' 18)
       [''https://songbird.towolabs.com/rpc'', ''https://sgb.ftso.com.au/ext/bc/C/rpc'', ''https://sgb.lightft.so/rpc'', ''https://sgb-rpc.ftso.eu'']
       [] ''https://flare.xyz'',
     Net ''ELA-ETH-Sidechain Mainnet'' 20 ''elaeth'' 20 (Coin ''Elastos'' ''ELA'' 18)
       [''https://mainrpc.elaeth.io'']
       [] ''https://www.elastos.org/'',
     Net ''ELA-ETH-Sidechain Testnet'' 21 ''elaetht'' 21 (Coin ''Elastos'' ''tELA'' 18)
       [''https://rpc.elaeth.io'']
       [''https://faucet.elaeth.io/''] ''https://elaeth.io/'',
     Net ''ELA-DID-Sidechain Mainnet'' 22 ''eladid'' 22 (Coin ''Elastos'' ''ELA'' 18)
       []
       [] ''https://www.elastos.org/'',
     Net ''ELA-DID-Sidechain Testnet'' 23 ''eladidt'' 23 (Coin ''Elastos'' ''tELA'' 18)
       []
       [] ''https://elaeth.io/'',
     Net ''Dithereum Mainnet'' 24 ''dthmainnet'' 24 (Coin ''Dither'' ''DTH'' 18)
       [''https://node-mainnet.dithereum.io'']
       [''https://faucet.dithereum.org''] ''https://dithereum.org'',
     Net ''Cronos Mainnet Beta'' 25 ''cro'' 25 (Coin ''Crypto.org Coin'' ''CRO'' 18)
       [''https://evm-cronos.crypto.org'']
       [] ''https://cronos.crypto.org'']"

definition chains_4 :: "net list" where
  "chains_4 = [
     Net ''Genesis L1 testnet'' 26 ''L1test'' 26 (Coin ''L1 testcoin'' ''L1test'' 18)
       [''https://testrpc.genesisl1.org'']
       [] ''https://www.genesisl1.com'',
     Net ''ShibaChain'' 27 ''shib'' 27 (Coin ''SHIBA INU COIN'' ''SHIB'' 18)
       [''https://rpc.shibachain.net'']
       [] ''https://www.shibachain.net'',
     Net ''Boba Network Rinkeby Testnet'' 28 ''Boba Rinkeby'' 28 (Coin ''Ether'' ''ETH'' 18)
       [''https://rinkeby.boba.network/'']
       [] ''https://boba.network'',
     Net ''Genesis L1'' 29 ''L1'' 29 (Coin ''L1 coin'' ''L1'' 18)
       [''https://rpc.genesisl1.org'']
       [] ''https://www.genesisl1.com'',
     Net ''RSK Mainnet'' 30 ''rsk'' 30 (Coin ''RSK Mainnet Ether'' ''RBTC'' 18)
       [''https://public-node.rsk.co'', ''https://mycrypto.rsk.co'']
       [''https://free-online-app.com/faucet-for-eth-evm-chains/''] ''https://rsk.co'',
     Net ''RSK Testnet'' 31 ''trsk'' 31 (Coin ''RSK Testnet Ether'' ''tRBTC'' 18)
       [''https://public-node.testnet.rsk.co'', ''https://mycrypto.testnet.rsk.co'']
       [''https://faucet.testnet.rsk.co''] ''https://rsk.co'',
     Net ''GoodData Testnet'' 32 ''GooDT'' 32 (Coin ''GoodData Testnet Ether'' ''GooD'' 18)
       [''https://test2.goodata.io'']
       [] ''https://www.goodata.org'',
     Net ''GoodData Mainnet'' 33 ''GooD'' 33 (Coin ''GoodData Mainnet Ether'' ''GooD'' 18)
       [''https://rpc.goodata.io'']
       [] ''https://www.goodata.org'']"

definition chains_5 :: "net list" where
  "chains_5 = [
     Net ''Dithereum Testnet'' 34 ''dth'' 34 (Coin ''Dither'' ''DTH'' 18)
       [''https://node-testnet.dithereum.io'']
       [''https://faucet.dithereum.org''] ''https://dithereum.org'',
     Net ''TBWG Chain'' 35 ''tbwg'' 35 (Coin ''TBWG Ether'' ''TBG'' 18)
       [''https://rpc.tbwg.io'']
       [] ''https://tbwg.io'',
     Net ''Valorbit'' 38 ''val'' 38 (Coin ''Valorbit'' ''VAL'' 18)
       [''https://rpc.valorbit.com/v2'']
       [] ''https://valorbit.com'',
     Net ''Telos EVM Mainnet'' 40 ''Telos EVM'' 40 (Coin ''Telos'' ''TLOS'' 18)
       [''https://mainnet.telos.net/evm'']
       [] ''https://telos.net'',
     Net ''Telos EVM Testnet'' 41 ''Telos EVM Testnet'' 41 (Coin ''Telos'' ''TLOS'' 18)
       [''https://testnet.telos.net/evm'']
       [''https://app.telos.net/testnet/developers''] ''https://telos.net'',
     Net ''Kovan'' 42 ''kov'' 42 (Coin ''Kovan Ether'' ''KOV'' 18)
       [''https://kovan.poa.network'', ''http://kovan.poa.network:8545'', ''https://kovan.infura.io/v3/${INFURA_API_KEY}'',
        ''wss://kovan.infura.io/ws/v3/${INFURA_API_KEY}'', ''ws://kovan.poa.network:8546'']
       [''https://faucet.kovan.network'', ''https://gitter.im/kovan-testnet/faucet''] ''https://kovan-testnet.github.io/website'',
     Net ''Darwinia Pangolin Testnet'' 43 ''darwinia'' 43 (Coin (''Pangolin Network Native Token'' @ [CHR 0xE2, CHR 0x80, CHR 0x9D]) ''PRING'' 9)
       [''http://pangolin-rpc.darwinia.network'']
       [''https://docs.crab.network/dvm/wallets/dvm-metamask#apply-for-the-test-token''] ''https://darwinia.network/'',
     Net ''Darwinia Crab Network'' 44 ''crab'' 44 (Coin ''Crab Network Native Token'' ''CRAB'' 9)
       [''http://crab-rpc.darwinia.network'']
       [] ''https://crab.network/'']"

definition chains_6 :: "net list" where
  "chains_6 = [
     Net ''XinFin Network Mainnet'' 50 ''xdc'' 50 (Coin ''XinFin'' ''XDC'' 18)
       [''https://rpc.xinfin.network'']
       [] ''https://xinfin.org'',
     Net ''XinFin Apothem Testnet'' 51 ''TXDC'' 51 (Coin ''XinFinTest'' ''TXDC'' 18)
       [''https://rpc.apothem.network'']
       [] ''https://xinfin.org'',
     Net ''CoinEx Smart Chain Mainnet'' 52 ''cet'' 52 (Coin ''CoinEx Chain Native Token'' ''cet'' 18)
       [''https://rpc.coinex.net'']
       [] ''https://www.coinex.org/'',
     Net ''CoinEx Smart Chain Testnet'' 53 ''tcet'' 53 (Coin ''CoinEx Chain Test Native Token'' ''cett'' 18)
       [''https://testnet-rpc.coinex.net/'']
       [] ''https://www.coinex.org/'',
     Net ''Zyx Mainnet'' 55 ''ZYX'' 55 (Coin ''Zyx'' ''ZYX'' 18)
       [''https://rpc-1.zyx.network/'', ''https://rpc-2.zyx.network/'', ''https://rpc-3.zyx.network/'', ''https://rpc-4.zyx.network/'',
        ''https://rpc-5.zyx.network/'', ''https://rpc-6.zyx.network/'']
       [] ''https://zyx.network/'',
     Net ''Binance Smart Chain Mainnet'' 56 ''bnb'' 56 (Coin ''Binance Chain Native Token'' ''BNB'' 18)
       [''https://bsc-dataseed1.binance.org'', ''https://bsc-dataseed2.binance.org'', ''https://bsc-dataseed3.binance.org'',
        ''https://bsc-dataseed4.binance.org'', ''https://bsc-dataseed1.defibit.io'', ''https://bsc-dataseed2.defibit.io'',
        ''https://bsc-dataseed3.defibit.io'', ''https://bsc-dataseed4.defibit.io'', ''https://bsc-dataseed1.ninicoin.io'',
        ''https://bsc-dataseed2.ninicoin.io'', ''https://bsc-dataseed3.ninicoin.io'', ''https://bsc-dataseed4.ninicoin.io'',
        ''wss://bsc-ws-node.nariox.org'']
       [''https://free-online-app.com/faucet-for-eth-evm-chains/''] ''https://www.binance.org'',
     Net ''Syscoin Mainnet'' 57 ''sys'' 57 (Coin ''Syscoin'' ''SYS'' 18)
       [''https://rpc.syscoin.org'', ''wss://rpc.syscoin.org/wss'']
       [''https://faucet.syscoin.org''] ''https://www.syscoin.org'']"

definition chains_7 :: "net list" where
  "chains_7 = [
     Net ''Ontology Mainnet'' 58 ''Ontology Mainnet'' 58 (Coin ''ONG'' ''ONG'' 9)
       [''https://dappnode1.ont.io:20339'', ''https://dappnode2.ont.io:20339'', ''https://dappnode3.ont.io:20339'',
        ''https://dappnode4.ont.io:20339'']
       [] ''https://ont.io/'',
     Net ''EOS Mainnet'' 59 ''EOS Mainnet'' 59 (Coin ''EOS'' ''EOS'' 18)
       [''https://api.eosargentina.io'']
       [] ''https://eoscommunity.org/'',
     Net ''GoChain'' 60 ''go'' 60 (Coin ''GoChain Ether'' ''GO'' 18)
       [''https://rpc.gochain.io'']
       [''https://free-online-app.com/faucet-for-eth-evm-chains/''] ''https://gochain.io'',
     Net ''Ethereum Classic Mainnet'' 61 ''etc'' 1 (Coin ''Ethereum Classic Ether'' ''ETC'' 18)
       [''https://ethereumclassic.network'']
       [''https://free-online-app.com/faucet-for-eth-evm-chains/?''] ''https://ethereumclassic.org'',
     Net ''Ethereum Classic Testnet Morden'' 62 ''tetc'' 2 (Coin ''Ethereum Classic Testnet Ether'' ''TETC'' 18)
       []
       [] ''https://ethereumclassic.org'',
     Net ''Ethereum Classic Testnet Mordor'' 63 ''metc'' 7 (Coin ''Mordor Classic Testnet Ether'' ''METC'' 18)
       []
       [] ''https://github.com/eth-classic/mordor/'',
     Net ''Ellaism'' 64 ''ella'' 64 (Coin ''Ellaism Ether'' ''ELLA'' 18)
       [''https://jsonrpc.ellaism.org'']
       [] ''https://ellaism.org'',
     Net ''OKExChain Testnet'' 65 ''tokt'' 65 (Coin ''OKExChain Global Utility Token in testnet'' ''OKT'' 18)
       [''https://exchaintestrpc.okex.org'']
       [''https://www.okex.com/drawdex''] ''https://www.okex.com/okexchain'']"

definition chains_8 :: "net list" where
  "chains_8 = [
     Net ''OKExChain Mainnet'' 66 ''okt'' 66 (Coin ''OKExChain Global Utility Token'' ''OKT'' 18)
       [''https://exchainrpc.okex.org'']
       [''https://free-online-app.com/faucet-for-eth-evm-chains/?''] ''https://www.okex.com/okexchain'',
     Net ''DBChain Testnet'' 67 ''dbm'' 67 (Coin ''DBChain Testnet'' ''DBM'' 18)
       [''http://test-rpc.dbmbp.com'']
       [] ''http://test.dbmbp.com'',
     Net ''SoterOne Mainnet'' 68 ''SO1'' 68 (Coin ''SoterOne Mainnet Ether'' ''SOTER'' 18)
       [''https://rpc.soter.one'']
       [] ''https://www.soterone.com'',
     Net ''Optimistic Kovan'' 69 ''okov'' 69 (Coin ''Kovan Ether'' ''KOR'' 18)
       [''https://kovan.optimism.io/'']
       [] ''https://optimism.io'',
     Net ''Mix'' 76 ''mix'' 76 (Coin ''Mix Ether'' ''MIX'' 18)
       [''https://rpc2.mix-blockchain.org:8647'']
       [] ''https://mix-blockchain.org'',
     Net ''POA Network Sokol'' 77 ''spoa'' 77 (Coin ''POA Sokol Ether'' ''SPOA'' 18)
       [''https://sokol.poa.network'', ''wss://sokol.poa.network/wss'', ''ws://sokol.poa.network:8546'']
       [''https://faucet.poa.network''] ''https://poa.network'',
     Net ''PrimusChain mainnet'' 78 ''primuschain'' 78 (Coin ''Primus Ether'' ''PETH'' 18)
       [''https://ethnode.primusmoney.com/mainnet'']
       [] ''https://primusmoney.com'',
     Net ''GeneChain'' 80 ''GeneChain'' 80 (Coin ''RNA'' ''RNA'' 18)
       [''https://rpc.genechain.io'']
       [] ''https://scan.genechain.io/'']"

definition chains_9 :: "net list" where
  "chains_9 = [
     Net ''Meter Mainnet'' 82 ''Meter'' 82 (Coin ''Meter'' ''MTR'' 18)
       [''https://rpc.meter.io'']
       [''https://faucet.meter.io''] ''https://www.meter.io'',
     Net ''Meter Testnet'' 83 ''MeterTest'' 83 (Coin ''Meter'' ''MTR'' 18)
       [''https://rpctest.meter.io'']
       [''https://faucet-warringstakes.meter.io''] ''https://www.meter.io'',
     Net ''GateChain Testnet'' 85 ''gttest'' 85 (Coin ''GateToken'' ''GT'' 18)
       [''https://testnet.gatenode.cc'']
       [''https://www.gatescan.org/testnet/faucet''] ''https://www.gatechain.io'',
     Net ''GateChain Mainnet'' 86 ''gt'' 86 (Coin ''GateToken'' ''GT'' 18)
       [''https://evm.gatenode.cc'']
       [''https://www.gatescan.org/faucet''] ''https://www.gatechain.io'',
     Net ''TomoChain'' 88 ''tomo'' 88 (Coin ''TomoChain Ether'' ''TOMO'' 18)
       [''https://rpc.tomochain.com'']
       [] ''https://tomocoin.io'',
     Net ''CryptoKylin Testnet'' 95 ''Kylin Testnet'' 95 (Coin ''EOS'' ''EOS'' 18)
       [''https://kylin.eosargentina.io'']
       [] ''https://www.cryptokylin.io/'',
     Net ''NEXT Smart Chain'' 96 ''nsc'' 96 (Coin ''NEXT'' ''NEXT'' 18)
       [''https://rpc.nextsmartchain.com'']
       [''https://faucet.nextsmartchain.com''] ''https://www.nextsmartchain.com/'',
     Net ''Binance Smart Chain Testnet'' 97 ''bnbt'' 97 (Coin ''Binance Chain Native Token'' ''tBNB'' 18)
       [''https://data-seed-prebsc-1-s1.binance.org:8545'', ''https://data-seed-prebsc-2-s1.binance.org:8545'',
        ''https://data-seed-prebsc-1-s2.binance.org:8545'', ''https://data-seed-prebsc-2-s2.binance.org:8545'',
        ''https://data-seed-prebsc-1-s3.binance.org:8545'', ''https://data-seed-prebsc-2-s3.binance.org:8545'']
       [''https://testnet.binance.org/faucet-smart''] ''https://testnet.binance.org/'']"

definition chains_10 :: "net list" where
  "chains_10 = [
     Net ''POA Network Core'' 99 ''poa'' 99 (Coin ''POA Network Core Ether'' ''POA'' 18)
       [''https://core.poanetwork.dev'', ''http://core.poanetwork.dev:8545'', ''https://core.poa.network'', ''ws://core.poanetwork.dev:8546'']
       [] ''https://poa.network'',
     Net ''Gnosis Chain (formerly xDai)'' 100 ''gno'' 100 (Coin ''xDAI'' ''xDAI'' 18)
       [''https://rpc.xdaichain.com'', ''https://xdai.poanetwork.dev'', ''wss://rpc.xdaichain.com/wss'', ''wss://xdai.poanetwork.dev/wss'',
        ''http://xdai.poanetwork.dev'', ''https://dai.poa.network'', ''ws://xdai.poanetwork.dev:8546'']
       [''https://faucet.gimlu.com/gnosis'', ''https://stakely.io/faucet/xdai-chain'',
        ''https://faucet.prussia.dev/xdai''] ''https://www.xdaichain.com/'',
     Net ''EtherInc'' 101 ''eti'' 1 (Coin ''EtherInc Ether'' ''ETI'' 18)
       [''https://api.einc.io/jsonrpc/mainnet'']
       [] ''https://einc.io'',
     Net ''Web3Games Testnet'' 102 ''w3g'' 102 (Coin ''Web3Games'' ''W3G'' 18)
       [''https://testnet.web3games.org/evm'']
       [] ''https://web3games.org/'',
     Net ''Velas EVM Mainnet'' 106 ''vlx'' 106 (Coin ''Velas'' ''VLX'' 18)
       [''https://evmexplorer.velas.com/rpc'', ''https://explorer.velas.com/rpc'']
       [] ''https://velas.com'',
     Net ''ThunderCore Mainnet'' 108 ''TT'' 108 (Coin ''ThunderCore Mainnet Ether'' ''TT'' 18)
       [''https://mainnet-rpc.thundercore.com'']
       [''https://faucet.thundercore.com''] ''https://thundercore.com'',
     Net ''Proton Testnet'' 110 ''xpr'' 110 (Coin ''Proton'' ''XPR'' 4)
       [''https://protontestnet.greymass.com/'']
       [] ''https://protonchain.com'',
     Net ''EtherLite Chain'' 111 ''ETL'' 111 (Coin ''EtherLite'' ''ETL'' 18)
       [''https://rpc.etherlite.org'']
       [''https://etherlite.org/faucets''] ''https://etherlite.org'']"

definition chains_11 :: "net list" where
  "chains_11 = [
     Net ''Fuse Mainnet'' 122 ''fuse'' 122 (Coin ''Fuse'' ''FUSE'' 18)
       [''https://rpc.fuse.io'']
       [] ''https://fuse.io/'',
     Net ''Fuse Sparknet'' 123 ''spark'' 123 (Coin ''Spark'' ''SPARK'' 18)
       [''https://rpc.fusespark.io'']
       [''https://get.fusespark.io''] ''https://docs.fuse.io/general/fuse-network-blockchain/fuse-testnet'',
     Net ''Decentralized Web Mainnet'' 124 ''dwu'' 124 (Coin ''Decentralized Web Utility'' ''DWU'' 18)
       [''https://decentralized-web.tech/dw_rpc.php'']
       [] ''https://decentralized-web.tech/dw_chain.php'',
     Net ''Factory 127 Mainnet'' 127 ''feth'' 127 (Coin ''Factory 127 Token'' ''FETH'' 18)
       []
       [] ''https://www.factory127.com'',
     Net ''Huobi ECO Chain Mainnet'' 128 ''heco'' 128 (Coin ''Huobi ECO Chain Native Token'' ''HT'' 18)
       [''https://http-mainnet.hecochain.com'', ''wss://ws-mainnet.hecochain.com'']
       [''https://free-online-app.com/faucet-for-eth-evm-chains/''] ''https://www.hecochain.com'',
     Net ''Polygon Mainnet'' 137 ''MATIC'' 137 (Coin ''MATIC'' ''MATIC'' 18)
       [''https://polygon-rpc.com/'', ''https://rpc-mainnet.matic.network'', ''https://matic-mainnet.chainstacklabs.com'',
        ''https://rpc-mainnet.maticvigil.com'', ''https://rpc-mainnet.matic.quiknode.pro'', ''https://matic-mainnet-full-rpc.bwarelabs.com'']
       [] ''https://polygon.technology/'',
     Net ''DAX CHAIN'' 142 ''dax'' 142 (Coin ''Prodax'' ''DAX'' 18)
       [''https://rpc.prodax.io'']
       [] ''https://prodax.io/'',
     Net ''Lightstreams Testnet'' 162 ''tpht'' 162 (Coin ''Lightstreams PHT'' ''PHT'' 18)
       [''https://node.sirius.lightstreams.io'']
       [''https://discuss.lightstreams.network/t/request-test-tokens''] ''https://explorer.sirius.lightstreams.io'']"

definition chains_12 :: "net list" where
  "chains_12 = [
     Net ''Lightstreams Mainnet'' 163 ''pht'' 163 (Coin ''Lightstreams PHT'' ''PHT'' 18)
       [''https://node.mainnet.lightstreams.io'']
       [] ''https://explorer.lightstreams.io'',
     Net ''HOO Smart Chain Testnet'' 170 ''hoosmartchain'' 170 (Coin ''HOO'' ''HOO'' 18)
       [''https://http-testnet.hoosmartchain.com'']
       [''https://faucet-testnet.hscscan.com/''] ''https://www.hoosmartchain.com'',
     Net ''Latam-Blockchain Resil Testnet'' 172 ''resil'' 172 (Coin ''Latam-Blockchain Resil Test Native Token'' ''usd'' 18)
       [''https://rpc.latam-blockchain.com'', ''wss://ws.latam-blockchain.com'']
       [''https://faucet.latam-blockchain.com''] ''https://latam-blockchain.com'',
     Net ''Seele Mainnet'' 186 ''Seele'' 186 (Coin ''Seele'' ''Seele'' 18)
       [''https://rpc.seelen.pro/'']
       [] ''https://seelen.pro/'',
     Net ''BMC Mainnet'' 188 ''BMC'' 188 (Coin ''BTM'' ''BTM'' 18)
       [''https://mainnet.bmcchain.com/'']
       [] ''https://bmc.bytom.io/'',
     Net ''BMC Testnet'' 189 ''BMCT'' 189 (Coin ''BTM'' ''BTM'' 18)
       [''https://testnet.bmcchain.com'']
       [] ''https://bmc.bytom.io/'',
     Net ''BitTorrent Chain Mainnet'' 199 ''BTT'' 199 (Coin ''BitTorrent'' ''BTT'' 18)
       [''https://rpc.bittorrentchain.io/'']
       [] ''https://bittorrentchain.io/'',
     Net ''Arbitrum on xDai'' 200 ''aox'' 200 (Coin ''xDAI'' ''xDAI'' 18)
       [''https://arbitrum.xdaichain.com/'']
       [] ''https://xdaichain.com'']"

definition chains_13 :: "net list" where
  "chains_13 = [
     Net ''Freight Trust Network'' 211 ''EDI'' 0 (Coin ''Freight Trust Native'' ''0xF'' 18)
       [''http://13.57.207.168:3435'', ''https://app.freighttrust.net/ftn/${API_KEY}'']
       [''http://faucet.freight.sh''] ''https://freighttrust.com'',
     Net ''Permission'' 222 ''ASK'' 2221 (Coin ''ASK'' ''ASK'' 18)
       [''https://blockchain-api-mainnet.permission.io/rpc'']
       [] ''https://permission.io/'',
     Net ''Energy Web Chain'' 246 ''ewt'' 246 (Coin ''Energy Web Token'' ''EWT'' 18)
       [''https://rpc.energyweb.org'', ''wss://rpc.energyweb.org/ws'']
       [''https://faucet.carbonswap.exchange'', ''https://free-online-app.com/faucet-for-eth-evm-chains/''] ''https://energyweb.org'',
     Net ''Fantom Opera'' 250 ''ftm'' 250 (Coin ''Fantom'' ''FTM'' 18)
       [''https://rpc.ftm.tools'']
       [''https://free-online-app.com/faucet-for-eth-evm-chains/''] ''https://fantom.foundation'',
     Net ''Huobi ECO Chain Testnet'' 256 ''hecot'' 256 (Coin ''Huobi ECO Chain Test Native Token'' ''htt'' 18)
       [''https://http-testnet.hecochain.com'', ''wss://ws-testnet.hecochain.com'']
       [''https://scan-testnet.hecochain.com/faucet''] ''https://testnet.hecoinfo.com'',
     Net ''SUR Blockchain Network'' 262 ''SUR'' 1 (Coin ''Suren'' ''SRN'' 18)
       [''https://sur.nilin.org'']
       [] ''https://surnet.org'',
     Net ''High Performance Blockchain'' 269 ''hpb'' 269 (Coin ''High Performance Blockchain Ether'' ''HPB'' 18)
       [''https://hpbnode.com'', ''wss://ws.hpbnode.com'']
       [''https://myhpbwallet.com/''] ''https://hpb.io'',
     Net ''Boba Network'' 288 ''Boba'' 288 (Coin ''Ether'' ''ETH'' 18)
       [''https://mainnet.boba.network/'']
       [] ''https://boba.network'']"

definition chains_14 :: "net list" where
  "chains_14 = [
     Net ''KCC Mainnet'' 321 ''kcs'' 1 (Coin ''KuCoin Token'' ''KCS'' 18)
       [''https://rpc-mainnet.kcc.network'', ''wss://rpc-ws-mainnet.kcc.network'']
       [] ''https://kcc.io'',
     Net ''KCC Testnet'' 322 ''kcst'' 322 (Coin ''KuCoin Testnet Token'' ''tKCS'' 18)
       [''https://rpc-testnet.kcc.network'', ''wss://rpc-ws-testnet.kcc.network'']
       [''https://faucet-testnet.kcc.network''] ''https://scan-testnet.kcc.network'',
     Net ''Shiden'' 336 ''sdn'' 336 (Coin ''Shiden'' ''SDN'' 18)
       [''https://rpc.shiden.astar.network:8545'', ''wss://shiden.api.onfinality.io/public-ws'']
       [] ''https://shiden.astar.network/'',
     Net ''Cronos Testnet'' 338 ''tcro'' 338 (Coin ''Crypto.org Test Coin'' ''TCRO'' 18)
       [''https://cronos-testnet-3.crypto.org:8545'', ''wss://cronos-testnet-3.crypto.org:8546'']
       [''https://cronos.crypto.org/faucet''] ''https://cronos.crypto.org'',
     Net ''Theta Mainnet'' 361 ''theta-mainnet'' 361 (Coin ''Theta Fuel'' ''TFUEL'' 18)
       [''https://eth-rpc-api.thetatoken.org/rpc'']
       [] ''https://www.thetatoken.org/'',
     Net ''Theta Sapphire Testnet'' 363 ''theta-sapphire'' 363 (Coin ''Theta Fuel'' ''TFUEL'' 18)
       [''https://eth-rpc-api-sapphire.thetatoken.org/rpc'']
       [] ''https://www.thetatoken.org/'',
     Net ''Theta Amber Testnet'' 364 ''theta-amber'' 364 (Coin ''Theta Fuel'' ''TFUEL'' 18)
       [''https://eth-rpc-api-amber.thetatoken.org/rpc'']
       [] ''https://www.thetatoken.org/'',
     Net ''Theta Testnet'' 365 ''theta-testnet'' 365 (Coin ''Theta Fuel'' ''TFUEL'' 18)
       [''https://eth-rpc-api-testnet.thetatoken.org/rpc'']
       [] ''https://www.thetatoken.org/'']"

definition chains_15 :: "net list" where
  "chains_15 = [
     Net ''PulseChain Mainnet'' 369 ''pls'' 369 (Coin ''Pulse'' ''PLS'' 18)
       [''https://rpc.mainnet.pulsechain.com/v1/${PULSECHAIN_API_KEY}'', ''wss://rpc.mainnet.pulsechain.com/ws/v1/${PULSECHAIN_API_KEY}'']
       [] ''https://pulsechain.com/'',
     Net ''Lisinski'' 385 ''lisinski'' 385 (Coin ''Lisinski Ether'' ''LISINSKI'' 18)
       [''https://rpc-bitfalls1.lisinski.online'']
       [''https://pipa.lisinski.online''] ''https://lisinski.online'',
     Net ''Optimistic Ethereum Testnet Goerli'' 420 ''ogor'' 420 (Coin (''G'' @ [CHR 0xC3, CHR 0xB6] @ ''rli Ether'') ''GOR'' 18)
       [''https://goerli.optimism.io/'']
       [] ''https://optimism.io'',
     Net ''Rupaya'' 499 ''rupx'' 499 (Coin ''Rupaya'' ''RUPX'' 18)
       []
       [] ''https://www.rupx.io'',
     Net ''Tao Network'' 558 ''tao'' 558 (Coin ''Tao'' ''TAO'' 18)
       [''https://rpc.testnet.tao.network'', ''http://rpc.testnet.tao.network:8545'', ''https://rpc.tao.network'', ''wss://rpc.tao.network'']
       [] ''https://tao.network'',
     Net ''Metis Stardust Testnet'' 588 ''metis-stardust'' 588 (Coin ''tMetis'' ''METIS'' 18)
       [''https://stardust.metis.io/?owner=588'']
       [] ''https://www.metis.io'',
     Net ''Acala Mandala Testnet'' 595 ''maca'' 595 (Coin ''Acala Mandala Token'' ''mACA'' 18)
       []
       [] ''https://acala.network'',
     Net ''Pixie Chain Testnet'' 666 ''pixie-chain-testnet'' 666 (Coin ''Pixie Chain Testnet Native Token'' ''PCTT'' 18)
       [''https://http-testnet.chain.pixie.xyz'', ''wss://ws-testnet.chain.pixie.xyz'']
       [''https://chain.pixie.xyz/faucet''] ''https://scan-testnet.chain.pixie.xyz'',
     Net ''Karura Network'' 686 ''kar'' 686 (Coin ''Karura Token'' ''KAR'' 18)
       []
       [] ''https://karura.network'']"

definition chains_16 :: "net list" where
  "chains_16 = [
     Net ''BlockChain Station Mainnet'' 707 ''play'' 707 (Coin ''BCS Token'' ''PLAY'' 18)
       [''https://rpc-mainnet.bcsdev.io'', ''wss://rpc-ws-mainnet.bcsdev.io'']
       [] ''https://blockchainstation.io'',
     Net ''BlockChain Station Testnet'' 708 ''tplay'' 708 (Coin ''BCS Testnet Token'' ''tPLAY'' 18)
       [''https://rpc-testnet.bcsdev.io'', ''wss://rpc-ws-testnet.bcsdev.io'']
       [''https://faucet.bcsdev.io''] ''https://blockchainstation.io'',
     Net ''Factory 127 Testnet'' 721 ''tfeth'' 721 (Coin ''Factory 127 Token'' ''FETH'' 18)
       []
       [] ''https://www.factory127.com'',
     Net ''cheapETH'' 777 ''cth'' 777 (Coin ''cTH'' ''cTH'' 18)
       [''https://node.cheapeth.org/rpc'']
       [] ''https://cheapeth.org/'',
     Net ''Acala Network'' 787 ''aca'' 787 (Coin ''Acala Token'' ''ACA'' 18)
       []
       [] ''https://acala.network'',
     Net ''Haic'' 803 ''haic'' 803 (Coin ''Haicoin'' ''HAIC'' 18)
       [''https://orig.haichain.io/'']
       [] ''https://www.haichain.io/'',
     Net ''Callisto Mainnet'' 820 ''clo'' 1 (Coin ''Callisto Mainnet Ether'' ''CLO'' 18)
       [''https://clo-geth.0xinfra.com'']
       [] ''https://callisto.network'',
     Net ''Callisto Testnet'' 821 ''tclo'' 2 (Coin ''Callisto Testnet Ether'' ''TCLO'' 18)
       []
       [] ''https://callisto.network'',
     Net ''Ambros Chain Mainnet'' 880 ''ambros'' 880 (Coin ''AMBROS'' ''AMBR'' 18)
       [''https://mainnet.ambroschain.com'']
       [] ''https://bcmhunt.com/'']"

definition chains_17 :: "net list" where
  "chains_17 = [
     Net ''Wanchain'' 888 ''wan'' 888 (Coin ''Wancoin'' ''WAN'' 18)
       [''https://gwan-ssl.wandevs.org:56891/'']
       [] ''https://www.wanscan.org'',
     Net ''PulseChain Testnet'' 940 ''tpls'' 940 (Coin ''Test Pulse'' ''tPLS'' 18)
       [''https://rpc.testnet.pulsechain.com/v1/${PULSECHAIN_API_KEY}'', ''wss://rpc.testnet.pulsechain.com/ws/v1/${PULSECHAIN_API_KEY}'']
       [] ''https://pulsechain.com/'',
     Net ''Nepal Blockchain Network'' 977 ''yeti'' 977 (Coin ''Nepal Blockchain Network Ether'' ''YETI'' 18)
       [''https://api.nepalblockchain.dev'', ''https://api.nepalblockchain.network'']
       [''https://faucet.nepalblockchain.network''] ''https://nepalblockchain.network'',
     Net ''Lucky Network'' 998 ''ln'' 998 (Coin ''Lucky'' ''L99'' 18)
       [''https://rpc.luckynetwork.org'', ''wss://ws.lnscan.org'', ''https://rpc.lnscan.org'']
       [] ''https://luckynetwork.org'',
     Net ''Wanchain Testnet'' 999 ''twan'' 999 (Coin ''Wancoin'' ''WAN'' 18)
       [''https://gwan-ssl.wandevs.org:46891/'']
       [] ''https://testnet.wanscan.org'',
     Net ''Klaytn Testnet Baobab'' 1001 ''Baobab'' 1001 (Coin ''KLAY'' ''KLAY'' 18)
       [''https://api.baobab.klaytn.net:8651'']
       [''https://baobab.wallet.klaytn.com/access?next=faucet''] ''https://www.klaytn.com/'',
     Net ''Newton Testnet'' 1007 ''tnew'' 1007 (Coin ''Newton'' ''NEW'' 18)
       [''https://rpc1.newchain.newtonproject.org'']
       [] ''https://www.newtonproject.org/'',
     Net ''Evrice Network'' 1010 ''EVC'' 1010 (Coin ''Evrice'' ''EVC'' 18)
       [''https://meta.evrice.com'']
       [] ''https://evrice.com'']"

definition chains_18 :: "net list" where
  "chains_18 = [
     Net ''Newton'' 1012 ''new'' 1012 (Coin ''Newton'' ''NEW'' 18)
       [''https://global.rpc.mainnet.newtonproject.org'']
       [] ''https://www.newtonproject.org/'',
     Net ''Sakura'' 1022 ''sku'' 1022 (Coin ''Sakura'' ''SKU'' 18)
       []
       [] ''https://clover.finance/sakura'',
     Net ''Clover Testnet'' 1023 ''tclv'' 1023 (Coin ''Clover'' ''CLV'' 18)
       []
       [] ''https://clover.finance'',
     Net ''Clover Mainnet'' 1024 ''clv'' 1024 (Coin ''Clover'' ''CLV'' 18)
       [''https://rpc-ivy.clover.finance'', ''https://rpc-ivy-2.clover.finance'', ''https://rpc-ivy-3.clover.finance'']
       [] ''https://clover.finance'',
     Net ''BitTorrent Chain Testnet'' 1028 ''tbtt'' 1028 (Coin ''BitTorrent'' ''BTT'' 18)
       [''https://testrpc.bittorrentchain.io/'']
       [] ''https://bittorrentchain.io/'',
     Net ''Conflux'' 1030 ''cfx'' 1030 (Coin ''CFX'' ''CFX'' 18)
       [''https://ethcore.confluxrpc.com'']
       [] ''https://confluxnetwork.org'',
     Net ''Metis Andromeda Mainnet'' 1088 ''metis-andromeda'' 1088 (Coin ''Metis'' ''METIS'' 18)
       [''https://andromeda.metis.io/?owner=1088'']
       [] ''https://www.metis.io'',
     Net ''MathChain'' 1139 ''MATH'' 1139 (Coin ''MathChain'' ''MATH'' 18)
       [''https://mathchain-asia.maiziqianbao.net/rpc'', ''https://mathchain-us.maiziqianbao.net/rpc'']
       [] ''https://mathchain.org'',
     Net ''MathChain Testnet'' 1140 ''tMATH'' 1140 (Coin ''MathChain'' ''MATH'' 18)
       [''https://galois-hk.maiziqianbao.net/rpc'']
       [''https://scan.boka.network/#/Galois/faucet''] ''https://mathchain.org'']"

definition chains_19 :: "net list" where
  "chains_19 = [
     Net ''World Trade Technical Chain Mainnet'' 1202 ''wtt'' 2048 (Coin ''World Trade Token'' ''WTT'' 18)
       [''https://rpc.cadaut.com'', ''wss://rpc.cadaut.com/ws'']
       [] ''http://www.cadaut.com'',
     Net ''Popcateum Mainnet'' 1213 ''popcat'' 1213 (Coin ''Popcat'' ''POP'' 18)
       [''https://dataseed.popcateum.org'']
       [] ''https://popcateum.org'',
     Net ''HALO Mainnet'' 1280 ''HO'' 1280 (Coin ''HALO'' ''HO'' 18)
       [''https://nodes.halo.land'']
       [] ''https://halo.land/#/'',
     Net ''Moonbeam'' 1284 ''mbeam'' 1284 (Coin ''Glimmer'' ''GLMR'' 18)
       [''https://rpc.api.moonbeam.network'', ''wss://wss.api.moonbeam.network'']
       [] ''https://moonbeam.network/networks/moonbeam/'',
     Net ''Moonriver'' 1285 ''mriver'' 1285 (Coin ''Moonriver'' ''MOVR'' 18)
       [''https://rpc.moonriver.moonbeam.network'', ''wss://wss.moonriver.moonbeam.network'']
       [] ''https://moonbeam.network/networks/moonriver/'',
     Net ''Moonbase Alpha'' 1287 ''mbase'' 1287 (Coin ''Dev'' ''DEV'' 18)
       [''https://rpc.api.moonbase.moonbeam.network'', ''wss://wss.api.moonbase.moonbeam.network'']
       [] ''https://docs.moonbeam.network/networks/testnet/'',
     Net ''Moonrock'' 1288 ''mrock'' 1288 (Coin ''Rocs'' ''ROC'' 18)
       [''https://rpc.api.moonrock.moonbeam.network'', ''wss://wss.api.moonrock.moonbeam.network'']
       [] ''https://docs.moonbeam.network/learn/platform/networks/overview/'',
     Net ''Localhost'' 31337 ''localhost'' 31337 (Coin ''GO'' ''GO'' 18)
       [''http://localhost:8545'']
       [] ''http://localhost:8545'',
     Net ''Catecoin Chain Mainnet'' 1618 ''cate'' 1618 (Coin ''Catecoin'' ''CATE'' 18)
       [''https://send.catechain.com'']
       [] ''https://catechain.com'']"

definition chains_20 :: "net list" where
  "chains_20 = [
     Net ''Atheios'' 1620 ''ath'' 11235813 (Coin ''Atheios Ether'' ''ATH'' 18)
       [''https://wallet.atheios.com:8797'']
       [] ''https://atheios.com'',
     Net ''Btachain'' 1657 ''bta'' 1657 (Coin ''Bitcoin Asset'' ''BTA'' 18)
       [''https://dataseed1.btachain.com/'']
       [] ''https://bitcoinasset.io/'',
     Net ''Teslafunds'' 1856 ''tsf'' 1 (Coin ''Teslafunds Ether'' ''TSF'' 18)
       [''https://tsfapi.europool.me'']
       [] ''https://teslafunds.io'',
     Net ''EtherGem'' 1987 ''egem'' 1987 (Coin ''EtherGem Ether'' ''EGEM'' 18)
       [''https://jsonrpc.egem.io/custom'']
       [] ''https://egem.io'',
     Net ''420coin'' 2020 ''420'' 2020 (Coin ''Fourtwenty'' ''420'' 18)
       []
       [] ''https://420integrated.com'',
     Net ''Edgeware Mainnet'' 2021 ''edg'' 2021 (Coin ''Edge'' ''EDG'' 18)
       [''https://mainnet1.edgewa.re'']
       [] ''http://edgewa.re'',
     Net ''Beresheet Testnet'' 2022 ''edgt'' 2022 (Coin ''Testnet Edge'' ''tEDG'' 18)
       [''https://beresheet1.edgewa.re'']
       [] ''http://edgewa.re'',
     Net ''Rangers Protocol Mainnet'' 2025 ''rpg'' 2025 (Coin ''Rangers Protocol Gas'' ''RPG'' 18)
       [''https://mainnet.rangersprotocol.com/api/jsonrpc'']
       [] ''https://rangersprotocol.com'',
     Net ''Ecoball Mainnet'' 2100 ''eco'' 2100 (Coin ''Ecoball Coin'' ''ECO'' 18)
       [''https://api.ecoball.org/ecoball/'']
       [] ''https://ecoball.org'']"

definition chains_21 :: "net list" where
  "chains_21 = [
     Net ''Ecoball Testnet Espuma'' 2101 ''esp'' 2101 (Coin ''Espuma Coin'' ''ECO'' 18)
       [''https://api.ecoball.org/espuma/'']
       [] ''https://ecoball.org'',
     Net ''Kortho Mainnet'' 2559 ''ktoc'' 2559 (Coin ''KorthoChain'' ''KTO'' 11)
       [''https://www.kortho-chain.com'']
       [] ''https://www.kortho.io/'',
     Net ''ZCore Testnet'' 3331 ''zcrbeach'' 3331 (Coin ''ZCore'' ''ZCR'' 18)
       [''https://rpc-testnet.zcore.cash'']
       [''https://faucet.zcore.cash''] ''https://zcore.cash'',
     Net ''Bittex Mainnet'' 3690 ''btx'' 3690 (Coin ''Bittex'' ''BTX'' 18)
       [''https://rpc1.bittexscan.info'', ''https://rpc2.bittexscan.info'']
       [] ''https://bittexscan.com'',
     Net ''Fantom Testnet'' 4002 ''tftm'' 4002 (Coin ''Fantom'' ''FTM'' 18)
       [''https://rpc.testnet.fantom.network'']
       [''https://faucet.fantom.network''] ''https://docs.fantom.foundation/quick-start/short-guide#fantom-testnet'',
     Net ''IoTeX Network Mainnet'' 4689 ''iotex-mainnet'' 4689 (Coin ''IoTeX'' ''IOTX'' 18)
       [''https://babel-api.mainnet.iotex.io'']
       [] ''https://iotex.io'',
     Net ''IoTeX Network Testnet'' 4690 ''iotex-testnet'' 4690 (Coin ''IoTeX'' ''IOTX'' 18)
       [''https://babel-api.testnet.iotex.io'']
       [''https://faucet.iotex.io/''] ''https://iotex.io'',
     Net ''EraSwap Mainnet'' 5197 ''es'' 5197 (Coin ''EraSwap'' ''ES'' 18)
       [''https://mainnet.eraswap.network'', ''https://rpc-mumbai.mainnet.eraswap.network'']
       [] ''https://eraswap.info/'']"

definition chains_22 :: "net list" where
  "chains_22 = [
     Net ''Uzmi Network Mainnet'' 5315 ''UZMI'' 5315 (Coin ''UZMI'' ''UZMI'' 18)
       [''https://network.uzmigames.com.br/'']
       [] ''https://uzmigames.com.br/'',
     Net ''Syscoin Tanenbaum Testnet'' 5700 ''tsys'' 5700 (Coin ''Testnet Syscoin'' ''tSYS'' 18)
       [''https://rpc.tanenbaum.io'', ''wss://rpc.tanenbaum.io/wss'']
       [''https://faucet.tanenbaum.io''] ''https://syscoin.org'',
     Net ''Ontology Testnet'' 5851 ''Ontology Testnet'' 5851 (Coin ''ONG'' ''ONG'' 9)
       [''https://polaris1.ont.io:20339'', ''https://polaris2.ont.io:20339'', ''https://polaris3.ont.io:20339'', ''https://polaris4.ont.io:20339'']
       [''https://developer.ont.io/''] ''https://ont.io/'',
     Net ''Wegochain Rubidium Mainnet'' 5869 ''rbd'' 5869 (Coin ''Rubid'' ''RBD'' 18)
       [''https://proxy.wegochain.io'', ''http://wallet.wegochain.io:7764'']
       [] ''http://wegochain.io'',
     Net ''Pixie Chain Mainnet'' 6626 ''pixie-chain'' 6626 (Coin ''Pixie Chain Native Token'' ''PIX'' 18)
       [''https://http-mainnet.chain.pixie.xyz'', ''wss://ws-mainnet.chain.pixie.xyz'']
       [] ''https://chain.pixie.xyz'',
     Net ''Hazlor Testnet'' 7878 ''tscas'' 7878 (Coin ''Hazlor Test Coin'' ''TSCAS'' 18)
       [''https://hatlas.rpc.hazlor.com:8545'', ''wss://hatlas.rpc.hazlor.com:8546'']
       [''https://faucet.hazlor.com''] ''https://hazlor.com'',
     Net ''MDGL Testnet'' 8029 ''mdgl'' 8029 (Coin ''MDGL Token'' ''MDGLT'' 18)
       [''https://testnet.mdgl.io'']
       [] ''https://mdgl.io'',
     Net ''GeneChain Adenine Testnet'' 8080 ''GeneChainAdn'' 8080 (Coin ''Testnet RNA'' ''tRNA'' 18)
       [''https://rpc-testnet.genechain.io'']
       [''https://faucet.genechain.io''] ''https://scan-testnet.genechain.io/'']"

definition chains_23 :: "net list" where
  "chains_23 = [
     Net ''Klaytn Mainnet Cypress'' 8217 ''Cypress'' 8217 (Coin ''KLAY'' ''KLAY'' 18)
       [''https://public-node-api.klaytnapi.com/v1/cypress'']
       [] ''https://www.klaytn.com/'',
     Net ''KorthoTest'' 8285 ''Kortho'' 8285 (Coin ''Kortho Test'' ''KTO'' 11)
       [''https://www.krotho-test.net'']
       [] ''https://www.kortho.io/'',
     Net ''TOOL Global Mainnet'' 8723 ''olo'' 8723 (Coin ''TOOL Global'' ''OLO'' 18)
       [''https://mainnet-web3.wolot.io'']
       [] ''https://ibdt.io'',
     Net ''TOOL Global Testnet'' 8724 ''tolo'' 8724 (Coin ''TOOL Global'' ''OLO'' 18)
       [''https://testnet-web3.wolot.io'']
       [''https://testnet-explorer.wolot.io''] ''https://testnet-explorer.wolot.io'',
     Net ''Ambros Chain Testnet'' 8888 ''ambrostestnet'' 8888 (Coin ''AMBROS'' ''AMBR'' 18)
       [''https://testnet.ambroschain.com'']
       [] ''https://bcmhunt.com/'',
     Net ''bloxberg'' 8995 ''berg'' 8995 (Coin ''BERG'' ''U+25B3'' 18)
       [''https://core.bloxberg.org'']
       [''https://faucet.bloxberg.org/''] ''https://bloxberg.org'',
     Net ''Evmos Testnet'' 9000 ''evmos-mons'' 9000 (Coin ''Photon'' ''PHOTON'' 18)
       [''https://ethereum.rpc.evmos.dev'']
       [''https://faucet.evmos.org''] ''https://evmos.org'',
     Net ''Evmos'' 9001 ''evmos'' 9001 (Coin ''Evmos'' ''EVMOS'' 18)
       [''https://ethereum.rpc.evmos.org'']
       [] ''https://evmos.org'']"

definition chains_24 :: "net list" where
  "chains_24 = [
     Net ''Genesis Coin'' 9100 ''GENEC'' 9100 (Coin ''GN Coin'' ''GNC'' 18)
       [''https://genesis-gn.com'', ''wss://genesis-gn.com'']
       [] ''https://genesis-gn.com'',
     Net ''Rangers Protocol Testnet Robin'' 9527 ''trpg'' 9527 (Coin ''Rangers Protocol Gas'' ''tRPG'' 18)
       [''https://robin.rangersprotocol.com/api/jsonrpc'']
       [''https://robin-faucet.rangersprotocol.com''] ''https://rangersprotocol.com'',
     Net ''myOwn Testnet'' 9999 ''myn'' 9999 (Coin ''MYN'' ''MYN'' 18)
       [''https://geth.dev.bccloud.net'']
       [] ''https://docs.bccloud.net/'',
     Net ''Smart Bitcoin Cash'' 10000 ''smartbch'' 10000 (Coin ''Bitcoin Cash'' ''BCH'' 18)
       [''https://smartbch.greyh.at'', ''https://rpc-mainnet.smartbch.org'', ''https://smartbch.fountainhead.cash/mainnet'',
        ''https://smartbch.devops.cash/mainnet'']
       [] ''https://smartbch.org/'',
     Net ''Smart Bitcoin Cash Testnet'' 10001 ''smartbchtest'' 10001 (Coin ''Bitcoin Cash Test Token'' ''BCHT'' 18)
       [''https://rpc-testnet.smartbch.org'', ''https://smartbch.devops.cash/testnet'']
       [] ''http://smartbch.org/'',
     Net ''Blockchain Genesis Mainnet'' 10101 ''GEN'' 10101 (Coin ''GEN'' ''GEN'' 18)
       [''https://eu.mainnet.xixoio.com'', ''https://us.mainnet.xixoio.com'', ''https://asia.mainnet.xixoio.com'']
       [] ''https://www.xixoio.com/'',
     Net ''Singularity ZERO Testnet'' 12051 ''tZERO'' 12051 (Coin ''ZERO'' ''tZERO'' 18)
       [''https://betaenv.singularity.gold:18545'']
       [''https://nft.singularity.gold''] ''https://www.singularity.gold'',
     Net ''Singularity ZERO Mainnet'' 12052 ''ZERO'' 12052 (Coin ''ZERO'' ''ZERO'' 18)
       [''https://zerorpc.singularity.gold'']
       [''https://zeroscan.singularity.gold''] ''https://www.singularity.gold'']"

definition chains_25 :: "net list" where
  "chains_25 = [
     Net ''MetaDot Mainnet'' 16000 ''mtt'' 16000 (Coin ''MetaDot Token'' ''MTT'' 18)
       [''https://mainnet.metadot.network'']
       [] ''https://metadot.network'',
     Net ''MetaDot Testnet'' 16001 ''mtttest'' 16001 (Coin ''MetaDot Token TestNet'' ''MTT-test'' 18)
       [''https://testnet.metadot.network'']
       [''https://faucet.metadot.network/''] ''https://metadot.network'',
     Net ''BTCIX Network'' 19845 ''btcix'' 19845 (Coin ''BTCIX Network'' ''BTCIX'' 18)
       [''https://seed.btcix.org/rpc'']
       [] ''https://bitcolojix.org'',
     Net ''Webchain'' 24484 ''web'' 37129 (Coin ''Webchain Ether'' ''WEB'' 18)
       [''https://node1.webchain.network'']
       [] ''https://webchain.network'',
     Net ''MintMe.com Coin'' 24734 ''mintme'' 37480 (Coin ''MintMe.com Coin'' ''MINTME'' 18)
       [''https://node1.mintme.com'']
       [] ''https://www.mintme.com'',
     Net ''Ethersocial Network'' 31102 ''esn'' 1 (Coin ''Ethersocial Network Ether'' ''ESN'' 18)
       [''https://api.esn.gonspool.com'']
       [] ''https://ethersocial.org'',
     Net ''Fusion Mainnet'' 32659 ''fsn'' 32659 (Coin ''Fusion'' ''FSN'' 18)
       [''https://mainnet.anyswap.exchange'', ''https://fsn.dev/api'']
       [] ''https://www.fusion.org/'',
     Net ''Energi Mainnet'' 39797 ''nrg'' 39797 (Coin ''Energi'' ''NRG'' 18)
       [''https://nodeapi.energi.network'']
       [] ''https://www.energi.world/'',
     Net ''pegglecoin'' 42069 ''PC'' 42069 (Coin ''pegglecoin'' ''peggle'' 18)
       []
       [] ''https://teampeggle.com'']"

definition chains_26 :: "net list" where
  "chains_26 = [
     Net ''Arbitrum One'' 42161 ''arb1'' 42161 (Coin ''Ether'' ''AETH'' 18)
       [''https://arbitrum-mainnet.infura.io/v3/${INFURA_API_KEY}'', ''https://arb-mainnet.g.alchemy.com/v2/${ALCHEMY_API_KEY}'',
        ''https://arb1.arbitrum.io/rpc'', ''wss://arb1.arbitrum.io/ws'']
       [] ''https://arbitrum.io'',
     Net ''Celo Mainnet'' 42220 ''CELO'' 42220 (Coin ''CELO'' ''CELO'' 18)
       [''https://forno.celo.org'', ''wss://forno.celo.org/ws'']
       [''https://free-online-app.com/faucet-for-eth-evm-chains/''] ''https://docs.celo.org/'',
     Net ''Emerald Paratime Testnet'' 42261 ''emerald'' 42261 (Coin ''Emerald Rose'' ''ROSE'' 18)
       [''https://testnet.emerald.oasis.dev/'', ''wss://testnet.emerald.oasis.dev/ws'']
       [] ''https://docs.oasis.dev/general/developer-resources/overview'',
     Net ''Emerald Paratime Mainnet'' 42262 ''oasis'' 42262 (Coin ''Emerald Rose'' ''ROSE'' 18)
       [''https://emerald.oasis.dev'', ''wss://emerald.oasis.dev/ws'']
       [] ''https://docs.oasis.dev/general/developer-resources/overview'',
     Net ''Athereum'' 43110 ''avaeth'' 43110 (Coin ''Athereum Ether'' ''ATH'' 18)
       [''https://ava.network:21015/ext/evm/rpc'']
       [''http://athfaucet.ava.network//?address=${ADDRESS}''] ''https://athereum.ava.network'',
     Net ''Avalanche Fuji Testnet'' 43113 ''Fuji'' 1 (Coin ''Avalanche'' ''AVAX'' 18)
       [''https://api.avax-test.network/ext/bc/C/rpc'']
       [''https://faucet.avax-test.network/''] ''https://cchain.explorer.avax-test.network'',
     Net ''Avalanche Mainnet'' 43114 ''Avalanche'' 43114 (Coin ''Avalanche'' ''AVAX'' 18)
       [''https://api.avax.network/ext/bc/C/rpc'']
       [''https://free-online-app.com/faucet-for-eth-evm-chains/''] ''https://www.avax.network/'',
     Net ''Celo Alfajores Testnet'' 44787 ''ALFA'' 44787 (Coin ''CELO'' ''CELO'' 18)
       [''https://alfajores-forno.celo-testnet.org'', ''wss://alfajores-forno.celo-testnet.org/ws'']
       [''https://celo.org/developers/faucet'', ''https://cauldron.pretoriaresearchlab.io/alfajores-faucet''] ''https://docs.celo.org/'']"

definition chains_27 :: "net list" where
  "chains_27 = [
     Net ''Energi Testnet'' 49797 ''tnrg'' 49797 (Coin ''Energi'' ''NRG'' 18)
       [''https://nodeapi.test.energi.network'']
       [] ''https://www.energi.world/'',
     Net ''Thinkium Testnet Chain 0'' 60000 ''TKM-test0'' 60000 (Coin ''TKM'' ''TKM'' 18)
       [''https://test.thinkiumrpc.net/'']
       [''https://www.thinkiumdev.net/faucet''] ''https://thinkium.net/'',
     Net ''Thinkium Testnet Chain 1'' 60001 ''TKM-test1'' 60001 (Coin ''TKM'' ''TKM'' 18)
       [''https://test1.thinkiumrpc.net/'']
       [''https://www.thinkiumdev.net/faucet''] ''https://thinkium.net/'',
     Net ''Thinkium Testnet Chain 2'' 60002 ''TKM-test2'' 60002 (Coin ''TKM'' ''TKM'' 18)
       [''https://test2.thinkiumrpc.net/'']
       [''https://www.thinkiumdev.net/faucet''] ''https://thinkium.net/'',
     Net ''Thinkium Testnet Chain 103'' 60103 ''TKM-test103'' 60103 (Coin ''TKM'' ''TKM'' 18)
       [''https://test103.thinkiumrpc.net/'']
       [''https://www.thinkiumdev.net/faucet''] ''https://thinkium.net/'',
     Net ''Celo Baklava Testnet'' 62320 ''BKLV'' 62320 (Coin ''CELO'' ''CELO'' 18)
       [''https://baklava-forno.celo-testnet.org'']
       [''https://docs.google.com/forms/d/e/1FAIpQLSdfr1BwUTYepVmmvfVUDRCwALejZ-TUva2YujNpvrEmPAX2pg/viewform'',
        ''https://cauldron.pretoriaresearchlab.io/baklava-faucet''] ''https://docs.celo.org/'',
     Net ''Thinkium Mainnet Chain 0'' 70000 ''TKM0'' 70000 (Coin ''TKM'' ''TKM'' 18)
       [''https://proxy.thinkiumrpc.net/'']
       [] ''https://thinkium.net/'',
     Net ''Thinkium Mainnet Chain 1'' 70001 ''TKM1'' 70001 (Coin ''TKM'' ''TKM'' 18)
       [''https://proxy1.thinkiumrpc.net/'']
       [] ''https://thinkium.net/'']"

definition chains_28 :: "net list" where
  "chains_28 = [
     Net ''Thinkium Mainnet Chain 2'' 70002 ''TKM2'' 70002 (Coin ''TKM'' ''TKM'' 18)
       [''https://proxy2.thinkiumrpc.net/'']
       [] ''https://thinkium.net/'',
     Net ''Thinkium Mainnet Chain 103'' 70103 ''TKM103'' 70103 (Coin ''TKM'' ''TKM'' 18)
       [''https://proxy103.thinkiumrpc.net/'']
       [] ''https://thinkium.net/'',
     Net ''Polyjuice Testnet'' 71393 ''ckb'' 1 (Coin ''CKB'' ''CKB'' 8)
       [''https://godwoken-testnet-web3-rpc.ckbapp.dev'', ''ws://godwoken-testnet-web3-rpc.ckbapp.dev/ws'']
       [''https://faucet.nervos.org/''] ''https://github.com/nervosnetwork/godwoken'',
     Net ''Energy Web Volta Testnet'' 73799 ''vt'' 73799 (Coin ''Volta Token'' ''VT'' 18)
       [''https://volta-rpc.energyweb.org'', ''wss://volta-rpc.energyweb.org/ws'']
       [''https://voltafaucet.energyweb.org''] ''https://energyweb.org'',
     Net ''Firenze test network'' 78110 ''firenze'' 78110 (Coin ''Firenze Ether'' ''FIN'' 18)
       [''https://ethnode.primusmoney.com/firenze'']
       [] ''https://primusmoney.com'',
     Net ''Polygon Testnet Mumbai'' 80001 ''maticmum'' 80001 (Coin ''MATIC'' ''MATIC'' 18)
       [''https://matic-mumbai.chainstacklabs.com'', ''https://rpc-mumbai.maticvigil.com'', ''https://matic-testnet-archive-rpc.bwarelabs.com'']
       [''https://faucet.polygon.technology/''] ''https://polygon.technology/'',
     Net ''QuarkChain Mainnet Root'' 100000 ''qkc-r'' 100000 (Coin ''QKC'' ''QKC'' 18)
       [''http://jrpc.mainnet.quarkchain.io:38391/'']
       [] ''https://www.quarkchain.io/'',
     Net ''QuarkChain Mainnet Shard 0'' 100001 ''qkc-s0'' 100001 (Coin ''QKC'' ''QKC'' 18)
       [''http://eth-jrpc.mainnet.quarkchain.io:39000/'']
       [] ''https://www.quarkchain.io/'']"

definition chains_29 :: "net list" where
  "chains_29 = [
     Net ''QuarkChain Mainnet Shard 1'' 100002 ''qkc-s1'' 100002 (Coin ''QKC'' ''QKC'' 18)
       [''http://eth-jrpc.mainnet.quarkchain.io:39001/'']
       [] ''https://www.quarkchain.io/'',
     Net ''QuarkChain Mainnet Shard 2'' 100003 ''qkc-s2'' 100003 (Coin ''QKC'' ''QKC'' 18)
       [''http://eth-jrpc.mainnet.quarkchain.io:39002/'']
       [] ''https://www.quarkchain.io/'',
     Net ''QuarkChain Mainnet Shard 3'' 100004 ''qkc-s3'' 100004 (Coin ''QKC'' ''QKC'' 18)
       [''http://eth-jrpc.mainnet.quarkchain.io:39003/'']
       [] ''https://www.quarkchain.io/'',
     Net ''QuarkChain Mainnet Shard 4'' 100005 ''qkc-s4'' 100005 (Coin ''QKC'' ''QKC'' 18)
       [''http://eth-jrpc.mainnet.quarkchain.io:39004/'']
       [] ''https://www.quarkchain.io/'',
     Net ''QuarkChain Mainnet Shard 5'' 100006 ''qkc-s5'' 100006 (Coin ''QKC'' ''QKC'' 18)
       [''http://eth-jrpc.mainnet.quarkchain.io:39005/'']
       [] ''https://www.quarkchain.io/'',
     Net ''QuarkChain Mainnet Shard 6'' 100007 ''qkc-s6'' 100007 (Coin ''QKC'' ''QKC'' 18)
       [''http://eth-jrpc.mainnet.quarkchain.io:39006/'']
       [] ''https://www.quarkchain.io/'',
     Net ''QuarkChain Mainnet Shard 7'' 100008 ''qkc-s7'' 100008 (Coin ''QKC'' ''QKC'' 18)
       [''http://eth-jrpc.mainnet.quarkchain.io:39007/'']
       [] ''https://www.quarkchain.io/'',
     Net ''QuarkChain Devnet Root'' 110000 ''qkc-d-r'' 110000 (Coin ''QKC'' ''QKC'' 18)
       [''http://jrpc.devnet.quarkchain.io:38391/'']
       [] ''https://www.quarkchain.io/'',
     Net ''QuarkChain Devnet Shard 0'' 110001 ''qkc-d-s0'' 110001 (Coin ''QKC'' ''QKC'' 18)
       [''http://eth-jrpc.devnet.quarkchain.io:39900/'']
       [] ''https://www.quarkchain.io/'']"

definition chains_30 :: "net list" where
  "chains_30 = [
     Net ''QuarkChain Devnet Shard 1'' 110002 ''qkc-d-s1'' 110002 (Coin ''QKC'' ''QKC'' 18)
       [''http://eth-jrpc.devnet.quarkchain.io:39901/'']
       [] ''https://www.quarkchain.io/'',
     Net ''QuarkChain Devnet Shard 2'' 110003 ''qkc-d-s2'' 110003 (Coin ''QKC'' ''QKC'' 18)
       [''http://eth-jrpc.devnet.quarkchain.io:39902/'']
       [] ''https://www.quarkchain.io/'',
     Net ''QuarkChain Devnet Shard 3'' 110004 ''qkc-d-s3'' 110004 (Coin ''QKC'' ''QKC'' 18)
       [''http://eth-jrpc.devnet.quarkchain.io:39903/'']
       [] ''https://www.quarkchain.io/'',
     Net ''QuarkChain Devnet Shard 4'' 110005 ''qkc-d-s4'' 110005 (Coin ''QKC'' ''QKC'' 18)
       [''http://eth-jrpc.devnet.quarkchain.io:39904/'']
       [] ''https://www.quarkchain.io/'',
     Net ''QuarkChain Devnet Shard 5'' 110006 ''qkc-d-s5'' 110006 (Coin ''QKC'' ''QKC'' 18)
       [''http://eth-jrpc.devnet.quarkchain.io:39905/'']
       [] ''https://www.quarkchain.io/'',
     Net ''QuarkChain Devnet Shard 6'' 110007 ''qkc-d-s6'' 110007 (Coin ''QKC'' ''QKC'' 18)
       [''http://eth-jrpc.devnet.quarkchain.io:39906/'']
       [] ''https://www.quarkchain.io/'',
     Net ''QuarkChain Devnet Shard 7'' 110008 ''qkc-d-s7'' 110008 (Coin ''QKC'' ''QKC'' 18)
       [''http://eth-jrpc.devnet.quarkchain.io:39907/'']
       [] ''https://www.quarkchain.io/'',
     Net ''Akroma'' 200625 ''aka'' 200625 (Coin ''Akroma Ether'' ''AKA'' 18)
       [''https://remote.akroma.io'']
       [] ''https://akroma.io'',
     Net ''Alaya Mainnet'' 201018 ''alaya'' 1 (Coin ''ATP'' ''atp'' 18)
       [''https://openapi.alaya.network/rpc'', ''wss://openapi.alaya.network/ws'']
       [] ''https://www.alaya.network/'']"

definition chains_31 :: "net list" where
  "chains_31 = [
     Net ''Alaya Dev Testnet'' 201030 ''alayadev'' 1 (Coin ''ATP'' ''atp'' 18)
       [''https://devnetopenapi.alaya.network/rpc'', ''wss://devnetopenapi.alaya.network/ws'']
       [''https://faucet.alaya.network/faucet/?id=f93426c0887f11eb83b900163e06151c''] ''https://www.alaya.network/'',
     Net ''PlatON Dev Testnet'' 210309 ''PlatON'' 1 (Coin ''LAT'' ''lat'' 18)
       [''https://devnetopenapi.platon.network/rpc'', ''wss://devnetopenapi.platon.network/ws'']
       [''https://faucet.platon.network/faucet/?id=e5d32df10aee11ec911142010a667c03''] ''https://www.platon.network'',
     Net ''ARTIS sigma1'' 246529 ''ats'' 246529 (Coin ''ARTIS sigma1 Ether'' ''ATS'' 18)
       [''https://rpc.sigma1.artis.network'']
       [] ''https://artis.eco'',
     Net ''ARTIS Testnet tau1'' 246785 ''atstau'' 246785 (Coin ''ARTIS tau1 Ether'' ''tATS'' 18)
       [''https://rpc.tau1.artis.network'']
       [] ''https://artis.network'',
     Net ''Social Smart Chain Mainnet'' 281121 ''SoChain'' 281121 (Coin ''SoChain'' ''$OC'' 18)
       [''https://socialsmartchain.digitalnext.business'']
       [] ''https://digitalnext.business/SocialSmartChain'',
     Net ''Polis Testnet'' 333888 ''sparta'' 333888 (Coin ''tPolis'' ''tPOLIS'' 18)
       [''https://sparta-rpc.polis.tech'']
       [''https://faucet.polis.tech''] ''https://polis.tech'',
     Net ''Polis Mainnet'' 333999 ''olympus'' 333999 (Coin ''Polis'' ''POLIS'' 18)
       [''https://rpc.polis.tech'']
       [''https://faucet.polis.tech''] ''https://polis.tech'',
     Net ''Arbitrum Rinkeby'' 421611 ''arb-rinkeby'' 421611 (Coin ''Arbitrum Rinkeby Ether'' ''ARETH'' 18)
       [''https://rinkeby.arbitrum.io/rpc'', ''wss://rinkeby.arbitrum.io/ws'']
       [] ''https://arbitrum.io'']"

definition chains_32 :: "net list" where
  "chains_32 = [
     Net ''Arbitrum Sepolia'' 421614 ''arb-sepolia'' 421614 (Coin ''Arbitrum Rinkeby Ether'' ''ARETH'' 18)
       [''https://arbitrum-sepolia.blockpi.network/v1/rpc/public '']
       [] ''https://sepolia-explorer.arbitrum.io'',
     Net ''Eluvio Content Fabric'' 955305 ''elv'' 955305 (Coin ''ELV'' ''ELV'' 18)
       [''https://host-76-74-28-226.contentfabric.io/eth/'', ''https://host-76-74-28-232.contentfabric.io/eth/'',
        ''https://host-76-74-29-2.contentfabric.io/eth/'', ''https://host-76-74-29-8.contentfabric.io/eth/'',
        ''https://host-76-74-29-34.contentfabric.io/eth/'', ''https://host-76-74-29-35.contentfabric.io/eth/'',
        ''https://host-154-14-211-98.contentfabric.io/eth/'', ''https://host-154-14-192-66.contentfabric.io/eth/'',
        ''https://host-60-240-133-202.contentfabric.io/eth/'', ''https://host-64-235-250-98.contentfabric.io/eth/'']
       [] ''https://eluv.io'',
     Net ''Etho Protocol'' 1313114 ''etho'' 1313114 (Coin ''Etho Protocol'' ''ETHO'' 18)
       [''https://rpc.ether1.org'']
       [] ''https://ethoprotocol.com'',
     Net ''Xerom'' 1313500 ''xero'' 1313500 (Coin ''Xerom Ether'' ''XERO'' 18)
       [''https://rpc.xerom.org'']
       [] ''https://xerom.org'',
     Net ''Kintsugi'' 1337702 ''kintsugi'' 1337702 (Coin ''kintsugi Ethere'' ''kiETH'' 18)
       [''https://rpc.kintsugi.themerge.dev'']
       [''https://faucet.kintsugi.themerge.dev''] ''https://kintsugi.themerge.dev/'',
     Net ''Musicoin'' 7762959 ''music'' 7762959 (Coin ''Musicoin'' ''MUSIC'' 18)
       [''https://mewapi.musicoin.tw'']
       [] ''https://musicoin.tw'',
     Net ''PepChain Churchill'' 13371337 ''tpep'' 13371337 (Coin ''PepChain Churchill Ether'' ''TPEP'' 18)
       [''https://churchill-rpc.pepchain.io'']
       [] ''https://pepchain.io'',
     Net ''IOLite'' 18289463 ''ilt'' 18289463 (Coin ''IOLite Ether'' ''ILT'' 18)
       [''https://net.iolite.io'']
       [] ''https://iolite.io'']"

definition chains_33 :: "net list" where
  "chains_33 = [
     Net ''quarkblockchain'' 20181205 ''qki'' 20181205 (Coin ''quarkblockchain Native Token'' ''QKI'' 18)
       [''https://hz.rpc.qkiscan.cn'', ''https://jp.rpc.qkiscan.io'']
       [] ''https://quarkblockchain.org/'',
     Net ''Auxilium Network Mainnet'' 28945486 ''auxi'' 28945486 (Coin ''Auxilium coin'' ''AUX'' 18)
       [''https://rpc.auxilium.global'']
       [] ''https://auxilium.global'',
     Net ''Joys Digital Mainnet'' 35855456 ''JOYS'' 35855456 (Coin ''JOYS'' ''JOYS'' 18)
       [''https://node.joys.digital'']
       [] ''https://joys.digital'',
     Net ''Aquachain'' 61717561 ''aqua'' 61717561 (Coin ''Aquachain Ether'' ''AQUA'' 18)
       [''https://c.onical.org'', ''https://tx.aquacha.in/api'']
       [''https://aquacha.in/faucet''] ''https://aquachain.github.io'',
     Net ''Joys Digital TestNet'' 99415706 ''TOYS'' 99415706 (Coin ''TOYS'' ''TOYS'' 18)
       [''https://toys.joys.cash/'']
       [''https://faucet.joys.digital/''] ''https://joys.digital'',
     Net ''Gather Mainnet Network'' 192837465 ''GTH'' 192837465 (Coin ''Gather'' ''GTH'' 18)
       [''https://mainnet.gather.network'']
       [] ''https://gather.network'',
     Net ''Neon EVM DevNet'' 245022926 ''neonevm-devnet'' 245022926 (Coin ''Neon'' ''NEON'' 18)
       [''https://proxy.devnet.neonlabs.org/solana'']
       [''https://neonswap.live/#/get-tokens''] ''https://neon-labs.org/'',
     Net ''Neon EVM MainNet'' 245022934 ''neonevm-mainnet'' 245022934 (Coin ''Neon'' ''NEON'' 18)
       [''https://proxy.mainnet.neonlabs.org/solana'']
       [] ''https://neon-labs.org/'']"

definition chains_34 :: "net list" where
  "chains_34 = [
     Net ''Neon EVM TestNet'' 245022940 ''neonevm-testnet'' 245022940 (Coin ''Neon'' ''NEON'' 18)
       [''https://proxy.testnet.neonlabs.org/solana'']
       [] ''https://neon-labs.org/'',
     Net ''OneLedger Mainnet'' 311752642 ''oneledger'' 311752642 (Coin ''OLT'' ''OLT'' 18)
       [''https://mainnet-rpc.oneledger.network'']
       [] ''https://oneledger.io'',
     Net ''Gather Tesnet Network'' 356256156 ''tGTH'' 356256156 (Coin ''Gather'' ''GTH'' 18)
       [''https://testnet.gather.network'']
       [] ''https://gather.network'',
     Net ''Gather Devnet Network'' 486217935 ''dGTH'' 486217935 (Coin ''Gather'' ''GTH'' 18)
       [''https://devnet.gather.network'']
       [] ''https://gather.network'',
     Net ''IPOS Network'' 1122334455 ''ipos'' 1122334455 (Coin ''IPOS Network Ether'' ''IPOS'' 18)
       [''https://rpc.iposlab.com'', ''https://rpc2.iposlab.com'']
       [] ''https://iposlab.com'',
     Net ''Aurora MainNet'' 1313161554 ''aurora'' 1313161554 (Coin ''Ether'' ''aETH'' 18)
       [''https://mainnet.aurora.dev'']
       [] ''https://aurora.dev'',
     Net ''Aurora TestNet'' 1313161555 ''aurora-testnet'' 1313161555 (Coin ''Ether'' ''aETH'' 18)
       [''https://testnet.aurora.dev/'']
       [] ''https://aurora.dev'',
     Net ''Aurora BetaNet'' 1313161556 ''aurora-betanet'' 1313161556 (Coin ''Ether'' ''aETH'' 18)
       [''https://betanet.aurora.dev/'']
       [] ''https://aurora.dev'',
     Net ''Harmony Mainnet Shard 0'' 1666600000 ''hmy-s0'' 1666600000 (Coin ''ONE'' ''ONE'' 18)
       [''https://api.harmony.one'']
       [''https://free-online-app.com/faucet-for-eth-evm-chains/''] ''https://www.harmony.one/'']"

definition chains_35 :: "net list" where
  "chains_35 = [
     Net ''Harmony Mainnet Shard 1'' 1666600001 ''hmy-s1'' 1666600001 (Coin ''ONE'' ''ONE'' 18)
       [''https://s1.api.harmony.one'']
       [] ''https://www.harmony.one/'',
     Net ''Harmony Mainnet Shard 2'' 1666600002 ''hmy-s2'' 1666600002 (Coin ''ONE'' ''ONE'' 18)
       [''https://s2.api.harmony.one'']
       [] ''https://www.harmony.one/'',
     Net ''Harmony Mainnet Shard 3'' 1666600003 ''hmy-s3'' 1666600003 (Coin ''ONE'' ''ONE'' 18)
       [''https://s3.api.harmony.one'']
       [] ''https://www.harmony.one/'',
     Net ''Harmony Testnet Shard 0'' 1666700000 ''hmy-b-s0'' 1666700000 (Coin ''ONE'' ''ONE'' 18)
       [''https://api.s0.b.hmny.io'']
       [''https://faucet.pops.one''] ''https://www.harmony.one/'',
     Net ''Harmony Testnet Shard 1'' 1666700001 ''hmy-b-s1'' 1666700001 (Coin ''ONE'' ''ONE'' 18)
       [''https://api.s1.b.hmny.io'']
       [] ''https://www.harmony.one/'',
     Net ''Harmony Testnet Shard 2'' 1666700002 ''hmy-b-s2'' 1666700002 (Coin ''ONE'' ''ONE'' 18)
       [''https://api.s2.b.hmny.io'']
       [] ''https://www.harmony.one/'',
     Net ''Harmony Testnet Shard 3'' 1666700003 ''hmy-b-s3'' 1666700003 (Coin ''ONE'' ''ONE'' 18)
       [''https://api.s3.b.hmny.io'']
       [] ''https://www.harmony.one/'',
     Net ''DataHopper'' 2021121117 ''hop'' 2021121117 (Coin ''DataHoppers'' ''HOP'' 18)
       [''https://23.92.21.121:8545'']
       [] ''https://www.DataHopper.com'',
     Net ''Pirl'' 3125659152 ''pirl'' 3125659152 (Coin ''Pirl Ether'' ''PIRL'' 18)
       [''https://wallrpc.pirl.io'']
       [] ''https://pirl.io'']"

definition chains_36 :: "net list" where
  "chains_36 = [
     Net ''OneLedger Testnet Frankenstein'' 4216137055 ''frankenstein'' 4216137055 (Coin ''OLT'' ''OLT'' 18)
       [''https://frankenstein-rpc.oneledger.network'']
       [''https://frankenstein-faucet.oneledger.network''] ''https://oneledger.io'',
     Net ''Palm Testnet'' 11297108099 ''tpalm'' 11297108099 (Coin ''PALM'' ''PALM'' 18)
       []
       [] ''https://palm.io'',
     Net ''Palm Mainnet'' 11297108109 ''palm'' 11297108109 (Coin ''PALM'' ''PALM'' 18)
       []
       [] ''https://palm.io'',
     Net ''Ntity Mainnet'' 197710212030 ''ntt'' 197710212030 (Coin ''Ntity'' ''NTT'' 18)
       [''https://rpc.ntity.io'']
       [] ''https://ntity.io'',
     Net ''Haradev Testnet'' 197710212031 ''ntt-haradev'' 197710212031 (Coin ''Ntity Haradev'' ''NTTH'' 18)
       [''https://blockchain.haradev.com'']
       [] ''https://ntity.io'',
     Net ''Molereum Network'' 6022140761023 ''mole'' 6022140761023 (Coin ''Molereum Ether'' ''MOLE'' 18)
       [''https://molereum.jdubedition.com'']
       [] ''https://github.com/Jdubedition/molereum'']"

definition chains :: "net list" where
  "chains =
     chains_1 @ chains_2 @ chains_3 @ chains_4 @ chains_5 @ chains_6 @ chains_7 @ chains_8 @ chains_9 @ chains_10 @
     chains_11 @ chains_12 @ chains_13 @ chains_14 @ chains_15 @ chains_16 @ chains_17 @ chains_18 @ chains_19
     @ chains_20 @ chains_21 @ chains_22 @ chains_23 @ chains_24 @ chains_25 @ chains_26 @ chains_27 @
     chains_28 @ chains_29 @ chains_30 @ chains_31 @ chains_32 @ chains_33 @ chains_34 @ chains_35 @ chains_36"

end
