(* ===== verification/Chain_Search.thy ===== *)
theory Chain_Search
  imports Chain_Table Nova_Util Nova_Config
begin

text \<open>
  Looking up a chain: \<open>util/getRpcUrl.ts\<close> and \<open>util/wallet.ts\<close> of the launchpad over the table of \<open>util/chain_id.ts\<close>. An id
  comes as a number or as the hexadecimal string of a wallet; \<open>==\<close> converts it. The environment variables are \<open>env\<close>.
\<close>

section \<open>Comparing ids\<close>

definition hex_literal :: "string \<Rightarrow> nat option" where
  "hex_literal s = (case trim s of
     z # x # ds \<Rightarrow> if z = CHR ''0'' \<and> lower_char x = CHR ''x'' \<and> ds \<noteq> [] \<and> list_all is_hex ds
       then Some (foldl (\<lambda>a c. 16 * a + the (hex_val c)) 0 ds) else None
   | _ \<Rightarrow> None)"

definition loose_number :: "val \<Rightarrow> rat option" where
  "loose_number v = (case v of
     Str s \<Rightarrow> (case hex_literal s of Some n \<Rightarrow> Some (of_nat n) | None \<Rightarrow> to_number v)
   | _ \<Rightarrow> to_number v)"

definition same_id :: "val \<Rightarrow> nat \<Rightarrow> bool" where
  "same_id v n \<longleftrightarrow> v \<noteq> Null \<and> loose_number v = Some (of_nat n)"

definition find_chain :: "val \<Rightarrow> net option" where
  "find_chain v = List.find (\<lambda>n. same_id v (chain_id n)) chains"

definition net_val :: "net \<Rightarrow> val" where
  "net_val n = Obj [(''name'', Str (net_name n)), (''chainId'', Num (of_nat (chain_id n))), (''shortName'', Str (short_name n)),
     (''networkId'', Num (of_nat (network_id n))),
     (''nativeCurrency'', Obj [(''name'', Str (coin_name (native n))), (''symbol'', Str (coin_symbol (native n))),
        (''decimals'', Num (of_nat (coin_decimals (native n))))]),
     (''rpc'', Arr (map Str (rpc_urls n))), (''faucets'', Arr (map Str (faucet_urls n))), (''infoURL'', Str (info_url n))]"

section \<open>getRpcUrl.ts\<close>

definition DEFAULT_CHAIN_ID :: "(string \<rightharpoonup> string) \<Rightarrow> val" where
  "DEFAULT_CHAIN_ID env = num_val (case env ''NEXT_PUBLIC_CHAIN_ID'' of None \<Rightarrow> None | Some s \<Rightarrow> loose_number (Str s))"

definition chosen_id :: "(string \<rightharpoonup> string) \<Rightarrow> val \<Rightarrow> val" where
  "chosen_id env cid = (if cid = Undef then DEFAULT_CHAIN_ID env else cid)"

definition getNodes :: "(string \<rightharpoonup> string) \<Rightarrow> val \<Rightarrow> js_error + string list" where
  "getNodes env cid = (case find_chain (chosen_id env cid) of
     None \<Rightarrow> Inl (TypeError ''Cannot read properties of undefined'')
   | Some targetChain \<Rightarrow> Inr (rpc_urls targetChain))"

text \<open>\<open>random\<close> is what \<open>Math.random\<close> returns, from 0 inclusive to 1 exclusive.\<close>

definition getNodeUrl :: "(string \<rightharpoonup> string) \<Rightarrow> rat \<Rightarrow> val \<Rightarrow> js_error + val" where
  "getNodeUrl env random cid = (case getNodes env (chosen_id env cid) of
     Inl e \<Rightarrow> Inl e
   | Inr nodes \<Rightarrow> Inr (item (Arr (map Str nodes)) (nat \<lfloor>random * of_nat (length nodes)\<rfloor>)))"

definition getChain :: "(string \<rightharpoonup> string) \<Rightarrow> val \<Rightarrow> net option" where
  "getChain env cid = find_chain (chosen_id env cid)"

section \<open>wallet.ts\<close>

text \<open>The parameters of \<open>wallet_addEthereumChain\<close>, in \<open>useWallet.ts\<close> the same object.\<close>

definition add_params :: "net \<Rightarrow> val" where
  "add_params n = Arr [Obj [
     (''chainId'', Str (''0x'' @ show_hex (chain_id n))), (''chainName'', Str (net_name n)),
     (''nativeCurrency'', Obj [(''name'', Str (coin_name (native n))), (''symbol'', Str (coin_symbol (native n))),
        (''decimals'', Num (of_nat (coin_decimals (native n))))]),
     (''rpcUrls'', Arr (map Str (rpc_urls n))), (''blockExplorerUrls'', Arr [Str (info_url n @ ''/'')])]]"

text \<open>\<open>parseInt(v, 10)\<close> of the variable; a negative or missing one names no chain, and the \<open>TypeError\<close> is caught. What the
  object is asked for is computed before the wallet is called.\<close>

definition setup_chain :: "(string \<rightharpoonup> string) \<Rightarrow> net option" where
  "setup_chain env = (case env ''NEXT_PUBLIC_CHAIN_ID'' of None \<Rightarrow> None
     | Some s \<Rightarrow> (case parse_nat (dropWhile is_blank s) of None \<Rightarrow> None | Some n \<Rightarrow> find_chain (Num (of_nat n))))"

definition setupNetwork ::
  "(string \<rightharpoonup> string) \<Rightarrow> (string \<Rightarrow> val \<Rightarrow> ('w, val) io) option \<Rightarrow> ('w, bool) io" where
  "setupNetwork env provider = (case (provider, setup_chain env) of
     (Some request, Some n) \<Rightarrow>
       catchio (bindio (request ''wallet_addEthereumChain'' (add_params n)) (\<lambda>_. ret True)) (\<lambda>e. ret False)
   | _ \<Rightarrow> ret False)"

section \<open>The ids of the table\<close>

lemma ids_1: "map chain_id chains_1 = [1, 11155111, 2, 3, 4, 5, 6, 7]"
  by (simp only: chains_1_def list.map net.sel)

lemma ids_2: "map chain_id chains_2 = [8, 9, 10, 11, 12, 13, 14, 15, 16]"
  by (simp only: chains_2_def list.map net.sel)

lemma ids_3: "map chain_id chains_3 = [17, 18, 19, 20, 21, 22, 23, 24, 25]"
  by (simp only: chains_3_def list.map net.sel)

lemma ids_4: "map chain_id chains_4 = [26, 27, 28, 29, 30, 31, 32, 33]"
  by (simp only: chains_4_def list.map net.sel)

lemma ids_5: "map chain_id chains_5 = [34, 35, 38, 40, 41, 42, 43, 44]"
  by (simp only: chains_5_def list.map net.sel)

lemma ids_6: "map chain_id chains_6 = [50, 51, 52, 53, 55, 56, 57]"
  by (simp only: chains_6_def list.map net.sel)

lemma ids_7: "map chain_id chains_7 = [58, 59, 60, 61, 62, 63, 64, 65]"
  by (simp only: chains_7_def list.map net.sel)

lemma ids_8: "map chain_id chains_8 = [66, 67, 68, 69, 76, 77, 78, 80]"
  by (simp only: chains_8_def list.map net.sel)

lemma ids_9: "map chain_id chains_9 = [82, 83, 85, 86, 88, 95, 96, 97]"
  by (simp only: chains_9_def list.map net.sel)

lemma ids_10: "map chain_id chains_10 = [99, 100, 101, 102, 106, 108, 110, 111]"
  by (simp only: chains_10_def list.map net.sel)

lemma ids_11: "map chain_id chains_11 = [122, 123, 124, 127, 128, 137, 142, 162]"
  by (simp only: chains_11_def list.map net.sel)

lemma ids_12: "map chain_id chains_12 = [163, 170, 172, 186, 188, 189, 199, 200]"
  by (simp only: chains_12_def list.map net.sel)

lemma ids_13: "map chain_id chains_13 = [211, 222, 246, 250, 256, 262, 269, 288]"
  by (simp only: chains_13_def list.map net.sel)

lemma ids_14: "map chain_id chains_14 = [321, 322, 336, 338, 361, 363, 364, 365]"
  by (simp only: chains_14_def list.map net.sel)

lemma ids_15: "map chain_id chains_15 = [369, 385, 420, 499, 558, 588, 595, 666, 686]"
  by (simp only: chains_15_def list.map net.sel)

lemma ids_16: "map chain_id chains_16 = [707, 708, 721, 777, 787, 803, 820, 821, 880]"
  by (simp only: chains_16_def list.map net.sel)

lemma ids_17: "map chain_id chains_17 = [888, 940, 977, 998, 999, 1001, 1007, 1010]"
  by (simp only: chains_17_def list.map net.sel)

lemma ids_18: "map chain_id chains_18 = [1012, 1022, 1023, 1024, 1028, 1030, 1088, 1139, 1140]"
  by (simp only: chains_18_def list.map net.sel)

lemma ids_19: "map chain_id chains_19 = [1202, 1213, 1280, 1284, 1285, 1287, 1288, 31337, 1618]"
  by (simp only: chains_19_def list.map net.sel)

lemma ids_20: "map chain_id chains_20 = [1620, 1657, 1856, 1987, 2020, 2021, 2022, 2025, 2100]"
  by (simp only: chains_20_def list.map net.sel)

lemma ids_21: "map chain_id chains_21 = [2101, 2559, 3331, 3690, 4002, 4689, 4690, 5197]"
  by (simp only: chains_21_def list.map net.sel)

lemma ids_22: "map chain_id chains_22 = [5315, 5700, 5851, 5869, 6626, 7878, 8029, 8080]"
  by (simp only: chains_22_def list.map net.sel)

lemma ids_23: "map chain_id chains_23 = [8217, 8285, 8723, 8724, 8888, 8995, 9000, 9001]"
  by (simp only: chains_23_def list.map net.sel)

lemma ids_24: "map chain_id chains_24 = [9100, 9527, 9999, 10000, 10001, 10101, 12051, 12052]"
  by (simp only: chains_24_def list.map net.sel)

lemma ids_25: "map chain_id chains_25 = [16000, 16001, 19845, 24484, 24734, 31102, 32659, 39797, 42069]"
  by (simp only: chains_25_def list.map net.sel)

lemma ids_26: "map chain_id chains_26 = [42161, 42220, 42261, 42262, 43110, 43113, 43114, 44787]"
  by (simp only: chains_26_def list.map net.sel)

lemma ids_27: "map chain_id chains_27 = [49797, 60000, 60001, 60002, 60103, 62320, 70000, 70001]"
  by (simp only: chains_27_def list.map net.sel)

lemma ids_28: "map chain_id chains_28 = [70002, 70103, 71393, 73799, 78110, 80001, 100000, 100001]"
  by (simp only: chains_28_def list.map net.sel)

lemma ids_29: "map chain_id chains_29 = [100002, 100003, 100004, 100005, 100006, 100007, 100008, 110000, 110001]"
  by (simp only: chains_29_def list.map net.sel)

lemma ids_30: "map chain_id chains_30 = [110002, 110003, 110004, 110005, 110006, 110007, 110008, 200625, 201018]"
  by (simp only: chains_30_def list.map net.sel)

lemma ids_31: "map chain_id chains_31 = [201030, 210309, 246529, 246785, 281121, 333888, 333999, 421611]"
  by (simp only: chains_31_def list.map net.sel)

lemma ids_32: "map chain_id chains_32 = [421614, 955305, 1313114, 1313500, 1337702, 7762959, 13371337, 18289463]"
  by (simp only: chains_32_def list.map net.sel)

lemma ids_33: "map chain_id chains_33 = [20181205, 28945486, 35855456, 61717561, 99415706, 192837465, 245022926, 245022934]"
  by (simp only: chains_33_def list.map net.sel)

lemma ids_34: "map chain_id chains_34 = [245022940, 311752642, 356256156, 486217935, 1122334455, 1313161554, 1313161555, 1313161556, 1666600000]"
  by (simp only: chains_34_def list.map net.sel)

lemma ids_35: "map chain_id chains_35 = [1666600001, 1666600002, 1666600003, 1666700000, 1666700001, 1666700002, 1666700003, 2021121117, 3125659152]"
  by (simp only: chains_35_def list.map net.sel)

lemma ids_36: "map chain_id chains_36 = [4216137055, 11297108099, 11297108109, 197710212030, 197710212031, 6022140761023]"
  by (simp only: chains_36_def list.map net.sel)

lemmas table_ids = ids_1 ids_2 ids_3 ids_4 ids_5 ids_6 ids_7 ids_8 ids_9 ids_10 ids_11 ids_12 ids_13 ids_14 ids_15 ids_16 ids_17
  ids_18 ids_19 ids_20 ids_21 ids_22 ids_23 ids_24 ids_25 ids_26 ids_27 ids_28 ids_29 ids_30 ids_31 ids_32
  ids_33 ids_34 ids_35 ids_36

text \<open>No id occurs twice, so a search finds the entry it is meant to find.\<close>

lemma chain_ids_distinct: "distinct (map chain_id chains)"
  unfolding chains_def map_append table_ids by simp

lemma find_by_id:
  assumes "distinct (map chain_id ns)" and "n \<in> set ns"
  shows "List.find (\<lambda>m. chain_id m = chain_id n) ns = Some n"
  using assms by (induction ns) auto

lemma foldl_show_hex: "foldl (\<lambda>a c. 16 * a + the (hex_val c)) 0 (show_hex n) = n"
proof (induction n rule: show_hex.induct)
  case (1 n)
  have g: "hex_val (hex_char d) = Some d" if "d < 16" for d
    using hex_char_good [OF that] by (simp add: good_hex_def)
  show ?case
    by (subst show_hex.simps) (use 1 in \<open>simp add: g\<close>)
qed

lemma show_hex_digits: "list_all is_hex (show_hex n) \<and> show_hex n \<noteq> []"
proof (induction n rule: show_hex.induct)
  case (1 n)
  have g: "is_hex (hex_char d)" if "d < 16" for d
    using hex_char_good [OF that] by (simp add: good_hex_def is_hex_def)
  show ?case
    by (subst (1 2) show_hex.simps) (use 1 in \<open>simp add: g\<close>)
qed

lemma hex_not_blank: "is_hex c \<Longrightarrow> \<not> is_blank c"
  by (auto simp: is_hex_def hex_val_def is_digit_def is_blank_def Let_def of_lower_char split: if_splits)

lemma hex_literal_show: "hex_literal (''0x'' @ show_hex n) = Some n"
proof -
  obtain ds c where s: "show_hex n = ds @ [c]" using show_hex_digits [of n] by (metis rev_exhaust)
  then have "\<not> is_blank c" using show_hex_digits [of n] hex_not_blank by simp
  then have "trim (''0x'' @ show_hex n) = ''0x'' @ show_hex n"
    by (simp add: trim_def s is_blank_def)
  then show ?thesis
    using show_hex_digits [of n] foldl_show_hex [of n] by (simp add: hex_literal_def lower_char_def)
qed

lemma find_chain_hex: "n \<in> set chains \<Longrightarrow> find_chain (Str (''0x'' @ show_hex (chain_id n))) = Some n"
  and find_chain_num: "n \<in> set chains \<Longrightarrow> find_chain (Num (of_nat (chain_id n))) = Some n"
proof -
  assume n: "n \<in> set chains"
  have "(\<lambda>m. same_id (Str (''0x'' @ show_hex (chain_id n))) (chain_id m)) = (\<lambda>m. chain_id m = chain_id n)"
    and "(\<lambda>m. same_id (Num (of_nat (chain_id n))) (chain_id m)) = (\<lambda>m. chain_id m = chain_id n)"
    using hex_literal_show [of "chain_id n"] by (auto simp: same_id_def loose_number_def)
  with find_by_id [OF chain_ids_distinct n]
  show "find_chain (Str (''0x'' @ show_hex (chain_id n))) = Some n" "find_chain (Num (of_nat (chain_id n))) = Some n"
    by (simp_all only: find_chain_def)
qed

text \<open>C25: the hexadecimal id under which the launchpad asks a wallet for a chain is found again, as the same chain of the
  table, when the wallet reports it, and so is the number.\<close>

theorem chain_id_roundtrip:
  assumes "n \<in> set chains"
  shows "find_chain (Str (''0x'' @ show_hex (chain_id n))) = Some n \<and> find_chain (Num (of_nat (chain_id n))) = Some n"
  using find_chain_hex [OF assms] find_chain_num [OF assms] by blast

section \<open>The chains the launchpad supports\<close>

definition net_of :: "chain \<Rightarrow> net" where
  "net_of c = Net (chain_name c) (chainId c) (shortName c) (networkId c)
     (Coin (cur_name (nativeCurrency c)) (cur_symbol (nativeCurrency c)) (cur_decimals (nativeCurrency c)))
     (rpc c) (faucets c) (infoURL c)"

lemma sepolia_in: "net_of (VALID_CHAINS ! 0) \<in> set chains"
  by (simp add: net_of_def VALID_CHAINS_def chains_def chains_1_def)

text \<open>The four chains of \<open>config/valid_chains.js\<close> are in the table with the same entries, but for the address of the
  node of Arbitrum Sepolia, which ends with a blank in the table.\<close>

theorem valid_chains_in_table:
  "list_all (\<lambda>c. find_chain (Num (of_nat (chainId c))) =
     Some (if chainId c = 421614 then (case net_of c of Net a b cc d e f g h \<Rightarrow> Net a b cc d e (map (\<lambda>u. u @ '' '') f) g h)
       else net_of c)) VALID_CHAINS"
proof -
  have *: "find_chain (Num (of_nat (chain_id n))) = Some n" if "n \<in> set chains" for n using find_chain_num [OF that] .
  let ?n = "\<lambda>i. net_of (VALID_CHAINS ! i)"
  have "?n 1 \<in> set chains" by (simp add: net_of_def VALID_CHAINS_def chains_def chains_19_def)
  moreover have "(case ?n 2 of Net a b cc d e f g h \<Rightarrow> Net a b cc d e (map (\<lambda>u. u @ '' '') f) g h) \<in> set chains"
    by (simp add: net_of_def VALID_CHAINS_def chains_def chains_32_def)
  moreover have "?n 3 \<in> set chains" by (simp add: net_of_def VALID_CHAINS_def chains_def chains_9_def)
  ultimately show ?thesis
    using sepolia_in * [of "?n 0"] * [of "?n 1"] * [of "?n 3"]
      * [of "case ?n 2 of Net a b cc d e f g h \<Rightarrow> Net a b cc d e (map (\<lambda>u. u @ '' '') f) g h"]
    by (simp add: VALID_CHAINS_def net_of_def)
qed

theorem chain_id_roundtrip_witness:
  "find_chain (Str ''0xaa36a7'') = Some (net_of (VALID_CHAINS ! 0))"
proof -
  have "show_hex (chain_id (net_of (VALID_CHAINS ! 0))) = ''aa36a7''"
    by (simp add: net_of_def VALID_CHAINS_def show_hex.simps [of 11155111] show_hex.simps [of 697194] show_hex.simps [of 43574]
        show_hex.simps [of 2723] show_hex.simps [of 170] show_hex.simps [of 10] hex_char_def char_of_def bit_0)
  then show ?thesis
    using chain_id_roundtrip [OF sepolia_in] by (simp only: append.simps simp_thms)
qed

end
