(* ===== verification/Wallet_Hooks.thy ===== *)
theory Wallet_Hooks
  imports Chain_Search Nova_Store Page_Env
begin

text \<open>
  The wallet of the launchpad: \<open>hooks/useWallet.ts\<close> (the listener of the application and the hook of the pages),
  \<open>hooks/useLocalStorage.tsx\<close>, and the buttons that show the connection and run a transaction. The state is the two slices of
  the redux store that they dispatch to, the local storage, the messages shown and the requests made to \<open>window.ethereum\<close>.
\<close>

section \<open>The state and its surroundings\<close>

record wallet_world =
  contract_slice :: obj
  wallet_slice :: obj
  storage :: "string \<rightharpoonup> string"
  notices :: "(bool \<times> string) list"
  asked :: "(string \<times> val) list"

text \<open>\<open>answer k m p\<close> is how the wallet settles the \<open>k\<close>-th request, \<open>error_of\<close> the object behind an error.\<close>

record wallet_env =
  isMetaMask :: bool
  isConnected :: bool
  wallet_answer :: "nat \<Rightarrow> string \<Rightarrow> val \<Rightarrow> js_error + val"
  error_of :: "js_error \<Rightarrow> val"
  new_contract :: "val \<Rightarrow> string \<Rightarrow> val \<Rightarrow> js_error + val"
  vars :: "string \<rightharpoonup> string"

definition request :: "wallet_env \<Rightarrow> string \<Rightarrow> val \<Rightarrow> (wallet_world, val) io" where
  "request E m p w = (wallet_answer E (length (asked w)) m p, w\<lparr>asked := asked w @ [(m, p)]\<rparr>)"

definition notice :: "bool \<Rightarrow> string \<Rightarrow> (wallet_world, unit) io" where
  "notice b t w = (Inr (), w\<lparr>notices := notices w @ [(b, t)]\<rparr>)"

definition dispatch :: "obj \<Rightarrow> (wallet_world, unit) io" where
  "dispatch a w = (case (contract_reducer (contract_slice w) a, wallet_reducer (wallet_slice w) a) of
     (Inr c, Inr x) \<Rightarrow> (Inr (), w\<lparr>contract_slice := c, wallet_slice := x\<rparr>)
   | (Inl e, _) \<Rightarrow> (Inl e, w)
   | (_, Inl e) \<Rightarrow> (Inl e, w))"

section \<open>useLocalStorage.tsx\<close>

text \<open>The entry of \<open>keyMap\<close> is the name that \<open>keyMapper\<close> gives to its key.\<close>

definition keyMapper :: "wallet_env \<Rightarrow> string \<Rightarrow> string" where
  "keyMapper E key = ''bobabrewery_'' @ (case vars E ''NODE_ENV'' of None \<Rightarrow> ''undefined'' | Some m \<Rightarrow> m) @ ''_0.1_'' @ key"

definition getLocal :: "wallet_env \<Rightarrow> string \<Rightarrow> wallet_world \<Rightarrow> string option" where
  "getLocal E key w = storage w (keyMapper E key)"

definition setLocal :: "wallet_env \<Rightarrow> string \<Rightarrow> string \<Rightarrow> (wallet_world, unit) io" where
  "setLocal E key x w = (Inr (), w\<lparr>storage := (storage w)(keyMapper E key \<mapsto> x)\<rparr>)"

section \<open>listenToWallet\<close>

definition clearContracts :: "(wallet_world, unit) io" where
  "clearContracts = dispatch (setContracts (Obj [(''depositTokenContract'', Null), (''breContract'', Null),
     (''stakingContract'', Null), (''saleContract'', Null)]))"

text \<open>\<open>walletAddress\<close> is the address of the rendering that the handler closes over. The listener of \<open>accountsChanged\<close> hands
  over the array of the accounts, the effect on \<open>account\<close> a string or nothing.\<close>

definition handleAccountsChanged :: "val \<Rightarrow> val \<Rightarrow> (wallet_world, unit) io" where
  "handleAccountsChanged walletAddress account =
     (if \<not> truthy_val account then dispatch (setWalletAddress Null)
      else if account \<noteq> walletAddress \<or> is_object account
      then seqio (dispatch (setWalletAddress account))
        (notice True (''You have connected to account '' @ js_string account))
      else ret ())"

definition handleChainChanged :: "val \<Rightarrow> (wallet_world, unit) io" where
  "handleChainChanged cid = (case find_chain cid of
     None \<Rightarrow> ret ()
   | Some n \<Rightarrow> dispatch (setChain (net_val n)))"

text \<open>The effect that keeps the signer: \<open>connector\<close> and \<open>get_signer\<close>, the provider and signer of the connector, are parameters;
  what the asynchronous function throws is lost.\<close>

definition signer_effect :: "val \<Rightarrow> val \<Rightarrow> val \<Rightarrow> (wallet_world, val) io \<Rightarrow> (wallet_world, unit) io" where
  "signer_effect connector walletAddress ch get_signer =
     (if \<not> truthy_val walletAddress \<or> \<not> truthy_val ch then dispatch (setSigner Null)
      else if truthy_val connector
      then floating (bindio get_signer (\<lambda>s. dispatch (setSigner (if truthy_val s then s else Null))))
      else ret ())"

definition env_val :: "string option \<Rightarrow> val" where
  "env_val x = (case x of None \<Rightarrow> Undef | Some s \<Rightarrow> Str s)"

definition contracts_effect :: "wallet_env \<Rightarrow> val \<Rightarrow> val \<Rightarrow> (wallet_world, unit) io" where
  "contracts_effect E ch signer =
     (if \<not> truthy_val ch then clearContracts
      else bindio (lift (member ch ''rpc'')) (\<lambda>nodes.
        if nullish nodes then throw (TypeError ''Cannot read properties of undefined'')
        else if \<not> truthy_val signer then clearContracts
        else bindio (lift (new_contract E (env_val (STAKED_TOKEN_ADDRESS (vars E))) ''tokenAbi'' signer)) (\<lambda>d.
             bindio (lift (new_contract E (env_val (EARNED_TOKEN_ADDRESS (vars E))) ''tokenAbi'' signer)) (\<lambda>b.
             dispatch (setContracts (Obj [(''depositTokenContract'', d), (''breContract'', b)]))))))"

section \<open>useWallet\<close>

definition sale_effect :: "wallet_env \<Rightarrow> val \<Rightarrow> val \<Rightarrow> (wallet_world, unit) io" where
  "sale_effect E signer saleAddress =
     (if \<not> truthy_val signer \<or> \<not> truthy_val saleAddress then ret ()
      else bindio (lift (new_contract E saleAddress ''C2NSale'' signer)) (\<lambda>c.
        dispatch (setContracts (Obj [(''saleContract'', c)]))))"

definition first_of :: "val \<Rightarrow> js_error + val" where
  "first_of v = (if nullish v then Inl (TypeError ''Cannot read properties of undefined'') else Inr (item v 0))"

definition getAccount :: "wallet_env \<Rightarrow> bool \<Rightarrow> (wallet_world, val) io" where
  "getAccount E hideError =
     (let complain = (\<lambda>t. if hideError then ret () else notice False t) in
      if \<not> isMetaMask E
      then seqio (complain ''Please install metamask!'') (seqio (dispatch (setisWalletInstalled (Bool False))) (throw rejected))
      else seqio (dispatch (setisWalletInstalled (Bool True)))
       (if \<not> isConnected E then seqio (complain ''Please connect to metamask!'') (throw rejected)
        else catchio (bindio (request E ''eth_requestAccounts'' Undef) (\<lambda>accounts.
            bindio (lift (first_of accounts)) (\<lambda>a. seqio (dispatch (setWalletAddress a)) (ret a))))
          (\<lambda>e. ret Undef)))"

definition valid_val :: "chain \<Rightarrow> val" where
  "valid_val c = (case net_val (net_of c) of Obj ob \<Rightarrow> Obj (put ''logo'' (Str (logo c)) ob) | x \<Rightarrow> x)"

text \<open>The value of the promise is the chain of the rendering; nobody uses it.\<close>

definition getNetwork :: "wallet_env \<Rightarrow> (wallet_world, unit) io" where
  "getNetwork E =
     (if \<not> isMetaMask E
      then seqio (notice False ''Please install metamask!'') (seqio (dispatch (setisWalletInstalled (Bool False))) (throw rejected))
      else seqio (dispatch (setisWalletInstalled (Bool True)))
        (catchio (bindio (request E ''eth_chainId'' Undef) (\<lambda>cid.
            dispatch (setChain (case List.find (\<lambda>c. same_id cid (chainId c)) VALID_CHAINS of
              None \<Rightarrow> Undef | Some c \<Rightarrow> valid_val c))))
          (\<lambda>e. ret ())))"

definition wallet_setLoading :: "val \<Rightarrow> (wallet_world, unit) io" where
  "wallet_setLoading x = dispatch (setLoading x)"

definition addToken :: "wallet_env \<Rightarrow> val \<Rightarrow> val \<Rightarrow> (wallet_world, unit) io" where
  "addToken E tokenAddress symbolName =
     bindio (request E ''wallet_watchAsset'' (Obj [(''type'', Str ''ERC20''),
       (''options'', Obj [(''address'', tokenAddress), (''symbol'', symbolName), (''decimals'', Num 18)])])) (\<lambda>_. ret ())"

definition show_wallet :: "val \<Rightarrow> val \<Rightarrow> (wallet_world, unit) io" where
  "show_wallet walletShowed x = dispatch (showWallet (Bool (if x = Undef then \<not> truthy_val walletShowed else truthy_val x)))"

definition switch_target :: "val \<Rightarrow> net" where
  "switch_target cid = (case find_chain cid of Some n \<Rightarrow> n | None \<Rightarrow> net_of (VALID_CHAINS ! 0))"

definition switch_params :: "net \<Rightarrow> val" where
  "switch_params n = Arr [Obj [(''chainId'', Str (''0x'' @ show_hex (chain_id n)))]]"

definition switchNetwork :: "wallet_env \<Rightarrow> val \<Rightarrow> (wallet_world, unit) io" where
  "switchNetwork E cid = (let n = switch_target cid in
     catchio (bindio (request E ''wallet_switchEthereumChain'' (switch_params n)) (\<lambda>_. ret ()))
       (\<lambda>e. bindio (lift (member (error_of E e) ''code'')) (\<lambda>cd.
          if cd = Num 4902
          then catchio (bindio (request E ''wallet_addEthereumChain'' (add_params n)) (\<lambda>_. ret ())) (\<lambda>_. ret ())
          else ret ())))"

definition connect :: "wallet_env \<Rightarrow> (wallet_world, unit) io" where
  "connect E = bindio (getAccount E False) (\<lambda>_.
     seqio (getNetwork E)
    (seqio (notice True (''Welcome, you'' @ [CHR 0x27] @ ''re currently connected to metamask''))
           (setLocal E ''auto_connect_wallet'' ''1'')))"

definition disconnect :: "wallet_env \<Rightarrow> (wallet_world, unit) io" where
  "disconnect E = seqio (dispatch (setWalletAddress Null)) (setLocal E ''auto_connect_wallet'' ''0'')"

definition is_connected :: "wallet_world \<Rightarrow> val" where
  "is_connected w = (let a = get ''walletAddress'' (contract_slice w) in
     if truthy_val a then get ''chain'' (wallet_slice w) else a)"

section \<open>WalletButton.tsx and TransactionButton.tsx\<close>

text \<open>\<open>walletAddress.replace?.(/^(.{6}).+(.{4})$/g, '$1...$2')\<close> for an address without line breaks; what is no string has no
  method \<open>replace\<close>.\<close>

definition shown_address :: "val \<Rightarrow> val" where
  "shown_address v = (case v of
     Str s \<Rightarrow> Str (if 11 \<le> length s then take 6 s @ ''...'' @ drop (length s - 4) s else s)
   | _ \<Rightarrow> Undef)"

datatype button = Waiting | Connect | Switch val | Run bool

definition transaction_button :: "val \<Rightarrow> val \<Rightarrow> val \<Rightarrow> val \<Rightarrow> val \<Rightarrow> val \<Rightarrow> button" where
  "transaction_button own_loading walletLoading walletAddress requiredChainId ch disabled =
     (if truthy_val own_loading \<or> truthy_val walletLoading then Waiting
      else if \<not> truthy_val walletAddress then Connect
      else if truthy_val requiredChainId \<and>
          \<not> (opt_member ch ''chainId'' \<noteq> Undef \<and> loose_number (opt_member ch ''chainId'') \<noteq> None \<and>
             loose_number (opt_member ch ''chainId'') = loose_number requiredChainId)
      then Switch requiredChainId
      else Run (truthy_val disabled))"

text \<open>What a click on the button comes to: the handler throws, returns, or returns a promise that settles.\<close>

datatype clicked = Threw js_error | Returned | Settles

definition waitForTransaction :: "clicked option \<Rightarrow> (wallet_world, unit) io" where
  "waitForTransaction onClick = (case onClick of
     None \<Rightarrow> ret ()
   | Some (Threw e) \<Rightarrow> seqio (wallet_setLoading (Bool True)) (throw e)
   | Some _ \<Rightarrow> seqio (wallet_setLoading (Bool True)) (wallet_setLoading (Bool False)))"

section \<open>What the dispatched actions do\<close>

lemma dispatch_address [simp]:
  "dispatch (setWalletAddress x) w = (Inr (), w\<lparr>contract_slice := put ''walletAddress'' x (contract_slice w)\<rparr>)"
  by (simp add: dispatch_def setWalletAddress_def action_def contract_reducer_def wallet_reducer_def strip_suffix_def suffix_def)

lemma dispatch_chain [simp]:
  "dispatch (setChain x) w = (Inr (), w\<lparr>wallet_slice := put ''chain'' x (wallet_slice w)\<rparr>)"
  by (simp add: dispatch_def setChain_def action_def contract_reducer_def wallet_reducer_def strip_suffix_def suffix_def)

lemma dispatch_installed [simp]:
  "dispatch (setisWalletInstalled x) w = (Inr (), w\<lparr>wallet_slice := put ''isWalletInstalled'' x (wallet_slice w)\<rparr>)"
  by (simp add: dispatch_def setisWalletInstalled_def action_def contract_reducer_def wallet_reducer_def strip_suffix_def suffix_def)

lemma dispatch_loading [simp]:
  "dispatch (setLoading x) w = (Inr (), w\<lparr>contract_slice := put ''loading'' x (contract_slice w)\<rparr>)"
  by (simp add: dispatch_def setLoading_def action_def contract_reducer_def wallet_reducer_def strip_suffix_def suffix_def)

lemmas wallet_defs = seqio_def bindio_def catchio_def ret_def throw_def request_def notice_def setLocal_def

section \<open>Properties\<close>

text \<open>A request for the accounts that the user refuses is swallowed: \<open>connect\<close> goes on, says that the user is
  connected and marks the wallet to be connected the next time, while the store has no new address.\<close>

theorem refused_connection_welcomes:
  assumes "isMetaMask E" and "isConnected E"
    and "wallet_answer E (length (asked w)) ''eth_requestAccounts'' Undef = Inl e"
  shows "\<exists>w'. connect E w = (Inr (), w') \<and>
    notices w' = notices w @ [(True, ''Welcome, you'' @ [CHR 0x27] @ ''re currently connected to metamask'')] \<and>
    getLocal E ''auto_connect_wallet'' w' = Some ''1'' \<and>
    get ''walletAddress'' (contract_slice w') = get ''walletAddress'' (contract_slice w)"
  using assms
  by (simp add: connect_def getAccount_def getNetwork_def getLocal_def wallet_defs Let_def split: sum.split prod.split)

text \<open>When the wallet is locked, or loses its last account, its event brings the empty array, which counts as an
  address: the page stays connected and announces the account.\<close>

theorem locked_wallet_stays_connected:
  assumes "truthy_val (get ''chain'' (wallet_slice w))"
  shows "\<exists>w'. handleAccountsChanged rendered (Arr []) w = (Inr (), w') \<and>
    get ''walletAddress'' (contract_slice w') = Arr [] \<and> truthy_val (is_connected w') \<and>
    notices w' = notices w @ [(True, ''You have connected to account '')]"
  using assms by (simp add: handleAccountsChanged_def is_object_def is_connected_def wallet_defs)

definition switch_ops :: "net \<Rightarrow> (string \<times> val) list" where
  "switch_ops n = [(''wallet_switchEthereumChain'', switch_params n), (''wallet_addEthereumChain'', add_params n)]"

text \<open>C26: switching to a chain of the table never throws, where the errors of the wallet are objects; it asks to switch,
  and to add the chain only if the wallet answers that it does not know it; nothing else changes until the wallet reports the
  chain, and then the store holds the entry of the table that was asked for.\<close>

theorem switch_reaches_store:
  assumes "n \<in> set chains" and "\<And>e. is_object (error_of E e)"
  shows "\<exists>l. switchNetwork E (Num (of_nat (chain_id n))) w = (Inr (), w\<lparr>asked := asked w @ l\<rparr>) \<and>
    prefix l (switch_ops n) \<and> l \<noteq> [] \<and>
    (length l = 2 \<longrightarrow> (\<exists>e. wallet_answer E (length (asked w)) ''wallet_switchEthereumChain'' (switch_params n) = Inl e \<and>
       opt_member (error_of E e) ''code'' = Num 4902)) \<and>
    get ''chain'' (wallet_slice (snd (handleChainChanged (Str (''0x'' @ show_hex (chain_id n))) w'))) = net_val n"
proof -
  have t: "switch_target (Num (of_nat (chain_id n))) = n"
    by (simp add: switch_target_def find_chain_num [OF assms(1)])
  have c: "get ''chain'' (wallet_slice (snd (handleChainChanged (Str (''0x'' @ show_hex (chain_id n))) w'))) = net_val n"
    unfolding handleChainChanged_def find_chain_hex [OF assms(1)] by simp
  have m: "\<exists>x. member (error_of E e) ''code'' = Inr x \<and> (x = Num 4902 \<longrightarrow> opt_member (error_of E e) ''code'' = Num 4902)" for e
    using assms(2) [of e] by (cases "error_of E e") (auto simp: is_object_def opt_member_def)
  show ?thesis
  proof (cases "wallet_answer E (length (asked w)) ''wallet_switchEthereumChain'' (switch_params n)")
    case (Inr x)
    with t c show ?thesis
      by (intro exI [of _ "[hd (switch_ops n)]"]) (simp add: switchNetwork_def switch_ops_def wallet_defs Let_def)
  next
    case (Inl e)
    from m [of e] obtain x where x: "member (error_of E e) ''code'' = Inr x"
      "x = Num 4902 \<longrightarrow> opt_member (error_of E e) ''code'' = Num 4902" by blast
    show ?thesis
    proof (cases "x = Num 4902")
      case True
      with Inl t c x show ?thesis
        by (intro exI [of _ "switch_ops n"])
          (simp add: switchNetwork_def switch_ops_def wallet_defs Let_def split: sum.split)
    next
      case False
      with Inl t c x show ?thesis
        by (intro exI [of _ "[hd (switch_ops n)]"]) (simp add: switchNetwork_def switch_ops_def wallet_defs Let_def)
    qed
  qed
qed

text \<open>A handler that throws leaves every transaction button waiting: the flag is set before the handler is called and cleared
  only when it returns or its promise settles.\<close>

theorem throwing_handler_blocks_buttons:
  "\<exists>w'. waitForTransaction (Some (Threw e)) w = (Inl e, w') \<and>
     transaction_button own (get ''loading'' (contract_slice w')) a r c d = Waiting"
  by (simp add: waitForTransaction_def wallet_setLoading_def transaction_button_def wallet_defs)

definition demo_wallet :: wallet_env where
  "demo_wallet = \<lparr> isMetaMask = True, isConnected = True, wallet_answer = \<lambda>k m p. Inl (JsError ''refused''),
     error_of = \<lambda>e. Obj [(''code'', Num 4902)], new_contract = \<lambda>a n s. Inr (Ref 1), vars = Map.empty \<rparr>"

definition demo_page :: wallet_world where
  "demo_page = \<lparr> contract_slice = contract_initial, wallet_slice = put ''chain'' (Obj []) wallet_initial, storage = Map.empty,
     notices = [], asked = [] \<rparr>"

theorem refused_connection_welcomes_witness:
  "get ''walletAddress'' (contract_slice (snd (connect demo_wallet demo_page))) = Null"
  using refused_connection_welcomes [of demo_wallet demo_page "JsError ''refused''"]
  by (auto simp: demo_wallet_def demo_page_def contract_initial_def)

theorem locked_wallet_stays_connected_witness:
  "truthy_val (is_connected (snd (handleAccountsChanged (Str ''0xa1'') (Arr []) demo_page)))"
  using locked_wallet_stays_connected [of demo_page "Str ''0xa1''"]
  by (auto simp: demo_page_def)

theorem switch_reaches_store_witness:
  "fst (switchNetwork demo_wallet (Num (of_nat (chain_id (net_of (VALID_CHAINS ! 0))))) demo_page) = Inr ()"
  using switch_reaches_store [OF sepolia_in, of demo_wallet demo_page demo_page] by (auto simp: demo_wallet_def is_object_def)

end
