(* ===== verification/Wallet_Session.thy ===== *)
theory Wallet_Session
  imports Wallet_Hooks
begin

text \<open>
  Logging in to a wallet: \<open>hooks/useAuth.ts\<close>, the list of connectors \<open>types/Connector.ts\<close> and the choice in
  \<open>containers/WalletModal/WalletModal.tsx\<close>, across reloads of the page. web3-react is the list of the activations under way and
  the account; an activation that fails calls its handler, if it has one, and resolves. \<open>key\<close> is the constant
  \<open>connectorLocalStorageKey\<close> and \<open>known\<close> the names of \<open>connectorsByName\<close>, both from \<open>@pancakeswap/uikit\<close>.
\<close>

section \<open>Connectors\<close>

record connector =
  conn_title :: string
  connectorId :: string
  priority :: nat

definition connectors :: "connector list" where
  "connectors = [
     \<lparr> conn_title = ''Metamask'', connectorId = ''injected'', priority = 1 \<rparr>,
     \<lparr> conn_title = ''SafePal'', connectorId = ''injected'', priority = 999 \<rparr>,
     \<lparr> conn_title = ''WalletConnect'', connectorId = ''walletconnect'', priority = 2 \<rparr>,
     \<lparr> conn_title = ''Trust Wallet'', connectorId = ''injected'', priority = 3 \<rparr>,
     \<lparr> conn_title = ''MathWallet'', connectorId = ''injected'', priority = 999 \<rparr>,
     \<lparr> conn_title = ''TokenPocket'', connectorId = ''injected'', priority = 999 \<rparr>,
     \<lparr> conn_title = ''Binance Chain'', connectorId = ''bsc'', priority = 999 \<rparr>,
     \<lparr> conn_title = ''Coin98'', connectorId = ''injected'', priority = 999 \<rparr>,
     \<lparr> conn_title = ''Blocto'', connectorId = ''blocto'', priority = 999 \<rparr>]"

definition connectorLocalStorageKey :: string where
  "connectorLocalStorageKey = ''connectorIdv2''"

definition walletLocalStorageKey :: string where
  "walletLocalStorageKey = ''wallet''"

section \<open>State and operations\<close>

record session =
  local_storage :: "string \<rightharpoonup> string"
  account :: val
  activating :: "(string \<times> bool) list"
  complaints :: "string list"

definition auto_key :: string where
  "auto_key = ''bobabrewery_auto_connect''"

datatype activation =
    Activated val
  | Unsupported_Chain bool
  | No_Provider
  | User_Rejected
  | Activation_Failed string

definition complain :: "string \<Rightarrow> session \<Rightarrow> session" where
  "complain t s = s\<lparr>complaints := complaints s @ [t]\<rparr>"

definition login :: "(string \<Rightarrow> bool) \<Rightarrow> string \<Rightarrow> session \<Rightarrow> session" where
  "login known cid s =
     (if known cid then s\<lparr>activating := activating s @ [(cid, True)]\<rparr>
      else complain (''The connector config of '' @ cid @ '' is wrong, '') s)"

text \<open>The handler of a failed activation. \<open>Unsupported_Chain b\<close> carries the result of \<open>setupNetwork\<close>.\<close>

definition login_failed :: "string \<Rightarrow> string \<Rightarrow> activation \<Rightarrow> session \<Rightarrow> session" where
  "login_failed key cid r s = (let s' = s\<lparr>local_storage := (local_storage s)(key := None)\<rparr> in case r of
       Activated a \<Rightarrow> s
     | Unsupported_Chain hasSetup \<Rightarrow> if hasSetup then s\<lparr>activating := activating s @ [(cid, False)]\<rparr> else s
     | No_Provider \<Rightarrow> complain ''No provider was found'' s'
     | User_Rejected \<Rightarrow> complain ''Please authorize to access your account'' s'
     | Activation_Failed m \<Rightarrow> complain m s')"

definition login_settled :: "string \<Rightarrow> nat \<Rightarrow> activation \<Rightarrow> session \<Rightarrow> session" where
  "login_settled key i r s =
     (if i < length (activating s) then
        (let (cid, handled) = activating s ! i;
             s' = s\<lparr>activating := take i (activating s) @ drop (Suc i) (activating s)\<rparr>;
             s'' = (case r of Activated a \<Rightarrow> s'\<lparr>account := a\<rparr>
               | _ \<Rightarrow> if handled then login_failed key cid r s' else s')
         in if handled then s''\<lparr>local_storage := (local_storage s'')(auto_key \<mapsto> ''1'')\<rparr> else s'')
      else s)"

definition logout :: "session \<Rightarrow> session" where
  "logout s = s\<lparr>account := Undef\<rparr>"

text \<open>A choice in the dialog: the login is started before the choice is stored.\<close>

definition pick_connector :: "(string \<Rightarrow> bool) \<Rightarrow> bool \<Rightarrow> connector \<Rightarrow> session \<Rightarrow> session" where
  "pick_connector known isIOS c s =
     (let s' = login known (if conn_title c = ''Trust Wallet'' \<and> isIOS then ''walletconnect'' else connectorId c) s
      in s'\<lparr>local_storage := (local_storage s')(walletLocalStorageKey \<mapsto> conn_title c, connectorLocalStorageKey \<mapsto> connectorId c)\<rparr>)"

text \<open>The effect that runs when the page is loaded.\<close>

definition truthy_item :: "string option \<Rightarrow> bool" where
  "truthy_item x \<longleftrightarrow> x \<noteq> None \<and> x \<noteq> Some []"

definition mount :: "string \<Rightarrow> (string \<Rightarrow> bool) \<Rightarrow> session \<Rightarrow> session" where
  "mount key known s =
     (if truthy_item (local_storage s key) \<and> truthy_item (local_storage s auto_key)
      then login known (the (local_storage s key)) (s\<lparr>local_storage := (local_storage s)(auto_key := None)\<rparr>)
      else s)"

section \<open>Steps\<close>

datatype session_event = Chosen bool connector | Settled nat activation | Logout | Reload

fun session_step :: "string \<Rightarrow> (string \<Rightarrow> bool) \<Rightarrow> session_event \<Rightarrow> session \<Rightarrow> session" where
  "session_step key known (Chosen isIOS c) s = pick_connector known isIOS c s"
| "session_step key known (Settled i r) s = login_settled key i r s"
| "session_step key known Logout s = logout s"
| "session_step key known Reload s =
     mount key known \<lparr> local_storage = local_storage s, account = Undef, activating = [], complaints = [] \<rparr>"

definition session_run :: "string \<Rightarrow> (string \<Rightarrow> bool) \<Rightarrow> session_event list \<Rightarrow> session \<Rightarrow> session" where
  "session_run key known es s = fold (session_step key known) es s"

lemmas session_defs = session_run_def pick_connector_def login_def login_settled_def login_failed_def logout_def mount_def
  truthy_item_def complain_def auto_key_def connectorLocalStorageKey_def walletLocalStorageKey_def

text \<open>C27: logging out forgets nothing: after a login that succeeded, a logout and a reload the page logs in again with the
  same connector, without being asked.\<close>

theorem logout_reconnects:
  assumes "known (connectorId c)" and "connectorId c \<noteq> []" and "conn_title c \<noteq> ''Trust Wallet''" and "activating s = []"
  shows "activating (session_run connectorLocalStorageKey known [Chosen ios c, Settled 0 (Activated a), Logout, Reload] s)
    = [(connectorId c, True)]"
  using assms by (simp add: session_defs)

text \<open>After a login that failed the connector is forgotten, and a reload does nothing; but the mark stays.\<close>

lemma rejected_login_forgotten:
  assumes "known (connectorId c)" and "conn_title c \<noteq> ''Trust Wallet''" and "activating s = []"
  shows "let s' = session_run connectorLocalStorageKey known [Chosen ios c, Settled 0 User_Rejected, Reload] s in
    activating s' = [] \<and> local_storage s' auto_key = Some ''1''"
  using assms by (simp add: session_defs)

text \<open>On iOS Trust Wallet logs in through WalletConnect, but the connector stored is that of the browser extension,
  so the next load of the page logs in with another connector than the one that succeeded.\<close>

theorem ios_reload_changes_connector:
  assumes "known ''walletconnect''" and "known ''injected''" and "activating s = []"
  shows "activating (session_run connectorLocalStorageKey known [Chosen True (connectors ! 3)] s) = [(''walletconnect'', True)] \<and>
    activating (session_run connectorLocalStorageKey known [Chosen True (connectors ! 3), Settled 0 (Activated a), Reload] s)
      = [(''injected'', True)]"
  using assms by (simp add: session_defs connectors_def)

definition new_session :: session where
  "new_session = \<lparr> local_storage = Map.empty, account = Undef, activating = [], complaints = [] \<rparr>"

theorem logout_reconnects_witness:
  "activating (session_run connectorLocalStorageKey (\<lambda>c. c \<in> {''injected'', ''walletconnect'', ''bsc''})
     [Chosen False (connectors ! 0), Settled 0 (Activated (Str ''0xa1'')), Logout, Reload] new_session) = [(''injected'', True)]"
  using logout_reconnects [of "\<lambda>c. c \<in> {''injected'', ''walletconnect'', ''bsc''}" "connectors ! 0" new_session]
  by (simp add: connectors_def new_session_def)

theorem ios_reload_changes_connector_witness:
  "activating (session_run connectorLocalStorageKey (\<lambda>c. c \<in> {''injected'', ''walletconnect'', ''bsc''})
     [Chosen True (connectors ! 3), Settled 0 (Activated (Str ''0xa1'')), Reload] new_session) = [(''injected'', True)]"
  using ios_reload_changes_connector [of "\<lambda>c. c \<in> {''injected'', ''walletconnect'', ''bsc''}" new_session]
  by (simp add: new_session_def)

end
