(* ===== verification/Order_Form.thy ===== *)
theory Order_Form
  imports Trade_Views
begin

text \<open>
  The watchers of the order form, \<open>component/form/order/order.ts\<close>: size and total follow each other through Vue's queue of
  watchers. A handler marks what it changed; the queue then runs the watcher of the total, of the size and of the price, the
  first that is marked each time, until none is. What a watcher throws is logged by Vue. The product is the object of the store;
  a price of 0, whose quotient is infinite, counts as no number.
\<close>

section \<open>State\<close>

record watched_form = order_form +
  format_size :: string
  format_quote :: string
  seen_quote :: val
  seen_size :: val
  seen_price :: val
  d_quote :: bool
  d_size :: bool
  d_price :: bool

definition js_times :: "val \<Rightarrow> val \<Rightarrow> val" where
  "js_times a b = num_val (lift2 (*) (to_number a) (to_number b))"

definition js_divide :: "val \<Rightarrow> val \<Rightarrow> val" where
  "js_divide a b = (if to_number b = Some 0 then NaN else num_val (lift2 (/) (to_number a) (to_number b)))"

text \<open>Assigning the value a property has already does not mark it.\<close>

definition set_quote :: "val \<Rightarrow> watched_form \<Rightarrow> watched_form" where
  "set_quote x t = (if x = form_quote t then t else t\<lparr>form_quote := x, d_quote := True\<rparr>)"

definition set_size :: "val \<Rightarrow> watched_form \<Rightarrow> watched_form" where
  "set_size x t = (if x = form_size t then t else t\<lparr>form_size := x, d_size := True\<rparr>)"

section \<open>Formatting\<close>

text \<open>\<open>v.length - 2\<close>; \<open>toFixed(NaN)\<close> is \<open>toFixed(0)\<close>.\<close>

definition places :: "val \<Rightarrow> js_error + int" where
  "places v = (case v of
       Str s \<Rightarrow> Inr (int (length s) - 2)
     | Arr xs \<Rightarrow> Inr (int (length xs) - 2)
     | Undef \<Rightarrow> Inl (TypeError ''Cannot read properties of undefined'')
     | Null \<Rightarrow> Inl (TypeError ''Cannot read properties of null'')
     | _ \<Rightarrow> Inr 0)"

definition formatted :: "val \<Rightarrow> val \<Rightarrow> js_error + string" where
  "formatted x unit_size = (case places unit_size of Inl e \<Rightarrow> Inl e
     | Inr d \<Rightarrow> toFixed (to_number (if js_true x then x else Num 0)) d)"

definition formatTrade :: "obj \<Rightarrow> watched_form \<Rightarrow> watched_form" where
  "formatTrade pr t =
     (case formatted (form_size t) (get ''baseMinSize'' pr) of Inl e \<Rightarrow> t
      | Inr s \<Rightarrow> (let t' = t\<lparr>format_size := s\<rparr> in
          case formatted (form_quote t') (get ''quoteIncrement'' pr) of Inl e \<Rightarrow> t' | Inr q \<Rightarrow> t'\<lparr>format_quote := q\<rparr>))"

definition order_created :: "obj \<Rightarrow> string \<Rightarrow> watched_form \<Rightarrow> js_error + watched_form" where
  "order_created pr pid t = (case formatted (Num 0) (get ''baseMinSize'' pr) of
       Inl e \<Rightarrow> Inl e | Inr s \<Rightarrow> Inr (t\<lparr>format_size := s, form_productId := pid\<rparr>))"

text \<open>\<open>baseBalance\<close>, \<open>baseHold\<close>, \<open>quoteBalance\<close> and \<open>quoteHold\<close>: a field of the fund of a currency.\<close>

definition fund_text :: "obj \<Rightarrow> string \<Rightarrow> string \<Rightarrow> js_error + string" where
  "fund_text fs cur k = (let fund = get cur fs in
     if truthy_val fund then (case member fund k of Inl e \<Rightarrow> Inl e | Inr x \<Rightarrow> toFixed (to_number x) 4) else Inr ''--'')"

section \<open>Watchers\<close>

definition tradeQuoteChange :: "obj \<Rightarrow> watched_form \<Rightarrow> watched_form" where
  "tradeQuoteChange pr t = formatTrade pr
     (if form_side t = 0 \<and> form_type t = 0
      then set_size (if form_type t = 0 then js_divide (form_quote t) (get ''price'' pr)
                     else js_divide (form_quote t) (form_price t)) t
      else t)"

definition tradeSizeChange :: "obj \<Rightarrow> watched_form \<Rightarrow> watched_form" where
  "tradeSizeChange pr t = formatTrade pr
     (if form_side t = 1 \<or> form_side t = 0 \<and> form_type t = 1
      then set_quote (if form_type t = 0 then js_times (form_size t) (get ''price'' pr)
                      else js_times (form_size t) (form_price t)) t
      else t)"

definition tradePriceChange :: "obj \<Rightarrow> watched_form \<Rightarrow> watched_form" where
  "tradePriceChange pr t = formatTrade pr
     (if form_side t = 1 then set_quote (js_times (form_size t) (form_price t)) t else t)"

text \<open>A marked watcher runs its callback if the value differs from the one it saw last, or is \<open>NaN\<close>.\<close>

definition differs :: "val \<Rightarrow> val \<Rightarrow> bool" where
  "differs x y \<longleftrightarrow> x \<noteq> y \<or> x = NaN"

definition run_quote :: "obj \<Rightarrow> watched_form \<Rightarrow> watched_form" where
  "run_quote pr t = (let u = t\<lparr>d_quote := False, seen_quote := form_quote t\<rparr> in
     if differs (form_quote t) (seen_quote t) then tradeQuoteChange pr u else u)"

definition run_size :: "obj \<Rightarrow> watched_form \<Rightarrow> watched_form" where
  "run_size pr t = (let u = t\<lparr>d_size := False, seen_size := form_size t\<rparr> in
     if differs (form_size t) (seen_size t) then tradeSizeChange pr u else u)"

definition run_price :: "obj \<Rightarrow> watched_form \<Rightarrow> watched_form" where
  "run_price pr t = (let u = t\<lparr>d_price := False, seen_price := form_price t\<rparr> in
     if differs (form_price t) (seen_price t) then tradePriceChange pr u else u)"

text \<open>How much work is left: where the total follows the size, a marked size or price counts for two, where the size follows
  the total, a marked total does.\<close>

definition work :: "watched_form \<Rightarrow> nat" where
  "work t = (if form_side t = 0 \<and> form_type t = 0
     then 2 * of_bool (d_quote t) + of_bool (d_size t) + of_bool (d_price t)
     else of_bool (d_quote t) + 2 * of_bool (d_size t) + 2 * of_bool (d_price t))"

lemma format_same [simp]:
  "form_side (formatTrade p t) = form_side t" "form_type (formatTrade p t) = form_type t"
  "form_price (formatTrade p t) = form_price t" "form_size (formatTrade p t) = form_size t"
  "form_quote (formatTrade p t) = form_quote t" "d_quote (formatTrade p t) = d_quote t" "d_size (formatTrade p t) = d_size t"
  "d_price (formatTrade p t) = d_price t" "seen_quote (formatTrade p t) = seen_quote t" "seen_size (formatTrade p t) = seen_size t"
  "seen_price (formatTrade p t) = seen_price t" "form_productId (formatTrade p t) = form_productId t"
  by (simp_all add: formatTrade_def Let_def split: sum.split)

lemma work_quote: "d_quote t \<Longrightarrow> work (run_quote p t) < work t"
  by (simp add: run_quote_def tradeQuoteChange_def set_size_def work_def Let_def)

lemma work_size: "d_size t \<Longrightarrow> \<not> d_quote t \<Longrightarrow> work (run_size p t) < work t"
  by (simp add: run_size_def tradeSizeChange_def set_quote_def work_def Let_def)

lemma work_price: "d_price t \<Longrightarrow> \<not> d_quote t \<Longrightarrow> work (run_price p t) < work t"
  by (simp add: run_price_def tradePriceChange_def set_quote_def work_def Let_def)

function flush :: "obj \<Rightarrow> watched_form \<Rightarrow> watched_form" where
  "flush pr t =
     (if d_quote t then flush pr (run_quote pr t)
      else if d_size t then flush pr (run_size pr t)
      else if d_price t then flush pr (run_price pr t)
      else t)"
  by pat_completeness auto

termination
  by (relation "measure (\<lambda>(p, t). work t)") (auto intro: work_quote work_size work_price)

declare flush.simps [simp del]

section \<open>Edits\<close>

datatype edit =
    Edit_Size val
  | Edit_Quote val
  | Edit_Price val
  | Choose_Side nat
  | Choose_Type nat
  | Pick_Row nat val val

fun apply_edit :: "val \<Rightarrow> edit \<Rightarrow> watched_form \<Rightarrow> watched_form" where
  "apply_edit current (Edit_Size x) t = t\<lparr>form_size := x\<rparr>"
| "apply_edit current (Edit_Quote x) t = t\<lparr>form_quote := x\<rparr>"
| "apply_edit current (Edit_Price x) t = t\<lparr>form_price := x\<rparr>"
| "apply_edit current (Choose_Side n) t = tradeSideChange n current t"
| "apply_edit current (Choose_Type n) t = tradeTypeChange n current t"
| "apply_edit current (Pick_Row n p q) t = setTrade n p q t"

definition marked :: "watched_form \<Rightarrow> watched_form \<Rightarrow> watched_form" where
  "marked t t' = t'\<lparr>d_quote := d_quote t' \<or> form_quote t' \<noteq> form_quote t, d_size := d_size t' \<or> form_size t' \<noteq> form_size t,
     d_price := d_price t' \<or> form_price t' \<noteq> form_price t\<rparr>"

definition edited :: "obj \<Rightarrow> edit \<Rightarrow> watched_form \<Rightarrow> watched_form" where
  "edited pr e t = flush pr (marked t (apply_edit (get ''price'' pr) e t))"

text \<open>Between two events nothing is marked and every watcher has seen the value there is.\<close>

definition tracked :: "watched_form \<Rightarrow> bool" where
  "tracked t \<longleftrightarrow> (d_quote t \<or> seen_quote t = form_quote t) \<and> (d_size t \<or> seen_size t = form_size t) \<and>
     (d_price t \<or> seen_price t = form_price t)"

definition settled_form :: "watched_form \<Rightarrow> bool" where
  "settled_form t \<longleftrightarrow> tracked t \<and> \<not> d_quote t \<and> \<not> d_size t \<and> \<not> d_price t"

lemma tracked_runs: "tracked t \<Longrightarrow> tracked (run_quote pr t)" "tracked t \<Longrightarrow> tracked (run_size pr t)" "tracked t \<Longrightarrow> tracked (run_price pr t)"
  by (auto simp: tracked_def run_quote_def run_size_def run_price_def tradeQuoteChange_def tradeSizeChange_def
      tradePriceChange_def set_quote_def set_size_def Let_def)

lemma flush_settles: "tracked t \<Longrightarrow> settled_form (flush pr t)"
  by (induction pr t rule: flush.induct) (subst flush.simps, auto simp: settled_form_def tracked_runs)

lemma tracked_edit: "settled_form t \<Longrightarrow> tracked (marked t (apply_edit c e t))"
  by (cases e) (auto simp: settled_form_def tracked_def marked_def tradeSideChange_def tradeTypeChange_def setTrade_def)

lemma flush_clean: "\<not> d_quote t \<Longrightarrow> \<not> d_size t \<Longrightarrow> \<not> d_price t \<Longrightarrow> flush pr t = t"
  by (subst flush.simps) simp

text \<open>C28: however the form is edited, its queue of watchers runs empty, and every watcher has seen the last value.\<close>

theorem form_settles:
  assumes "settled_form t"
  shows "settled_form (fold (edited pr) es t)"
  using assms
proof (induction es arbitrary: t)
  case (Cons e es)
  have "settled_form (edited pr e t)"
    unfolding edited_def by (rule flush_settles [OF tracked_edit [OF Cons.prems]])
  with Cons.IH show ?case by simp
qed simp

lemma run_size_total:
  assumes "settled_form t" and "q \<noteq> form_size t" and "form_side t = 1 \<or> form_side t = 0 \<and> form_type t = 1"
  shows "let t' = edited pr (Edit_Size q) t; p = (if form_type t = 0 then get ''price'' pr else form_price t) in
    form_size t' = q \<and> form_quote t' = js_times q p \<and> form_price t' = form_price t \<and> form_side t' = form_side t \<and>
    form_type t' = form_type t \<and> form_productId t' = form_productId t"
proof -
  have "edited pr (Edit_Size q) t = flush pr (run_size pr (t\<lparr>form_size := q, d_quote := False, d_size := True, d_price := False\<rparr>))"
    using assms unfolding edited_def marked_def
    by (subst flush.simps) (simp add: settled_form_def)
  moreover have "flush pr u = u \<or> flush pr u = run_quote pr u" if "\<not> d_size u" "\<not> d_price u"
      "form_side u = 1 \<or> form_side u = 0 \<and> form_type u = 1" for u
  proof (cases "d_quote u")
    case True
    then have "flush pr u = flush pr (run_quote pr u)" by (subst flush.simps) simp
    also have "\<dots> = run_quote pr u"
      by (rule flush_clean) (use that in \<open>auto simp: run_quote_def tradeQuoteChange_def Let_def\<close>)
    finally show ?thesis by simp
  qed (use that in \<open>simp add: flush_clean\<close>)
  moreover let ?u = "run_size pr (t\<lparr>form_size := q, d_quote := False, d_size := True, d_price := False\<rparr>)"
  have "\<not> d_size ?u" "\<not> d_price ?u" "form_side ?u = form_side t" "form_type ?u = form_type t" "form_size ?u = q"
    "form_quote ?u = js_times q (if form_type t = 0 then get ''price'' pr else form_price t)" "form_price ?u = form_price t"
    "form_productId ?u = form_productId t"
    using assms by (auto simp: run_size_def tradeSizeChange_def set_quote_def settled_form_def tracked_def differs_def Let_def)
  moreover have "form_size (run_quote pr u) = form_size u" "form_quote (run_quote pr u) = form_quote u"
      "form_price (run_quote pr u) = form_price u" "form_side (run_quote pr u) = form_side u" "form_type (run_quote pr u) = form_type u"
      "form_productId (run_quote pr u) = form_productId u"
    if "form_side u = 1 \<or> form_side u = 0 \<and> form_type u = 1" for u
    using that by (auto simp: run_quote_def tradeQuoteChange_def Let_def)
  ultimately show ?thesis using assms(3) by (metis (no_types, lifting))
qed

lemma price_keeps_total:
  assumes "settled_form t" and "form_side t = 0"
  shows "form_quote (edited pr (Edit_Price p) t) = form_quote t \<and> form_size (edited pr (Edit_Price p) t) = form_size t \<and>
    form_price (edited pr (Edit_Price p) t) = p \<and> form_productId (edited pr (Edit_Price p) t) = form_productId t \<and>
    form_side (edited pr (Edit_Price p) t) = 0 \<and> form_type (edited pr (Edit_Price p) t) = form_type t"
proof (cases "p = form_price t")
  case True
  then have "edited pr (Edit_Price p) t = marked t (t\<lparr>form_price := p\<rparr>)"
    using assms unfolding edited_def by (simp add: marked_def settled_form_def flush_clean)
  with True assms show ?thesis by (simp add: marked_def)
next
  case False
  let ?v = "t\<lparr>form_price := p, d_quote := False, d_size := False, d_price := True\<rparr>"
  have "edited pr (Edit_Price p) t = flush pr (run_price pr ?v)"
    using assms False unfolding edited_def marked_def by (subst flush.simps) (simp add: settled_form_def)
  also have "\<dots> = run_price pr ?v"
    by (rule flush_clean) (use assms in \<open>simp_all add: run_price_def tradePriceChange_def Let_def\<close>)
  finally show ?thesis using assms by (simp add: run_price_def tradePriceChange_def Let_def)
qed

text \<open>When the user sells, or buys at a limit, a new size makes the total the size times the price (of the product in a
  market order), and leaves the other fields alone.\<close>

theorem size_sets_total:
  assumes "settled_form t" and "q \<noteq> form_size t" and "form_side t = 1 \<or> form_side t = 0 \<and> form_type t = 1"
  shows "let t' = edited pr (Edit_Size q) t in
    form_quote t' = js_times q (if form_type t = 0 then get ''price'' pr else form_price t) \<and>
    form_size t' = q \<and> form_price t' = form_price t \<and> form_side t' = form_side t \<and> form_type t' = form_type t"
  using run_size_total [OF assms, of pr] by (simp add: Let_def)

text \<open>C29: the total of a limit buy does not follow the price: when the price is changed after the size, the order is sent
  with the new price and with the funds of the old one.\<close>

theorem changed_limit_sends_old_funds:
  assumes "settled_form t" and "form_side t = 0" and "form_type t = 1" and "q \<noteq> form_size t"
  shows "let r = order_request (edited pr (Edit_Price p) (edited pr (Edit_Size q) t)) in
    get ''price'' r = p \<and> get ''size'' r = q \<and> get ''funds'' r = js_times q (form_price t)"
proof -
  have s: "settled_form (edited pr (Edit_Size q) t)"
    unfolding edited_def by (rule flush_settles [OF tracked_edit [OF assms(1)]])
  show ?thesis
    using run_size_total [OF assms(1,4), of pr] price_keeps_total [OF s, of pr p] assms
    by (simp add: Let_def order_request_def)
qed

definition demo_product :: obj where
  "demo_product = [(''price'', Num 100), (''baseMinSize'', Str ''0.001''), (''quoteIncrement'', Str ''0.01'')]"

definition demo_order :: watched_form where
  "demo_order = \<lparr> form_side = 0, form_type = 1, form_price = Num 100, form_size = Undef, form_quote = Undef, form_productId = ''BTC'',
     form_status = 0, form_error = [], format_size = ''0.000'', format_quote = [], seen_quote = Undef, seen_size = Undef,
     seen_price = Num 100, d_quote = False, d_size = False, d_price = False \<rparr>"

lemma demo_settled: "settled_form demo_order"
  by (simp add: settled_form_def tracked_def demo_order_def)

theorem form_settles_witness:
  "settled_form (fold (edited demo_product) [Edit_Size (Num 2), Choose_Side 1, Edit_Price (Num 90)] demo_order)"
  by (rule form_settles [OF demo_settled])

theorem size_sets_total_witness: "form_quote (edited demo_product (Edit_Size (Num 2)) demo_order) = Num 200"
  using size_sets_total [OF demo_settled, of "Num 2" demo_product]
  by (simp add: demo_order_def js_times_def lift2_def Let_def)

theorem changed_limit_sends_old_funds_witness:
  "get ''funds'' (order_request (edited demo_product (Edit_Price (Num 300)) (edited demo_product (Edit_Size (Num 2)) demo_order))) = Num 200"
  using changed_limit_sends_old_funds [OF demo_settled, of "Num 2" demo_product "Num 300"]
  by (simp add: demo_order_def js_times_def lift2_def Let_def)

end
