(* ===== verification/Account_Pages.thy ===== *)
theory Account_Pages
  imports Exchange_Account Js_Regex
begin

text \<open>
  The pages of the exchange client that sign in, sign up and change an account: \<open>page/page.ts\<close> (what every page
  does), \<open>page/account/signin\<close>, \<open>signup\<close>, \<open>forgot\<close> and \<open>profile\<close>, and \<open>component/modal/change-password\<close>. A page is a
  record around the client of \<open>Exchange_Account\<close>; the forms extend it. \<open>serve\<close> answers the requests. The router is the list of the
  calls of \<open>push\<close> (\<open>True\<close>) and \<open>replace\<close> (\<open>False\<close>).
\<close>

section \<open>page.ts\<close>

record page =
  site :: client
  fullPath :: string
  query :: obj
  needLogin :: bool
  routed :: "(bool \<times> val) list"
  app_loading :: bool
  page_loading :: bool
  modal :: "(string \<times> obj) option"
  page_title :: string

type_synonym ('p, 'a) on_page = "('p page_scheme, 'a) io"

definition on_site :: "'a action \<Rightarrow> ('p, 'a) on_page" where
  "on_site m = (\<lambda>p. case m (site p) of (r, c) \<Rightarrow> (r, p\<lparr>site := c\<rparr>))"

definition route :: "bool \<Rightarrow> val \<Rightarrow> ('p, unit) on_page" where
  "route b target = modify (\<lambda>p. p\<lparr>routed := routed p @ [(b, target)]\<rparr>)"

definition signStateChange :: "('p, unit) on_page" where
  "signStateChange = (\<lambda>p. if needLogin p \<and> \<not> logined (site p)
     then route False (Str (''/account/signin?ref='' @ fullPath p)) p else ret () p)"

text \<open>\<open>mounted\<close>; the check of the visible elements that it schedules is \<open>Order_Pages.visibleChanged\<close>.\<close>

definition page_mounted :: "('p, unit) on_page" where
  "page_mounted = seqio (modify (\<lambda>p. p\<lparr>app_loading := True\<rparr>)) signStateChange"

definition pageLoadingHide :: "('p, unit) on_page" where
  "pageLoadingHide = modify (\<lambda>p. p\<lparr>app_loading := False, page_loading := False\<rparr>)"

definition setTitle :: "string \<Rightarrow> ('p, unit) on_page" where
  "setTitle t = modify (\<lambda>p. p\<lparr>page_title := t\<rparr>)"

definition createModal :: "string \<Rightarrow> obj \<Rightarrow> ('p, unit) on_page" where
  "createModal name data = modify (\<lambda>p. p\<lparr>modal := Some (name, data)\<rparr>)"

definition closeModal :: "('p, unit) on_page" where
  "closeModal = modify (\<lambda>p. p\<lparr>modal := None\<rparr>)"

definition exchange_title :: string where
  "exchange_title = ''Gitbiex | Digital Asset Exchange''"

text \<open>What \<open>error.message\<close> is for a rejection of the HTTP client or an error of the page.\<close>

fun error_text :: "js_error \<Rightarrow> string" where
  "error_text (TypeError t) = t"
| "error_text (ReferenceError t) = t"
| "error_text (JsError t) = t"

text \<open>A handler that reads \<open>error.response.data.message\<close>: the rejections of \<open>service/request.ts\<close> are bodies of answers without
  \<open>response\<close>, so it throws before it stores the message.\<close>

definition nested_message :: "('p, 'a) on_page" where
  "nested_message = throw (TypeError ''Cannot read properties of undefined (reading data)'')"

section \<open>Signing in\<close>

record signin_page = page +
  in_email :: string
  in_password :: string
  in_error :: string
  in_alert :: string

definition signin_mounted :: "('p signin_page_scheme, unit) io" where
  "signin_mounted =
     seqio page_mounted (seqio pageLoadingHide (seqio (setTitle exchange_title)
       (modify (\<lambda>p. if loose_eq (get ''alert'' (query p)) (Str ''forgot'')
          then p\<lparr>in_alert := ''Your password has been reset! You can now continue below.''\<rparr> else p))))"

text \<open>The callback of \<open>StoreService.Account.current\<close> does not throw, so it runs once, after the user information was asked for.\<close>

definition after_signin :: "('p, unit) on_page" where
  "after_signin = (\<lambda>p. route True (if truthy_val (get ''ref'' (query p)) then get ''ref'' (query p) else Str ''/account/profile'') p)"

definition signin_submit :: "(http_request \<Rightarrow> http_response) \<Rightarrow> ('p signin_page_scheme, unit) io" where
  "signin_submit serve =
     catchio
       (bindio (\<lambda>p. on_site (send_request serve (signin_request (in_email p) (in_password p))) p) (\<lambda>response.
        seqio (on_site (saveToken (js_string response)))
        (seqio (on_site (account_current serve (ret ()))) after_signin)))
       (\<lambda>e. modify (\<lambda>p. p\<lparr>in_error := error_text e\<rparr>))"

section \<open>Signing up\<close>

record signup_page = page +
  up_account :: obj
  up_error :: string
  checkArg :: val

definition signup_submit :: "(http_request \<Rightarrow> http_response) \<Rightarrow> ('p signup_page_scheme, unit) io" where
  "signup_submit serve = (\<lambda>p.
     if \<not> truthy_val (checkArg p) then modify (\<lambda>p. p\<lparr>up_error := ''Please accept the user agreement''\<rparr>) p
     else catchio (seqio (on_site (send_request serve (signup_request (up_account p)))) (route True (Str ''/account/signin'')))
       (\<lambda>e. modify (\<lambda>p. p\<lparr>up_error := error_text e\<rparr>)) p)"

section \<open>A forgotten password\<close>

text \<open>\<open>^[a-z0-9]+([._\-]*[a-z0-9])*@([a-z0-9]+[-a-z0-9]*[a-z0-9]+.){1,63}[a-z0-9]+$\<close>; the dot of the pattern is any
  character but a line terminator.\<close>

definition lower_alnum :: "char \<Rightarrow> bool" where
  "lower_alnum c \<longleftrightarrow> is_digit c \<or> (let n = (of_char c :: nat) in 97 \<le> n \<and> n \<le> 122)"

definition any_char :: "char \<Rightarrow> bool" where
  "any_char c \<longleftrightarrow> (of_char c :: nat) \<noteq> 10 \<and> (of_char c :: nat) \<noteq> 13"

primrec up_to :: "nat \<Rightarrow> rx \<Rightarrow> rx" where
  "up_to 0 r = Eps"
| "up_to (Suc n) r = Maybe (Seq r (up_to n r))"

definition mail_label :: rx where
  "mail_label = Seq (Some_Of (Class lower_alnum))
     (Seq (Many (Class (\<lambda>c. lower_alnum c \<or> c = CHR ''-'')))
     (Seq (Some_Of (Class lower_alnum)) (Class any_char)))"

definition mail_rx :: rx where
  "mail_rx = Seq (Some_Of (Class lower_alnum))
     (Seq (Many (Seq (Many (Class (\<lambda>c. c \<in> {CHR ''.'', CHR ''_'', CHR ''-''}))) (Class lower_alnum)))
     (Seq (Class (\<lambda>c. c = CHR ''@''))
     (Seq (Seq mail_label (up_to 62 mail_label)) (Some_Of (Class lower_alnum)))))"

record forgot_page = page +
  fg_account :: obj
  fg_error :: string
  codeIsSend :: bool

definition forgot_submit :: "(http_request \<Rightarrow> http_response) \<Rightarrow> ('p forgot_page_scheme, unit) io" where
  "forgot_submit serve = (\<lambda>p.
     if codeIsSend p then
       (if \<not> truthy_val (get ''newPassword'' (fg_account p)) then modify (\<lambda>p. p\<lparr>fg_error := ''Password is required''\<rparr>) p
        else catchio (seqio (on_site (send_request serve (resetPassword_request (fg_account p))))
            (route False (Str ''signin?alert=forgot''))) (\<lambda>_. nested_message) p)
     else if \<not> matches mail_rx (js_string (get ''email'' (fg_account p)))
     then modify (\<lambda>p. p\<lparr>fg_error := ''Email doesn'' @ [CHR 0x27] @ ''t look correct''\<rparr>) p
     else catchio (seqio (on_site (send_request serve (sendEmailVerifyCode_request (js_string (get ''email'' (fg_account p))))))
         (modify (\<lambda>p. p\<lparr>codeIsSend := True\<rparr>))) (\<lambda>_. nested_message) p)"

section \<open>Profile and password\<close>

record profile_page = page +
  pf_avatar :: val
  pf_nickname :: val

definition profile_mounted :: "('p profile_page_scheme, unit) io" where
  "profile_mounted =
     seqio (modify (\<lambda>p. p\<lparr>needLogin := True\<rparr>)) (seqio page_mounted (seqio pageLoadingHide (seqio (setTitle exchange_title)
       (modify (\<lambda>p. p\<lparr>pf_avatar := get ''avatar'' (userInfo (site p)), pf_nickname := get ''nickname'' (userInfo (site p))\<rparr>)))))"

definition profile_changePassword :: "('p, unit) on_page" where
  "profile_changePassword = createModal ''modal-change-password'' []"

text \<open>\<open>url\<close> is what the upload of the file resolves with.\<close>

definition profile_upload :: "(http_request \<Rightarrow> http_response) \<Rightarrow> string \<Rightarrow> ('p profile_page_scheme, unit) io" where
  "profile_upload serve url =
     seqio (modify (\<lambda>p. p\<lparr>pf_avatar := Str url\<rparr>)) (bindio (on_site (saveAvatar serve url)) (\<lambda>_. ret ()))"

definition updateNickname :: "(http_request \<Rightarrow> http_response) \<Rightarrow> ('p profile_page_scheme, unit) io" where
  "updateNickname serve = (\<lambda>p. if truthy_val (pf_nickname p)
     then bindio (on_site (saveNickname serve (js_string (pf_nickname p)))) (\<lambda>_. ret ()) p else ret () p)"

record password_modal = page +
  pwd :: obj
  pm_error :: string
  pm_loading :: bool
  pm_success :: bool

definition blank :: "string \<Rightarrow> string" where
  "blank field = field @ '' can'' @ [CHR 0x27] @ ''t be blank''"

definition password_submit :: "(http_request \<Rightarrow> http_response) \<Rightarrow> ('p password_modal_scheme, unit) io" where
  "password_submit serve = (\<lambda>p.
     if \<not> truthy_val (get ''oldPassword'' (pwd p)) then modify (\<lambda>p. p\<lparr>pm_error := blank ''Old password''\<rparr>) p
     else if \<not> truthy_val (get ''newPassword'' (pwd p)) then modify (\<lambda>p. p\<lparr>pm_error := blank ''New password''\<rparr>) p
     else if \<not> truthy_val (get ''confirm'' (pwd p)) then modify (\<lambda>p. p\<lparr>pm_error := blank ''Confirm New password''\<rparr>) p
     else seqio (modify (\<lambda>p. p\<lparr>pm_loading := True\<rparr>))
       (catchio (seqio (on_site (send_request serve (changePassword_request (js_string (get ''oldPassword'' (pwd p)))
              (js_string (get ''newPassword'' (pwd p))))))
            (modify (\<lambda>p. p\<lparr>pm_loading := False, pm_success := True\<rparr>)))
          (\<lambda>_. nested_message)) p)"

section \<open>Properties\<close>

lemma on_site_simp [simp]: "on_site m p = (fst (m (site p)), p\<lparr>site := snd (m (site p))\<rparr>)"
  by (simp add: on_site_def split: prod.split)

lemmas account_defs = io_defs issue_def on_http_response_def send_request_def saveToken_def account_current_def setUserInfo_def
  on_trade_def modify_def route_def

lemma current_user:
  assumes "serve (on_request current_request) = user" and "resp_status user < 300" and "resp_data user = Obj u"
  shows "account_current serve (ret ()) c =
    (Inr (), c\<lparr>requests := requests c @ [on_request current_request],
       userInfo := [(''nickname'', get ''name'' u), (''userId'', get ''id'' u), (''avatar'', get ''profilePhoto'' u)],
       trade := (trade c)\<lparr>token := getToken c\<rparr>\<rparr>)"
  using assms by (simp add: account_defs current_request_def getToken_def)

lemma no_user:
  assumes "serve (on_request current_request) = answer" and "300 \<le> resp_status answer"
  shows "\<exists>c'. account_current serve (ret ()) c = (Inr (), c') \<and> localStorage c' = localStorage c \<and> userInfo c' = userInfo c \<and>
    token (trade c') = token (trade c)"
  using assms by (simp add: account_defs)

text \<open>C32: a right password signs in: the token is stored and given to the socket, the user counts as signed in, no error is shown,
  and the page goes to the \<open>ref\<close> of its address, or to the profile.\<close>

theorem right_password_signs_in:
  fixes q :: signin_page
  assumes "serve (on_request (signin_request (in_email q) (in_password q))) = \<lparr>resp_status = 200, resp_data = Str tok, resp_headers = hs\<rparr>"
    and "serve (on_request current_request) = \<lparr>resp_status = 200, resp_data = Obj u, resp_headers = hs\<rparr>"
    and "tok \<noteq> []" and "truthy_val (get ''id'' u)"
  shows "let q' = snd (signin_submit serve q) in
    routed q' = routed q @ [(True, if truthy_val (get ''ref'' (query q)) then get ''ref'' (query q) else Str ''/account/profile'')] \<and>
    logined (site q') \<and> in_error q' = in_error q \<and>
    localStorage (site q') ''access-token'' = Some tok \<and> token (trade (site q')) = Str tok \<and>
    requests (site q') = requests (site q) @ [on_request (signin_request (in_email q) (in_password q)), on_request current_request]"
  using assms(1,4) current_user [where serve = serve, OF assms(2)]
  by (simp add: signin_submit_def after_signin_def send_request_def issue_def on_http_response_def saveToken_def modify_def
      route_def io_defs signin_request_def http_post_def logined_def getToken_def Let_def)

text \<open>C33: the server answers a wrong password with 401, which the HTTP client resolves: the page stores the token
  \<open>undefined\<close>, shows no error and goes on to the page asked for, without a user.\<close>

theorem wrong_password_stores_token:
  fixes q :: signin_page
  assumes "resp_status (serve (on_request (signin_request (in_email q) (in_password q)))) = 401"
    and "300 \<le> resp_status (serve (on_request current_request))"
  shows "let q' = snd (signin_submit serve q) in
    localStorage (site q') ''access-token'' = Some ''undefined'' \<and> in_error q' = in_error q \<and>
    userInfo (site q') = userInfo (site q) \<and> length (routed q') = Suc (length (routed q))"
proof -
  obtain c' where c': "account_current serve (ret ()) c = (Inr (), c' c) \<and> localStorage (c' c) = localStorage c \<and>
      userInfo (c' c) = userInfo c \<and> token (trade (c' c)) = token (trade c)" for c
    using no_user [where serve = serve, OF refl assms(2)] by metis
  show ?thesis
    using assms(1) c'
    by (simp add: signin_submit_def after_signin_def send_request_def issue_def on_http_response_def saveToken_def modify_def
        route_def io_defs Let_def)
qed

text \<open>The form that changes the password compares nothing: what is sent, and what is shown after the answer, is the same
  for every confirmation that is not blank.\<close>

theorem confirmation_not_compared:
  fixes p :: password_modal
  assumes "truthy_val (get ''oldPassword'' (pwd p))" and "truthy_val (get ''newPassword'' (pwd p))" and "truthy_val x"
    and "truthy_val (get ''confirm'' (pwd p))"
  shows "let p' = snd (password_submit serve p); p'' = snd (password_submit serve (p\<lparr>pwd := put ''confirm'' x (pwd p)\<rparr>)) in
    requests (site p'') = requests (site p') \<and> pm_success p'' = pm_success p' \<and> pm_error p'' = pm_error p' \<and>
    requests (site p') = requests (site p) @ [on_request (changePassword_request (js_string (get ''oldPassword'' (pwd p)))
      (js_string (get ''newPassword'' (pwd p))))]"
  using assms by (simp add: password_submit_def send_request_def on_http_response_def issue_def modify_def nested_message_def
      io_defs Let_def)

text \<open>A password the server turns down leaves the form loading, without a message.\<close>

lemma refused_password_hangs:
  fixes p :: password_modal
  assumes "truthy_val (get ''oldPassword'' (pwd p))" "truthy_val (get ''newPassword'' (pwd p))" "truthy_val (get ''confirm'' (pwd p))"
    and "\<And>r. 300 \<le> resp_status (serve r) \<and> resp_status (serve r) \<noteq> 401"
  shows "pm_loading (snd (password_submit serve p))" "pm_error (snd (password_submit serve p)) = pm_error p"
    "pm_success (snd (password_submit serve p)) = pm_success p"
  using assms by (simp_all add: password_submit_def send_request_def on_http_response_def issue_def modify_def nested_message_def
      io_defs not_less [symmetric] del: not_less)

section \<open>Addresses that the form accepts\<close>

lemma up_to_Nil: "[] \<in> lang (up_to n r)"
  by (cases n) auto

lemma some_class_I: "s \<noteq> [] \<Longrightarrow> list_all p s \<Longrightarrow> s \<in> lang (Some_Of (Class p))"
  by (simp only: some_class simp_thms)

lemma seqI: "a \<in> lang r \<Longrightarrow> b \<in> lang q \<Longrightarrow> a @ b \<in> lang (Seq r q)"
  by (simp only: lang.simps) blast

lemma mail_labelI:
  assumes "lower_alnum a" "lower_alnum b" "any_char c"
  shows "[a, b, c] \<in> lang mail_label"
proof -
  have "[a] @ [] @ [b] @ [c] \<in> lang mail_label"
    unfolding mail_label_def using assms by (intro seqI some_class_I) (simp_all add: many_Nil)
  then show ?thesis by simp
qed

lemma lower_any: "lower_alnum c \<Longrightarrow> any_char c"
  by (auto simp: lower_alnum_def any_char_def is_digit_def Let_def)

text \<open>The dot of the domain may be any character: whatever name is followed by \<open>@\<close> and four lower-case letters or digits is taken
  for an address.\<close>

theorem undotted_mail_accepted:
  assumes "l \<noteq> []" and "list_all lower_alnum l" and "4 \<le> length d" and "list_all lower_alnum d"
  shows "matches mail_rx (l @ CHR ''@'' # d)"
proof -
  obtain a b c e where d: "d = [a, b, c] @ e" and e: "e \<noteq> []" "list_all lower_alnum e"
    and x: "lower_alnum a" "lower_alnum b" "lower_alnum c"
  proof -
    obtain a b c x e where "d = a # b # c # x # e"
      using assms(3) by (auto simp: numeral_eq_Suc Suc_le_length_iff)
    with assms(4) that [of a b c "x # e"] show thesis by simp
  qed
  have "l @ [] @ [CHR ''@''] @ ([a, b, c] @ []) @ e \<in> lang mail_rx"
    unfolding mail_rx_def using assms(1,2) e lower_any [OF x(3)] x
    by (intro seqI some_class_I mail_labelI up_to_Nil) (simp_all add: many_Nil)
  then show ?thesis by (simp add: matches_lang d)
qed

section \<open>Witnesses\<close>

definition demo_site :: client where
  "demo_site = demo_client\<lparr>userInfo := []\<rparr>"

definition demo_page :: page where
  "demo_page = \<lparr>site = demo_site, fullPath = ''/account/profile'', query = [], needLogin = False, routed = [], app_loading = False,
     page_loading = False, modal = None, page_title = []\<rparr>"

definition demo_profile :: profile_page where
  "demo_profile = page.extend demo_page \<lparr>pf_avatar = Str [], pf_nickname = Str []\<rparr>"

definition demo_signin :: "obj \<Rightarrow> signin_page" where
  "demo_signin qs = page.extend (demo_page\<lparr>query := qs\<rparr>) \<lparr>in_email = ''a@b.io'', in_password = ''pw'', in_error = [], in_alert = []\<rparr>"

definition demo_password :: password_modal where
  "demo_password = page.extend demo_page \<lparr>pwd = [(''oldPassword'', Str ''a''), (''newPassword'', Str ''b''), (''confirm'', Str ''c'')],
     pm_error = [], pm_loading = False, pm_success = False\<rparr>"

text \<open>A server that knows one user.\<close>

definition demo_serve :: "http_request \<Rightarrow> http_response" where
  "demo_serve r = \<lparr>resp_status = 200, resp_data = (if req_method r = ''post'' then Str ''tok'' else Obj [(''id'', Num 7)]), resp_headers = []\<rparr>"

theorem right_password_signs_in_witness:
  "routed (snd (signin_submit demo_serve (demo_signin [(''ref'', Str ''/trade/BTC-USDT'')]))) = [(True, Str ''/trade/BTC-USDT'')]"
  using right_password_signs_in [of demo_serve "demo_signin [(''ref'', Str ''/trade/BTC-USDT'')]" "''tok''" "[]" "[(''id'', Num 7)]"]
  by (simp add: demo_signin_def demo_page_def page.defs demo_serve_def on_request_def signin_request_def http_post_def
      current_request_def http_get_def Let_def)

theorem wrong_password_stores_token_witness:
  "localStorage (site (snd (signin_submit (\<lambda>_. \<lparr>resp_status = 401, resp_data = Undef, resp_headers = []\<rparr>) (demo_signin []))))
     ''access-token'' = Some ''undefined''"
  using wrong_password_stores_token [of "\<lambda>_. \<lparr>resp_status = 401, resp_data = Undef, resp_headers = []\<rparr>" "demo_signin []"]
  by (simp add: Let_def)

theorem confirmation_not_compared_witness:
  "requests (site (snd (password_submit demo_serve demo_password)))
    = [on_request (changePassword_request ''a'' ''b'')]"
  using confirmation_not_compared [of demo_password "Str ''d''" demo_serve]
  by (simp add: demo_password_def demo_page_def demo_site_def demo_client_def page.defs Let_def)

theorem undotted_mail_accepted_witness: "matches mail_rx ''a@bcde''"
  using undotted_mail_accepted [of "''a''" "''bcde''"] by (simp add: lower_alnum_def is_digit_def Let_def)

end
