(* ===== verification/Order_Pages.thy ===== *)
theory Order_Pages
  imports Account_Pages
begin

text \<open>
  The pages of the exchange client that show orders and markets: the drop-down (\<open>component/select\<close>), the page of all orders with
  its pagination (\<open>page/account/order\<close>, \<open>component/pagination\<close>), the panels of the open orders (\<open>component/panel/order\<close>,
  \<open>order-list\<close>), the trade page with its subscriptions (\<open>page/trade\<close>, \<open>component/header/trade\<close>), the list of wallets, the tabs of
  the deposit and withdrawal dialogs and \<open>watch.ts\<close>.
\<close>

section \<open>select.ts\<close>

record select =
  options :: "string list"
  search :: bool
  showDropdown :: bool
  selectValue :: val

definition option_at :: "string list \<Rightarrow> nat \<Rightarrow> val" where
  "option_at opts i = (if i < length opts then Str (opts ! i) else Undef)"

definition onOptionsChange :: "nat \<Rightarrow> select \<Rightarrow> select" where
  "onOptionsChange v s = (if 0 < length (options s) then s\<lparr>selectValue := option_at (options s) v\<rparr> else s)"

definition document_click :: "nat \<Rightarrow> select \<Rightarrow> select" where
  "document_click v s = s\<lparr>showDropdown := False,
     selectValue := (if truthy_val (selectValue s) then selectValue s else option_at (options s) v)\<rparr>"



definition clear_select :: "select \<Rightarrow> select" where
  "clear_select s = s\<lparr>selectValue := Str []\<rparr>"

definition dropDown :: "select \<Rightarrow> select" where
  "dropDown s = s\<lparr>showDropdown := True, selectValue := Str []\<rparr>"

section \<open>The page of all orders\<close>

text \<open>\<open>op_pending\<close> are the requests without an answer.\<close>

record order_page = page +
  op_products :: "string list"
  op_selected :: nat
  op_orders :: "val list"
  op_loading :: bool
  op_cursor :: "(string \<times> string) list"
  op_direction :: int
  op_before :: val
  op_after :: val
  op_pending :: "http_request list"

definition op_created :: "order_page \<Rightarrow> order_page" where
  "op_created p = p\<lparr>op_products := map (product_id (trade (site p))) (products (trade (site p)))\<rparr>"

definition op_product :: "order_page \<Rightarrow> js_error + obj" where
  "op_product p = (let s = trade (site p); k = js_string (option_at (op_products p) (op_selected p)) in
     case fst (getObject k s) of Inl e \<Rightarrow> Inl e | Inr x \<Rightarrow> Inr (heap s ! product x))"

definition onSelected :: "(order_page, unit) io" where
  "onSelected = seqio (modify (\<lambda>p. p\<lparr>op_loading := True\<rparr>))
     (\<lambda>p. case op_product p of Inl e \<Rightarrow> (Inl e, p)
      | Inr ob \<Rightarrow> (let q = getOrders_request (js_string (get ''id'' ob)) 30 [] (op_cursor p) in
          seqio (on_site (issue q)) (modify (\<lambda>p. p\<lparr>op_pending := op_pending p @ [on_request q]\<rparr>)) p))"

definition op_mounted :: "(order_page, unit) io" where
  "op_mounted = seqio (modify (\<lambda>p. p\<lparr>needLogin := True\<rparr>)) (seqio page_mounted (seqio pageLoadingHide
     (seqio onSelected (setTitle exchange_title))))"

definition onCursorDirection :: "int \<Rightarrow> int \<Rightarrow> (order_page, unit) io" where
  "onCursorDirection new old = seqio
     (modify (\<lambda>p. p\<lparr>op_cursor := (if new > old then [(''after'', js_string (op_after p))] else [(''before'', js_string (op_before p))])\<rparr>))
     onSelected"

text \<open>An answer: the promise of \<open>getOrders\<close> and the handler of the page, which formats for the product selected now. What it
  throws is lost.\<close>

definition shown_orders :: "(val \<Rightarrow> string \<Rightarrow> string) \<Rightarrow> order_page \<Rightarrow> val \<Rightarrow> js_error + val list" where
  "shown_orders moment p data = (case elements data of
       Inl e \<Rightarrow> Inl e
     | Inr [] \<Rightarrow> Inr []
     | Inr vs \<Rightarrow> (case op_product p of Inl e \<Rightarrow> Inl e
         | Inr ob \<Rightarrow> map_sum id (map Obj)
             (map_results (\<lambda>v. format_order moment (loaded_fields (digits (get ''quoteScale'' ob))) (entries v)) vs)))"

definition orders_answered :: "(val \<Rightarrow> string \<Rightarrow> string) \<Rightarrow> http_response \<Rightarrow> order_page \<Rightarrow> order_page" where
  "orders_answered moment r p =
     (if resp_status r < 300 then
        (case shown_orders moment p (resp_data r) of Inl e \<Rightarrow> p
         | Inr os \<Rightarrow> p\<lparr>op_after := get ''gbe-after'' (resp_headers r), op_before := get ''gbe-before'' (resp_headers r),
             op_orders := os, op_loading := False\<rparr>)
      else if resp_status r = 401 then p\<lparr>site := (site p)\<lparr>location := ''/account/signin''\<rparr>\<rparr>
      else p)"

text \<open>The events: the drop-down emits a number, the arrows of the pagination change its page by one, an outstanding request is
  answered.\<close>

datatype order_event = Emitted nat | Next_Page | Prev_Page | Answered nat http_response

definition turned :: "int \<Rightarrow> order_page \<Rightarrow> order_page" where
  "turned d p = snd (onCursorDirection (op_direction p + d) (op_direction p) (p\<lparr>op_direction := op_direction p + d\<rparr>))"

fun order_step :: "(val \<Rightarrow> string \<Rightarrow> string) \<Rightarrow> order_event \<Rightarrow> order_page \<Rightarrow> order_page" where
  "order_step moment (Emitted i) p = (if i = op_selected p then p else snd (onSelected (p\<lparr>op_selected := i\<rparr>)))"
| "order_step moment Next_Page p = turned 1 p"
| "order_step moment Prev_Page p = turned (- 1) p"
| "order_step moment (Answered i r) p = (if i < length (op_pending p)
     then orders_answered moment r (p\<lparr>op_pending := take i (op_pending p) @ drop (Suc i) (op_pending p)\<rparr>) else p)"

definition order_run :: "(val \<Rightarrow> string \<Rightarrow> string) \<Rightarrow> order_event list \<Rightarrow> order_page \<Rightarrow> order_page" where
  "order_run moment es p = fold (order_step moment) es p"

section \<open>Open orders\<close>

definition is_open :: "val \<Rightarrow> bool" where
  "is_open v \<longleftrightarrow> loose_eq (get ''status'' (entries v)) (Str ''open'')"

definition with_status :: "string \<Rightarrow> val \<Rightarrow> val" where
  "with_status t v = Obj (put ''statusFormat'' (Str t) (put ''status'' (Str t) (entries v)))"

text \<open>\<open>openOrders\<close> of the panel: the orders shown and whether the button for all of them is enabled.\<close>

definition panel_orders :: "bool \<Rightarrow> val list \<Rightarrow> val list \<times> bool" where
  "panel_orders signed_in os = (if \<not> signed_in then ([], False) else (take 30 os, list_ex is_open os))"

definition canceling :: "val list \<Rightarrow> val list" where
  "canceling os = map (\<lambda>v. if is_open v then with_status ''canceling'' v else v) (take 30 os) @ drop 30 os"

definition cancelAll :: "string \<Rightarrow> unit action" where
  "cancelAll productId = seqio
     (\<lambda>c. if logined c then on_trade (change_object productId (\<lambda>x. x\<lparr>openOrders := canceling (openOrders x)\<rparr>)) c else ret () c)
     (issue (cancelAll_request productId))"

text \<open>\<open>cancel\<close> of the list: the order is marked when it is clicked and again when the server agreed.\<close>

definition cancel_clicked :: "val \<Rightarrow> val action" where
  "cancel_clicked order = seqio (issue (cancelOrder_request (js_string (get ''id'' (entries order))))) (ret (with_status ''canceling'' order))"

definition cancel_answered :: "http_response \<Rightarrow> val \<Rightarrow> val" where
  "cancel_answered r order = (if resp_status r < 300 \<or> resp_status r = 401 then with_status ''cancelled'' order else order)"

section \<open>The trade page\<close>

text \<open>One browser tab: the listeners of \<open>visibilitychange\<close> that were added, by product, and the timers of the title.\<close>

record tab =
  tab_trade :: trade_state
  listeners :: "string list"
  titles :: "string list"

definition trade_channels :: "string list" where
  "trade_channels = [''candles'', ''match'', ''level2'', ''order'']"

definition on_tab :: "'a store \<Rightarrow> (tab, 'a) io" where
  "on_tab m = (\<lambda>t. case m (tab_trade t) of (r, s) \<Rightarrow> (r, t\<lparr>tab_trade := s\<rparr>))"

definition trade_mounted :: "string \<Rightarrow> (tab, unit) io" where
  "trade_mounted productId =
     seqio (modify (\<lambda>t. t\<lparr>titles := titles t @ [productId]\<rparr>))
     (seqio (on_tab (subscribe_products [productId] trade_channels))
     (modify (\<lambda>t. t\<lparr>listeners := listeners t @ [productId]\<rparr>)))"

definition trade_destroyed :: "string \<Rightarrow> (tab, unit) io" where
  "trade_destroyed productId =
     seqio (modify (\<lambda>t. t\<lparr>titles := remove1 productId (titles t)\<rparr>)) (on_tab (unsubscribe [productId] trade_channels))"

definition visibility :: "bool \<Rightarrow> string \<Rightarrow> (tab, unit) io" where
  "visibility visible productId = (if visible then on_tab (subscribe_products [productId] trade_channels)
     else on_tab (unsubscribe [productId] trade_channels))"

datatype tab_event = Visit string | Leave string | Visible bool

fun tab_step :: "tab_event \<Rightarrow> tab \<Rightarrow> tab" where
  "tab_step (Visit p) t = snd (trade_mounted p t)"
| "tab_step (Leave p) t = snd (trade_destroyed p t)"
| "tab_step (Visible b) t = fold (\<lambda>p. reported (visibility b p)) (listeners t) t"

definition tab_run :: "tab_event list \<Rightarrow> tab \<Rightarrow> tab" where
  "tab_run es t = fold tab_step es t"

text \<open>The title of the page; nothing is written without a price.\<close>

definition title_text :: "obj \<Rightarrow> js_error + string option" where
  "title_text ob = (if \<not> truthy_val (get ''price'' ob) then Inr None
     else case toFixed (to_number (get ''price'' ob)) (digits (get ''quoteScale'' ob)) of Inl e \<Rightarrow> Inl e
       | Inr s \<Rightarrow> Inr (Some (s @ '' '' @ [CHR 0xC2, CHR 0xB7] @ '' '' @ js_string (get ''baseCurrency'' ob) @ '' to ''
           @ js_string (get ''quoteCurrency'' ob))))"

text \<open>\<open>orderBookSelect\<close> hands price and size of a level to the form.\<close>

definition book_level :: "val \<Rightarrow> val \<times> val" where
  "book_level data = (num_val (to_number (item data 0)), num_val (to_number (item data 1)))"

section \<open>The header of the trade page\<close>

definition CURRENCY_SYMBOL :: obj where
  "CURRENCY_SYMBOL = [(''BTC'', Str [CHR 0xE2, CHR 0x82, CHR 0xBF]), (''USDT'', Str ''$'')]"

definition quote_key :: "obj \<Rightarrow> string" where
  "quote_key ob = js_string (get ''quoteCurrency'' ob)"

definition with_symbol :: "obj \<Rightarrow> obj" where
  "with_symbol ob = put ''symbol'' (get (quote_key ob) CURRENCY_SYMBOL) ob"

definition add_to_group :: "obj \<Rightarrow> (string \<times> obj list) list \<Rightarrow> (string \<times> obj list) list" where
  "add_to_group ob gs = AList.update (quote_key ob) ((case map_of gs (quote_key ob) of None \<Rightarrow> [] | Some xs \<Rightarrow> xs) @ [with_symbol ob]) gs"

definition productGroups :: "obj list \<Rightarrow> (string \<times> obj list) list" where
  "productGroups ps = fold add_to_group ps []"

section \<open>Wallets and dialogs\<close>

definition wallet_row :: "obj \<Rightarrow> js_error + obj" where
  "wallet_row b =
     (case toFixed (to_number (get ''available'' b)) 8 of Inl e \<Rightarrow> Inl e | Inr a \<Rightarrow>
      (case toFixed (lift2 (+) (number_of_string a) (to_number (get ''hold'' b))) 8 of Inl e \<Rightarrow> Inl e | Inr t \<Rightarrow>
       (case toFixed (to_number (get ''hold'' b)) 8 of Inl e \<Rightarrow> Inl e | Inr h \<Rightarrow>
        Inr (put ''hold'' (Str h) (put ''total'' (Str t) (put ''available'' (Str a) b))))))"

definition wallets_answered :: "val \<Rightarrow> js_error + val list \<times> val" where
  "wallets_answered response = (case elements response of Inl e \<Rightarrow> Inl e
     | Inr vs \<Rightarrow> map_sum id (\<lambda>fs. (map Obj fs, item (Arr (map Obj fs)) 0)) (map_results (wallet_row \<circ> entries) vs))"

definition tabbarChange :: "nat \<Rightarrow> (string \<times> bool) list \<Rightarrow> js_error + (string \<times> bool) list \<times> string" where
  "tabbarChange index items = (if index < length items
     then Inr (map (\<lambda>i. (fst (items ! i), i = index)) [0..<length items], fst (items ! index))
     else Inl (TypeError ''Cannot read properties of undefined''))"

definition dialog_created :: "string list \<Rightarrow> js_error + (string \<times> bool) list \<times> string" where
  "dialog_created currencies = tabbarChange 0 (map (\<lambda>c. (c, False)) currencies)"

section \<open>watch.ts\<close>

text \<open>The items that were registered: the element and the state seen last. The calls made by a check are listed with the state.\<close>

definition visibleChange :: "'e \<Rightarrow> ('e \<times> bool) list \<Rightarrow> ('e \<times> bool) list" where
  "visibleChange e items = items @ [(e, False)]"

definition visibleChanged :: "('e \<Rightarrow> bool) \<Rightarrow> ('e \<times> bool) list \<Rightarrow> ('e \<times> bool) list \<times> ('e \<times> bool) list" where
  "visibleChanged visible items =
     (map (\<lambda>(e, v). (e, visible e)) items, map (\<lambda>(e, v). (e, visible e)) (filter (\<lambda>(e, v). v \<noteq> visible e) items))"

section \<open>What the page of all orders asks for\<close>

text \<open>Every product of the page is known under its id.\<close>

definition lists_products :: "order_page \<Rightarrow> bool" where
  "lists_products p \<longleftrightarrow> (\<forall>k \<in> set (op_products p). \<exists>x. fst (getObject k (trade (site p))) = Inr x \<and>
     get ''id'' (heap (trade (site p)) ! product x) = Str k)"

definition asked_selected :: "order_page \<Rightarrow> bool" where
  "asked_selected p \<longleftrightarrow> op_selected p < length (op_products p) \<and> requests (site p) \<noteq> [] \<and>
     last (requests (site p)) = on_request (getOrders_request (op_products p ! op_selected p) 30 [] (op_cursor p))"

lemma op_product_id:
  assumes "lists_products p" and "op_selected p < length (op_products p)"
  obtains ob where "op_product p = Inr ob" and "get ''id'' ob = Str (op_products p ! op_selected p)"
proof -
  have "op_products p ! op_selected p \<in> set (op_products p)" using assms(2) by simp
  with assms(1) obtain x where "fst (getObject (op_products p ! op_selected p) (trade (site p))) = Inr x"
    "get ''id'' (heap (trade (site p)) ! product x) = Str (op_products p ! op_selected p)"
    unfolding lists_products_def by blast
  with assms(2) that show thesis by (simp add: op_product_def option_at_def)
qed

lemma onSelected_asks:
  assumes "lists_products p" and "op_selected p < length (op_products p)"
  defines "q \<equiv> getOrders_request (op_products p ! op_selected p) 30 [] (op_cursor p)"
  shows "onSelected p = (Inr (), p\<lparr>op_loading := True, site := (site p)\<lparr>requests := requests (site p) @ [on_request q]\<rparr>,
     op_pending := op_pending p @ [on_request q]\<rparr>)"
proof -
  obtain ob where ob: "op_product p = Inr ob" "get ''id'' ob = Str (op_products p ! op_selected p)"
    by (rule op_product_id [OF assms(1,2)])
  have "op_product (p\<lparr>op_loading := True\<rparr>) = Inr ob" using ob(1) by (simp add: op_product_def)
  with ob(2) show ?thesis by (simp add: onSelected_def q_def issue_def modify_def io_defs Let_def)
qed

lemma lists_products_cong:
  "op_products p' = op_products p \<Longrightarrow> trade (site p') = trade (site p) \<Longrightarrow> lists_products p' = lists_products p"
  by (simp add: lists_products_def)

text \<open>An event asks for a product that exists.\<close>

fun in_list :: "nat \<Rightarrow> order_event \<Rightarrow> bool" where
  "in_list n (Emitted i) = (i < n)"
| "in_list n _ = True"

lemma answered_keeps:
  "requests (site (orders_answered m r p)) = requests (site p)" "op_cursor (orders_answered m r p) = op_cursor p"
  "op_selected (orders_answered m r p) = op_selected p" "op_products (orders_answered m r p) = op_products p"
  "trade (site (orders_answered m r p)) = trade (site p)"
  by (simp_all add: orders_answered_def split: sum.split)

lemma order_step_asks:
  assumes "lists_products p" "asked_selected p" "in_list (length (op_products p)) e"
  shows "lists_products (order_step m e p) \<and> asked_selected (order_step m e p) \<and>
    op_products (order_step m e p) = op_products p"
proof (cases e)
  case (Emitted i)
  let ?p = "p\<lparr>op_selected := i\<rparr>"
  have "lists_products ?p" using assms(1) by (simp add: lists_products_def)
  with Emitted assms onSelected_asks [of ?p] show ?thesis
    by (simp add: asked_selected_def lists_products_def)
next
  case (Answered i r)
  with assms show ?thesis
    by (simp add: asked_selected_def lists_products_def answered_keeps)
next
  case Next_Page
  let ?p = "p\<lparr>op_direction := op_direction p + 1, op_cursor := [(''after'', js_string (op_after p))]\<rparr>"
  have "lists_products ?p" using assms(1) by (simp add: lists_products_def)
  with Next_Page assms(2) onSelected_asks [of ?p] show ?thesis
    by (simp add: asked_selected_def lists_products_def turned_def onCursorDirection_def modify_def io_defs)
next
  case Prev_Page
  let ?p = "p\<lparr>op_direction := op_direction p - 1, op_cursor := [(''before'', js_string (op_before p))]\<rparr>"
  have "lists_products ?p" using assms(1) by (simp add: lists_products_def)
  with Prev_Page assms(2) onSelected_asks [of ?p] show ?thesis
    by (simp add: asked_selected_def lists_products_def turned_def onCursorDirection_def modify_def io_defs)
qed

text \<open>C30: whichever places of its list the drop-down emits, and whatever is turned and answered, in whatever order, the last
  request of the page is for the product at the selected place and with the cursor that is set. The products of the page are
  known to the store and the places emitted are within the list; that a search emits a place of another list is
  \<open>searched_option_selects_other\<close>.\<close>

theorem page_asks_for_selected:
  assumes "lists_products p" and "op_selected p < length (op_products p)"
    and "list_all (in_list (length (op_products p))) es"
  shows "let p' = order_run moment es (snd (op_mounted p)) in op_selected p' < length (op_products p') \<and>
    last (requests (site p')) = on_request (getOrders_request (op_products p' ! op_selected p') 30 [] (op_cursor p'))"
proof -
  have run: "lists_products q \<Longrightarrow> asked_selected q \<Longrightarrow> list_all (in_list (length (op_products q))) es \<Longrightarrow>
      asked_selected (order_run moment es q)" for q
  proof (induction es arbitrary: q)
    case (Cons e es)
    then show ?case using order_step_asks [of q e moment] by (simp add: order_run_def)
  qed (simp add: order_run_def)
  define q where "q = snd (signStateChange (p\<lparr>needLogin := True, app_loading := True\<rparr>))\<lparr>app_loading := False, page_loading := False\<rparr>"
  have q: "site q = site p" "op_products q = op_products p" "op_selected q = op_selected p" "op_cursor q = op_cursor p"
    by (simp_all add: q_def signStateChange_def route_def modify_def ret_def)
  then have lq: "lists_products q" "op_selected q < length (op_products q)" using assms(1,2) by (simp_all add: lists_products_def)
  have "snd (op_mounted p) = (snd (onSelected q))\<lparr>page_title := exchange_title\<rparr>"
    using onSelected_asks [OF lq] unfolding q_def
    by (simp add: op_mounted_def page_mounted_def pageLoadingHide_def setTitle_def signStateChange_def route_def modify_def io_defs
        split: if_splits)
  then have "lists_products (snd (op_mounted p))" "asked_selected (snd (op_mounted p))" "op_products (snd (op_mounted p)) = op_products p"
    using onSelected_asks [OF lq] lq q by (simp_all add: lists_products_def asked_selected_def)
  with run assms(3) have "asked_selected (order_run moment es (snd (op_mounted p)))" by simp
  then show ?thesis by (simp add: asked_selected_def Let_def)
qed


text \<open>Turning a page and then choosing another product asks for the orders of the other product behind the cursor of the first.\<close>

theorem other_product_keeps_cursor:
  assumes "lists_products p" and "i < length (op_products p)" and "i \<noteq> op_selected p" and "op_selected p < length (op_products p)"
  shows "last (requests (site (order_run moment [Next_Page, Emitted i] p))) =
    on_request (getOrders_request (op_products p ! i) 30 [] [(''after'', js_string (op_after p))])"
proof -
  let ?p = "p\<lparr>op_direction := op_direction p + 1, op_cursor := [(''after'', js_string (op_after p))]\<rparr>"
  let ?q = "(snd (onSelected ?p))\<lparr>op_selected := i\<rparr>"
  have p: "lists_products ?p" using assms(1) by (simp add: lists_products_def)
  then have q: "lists_products ?q" using onSelected_asks [of ?p] assms(4) by (simp add: lists_products_def)
  have "order_run moment [Next_Page, Emitted i] p = snd (onSelected ?q)"
    using onSelected_asks [OF p] assms(3,4) by (simp add: order_run_def turned_def onCursorDirection_def modify_def io_defs)
  with onSelected_asks [OF q] onSelected_asks [OF p] assms(2,4) show ?thesis by simp
qed

text \<open>An answer that comes after the one to a later request is shown: the list holds the orders of a product that is no longer
  selected, formatted for the one that is.\<close>

theorem late_answer_shown:
  assumes "op_pending p = []" and "lists_products p" and "i < length (op_products p)" and "i \<noteq> op_selected p"
    and "resp_status r = 200" and "shown_orders moment (p\<lparr>op_selected := i\<rparr>) (resp_data r) = Inr os"
    and "resp_status r' = 200" and "shown_orders moment (p\<lparr>op_selected := i\<rparr>) (resp_data r') = Inr os'"
    and "op_selected p < length (op_products p)"
  shows "let p' = order_run moment [Next_Page, Emitted i, Answered 1 r', Answered 0 r] p in
    op_orders p' = os \<and> op_selected p' = i \<and> op_pending p' = [] \<and> \<not> op_loading p'"
proof -
  let ?p = "p\<lparr>op_direction := op_direction p + 1, op_cursor := [(''after'', js_string (op_after p))]\<rparr>"
  let ?q = "(snd (onSelected ?p))\<lparr>op_selected := i\<rparr>"
  have p: "lists_products ?p" using assms(2) by (simp add: lists_products_def)
  then have q: "lists_products ?q" using onSelected_asks [of ?p] assms(9) by (simp add: lists_products_def)
  define z where "z = order_run moment [Next_Page, Emitted i] p"
  have z: "z = snd (onSelected ?q)"
    using onSelected_asks [OF p] assms(4,9) unfolding z_def by (simp add: order_run_def turned_def onCursorDirection_def modify_def io_defs)
  have zp: "length (op_pending z) = 2" "op_selected z = i" "op_products z = op_products p" "trade (site z) = trade (site p)"
    unfolding z using onSelected_asks [OF q] onSelected_asks [OF p] assms(1,3,9) by simp_all
  have so: "shown_orders moment z' d = shown_orders moment (p\<lparr>op_selected := i\<rparr>) d"
    if "op_selected z' = i" "op_products z' = op_products p" "trade (site z') = trade (site p)" for z' d
  proof -
    have e: "op_product z' = op_product (p\<lparr>op_selected := i\<rparr>)" using that by (simp add: op_product_def)
    show ?thesis unfolding shown_orders_def e by (rule refl)
  qed
  have run: "order_run moment [Next_Page, Emitted i, Answered 1 r', Answered 0 r] p
      = order_step moment (Answered 0 r) (order_step moment (Answered 1 r') z)"
    unfolding z_def by (simp add: order_run_def)
  obtain q1 q2 where q12: "op_pending z = [q1, q2]" using zp(1) by (auto simp: numeral_eq_Suc length_Suc_conv)
  let ?z = "z\<lparr>op_pending := [q1]\<rparr>"
  have 1: "order_step moment (Answered 1 r') z = ?z\<lparr>op_after := get ''gbe-after'' (resp_headers r'),
      op_before := get ''gbe-before'' (resp_headers r'), op_orders := os', op_loading := False\<rparr>"
    using q12 so [of ?z "resp_data r'"] zp assms(7,8) by (simp add: orders_answered_def)
  show ?thesis
    unfolding run 1 using so [of "?z\<lparr>op_after := get ''gbe-after'' (resp_headers r'),
      op_before := get ''gbe-before'' (resp_headers r'), op_orders := os', op_loading := False, op_pending := []\<rparr>" "resp_data r"]
      zp assms(5,6) by (simp add: orders_answered_def)
qed

section \<open>Open orders\<close>

lemma status_of: "is_open (with_status t v) \<longleftrightarrow> t = ''open''"
  by (auto simp: is_open_def with_status_def)

lemma canceling_ok:
  "length (canceling os) = length os" "filter is_open (take 30 (canceling os)) = []"
  "i < length os \<Longrightarrow> \<not> (i < 30 \<and> is_open (os ! i)) \<Longrightarrow> canceling os ! i = os ! i"
  "list_ex is_open (canceling os) = list_ex is_open (drop 30 os)"
proof -
  show "filter is_open (take 30 (canceling os)) = []"
    by (cases "length os \<le> 30") (auto simp: canceling_def filter_empty_conv status_of)
qed (auto simp: canceling_def nth_append list_ex_iff status_of)

text \<open>Cancelling all orders of a product: of the first thirty none is open any more and the others are as they were, the button
  depends on the rest, and one request goes out.\<close>

theorem cancel_all_marks:
  assumes "logined c" and "getObject p (trade c) = (Inr x, trade c)"
  shows "\<exists>x'. fst (getObject p (trade (snd (cancelAll p c)))) = Inr x' \<and>
    (let os = openOrders x; os' = openOrders x' in
     length os' = length os \<and> filter is_open (fst (panel_orders True os')) = [] \<and>
     (\<forall>i < length os. \<not> (i < 30 \<and> is_open (os ! i)) \<longrightarrow> os' ! i = os ! i) \<and>
     snd (panel_orders True os') = list_ex is_open (drop 30 os)) \<and>
    requests (snd (cancelAll p c)) = requests c @ [on_request (cancelAll_request p)]"
proof -
  have g: "getObject p (put_object p y (trade c)) = (Inr y, put_object p y (trade c))" for y
    using assms(2) by (auto simp: getObject_def put_object_def split: option.splits)
  have s: "trade (snd (cancelAll p c)) = put_object p (x\<lparr>openOrders := canceling (openOrders x)\<rparr>) (trade c)"
    "requests (snd (cancelAll p c)) = requests c @ [on_request (cancelAll_request p)]"
    using assms by (simp_all add: cancelAll_def on_trade_def change_object_def issue_def modify_def io_defs)
  show ?thesis unfolding s g using canceling_ok [where os = "openOrders x"] by (simp add: panel_orders_def Let_def)
qed

section \<open>The trade page\<close>

text \<open>A tab whose socket is open sends everything it is told to.\<close>

definition open_tab :: "nat \<Rightarrow> tab \<Rightarrow> bool" where
  "open_tab n t \<longleftrightarrow> ws (tab_trade t) = Some n \<and> sockets (tab_trade t) ! n = OPEN"

definition page_message :: "tab \<Rightarrow> bool \<Rightarrow> string \<Rightarrow> obj" where
  "page_message t b p = with_token (token (tab_trade t))
     (subscription (if b then ''subscribe'' else ''unsubscribe'') ''product_ids'' [p] trade_channels)"

definition sent_on :: "nat \<Rightarrow> obj list \<Rightarrow> tab \<Rightarrow> tab" where
  "sent_on n ms t = t\<lparr>tab_trade := (tab_trade t)\<lparr>wire := wire (tab_trade t) @ map (Pair n) ms\<rparr>\<rparr>"

lemma sent_on_simps [simp]:
  "open_tab n (sent_on k ms t) = open_tab n t" "page_message (sent_on k ms t) = page_message t"
  "listeners (sent_on k ms t) = listeners t" "wire (tab_trade (sent_on k ms t)) = wire (tab_trade t) @ map (Pair k) ms"
  "sent_on k ms' (sent_on k ms t) = sent_on k (ms @ ms') t" "sent_on k [] t = t"
  by (simp_all add: sent_on_def open_tab_def page_message_def fun_eq_iff)

lemma visibility_sends: "open_tab n t \<Longrightarrow> visibility b p t = (Inr (), sent_on n [page_message t b p] t)"
  by (simp add: visibility_def on_tab_def open_tab_def subscribe_products_def unsubscribe_def subscribe_def ws_send_def sent_on_def
      page_message_def)

lemma listeners_send:
  "open_tab n t \<Longrightarrow> fold (\<lambda>p. reported (visibility b p)) ps t = sent_on n (map (page_message t b) ps) t"
  by (induction ps arbitrary: t) (simp_all add: reported_def visibility_sends)

lemma visit_leave:
  assumes "open_tab n t"
  shows "listeners (tab_run [Visit p, Leave p] t) = listeners t @ [p]"
    "open_tab n (tab_run [Visit p, Leave p] t)" "page_message (tab_run [Visit p, Leave p] t) = page_message t"
  using assms
  by (simp_all add: tab_run_def trade_mounted_def trade_destroyed_def on_tab_def open_tab_def subscribe_products_def unsubscribe_def
      subscribe_def ws_send_def page_message_def modify_def io_defs fun_eq_iff)

text \<open>C34: a page that was left still listens to the visibility of the tab: after any visits, all over, the tab that becomes
  visible subscribes the channels of every page that was visited, once for each visit.\<close>

theorem left_pages_subscribe:
  assumes "open_tab n t" and "listeners t = []"
  shows "\<exists>ms. wire (tab_trade (tab_run (concat (map (\<lambda>p. [Visit p, Leave p]) ps) @ [Visible True]) t)) =
    ms @ map (\<lambda>p. (n, page_message t True p)) ps"
proof -
  define u where "u = tab_run (concat (map (\<lambda>p. [Visit p, Leave p]) ps)) t"
  have "listeners (tab_run (concat (map (\<lambda>p. [Visit p, Leave p]) ps)) t) = listeners t @ ps \<and>
      open_tab n (tab_run (concat (map (\<lambda>p. [Visit p, Leave p]) ps)) t) \<and>
      page_message (tab_run (concat (map (\<lambda>p. [Visit p, Leave p]) ps)) t) = page_message t"
    using assms(1)
  proof (induction ps arbitrary: t)
    case (Cons p ps)
    have "tab_run (concat (map (\<lambda>p. [Visit p, Leave p]) (p # ps))) t
        = tab_run (concat (map (\<lambda>p. [Visit p, Leave p]) ps)) (tab_run [Visit p, Leave p] t)"
      by (simp add: tab_run_def)
    with Cons.IH [OF visit_leave(2) [OF Cons.prems, of p]] visit_leave [OF Cons.prems, of p] show ?case by simp
  qed (simp add: tab_run_def)
  then have u: "listeners u = ps" "open_tab n u" "page_message u = page_message t" using assms(2) by (simp_all add: u_def)
  have "tab_run (concat (map (\<lambda>p. [Visit p, Leave p]) ps) @ [Visible True]) t = sent_on n (map (page_message t True) ps) u"
    unfolding tab_run_def using listeners_send [OF u(2), of True ps] u by (simp add: u_def tab_run_def)
  then show ?thesis by (simp add: comp_def)
qed

section \<open>Groups, tabs and visible elements\<close>

text \<open>The groups of the header are the products with their symbols, by the currency they are priced in.\<close>

lemma groups_fold:
  "map_of (fold add_to_group ps gs) q =
     (let xs = filter (\<lambda>ob. quote_key ob = q) ps in if xs = [] then map_of gs q
      else Some ((case map_of gs q of None \<Rightarrow> [] | Some ys \<Rightarrow> ys) @ map with_symbol xs))"
  by (induction ps arbitrary: gs) (auto simp: add_to_group_def update_conv' Let_def split: option.split)

theorem groups_by_quote:
  "map_of (productGroups ps) q =
     (let xs = filter (\<lambda>ob. quote_key ob = q) ps in if xs = [] then None else Some (map with_symbol xs))"
  by (simp add: productGroups_def groups_fold Let_def)

lemma one_tab_active:
  assumes "tabbarChange i items = Inr (items', c)"
  shows "map fst items' = map fst items \<and> (\<forall>j < length items'. snd (items' ! j) \<longleftrightarrow> j = i) \<and> c = fst (items ! i)"
  using assms by (auto simp: tabbarChange_def comp_def map_nth split: if_splits intro: nth_equalityI)

text \<open>A check calls exactly the callbacks of the elements that changed; a second one calls nothing.\<close>

lemma checked_once:
  "snd (visibleChanged visible (fst (visibleChanged visible items))) = []"
  "fst (visibleChanged visible (fst (visibleChanged visible items))) = fst (visibleChanged visible items)"
  by (induction items) (auto simp: visibleChanged_def)

section \<open>Witnesses\<close>

definition two_products :: trade_state where
  "two_products = initial_store\<lparr>heap := [[(''id'', Str ''BTC-USDT''), (''quoteScale'', Num 2)], [(''id'', Str ''ETH-USDT''), (''quoteScale'', Num 2)]],
     products := [0, 1], objects := Some [''BTC-USDT'' \<mapsto> new_object 0, ''ETH-USDT'' \<mapsto> new_object 1], sockets := [OPEN], ws := Some 0\<rparr>"

definition demo_orders :: order_page where
  "demo_orders = op_created (page.extend (demo_page\<lparr>site := demo_client\<lparr>trade := two_products\<rparr>\<rparr>)
     \<lparr>op_products = [], op_selected = 0, op_orders = [], op_loading = False, op_cursor = [], op_direction = 1, op_before = Num 0,
      op_after = Num 0, op_pending = []\<rparr>)"

lemma demo_orders_simps:
  "op_products demo_orders = [''BTC-USDT'', ''ETH-USDT'']" "op_selected demo_orders = 0" "lists_products demo_orders"
  "op_cursor demo_orders = []"
  by (simp_all add: demo_orders_def op_created_def page.defs product_id_def two_products_def initial_store_def lists_products_def
      getObject_def new_object_def)

theorem page_asks_for_selected_witness:
  "op_selected (order_run (\<lambda>_ _. []) [Next_Page, Emitted 1] (snd (op_mounted demo_orders)))
    < length (op_products (order_run (\<lambda>_ _. []) [Next_Page, Emitted 1] (snd (op_mounted demo_orders))))"
  using page_asks_for_selected [of demo_orders "[Next_Page, Emitted 1]" "\<lambda>_ _. []"] by (simp add: demo_orders_simps Let_def)


theorem left_pages_subscribe_witness:
  "\<exists>ms. wire (tab_trade (tab_run [Visit ''BTC-USDT'', Leave ''BTC-USDT'', Visible True] \<lparr>tab_trade = two_products, listeners = [], titles = []\<rparr>))
    = ms @ [(0, page_message \<lparr>tab_trade = two_products, listeners = [], titles = []\<rparr> True ''BTC-USDT'')]"
  using left_pages_subscribe [of 0 "\<lparr>tab_trade = two_products, listeners = [], titles = []\<rparr>" "[''BTC-USDT'']"]
  by (simp add: open_tab_def two_products_def initial_store_def)

end
