(* ===== verification/Order_Text.thy ===== *)
theory Order_Text
  imports Nova_Util Chain_Search
begin

text \<open>
  The parsers that print the transactions and events of the order contract and its tokens:
  \<open>rwa/rwa-contract/script/parsers/format.ts\<close>, \<open>orderParser.ts\<close> and \<open>pocTokenParser.ts\<close>. \<open>formatUnits\<close> of viem and the calendar
  are parameters. \<open>Number(text)\<close> is the double that is nearest to the number written.
\<close>

section \<open>format.ts\<close>

record text_env =
  format_units :: "int \<Rightarrow> nat \<Rightarrow> string"
  iso_text :: "rat \<Rightarrow> js_error + string"
  large_text :: "rat \<Rightarrow> string"
  resolveAddress :: "(string \<Rightarrow> js_error + val) option"

definition DEFAULT_DECIMALS :: nat where
  "DEFAULT_DECIMALS = 18"

text \<open>\<open>Number(value).toFixed(k)\<close>; from \<open>10\<^sup>2\<^sup>1\<close> on it is the shortest text of the number, \<open>large_text\<close>.\<close>

definition fixed_text :: "text_env \<Rightarrow> string \<Rightarrow> int \<Rightarrow> js_error + string" where
  "fixed_text E s k = (case number_of_string s of None \<Rightarrow> toFixed None k
     | Some x \<Rightarrow> if 10 ^ 21 \<le> \<bar>to_double x\<bar> \<and> 0 \<le> k \<and> k \<le> 100 then Inr (large_text E (to_double x)) else toFixed (Some (to_double x)) k)"

definition shortenDecimals :: "text_env \<Rightarrow> string \<Rightarrow> nat \<Rightarrow> js_error + string" where
  "shortenDecimals E s k =
     (if CHR ''.'' \<notin> set s then Inr s
      else if length (after_char (CHR ''.'') s) \<le> k then Inr s
      else fixed_text E s (int k))"

text \<open>\<open>BigInt(text)\<close> reads blanks as 0, a hexadecimal literal, or a whole number with an optional sign.\<close>

definition decimal_bigint :: "string \<Rightarrow> int option" where
  "decimal_bigint s = (case s of
       [] \<Rightarrow> Some 0
     | c # cs \<Rightarrow> if c = CHR ''-'' \<and> cs \<noteq> [] \<and> list_all is_digit cs then Some (- int (read_digits cs))
         else if c = CHR ''+'' \<and> cs \<noteq> [] \<and> list_all is_digit cs then Some (int (read_digits cs))
         else if list_all is_digit s then Some (int (read_digits s)) else None)"

definition toBigInt :: "val \<Rightarrow> js_error + int" where
  "toBigInt v = (case v of
       Num x \<Rightarrow> Inr (if x < 0 then \<lceil>x\<rceil> else \<lfloor>x\<rfloor>)
     | Str s \<Rightarrow> (case hex_literal s of Some n \<Rightarrow> Inr (int n)
         | None \<Rightarrow> (case decimal_bigint (trim s) of Some i \<Rightarrow> Inr i | None \<Rightarrow> Inl (JsError ''SyntaxError'')))
     | Bool b \<Rightarrow> Inr (if b then 1 else 0)
     | Ref n \<Rightarrow> Inl (JsError ''RangeError'')
     | _ \<Rightarrow> Inl (TypeError ''Cannot convert to a BigInt''))"

definition formatUnitsSafe :: "text_env \<Rightarrow> val \<Rightarrow> nat \<Rightarrow> nat \<Rightarrow> js_error + string" where
  "formatUnitsSafe E v d k = (case toBigInt v of Inl e \<Rightarrow> Inl e | Inr i \<Rightarrow> shortenDecimals E (format_units E i d) k)"

definition formatWad :: "text_env \<Rightarrow> val \<Rightarrow> js_error + string" where
  "formatWad E v = formatUnitsSafe E v DEFAULT_DECIMALS 6"

text \<open>\<open>new Date(ms).toISOString()\<close> is \<open>iso_text\<close>; it throws a \<open>RangeError\<close> beyond 8.64e15 ms.\<close>

definition formatTimestamp :: "text_env \<Rightarrow> val \<Rightarrow> js_error + string" where
  "formatTimestamp E v = (case toBigInt v of Inl e \<Rightarrow> Inl e
     | Inr i \<Rightarrow> (let seconds = to_double (of_int i) in
         if seconds \<le> 0 then Inr (string_of_number (Some seconds)) else iso_text E (double_times seconds 1000)))"

definition formatAddress :: "text_env \<Rightarrow> val \<Rightarrow> js_error + string" where
  "formatAddress E a = (case resolveAddress E of
       None \<Rightarrow> Inr (js_string a)
     | Some f \<Rightarrow> (case f (js_string a) of Inl e \<Rightarrow> Inl e
         | Inr nm \<Rightarrow> Inr (if truthy_val nm \<and> nm \<noteq> Str ''UNKNOWN'' \<and> nm \<noteq> a
             then ''['' @ js_string nm @ '']'' @ js_string a else js_string a)))"

section \<open>orderParser.ts\<close>

definition SIDE_LABELS :: "string list" where
  "SIDE_LABELS = [''Buy'', ''Sell'']"

definition ORDER_TYPE_LABELS :: "string list" where
  "ORDER_TYPE_LABELS = [''Market'', ''Limit'']"

definition TIF_LABELS :: "string list" where
  "TIF_LABELS = [''DAY'', ''GTC'', ''OPG'', ''IOC'', ''FOK'', ''GTX'', ''GTD'', ''CLS'']"

definition STATUS_LABELS :: "string list" where
  "STATUS_LABELS = [''Pending'', ''Executed'', ''CancelRequested'', ''Cancelled'']"

definition formatEnum :: "string list \<Rightarrow> val \<Rightarrow> string" where
  "formatEnum labels v = (case to_number v of
       Some x \<Rightarrow> if of_int \<lfloor>x\<rfloor> = x \<and> 0 \<le> x \<and> x < of_nat (length labels) then labels ! nat \<lfloor>x\<rfloor> else string_of_number (Some x)
     | None \<Rightarrow> ''NaN'')"

text \<open>The parts of a text, computed in their order; the first that throws ends it.\<close>

fun joined :: "string list \<Rightarrow> string" where
  "joined [] = []"
| "joined [s] = s"
| "joined (s # t # ss) = s @ '', '' @ joined (t # ss)"

fun all_parts :: "(string \<times> (js_error + string)) list \<Rightarrow> js_error + string list" where
  "all_parts [] = Inr []"
| "all_parts ((l, r) # ps) = (case r of Inl e \<Rightarrow> Inl e | Inr s \<Rightarrow> map_sum id ((#) (l @ '': '' @ s)) (all_parts ps))"

definition call_text :: "string \<Rightarrow> (string \<times> (js_error + string)) list \<Rightarrow> js_error + string" where
  "call_text f ps = map_sum id (\<lambda>ss. f @ ''('' @ joined ss @ '')'')
     (all_parts ps)"

definition plain :: "val \<Rightarrow> js_error + string" where
  "plain v = Inr (js_string v)"

definition raw_text :: "string \<Rightarrow> val list \<Rightarrow> string" where
  "raw_text f vs = f @ ''('' @ joined (map js_string vs) @ '')''"

definition order_transaction :: "text_env \<Rightarrow> string \<Rightarrow> val list \<Rightarrow> js_error + string" where
  "order_transaction E f vs = (let a = item (Arr vs) in
     if f = ''submitOrder'' then call_text f
       [(''symbol'', plain (a 0)), (''qty'', formatWad E (a 1)), (''price'', formatWad E (a 2)),
        (''side'', Inr (formatEnum SIDE_LABELS (a 3))), (''orderType'', Inr (formatEnum ORDER_TYPE_LABELS (a 4))),
        (''tif'', Inr (formatEnum TIF_LABELS (a 5)))]
     else if f = ''cancelOrderIntent'' \<or> f = ''cancelOrder'' then call_text f [(''orderId'', plain (a 0))]
     else if f = ''markExecuted'' then call_text f [(''orderId'', plain (a 0)), (''refundAmount'', formatWad E (a 1))]
     else if f = ''setSymbolToken'' then call_text f [(''symbol'', plain (a 0)), (''token'', formatAddress E (a 1))]
     else if f = ''setBackend'' then call_text f [(''backend'', formatAddress E (a 0))]
     else if f = ''initialize'' then call_text f
       [(''usdm'', formatAddress E (a 0)), (''admin'', formatAddress E (a 1)), (''backend'', formatAddress E (a 2))]
     else Inr (raw_text f vs))"

definition order_event :: "text_env \<Rightarrow> string \<Rightarrow> obj \<Rightarrow> js_error + string" where
  "order_event E f ob = (let a = (\<lambda>k. get k ob) in
     if f = ''OrderSubmitted'' then call_text f
       [(''user'', formatAddress E (a ''user'')), (''orderId'', plain (a ''orderId'')), (''symbol'', plain (a ''symbol'')),
        (''qty'', formatWad E (a ''qty'')), (''price'', formatWad E (a ''price'')),
        (''side'', Inr (formatEnum SIDE_LABELS (a ''side''))), (''orderType'', Inr (formatEnum ORDER_TYPE_LABELS (a ''orderType''))),
        (''tif'', Inr (formatEnum TIF_LABELS (a ''tif''))), (''timestamp'', formatTimestamp E (a ''blockTimestamp''))]
     else if f = ''CancelRequested'' then call_text f
       [(''user'', formatAddress E (a ''user'')), (''orderId'', plain (a ''orderId'')),
        (''timestamp'', formatTimestamp E (a ''blockTimestamp''))]
     else if f = ''OrderExecuted'' then call_text f
       [(''orderId'', plain (a ''orderId'')), (''refundAmount'', formatWad E (a ''refundAmount'')),
        (''tif'', Inr (formatEnum TIF_LABELS (a ''tif'')))]
     else if f = ''OrderCancelled'' then call_text f
       [(''orderId'', plain (a ''orderId'')), (''user'', formatAddress E (a ''user'')), (''asset'', formatAddress E (a ''asset'')),
        (''refundAmount'', formatWad E (a ''refundAmount'')), (''side'', Inr (formatEnum SIDE_LABELS (a ''side''))),
        (''orderType'', Inr (formatEnum ORDER_TYPE_LABELS (a ''orderType''))), (''tif'', Inr (formatEnum TIF_LABELS (a ''tif''))),
        (''previousStatus'', Inr (formatEnum STATUS_LABELS (a ''previousStatus'')))]
     else Inr (raw_text f (own_values ob)))"

definition error_name :: "string \<Rightarrow> val \<Rightarrow> js_error + val" where
  "error_name otherwise e = (case member e ''name'' of Inl x \<Rightarrow> Inl x
     | Inr nm \<Rightarrow> if truthy_val nm then Inr nm
         else (case member e ''signature'' of Inl x \<Rightarrow> Inl x | Inr sg \<Rightarrow> Inr (if truthy_val sg then sg else Str otherwise)))"

definition order_error :: "val \<Rightarrow> js_error + val" where
  "order_error = error_name ''OrderContract error''"

section \<open>pocTokenParser.ts\<close>

definition token_transaction :: "text_env \<Rightarrow> string \<Rightarrow> val list \<Rightarrow> js_error + string" where
  "token_transaction E f vs = (let a = item (Arr vs) in
     if f = ''initialize'' then call_text f [(''name'', plain (a 0)), (''symbol'', plain (a 1))]
     else if f = ''setOperator'' then call_text f [(''operator'', formatAddress E (a 0))]
     else if f = ''mint'' then call_text f [(''to'', formatAddress E (a 0)), (''amount'', formatWad E (a 1))]
     else if f = ''burn'' then call_text f [(''amount'', formatWad E (a 0))]
     else if f = ''burnFrom'' then call_text f [(''from'', formatAddress E (a 0)), (''amount'', formatWad E (a 1))]
     else Inr (raw_text f vs))"

definition token_event :: "text_env \<Rightarrow> string \<Rightarrow> obj \<Rightarrow> js_error + string" where
  "token_event E f ob = (let a = (\<lambda>k. get k ob) in
     if f = ''TokensMinted'' then call_text f [(''to'', formatAddress E (a ''to'')), (''amount'', formatWad E (a ''amount''))]
     else if f = ''TokensBurned'' then call_text f [(''from'', formatAddress E (a ''from'')), (''amount'', formatWad E (a ''amount''))]
     else if f = ''Approval'' then call_text f
       [(''owner'', formatAddress E (a ''owner'')), (''spender'', formatAddress E (a ''spender'')), (''value'', formatWad E (a ''value''))]
     else if f = ''Transfer'' then call_text f
       [(''from'', formatAddress E (a ''from'')), (''to'', formatAddress E (a ''to'')), (''value'', formatWad E (a ''value''))]
     else Inr (raw_text f (own_values ob)))"

definition token_error :: "val \<Rightarrow> js_error + val" where
  "token_error = error_name ''PocToken error''"

section \<open>Amounts\<close>

lemma string_of_whole: "string_of_number (Some (of_nat n)) = show_nat n"
  by (simp add: string_of_number_def string_of_abs_def)

lemma fixed_text_close:
  assumes "number_of_string s = Some x" and "0 \<le> x" and "x < 10 ^ 20" and "k \<le> 100"
  shows "\<exists>t. fixed_text E s (int k) = Inr t \<and> number_of_string t = Some (rounded k (to_double x)) \<and>
    \<bar>rounded k (to_double x) - x\<bar> \<le> 1 / (2 * 10 ^ k) + x / 2 ^ 53"
proof -
  have d: "\<bar>to_double x - x\<bar> \<le> x / 2 ^ 53" using to_double_close [of x] assms(2) by simp
  have "to_double x \<le> x + x / 2 ^ 53" by (rule to_double_le [OF assms(2)])
  also have "\<dots> < 10 ^ 20 + 10 ^ 20 / 2 ^ 53" using assms(3) by (intro add_strict_mono divide_strict_right_mono) simp_all
  also have "\<dots> < 10 ^ 21" by simp
  finally have "to_double x < 10 ^ 21" .
  then have "fixed_text E s (int k) = toFixed (Some (to_double x)) (int k)"
    using to_double_nonneg [OF assms(2)] assms(1) by (simp add: fixed_text_def)
  moreover have "\<bar>rounded k (to_double x) - x\<bar> \<le> 1 / (2 * 10 ^ k) + x / 2 ^ 53"
    using d rounded_close [of k "to_double x"] by linarith
  ultimately show ?thesis using toFixed_value [OF to_double_nonneg [OF assms(2)] assms(4)] by auto
qed

text \<open>C36: the text of an amount of tokens is a number within half a millionth of the amount, and the rounding of a double.\<close>

theorem wad_text_close:
  assumes "number_of_string (format_units E (int n) 18) = Some (of_nat n / 10 ^ 18)" and "n < 10 ^ 38"
  shows "\<exists>t y. formatWad E (Num (of_nat n)) = Inr t \<and> number_of_string t = Some y \<and>
    \<bar>y - of_nat n / 10 ^ 18\<bar> \<le> 1 / (2 * 10 ^ 6) + of_nat n / 10 ^ 18 / 2 ^ 53"
proof -
  let ?s = "format_units E (int n) 18" and ?x = "of_nat n / 10 ^ 18 :: rat"
  have "of_nat n < (of_nat (10 ^ 38) :: rat)" using assms(2) by (simp only: of_nat_less_iff)
  then have x: "0 \<le> ?x" "?x < 10 ^ 20" by simp_all
  have t: "formatWad E (Num (of_nat n)) = shortenDecimals E ?s 6"
    by (simp add: formatWad_def formatUnitsSafe_def toBigInt_def DEFAULT_DECIMALS_def)
  show ?thesis
  proof (cases "CHR ''.'' \<notin> set ?s \<or> length (after_char (CHR ''.'') ?s) \<le> 6")
    case True
    then have "formatWad E (Num (of_nat n)) = Inr ?s" unfolding t shortenDecimals_def by auto
    with assms(1) show ?thesis by fastforce
  next
    case False
    then have "formatWad E (Num (of_nat n)) = fixed_text E ?s (int 6)" unfolding t shortenDecimals_def by simp
    with fixed_text_close [OF assms(1) x, of 6 E] show ?thesis by fastforce
  qed
qed

text \<open>An amount below four tenths of a millionth with more digits than that is printed as 0.\<close>

theorem dust_printed_as_zero:
  assumes "number_of_string (format_units E (int n) 18) = Some (of_nat n / 10 ^ 18)" and "n \<le> 4 * 10 ^ 11"
    and "CHR ''.'' \<in> set (format_units E (int n) 18)" and "6 < length (after_char (CHR ''.'') (format_units E (int n) 18))"
  shows "\<exists>t. formatWad E (Num (of_nat n)) = Inr t \<and> number_of_string t = Some 0"
proof -
  let ?s = "format_units E (int n) 18" and ?x = "of_nat n / 10 ^ 18 :: rat"
  have "of_nat n \<le> (of_nat (4 * 10 ^ 11) :: rat)" using assms(2) by (simp only: of_nat_le_iff)
  then have x: "0 \<le> ?x" "?x \<le> 4 / 10 ^ 7" by simp_all
  have "formatWad E (Num (of_nat n)) = fixed_text E ?s (int 6)"
    using assms(3,4) by (simp add: formatWad_def formatUnitsSafe_def toBigInt_def DEFAULT_DECIMALS_def shortenDecimals_def)
  moreover have "rounded 6 (to_double ?x) = 0"
  proof -
    have "to_double ?x \<le> ?x + ?x / 2 ^ 53" by (rule to_double_le [OF x(1)])
    also have "\<dots> \<le> 4 / 10 ^ 7 + 4 / 10 ^ 7 / 2 ^ 53" using x by (intro add_mono divide_right_mono) simp_all
    also have "\<dots> < 5 / 10 ^ 7" by simp
    finally have "to_double ?x * 10 ^ 6 + 1 / 2 < 1" by simp
    moreover have "0 \<le> to_double ?x * 10 ^ 6 + 1 / 2" using to_double_nonneg [OF x(1)] by simp
    ultimately have "\<lfloor>to_double ?x * 10 ^ 6 + 1 / 2\<rfloor> = 0" by (simp add: floor_eq_iff)
    then show ?thesis by (simp add: rounded_def)
  qed
  moreover have "?x < 10 ^ 20" using x(2) by (rule le_less_trans) simp
  ultimately show ?thesis using fixed_text_close [OF assms(1) x(1), of 6 E] by auto
qed

section \<open>Texts\<close>

lemma enum_injective:
  assumes "distinct labels" and "\<forall>l \<in> set labels. \<not> list_all is_digit l"
  shows "formatEnum labels (Num (of_nat i)) = formatEnum labels (Num (of_nat j)) \<longleftrightarrow> i = j"
proof -
  have e: "formatEnum labels (Num (of_nat i)) = (if i < length labels then labels ! i else show_nat i)" for i
    by (simp add: formatEnum_def string_of_whole)
  have "show_nat k \<noteq> labels ! m \<and> labels ! m \<noteq> show_nat k" if "m < length labels" for k m
    using assms(2) nth_mem [OF that] show_nat_digits [of k] by (auto simp: list_all_iff)
  moreover have "show_nat i = show_nat j \<Longrightarrow> i = j" by (metis read_show_nat)
  ultimately show ?thesis using assms(1) unfolding e by (auto simp: nth_eq_iff_index_eq)
qed

text \<open>The text of a side, a type, a time in force or a status tells which it is, the numbers without a label included.\<close>

theorem enum_text_injective:
  assumes "labels \<in> {SIDE_LABELS, ORDER_TYPE_LABELS, TIF_LABELS, STATUS_LABELS}"
  shows "formatEnum labels (Num (of_nat i)) = formatEnum labels (Num (of_nat j)) \<longleftrightarrow> i = j"
proof (rule enum_injective)
  show "distinct labels" using assms by (auto simp: SIDE_LABELS_def ORDER_TYPE_LABELS_def TIF_LABELS_def STATUS_LABELS_def)
  show "\<forall>l \<in> set labels. \<not> list_all is_digit l"
    using assms by (auto simp: SIDE_LABELS_def ORDER_TYPE_LABELS_def TIF_LABELS_def STATUS_LABELS_def is_digit_def Let_def)
qed

section \<open>Witnesses\<close>

definition demo_text :: text_env where
  "demo_text = \<lparr>format_units = (\<lambda>i d. fixed_digits d (nat i)), iso_text = (\<lambda>x. Inr ''1970-01-01T00:00:00.000Z''),
     large_text = (\<lambda>x. []), resolveAddress = None\<rparr>"

lemma demo_units: "number_of_string (format_units demo_text (int n) d) = Some (of_nat n / 10 ^ d)"
  by (simp add: demo_text_def number_of_fixed)

theorem wad_text_close_witness:
  "\<exists>t y. formatWad demo_text (Num (of_nat (25 * 10 ^ 17))) = Inr t \<and> number_of_string t = Some y \<and>
    \<bar>y - of_nat (25 * 10 ^ 17) / 10 ^ 18\<bar> \<le> 1 / (2 * 10 ^ 6) + of_nat (25 * 10 ^ 17) / 10 ^ 18 / 2 ^ 53"
  by (rule wad_text_close [OF demo_units]) simp

theorem enum_text_injective_witness: "formatEnum TIF_LABELS (Num (of_nat 3)) \<noteq> formatEnum TIF_LABELS (Num (of_nat 9))"
  using enum_text_injective [of TIF_LABELS 3 9] by (simp del: of_nat_numeral)

end
