(* ===== verification/Poc_Scripts.thy ===== *)
theory Poc_Scripts
  imports Effects Order_Text
begin

text \<open>
  The scripts of \<open>rwa/rwa-contract/script/poc\<close>: \<open>config_poc.ts\<close>, \<open>placeOrder.ts\<close>, \<open>upgrade_poc.ts\<close>,
  \<open>deploy_poc_contracts.ts\<close> and their \<open>constants.ts\<close>. viem, its kit and the chain are the record \<open>kit_env\<close>; the abstract state
  is the list of the transactions sent. \<open>sendTxWithLog\<close> may throw before or after the transaction was sent.
\<close>

section \<open>The interface\<close>

datatype poc_op =
    Tx val string string "val list"
  | Create val string "val list" val

record 'w kit_env =
  get_account :: "string \<Rightarrow> ('w, val) io"
  load_artifact :: "string \<Rightarrow> ('w, unit) io"
  register_parser :: "string \<Rightarrow> ('w, unit) io"
  read_contract :: "string \<Rightarrow> string \<Rightarrow> val list \<Rightarrow> ('w, val) io"
  sendTxWithLog :: "val \<Rightarrow> string \<Rightarrow> string \<Rightarrow> val list \<Rightarrow> ('w, val) io"
  wait_receipt :: "val \<Rightarrow> ('w, unit) io"
  deployArtifact :: "val \<Rightarrow> string \<Rightarrow> val list \<Rightarrow> ('w, val) io"
  encode_call :: "string \<Rightarrow> val list \<Rightarrow> js_error + val"
  parse_ether :: "string \<Rightarrow> js_error + val"

section \<open>constants.ts\<close>

definition DEPLOYED_TOKENS :: "(string \<times> string) list" where
  "DEPLOYED_TOKENS = [(''USDC'', ''0x56f49648b2B29E4966d3BEFd3f16374606Eb4BD6''), (''USDM'', ''0x7ffd1A23f1e53737eDB9C9c35a8E6b6d33abD96b''),
     (''TSLA'', ''0x752f78a728acd26cd47eb723c5dc4a2ab9d6cd58''), (''AAPL'', ''0xe4088b68aa81e6bf456bcdce9e6dfeacecc6842c'')]"

definition DEPLOYED_ORDER_CONTRACT :: string where
  "DEPLOYED_ORDER_CONTRACT = ''0xae136110e64556bc15df5db254929c3a4a09dece''"

definition DEPLOYED_GATE_CONTRACT :: string where
  "DEPLOYED_GATE_CONTRACT = ''0x6e16fca6d784d276f97bb63940559acaf22f3789''"

definition deployed_token :: "string \<Rightarrow> string" where
  "deployed_token k = the (map_of DEPLOYED_TOKENS k)"

section \<open>config\_poc.ts\<close>

definition operator :: string where
  "operator = ''0x892C54E623aecF127B3285F3f14E39CD0275afE9''"

definition orderContractAddress :: string where
  "orderContractAddress = ''0xae136110e64556bc15df5db254929c3a4a09dece''"

definition testTokens :: "string list" where
  "testTokens = [''0x7ffd1A23f1e53737eDB9C9c35a8E6b6d33abD96b'', ''0x752f78a728acd26cd47eb723c5dc4a2ab9d6cd58'',
     ''0xe4088b68aa81e6bf456bcdce9e6dfeacecc6842c'']"

definition send_wait :: "'w kit_env \<Rightarrow> val \<Rightarrow> string \<Rightarrow> string \<Rightarrow> val list \<Rightarrow> ('w, unit) io" where
  "send_wait E acc adr f args =
     bindio (sendTxWithLog E acc adr f args) (\<lambda>tx. bindio (lift (member tx ''transactionHash'')) (wait_receipt E))"

definition same_address :: "val \<Rightarrow> string \<Rightarrow> js_error + bool" where
  "same_address v token = (case v of Str a \<Rightarrow> Inr (toLowerCase a = toLowerCase token)
     | _ \<Rightarrow> Inl (TypeError ''validateAddress.toLowerCase is not a function''))"

definition config_token :: "'w kit_env \<Rightarrow> val \<Rightarrow> string \<Rightarrow> ('w, unit) io" where
  "config_token E acc token =
     seqio (register_parser E token)
     (bindio (read_contract E token ''name'' []) (\<lambda>nm.
     seqio (send_wait E acc token ''setOperator'' [Str operator])
     (seqio (send_wait E acc token ''setOperator'' [Str orderContractAddress])
     (seqio (send_wait E acc token ''setOperator'' [Str DEPLOYED_GATE_CONTRACT])
     (seqio (send_wait E acc orderContractAddress ''setSymbolToken'' [nm, Str token])
     (bindio (read_contract E orderContractAddress ''symbolToToken'' [nm]) (\<lambda>validateAddress.
     bindio (lift (same_address validateAddress token)) (\<lambda>b.
     if b then ret () else throw (JsError ''validateAddress not equal to token'')))))))))"

text \<open>The two accounts and the printing of their addresses.\<close>

definition two_accounts :: "'w kit_env \<Rightarrow> (val \<Rightarrow> val \<Rightarrow> ('w, 'a) io) \<Rightarrow> ('w, 'a) io" where
  "two_accounts E k =
     bindio (get_account E ''julian:32'') (\<lambda>signer. bindio (get_account E ''julian:11'') (\<lambda>admin.
     bindio (lift (member signer ''address'')) (\<lambda>_. bindio (lift (member admin ''address'')) (\<lambda>_. k signer admin))))"

definition config_main :: "'w kit_env \<Rightarrow> ('w, unit) io" where
  "config_main E = two_accounts E (\<lambda>signer admin.
     seqio (load_artifact E ''PocToken.sol/PocToken.json'') (seqio (load_artifact E ''Order.sol/OrderContract.json'')
     (foreach testTokens (config_token E signer))))"

section \<open>The other scripts\<close>

definition place_main :: "'w kit_env \<Rightarrow> ('w, unit) io" where
  "place_main E =
     bindio (get_account E ''julian:32'') (\<lambda>signer.
     bindio (lift (member signer ''address'')) (\<lambda>_.
     seqio (load_artifact E ''PocToken.sol/PocToken.json'')
     (seqio (load_artifact E ''Order.sol/OrderContract.json'')
     (seqio (load_artifact E ''PocToken.sol/PocToken.json'')
     (seqio (register_parser E DEPLOYED_ORDER_CONTRACT)
     (seqio (foreach (map snd DEPLOYED_TOKENS) (register_parser E))
     (bindio (lift (parse_ether E ''10000000000'')) (\<lambda>n.
     bindio (sendTxWithLog E signer (deployed_token ''TSLA'') ''approve'' [Str DEPLOYED_ORDER_CONTRACT, n]) (\<lambda>_.
     bindio (lift (parse_ether E ''1'')) (\<lambda>qty. bindio (lift (parse_ether E ''134'')) (\<lambda>price.
     bindio (sendTxWithLog E signer DEPLOYED_ORDER_CONTRACT ''submitOrder''
       [Str ''TSLA'', qty, price, Num 0, Num 0, Num 0]) (\<lambda>_. ret ()))))))))))))"

definition upgrade_main :: "'w kit_env \<Rightarrow> ('w, unit) io" where
  "upgrade_main E = two_accounts E (\<lambda>signer admin.
     seqio (load_artifact E ''UpgradeableBeacon.sol/UpgradeableBeacon.json'')
     (send_wait E admin ''0xA9A78c647561A3823F1E48b4e151318Ed42C4eC4'' ''upgradeTo''
       [Str ''0x13c2e3F6ad5f97961D23159D4b6c403a95259699'']))"

definition poc_artifacts :: "string list" where
  "poc_artifacts = [''UpgradeableBeacon.sol/UpgradeableBeacon.json'', ''BeaconProxy.sol/BeaconProxy.json'', ''PocToken.sol/PocToken.json'',
     ''Order.sol/OrderContract.json'', ''MockUSDC.sol/MockUSDC.json'', ''TransparentUpgradeableProxy.sol/TransparentUpgradeableProxy.json'',
     ''PocGate.sol/PocGate.json'']"

definition deploy_main :: "'w kit_env \<Rightarrow> ('w, unit) io" where
  "deploy_main E = two_accounts E (\<lambda>signer admin.
     seqio (foreach poc_artifacts (load_artifact E))
     (bindio (deployArtifact E signer ''PocGate'' [Str (deployed_token ''USDC''), Str (deployed_token ''USDM'')]) (\<lambda>impl.
     bindio (lift (member signer ''address'')) (\<lambda>guardian.
     bindio (lift (encode_call E ''initialize'' [guardian, Str ''0'', Str ''0''])) (\<lambda>data.
     bindio (lift (member admin ''address'')) (\<lambda>owner.
     bindio (deployArtifact E signer ''TransparentUpgradeableProxy'' [impl, owner, data]) (\<lambda>_. ret ())))))))"

text \<open>\<open>main().catch(console.error)\<close>: a script that fails still ends as if it had not.\<close>

definition run_script :: "('w, unit) io \<Rightarrow> ('w, unit) io" where
  "run_script m = catchio m (\<lambda>_. ret ())"

section \<open>What the scripts send\<close>

locale poc_chain =
  fixes E :: "'w kit_env" and v :: "'w \<Rightarrow> poc_op list"
  assumes quiet: "silent v (get_account E n)" "silent v (load_artifact E p)" "silent v (register_parser E a)"
      "silent v (read_contract E a f args)" "silent v (wait_receipt E h)"
    and sends: "sending v (sendTxWithLog E acc a f args) (Tx acc a f args)"
    and creates: "(\<exists>x. fst (deployArtifact E acc c args w) = Inr x \<and> v (snd (deployArtifact E acc c args w)) = v w @ [Create acc c args x]) \<or>
      (\<exists>e x. fst (deployArtifact E acc c args w) = Inl e \<and>
        v (snd (deployArtifact E acc c args w)) \<in> {v w, v w @ [Create acc c args x]})"

definition token_plan :: "val \<Rightarrow> string \<Rightarrow> val \<Rightarrow> poc_op list" where
  "token_plan acc token nm = [Tx acc token ''setOperator'' [Str operator], Tx acc token ''setOperator'' [Str orderContractAddress],
     Tx acc token ''setOperator'' [Str DEPLOYED_GATE_CONTRACT], Tx acc orderContractAddress ''setSymbolToken'' [nm, Str token]]"

definition config_plan :: "val \<Rightarrow> val list \<Rightarrow> poc_op list" where
  "config_plan acc names = concat (map2 (token_plan acc) testTokens names)"

context poc_chain
begin

lemma runs_quiet: "silent v m \<Longrightarrow> R d \<Longrightarrow> (\<And>x. runs v d (g x) Q R) \<Longrightarrow> runs v d (bindio m g) Q R"
  by (rule runs_silent) auto

lemma runs_lifted: "R d \<Longrightarrow> (\<And>x. r = Inr x \<Longrightarrow> runs v d (g x) Q R) \<Longrightarrow> runs v d (bindio (lift r) g) Q R"
  by (cases r) (auto simp: bindio_def lift_def triple_def ret_def throw_def)

lemma parsers_quiet: "silent v (foreach xs (register_parser E))"
proof (induction xs)
  case (Cons x xs)
  then show ?case
    using quiet(3) [of x] by (auto simp: silent_def seqio_def bindio_def split: prod.splits sum.splits) (metis snd_conv)+
qed (simp add: silent_def ret_def)

lemma send_wait_seq:
  assumes "R d" and "R (d @ [Tx acc a f args])" and "runs v (d @ [Tx acc a f args]) m Q R"
  shows "runs v d (seqio (send_wait E acc a f args) m) Q R"
  unfolding send_wait_def seqio_def bindio_assoc
  using assms by (intro runs_sending [OF sends] runs_lifted runs_quiet [OF quiet(5)]) (auto simp: seqio_def)

lemma config_token_runs:
  "runs v d (config_token E acc token) (\<lambda>_ s. \<exists>nm. s = d @ token_plan acc token nm)
    (\<lambda>s. \<exists>nm. prefix s (d @ token_plan acc token nm))"
proof -
  let ?Q = "\<lambda>(_ :: unit) s. \<exists>nm. s = d @ token_plan acc token nm" and ?R = "\<lambda>s. \<exists>nm. prefix s (d @ token_plan acc token nm)"
  have R: "?R (d @ take k (token_plan acc token nm))" for k nm
    by (intro exI [of _ nm]) (simp add: take_is_prefix)
  have p: "token_plan acc token nm = take 4 (token_plan acc token nm)" for nm by (simp add: token_plan_def)
  show ?thesis
    unfolding config_token_def
  proof (unfold seqio_def [of "register_parser E token"], rule runs_quiet [OF quiet(3)], use R [of 0] in simp,
      rule runs_quiet [OF quiet(4)], use R [of 0] in simp)
    fix nm
    note r = R [of 0 nm] R [of 1 nm] R [of 2 nm] R [of 3 nm] R [of 4 nm]
    show "runs v d (seqio (send_wait E acc token ''setOperator'' [Str operator])
     (seqio (send_wait E acc token ''setOperator'' [Str orderContractAddress])
     (seqio (send_wait E acc token ''setOperator'' [Str DEPLOYED_GATE_CONTRACT])
     (seqio (send_wait E acc orderContractAddress ''setSymbolToken'' [nm, Str token])
     (bindio (read_contract E orderContractAddress ''symbolToToken'' [nm]) (\<lambda>x.
     bindio (lift (same_address x token)) (\<lambda>b.
     if b then ret () else throw (JsError ''validateAddress not equal to token'')))))))) ?Q ?R"
      using r unfolding token_plan_def
      by (intro send_wait_seq runs_quiet [OF quiet(4)] runs_lifted runs_if runs_ret runs_throw)
        (auto simp: numeral_eq_Suc)
  qed
qed

lemma config_runs:
  "runs v d (config_main E) (\<lambda>_ s. \<exists>acc names. length names = 3 \<and> s = d @ config_plan acc names)
    (\<lambda>s. \<exists>acc names. length names = 3 \<and> prefix s (d @ config_plan acc names))"
proof -
  let ?R = "\<lambda>s. \<exists>acc names. length names = 3 \<and> prefix s (d @ config_plan acc names)"
  have R: "?R d" by (intro exI [of _ Undef] exI [of _ "[Undef, Undef, Undef]"]) simp
  have l: "length testTokens = 3" by (simp add: testTokens_def)
  have "runs v d (foreach testTokens (config_token E acc)) (\<lambda>_ s. \<exists>acc names. length names = 3 \<and> s = d @ config_plan acc names) ?R" for acc
    by (rule runs_conseq [OF foreach_chunks [where a = "\<lambda>s. s", OF config_token_runs]])
      (auto simp: config_plan_def l; blast)+
  then show ?thesis
    unfolding config_main_def two_accounts_def seqio_def
    using R by (intro runs_quiet [OF quiet(1)] runs_quiet [OF quiet(2)] runs_lifted) auto
qed

end

section \<open>A registry that answers\<close>

text \<open>What the order contract knows under a name after these transactions.\<close>

definition registers :: "poc_op \<Rightarrow> (val \<Rightarrow> string option) \<Rightarrow> val \<Rightarrow> string option" where
  "registers p m = (case p of
       Tx acc a f [nm, Str t] \<Rightarrow> if a = orderContractAddress \<and> f = ''setSymbolToken'' then m(nm \<mapsto> t) else m
     | _ \<Rightarrow> m)"

definition registered :: "poc_op list \<Rightarrow> val \<Rightarrow> string option" where
  "registered ps = fold registers ps Map.empty"

lemma registered_snoc: "registered (ps @ [p]) = registers p (registered ps)"
  by (simp add: registered_def)

text \<open>No call throws, accounts and receipts have their fields, a token answers its name \<open>name_of\<close> and the first account is
  \<open>signer\<close> whenever they are asked for, and \<open>symbolToToken\<close> is what was registered, in any case of letters.\<close>

locale poc_registry = poc_chain +
  fixes signer :: val and name_of :: "string \<Rightarrow> val"
  assumes signer: "fst (get_account E ''julian:32'' w) = Inr x \<Longrightarrow> x = signer"
    and name_of: "fst (read_contract E a ''name'' [] w) = Inr x \<Longrightarrow> x = name_of a"
    and calm: "total_io (get_account E n)" "total_io (load_artifact E p)" "total_io (register_parser E a)"
      "total_io (read_contract E a f args)" "total_io (wait_receipt E h)" "total_io (sendTxWithLog E acc a f args)"
    and account: "fst (get_account E n w) = Inr x \<Longrightarrow> \<exists>a. member x ''address'' = Inr a"
    and receipt: "fst (sendTxWithLog E acc a f args w) = Inr x \<Longrightarrow> \<exists>h. member x ''transactionHash'' = Inr h"
    and symbol: "fst (read_contract E orderContractAddress ''symbolToToken'' [nm] w) = Inr x \<Longrightarrow> registered (v w) nm = Some t \<Longrightarrow>
      \<exists>a. x = Str a \<and> toLowerCase a = toLowerCase t"

context poc_registry
begin

lemma sent_seq:
  assumes "runs v (d @ [Tx acc a f args]) m Q (\<lambda>_. False)"
  shows "runs v d (seqio (send_wait E acc a f args) m) Q (\<lambda>_. False)"
  unfolding send_wait_def seqio_def bindio_assoc
proof (rule runs_sending [OF sends], use calm(6) in blast)
  fix x w assume "fst (sendTxWithLog E acc a f args w) = Inr x"
  then obtain h where "member x ''transactionHash'' = Inr h" using receipt by blast
  then show "runs v (d @ [Tx acc a f args]) (bindio (lift (member x ''transactionHash'')) (\<lambda>y. bindio (wait_receipt E y) (\<lambda>_. m))) Q (\<lambda>_. False)"
    using runs_silent [OF quiet(5), of h "\<lambda>_. False" "d @ [Tx acc a f args]" "\<lambda>_. m" Q] calm(5) assms
    by (simp add: bindio_def lift_def ret_def)
qed

lemma token_registered:
  "runs v d (config_token E acc token) (\<lambda>_ s. s = d @ token_plan acc token (name_of token)) (\<lambda>_. False)"
  unfolding config_token_def
proof (unfold seqio_def [of "register_parser E token"], rule runs_silent [OF quiet(3)], use calm(3) in blast,
    rule runs_silent_known [OF quiet(4)], use calm(4) in blast)
  fix nm w assume "fst (read_contract E token ''name'' [] w) = Inr nm"
  then have nm: "nm = name_of token" by (rule name_of)
  let ?d = "d @ token_plan acc token nm"
  have t: "registered ?d nm = Some token"
    using registered_snoc [of "d @ take 3 (token_plan acc token nm)" "Tx acc orderContractAddress ''setSymbolToken'' [nm, Str token]"]
    by (simp add: token_plan_def registers_def)
  have check: "runs v ?d (bindio (read_contract E orderContractAddress ''symbolToToken'' [nm]) (\<lambda>x.
     bindio (lift (same_address x token)) (\<lambda>b.
     if b then ret () else throw (JsError ''validateAddress not equal to token'')))) (\<lambda>_ s. s = d @ token_plan acc token (name_of token)) (\<lambda>_. False)"
  proof (rule runs_silent_known [OF quiet(4)], use calm(4) in blast)
    fix x w assume "v w = ?d" "fst (read_contract E orderContractAddress ''symbolToToken'' [nm] w) = Inr x"
    with symbol t obtain a where "x = Str a" "toLowerCase a = toLowerCase token" by metis
    then show "runs v ?d (bindio (lift (same_address x token)) (\<lambda>b.
     if b then ret () else throw (JsError ''validateAddress not equal to token''))) (\<lambda>_ s. s = d @ token_plan acc token (name_of token)) (\<lambda>_. False)"
      by (auto simp: nm same_address_def bindio_def lift_def ret_def triple_def)
  qed
  show "runs v d (seqio (send_wait E acc token ''setOperator'' [Str operator])
     (seqio (send_wait E acc token ''setOperator'' [Str orderContractAddress])
     (seqio (send_wait E acc token ''setOperator'' [Str DEPLOYED_GATE_CONTRACT])
     (seqio (send_wait E acc orderContractAddress ''setSymbolToken'' [nm, Str token])
     (bindio (read_contract E orderContractAddress ''symbolToToken'' [nm]) (\<lambda>x.
     bindio (lift (same_address x token)) (\<lambda>b.
     if b then ret () else throw (JsError ''validateAddress not equal to token'')))))))) (\<lambda>_ s. s = d @ token_plan acc token (name_of token)) (\<lambda>_. False)"
    using check by (intro sent_seq) (simp add: token_plan_def)
qed

lemma config_completes:
  "runs v d (config_main E) (\<lambda>_ s. s = d @ config_plan signer (map name_of testTokens)) (\<lambda>_. False)"
proof -
  have tokens: "runs v d (foreach ts (config_token E acc)) (\<lambda>_ s. s = d @ concat (map2 (token_plan acc) ts (map name_of ts))) (\<lambda>_. False)"
    for ts acc
  proof (induction ts arbitrary: d)
    case (Cons t ts)
    show ?case
      unfolding foreach.simps seqio_def
      by (rule runs_bind_all [OF token_registered], rule runs_conseq, simp, rule Cons.IH) auto
  qed (simp add: runs_ret)
  show ?thesis
    unfolding config_main_def two_accounts_def seqio_def
  proof (rule runs_silent_known [OF quiet(1)], use calm(1) in blast, rule runs_silent_known [OF quiet(1)], use calm(1) in blast)
    fix x w y w'
    assume x: "fst (get_account E ''julian:32'' w) = Inr x" and y: "fst (get_account E ''julian:11'' w') = Inr y"
    then obtain a b where "member x ''address'' = Inr a" "member y ''address'' = Inr b" using account by metis
    then show "runs v d (bindio (lift (member x ''address'')) (\<lambda>_. bindio (lift (member y ''address'')) (\<lambda>_.
        bindio (load_artifact E ''PocToken.sol/PocToken.json'') (\<lambda>_. bindio (load_artifact E ''Order.sol/OrderContract.json'')
        (\<lambda>_. foreach testTokens (config_token E x)))))) (\<lambda>_ s. s = d @ config_plan signer (map name_of testTokens)) (\<lambda>_. False)"
      using tokens [of testTokens x] calm(2) by (simp add: lift_bind runs_silent [OF quiet(2)] config_plan_def signer [OF x])
  qed
qed

end

context poc_chain
begin

lemma place_runs:
  "runs v d (place_main E) (\<lambda>_ s. \<exists>acc n q p. s = d @ [Tx acc (deployed_token ''TSLA'') ''approve'' [Str DEPLOYED_ORDER_CONTRACT, n],
      Tx acc DEPLOYED_ORDER_CONTRACT ''submitOrder'' [Str ''TSLA'', q, p, Num 0, Num 0, Num 0]])
    (\<lambda>s. \<exists>acc n q p. prefix s (d @ [Tx acc (deployed_token ''TSLA'') ''approve'' [Str DEPLOYED_ORDER_CONTRACT, n],
      Tx acc DEPLOYED_ORDER_CONTRACT ''submitOrder'' [Str ''TSLA'', q, p, Num 0, Num 0, Num 0]]))"
  unfolding place_main_def seqio_def
  by (intro runs_quiet [OF quiet(1)] runs_lifted runs_quiet [OF quiet(2)] runs_quiet [OF quiet(3)]
      runs_sending [OF sends] runs_quiet [OF parsers_quiet] runs_ret) auto

end

section \<open>A chain in memory\<close>

text \<open>With \<open>faulty\<close> the fault plan says which calls throw, a transaction then being sent all the same; the names of the tokens are their
  addresses.\<close>

record poc_world =
  poc_sent :: "poc_op list"
  poc_faults :: "bool list"

definition faults :: "bool \<Rightarrow> poc_world \<Rightarrow> bool" where
  "faults faulty w \<longleftrightarrow> faulty \<and> poc_faults w \<noteq> [] \<and> hd (poc_faults w)"

definition poc_call :: "bool \<Rightarrow> (poc_op list \<Rightarrow> 'a) \<Rightarrow> poc_op list \<Rightarrow> (poc_world, 'a) io" where
  "poc_call faulty f ps = (\<lambda>w. (if faults faulty w then Inl (JsError ''lost'') else Inr (f (poc_sent w)),
     w\<lparr>poc_sent := poc_sent w @ ps, poc_faults := tl (poc_faults w)\<rparr>))"

definition poc_kit :: "bool \<Rightarrow> poc_world kit_env" where
  "poc_kit faulty = \<lparr>
     get_account = (\<lambda>n. poc_call faulty (\<lambda>_. Obj [(''address'', Str n)]) []),
     load_artifact = (\<lambda>p. poc_call faulty (\<lambda>_. ()) []), register_parser = (\<lambda>a. poc_call faulty (\<lambda>_. ()) []),
     read_contract = (\<lambda>a f args. poc_call faulty (\<lambda>ps. if f = ''symbolToToken'' \<and> args \<noteq> []
        then Str (case registered ps (hd args) of Some t \<Rightarrow> t | None \<Rightarrow> ''0x0'') else Str a) []),
     sendTxWithLog = (\<lambda>acc a f args. poc_call faulty (\<lambda>_. Obj [(''transactionHash'', Str ''0xh'')]) [Tx acc a f args]),
     wait_receipt = (\<lambda>h. poc_call faulty (\<lambda>_. ()) []),
     deployArtifact = (\<lambda>acc c args. poc_call faulty (\<lambda>_. Str ''0xnew'') [Create acc c args (Str ''0xnew'')]),
     encode_call = (\<lambda>f args. Inr (Str f)), parse_ether = (\<lambda>s. Inr (Str s))\<rparr>"

interpretation poc_sim: poc_chain "poc_kit faulty" poc_sent
proof (unfold_locales, goal_cases)
  case (7 acc c args w)
  then show ?case by (auto simp: poc_kit_def poc_call_def)
qed (auto simp: poc_kit_def poc_call_def silent_def sending_def)

interpretation poc_calm: poc_registry "poc_kit False" poc_sent "Obj [(''address'', Str ''julian:32'')]" Str
  by unfold_locales (auto simp: poc_kit_def poc_call_def faults_def total_io_def)

section \<open>Properties\<close>

text \<open>Whatever fails, the configuration sends a beginning of its plan, token by token: three operators and then the name of
  the token with the order contract; it sends all of it if it does not throw.\<close>

theorem config_sends_plan:
  assumes "poc_chain E v" and "config_main E w = (r, w')"
  shows "\<exists>acc names. length names = 3 \<and> (case r of Inr _ \<Rightarrow> v w' = v w @ config_plan acc names
    | Inl _ \<Rightarrow> prefix (v w') (v w @ config_plan acc names))"
  using tripleD [OF poc_chain.config_runs [OF assms(1)] refl, of w] assms(2) by (cases r) auto

lemma registers_plan: "fold registers (token_plan acc t nm) m = m(nm \<mapsto> t)"
  by (simp add: token_plan_def registers_def)

lemma fold_plan:
  "distinct (map f ts) \<Longrightarrow> t \<in> set ts \<Longrightarrow> fold registers (concat (map2 (token_plan acc) ts (map f ts))) m (f t) = Some t"
proof (induction ts arbitrary: m)
  case (Cons u ts)
  have other: "fold registers (concat (map2 (token_plan acc) us (map f us))) m x = m x" if "x \<notin> f ` set us" for us m x
    using that by (induction us arbitrary: m) (simp_all add: registers_plan)
  from Cons other [of "f u" ts] show ?case by (auto simp: registers_plan)
qed simp

text \<open>C35: where no call throws and the order contract answers with what was registered, the configuration sends its plan from
  the first account, with the names the tokens answer; its checks pass; and in the end the order contract has every token
  under the token's own name, if the names differ.\<close>

theorem config_registers_tokens:
  assumes "poc_registry E v signer name_of" and "config_main E w = (r, w')"
  shows "r = Inr () \<and> v w' = v w @ config_plan signer (map name_of testTokens) \<and>
    (distinct (map name_of testTokens) \<longrightarrow> (\<forall>t \<in> set testTokens. registered (v w') (name_of t) = Some t))"
proof -
  from runsD [OF poc_registry.config_completes [OF assms(1)] refl assms(2)]
  have r: "r = Inr ()" "v w' = v w @ config_plan signer (map name_of testTokens)" by (metis unit.exhaust)+
  have "registered (v w') (name_of t) = Some t" if "distinct (map name_of testTokens)" "t \<in> set testTokens" for t
    using fold_plan [OF that] unfolding r(2) by (simp add: config_plan_def registered_def)
  with r show ?thesis by auto
qed

theorem config_sends_plan_witness:
  "\<exists>acc names. length names = 3 \<and> prefix (poc_sent (snd (config_main (poc_kit True)
      \<lparr>poc_sent = [], poc_faults = replicate 20 False @ [True]\<rparr>))) (config_plan acc names)"
proof -
  obtain r w' where r: "config_main (poc_kit True) \<lparr>poc_sent = [], poc_faults = replicate 20 False @ [True]\<rparr> = (r, w')" by fastforce
  from config_sends_plan [OF poc_sim.poc_chain_axioms r] show ?thesis
    unfolding r by (cases r) (auto, metis prefix_order.refl)
qed

theorem config_registers_tokens_witness:
  "fst (config_main (poc_kit False) \<lparr>poc_sent = [], poc_faults = []\<rparr>) = Inr () \<and>
   map (\<lambda>t. registered (poc_sent (snd (config_main (poc_kit False) \<lparr>poc_sent = [], poc_faults = []\<rparr>))) (Str t)) testTokens =
     map Some testTokens"
proof -
  obtain r w' where r: "config_main (poc_kit False) \<lparr>poc_sent = [], poc_faults = []\<rparr> = (r, w')" by fastforce
  have "distinct (map Str testTokens)" by (simp add: testTokens_def)
  with config_registers_tokens [OF poc_calm.poc_registry_axioms r] show ?thesis unfolding r fst_conv snd_conv map_eq_conv by blast
qed

text \<open>The order script approves the token it buys and then submits the order.\<close>

theorem place_approves_bought_token:
  assumes "poc_chain E v" and "place_main E w = (Inr (), w')"
  shows "\<exists>acc n q p. v w' = v w @ [Tx acc (deployed_token ''TSLA'') ''approve'' [Str DEPLOYED_ORDER_CONTRACT, n],
    Tx acc DEPLOYED_ORDER_CONTRACT ''submitOrder'' [Str ''TSLA'', q, p, Num 0, Num 0, Num 0]]"
  using tripleD [OF poc_chain.place_runs [OF assms(1)] refl, of w] assms(2) by simp

end
