(* ===== verification/Market_Orders.thy ===== *)
theory Market_Orders
  imports Effects Js_Values Js_Numbers
begin

text \<open>
  The front end of the NFT marketplace that talks to the outside: \<open>contracts/service/orderBookContract.ts\<close>, the requests of
  \<open>api\<close> and the shared state of \<open>hooks/useGlobalState.ts\<close> (\<open>NFTMarketplace/frontend\<close>). The contract, the wallet and the
  conversions of ethers are the record \<open>book_env\<close>; the abstract state is the list of the batches of orders sent.
  Messages outside ASCII are their UTF-8 bytes.
\<close>

section \<open>orderBookContract.ts\<close>

datatype Side = Buy | Sell

datatype SaleKind = FixedPrice | DutchAuction

record book_env_data =
  isAddress :: "val \<Rightarrow> bool"
  formatEther :: "val \<Rightarrow> js_error + val"
  locale_date :: "rat option \<Rightarrow> string"

record 'w book_env = book_env_data +
  get_signer :: "('w, unit) io"
  contract_makeOrders :: "val list \<Rightarrow> val \<Rightarrow> ('w, val) io"
  wait_order :: "val \<Rightarrow> ('w, val) io"
  contract_getOrders :: "val list \<Rightarrow> ('w, val) io"

definition bad_maker :: string where
  "bad_maker = [CHR 0xE6, CHR 0x97, CHR 0xA0, CHR 0xE6, CHR 0x95, CHR 0x88, CHR 0xE7, CHR 0x9A, CHR 0x84] @ ''maker'' @
     [CHR 0xE5, CHR 0x9C, CHR 0xB0, CHR 0xE5, CHR 0x9D, CHR 0x80]"

definition bad_collection :: string where
  "bad_collection = [CHR 0xE6, CHR 0x97, CHR 0xA0, CHR 0xE6, CHR 0x95, CHR 0x88, CHR 0xE7, CHR 0x9A, CHR 0x84] @ ''NFT'' @
     [CHR 0xE5, CHR 0x90, CHR 0x88, CHR 0xE7, CHR 0xBA, CHR 0xA6, CHR 0xE5, CHR 0x9C, CHR 0xB0, CHR 0xE5, CHR 0x9D, CHR 0x80]"

definition create_failed :: string where
  "create_failed = [CHR 0xE5, CHR 0x88, CHR 0x9B, CHR 0xE5, CHR 0xBB, CHR 0xBA, CHR 0xE8, CHR 0xAE, CHR 0xA2, CHR 0xE5, CHR 0x8D,
     CHR 0x95, CHR 0xE5, CHR 0xA4, CHR 0xB1, CHR 0xE8, CHR 0xB4, CHR 0xA5] @ '': ''"

text \<open>The check of one order; the orders are typed, so \<open>nft\<close> is an object.\<close>

definition check_order :: "'w book_env \<Rightarrow> val \<Rightarrow> js_error + unit" where
  "check_order E order =
     (if \<not> isAddress E (get ''maker'' (entries order)) then Inl (JsError bad_maker)
      else if \<not> isAddress E (get ''collection'' (entries (get ''nft'' (entries order)))) then Inl (JsError bad_collection)
      else Inr ())"

text \<open>\<open>xs?.filter(..)?.map(..)\<close>\<close>

definition order_key :: "val \<Rightarrow> js_error + val" where
  "order_key event = (case member event ''args'' of Inl e \<Rightarrow> Inl e | Inr args \<Rightarrow> member args ''orderKey'')"

fun keys_of :: "val list \<Rightarrow> js_error + val list" where
  "keys_of [] = Inr []"
| "keys_of (v # vs) = (case member v ''event'' of Inl e \<Rightarrow> Inl e
     | Inr nm \<Rightarrow> if nm = Str ''LogMake''
         then (case order_key v of Inl e \<Rightarrow> Inl e | Inr k \<Rightarrow> map_sum id ((#) k) (keys_of vs))
         else keys_of vs)"

definition orderKeys :: "val \<Rightarrow> js_error + val" where
  "orderKeys receipt = (case member receipt ''events'' of Inl e \<Rightarrow> Inl e
     | Inr evs \<Rightarrow> if nullish evs then Inr Undef
         else (case elements evs of Inl e \<Rightarrow> Inl e | Inr vs \<Rightarrow> map_sum id Arr (keys_of vs)))"

fun message_text :: "js_error \<Rightarrow> string" where
  "message_text (TypeError t) = t"
| "message_text (ReferenceError t) = t"
| "message_text (JsError t) = t"

definition order_value :: "obj \<Rightarrow> val" where
  "order_value opts = (if truthy_val (get ''value'' opts) then get ''value'' opts else Str ''0'')"

definition order_receipt :: "'w book_env \<Rightarrow> val \<Rightarrow> ('w, val \<times> val) io" where
  "order_receipt E tx =
     bindio (wait_order E tx) (\<lambda>receipt.
     bindio (lift (orderKeys receipt)) (\<lambda>keys.
     bindio (lift (member receipt ''transactionHash'')) (\<lambda>h. ret (keys, h))))"

definition makeOrders :: "'w book_env \<Rightarrow> val list \<Rightarrow> obj \<Rightarrow> ('w, val \<times> val) io" where
  "makeOrders E orders opts =
     catchio
       (seqio (foreach orders (\<lambda>order. lift (check_order E order)))
       (bindio (contract_makeOrders E orders (Obj [(''value'', order_value opts)])) (order_receipt E)))
       (\<lambda>e. throw (JsError (create_failed @ message_text e)))"

text \<open>The functions of \<open>contracts/abis/EasySwapOrderBook.sol/EasySwapOrderBook.json\<close>.\<close>

definition abi_functions :: "string list" where
  "abi_functions = [''cancelOrders'', ''editOrders'', ''eip712Domain'', ''filledAmount'', ''getBestOrder'', ''getBestPrice'',
     ''getNextBestPrice'', ''getOrders'', ''initialize'', ''makeOrders'', ''matchOrder'', ''matchOrderWithoutPayback'', ''matchOrders'',
     ''orderQueues'', ''orders'', ''owner'', ''pause'', ''paused'', ''priceTrees'', ''protocolShare'', ''renounceOwnership'',
     ''setProtocolShare'', ''setVault'', ''transferOwnership'', ''unpause'', ''withdrawETH'']"

definition book_address :: string where
  "book_address = ''0x8039A8DafF806B27dB59C05fE5AD680F19c34f5A''"

definition zeroBytes32 :: string where
  "zeroBytes32 = ''0x'' @ replicate 64 (CHR ''0'')"

definition or_else :: "val \<Rightarrow> val \<Rightarrow> val" where
  "or_else v d = (if truthy_val v then v else d)"

definition formatted_order :: "'w book_env \<Rightarrow> val \<Rightarrow> js_error + val" where
  "formatted_order E order =
     (case (member order ''maker'', member order ''nft'') of
        (Inl e, _) \<Rightarrow> Inl e
      | (_, Inl e) \<Rightarrow> Inl e
      | (Inr maker, Inr nft) \<Rightarrow>
          (case (member nft ''collection'', member nft ''tokenId'') of
             (Inl e, _) \<Rightarrow> Inl e
           | (_, Inl e) \<Rightarrow> Inl e
           | (Inr collection, Inr tokenId) \<Rightarrow>
               if nullish tokenId then Inl (TypeError ''Cannot read properties of undefined (reading toString)'')
               else (case formatEther E (get ''price'' (entries order)) of Inl e \<Rightarrow> Inl e
                 | Inr price \<Rightarrow> Inr (Obj [(''maker'', maker), (''nftContract'', collection), (''tokenId'', Str (js_string tokenId)),
                     (''price'', price), (''side'', get ''side'' (entries order)),
                     (''expiry'', Str (locale_date E (lift2 (*) (to_number (get ''expiry'' (entries order))) (Some 1000))))]))))"

fun formatted_orders :: "'w book_env \<Rightarrow> val list \<Rightarrow> js_error + val list" where
  "formatted_orders E [] = Inr []"
| "formatted_orders E (v # vs) = (case formatted_order E v of Inl e \<Rightarrow> Inl e | Inr x \<Rightarrow> map_sum id ((#) x) (formatted_orders E vs))"

definition getOrders :: "'w book_env \<Rightarrow> obj \<Rightarrow> ('w, val list \<times> val) io" where
  "getOrders E params =
     seqio (get_signer E)
     (bindio (contract_getOrders E [get ''collection'' params, get ''tokenId'' params, get ''side'' params, get ''saleKind'' params,
         get ''count'' params, or_else (get ''price'' params) (Num 0), or_else (get ''firstOrderKey'' params) (Str zeroBytes32)])
       (\<lambda>orders.
     bindio (lift (member orders ''resultOrders'')) (\<lambda>rs.
     bindio (lift (elements rs)) (\<lambda>vs.
     bindio (lift (formatted_orders E vs)) (\<lambda>os. ret (os, get ''nextOrderKey'' (entries orders)))))))"

text \<open>\<open>createOrder\<close> calls a function that a contract has only if its ABI names it. \<open>call\<close> is that function.\<close>

definition createOrder :: "'w book_env \<Rightarrow> (val list \<Rightarrow> ('w, val) io) \<Rightarrow> val list \<Rightarrow> ('w, val) io" where
  "createOrder E call orders = seqio (get_signer E)
     (if ''createOrder'' \<in> set abi_functions then call orders
      else throw (TypeError ''this.contract.createOrder is not a function''))"

section \<open>The requests\<close>

text \<open>Method, address, query and body. \<open>json\<close> is \<open>JSON.stringify\<close>.\<close>

record market_request =
  m_method :: string
  m_url :: string
  m_params :: val
  m_body :: val

definition market_get :: "string \<Rightarrow> val \<Rightarrow> market_request" where
  "market_get url params = \<lparr>m_method = ''get'', m_url = ''/api/v1'' @ url, m_params = params, m_body = Undef\<rparr>"

definition filters :: "(val \<Rightarrow> string) \<Rightarrow> val \<Rightarrow> val" where
  "filters json v = Obj [(''filters'', Str (json v))]"

definition GetActivity :: "(val \<Rightarrow> string) \<Rightarrow> val \<Rightarrow> market_request" where
  "GetActivity json params = market_get ''/activities'' (filters json params)"

definition GetCollections :: "val \<Rightarrow> market_request" where
  "GetCollections params = market_get ''/collections/ranking'' params"

definition GetCollectionDetail :: "obj \<Rightarrow> market_request" where
  "GetCollectionDetail params = market_get (''/collections/'' @ js_string (get ''address'' params)) (Obj params)"

definition GetCollectionItems :: "(val \<Rightarrow> string) \<Rightarrow> obj \<Rightarrow> market_request" where
  "GetCollectionItems json params =
     market_get (''/collections/'' @ js_string (get ''address'' params) @ ''/items'') (filters json (get ''filters'' params))"

definition GetPortfolio :: "(val \<Rightarrow> string) \<Rightarrow> obj \<Rightarrow> market_request" where
  "GetPortfolio json params = market_get ''/portfolio/collections'' (filters json (get ''filters'' params))"

definition GetLoginMessage :: "string \<Rightarrow> market_request" where
  "GetLoginMessage address = market_get (''/user/'' @ address @ ''/login-message'') Undef"

definition GetSigStatus :: "string \<Rightarrow> market_request" where
  "GetSigStatus address = market_get (''/user/'' @ address @ ''/sig-status'') Undef"

definition Login :: "val \<Rightarrow> market_request" where
  "Login params = \<lparr>m_method = ''post'', m_url = ''/api/v1/user/login'', m_params = Undef, m_body = params\<rparr>"

text \<open>The interceptor of the answers; errors of the connection and of the status are axios' own rejections.\<close>

definition unwrapped :: "val \<Rightarrow> js_error + val" where
  "unwrapped response = (case member response ''data'' of Inl e \<Rightarrow> Inl e | Inr d \<Rightarrow> member d ''data'')"

section \<open>useGlobalState.ts\<close>

definition initialState :: obj where
  "initialState = [(''theme'', Str ''light''), (''language'', Str ''zh''), (''walletAddress'', Str []), (''chain_id'', Num 11155111),
     (''collection_address'', Str ''0x0000000000000000000000000000000000000000''), (''collection'', Null)]"

definition GLOBAL_STATE_KEY :: string where
  "GLOBAL_STATE_KEY = ''globalState''"

record global_state =
  saved :: "string option"
  cached :: "obj option"

text \<open>\<open>state\<close> of a rendering, the query that fills the cache, and an update: it spreads the state of the rendering that made
  it.\<close>

definition rendered_state :: "global_state \<Rightarrow> obj" where
  "rendered_state g = (case cached g of None \<Rightarrow> initialState | Some s \<Rightarrow> s)"

definition queried :: "(string \<Rightarrow> js_error + val) \<Rightarrow> global_state \<Rightarrow> global_state" where
  "queried parse g = (case saved g of
       None \<Rightarrow> g\<lparr>cached := Some initialState\<rparr>
     | Some t \<Rightarrow> if t = [] then g\<lparr>cached := Some initialState\<rparr>
         else (case parse t of Inl e \<Rightarrow> g | Inr v \<Rightarrow> g\<lparr>cached := Some (entries v)\<rparr>))"

definition setState :: "(val \<Rightarrow> string) \<Rightarrow> obj \<Rightarrow> obj \<Rightarrow> global_state \<Rightarrow> global_state" where
  "setState json state new g = (let updated = spread state new in g\<lparr>saved := Some (json (Obj updated)), cached := Some updated\<rparr>)"

section \<open>What is sent\<close>

locale order_book =
  fixes E :: "'w book_env" and v :: "'w \<Rightarrow> (val list \<times> val) list"
  assumes quiet: "silent v (get_signer E)" "silent v (wait_order E tx)" "silent v (contract_getOrders E args)"
    and sends: "sending v (contract_makeOrders E os ov) (os, ov)"

definition order_ok :: "'w book_env \<Rightarrow> val \<Rightarrow> bool" where
  "order_ok E order \<longleftrightarrow> check_order E order = Inr ()"

lemma checked_orders:
  "foreach orders (\<lambda>order. lift (check_order E order)) w =
     (case List.find (\<lambda>order. \<not> order_ok E order) orders of None \<Rightarrow> Inr ()
      | Some order \<Rightarrow> Inl (JsError (if isAddress E (get ''maker'' (entries order)) then bad_collection else bad_maker)), w)"
  by (induction orders arbitrary: w) (auto simp: order_ok_def check_order_def lift_def seqio_def bindio_def ret_def throw_def)

lemma rest_quiet:
  assumes "silent v (wait_order E tx)"
  shows "silent v (order_receipt E tx)"
  using assms unfolding silent_def order_receipt_def
  by (auto simp: bindio_def lift_def ret_def throw_def split: prod.split sum.split) (metis snd_conv)+

text \<open>C37: orders are sent together or not at all: if one has an invalid maker or collection nothing is sent and its complaint is
  thrown; otherwise one batch with all of them and the value goes out, unless the call throws before.\<close>

theorem orders_sent_together:
  assumes "order_book E v" and "makeOrders E orders opts w = (r, w')"
  shows "if list_all (order_ok E) orders
    then v w' = v w @ [(orders, Obj [(''value'', order_value opts)])] \<or> (\<exists>e. r = Inl e) \<and> v w' = v w
    else w' = w \<and> (\<exists>m \<in> {bad_maker, bad_collection}. r = Inl (JsError (create_failed @ m)))"
proof (cases "List.find (\<lambda>order. \<not> order_ok E order) orders")
  case None
  then have ok: "list_all (order_ok E) orders" by (auto simp: find_None_iff list_all_iff)
  let ?ov = "Obj [(''value'', order_value opts)]"
  obtain x w1 where m: "contract_makeOrders E orders ?ov w = (x, w1)" by fastforce
  have s: "if \<exists>tx. x = Inr tx then v w1 = v w @ [(orders, ?ov)] else v w1 = v w \<or> v w1 = v w @ [(orders, ?ov)]"
    using order_book.sends [OF assms(1)] m unfolding sending_def by (metis fst_conv snd_conv)
  show ?thesis
  proof (cases x)
    case (Inl e)
    then have "r = Inl (JsError (create_failed @ message_text e))" "w' = w1"
      using assms(2) m None by (simp_all add: makeOrders_def checked_orders seqio_def bindio_def catchio_def throw_def)
    with ok s Inl show ?thesis by auto
  next
    case (Inr tx)
    obtain y w2 where y: "order_receipt E tx w1 = (y, w2)" by fastforce
    have "v w2 = v w1" using rest_quiet [OF order_book.quiet(2) [OF assms(1)]] y unfolding silent_def by (metis snd_conv)
    moreover have "w' = w2"
      using assms(2) m None Inr y
      by (simp add: makeOrders_def checked_orders seqio_def bindio_def catchio_def throw_def split: sum.splits)
    ultimately show ?thesis using ok s Inr by simp
  qed
next
  case (Some order)
  then have "\<not> list_all (order_ok E) orders" by (auto simp: find_Some_iff list_all_length)
  moreover have "w' = w \<and> (\<exists>m \<in> {bad_maker, bad_collection}. r = Inl (JsError (create_failed @ m)))"
    using assms(2) Some by (auto simp: makeOrders_def checked_orders seqio_def bindio_def catchio_def throw_def)
  ultimately show ?thesis by simp
qed

text \<open>The receipts of ethers 6 have neither \<open>events\<close> nor \<open>transactionHash\<close>: the keys of the orders and the hash are lost.\<close>

theorem keys_are_lost:
  assumes "\<And>tx u rc. fst (wait_order E tx u) = Inr rc \<Longrightarrow> \<exists>ob. rc = Obj ob \<and> get ''events'' ob = Undef \<and> get ''transactionHash'' ob = Undef"
    and "makeOrders E orders opts w = (Inr (k, h), w')"
  shows "k = Undef \<and> h = Undef"
proof -
  obtain tx w1 rc w2 where "wait_order E tx w1 = (Inr rc, w2)" "orderKeys rc = Inr k" "member rc ''transactionHash'' = Inr h"
    using assms(2) unfolding makeOrders_def order_receipt_def
    by (auto simp: seqio_def bindio_def catchio_def throw_def lift_def ret_def split: prod.splits sum.splits)
  moreover from this(1) obtain ob where "rc = Obj ob" "get ''events'' ob = Undef" "get ''transactionHash'' ob = Undef"
    using assms(1) [of tx w1 rc] by auto
  ultimately show ?thesis by (simp add: orderKeys_def nullish_def)
qed

text \<open>\<open>createOrder\<close> never sends anything: the ABI has no such function.\<close>

theorem createOrder_throws: "\<exists>e. fst (createOrder E call orders w) = Inl e"
  by (simp add: createOrder_def abi_functions_def seqio_def bindio_def throw_def split: prod.split sum.split)

section \<open>Two updates\<close>

text \<open>Two updates made in one rendering of the page: the second takes back the first, in the cache and in what is saved.\<close>

theorem second_update_wins:
  assumes "k \<notin> fst ` set b"
  shows "let g' = setState json (rendered_state g) b (setState json (rendered_state g) a g) in
    get k (rendered_state g') = get k (rendered_state g) \<and> saved g' = Some (json (Obj (spread (rendered_state g) b)))"
  using get_spread_other [OF assms] by (simp add: setState_def rendered_state_def Let_def)

text \<open>What is saved is found again by the next visit, where \<open>parse\<close> reads what \<open>json\<close> wrote.\<close>

theorem saved_state_returns:
  assumes "parse (json (Obj (spread state new))) = Inr (Obj (spread state new))" and "json (Obj (spread state new)) \<noteq> []"
  shows "rendered_state (queried parse ((setState json state new g)\<lparr>cached := None\<rparr>)) = spread state new"
  using assms by (simp add: queried_def setState_def rendered_state_def Let_def)

section \<open>A book in memory\<close>

definition memory_book :: "bool \<Rightarrow> ((val list \<times> val) list) book_env" where
  "memory_book ok = \<lparr>isAddress = (\<lambda>a. case a of Str s \<Rightarrow> prefix ''0x'' s | _ \<Rightarrow> False), formatEther = (\<lambda>x. Inr x),
     locale_date = (\<lambda>_. ''1970''), get_signer = ret (),
     contract_makeOrders = (\<lambda>os ov l. (if ok then Inr (Str ''tx'') else Inl (JsError ''denied''), if ok then l @ [(os, ov)] else l)),
     wait_order = (\<lambda>tx. ret (Obj [])), contract_getOrders = (\<lambda>args. ret (Obj [(''resultOrders'', Arr [])]))\<rparr>"

interpretation memory_book: order_book "memory_book ok" "\<lambda>l. l"
  by unfold_locales (auto simp: memory_book_def silent_def sending_def ret_def)

definition demo_market_order :: val where
  "demo_market_order = Obj [(''maker'', Str ''0xa1''), (''nft'', Obj [(''collection'', Str ''0xc1'')])]"

theorem orders_sent_together_witness:
  "snd (makeOrders (memory_book True) [demo_market_order, Obj [(''maker'', Str ''nobody'')]] [] []) = []"
  using orders_sent_together [OF memory_book.order_book_axioms [of True] surjective_pairing,
      of "[demo_market_order, Obj [(''maker'', Str ''nobody'')]]" "[]" "[]"]
  by (simp add: order_ok_def check_order_def memory_book_def)

theorem second_update_wins_witness:
  "get ''walletAddress'' (rendered_state (setState (\<lambda>_. ''x'') initialState [(''language'', Str ''en'')]
     (setState (\<lambda>_. ''x'') initialState [(''walletAddress'', Str ''0xa1'')] \<lparr>saved = None, cached = None\<rparr>))) = Str []"
  using second_update_wins [of "''walletAddress''" "[(''language'', Str ''en'')]" "\<lambda>_. ''x''" "\<lparr>saved = None, cached = None\<rparr>"
      "[(''walletAddress'', Str ''0xa1'')]"]
  by (simp add: rendered_state_def initialState_def Let_def)

end
