(* ===== verification/Pool_Views.thy ===== *)
theory Pool_Views
  imports Wallet_Hooks Project_Page
begin

text \<open>
  The remaining pages of the launchpad and what they compute: the cards of the pools (\<open>LivePoolCard.tsx\<close>, \<open>PoolCard.tsx\<close>), the lists
  of \<open>index.tsx\<close>, \<open>pools.tsx\<close>, \<open>LivePools.tsx\<close> and \<open>FinishedPools.tsx\<close>, the dialog \<open>ParticipateModal.tsx\<close>, \<open>HomeBanner.tsx\<close>,
  \<open>stake.tsx\<close>, \<open>_app.tsx\<close>, the header with its network button, and the small hooks they use.
\<close>

section \<open>Cards\<close>

text \<open>\<open>xs[v]\<close> for any value.\<close>

definition at_key :: "val list \<Rightarrow> val \<Rightarrow> val" where
  "at_key xs v = (let k = js_string v in
     if array_index k \<and> read_digits k < length xs then xs ! read_digits k else Undef)"

definition kebab :: "string \<Rightarrow> string" where
  "kebab s = map lower_char (concat (map (\<lambda>c. let n = of_char c :: nat in if 65 \<le> n \<and> n \<le> 90 then [CHR ''-'', c] else [c]) s))"

definition judgeClassName :: "string \<Rightarrow> val \<Rightarrow> string" where
  "judgeClassName name v = (if v \<noteq> Undef then name else name @ '' loading-element'')"

definition basicElement :: "(string \<Rightarrow> string) \<Rightarrow> obj \<Rightarrow> string \<Rightarrow> string \<Rightarrow> (val \<Rightarrow> val) option \<Rightarrow> string \<times> val" where
  "basicElement styles info key name mapper =
     (let v = get key info; w = (case mapper of None \<Rightarrow> v | Some f \<Rightarrow> js_or (f v) v);
          c = kebab (if name \<noteq> [] then name else key) in
      (judgeClassName (styles c) w, js_or w (Str '' '')))"

text \<open>The quotient may be infinite, which the comparisons cut to a bound; 0 by 0 is \<open>NaN\<close>.\<close>

definition clamped :: "rat option \<Rightarrow> rat option \<Rightarrow> rat option" where
  "clamped a b = (case (a, b) of
     (Some x, Some y) \<Rightarrow> if y = 0 then (if x = 0 then None else Some (if x > 0 then 100 else 0))
       else (let p = x * 125 / y in Some (if p > 100 then 100 else if p < 0 then 0 else p))
   | _ \<Rightarrow> None)"

definition progress :: "ethers \<Rightarrow> obj \<Rightarrow> rat option" where
  "progress U info =
     (let p = clamped (to_number (formatEther U (get ''totalTokensSold'' info) 2))
        (to_number (formatEther U (js_or (get ''amountOfTokensToSell'' info) (Num 1)) 2)) in
      case toFixed p 2 of Inr s \<Rightarrow> number_of_string s | Inl e \<Rightarrow> None)"

definition progress_text :: "rat option \<Rightarrow> string" where
  "progress_text p = ''Sale: '' @ js_string (js_or (num_val p) (Str ''00.00'')) @ ''%''"

definition sale_text :: "ethers \<Rightarrow> obj \<Rightarrow> string \<times> string" where
  "sale_text U info =
     (let sold = formatEther U (js_or (get ''totalTokensSold'' info) (Num 0)) 2;
          to_sell = formatEther U (js_or (get ''amountOfTokensToSell'' info) (Num 0)) 2 in
      (seperateNumWithComma (if greater (to_number sold) (to_number to_sell) then to_sell else sold),
       seperateNumWithComma (num_val (map_option (\<lambda>x. x / (5 / 4)) (to_number to_sell)))))"

text \<open>The status is React's state: an effect sets it when the card gets its \<open>info\<close>, the countdown when it ends.\<close>

record pool_card =
  card_info :: obj
  card_status :: val

definition new_card :: pool_card where
  "new_card = \<lparr>card_info = [], card_status = Num (- 1)\<rparr>"

definition with_info :: "obj \<Rightarrow> pool_card \<Rightarrow> pool_card" where
  "with_info info c = c\<lparr>card_info := info, card_status := get ''status'' info\<rparr>"

definition card_labels :: "val list" where
  "card_labels = map Str [''Register starts in:'', ''Register ends in:'', ''Sale starts in:'', ''Sale ends in:'',
     ''Token unlocks in:'', ''Sale ended'']"

definition deadlines :: "obj \<Rightarrow> val list" where
  "deadlines info = [get ''registrationTimeStarts'' info, get ''registrationTimeEnds'' info, get ''saleStart'' info,
     get ''saleEnd'' info, get ''unlockTime'' info]"

definition counting :: "pool_card \<Rightarrow> bool" where
  "counting c = (greater (to_number (card_status c)) (Some (- 1)) \<and> greater (Some 5) (to_number (card_status c)))"

definition live_timer :: "pool_card \<Rightarrow> val \<times> val option" where
  "live_timer c = (js_or (at_key card_labels (card_status c)) (Str ''To start''),
     if counting c then Some (at_key (deadlines (card_info c)) (get ''status'' (card_info c))) else None)"

definition pool_timer :: "pool_card \<Rightarrow> val \<times> val option" where
  "pool_timer c = (js_or (at_key card_labels (card_status c)) (Str ''Coming soon''),
     if counting c then Some (at_key (deadlines (card_info c)) (card_status c)) else None)"

definition card_finished :: "pool_card \<Rightarrow> pool_card" where
  "card_finished c = c\<lparr>card_status := js_plus (card_status c) (Some 1)\<rparr>"

definition total_raised :: "(rat option \<Rightarrow> date_parts option) \<Rightarrow> pool_card \<Rightarrow> string" where
  "total_raised local c =
     (let t = get ''totalRaised'' (card_info c) in
      if greater (to_number (card_status c)) (Some 2)
      then ''$ '' @ (if \<not> truthy_val t then ''0.00''
        else (case toFixed (to_number t) 2 of Inr s \<Rightarrow> js_string (js_or (Str (formatNumber (Str s))) (Str ''0.00'')) | Inl e \<Rightarrow> []))
      else ''Starts on '' @ formatDate local (get ''registrationTimeEnds'' (card_info c)) ''Month DD, YYYY'')"

text \<open>The price in the payment token, taken to have six decimals.\<close>

definition calTokenPriceInUsd :: "val \<Rightarrow> rat option" where
  "calTokenPriceInUsd p = (if truthy_val p then map_option (\<lambda>x. x / 10 ^ 6) (to_number p) else Some 0)"

definition live_price :: "obj \<Rightarrow> js_error + string" where
  "live_price info = (let p = calTokenPriceInUsd (get ''tokenPriceInPT'' info) in
     if truthy_val (num_val p) then toFixed p 4 else Inr (js_string (num_val p)))"

section \<open>Lists of pools\<close>

record home =
  projectData :: val
  livePoolsData :: "val list"
  cardIndex :: nat

definition home_initial :: home where
  "home_initial = \<lparr>projectData = Arr [], livePoolsData = [], cardIndex = 1\<rparr>"

text \<open>The array is sorted in place, so both states show the sorted one; its elements are objects.\<close>

definition home_answered :: "val \<Rightarrow> home \<Rightarrow> home" where
  "home_answered res h = (case member res ''data'' of
     Inl e \<Rightarrow> h
   | Inr (Arr xs) \<Rightarrow>
       (let ys = js_sort (\<lambda>a b. minus_cmp (to_number (opt_member a ''status'')) (to_number (opt_member b ''status''))) xs in
        h\<lparr>projectData := Arr ys, livePoolsData := take 3 ys\<rparr>)
   | Inr v \<Rightarrow> h\<lparr>projectData := v\<rparr>)"

definition carousel_tick :: "home \<Rightarrow> home" where
  "carousel_tick h = (let index = cardIndex h + 1 in h\<lparr>cardIndex := (if index > 3 then 1 else index)\<rparr>)"

definition card_clicked :: "nat \<Rightarrow> home \<Rightarrow> home" where
  "card_clicked index h = h\<lparr>cardIndex := index + 1\<rparr>"

definition mock_project :: val where
  "mock_project = Obj [(''id'', Num 1), (''name'', Str ''Project 1''), (''description'', Str ''Description 1''), (''img'', Str []),
     (''status'', Num 1), (''amount'', Str []), (''saleContractAddress'', Str []), (''tokenAddress'', Str []), (''paymentToken'', Str []),
     (''follower'', Num 2)]"

definition mockData :: "val list" where
  "mockData = [mock_project, mock_project]"

text \<open>The page then sorts the finished pools with a comparator that answers \<open>-1\<close> or \<open>0\<close>, never \<open>1\<close>, which is no order: the
  language leaves open where they end up.\<close>

definition live_pools :: "val list \<Rightarrow> val list" where
  "live_pools xs = filter (\<lambda>v. opt_member v ''status'' \<in> Num ` {-1, 0, 1, 2, 3, 4}) xs"

definition finished_pools :: "val list \<Rightarrow> val list" where
  "finished_pools xs = filter (\<lambda>v. opt_member v ''status'' = Num 5) xs"

text \<open>\<open>LivePools.tsx\<close>: the address a click leads to, if any; \<open>FinishedPools.tsx\<close>: the prices of a row.\<close>

definition onCardClick :: "val \<Rightarrow> (string \<times> val) option" where
  "onCardClick info = (if equals_num (opt_member info ''type'') (Some 0) then Some (''/project'', opt_member info ''id'') else None)"

definition finished_prices :: "obj \<Rightarrow> (js_error + string) \<times> (js_error + string)" where
  "finished_prices info = (toFixed (calTokenPriceInUsd (get ''tokenPriceInPT'' info)) 4,
     (case js_or (get ''currentPrice'' info) (Num 0) of Num x \<Rightarrow> toFixed (Some x) 4 | _ \<Rightarrow> Inl (TypeError ''toFixed is not a function'')))"

section \<open>ParticipateModal.tsx\<close>

record dialog =
  eth :: val
  bre :: val
  bre_max :: val

definition dialog_initial :: dialog where
  "dialog_initial = \<lparr>eth = Num 0, bre = Num 10, bre_max = Num 10\<rparr>"

text \<open>The product is one of doubles. From \<open>10\<^sup>2\<^sup>1\<close> on \<open>toFixed\<close> prints an exponent, for which the model has plain digits.\<close>

definition calEth :: "ethers \<Rightarrow> val \<Rightarrow> val \<Rightarrow> string" where
  "calEth U price breValue =
     (case toFixed (lift2 double_times (to_number (formatEther U price 18)) (to_number breValue)) 6 of Inr s \<Rightarrow> s | Inl e \<Rightarrow> [])"

definition allocation_effect :: "ethers \<Rightarrow> val \<Rightarrow> val \<Rightarrow> dialog \<Rightarrow> dialog" where
  "allocation_effect U price allocTop d =
     (if truthy_val allocTop then \<lparr>eth = Str (calEth U price (Num 10)), bre = Num 10, bre_max = Num 10\<rparr> else d)"

definition handleInputChange :: "ethers \<Rightarrow> val \<Rightarrow> val \<Rightarrow> dialog \<Rightarrow> dialog" where
  "handleInputChange U price v d = d\<lparr>bre := v, eth := Str (calEth U price v)\<rparr>"

definition handleOk :: "dialog \<Rightarrow> val" where
  "handleOk d = Obj [(''value'', bre d)]"

section \<open>HomeBanner.tsx and stake.tsx\<close>

definition chain_token :: "token_entry list \<Rightarrow> val \<Rightarrow> token_entry" where
  "chain_token ts ch = (case List.find (\<lambda>t. loose_eq (Num (of_nat (tok_chainId t))) (opt_member ch ''chainId'')) ts of
     Some t \<Rightarrow> t | None \<Rightarrow> ts ! 0)"

definition watch_params :: "val \<Rightarrow> string \<Rightarrow> string \<Rightarrow> val" where
  "watch_params tokenAddress symbolName img = Obj [(''type'', Str ''ERC20''), (''options'', Obj [(''address'', tokenAddress),
     (''symbol'', Str symbolName), (''decimals'', Num 18), (''image'', Str img)])]"

text \<open>The request is not awaited: what becomes of it is lost. \<open>has_ethereum\<close>: the page has a wallet.\<close>

definition stake_addToken :: "bool \<Rightarrow> wallet_env \<Rightarrow> val \<Rightarrow> string \<Rightarrow> (wallet_world, unit) io" where
  "stake_addToken has_ethereum E tokenAddress symbolName =
     (if has_ethereum then floating (request E ''wallet_watchAsset'' (watch_params tokenAddress symbolName tokenImage)) else ret ())"

definition banner_addToken :: "bool \<Rightarrow> wallet_env \<Rightarrow> val \<Rightarrow> val \<Rightarrow> string \<Rightarrow> (wallet_world, unit) io" where
  "banner_addToken has_ethereum E ch tokenAddress symbolName =
     (if \<not> truthy_val ch then notice False ''connect wallet and try again !''
      else if opt_member ch ''chainId'' \<noteq> Num (of_nat (tok_chainId (chain_token tokenInfos ch)))
      then notice False ''switch network and try again !''
      else if has_ethereum then floating (request E ''wallet_watchAsset'' (watch_params tokenAddress symbolName []))
      else ret ())"

definition claim_error :: "val \<Rightarrow> string" where
  "claim_error e = js_string (js_or (opt_member e ''reason'') (js_or (opt_member (opt_member e ''data'') ''message'')
     (js_or (opt_member e ''message'') (Str ''claim failed''))))"

text \<open>A warning is a notice like an error. There is no return after it.\<close>

definition handleClaim :: "wallet_env \<Rightarrow> val \<Rightarrow> val \<Rightarrow> (wallet_world, unit) io \<Rightarrow> (wallet_world, unit) io" where
  "handleClaim E airdropContract walletAddress claim =
     seqio (if \<not> truthy_val airdropContract \<or> \<not> truthy_val walletAddress then notice False ''connect wallet first'' else ret ())
       (catchio claim (\<lambda>e. notice False (claim_error (error_of E e))))"

section \<open>Hooks\<close>

text \<open>\<open>useThirdParty.tsx\<close> over its slice of the store, with the answer of the request.\<close>

definition third_dispatch :: "obj \<Rightarrow> (obj, unit) io" where
  "third_dispatch a s = (case third_party_reducer s a of Inl e \<Rightarrow> (Inl e, s) | Inr s' \<Rightarrow> (Inr (), s'))"

definition getBobaToUsd :: "js_error + val \<Rightarrow> (obj, unit) io" where
  "getBobaToUsd r = bindio (lift r) (\<lambda>v. bindio (lift (member v ''fiat'')) (\<lambda>f. bindio (lift (member f ''usd'')) (\<lambda>x.
     third_dispatch (setBobaToUsd x))))"

definition getEthToUsd :: "js_error + val \<Rightarrow> (obj, unit) io" where
  "getEthToUsd r = bindio (lift r) (\<lambda>v. bindio (lift (member v ''USD'')) (\<lambda>x. third_dispatch (setEthToUsd x)))"

definition getBreToUsd :: "js_error + val \<Rightarrow> (obj, unit) io" where
  "getBreToUsd r = bindio (lift r) (\<lambda>v. bindio (lift (member v ''data'')) (\<lambda>x.
     third_dispatch (setBreToUsd (num_val (to_number x)))))"

text \<open>\<open>useResponsive.ts\<close>: the page is mounted and resized to a width. A width of 769 is neither.\<close>

definition screen :: "bool \<Rightarrow> val" where
  "screen desktop = Obj [(''isDesktopOrLaptop'', Bool desktop), (''isBigScreen'', Bool False), (''isTabletOrMobile'', Bool (\<not> desktop))]"

definition set_media :: "rat \<Rightarrow> obj \<Rightarrow> js_error + obj" where
  "set_media width s =
     (case (if width > 769 then media_query_reducer s (setMediaQuery (screen True)) else Inr s) of Inl e \<Rightarrow> Inl e
      | Inr s' \<Rightarrow> if width \<le> 768 then media_query_reducer s' (setMediaQuery (screen False)) else Inr s')"

text \<open>\<open>usePageLoading.tsx\<close>: \<open>JSON.stringify\<close> leaves out undefined members. No branch answers true.\<close>

definition isNotEmpty :: "val \<Rightarrow> val" where
  "isNotEmpty v = (if v = Undef then Bool False
     else if (case v of Obj ob \<Rightarrow> list_all (\<lambda>(k, x). x = Undef) ob | _ \<Rightarrow> False) then Bool False else Undef)"

definition waitForAllToLoad :: "val list \<Rightarrow> obj \<Rightarrow> js_error + obj" where
  "waitForAllToLoad data g = (if list_all (\<lambda>v. truthy_val (isNotEmpty v)) data
     then global_reducer g (setPageLoading (Bool False)) else Inr g)"

text \<open>\<open>useAsync.ts\<close>: a call of \<open>execute\<close> and what becomes of one of the promises under way.\<close>

record async_state =
  async_data :: val
  async_loading :: bool
  async_error :: val
  under_way :: nat

datatype async_event = Execute | Settled "val + val"

fun async_step :: "async_event \<Rightarrow> async_state \<Rightarrow> async_state" where
  "async_step Execute s = s\<lparr>async_loading := True, async_data := Null, async_error := Null, under_way := under_way s + 1\<rparr>"
| "async_step (Settled (Inr x)) s = s\<lparr>async_data := x, async_loading := False, under_way := under_way s - 1\<rparr>"
| "async_step (Settled (Inl e)) s = s\<lparr>async_error := e, async_loading := False, under_way := under_way s - 1\<rparr>"

section \<open>_app.tsx, the header and its buttons\<close>

text \<open>The handlers of the router are registered by every rendering; a rendering follows when the state changes.\<close>

record app_state =
  routeLoading :: bool
  start_handlers :: nat
  complete_handlers :: nat
  scrollTop :: rat

definition app_rendered :: "app_state \<Rightarrow> app_state" where
  "app_rendered s = s\<lparr>start_handlers := start_handlers s + 1, complete_handlers := complete_handlers s + 1\<rparr>"

definition route_start :: "app_state \<Rightarrow> app_state" where
  "route_start s = (if start_handlers s = 0 \<or> routeLoading s then s else app_rendered (s\<lparr>routeLoading := True\<rparr>))"

definition route_complete :: "app_state \<Rightarrow> app_state" where
  "route_complete s = (if complete_handlers s = 0 then s
     else let s' = s\<lparr>scrollTop := 0\<rparr> in if routeLoading s then app_rendered (s'\<lparr>routeLoading := False\<rparr>) else s')"

definition store_referral :: "string option \<Rightarrow> (string \<rightharpoonup> string) \<Rightarrow> (string \<rightharpoonup> string)" where
  "store_referral aff ls = (case aff of Some a \<Rightarrow> if a \<noteq> [] then ls(''referral'' \<mapsto> a) else ls | None \<Rightarrow> ls)"

definition header_paths :: "string list" where
  "header_paths = [''/'', ''/stake'', ''/farming'', ''/pools'', ''/project'', ''/bridge'']"

definition activeTabIndex :: "string \<Rightarrow> int" where
  "activeTabIndex pathname = (let i = length (takeWhile (\<lambda>p. p \<noteq> pathname) header_paths) in
     if i < length header_paths then int i else - 1)"

definition active_button :: "string \<Rightarrow> nat \<Rightarrow> bool" where
  "active_button pathname button = (let a = activeTabIndex pathname in a = int button \<or> button = 3 \<and> a = 4)"

definition chainMeta :: "val list \<Rightarrow> val \<Rightarrow> val" where
  "chainMeta validChains ch = (case List.find (\<lambda>i. loose_eq (opt_member i ''chainId'') (opt_member ch ''chainId'')) validChains of
     Some i \<Rightarrow> i | None \<Rightarrow> Undef)"

definition network_text :: "val list \<Rightarrow> val \<Rightarrow> string" where
  "network_text validChains ch = js_string (js_or (opt_member (chainMeta validChains ch) ''name'') (Str ''Switch Network''))"

text \<open>\<open>Button.Basic.tsx\<close>: a loading or disabled button does nothing.\<close>

definition basic_click :: "bool \<Rightarrow> bool \<Rightarrow> ('w, unit) io option \<Rightarrow> ('w, unit) io" where
  "basic_click loading disabled onClick = (if loading \<or> disabled then ret () else case onClick of None \<Rightarrow> ret () | Some m \<Rightarrow> m)"

text \<open>\<open>util/web3React.ts\<close>: which of the three ways signs, and what it is asked; the message is text of ASCII characters.\<close>

datatype sign_request = Bnb_Sign string string | Personal_Sign string string | Sign_Message string string

definition hex_text :: "string \<Rightarrow> string" where
  "hex_text s = ''0x'' @ concat (map (\<lambda>c. byte_hex (Some (of_char c))) s)"

definition signMessage :: "bool \<Rightarrow> bool \<Rightarrow> bool \<Rightarrow> string \<Rightarrow> string \<Rightarrow> sign_request" where
  "signMessage has_binance is_bsc is_wc account text =
     (if has_binance \<and> is_bsc then Bnb_Sign account text
      else if is_wc then Personal_Sign (hex_text text) account
      else Sign_Message account text)"

section \<open>A card in time\<close>

text \<open>A finish of the countdown is due when the deadline it counts to has come.\<close>

definition due :: "rat \<Rightarrow> val \<times> val option \<Rightarrow> bool" where
  "due t timer = (case snd timer of Some d \<Rightarrow> (case to_number d of Some x \<Rightarrow> x \<le> t | None \<Rightarrow> False) | None \<Rightarrow> False)"

fun finishes :: "(pool_card \<Rightarrow> val \<times> val option) \<Rightarrow> rat list \<Rightarrow> pool_card \<Rightarrow> pool_card option" where
  "finishes timer [] c = Some c"
| "finishes timer (t # ts) c = (if due t (timer c) then finishes timer ts (card_finished c) else None)"

lemma at_key_nat: "i < length xs \<Longrightarrow> i < 4294967295 \<Longrightarrow> at_key xs (Num (of_nat i)) = xs ! i"
  unfolding at_key_def js_string_nat by (simp add: Let_def array_index_def read_show_nat)

lemma card_finished_nat: "card_status c = Num (of_nat i) \<Longrightarrow> card_status (card_finished c) = Num (of_nat (Suc i))"
  by (simp add: card_finished_def js_plus_def lift2_def add.commute)

lemma card_info_finished [simp]: "card_info (card_finished c) = card_info c"
  by (simp add: card_finished_def)

lemma deadlines_length [simp]: "length (deadlines info) = 5"
  by (simp add: deadlines_def)

lemma counting_nat: "card_status c = Num (of_nat i) \<Longrightarrow> counting c \<longleftrightarrow> i < 5"
proof -
  assume "card_status c = Num (of_nat i)"
  moreover have "of_nat i < (5 :: rat) \<longleftrightarrow> i < 5" using of_nat_less_iff [of i 5, where 'a = rat] by simp
  moreover have "(-1 :: rat) < of_nat i" by (rule less_le_trans [of _ 0]) simp_all
  ultimately show ?thesis by (simp add: counting_def greater_def)
qed

lemma pool_timer_nat:
  "card_status c = Num (of_nat i) \<Longrightarrow> i < 5 \<Longrightarrow> snd (pool_timer c) = Some (deadlines (card_info c) ! i)"
  by (simp add: pool_timer_def counting_nat at_key_nat)

lemma nth_number: "map to_number xs = map Some T \<Longrightarrow> i < length xs \<Longrightarrow> to_number (xs ! i) = Some (T ! i)"
  by (metis length_map nth_map)

lemma late_none:
  assumes "sorted T" and "k < length T" and "now < T ! k"
  shows "filter (\<lambda>t. t \<le> now) (drop k T) = []"
proof -
  have "T ! k \<le> x" if "x \<in> set (drop k T)" for x
    using that sorted_nth_mono [OF assms(1)] by (auto simp: in_set_conv_nth)
  with assms(3) show ?thesis by (fastforce simp: filter_empty_conv)
qed

lemma finishes_reached:
  assumes "finishes pool_timer ts c = Some c'" and "card_status c = Num (of_nat i)" and "i \<le> 5"
    and "map to_number (deadlines (card_info c)) = map Some T" and "\<forall>k < i. T ! k \<le> now" and "\<forall>t \<in> set ts. t \<le> now"
  shows "\<exists>j. card_info c' = card_info c \<and> card_status c' = Num (of_nat j) \<and> j \<le> 5 \<and> (\<forall>k < j. T ! k \<le> now)"
  using assms
proof (induction ts arbitrary: c i)
  case (Cons t ts)
  from Cons.prems(1) have d: "due t (pool_timer c)" "finishes pool_timer ts (card_finished c) = Some c'"
    by (simp_all split: if_splits)
  have i: "i < 5"
    using d(1) counting_nat [OF Cons.prems(2)] by (auto simp: due_def pool_timer_def split: if_splits)
  have "to_number (deadlines (card_info c) ! i) = Some (T ! i)"
    using nth_number [OF Cons.prems(4)] i by simp
  with d(1) Cons.prems(6) have "T ! i \<le> now" by (auto simp: due_def pool_timer_nat [OF Cons.prems(2) i])
  with Cons.prems(5) have "\<forall>k < Suc i. T ! k \<le> now" by (auto simp: less_Suc_eq)
  from Cons.IH [OF d(2) card_finished_nat [OF Cons.prems(2)] _ _ this] i Cons.prems(4,6) show ?case by simp
qed auto

lemma reached_count:
  assumes "sorted T" and "\<forall>k < j. T ! k \<le> now" and "j \<le> length T"
  shows "j \<le> length (filter (\<lambda>t. t \<le> now) T) \<and> (j < length T \<and> now < T ! j \<longrightarrow> length (filter (\<lambda>t. t \<le> now) T) = j) \<and>
    (j = length T \<longrightarrow> length (filter (\<lambda>t. t \<le> now) T) = j)"
proof -
  have a: "filter (\<lambda>t. t \<le> now) (take j T) = take j T"
    using assms(2,3) by (auto simp: filter_id_conv in_set_conv_nth)
  have e: "filter (\<lambda>t. t \<le> now) T = take j T @ filter (\<lambda>t. t \<le> now) (drop j T)"
    using a by (metis append_take_drop_id filter_append)
  show ?thesis using e assms(3) late_none [OF assms(1), of j now] by auto
qed

lemma count_reached:
  assumes "sorted T" and "i = length (filter (\<lambda>t. t \<le> now) T)"
  shows "\<forall>k < i. T ! k \<le> now"
proof (intro allI impI, rule ccontr)
  fix k assume k: "k < i" "\<not> T ! k \<le> now"
  have "i \<le> length T" unfolding assms(2) by (rule length_filter_le)
  with k have "filter (\<lambda>t. t \<le> now) (drop k T) = []" using late_none [OF assms(1), of k now] by simp
  then have "filter (\<lambda>t. t \<le> now) T = filter (\<lambda>t. t \<le> now) (take k T)"
    by (metis append_Nil2 append_take_drop_id filter_append)
  then have "i \<le> k" using assms(2) length_filter_le [of "\<lambda>t. t \<le> now" "take k T"] by simp
  with k(1) show False by simp
qed

definition info_milestones :: "obj \<Rightarrow> mile_stones" where
  "info_milestones info = \<lparr>registrationTimeStarts = get ''registrationTimeStarts'' info,
     registrationTimeEnds = get ''registrationTimeEnds'' info, saleStart = get ''saleStart'' info, saleEnd = get ''saleEnd'' info,
     unlock = get ''unlockTime'' info\<rparr>"

lemma mile_list_info: "mile_list (info_milestones info) = deadlines info"
  by (simp add: mile_list_def info_milestones_def deadlines_def)

section \<open>Properties\<close>

text \<open>C38: a card of the pool list keeps in step with the sale: given its status when it was loaded, after any finishes of its countdown,
  each when its deadline had come, it is never ahead of the status the page of the project computes, and while the deadline
  it counts to is ahead it shows exactly that status.\<close>

theorem card_in_step:
  assumes "map to_number (deadlines info) = map Some T" and "sorted T"
    and "judgePoolStatus t0 (info_milestones info) = Some (int i)" and "get ''status'' info = Num (of_nat i)"
    and "finishes pool_timer ts (with_info info new_card) = Some c" and "\<forall>t \<in> set ts. t \<le> now" and "t0 \<le> now"
  shows "\<exists>j s. card_status c = Num (of_nat j) \<and> judgePoolStatus now (info_milestones info) = Some (int s) \<and> j \<le> s \<and>
    (\<not> due now (pool_timer c) \<longrightarrow> j = s)"
proof -
  have T: "length T = 5" using arg_cong [OF assms(1), of length] by simp
  have i: "i = length (filter (\<lambda>t. t \<le> t0) T)"
    using judge_counts [of "info_milestones info" T t0] assms(1-3) by (simp add: mile_list_info)
  have r: "\<forall>k < i. T ! k \<le> now" using count_reached [OF assms(2) i] assms(7) by force
  have s: "card_status (with_info info new_card) = Num (of_nat i)" "card_info (with_info info new_card) = info"
    using assms(4) by (simp_all add: with_info_def)
  have "i \<le> 5" using i T length_filter_le [of "\<lambda>t. t \<le> t0" T] by simp
  from finishes_reached [OF assms(5) s(1) this _ r assms(6)] s(2) assms(1)
  obtain j where j: "card_info c = info" "card_status c = Num (of_nat j)" "j \<le> 5" "\<forall>k < j. T ! k \<le> now" by auto
  let ?s = "length (filter (\<lambda>t. t \<le> now) T)"
  have m: "judgePoolStatus now (info_milestones info) = Some (int ?s)"
    using judge_counts [of "info_milestones info" T now] assms(1,2) by (simp add: mile_list_info)
  have rc: "j \<le> ?s" "j < 5 \<Longrightarrow> now < T ! j \<Longrightarrow> ?s = j" "j = 5 \<Longrightarrow> ?s = j"
    using reached_count [OF assms(2) j(4)] j(3) T by auto
  have "j = ?s" if n: "\<not> due now (pool_timer c)"
  proof (cases "j = 5")
    case False
    then have l: "j < 5" using j(3) by simp
    have "to_number (deadlines info ! j) = Some (T ! j)"
      using nth_number [OF assms(1)] l by simp
    with n have "now < T ! j" by (auto simp: due_def pool_timer_nat [OF j(2) l] j(1))
    with rc(2) l show ?thesis by simp
  qed (use rc(3) in simp)
  with j(2) m rc(1) show ?thesis by blast
qed

definition demo_pool :: obj where
  "demo_pool = [(''status'', Num 1), (''registrationTimeStarts'', Num 10), (''registrationTimeEnds'', Num 20), (''saleStart'', Num 30),
     (''saleEnd'', Num 40), (''unlockTime'', Num 50)]"

lemma demo_finishes: "finishes pool_timer [20, 31] (with_info demo_pool new_card) = Some \<lparr>card_info = demo_pool, card_status = Num 3\<rparr>"
  using pool_timer_nat [of "with_info demo_pool new_card" 1] pool_timer_nat [of "card_finished (with_info demo_pool new_card)" 2]
  by (simp add: due_def demo_pool_def with_info_def new_card_def card_finished_def js_plus_def lift2_def deadlines_def)

theorem card_in_step_witness:
  "\<exists>j s. card_status \<lparr>card_info = demo_pool, card_status = Num 3\<rparr> = Num (of_nat j) \<and>
    judgePoolStatus 35 (info_milestones demo_pool) = Some (int s) \<and> j \<le> s \<and>
    (\<not> due 35 (pool_timer \<lparr>card_info = demo_pool, card_status = Num 3\<rparr>) \<longrightarrow> j = s)"
  by (rule card_in_step [of demo_pool "[10, 20, 30, 40, 50]" 15 1 "[20, 31]", OF _ _ _ _ demo_finishes])
    (simp_all add: demo_pool_def deadlines_def info_milestones_def judgePoolStatus_def before_def greater_def)

text \<open>The large card takes the deadline from the status it was loaded with: after the first finish it names the next phase and counts to
  a deadline that has passed.\<close>

theorem live_card_counts_passed:
  assumes "get ''status'' info = Num (of_nat i)" and "i < 4" and "due t (live_timer (with_info info new_card))" and "t \<le> now"
  shows "fst (live_timer (card_finished (with_info info new_card))) = card_labels ! Suc i \<and>
    due now (live_timer (card_finished (with_info info new_card)))"
proof -
  let ?c = "with_info info new_card"
  have s: "card_status ?c = Num (of_nat i)" "card_info ?c = info" using assms(1) by (simp_all add: with_info_def)
  have "at_key card_labels (card_status (card_finished ?c)) = card_labels ! Suc i"
    unfolding card_finished_nat [OF s(1)] by (rule at_key_nat) (use assms(2) in \<open>simp_all add: card_labels_def\<close>)
  moreover have "truthy_val (card_labels ! Suc i)"
    using assms(2) by (auto simp: card_labels_def less_Suc_eq numeral_eq_Suc)
  moreover have "counting ?c" "counting (card_finished ?c)"
    using counting_nat [OF s(1)] counting_nat [OF card_finished_nat [OF s(1)]] assms(2) by simp_all
  ultimately show ?thesis
    using assms(3,4) s(2) by (auto simp: live_timer_def due_def js_or_def split: option.splits)
qed

theorem live_card_counts_passed_witness:
  "fst (live_timer (card_finished (with_info demo_pool new_card))) = card_labels ! Suc 1 \<and>
    due 30 (live_timer (card_finished (with_info demo_pool new_card)))"
proof (rule live_card_counts_passed [where t = 25])
  have s: "card_status (with_info demo_pool new_card) = Num (of_nat 1)" by (simp add: with_info_def demo_pool_def)
  show "due 25 (live_timer (with_info demo_pool new_card))"
    using counting_nat [OF s] at_key_nat [of 1 "deadlines demo_pool"]
    by (simp add: due_def live_timer_def with_info_def demo_pool_def deadlines_def)
qed (simp_all add: demo_pool_def)

text \<open>For whole numbers of tokens the bar shows five quarters of the share sold, rounded to two decimals and at most 100, so
  it is full when four fifths are sold.\<close>

theorem progress_full_early:
  assumes "units U" and "get ''totalTokensSold'' info = big (int a * 10 ^ 18)"
    and "get ''amountOfTokensToSell'' info = big (int b * 10 ^ 18)" and "0 < b" and "a < 2 ^ 53" and "b < 2 ^ 53"
  shows "progress U info = Some (rounded 2 (min 100 (of_nat a * 125 / of_nat b))) \<and>
    (4 * b \<le> 5 * a \<longrightarrow> progress U info = Some 100)"
proof -
  have f: "formatEther U (big (int n * 10 ^ 18)) 2 = Num (of_nat n)" if "n < 2 ^ 53" for n
  proof -
    have "rounded 2 (of_nat n) = of_nat n"
    proof -
      have "\<lfloor>of_nat n * 10 ^ 2 + 1 / 2 :: rat\<rfloor> = int n * 100" by (rule floor_unique) simp_all
      then show ?thesis by (simp add: rounded_def)
    qed
    then show ?thesis using units.formatEther_big [OF assms(1), of "int n * 10 ^ 18" 2] to_double_nat [OF that] by simp
  qed
  let ?p = "min 100 (of_nat a * 125 / of_nat b) :: rat"
  have nn: "\<not> of_nat a * 125 / of_nat b < (0 :: rat)" by (simp add: not_less)
  have p: "0 \<le> ?p" by simp
  have "clamped (Some (of_nat a)) (Some (of_nat b)) = Some ?p"
    using assms(4) nn by (auto simp: clamped_def Let_def min_def)
  then have "progress U info = Some (rounded 2 ?p)"
    using toFixed_value [OF p, of 2] f [OF assms(5)] f [OF assms(6)] by (auto simp: progress_def assms(2,3) js_or_def big_def)
  moreover have "?p = 100" if "4 * b \<le> 5 * a"
  proof -
    have "of_nat (100 * b) \<le> (of_nat (125 * a) :: rat)" by (simp only: of_nat_le_iff) (use that in simp)
    then have "100 * of_nat b \<le> (of_nat a * 125 :: rat)" by simp
    then have "100 \<le> (of_nat a * 125 / of_nat b :: rat)" using assms(4) by (simp add: pos_le_divide_eq)
    then show ?thesis by (simp add: min_def)
  qed
  moreover have "rounded 2 100 = 100"
  proof -
    have "\<lfloor>100 * 10 ^ 2 + 1 / 2 :: rat\<rfloor> = 10000" by (rule floor_unique) simp_all
    then show ?thesis by (simp add: rounded_def)
  qed
  ultimately show ?thesis by simp
qed

theorem progress_full_early_witness:
  "progress plain_units [(''totalTokensSold'', big (int 8 * 10 ^ 18)), (''amountOfTokensToSell'', big (int 10 * 10 ^ 18))] = Some 100"
  by (rule progress_full_early [OF plain.units_axioms, where a = 8 and b = 10, THEN conjunct2, THEN mp]) simp_all

lemma sum_of_errors:
  "\<bar>b - t\<bar> \<le> t / 2 ^ 52 + t / 2 ^ 106 + (c + t / 2 ^ 52) \<Longrightarrow> 0 \<le> t \<Longrightarrow> \<bar>a - b\<bar> \<le> h \<Longrightarrow> \<bar>a - t\<bar> \<le> h + t / 2 ^ 50 + (c :: rat)"
  by simp

text \<open>C39: for a whole number of tokens the dialog of the purchase shows what the page of the project will pay: the payment that
  \<open>project.tsx\<close> computes from what the dialog hands over is the number shown, to half a unit of the sixth decimal and what
  doubles lose on the way: a part in \<open>2\<^sup>5\<^sup>0\<close> of the payment and a base unit for each token. The price of a token and the
  payment are below \<open>10\<^sup>2\<^sup>0\<close> ether, where \<open>toFixed\<close> prints plain digits.\<close>

theorem dialog_shows_payment:
  assumes "units U" and "get ''tokenPriceInPT'' ob = big n" and "0 \<le> n" and "k < 2 ^ 31" and "n < 10 ^ 38" and "n * int k < 10 ^ 38"
  shows "let d' = handleInputChange U (big n) (Str (show_nat k)) d in
    paymentAmount U (Obj ob) (handleOk d') = Inr (n * int k) \<and>
    (\<exists>s y. eth d' = Str s \<and> number_of_string s = Some y \<and>
      \<bar>y - of_int (n * int k) / 10 ^ 18\<bar> \<le> 1 / (2 * 10 ^ 6) + of_int (n * int k) / 10 ^ 18 / 2 ^ 50 + of_nat k / 10 ^ 18)"
proof -
  let ?x = "of_int n / 10 ^ 18 :: rat" and ?t = "of_int (n * int k) / 10 ^ 18 :: rat"
  let ?p = "rounded 18 (to_double ?x)"
  have k: "number_of_string (show_nat k) = Some (of_nat k)"
    using to_number_js_string [of "of_nat k"] by (simp only: js_string_nat) (simp add: decimal_Ints)
  have f: "formatEther U (big n) 18 = Num ?p" using units.formatEther_big [OF assms(1,3), of 18] by simp
  have i: "toInt32 (Some (of_nat k)) = int k"
    using assms(4) by (simp add: toInt32_def signed_of_nat signed_take_bit_int_eq_self)
  have x: "0 \<le> ?x" and t: "?t = ?x * of_nat k" using assms(3) by simp_all
  have p: "0 \<le> ?p" using to_double_nonneg [OF x] by (simp add: rounded_def)
  have "\<bar>to_double ?x - ?x\<bar> \<le> ?x / 2 ^ 53" using to_double_close [of ?x] x by (simp only: abs_of_nonneg)
  then have "\<bar>?p - ?x\<bar> \<le> 1 / (2 * 10 ^ 18) + ?x / 2 ^ 53"
    using rounded_close [of 18 "to_double ?x"] by linarith
  from double_times_close [OF p this x, of k] assms(4)
  have c: "\<bar>double_times ?p (of_nat k) - ?t\<bar> \<le> ?t / 2 ^ 52 + ?t / 2 ^ 106 + 2 * (1 / (2 * 10 ^ 18) + ?x / 2 ^ 53) * of_nat k"
    unfolding t by simp
  have "0 \<le> double_times ?p (of_nat k)" unfolding double_times_def
    using p by (intro to_double_nonneg mult_nonneg_nonneg) simp_all
  from toFixed_value [OF this, of 6] obtain s where
    s: "toFixed (Some (double_times ?p (of_nat k))) 6 = Inr s" "number_of_string s = Some (rounded 6 (double_times ?p (of_nat k)))"
    by auto
  have "eth (handleInputChange U (big n) (Str (show_nat k)) d) = Str s"
    by (simp add: handleInputChange_def calEth_def f k lift2_def s(1) [simplified])
  moreover have "paymentAmount U (Obj ob) (handleOk (handleInputChange U (big n) (Str (show_nat k)) d)) = Inr (n * int k)"
    by (simp add: paymentAmount_def token_price_def assms(2) handleOk_def handleInputChange_def k i)
  moreover have "\<bar>rounded 6 (double_times ?p (of_nat k)) - ?t\<bar> \<le> 1 / (2 * 10 ^ 6) + ?t / 2 ^ 50 + of_nat k / 10 ^ 18"
  proof -
    have "2 * (1 / (2 * 10 ^ 18) + ?x / 2 ^ 53) * of_nat k = of_nat k / 10 ^ 18 + ?t / 2 ^ 52"
      unfolding t by (simp add: algebra_simps)
    moreover have "0 \<le> ?t" unfolding t using x by simp
    ultimately show ?thesis using sum_of_errors [OF _ _ rounded_close] c by metis
  qed
  ultimately show ?thesis using s(2) by (simp add: Let_def)
qed

theorem dialog_shows_payment_witness:
  "let d' = handleInputChange plain_units (big (5 * 10 ^ 14)) (Str (show_nat 40)) dialog_initial in
    paymentAmount plain_units (Obj [(''tokenPriceInPT'', big (5 * 10 ^ 14))]) (handleOk d') = Inr (5 * 10 ^ 14 * int 40) \<and>
    (\<exists>s y. eth d' = Str s \<and> number_of_string s = Some y \<and>
      \<bar>y - of_int (5 * 10 ^ 14 * int 40) / 10 ^ 18\<bar> \<le> 1 / (2 * 10 ^ 6) + of_int (5 * 10 ^ 14 * int 40) / 10 ^ 18 / 2 ^ 50 + of_nat 40 / 10 ^ 18)"
  by (rule dialog_shows_payment [OF plain.units_axioms]) simp_all

section \<open>The other parts\<close>

text \<open>The carousel shows one of its three places, whatever is clicked.\<close>

lemma carousel_in_range:
  "cardIndex h \<in> {1, 2, 3} \<Longrightarrow> cardIndex (carousel_tick h) \<in> {1, 2, 3}"
  "index < length (livePoolsData h) \<Longrightarrow> length (livePoolsData h) \<le> 3 \<Longrightarrow> cardIndex (card_clicked index h) \<in> {1, 2, 3}"
  by (auto simp: carousel_tick_def card_clicked_def Let_def)

lemma home_shows_three: "length (livePoolsData h) \<le> 3 \<Longrightarrow> length (livePoolsData (home_answered res h)) \<le> 3"
  by (auto simp: home_answered_def Let_def split: sum.splits val.splits)

text \<open>The page of the pools shows two made-up projects, and clicking them leads nowhere.\<close>

theorem pools_page_is_a_mock:
  "live_pools mockData = mockData \<and> finished_pools mockData = [] \<and> (\<forall>v \<in> set mockData. onCardClick v = None)"
  by (simp add: live_pools_def finished_pools_def mockData_def mock_project_def opt_member_def onCardClick_def equals_num_def)

text \<open>What waits for all data to load waits for ever, but for no data.\<close>

theorem loading_never_ends: "waitForAllToLoad data g = (if data = [] then global_reducer g (setPageLoading (Bool False)) else Inr g)"
  by (cases data) (simp_all add: waitForAllToLoad_def isNotEmpty_def)

theorem width_769_is_neither: "set_media 769 media_query_initial = Inr media_query_initial"
  by (simp add: set_media_def)

text \<open>Two calls under way: the first answer ends the loading, and an error stays beside the data of a later answer.\<close>

theorem first_answer_ends_loading:
  "let s' = fold async_step [Execute, Execute, Settled (Inl e)] s in
    \<not> async_loading s' \<and> under_way s' = under_way s + 1 \<and> async_error (async_step (Settled (Inr x)) s') = e"
  by (simp add: Let_def)

text \<open>Every change of the route adds two handlers of each event.\<close>

lemma route_handlers:
  assumes "start_handlers s > 0" and "complete_handlers s > 0" and "\<not> routeLoading s"
  shows "let s' = ((\<lambda>s. route_complete (route_start s)) ^^ n) s in \<not> routeLoading s' \<and>
    start_handlers s' = start_handlers s + 2 * n \<and> complete_handlers s' = complete_handlers s + 2 * n"
  using assms by (induction n) (auto simp: route_start_def route_complete_def app_rendered_def Let_def)

text \<open>Without a wallet the warning is shown and the contract is called all the same.\<close>

lemma claim_without_wallet:
  assumes "\<not> truthy_val walletAddress" and "claim (w\<lparr>notices := notices w @ [(False, ''connect wallet first'')]\<rparr>) = (Inl e, w')"
  shows "handleClaim E c walletAddress claim w = (Inr (), w'\<lparr>notices := notices w' @ [(False, claim_error (error_of E e))]\<rparr>)"
  using assms by (simp add: handleClaim_def seqio_def bindio_def catchio_def notice_def)

end
