(* ===== verification/Market_Pages.thy ===== *)
theory Market_Pages
  imports Market_Orders Login_Modal Page_Env Nova_Util
begin

text \<open>
  The pages of the NFT marketplace (\<open>NFTMarketplace/frontend\<close>): \<open>app/activity/page.tsx\<close>, the list and the page of a collection
  under \<open>app/collections\<close> with \<open>components/collections-table.tsx\<close>, over the requests and the shared state of \<open>Market_Orders\<close>, and
  the addresses as they are shown. Texts outside ASCII are their UTF-8 bytes; chance and the clock are arguments.
\<close>

section \<open>app/activity/page.tsx\<close>

record collection_row =
  row_image :: val
  row_name :: val
  row_count :: nat
  row_address :: val

definition address_key :: "val \<Rightarrow> string" where
  "address_key act = js_string (opt_member act ''collection_address'')"

definition first_row :: "val \<Rightarrow> collection_row" where
  "first_row act = \<lparr>row_image = opt_member act ''collection_image_uri'', row_name = opt_member act ''collection_name'',
     row_count = 1, row_address = opt_member act ''collection_address''\<rparr>"

definition add_activity :: "val \<Rightarrow> (string \<times> collection_row) list \<Rightarrow> (string \<times> collection_row) list" where
  "add_activity act m = (let k = address_key act in
     AList.update k (case map_of m k of None \<Rightarrow> first_row act | Some r \<Rightarrow> r\<lparr>row_count := row_count r + 1\<rparr>) m)"

text \<open>An item that is no object ends the loop: the fields of \<open>null\<close> cannot be read, and nothing can be assigned to \<open>rarity\<close> of a string
  or a number.\<close>

definition has_fields :: "val \<Rightarrow> bool" where
  "has_fields v = (case v of Obj ob \<Rightarrow> True | Arr vs \<Rightarrow> True | _ \<Rightarrow> False)"

definition collection_rows :: "val list \<Rightarrow> collection_row list" where
  "collection_rows activities = own_values (fold add_activity activities [])"

definition sortCollections :: "val list \<Rightarrow> js_error + collection_row list" where
  "sortCollections activities =
     (if list_all has_fields activities then Inr (collection_rows activities)
      else Inl (TypeError ''Cannot read properties of null''))"

record rarity =
  rarity_name :: string
  rarity_color :: string
  probability :: rat

definition rarityLevels :: "rarity list" where
  "rarityLevels = [
     \<lparr>rarity_name = ''Common'', rarity_color = ''text-gray-400'', probability = 50\<rparr>,
     \<lparr>rarity_name = ''Uncommon'', rarity_color = ''text-green-400'', probability = 25\<rparr>,
     \<lparr>rarity_name = ''Rare'', rarity_color = ''text-blue-400'', probability = 15\<rparr>,
     \<lparr>rarity_name = ''Epic'', rarity_color = ''text-purple-400'', probability = 7\<rparr>,
     \<lparr>rarity_name = ''Legendary'', rarity_color = ''text-yellow-400'', probability = 5 / 2\<rparr>,
     \<lparr>rarity_name = ''Mythic'', rarity_color = ''text-red-400'', probability = 1 / 2\<rparr>]"

fun pick_rarity :: "rat \<Rightarrow> rat \<Rightarrow> rarity list \<Rightarrow> rarity option" where
  "pick_rarity random acc [] = None"
| "pick_rarity random acc (r # rs) = (if random \<le> acc + probability r then Some r else pick_rarity random (acc + probability r) rs)"

text \<open>\<open>chance\<close> is \<open>Math.random()\<close>.\<close>

definition getRandomRarity :: "rat \<Rightarrow> rarity" where
  "getRandomRarity chance = (case pick_rarity (chance * 100) 0 rarityLevels of Some r \<Rightarrow> r | None \<Rightarrow> rarityLevels ! 0)"

definition weiToEth :: "val \<Rightarrow> js_error + string" where
  "weiToEth wei =
     (if nullish wei then Inl (TypeError ''Cannot read properties of undefined'')
      else (case toFixed (map_option (\<lambda>x. x / 10 ^ 16) (number_of_string (js_string wei))) 2 of
        Inl e \<Rightarrow> Inl e | Inr s \<Rightarrow> Inr (s @ ''ETH'')))"

definition ago :: "string \<Rightarrow> string" where
  "ago u = u @ [CHR 0xE5, CHR 0x89, CHR 0x8D]"

text \<open>The line that would compute the seconds is commented out, so the name is that of the argument. Times are rational
  milliseconds and seconds.\<close>

definition formatTime :: "rat \<Rightarrow> rat \<Rightarrow> string" where
  "formatTime now secs =
     (let diff = now - secs * 1000; ds = \<lfloor>diff / (1000 * 60 * 60 * 24)\<rfloor>; hs = \<lfloor>diff / (1000 * 60 * 60)\<rfloor>;
          mins = \<lfloor>diff / (1000 * 60)\<rfloor> in
      if ds > 0 then show_int ds @ ago [CHR 0xE5, CHR 0xA4, CHR 0xA9]
      else if hs > 0 then show_int hs @ ago [CHR 0xE5, CHR 0xB0, CHR 0x8F, CHR 0xE6, CHR 0x97, CHR 0xB6]
      else if mins > 0 then show_int mins @ ago [CHR 0xE5, CHR 0x88, CHR 0x86, CHR 0xE9, CHR 0x92, CHR 0x9F]
      else js_string (Num secs) @ ago [CHR 0xE7, CHR 0xA7, CHR 0x92])"

record activity_page =
  ap_collections :: "collection_row list"
  ap_transactions :: "val list"
  ap_loading :: bool
  ap_requests :: "market_request list"

definition activity_filter :: val where
  "activity_filter = Obj [(''filter_ids'', Arr []), (''event_types'', Arr []), (''user_addresses'', Arr []),
     (''collection_addresses'', Arr []), (''page'', Num 1), (''page_size'', Num 50)]"

definition getActivity :: "(val \<Rightarrow> string) \<Rightarrow> activity_page \<Rightarrow> activity_page" where
  "getActivity json p = p\<lparr>ap_loading := True, ap_requests := ap_requests p @ [GetActivity json activity_filter]\<rparr>"

text \<open>A rejection, and an answer without a list of objects, leave the page loading. The random rarity of an item is \<open>rarities\<close>.\<close>

definition with_rarity :: "rarity \<Rightarrow> val \<Rightarrow> val" where
  "with_rarity r act = Obj (put ''rarity'' (Obj [(''name'', Str (rarity_name r)), (''color'', Str (rarity_color r)),
     (''probability'', Num (probability r))]) (entries act))"

definition activity_answered :: "(nat \<Rightarrow> rat) \<Rightarrow> js_error + val \<Rightarrow> activity_page \<Rightarrow> activity_page" where
  "activity_answered chances answer p =
     (case answer of Inl e \<Rightarrow> p
      | Inr res \<Rightarrow> (case member res ''result'' of
          Inr (Arr items) \<Rightarrow> (case sortCollections items of Inl e \<Rightarrow> p
            | Inr rows \<Rightarrow> p\<lparr>ap_collections := rows,
                ap_transactions := map (\<lambda>(i, v). with_rarity (getRandomRarity (chances i)) v) (List.enumerate 0 items), ap_loading := False\<rparr>)
        | _ \<Rightarrow> p))"

section \<open>app/collections\<close>

text \<open>\<open>encodeURIComponent\<close>\<close>

definition encodeURIComponent :: "string \<Rightarrow> string" where
  "encodeURIComponent s = concat (map (\<lambda>c. let n = (of_char c :: nat) in
     if name_char c \<or> c \<in> set ''.!~*()'' \<or> c = CHR 0x27 then [c] else if n < 128 then percent n
     else percent (192 + n div 64) @ percent (128 + n mod 64)) s)"

text \<open>The list asks for the ranking when it is mounted and stores the wallet once there is one.\<close>

definition ranking_request :: market_request where
  "ranking_request = GetCollections (Obj [(''limit'', Num 10), (''range'', Str ''1d'')])"

definition ranking_shown :: "val \<Rightarrow> val" where
  "ranking_shown res = (let r = opt_member res ''result'' in if truthy_val r then r else Arr [])"

definition wallet_effect :: "(val \<Rightarrow> string) \<Rightarrow> val \<Rightarrow> global_state \<Rightarrow> global_state" where
  "wallet_effect json address g = (if truthy_val address then setState json (rendered_state g) [(''walletAddress'', address)] g else g)"

text \<open>A click on a row: the state and the address the router goes to.\<close>

definition row_clicked :: "(val \<Rightarrow> string) \<Rightarrow> obj \<Rightarrow> global_state \<Rightarrow> global_state \<times> string" where
  "row_clicked json collection g =
     (setState json (rendered_state g) [(''chain_id'', get ''chain_id'' collection), (''collection_address'', get ''address'' collection)] g,
      ''/collections/'' @ encodeURIComponent (js_string (get ''address'' collection)))"

text \<open>The page of a collection: what it asks when it is mounted at a path, and the answer of the first request.\<close>

definition detail_request :: "string \<Rightarrow> obj \<Rightarrow> market_request" where
  "detail_request pathname state = GetCollectionDetail [(''address'', Str (after_last (CHR ''/'') pathname)), (''chain_id'', get ''chain_id'' state)]"

definition items_request :: "(val \<Rightarrow> string) \<Rightarrow> obj \<Rightarrow> market_request" where
  "items_request json state = GetCollectionItems json [(''address'', get ''collection_address'' state),
     (''filters'', Obj [(''sort'', Num 1), (''status'', Arr [Num 1, Num 2]), (''markets'', Arr []),
        (''user_address'', get ''user_address'' state), (''chain_id'', get ''chain_id'' state), (''page'', Num 1), (''page_size'', Num 20)])]"

definition collection_mounted :: "(val \<Rightarrow> string) \<Rightarrow> string \<Rightarrow> global_state \<Rightarrow> market_request list" where
  "collection_mounted json pathname g = [detail_request pathname (rendered_state g), items_request json (rendered_state g)]"

definition detail_answered :: "(val \<Rightarrow> string) \<Rightarrow> obj \<Rightarrow> val \<Rightarrow> global_state \<Rightarrow> js_error + global_state" where
  "detail_answered json state res g = (case member res ''result'' of Inl e \<Rightarrow> Inl e
     | Inr r \<Rightarrow> Inr (setState json state [(''collection'', r)] g))"

definition owner_share :: "obj \<Rightarrow> string" where
  "owner_share collection =
     (case (to_number (get ''owner_amount'' collection), to_number (get ''total_supply'' collection)) of
        (Some x, Some y) \<Rightarrow> (if y = 0 then (if x = 0 then ''NaN'' else if x > 0 then ''Infinity'' else ''-Infinity'')
          else (case toFixed (Some (x / y * 100)) 2 of Inr s \<Rightarrow> s | Inl e \<Rightarrow> []))
      | _ \<Rightarrow> ''NaN'') @ ''%''"

text \<open>The tab of the collections from the fragment of the address: the tab shown and the fragment pushed.\<close>

definition initial_tab :: "string \<Rightarrow> string \<times> string option" where
  "initial_tab hash = (let t = drop 1 hash in if t = [] then (''trending'', Some ''#trending'') else (t, None))"

definition handleTabClick :: "string \<Rightarrow> string \<times> string option" where
  "handleTabClick t = (t, Some (CHR ''#'' # t))"

section \<open>Addresses\<close>

text \<open>\<open>lib/utils.ts\<close> and the sidebar of the portfolio.\<close>

definition last_chars :: "nat \<Rightarrow> string \<Rightarrow> string" where
  "last_chars n s = drop (length s - n) s"

definition formatAddress :: "string \<Rightarrow> string" where
  "formatAddress s = take 6 s @ ''...'' @ last_chars 4 s"

definition sidebar_address :: "string option \<Rightarrow> string" where
  "sidebar_address a = (case a of None \<Rightarrow> ''0x0000****0000''
     | Some s \<Rightarrow> if s = [] then ''0x0000****0000'' else take 6 s @ ''***'' @ last_chars 6 s)"

section \<open>The collections of the activities\<close>

definition rows_of :: "val list \<Rightarrow> (string \<times> collection_row) list" where
  "rows_of acts = fold add_activity acts []"

lemma mset_own_values: "distinct (map fst m) \<Longrightarrow> mset (own_values m) = mset (map snd m)"
proof -
  assume d: "distinct (map fst m)"
  have "mset (own_values m) = image_mset (\<lambda>k. the (map_of m k)) (mset (own_keys m))" by (simp add: own_values_def)
  also have "\<dots> = image_mset (\<lambda>k. the (map_of m k)) (mset (map fst m))" by (simp only: mset_own_keys)
  also have "\<dots> = mset (map (\<lambda>(k, v). the (map_of m k)) m)" by (simp add: image_mset.compositionality comp_def case_prod_unfold)
  also have "map (\<lambda>(k, v). the (map_of m k)) m = map snd m" using d by (auto simp: map_of_is_SomeI)
  finally show ?thesis .
qed

text \<open>The counts are the occurrences of the keys.\<close>

definition counts :: "val list \<Rightarrow> string \<Rightarrow> nat" where
  "counts acts k = length (filter (\<lambda>v. address_key v = k) acts)"

lemma rows_of_snoc: "rows_of (acts @ [v]) = add_activity v (rows_of acts)"
  by (simp add: rows_of_def)

lemma rows_ok:
  "distinct (map fst (rows_of acts)) \<and>
   (\<forall>k. case map_of (rows_of acts) k of None \<Rightarrow> counts acts k = 0
      | Some r \<Rightarrow> js_string (row_address r) = k \<and> row_count r = counts acts k \<and> 0 < counts acts k)"
proof (induction acts rule: rev_induct)
  case (snoc v acts)
  then have d: "distinct (map fst (rows_of acts))"
    and m: "\<And>k. case map_of (rows_of acts) k of None \<Rightarrow> counts acts k = 0
      | Some r \<Rightarrow> js_string (row_address r) = k \<and> row_count r = counts acts k \<and> 0 < counts acts k" by auto
  have "case map_of (rows_of (acts @ [v])) k of None \<Rightarrow> counts (acts @ [v]) k = 0
      | Some r \<Rightarrow> js_string (row_address r) = k \<and> row_count r = counts (acts @ [v]) k \<and> 0 < counts (acts @ [v]) k" for k
    using m [of k] by (auto simp: rows_of_snoc add_activity_def Let_def AList.update_conv' counts_def first_row_def address_key_def
        split: option.splits)
  then show ?case using d by (simp add: rows_of_snoc add_activity_def Let_def AList.distinct_update)
qed (simp add: rows_of_def counts_def)

lemma sum_counts: "finite K \<Longrightarrow> address_key ` set acts \<subseteq> K \<Longrightarrow> (\<Sum>k \<in> K. counts acts k) = length acts"
proof (induction acts)
  case (Cons v acts)
  have "counts (v # acts) k = counts acts k + (if k = address_key v then 1 else 0)" for k by (simp add: counts_def)
  then have "(\<Sum>k \<in> K. counts (v # acts) k) = (\<Sum>k \<in> K. counts acts k) + (\<Sum>k \<in> K. if k = address_key v then 1 else 0)"
    by (simp add: sum.distrib)
  then show ?case using Cons by simp
qed (simp add: counts_def)

section \<open>Properties\<close>

lemma rows_counted:
  "(\<forall>r \<in> set (collection_rows acts). row_count r = length (filter (\<lambda>v. address_key v = js_string (row_address r)) acts) \<and> 0 < row_count r) \<and>
   distinct (map (js_string \<circ> row_address) (collection_rows acts)) \<and>
   (js_string \<circ> row_address) ` set (collection_rows acts) = address_key ` set acts \<and>
   sum_list (map row_count (collection_rows acts)) = length acts"
proof -
  let ?m = "rows_of acts"
  have d: "distinct (map fst ?m)" using rows_ok by blast
  have r: "js_string (row_address x) = k \<and> row_count x = counts acts k \<and> 0 < counts acts k" if "(k, x) \<in> set ?m" for k x
    using rows_ok [of acts] map_of_is_SomeI [OF d that] by (auto split: option.splits dest: spec [of _ k])
  have s: "mset (collection_rows acts) = mset (map snd ?m)"
    using mset_own_values [OF d] by (simp add: collection_rows_def rows_of_def)
  have set: "set (collection_rows acts) = snd ` set ?m" using mset_eq_setD [OF s] by simp
  have keys: "map (js_string \<circ> row_address) (map snd ?m) = map fst ?m" using r by auto
  have dom: "fst ` set ?m = address_key ` set acts"
  proof -
    have i: "k \<in> fst ` set ?m \<longleftrightarrow> 0 < counts acts k" for k
    proof (cases "map_of ?m k")
      case None
      then have "counts acts k = 0" using conjunct2 [OF rows_ok, THEN spec, of acts k] by simp
      with None show ?thesis by (simp add: map_of_eq_None_iff)
    next
      case (Some x)
      then show ?thesis using r [OF map_of_SomeD [OF Some]] map_of_SomeD [OF Some] by force
    qed
    have c: "0 < counts acts k \<longleftrightarrow> k \<in> address_key ` set acts" for k by (auto simp: counts_def filter_empty_conv)
    show ?thesis by (intro set_eqI) (simp only: i c)
  qed
  have "distinct (map (js_string \<circ> row_address) (collection_rows acts))"
    using d keys s by (metis mset_eq_imp_distinct_iff mset_map)
  moreover have "sum_list (map row_count (collection_rows acts)) = length acts"
  proof -
    have "sum_list (map row_count (collection_rows acts)) = sum_list (map row_count (map snd ?m))"
      using s by (metis mset_map sum_mset_sum_list)
    also have "map row_count (map snd ?m) = map (counts acts) (map fst ?m)" using r by auto
    also have "sum_list \<dots> = (\<Sum>k \<in> fst ` set ?m. counts acts k)"
      using sum_list_distinct_conv_sum_set [OF d, of "counts acts"] by (simp only: set_map)
    finally show ?thesis using sum_counts [of "fst ` set ?m" acts] dom by simp
  qed
  moreover have "(js_string \<circ> row_address) ` set (collection_rows acts) = address_key ` set acts"
    using arg_cong [OF keys, of set] dom by (simp add: set image_image)
  ultimately show ?thesis using r set by (auto simp: counts_def)
qed

text \<open>C40: the collections beside the activities: unless an item is no object, which throws, there is one row for every address that
  occurs, with the number of its activities, and the numbers add up to the number of the activities.\<close>

theorem collections_counted:
  "case sortCollections acts of
     Inl e \<Rightarrow> \<exists>v \<in> set acts. \<not> has_fields v
   | Inr rows \<Rightarrow> (\<forall>v \<in> set acts. has_fields v) \<and>
       (\<forall>r \<in> set rows. row_count r = length (filter (\<lambda>v. address_key v = js_string (row_address r)) acts) \<and> 0 < row_count r) \<and>
       distinct (map (js_string \<circ> row_address) rows) \<and> (js_string \<circ> row_address) ` set rows = address_key ` set acts \<and>
       sum_list (map row_count rows) = length acts"
proof (cases "list_all has_fields acts")
  case True
  then have "sortCollections acts = Inr (collection_rows acts)" "\<forall>v \<in> set acts. has_fields v"
    by (simp_all add: sortCollections_def list_all_iff)
  with rows_counted [of acts] show ?thesis by (simp only: sum.case) blast
next
  case False
  then show ?thesis by (auto simp: sortCollections_def list_all_iff)
qed

definition demo_activities :: "val list" where
  "demo_activities = map (\<lambda>a. Obj [(''collection_address'', Str a)]) [''0xa'', ''0xb'', ''0xa'']"

theorem collections_counted_witness:
  "\<exists>rows. sortCollections demo_activities = Inr rows \<and> sum_list (map row_count rows) = 3 \<and>
     (\<exists>r \<in> set rows. js_string (row_address r) = ''0xa'' \<and> row_count r = 2)"
proof -
  have "list_all has_fields demo_activities" by (simp add: demo_activities_def has_fields_def)
  then obtain rows where rows: "sortCollections demo_activities = Inr rows" by (simp add: sortCollections_def)
  note c = collections_counted [of demo_activities, unfolded rows sum.case]
  have "''0xa'' \<in> (js_string \<circ> row_address) ` set rows"
    using c by (simp add: demo_activities_def address_key_def opt_member_def)
  then obtain r where "r \<in> set rows" "js_string (row_address r) = ''0xa''" by auto
  moreover from this c have "row_count r = 2" by (simp add: demo_activities_def address_key_def opt_member_def)
  moreover have "sum_list (map row_count rows) = 3" using c by (simp add: demo_activities_def)
  ultimately show ?thesis using rows by blast
qed

text \<open>Chance decides the rarity of an item with the probabilities of the table: each level has the interval that begins where the
  ones before it end, and every value of \<open>Math.random\<close> falls into one.\<close>

theorem rarity_by_probability:
  assumes "0 \<le> x" and "x < 1"
  shows "\<exists>i < length rarityLevels. getRandomRarity x = rarityLevels ! i \<and>
    (i = 0 \<or> sum_list (map probability (take i rarityLevels)) / 100 < x) \<and> x \<le> sum_list (map probability (take (Suc i) rarityLevels)) / 100"
proof -
  consider "x \<le> 1 / 2" | "1 / 2 < x \<and> x \<le> 3 / 4" | "3 / 4 < x \<and> x \<le> 9 / 10" | "9 / 10 < x \<and> x \<le> 97 / 100"
    | "97 / 100 < x \<and> x \<le> 199 / 200" | "199 / 200 < x" by linarith
  then show ?thesis
  proof cases
    case 1 then show ?thesis by (intro exI [of _ 0]) (simp add: getRandomRarity_def rarityLevels_def)
  next
    case 2 then show ?thesis by (intro exI [of _ 1]) (simp add: getRandomRarity_def rarityLevels_def)
  next
    case 3 then show ?thesis by (intro exI [of _ 2]) (simp add: getRandomRarity_def rarityLevels_def)
  next
    case 4 then show ?thesis by (intro exI [of _ 3]) (simp add: getRandomRarity_def rarityLevels_def numeral_eq_Suc)
  next
    case 5 then show ?thesis by (intro exI [of _ 4]) (simp add: getRandomRarity_def rarityLevels_def numeral_eq_Suc)
  next
    case 6 then show ?thesis using assms by (intro exI [of _ 5]) (simp add: getRandomRarity_def rarityLevels_def numeral_eq_Suc)
  qed
qed

theorem rarity_by_probability_witness:
  "\<exists>i < length rarityLevels. getRandomRarity (4 / 5) = rarityLevels ! i \<and>
    (i = 0 \<or> sum_list (map probability (take i rarityLevels)) / 100 < 4 / 5) \<and>
    4 / 5 \<le> sum_list (map probability (take (Suc i) rarityLevels)) / 100"
  using rarity_by_probability [of "4 / 5"] by simp

text \<open>An amount in wei is divided by \<open>1e16\<close> and called ETH: what is shown is a hundred times the amount.\<close>

theorem price_shown_hundredfold:
  "\<exists>s. weiToEth (Str (show_nat w)) = Inr (s @ ''ETH'') \<and> number_of_string s = Some (rounded 2 (100 * (of_nat w / 10 ^ 18)))"
proof -
  have "number_of_string (show_nat w) = Some (of_nat w)"
    using to_number_js_string [of "of_nat w"] by (simp only: js_string_nat) (simp add: decimal_Ints)
  moreover obtain s where "toFixed (Some (of_nat w / 10 ^ 16)) 2 = Inr s" "number_of_string s = Some (rounded 2 (of_nat w / 10 ^ 16))"
    using toFixed_value [of "of_nat w / 10 ^ 16" 2] by auto
  ultimately show ?thesis by (simp add: weiToEth_def nullish_def)
qed

text \<open>What happened less than a minute ago is said to be as many seconds ago as its time stamp counts since 1970.\<close>

theorem recent_is_long_ago:
  assumes "0 \<le> now - t * 1000" and "now - t * 1000 < 60000"
  shows "formatTime now t = js_string (Num t) @ ago [CHR 0xE7, CHR 0xA7, CHR 0x92]"
proof -
  have z: "\<lfloor>(now - t * 1000) / k\<rfloor> = 0" if "60000 \<le> k" for k :: rat
    using assms that by (intro floor_unique) (simp_all add: pos_divide_less_eq)
  show ?thesis
    unfolding formatTime_def Let_def z [of "1000 * 60 * 60 * 24", simplified] z [of "1000 * 60 * 60", simplified]
      z [of "1000 * 60", simplified] by (simp add: z)
qed

theorem recent_is_long_ago_witness: "formatTime 1700000003000 1700000000 = js_string (Num 1700000000) @ ago [CHR 0xE7, CHR 0xA7, CHR 0x92]"
  using recent_is_long_ago [of 1700000003000 1700000000] by simp

section \<open>From the list to the page of a collection\<close>

lemma address_path:
  "list_all (\<lambda>c. name_char c \<and> c \<noteq> CHR ''/'') a \<Longrightarrow> after_last (CHR ''/'') (''/collections/'' @ encodeURIComponent a) = a"
proof -
  assume a: "list_all (\<lambda>c. name_char c \<and> c \<noteq> CHR ''/'') a"
  then have e: "encodeURIComponent a = a"
    by (induction a) (simp_all add: encodeURIComponent_def Let_def)
  have "takeWhile (\<lambda>c. c \<noteq> CHR ''/'') (rev a @ CHR ''/'' # s) = rev a" for s
    using a by (subst takeWhile_append2) (auto simp: list_all_iff)
  then show ?thesis by (simp add: after_last_def e)
qed

text \<open>A click on a row of the list opens the page of that collection: both requests of the page ask for the collection clicked,
  on its chain.\<close>

theorem clicked_collection_asked:
  assumes "get ''address'' collection = Str a" and "list_all (\<lambda>c. name_char c \<and> c \<noteq> CHR ''/'') a"
  shows "let (g', path) = row_clicked json collection g in collection_mounted json path g' =
    [GetCollectionDetail [(''address'', Str a), (''chain_id'', get ''chain_id'' collection)],
     GetCollectionItems json [(''address'', Str a), (''filters'', Obj [(''sort'', Num 1), (''status'', Arr [Num 1, Num 2]), (''markets'', Arr []),
        (''user_address'', get ''user_address'' (rendered_state g)), (''chain_id'', get ''chain_id'' collection), (''page'', Num 1),
        (''page_size'', Num 20)])]]"
  using address_path [OF assms(2)]
  by (simp add: row_clicked_def collection_mounted_def detail_request_def items_request_def assms(1) setState_def rendered_state_def
      spread_def get_put Let_def)

definition demo_collection :: obj where
  "demo_collection = [(''chain_id'', Num 10), (''address'', Str ''0xabc'')]"

definition empty_state :: global_state where
  "empty_state = \<lparr>saved = None, cached = None\<rparr>"

theorem clicked_collection_asked_witness:
  "let (g', path) = row_clicked js_string demo_collection empty_state in collection_mounted js_string path g' =
    [GetCollectionDetail [(''address'', Str ''0xabc''), (''chain_id'', get ''chain_id'' demo_collection)],
     GetCollectionItems js_string [(''address'', Str ''0xabc''), (''filters'', Obj [(''sort'', Num 1), (''status'', Arr [Num 1, Num 2]),
        (''markets'', Arr []), (''user_address'', get ''user_address'' (rendered_state empty_state)), (''chain_id'', get ''chain_id'' demo_collection),
        (''page'', Num 1), (''page_size'', Num 20)])]]"
  by (rule clicked_collection_asked) (simp_all add: demo_collection_def name_char_def is_digit_def Let_def)

text \<open>A page opened by its address asks for the items of whatever collection was clicked last.\<close>

theorem opened_link_asks_other:
  assumes "get ''collection_address'' (rendered_state g) \<noteq> Str (after_last (CHR ''/'') path)"
  shows "\<exists>other chain fs. collection_mounted json path g = [GetCollectionDetail [(''address'', Str (after_last (CHR ''/'') path)), (''chain_id'', chain)],
    GetCollectionItems json [(''address'', other), (''filters'', fs)]] \<and> other \<noteq> Str (after_last (CHR ''/'') path)"
  using assms by (auto simp: collection_mounted_def detail_request_def items_request_def)

theorem opened_link_asks_other_witness:
  "\<exists>other chain fs. collection_mounted js_string ''/collections/0xabc'' empty_state =
      [GetCollectionDetail [(''address'', Str (after_last (CHR ''/'') ''/collections/0xabc'')), (''chain_id'', chain)],
       GetCollectionItems js_string [(''address'', other), (''filters'', fs)]] \<and>
    other \<noteq> Str (after_last (CHR ''/'') ''/collections/0xabc'')"
  by (rule opened_link_asks_other) (simp add: empty_state_def rendered_state_def initialState_def after_last_def)

text \<open>A request that is rejected leaves the page loading.\<close>

lemma rejected_keeps_loading: "ap_loading (activity_answered c (Inl e) (getActivity json p))"
  by (simp add: activity_answered_def getActivity_def)

end
