(* ===== verification/Spec2Isabelle.thy ===== *)
theory Spec2Isabelle
  imports Parser_Props Withdrawal_Props Nova_Store_Props Nova_Config Nova_Client Nova_Scripts_Props
    Hardhat_Props Market_Scripts Staking_Client Gulp_Build Evm_Checksum
    Trade_Props Trade_Prices Trade_Views Exchange_Account Stake_Watch Token_Clients
    Nova_Util Stake_Pages Project_Page Bridge_Page Login_Modal Candle_Chart Chart_Feed
    Chain_Search Wallet_Hooks Wallet_Session Order_Form
    Account_Pages Order_Pages Order_Text Poc_Scripts Market_Orders Pool_Views Market_Pages
begin

text \<open>
  A verification library for the JavaScript and TypeScript programs of the \<open>dapp-projects\<close> repository. The
  repository collects independent projects; the development models the hand-written code of each.

  \<^bold>\<open>Parts of the program and the theories that model them.\<close>

  \<^item> \<open>blockchain-parser/src\<close>: a service that scans blocks into a ledger and pays withdrawals out of a hot
    wallet. \<open>Chain_Store\<close> holds its data (the entities \<open>Account\<close>, \<open>Transaction\<close>, \<open>Withdrawal\<close>, \<open>config.js\<close>)
    and its interface to PostgreSQL through TypeORM, Redis and the node: the record \<open>env\<close> of the calls, the
    tables \<open>db\<close> they act on, the locale \<open>ledger\<close> of the laws (every call may throw; it then changes nothing, but a transfer that throws may have been broadcast)
    and \<open>steady_ledger\<close> (the calls that do not throw). \<open>Block_Parser\<close> is \<open>blockchainParser.js\<close> and \<open>redis.js\<close>,
    one definition per method; \<open>Withdrawals\<close> is \<open>withdrawalService.js\<close> and \<open>app.js\<close>. A withdrawal is a
    mutable object that outlives the call that throws, so the methods run in a \<open>session\<close> of object and world.
  \<^item> \<open>NovaLaunch/nova-fe\<close>: the front end of the launchpad. \<open>Nova_Store\<close> is its redux store (\<open>redux/modules\<close>,
    \<open>reducer.js\<close>, \<open>clientMiddleware.js\<close>), \<open>Nova_Client\<close> is \<open>api/axios.js\<close>, \<open>util/throttle.js\<close> and
    \<open>scripts/generate-sprite.js\<close>, \<open>Nova_Config\<close> the tables of \<open>config\<close> and \<open>next.config.js\<close>. Untyped values
    are \<open>val\<close> of \<open>Js_Values\<close>, objects association lists. \<open>Nova_Util\<close> is \<open>util/index.ts\<close> (amounts, dates,
    hexadecimal), with ethers as the record \<open>ethers\<close> and its laws as the locale \<open>units\<close>. The pages run over the
    record \<open>page_env\<close> of \<open>Page_Env\<close> (React's setters, antd's messages and the handlers of \<open>useErrorHandler.ts\<close>
    and \<open>useMessage.ts\<close>): \<open>Stake_Pages\<close> is \<open>hooks/useStake.ts\<close> with \<open>StakingForm.tsx\<close> and \<open>FarmingForm.tsx\<close>,
    \<open>Project_Page\<close> is \<open>pages/project.tsx\<close>, \<open>Bridge_Page\<close> is \<open>hooks/useBridge.ts\<close> with \<open>BridgeForm.tsx\<close>. \<open>Login_Modal\<close> is
    \<open>hooks/useLoginModal.tsx\<close>, the registration dialog, as a step function over inputs, clicks and answers, with its
    regular expressions (\<open>Js_Regex\<close>). \<open>Chain_Table\<close> is the table of chains \<open>util/chain_id.ts\<close>, \<open>Chain_Search\<close> its
    searches (\<open>util/getRpcUrl.ts\<close>, \<open>util/wallet.ts\<close>), \<open>Wallet_Hooks\<close> is \<open>hooks/useWallet.ts\<close> with the buttons that use
    it, over the two slices of the store, the local storage and the requests to the wallet; \<open>Wallet_Session\<close> is
    \<open>hooks/useAuth.ts\<close> and the choice of a connector, across reloads of the page. \<open>Pool_Views\<close>
    is the rest of the pages: the cards with their countdowns, the lists, the dialog of the purchase, the banner, \<open>_app.tsx\<close> and
    the small hooks. What a
    handler reads of the page is the record of the rendering it belongs to; what it does is the list of the
    setters called, messages shown and transactions and requests sent.
  \<^item> \<open>NovaLaunch/nova-contracts/scripts\<close> (\<open>Nova_Scripts\<close>), \<open>my-hardhat-project\<close> (\<open>Hardhat_Scripts\<close>) and
    \<open>NFTMarketplace/EasySwapContract/scripts\<close> (\<open>Market_Scripts\<close>): deployment scripts over one interface,
    \<open>Script_Env\<close>, whose abstract state is the list of transactions sent and the files.
  \<^item> \<open>contracts-interaction-ts/src\<close>: the staking client \<open>index.js\<close> (\<open>Staking_Client\<close>), the event listener
    \<open>watchMyStake.ts\<close> (\<open>Stake_Watch\<close>: connections, listeners and the reconnection as a state machine whose
    steps are provider errors and the interrupt), the airdrop \<open>batchTransfer.ts\<close> and the transfers
    \<open>transferERC20AndBNB.ts\<close> (\<open>Token_Clients\<close>, over the record \<open>token_env\<close> of contracts, node and wallet; the
    abstract state is the list of transactions sent).
  \<^item> \<open>cex/gitbitex-web/src/script\<close>: the web client of the exchange. \<open>Web_Socket\<close> is \<open>service/websocket.ts\<close>
    and \<open>store/buffer.ts\<close>: a socket state with every socket ever opened, the wire, and a step per event
    (opened, message, closed, timer). \<open>Trade_Store\<close> is \<open>store/trade.ts\<close> and \<open>app.ts\<close>: its record extends the
    socket state with the products, the objects per product, the funds and the three message buffers; a
    mutation of Vuex is a function of that state, a method an \<open>io\<close> over it. \<open>Exchange_Account\<close> is
    \<open>store/account.ts\<close>, the interceptors of \<open>service/request.ts\<close> and the requests of the services;
    \<open>Trade_Views\<close> is \<open>helper.ts\<close>, the order book panel, the depth chart and the two forms. \<open>Candle_Chart\<close>
    is \<open>component/chart/candle/candle.ts\<close>, \<open>Chart_Feed\<close> is \<open>chart/datafeed.ts\<close>: its pulse is a step function
    over the subscriptions, the pending requests and what was delivered. \<open>Order_Form\<close> is the order form with Vue's queue
    of watchers, which couple size, price and total. \<open>Account_Pages\<close> is \<open>page/page.ts\<close> with the pages under
    \<open>page/account\<close> and the dialog of the password: a page extends the record \<open>page\<close>, which holds the client, the
    address and the modal. \<open>Order_Pages\<close> is the page of the orders (its selections, turns and answers as events of a
    step function), the trade page with its listeners over a tab, and what the lists, the header and the
    dialogs compute.
  \<^item> \<open>rwa/rwa-contract/script\<close>: \<open>Order_Text\<close> is \<open>parsers\<close>, which turns transactions, events and errors into text
    (numbers are doubles, \<open>to_double\<close> of \<open>Js_Doubles\<close>), \<open>Poc_Scripts\<close> the scripts of \<open>poc\<close> over the record \<open>kit_env\<close>; what a script
    does is the list of the transactions it sends (\<open>poc_op\<close>).
  \<^item> \<open>NFTMarketplace/frontend\<close>: \<open>Market_Orders\<close> is \<open>contracts/service/orderBookContract.ts\<close>, the requests of \<open>api\<close>
    and \<open>hooks/useGlobalState.ts\<close>; the contract is the record \<open>book_env\<close> with the laws of the locale \<open>order_book\<close>.
    \<open>Market_Pages\<close> is the page of the activities and the pages of the collections, over those requests and that state.
  \<^item> \<open>cex/gitbitex-web\<close>'s Gulp build (\<open>Gulp_Build\<close>) and the address checksum of \<open>EasySwapBase/evm/eip/eip.js\<close>
    (\<open>Evm_Checksum\<close>).

  \<^bold>\<open>Shape of the model.\<close> An asynchronous function is a function from a world to a thrown error or a value
  and the world after it (\<open>Js_Prelude.io\<close>); effects before a throw stay. \<open>try/catch\<close>, \<open>finally\<close>, loops and
  early returns are combinators with Hoare rules. \<open>Effects\<close> names the shapes of the laws an interface may
  have (\<open>silent\<close>, \<open>reading\<close>, \<open>writing\<close>, \<open>effect\<close>, \<open>moving\<close>) with a rule for each: \<open>runs\<close> executes a program
  from a known abstract state, \<open>keeps\<close> carries an invariant through it. Every locale is interpreted on an
  in-memory implementation whose calls can be made to fail by a fault plan, and the witnesses run on it.

  \<^bold>\<open>What the groups of lemmas show.\<close> \<open>Parser_Spec\<close> gives the ledger operation that each method of the parser
  implements (\<open>bnb_spec\<close>, \<open>erc20_spec\<close>, \<open>tx_spec\<close>, \<open>block_spec\<close>) and the refinement, call by call;
  \<open>Parser_Faults\<close> what remains true when calls fail; \<open>Parser_Money\<close> the sums of the amounts and the
  rounding of the columns. \<open>Withdrawal_Spec\<close> shows what one pass may send and write. \<open>Trade_Book\<close> gives the
  depth of a book as a map from prices and shows that \<open>updateOrderBook\<close> refines the updates applied one by
  one; \<open>Message_Buffer\<close> is the contract of a buffer (the locales \<open>message_buffer\<close> and \<open>refining_buffer\<close>:
  what is delivered is what was pushed, in order, however pushes and ticks interleave), interpreted in
  \<open>Trade_Props\<close> on the book and on the funds. \<open>book_follows_feed\<close> is about feeds that spell every price the way \<open>String\<close> prints
  the number; \<open>Trade_Prices\<close> interprets the same contract at one price and needs that spelling only there, as a back end that
  keeps trailing zeros makes necessary. \<open>Trade_History\<close> has the shape of the store and what keeps it,
  \<open>Socket_Props\<close> what a reconnection sends. The properties stand in these and the \<open>_Props\<close> theories, each
  with a witness when it has hypotheses.

  \<^bold>\<open>Bounds.\<close> Loops over lists are structural recursions and need no fuel. The scan of blocks is a loop over
  the finite range from the pointer to the confirmed block. Amounts are rational numbers; a column rounds
  to its scale when it is written (\<open>cast_round\<close> half away from zero, as PostgreSQL casts). Solidity integers
  passed to contracts are unbounded integers, as \<open>bigint\<close> values are. In the web client a number is a
  rational or \<open>NaN\<close> (\<open>Js_Numbers\<close>, its literals \<open>Js_Literals\<close>): exact for decimals of at most 15 significant digits; a number
  prints with at most 20 decimals. Where binary rounding shows, in the amounts of the launchpad (\<open>Nova_Util.formatUnits\<close>), the
  product of the purchase dialog and the texts of the order contract, numbers go through \<open>to_double\<close>, and the bounds
  of the properties contain its error; the sums and quotients of the other pages are exact. The airdrop's loop ends by a measure, the ten reconnections are a recursion on the
  attempts left, the gaps of the candle chart are filled by a
  loop that is proved to end for every positive granularity, the queue of watchers of the order form runs until it
  is empty and ends by the measure \<open>work\<close>.

  \<^bold>\<open>Not modelled.\<close> Expiry of Redis keys (a key lives until it is deleted; a lock that expires while a
  transaction is being processed is outside the model). The precision of 36 digits of the columns. JSON
  files are modelled by their parsed values. Log output, except where printing throws. Infinite numbers (a
  division by a price of 0 gives \<open>NaN\<close>), infinite settings, and the
  rounding of binary fractions other than where \<open>to_double\<close> is used. Other actors: while the staking client runs, nobody else
  stakes or withdraws and no stake expires (\<open>staking_chain\<close>); a database call that throws has changed nothing. Of the web client: the
  templates and the components that only pass on properties, the
  drawing of the charts and \<open>SymbolsStorage\<close> of the data feed, which reads fields that nothing sets. Of the
  pages of the launchpad: the markup and the values computed only to be shown; React's scheduling of renderings
  (a handler runs over the rendering that created it). React and Vue pages are user interface. Go, Java and Solidity code, generated bundles, ABIs, styles and
  tests are not part of this development.
\<close>

end
